(* ===== verification/Prelude.thy ===== *)
theory Prelude
  imports Complex_Main "HOL-Library.Word" "HOL-Library.Log_Nat"
begin

section \<open>Prelude: Go machine integers, times, durations and strings\<close>

text \<open>
  What every component of the development shares: the 64-bit wrap-around and truncating
  division of Go's \<^verbatim>\<open>int\<close>, the \<^verbatim>\<open>time.Time\<close> and \<^verbatim>\<open>time.Duration\<close> arithmetic the
  cache and the poll loop use, bit tests on flag words, the ASCII part of
  \<^verbatim>\<open>strings.ToLower\<close> and \<^verbatim>\<open>strings.EqualFold\<close>, and the theorem collections the
  component proofs unfold.

  An \<^verbatim>\<open>int\<close> or \<^verbatim>\<open>int64\<close> of the source is an \<^typ>\<open>int\<close> here; where the source's
  arithmetic can overflow the wrap-around is written out with \<open>wrap64\<close>. A
  \<^verbatim>\<open>time.Time\<close> is the number of nanoseconds since Go's zero time (1 January of year 1), so
  \<^verbatim>\<open>IsZero\<close> is equality with 0; a \<^verbatim>\<open>time.Duration\<close> is an \<^verbatim>\<open>int64\<close> of nanoseconds.
\<close>

unbundle bit_operations_syntax

named_theorems go_simps \<open>definitions of Go's integer, time and string operations\<close>
named_theorems cache_defs \<open>definitions of the merged cache\<close>
named_theorems poll_defs \<open>definitions of the poll loop\<close>
named_theorems fleet_defs \<open>definitions of the Tesla Fleet mappings\<close>

subsection \<open>Machine integers\<close>

definition wrap64 :: "int \<Rightarrow> int" where
  "wrap64 x = (x + 2 ^ 63) mod 2 ^ 64 - 2 ^ 63"

definition minInt64 :: int where
  "minInt64 = - (2 ^ 63)"

definition maxInt64 :: int where
  "maxInt64 = 2 ^ 63 - 1"

definition in_int64 :: "int \<Rightarrow> bool" where
  "in_int64 x \<longleftrightarrow> minInt64 \<le> x \<and> x \<le> maxInt64"

definition go_quot :: "int \<Rightarrow> int \<Rightarrow> int" where
  "go_quot a b = sgn a * sgn b * (\<bar>a\<bar> div \<bar>b\<bar>)"

definition go_rem :: "int \<Rightarrow> int \<Rightarrow> int" where
  "go_rem a b = a - b * go_quot a b"

lemma wrap64_range: "in_int64 (wrap64 x)"
proof -
  have "0 \<le> (x + 2 ^ 63) mod 2 ^ 64" and "(x + 2 ^ 63) mod 2 ^ 64 < 2 ^ 64"
    by simp_all
  then show ?thesis
    by (simp add: in_int64_def wrap64_def minInt64_def maxInt64_def)
qed

lemma wrap64_id [simp]: "in_int64 x \<Longrightarrow> wrap64 x = x"
  by (simp add: in_int64_def wrap64_def minInt64_def maxInt64_def)

lemma go_quot_nonneg: "0 \<le> a \<Longrightarrow> 0 < b \<Longrightarrow> go_quot a b = a div b"
  by (cases "a = 0") (simp_all add: go_quot_def)

lemma go_rem_nonneg: "0 \<le> a \<Longrightarrow> 0 < b \<Longrightarrow> go_rem a b = a mod b"
  by (simp add: go_rem_def go_quot_nonneg minus_mult_div_eq_mod)

subsection \<open>Times and durations\<close>

type_synonym gotime = int
type_synonym duration = int

abbreviation Microsecond :: duration where "Microsecond \<equiv> 1000"
abbreviation Millisecond :: duration where "Millisecond \<equiv> 1000000"
abbreviation Second :: duration where "Second \<equiv> 1000000000"
abbreviation Minute :: duration where "Minute \<equiv> 60000000000"
abbreviation Hour :: duration where "Hour \<equiv> 3600000000000"

abbreviation is_zero_time :: "gotime \<Rightarrow> bool" where
  "is_zero_time t \<equiv> t = 0"

text \<open>\<^verbatim>\<open>t.Sub(u)\<close> saturates at the bounds of \<^verbatim>\<open>Duration\<close>; \<^verbatim>\<open>t.After(u)\<close> is \<open>u < t\<close>.\<close>

definition time_sub :: "gotime \<Rightarrow> gotime \<Rightarrow> duration" where
  "time_sub t u = max minInt64 (min maxInt64 (t - u))"

lemma time_sub_exact: "in_int64 (t - u) \<Longrightarrow> time_sub t u = t - u"
  by (simp add: time_sub_def in_int64_def)

lemma time_sub_self [simp]: "time_sub t t = 0"
  by (simp add: time_sub_def minInt64_def maxInt64_def)

lemma time_sub_range: "in_int64 (time_sub t u)"
  by (simp add: time_sub_def in_int64_def minInt64_def maxInt64_def)

lemma time_sub_mono: "t \<le> t' \<Longrightarrow> time_sub t u \<le> time_sub t' u"
  by (simp add: time_sub_def)

lemma time_sub_less_iff:
  "minInt64 < d \<Longrightarrow> d \<le> maxInt64 \<Longrightarrow> time_sub t u < d \<longleftrightarrow> t - u < d"
  by (auto simp: time_sub_def)

lemma time_sub_greater_iff:
  "minInt64 \<le> d \<Longrightarrow> d < maxInt64 \<Longrightarrow> d < time_sub t u \<longleftrightarrow> d < t - u"
  by (auto simp: time_sub_def)

text \<open>
  The Unix epoch in nanoseconds since Go's zero time, and \<^verbatim>\<open>UnixMilli\<close>, which rounds
  towards the past (\<^verbatim>\<open>unixSec * 1e3 + nsec / 1e6\<close> with a non-negative \<^verbatim>\<open>nsec\<close>).
\<close>

definition unixEpoch :: gotime where
  "unixEpoch = 62135596800 * Second"

definition unixMilli :: "gotime \<Rightarrow> int" where
  "unixMilli t = (t - unixEpoch) div Millisecond"

definition fromUnixMilli :: "int \<Rightarrow> gotime" where
  "fromUnixMilli ms = unixEpoch + ms * Millisecond"

definition fromUnixSec :: "int \<Rightarrow> gotime" where
  "fromUnixSec s = unixEpoch + s * Second"

lemma unixMilli_mono: "t \<le> u \<Longrightarrow> unixMilli t \<le> unixMilli u"
  by (simp add: unixMilli_def zdiv_mono1)

lemma unixMilli_fromUnixMilli [simp]: "unixMilli (fromUnixMilli ms) = ms"
  by (simp add: unixMilli_def fromUnixMilli_def)

subsection \<open>Flag words\<close>

abbreviation has_bit :: "32 word \<Rightarrow> 32 word \<Rightarrow> bool" where
  "has_bit present b \<equiv> present AND b \<noteq> 0"

lemma has_bit_push_bit:
  fixes w :: "32 word"
  assumes "n < 32"
  shows "has_bit w (push_bit n 1) \<longleftrightarrow> bit w n"
  using bit_iff_and_push_bit_not_eq_0 [of w n] assms by simp

lemma has_bit_or:
  fixes a b c :: "32 word"
  shows "has_bit (a OR b) c \<longleftrightarrow> has_bit a c \<or> has_bit b c"
  by (auto simp: bit_eq_iff bit_and_iff bit_or_iff)

lemma has_bit_clear:
  fixes a b c :: "32 word"
  shows "has_bit (a AND NOT b) c \<Longrightarrow> has_bit a c"
  by (auto simp: bit_eq_iff bit_and_iff bit_not_iff)

lemma has_bit_clear_disjoint:
  fixes a b c :: "32 word"
  assumes "b AND c = 0"
  shows "has_bit (a AND NOT b) c \<longleftrightarrow> has_bit a c"
proof -
  have "(a AND NOT b) AND c = a AND c"
    using assms by (auto simp: bit_eq_iff bit_and_iff bit_not_iff)
  then show ?thesis by simp
qed

lemma has_bit_clear_self:
  fixes a b :: "32 word"
  shows "\<not> has_bit (a AND NOT b) b"
  by (auto simp: bit_eq_iff bit_and_iff bit_not_iff)

lemma has_bit_zero [simp]: "\<not> has_bit 0 b"
  by simp

subsection \<open>Strings\<close>

text \<open>
  The source folds case only to compare a status word with ASCII literals. The model folds
  the ASCII letters, which is what \<^verbatim>\<open>strings.ToLower\<close> and \<^verbatim>\<open>strings.EqualFold\<close> do on ASCII
  text; a \<^typ>\<open>string\<close> is the list of the bytes of the Go string.
\<close>

definition to_lower_char :: "char \<Rightarrow> char" where
  "to_lower_char c =
     (let n = of_char c :: nat in if 65 \<le> n \<and> n \<le> 90 then char_of (n + 32) else c)"

definition to_lower :: "string \<Rightarrow> string" where
  "to_lower s = map to_lower_char s"

definition equal_fold :: "string \<Rightarrow> string \<Rightarrow> bool" where
  "equal_fold s t \<longleftrightarrow> to_lower s = to_lower t"

fun trim_prefix :: "string \<Rightarrow> string \<Rightarrow> string" where
  "trim_prefix p s = (if take (length p) s = p then drop (length p) s else s)"

lemmas [go_simps] = wrap64_def go_quot_def go_rem_def time_sub_def minInt64_def maxInt64_def
  to_lower_char_def to_lower_def equal_fold_def

subsection \<open>Lists\<close>

lemma list_all_filter_sub: "list_all P xs \<Longrightarrow> list_all P (filter Q xs)"
  by (induction xs) auto

lemma drop_excess_length:
  "length (if d < length xs then drop (length xs - d) xs else xs) \<le> max d 0"
  by simp

end
