(* ===== verification/GoFloat.thy ===== *)
theory GoFloat
  imports Prelude
begin

section \<open>IEEE 754 double precision as Go's float64\<close>

text \<open>
  Go's \<^verbatim>\<open>float64\<close> arithmetic, with the rounding written out: a finite value is the real
  it denotes, every operation computes the exact real result and rounds it to the nearest
  representable double, ties to even (\<open>round64\<close>), overflowing to an infinity; NaN is
  unordered and unequal to everything. The one thing left out is the sign of zero: the two
  zeros are one value here, which no comparison, conversion or product of the source can
  tell apart (the source never divides by a computed value that can be zero).

  Conversions follow the language: \<^verbatim>\<open>float64(n)\<close> rounds, \<^verbatim>\<open>int(f)\<close> truncates towards zero,
  and for a value out of range, where Go leaves the result to the implementation, it gives
  what the amd64 instruction gives, the least 64-bit integer.
\<close>

datatype f64 = Fin real | PInf | NInf | NaN

subsection \<open>Rounding\<close>

definition rne :: "real \<Rightarrow> int" where
  "rne x = (let n = \<lfloor>x\<rfloor>; d = x - of_int n in
     if d < 1 / 2 then n else if 1 / 2 < d then n + 1 else if even n then n else n + 1)"

definition ilog2 :: "real \<Rightarrow> int" where
  "ilog2 x = (if 1 \<le> x then int (floorlog 2 (nat \<lfloor>x\<rfloor>)) - 1
     else - int (floorlog 2 (nat (\<lceil>1 / x\<rceil> - 1))))"

definition ulp_exp :: "real \<Rightarrow> int" where
  "ulp_exp x = max (ilog2 \<bar>x\<bar> - 52) (- 1074)"

definition round64 :: "real \<Rightarrow> f64" where
  "round64 x =
     (if x = 0 then Fin 0
      else let u = 2 powi ulp_exp x; r = of_int (rne (x / u)) * u in
        if 2 ^ 1024 \<le> \<bar>r\<bar> then (if 0 < x then PInf else NInf) else Fin r)"

subsection \<open>Arithmetic\<close>

fun fneg :: "f64 \<Rightarrow> f64" where
  "fneg (Fin x) = Fin (- x)"
| "fneg PInf = NInf"
| "fneg NInf = PInf"
| "fneg NaN = NaN"

fun fadd :: "f64 \<Rightarrow> f64 \<Rightarrow> f64" where
  "fadd (Fin x) (Fin y) = round64 (x + y)"
| "fadd NaN _ = NaN"
| "fadd _ NaN = NaN"
| "fadd PInf NInf = NaN"
| "fadd NInf PInf = NaN"
| "fadd PInf _ = PInf"
| "fadd _ PInf = PInf"
| "fadd NInf _ = NInf"
| "fadd _ NInf = NInf"

definition fsub :: "f64 \<Rightarrow> f64 \<Rightarrow> f64" where
  "fsub x y = fadd x (fneg y)"

definition finf :: "real \<Rightarrow> f64" where
  "finf s = (if 0 < s then PInf else if s < 0 then NInf else NaN)"

fun fmul :: "f64 \<Rightarrow> f64 \<Rightarrow> f64" where
  "fmul (Fin x) (Fin y) = round64 (x * y)"
| "fmul NaN _ = NaN"
| "fmul _ NaN = NaN"
| "fmul (Fin x) PInf = finf x"
| "fmul (Fin x) NInf = finf (- x)"
| "fmul PInf (Fin y) = finf y"
| "fmul NInf (Fin y) = finf (- y)"
| "fmul PInf PInf = PInf"
| "fmul NInf NInf = PInf"
| "fmul PInf NInf = NInf"
| "fmul NInf PInf = NInf"

fun fdiv :: "f64 \<Rightarrow> f64 \<Rightarrow> f64" where
  "fdiv (Fin x) (Fin y) = (if y = 0 then finf x else round64 (x / y))"
| "fdiv NaN _ = NaN"
| "fdiv _ NaN = NaN"
| "fdiv (Fin x) _ = Fin 0"
| "fdiv PInf (Fin y) = (if 0 \<le> y then PInf else NInf)"
| "fdiv NInf (Fin y) = (if 0 \<le> y then NInf else PInf)"
| "fdiv _ _ = NaN"

subsection \<open>Comparisons\<close>

fun flt :: "f64 \<Rightarrow> f64 \<Rightarrow> bool" where
  "flt (Fin x) (Fin y) = (x < y)"
| "flt NaN _ = False"
| "flt _ NaN = False"
| "flt NInf NInf = False"
| "flt NInf _ = True"
| "flt PInf _ = False"
| "flt (Fin _) PInf = True"
| "flt (Fin _) NInf = False"

fun feq :: "f64 \<Rightarrow> f64 \<Rightarrow> bool" where
  "feq NaN _ = False"
| "feq _ NaN = False"
| "feq x y = (x = y)"

definition fle :: "f64 \<Rightarrow> f64 \<Rightarrow> bool" where
  "fle x y \<longleftrightarrow> flt x y \<or> feq x y"

abbreviation fne :: "f64 \<Rightarrow> f64 \<Rightarrow> bool" where
  "fne x y \<equiv> \<not> feq x y"

abbreviation fzero :: f64 where
  "fzero \<equiv> Fin 0"

subsection \<open>Conversions\<close>

definition trunc :: "real \<Rightarrow> int" where
  "trunc x = (if 0 \<le> x then \<lfloor>x\<rfloor> else \<lceil>x\<rceil>)"

definition round_half_away :: "real \<Rightarrow> int" where
  "round_half_away x = (if 0 \<le> x then \<lfloor>x + 1 / 2\<rfloor> else \<lceil>x - 1 / 2\<rceil>)"

fun math_round :: "f64 \<Rightarrow> f64" where
  "math_round (Fin x) = Fin (of_int (round_half_away x))"
| "math_round x = x"

fun f2i :: "f64 \<Rightarrow> int" where
  "f2i (Fin x) = (if in_int64 (trunc x) then trunc x else minInt64)"
| "f2i _ = minInt64"

definition i2f :: "int \<Rightarrow> f64" where
  "i2f n = round64 (of_int n)"

text \<open>A source constant is converted to \<^verbatim>\<open>float64\<close> once, by the compiler.\<close>

abbreviation fconst :: "real \<Rightarrow> f64" where
  "fconst \<equiv> round64"

text \<open>\<^verbatim>\<open>Duration.Seconds()\<close>: whole seconds plus the nanoseconds over 1e9.\<close>

definition duration_seconds :: "duration \<Rightarrow> f64" where
  "duration_seconds d =
     fadd (i2f (go_quot d Second)) (fdiv (i2f (go_rem d Second)) (fconst 1000000000))"

text \<open>
  The elementary functions of \<^verbatim>\<open>math\<close>, as the correctly rounded value of the real function;
  at an infinity the trigonometric ones are NaN.
\<close>

fun math_sin :: "f64 \<Rightarrow> f64" where
  "math_sin (Fin x) = round64 (sin x)"
| "math_sin _ = NaN"

fun math_cos :: "f64 \<Rightarrow> f64" where
  "math_cos (Fin x) = round64 (cos x)"
| "math_cos _ = NaN"

fun math_sqrt :: "f64 \<Rightarrow> f64" where
  "math_sqrt (Fin x) = (if x < 0 then NaN else round64 (sqrt x))"
| "math_sqrt PInf = PInf"
| "math_sqrt _ = NaN"

text \<open>\<^verbatim>\<open>math.Atan2(y, x)\<close> on finite arguments; the source calls it on two square roots only.\<close>

fun math_atan2 :: "f64 \<Rightarrow> f64 \<Rightarrow> f64" where
  "math_atan2 (Fin y) (Fin x) =
     round64 (if 0 < x then arctan (y / x)
       else if x < 0 then (if 0 \<le> y then arctan (y / x) + pi else arctan (y / x) - pi)
       else if 0 < y then pi / 2 else if y < 0 then - (pi / 2) else 0)"
| "math_atan2 _ _ = NaN"

subsection \<open>Facts about rounding\<close>

lemma rne_error: "\<bar>of_int (rne x) - x\<bar> \<le> 1 / 2"
  unfolding rne_def Let_def by (auto simp: abs_le_iff; linarith)

lemma rne_of_int [simp]: "rne (of_int n) = n"
  by (simp add: rne_def)

lemma rne_mono:
  assumes "x \<le> y" shows "rne x \<le> rne y"
proof (cases "\<lfloor>x\<rfloor> = \<lfloor>y\<rfloor>")
  case True
  with assms show ?thesis by (auto simp: rne_def Let_def)
next
  case False
  with floor_mono [OF assms] have "\<lfloor>x\<rfloor> + 1 \<le> \<lfloor>y\<rfloor>" by simp
  then show ?thesis by (auto simp: rne_def Let_def)
qed

lemma rne_uminus: "rne (- x) = - rne x"
proof (cases "x = of_int \<lfloor>x\<rfloor>")
  case True
  then have "rne (- x) = - \<lfloor>x\<rfloor>" by (metis of_int_minus rne_of_int)
  moreover have "rne x = \<lfloor>x\<rfloor>" using True by (metis rne_of_int)
  ultimately show ?thesis by simp
next
  case False
  then have "\<lfloor>- x\<rfloor> = - \<lfloor>x\<rfloor> - 1"
    by linarith
  then show ?thesis by (auto simp: rne_def Let_def)
qed

lemma powi_le: "i \<le> j \<Longrightarrow> (2 :: real) powi i \<le> 2 powi j"
  by (simp add: power_int_increasing)

lemma powi_nat: "0 \<le> i \<Longrightarrow> (2 :: real) powi i = 2 ^ nat i"
  by (simp add: power_int_def)

lemma ilog2_bounds:
  assumes "0 < x"
  shows "2 powi ilog2 x \<le> x" and "x < 2 powi (ilog2 x + 1)"
proof -
  have "2 powi ilog2 x \<le> x \<and> x < 2 powi (ilog2 x + 1)"
  proof (cases "1 \<le> x")
    case True
    define n where "n = nat \<lfloor>x\<rfloor>"
    define l where "l = floorlog 2 n"
    from True have n: "0 < n" "real n \<le> x" "x < real n + 1" by (auto simp: n_def le_nat_floor intro: of_nat_floor)
    have b: "2 ^ (l - 1) \<le> n" "n < 2 ^ l" using floorlog_bounds [of n 2] n(1) by (auto simp: l_def)
    have l: "0 < l" using n(1) by (auto simp: l_def floorlog_eq_zero_iff intro: gr0I)
    have i: "ilog2 x = int l - 1" using True by (simp add: ilog2_def l_def n_def)
    have "(2 :: real) ^ (l - 1) \<le> x" using b(1) n(2) by (metis of_nat_le_iff of_nat_numeral of_nat_power order_trans)
    moreover have "x < 2 ^ l"
    proof -
      have "n + 1 \<le> 2 ^ l" using b(2) by simp
      then have "real (n + 1) \<le> 2 ^ l" by (metis of_nat_le_iff of_nat_numeral of_nat_power)
      with n(3) show ?thesis by simp
    qed
    moreover have "ilog2 x = int (l - 1)" "ilog2 x + 1 = int l" using l by (simp_all add: i)
    ultimately show ?thesis by (simp only: power_int_of_nat)
  next
    case False
    define z where "z = 1 / x"
    define n where "n = nat (\<lceil>z\<rceil> - 1)"
    define l where "l = floorlog 2 n"
    have z: "1 < z" using False assms by (simp add: z_def)
    have nz: "real n < z" "z \<le> real n + 1" "0 < n" using z by (auto simp: n_def; linarith)+
    have b: "2 ^ (l - 1) \<le> n" "n < 2 ^ l" using floorlog_bounds [of n 2] nz(3) by (auto simp: l_def)
    have l: "0 < l" using nz(3) by (auto simp: l_def floorlog_eq_zero_iff intro: gr0I)
    have i: "ilog2 x = - int l" using False by (simp add: ilog2_def l_def n_def z_def)
    have up: "z \<le> 2 ^ l"
    proof -
      have "n + 1 \<le> 2 ^ l" using b(2) by simp
      then have "real (n + 1) \<le> 2 ^ l" by (metis of_nat_le_iff of_nat_numeral of_nat_power)
      with nz(2) show ?thesis by simp
    qed
    have lo: "2 ^ (l - 1) < z" using b(1) nz(1) by (metis of_nat_le_iff of_nat_numeral of_nat_power order_le_less_trans)
    have "x = 1 / z" by (simp add: z_def)
    moreover have "1 / 2 ^ l \<le> 1 / z" using up z by (simp add: frac_le)
    moreover have "1 / z < 1 / 2 ^ (l - 1)" using lo z by (simp add: frac_less2)
    moreover have "ilog2 x + 1 = - int (l - 1)" using l by (simp add: i)
    ultimately show ?thesis
      by (metis i power_int_minus power_int_of_nat divide_inverse mult_1_left)
  qed
  then show "2 powi ilog2 x \<le> x" and "x < 2 powi (ilog2 x + 1)" by auto
qed

lemma ilog2_mono:
  assumes "0 < x" "x \<le> y" shows "ilog2 x \<le> ilog2 y"
proof (rule ccontr)
  assume "\<not> ilog2 x \<le> ilog2 y"
  then have "(2 :: real) powi (ilog2 y + 1) \<le> 2 powi ilog2 x" by (intro powi_le) simp
  with ilog2_bounds [of x] ilog2_bounds [of y] assms show False by linarith
qed

lemma ilog2_ge: "(2 :: real) powi k \<le> x \<Longrightarrow> k \<le> ilog2 x"
proof (rule ccontr)
  assume a: "(2 :: real) powi k \<le> x" "\<not> k \<le> ilog2 x"
  then have "0 < x" by (meson order_less_le_trans zero_less_numeral zero_less_power_int)
  moreover from a have "(2 :: real) powi (ilog2 x + 1) \<le> 2 powi k" by (intro powi_le) simp
  ultimately show False using a ilog2_bounds [of x] by linarith
qed

lemma ilog2_less: "0 < x \<Longrightarrow> x < (2 :: real) powi k \<Longrightarrow> ilog2 x < k"
proof (rule ccontr)
  assume a: "0 < x" "x < (2 :: real) powi k" "\<not> ilog2 x < k"
  then have "(2 :: real) powi k \<le> 2 powi ilog2 x" by (intro powi_le) simp
  with a ilog2_bounds [of x] show False by linarith
qed

text \<open>The rounded real, before the overflow test.\<close>

definition rnd :: "real \<Rightarrow> real" where
  "rnd x = of_int (rne (x / 2 powi ulp_exp x)) * 2 powi ulp_exp x"

lemma round64_rnd:
  "round64 x = (if 2 ^ 1024 \<le> \<bar>rnd x\<bar> then (if 0 < x then PInf else NInf) else Fin (rnd x))"
  by (simp add: round64_def rnd_def Let_def rne_def)

lemma rnd_0 [simp]: "rnd 0 = 0"
  by (simp add: rnd_def rne_def)

lemma round64_0 [simp]: "round64 0 = Fin 0"
  by (simp add: round64_def)

lemma rnd_uminus: "rnd (- x) = - rnd x"
  by (simp add: rnd_def ulp_exp_def rne_uminus)

lemma round64_uminus: "round64 (- x) = fneg (round64 x)"
  by (auto simp: round64_rnd rnd_uminus not_less)

lemma rnd_error_ulp: "\<bar>rnd x - x\<bar> \<le> 2 powi (ulp_exp x) / 2"
proof -
  let ?u = "2 powi ulp_exp x :: real"
  have u: "0 < ?u" by simp
  have "\<bar>rnd x - x\<bar> = \<bar>of_int (rne (x / ?u)) - x / ?u\<bar> * ?u"
    by (simp add: rnd_def field_simps flip: abs_mult_pos [OF order_less_imp_le [OF u]])
  also have "\<dots> \<le> (1 / 2) * ?u"
    by (intro mult_right_mono rne_error) simp
  finally show ?thesis by simp
qed

lemma rnd_error:
  assumes "2 powi (- 1022) \<le> \<bar>x\<bar>"
  shows "\<bar>rnd x - x\<bar> \<le> \<bar>x\<bar> / 2 ^ 53"
proof -
  have pos: "0 < \<bar>x\<bar>" using assms by (meson order_less_le_trans zero_less_numeral zero_less_power_int)
  have "- 1022 \<le> ilog2 \<bar>x\<bar>" using assms by (rule ilog2_ge)
  then have e: "ulp_exp x = ilog2 \<bar>x\<bar> - 52" by (simp add: ulp_exp_def)
  have "\<bar>rnd x - x\<bar> \<le> 2 powi (ilog2 \<bar>x\<bar> - 52) / 2" using rnd_error_ulp [of x] by (simp add: e)
  also have "\<dots> = 2 powi ilog2 \<bar>x\<bar> / 2 ^ 53" by (simp add: power_int_diff)
  also have "\<dots> \<le> \<bar>x\<bar> / 2 ^ 53" using ilog2_bounds(1) [OF pos] by (simp add: divide_right_mono)
  finally show ?thesis .
qed

lemma round64_Fin:
  assumes "2 powi (- 1022) \<le> \<bar>x\<bar>" and "\<bar>x\<bar> \<le> 2 ^ 1023"
  shows "round64 x = Fin (rnd x)"
proof -
  have "\<bar>rnd x\<bar> \<le> \<bar>x\<bar> + \<bar>x\<bar> / 2 ^ 53" using rnd_error [OF assms(1)] by linarith
  also have "\<dots> < 2 * 2 ^ 1023" using assms(2) by (simp add: field_simps)
  finally show ?thesis by (simp add: round64_rnd)
qed

lemma rnd_integral:
  assumes "x = of_int m * 2 powi ulp_exp x" shows "rnd x = x"
proof -
  have "x / 2 powi ulp_exp x = of_int m"
    by (subst assms) simp
  then have "rnd x = of_int m * 2 powi ulp_exp x" by (simp add: rnd_def)
  then show ?thesis using assms by simp
qed

lemma powi_multiple:
  assumes "j \<le> i" shows "(2 :: real) powi i = of_int (2 ^ nat (i - j)) * 2 powi j"
proof -
  have "(2 :: real) powi i = 2 powi ((i - j) + j)" by simp
  also have "\<dots> = 2 powi (i - j) * 2 powi j" by (rule power_int_add) simp
  also have "(2 :: real) powi (i - j) = of_int (2 ^ nat (i - j))" using assms by (simp add: powi_nat)
  finally show ?thesis .
qed

lemma rnd_powi:
  assumes "ulp_exp x \<le> k" "\<bar>x\<bar> \<le> 2 powi k" shows "\<bar>rnd x\<bar> \<le> 2 powi k"
proof -
  let ?u = "2 powi ulp_exp x :: real"
  let ?n = "2 ^ nat (k - ulp_exp x) :: int"
  have u: "0 < ?u" by simp
  have k: "2 powi k = of_int ?n * ?u" using assms(1) by (rule powi_multiple)
  have "x / ?u \<le> of_int ?n" "of_int (- ?n) \<le> x / ?u"
    using assms(2) u unfolding k by (simp_all add: field_simps abs_le_iff)
  then have "rne (x / ?u) \<le> ?n" "- ?n \<le> rne (x / ?u)"
    by (metis rne_mono rne_of_int)+
  then have "\<bar>real_of_int (rne (x / ?u))\<bar> \<le> of_int ?n"
    by (metis abs_le_iff minus_le_iff of_int_abs of_int_le_iff)
  then show ?thesis
    unfolding k rnd_def abs_mult by (simp add: mult_right_mono)
qed

lemma rnd_powi_lower:
  assumes "ulp_exp x \<le> k" "2 powi k \<le> x" shows "2 powi k \<le> rnd x"
proof -
  let ?u = "2 powi ulp_exp x :: real"
  let ?n = "2 ^ nat (k - ulp_exp x) :: int"
  have u: "0 < ?u" by simp
  have k: "2 powi k = of_int ?n * ?u" using assms(1) by (rule powi_multiple)
  have "of_int ?n \<le> x / ?u"
    using assms(2) u unfolding k by (simp add: field_simps)
  then have "?n \<le> rne (x / ?u)" by (metis rne_mono rne_of_int)
  then have "real_of_int ?n \<le> of_int (rne (x / ?u))" by (simp only: of_int_le_iff)
  then show ?thesis unfolding k rnd_def by (rule mult_right_mono) simp
qed

lemma rnd_nonneg: "0 \<le> x \<Longrightarrow> 0 \<le> rnd x"
proof -
  assume "0 \<le> x"
  then have "(of_int 0 :: real) \<le> x / 2 powi ulp_exp x" by simp
  then have "rne (of_int 0 :: real) \<le> rne (x / 2 powi ulp_exp x)" by (rule rne_mono)
  then have "0 \<le> rne (x / 2 powi ulp_exp x)" by (simp only: rne_of_int)
  then show ?thesis by (simp add: rnd_def)
qed

lemma rnd_mono_pos:
  assumes "0 < x" "x \<le> y" shows "rnd x \<le> rnd y"
proof (cases "ulp_exp x = ulp_exp y")
  case True
  have "rne (x / 2 powi ulp_exp x) \<le> rne (y / 2 powi ulp_exp x)"
    using assms by (intro rne_mono divide_right_mono) simp_all
  then show ?thesis by (simp add: rnd_def True [symmetric] mult_right_mono)
next
  case False
  have m: "ilog2 x \<le> ilog2 y" using assms by (rule ilog2_mono)
  with False assms have lt: "ilog2 x < ilog2 y" and e: "ulp_exp y = ilog2 y - 52"
      and ex: "ulp_exp x \<le> ilog2 y"
    by (auto simp: ulp_exp_def max_def split: if_splits)
  have "x < 2 powi (ilog2 x + 1)" using assms(1) by (rule ilog2_bounds)
  also have "\<dots> \<le> 2 powi ilog2 y" using lt by (intro powi_le) simp
  finally have "\<bar>rnd x\<bar> \<le> 2 powi ilog2 y" using ex assms by (intro rnd_powi) simp_all
  also have "\<dots> \<le> rnd y"
    using assms e by (intro rnd_powi_lower ilog2_bounds) simp_all
  finally show ?thesis by simp
qed

lemma rnd_mono:
  assumes "x \<le> y" shows "rnd x \<le> rnd y"
proof -
  consider "0 < x" | "x \<le> 0" "0 \<le> y" | "y < 0" by linarith
  then show ?thesis
  proof cases
    case 1
    then show ?thesis using assms by (rule rnd_mono_pos)
  next
    case 2
    then show ?thesis using rnd_nonneg [of y] rnd_nonneg [of "- x"] by (simp add: rnd_uminus)
  next
    case 3
    then show ?thesis using rnd_mono_pos [of "- y" "- x"] assms by (simp add: rnd_uminus)
  qed
qed

lemma rnd_int_exact:
  assumes "\<bar>n\<bar> \<le> 2 ^ 53" shows "rnd (of_int n) = of_int n"
proof (cases "n = 0")
  case False
  define k where "k = ilog2 \<bar>of_int n\<bar>"
  have "(2 :: real) powi 0 \<le> \<bar>of_int n\<bar>" using False by simp
  then have k0: "0 \<le> k" unfolding k_def by (rule ilog2_ge)
  have e: "ulp_exp (of_int n) = k - 52" using k0 by (simp add: ulp_exp_def k_def)
  show ?thesis
  proof (cases "k \<le> 52")
    case True
    then have "(2 :: real) powi 0 = of_int (2 ^ nat (0 - (k - 52))) * 2 powi (k - 52)"
      by (intro powi_multiple) simp
    then have h: "of_int n = of_int (n * 2 ^ nat (52 - k)) * (2 :: real) powi (k - 52)"
      by simp
    show ?thesis by (rule rnd_integral, unfold e) (rule h)
  next
    case False
    have "2 powi k \<le> \<bar>real_of_int n\<bar>" using \<open>n \<noteq> 0\<close> by (simp add: k_def ilog2_bounds)
    moreover have "(2 :: real) powi 53 \<le> 2 powi k" using False by (intro powi_le) simp
    moreover have "\<bar>real_of_int n\<bar> \<le> 2 ^ 53" using assms by (metis of_int_abs of_int_le_iff of_int_numeral of_int_power)
    ultimately have n: "\<bar>real_of_int n\<bar> = 2 ^ 53" by (simp add: powi_nat)
    have "ilog2 (2 ^ 53) < 54" by (rule ilog2_less) simp_all
    with n False k_def have "k = 53" by simp
    from n have "n = 2 ^ 53 \<or> n = - (2 ^ 53)" by (metis abs_eq_iff of_int_abs of_int_eq_iff of_int_numeral of_int_power abs_numeral power_abs)
    then show ?thesis using \<open>k = 53\<close> by (intro rnd_integral [of _ "n div 2"]) (auto simp: e)
  qed
qed simp

lemma i2f_exact: "\<bar>n\<bar> \<le> 2 ^ 53 \<Longrightarrow> i2f n = Fin (of_int n)"
proof -
  assume a: "\<bar>n\<bar> \<le> 2 ^ 53"
  then have "\<bar>real_of_int n\<bar> \<le> 2 ^ 53" by (metis of_int_abs of_int_le_iff of_int_numeral of_int_power)
  also have "\<dots> < (2 :: real) ^ 1024" by simp
  finally show ?thesis using a by (simp add: i2f_def round64_rnd rnd_int_exact)
qed

lemma round_half_away_near:
  assumes "\<bar>x - of_int n\<bar> < 1 / 2" shows "round_half_away x = n"
proof -
  have "x - of_int n < 1 / 2" "of_int n - x < 1 / 2" using assms by linarith+
  then show ?thesis by (auto simp: round_half_away_def floor_eq_iff ceiling_eq_iff)
qed

lemma round_half_away_of_int [simp]: "round_half_away (of_int n) = n"
  by (simp add: round_half_away_near)

lemma trunc_of_int [simp]: "trunc (of_int n) = n"
  by (simp add: trunc_def)

lemma f2i_of_int: "in_int64 n \<Longrightarrow> f2i (Fin (of_int n)) = n"
  by simp

lemma f2i_range: "in_int64 (f2i x)"
  by (cases x) (simp_all add: in_int64_def minInt64_def maxInt64_def)

lemma round64_range:
  assumes "1 \<le> a" "of_int a \<le> x" "x \<le> of_int b" "b \<le> 2 ^ 53"
  obtains r where "round64 x = Fin r" "of_int a \<le> r" "r \<le> of_int b"
proof
  have a: "a \<le> 2 ^ 53" using assms by (meson of_int_le_iff order_trans)
  have "rnd (of_int a) = of_int a" "rnd (of_int b) = of_int b"
    using assms a by (auto intro!: rnd_int_exact simp: abs_le_iff)
  then show "of_int a \<le> rnd x" "rnd x \<le> of_int b"
    using rnd_mono [OF assms(2)] rnd_mono [OF assms(3)] by simp_all
  have x: "1 \<le> x" using assms(1,2) by (meson of_int_1_le_iff order_trans)
  have "(2 :: real) powi (- 1022) \<le> 2 powi 0" by (rule powi_le) simp
  then have "2 powi (- 1022) \<le> \<bar>x\<bar>" using x by simp
  moreover have "x \<le> 2 ^ 53"
    using assms(3,4) by (metis of_int_le_iff of_int_numeral of_int_power order_trans)
  then have "\<bar>x\<bar> \<le> 2 ^ 1023" using x by (simp add: order_trans [of x "2 ^ 53"])
  ultimately show "round64 x = Fin (rnd x)" by (rule round64_Fin)
qed

text \<open>
  Dividing an integer reading by a conversion factor and multiplying it back loses less than
  half a unit, so rounding recovers it exactly.
\<close>

lemma powi_m1022_le: "1 / 2 ^ 20 \<le> x \<Longrightarrow> (2 :: real) powi (- 1022) \<le> x"
proof -
  assume x: "1 / 2 ^ 20 \<le> x"
  have "(2 :: real) powi (- 1022) \<le> 2 powi (- 20)" by (rule powi_le) simp
  also have "\<dots> = 1 / 2 ^ 20" by (simp only: power_int_minus divide_inverse) (simp add: powi_nat)
  finally show ?thesis using x by (rule order_trans)
qed

lemma scale_roundtrip:
  assumes m: "\<bar>m\<bar> \<le> 2 ^ 50" and c: "1 \<le> c" "c \<le> 2 ^ 20"
  shows "math_round (fmul (fdiv (i2f m) (Fin c)) (Fin c)) = Fin (of_int m)"
proof (cases "m = 0")
  case True
  then show ?thesis using c round_half_away_of_int [of 0] by (simp add: i2f_def del: round_half_away_of_int)
next
  case False
  define x where "x = real_of_int m / c"
  define q where "q = rnd x"
  define p where "p = rnd (q * c)"
  have i: "i2f m = Fin (of_int m)" using m by (intro i2f_exact) simp
  have rm: "1 \<le> \<bar>real_of_int m\<bar>" "\<bar>real_of_int m\<bar> \<le> 2 ^ 50"
    using False m by (simp, metis of_int_abs of_int_le_iff of_int_numeral of_int_power)
  have lo: "1 / 2 ^ 20 \<le> \<bar>x\<bar>" using rm c by (simp add: x_def abs_divide frac_le)
  have hi: "\<bar>x\<bar> \<le> 2 ^ 50"
    using rm c by (simp add: x_def abs_divide divide_le_eq)
  have xlo: "2 powi (- 1022) \<le> \<bar>x\<bar>"
    using lo by (rule powi_m1022_le)
  have xhi: "\<bar>x\<bar> \<le> 2 ^ 1023" using hi by simp
  have qe: "\<bar>q - x\<bar> \<le> \<bar>x\<bar> / 2 ^ 53" unfolding q_def using xlo by (rule rnd_error)
  have d: "fdiv (i2f m) (Fin c) = Fin q"
    using c round64_Fin [OF xlo xhi] by (simp add: i q_def x_def)
  have qcm: "\<bar>q * c - m\<bar> \<le> \<bar>real_of_int m\<bar> / 2 ^ 53"
  proof -
    have "\<bar>q * c - m\<bar> = \<bar>q - x\<bar> * c" using c by (simp add: x_def abs_mult field_simps flip: abs_mult_pos)
    also have "\<dots> \<le> \<bar>x\<bar> / 2 ^ 53 * c" using qe c by (intro mult_right_mono) simp_all
    also have "\<dots> = \<bar>real_of_int m\<bar> / 2 ^ 53" using c by (simp add: x_def abs_divide)
    finally show ?thesis .
  qed
  then have "\<bar>real_of_int m\<bar> - \<bar>real_of_int m\<bar> / 2 ^ 53 \<le> \<bar>q * c\<bar>"
      "\<bar>q * c\<bar> \<le> \<bar>real_of_int m\<bar> + \<bar>real_of_int m\<bar> / 2 ^ 53"
    by linarith+
  then have qc: "1 / 2 \<le> \<bar>q * c\<bar>" "\<bar>q * c\<bar> \<le> 2 ^ 51" using rm by (simp_all add: field_simps)
  have qlo: "2 powi (- 1022) \<le> \<bar>q * c\<bar>"
    by (rule powi_m1022_le, rule order_trans [OF _ qc(1)]) simp
  have qhi: "\<bar>q * c\<bar> \<le> 2 ^ 1023" using qc by simp
  have e: "fmul (Fin q) (Fin c) = Fin p" using round64_Fin [OF qlo qhi] by (simp add: p_def)
  have pe: "\<bar>p - q * c\<bar> \<le> \<bar>q * c\<bar> / 2 ^ 53" unfolding p_def using qlo by (rule rnd_error)
  have "\<bar>p - of_int m\<bar> \<le> \<bar>p - q * c\<bar> + \<bar>q * c - of_int m\<bar>" by simp
  also have "\<dots> \<le> 2 ^ 51 / 2 ^ 53 + 2 ^ 50 / 2 ^ 53"
  proof (rule add_mono)
    show "\<bar>p - q * c\<bar> \<le> 2 ^ 51 / 2 ^ 53"
      by (rule order_trans [OF pe]) (rule divide_right_mono [OF qc(2)], simp)
    show "\<bar>q * c - of_int m\<bar> \<le> 2 ^ 50 / 2 ^ 53"
      by (rule order_trans [OF qcm]) (rule divide_right_mono [OF rm(2)], simp)
  qed
  also have "\<dots> < 1 / 2" by simp
  finally have "round_half_away p = m" by (rule round_half_away_near)
  then show ?thesis unfolding d e by simp
qed

lemma round64_abs:
  assumes "\<bar>x\<bar> \<le> of_int n" and "n \<le> 2 ^ 53"
  obtains r where "round64 x = Fin r" and "\<bar>r\<bar> \<le> of_int n"
proof -
  have n: "\<bar>n\<bar> \<le> 2 ^ 53" using assms by (metis abs_le_iff abs_of_nonneg abs_ge_zero of_int_0_le_iff order_trans)
  have up: "rnd x \<le> of_int n"
    using rnd_mono [of x "of_int n"] rnd_int_exact [OF n] assms(1) by auto
  have "rnd (- of_int n) \<le> rnd x" using assms(1) by (intro rnd_mono) linarith
  then have lo: "- of_int n \<le> rnd x" using rnd_int_exact [OF n] by (simp add: rnd_uminus)
  have "real_of_int n \<le> 2 ^ 53" using assms(2) by (metis of_int_le_iff of_int_numeral of_int_power)
  then have "\<bar>rnd x\<bar> \<le> 2 ^ 53" using up lo by linarith
  then have "\<bar>rnd x\<bar> < 2 ^ 1024" by (rule order_le_less_trans) simp
  then have "round64 x = Fin (rnd x)" by (simp add: round64_rnd)
  with up lo show thesis by (intro that [of "rnd x"]) auto
qed

lemma round64_of_int: "\<bar>n\<bar> \<le> 2 ^ 53 \<Longrightarrow> round64 (of_int n) = Fin (of_int n)"
  using i2f_exact by (simp add: i2f_def)

lemma round64_small [simp]: "round64 1 = Fin 1" "round64 2 = Fin 2" "round64 100 = Fin 100"
  using round64_of_int [of 1] round64_of_int [of 2] round64_of_int [of 100] by simp_all

lemma f2i_abs:
  assumes "\<bar>r\<bar> \<le> of_int n" and "n \<le> maxInt64" shows "\<bar>f2i (Fin r)\<bar> \<le> n"
proof -
  have "\<bar>trunc r\<bar> \<le> n" using assms(1) by (auto simp: trunc_def abs_le_iff; linarith)
  moreover from this assms(2) have "in_int64 (trunc r)"
    by (auto simp: in_int64_def minInt64_def maxInt64_def)
  ultimately show ?thesis by simp
qed

subsection \<open>Rounding of non-negative values\<close>

lemma rnd_err: "x = 0 \<or> 1 / 2 ^ 20 \<le> x \<Longrightarrow> \<bar>rnd x - x\<bar> \<le> x / 2 ^ 53"
  using rnd_error [of x] powi_m1022_le [of x] by (cases "x = 0") auto

lemma rnd_upto: "x = 0 \<or> 1 / 2 ^ 20 \<le> x \<Longrightarrow> rnd x \<le> x + x / 2 ^ 53 \<and> x - x / 2 ^ 53 \<le> rnd x"
  using rnd_err [of x] unfolding abs_le_iff by linarith

lemma round64_value: "x = 0 \<or> 1 / 2 ^ 20 \<le> x \<Longrightarrow> x \<le> 2 ^ 60 \<Longrightarrow> round64 x = Fin (rnd x)"
  using round64_Fin [of x] powi_m1022_le [of x] by (cases "x = 0") (auto intro: order_trans)

lemma round_half_away_bounds:
  assumes "0 \<le> p"
  shows "0 \<le> round_half_away p" "\<bar>real_of_int (round_half_away p) - p\<bar> \<le> 1 / 2"
proof -
  have "real_of_int \<lfloor>p + 1 / 2\<rfloor> \<le> p + 1 / 2" "p + 1 / 2 < real_of_int \<lfloor>p + 1 / 2\<rfloor> + 1" by linarith+
  moreover have "0 \<le> \<lfloor>p + 1 / 2\<rfloor>" using assms by simp
  ultimately show "0 \<le> round_half_away p" "\<bar>real_of_int (round_half_away p) - p\<bar> \<le> 1 / 2"
    using assms unfolding round_half_away_def abs_le_iff by (simp_all only: if_True) (linarith | simp)+
qed

end
