(* ===== verification/Units.thy ===== *)
theory Units
  imports GoFloat
begin

section \<open>Unit conversions\<close>

text \<open>
  The conversions of \<^verbatim>\<open>internal/units/units.go\<close>, on \<^verbatim>\<open>float64\<close> values: the factors are the
  doubles nearest to the decimal constants, and each conversion is one rounded division or
  multiplication. The lemmas show that an integer reading survives metric to imperial and
  back, the reason the mappers' round trips are exact on odometer and range.
\<close>

definition metersPerMile :: f64 where
  "metersPerMile = fconst (1609344 / 1000)"

definition kmPerMile :: f64 where
  "kmPerMile = fconst (1609344 / 1000000)"

definition mpsPerMph :: f64 where
  "mpsPerMph = fconst (44704 / 100000)"

definition metersToMiles :: "f64 \<Rightarrow> f64" where
  "metersToMiles m = fdiv m metersPerMile"

definition milesToMeters :: "f64 \<Rightarrow> f64" where
  "milesToMeters mi = fmul mi metersPerMile"

definition kmToMiles :: "f64 \<Rightarrow> f64" where
  "kmToMiles km = fdiv km kmPerMile"

definition milesToKm :: "f64 \<Rightarrow> f64" where
  "milesToKm mi = fmul mi kmPerMile"

definition mpsToMph :: "f64 \<Rightarrow> f64" where
  "mpsToMph mps = fdiv mps mpsPerMph"

definition mphToMps :: "f64 \<Rightarrow> f64" where
  "mphToMps mph = fmul mph mpsPerMph"

lemma metersPerMile_range: obtains c where "metersPerMile = Fin c" "1 \<le> c" "c \<le> 2 ^ 20"
proof -
  obtain c where "metersPerMile = Fin c" "of_int 1609 \<le> c" "c \<le> of_int 1610"
    unfolding metersPerMile_def
    by (rule round64_range [of 1609 "1609344 / 1000" 1610]) (simp_all add: field_simps)
  then have "metersPerMile = Fin c \<and> 1 \<le> c \<and> c \<le> 2 ^ 20" by simp
  then show thesis by (blast intro: that)
qed

lemma kmPerMile_range: obtains c where "kmPerMile = Fin c" "1 \<le> c" "c \<le> 2 ^ 20"
proof -
  obtain c where "kmPerMile = Fin c" "of_int 1 \<le> c" "c \<le> of_int 2"
    unfolding kmPerMile_def
    by (rule round64_range [of 1 "1609344 / 1000000" 2]) (simp_all add: field_simps)
  then have "kmPerMile = Fin c \<and> 1 \<le> c \<and> c \<le> 2 ^ 20" by simp
  then show thesis by (blast intro: that)
qed

lemma kmPerMile_tight: obtains c where "kmPerMile = Fin c" "1 \<le> c" "c \<le> 2"
proof -
  obtain c where "kmPerMile = Fin c" "of_int 1 \<le> c" "c \<le> of_int 2"
    unfolding kmPerMile_def
    by (rule round64_range [of 1 "1609344 / 1000000" 2]) (simp_all add: field_simps)
  then have "kmPerMile = Fin c \<and> 1 \<le> c \<and> c \<le> 2" by simp
  then show thesis by (blast intro: that)
qed

lemma odometer_roundtrip:
  assumes "\<bar>m\<bar> \<le> 2 ^ 50"
  shows "math_round (milesToMeters (metersToMiles (i2f m))) = Fin (of_int m)"
proof -
  obtain c where c: "metersPerMile = Fin c" "1 \<le> c" "c \<le> 2 ^ 20" by (rule metersPerMile_range)
  show ?thesis
    unfolding milesToMeters_def metersToMiles_def c(1) using assms c(2,3) by (rule scale_roundtrip)
qed

lemma range_roundtrip:
  assumes "\<bar>m\<bar> \<le> 2 ^ 50"
  shows "math_round (milesToKm (kmToMiles (i2f m))) = Fin (of_int m)"
proof -
  obtain c where c: "kmPerMile = Fin c" "1 \<le> c" "c \<le> 2 ^ 20" by (rule kmPerMile_range)
  show ?thesis
    unfolding milesToKm_def kmToMiles_def c(1) using assms c(2,3) by (rule scale_roundtrip)
qed

lemma metersToMiles_0 [simp]: "metersToMiles (Fin 0) = Fin 0"
proof -
  obtain c where "metersPerMile = Fin c" "1 \<le> c" "c \<le> 2 ^ 20" by (rule metersPerMile_range)
  then show ?thesis unfolding metersToMiles_def by (metis div_by_0 div_0 fdiv.simps(1) round64_0 not_one_le_zero)
qed

lemma kmToMiles_0 [simp]: "kmToMiles (Fin 0) = Fin 0"
proof -
  obtain c where "kmPerMile = Fin c" "1 \<le> c" "c \<le> 2 ^ 20" by (rule kmPerMile_range)
  then show ?thesis unfolding kmToMiles_def by (metis div_by_0 div_0 fdiv.simps(1) round64_0 not_one_le_zero)
qed

end
