(* ===== verification/Vehicle.thy ===== *)
theory Vehicle
  imports GoFloat
begin

section \<open>The canonical vehicle model\<close>

text \<open>
  The neutral data model of \<^verbatim>\<open>internal/vehicle/vehicle.go\<close>: the enumerations, \<^verbatim>\<open>Location\<close>,
  \<^verbatim>\<open>Identity\<close>, the telemetry \<^verbatim>\<open>State\<close> with every field of the source, \<^verbatim>\<open>LiveSession\<close>,
  \<^verbatim>\<open>Snapshot\<close> with its stream provenance, and the stream presence flags. A pointer field
  is an option; the record \<open>zeroState\<close> is Go's zero value of \<^verbatim>\<open>State\<close>. The selectors
  carry a prefix per struct (\<open>st_\<close>, \<open>ls_\<close>, \<open>sn_\<close>, \<open>loc_\<close>, \<open>id_\<close>), because Go
  struct fields are scoped and HOL record fields are not.
\<close>

subsection \<open>Enumerations\<close>

datatype power = PowerUnknown | PowerOffline | PowerOnline | PowerSleep

datatype gear = GearUnknown | GearPark | GearDrive | GearReverse | GearNeutral

datatype chargerState = ChargerUnknown | ChargerIdle | ChargerCharging | ChargerDisconnect

datatype chargePlug = PlugUnknown | PlugDisconnected | PlugConnected

subsection \<open>Structs\<close>

record location =
  loc_Latitude :: f64
  loc_Longitude :: f64
  loc_TimeStamp :: gotime

record identity =
  id_ID :: string
  id_VIN :: string
  id_DisplayName :: string
  id_Make :: string
  id_Model :: string

record state =
  st_Power :: power
  st_UserPresent :: bool
  st_CloudOnline :: bool
  st_LastUpdate :: gotime
  st_CloudLastSync :: gotime
  st_Location :: "location option"
  st_SpeedMps :: f64
  st_HeadingDeg :: f64
  st_DrivePowerKw :: "f64 option"
  st_OdometerMeters :: int
  st_RangeKm :: int
  st_BatteryLevelPct :: f64
  st_BatteryLimitPct :: f64
  st_Gear :: gear
  st_Charger :: chargerState
  st_Plug :: chargePlug
  st_ChargePortOpen :: bool
  st_TimeToEndOfChargeMin :: int
  st_ChargerVoltageV :: int
  st_BatteryHeaterOn :: bool
  st_CabinTempC :: f64
  st_OutsideTempC :: f64
  st_DriverSetpointC :: f64
  st_SeatHeatFrontLeft :: string
  st_SeatHeatFrontRight :: string
  st_SeatHeatRearLeft :: string
  st_SeatHeatRearRight :: string
  st_SteeringWheelHeat :: string
  st_DefrostStatus :: string
  st_PreconditioningStatus :: string
  st_CarType :: string
  st_TrimBadging :: string
  st_GearGuardStatus :: string
  st_TpmsFrontLeft :: string
  st_TpmsFrontRight :: string
  st_TpmsRearLeft :: string
  st_TpmsRearRight :: string
  st_TpmsPressureFlBar :: f64
  st_TpmsPressureFrBar :: f64
  st_TpmsPressureRlBar :: f64
  st_TpmsPressureRrBar :: f64
  st_DoorFrontLeftLocked :: string
  st_DoorFrontRightLocked :: string
  st_DoorRearLeftLocked :: string
  st_DoorRearRightLocked :: string
  st_DoorFrontLeftClosed :: string
  st_DoorFrontRightClosed :: string
  st_DoorRearLeftClosed :: string
  st_DoorRearRightClosed :: string
  st_WindowFrontLeftClosed :: string
  st_WindowFrontRightClosed :: string
  st_WindowRearLeftClosed :: string
  st_WindowRearRightClosed :: string
  st_FrunkClosed :: string
  st_LiftgateClosed :: string
  st_TonneauClosed :: string
  st_TailgateClosed :: string
  st_OtaVersion :: string
  st_OtaAvailableVersion :: string
  st_OtaStatus :: string
  st_OtaInstallProgress :: f64
  st_OtaDownloadProgress :: int

definition zeroState :: state where
  "zeroState = \<lparr>
     st_Power = PowerUnknown,
     st_UserPresent = False,
     st_CloudOnline = False,
     st_LastUpdate = 0,
     st_CloudLastSync = 0,
     st_Location = None,
     st_SpeedMps = Fin 0,
     st_HeadingDeg = Fin 0,
     st_DrivePowerKw = None,
     st_OdometerMeters = 0,
     st_RangeKm = 0,
     st_BatteryLevelPct = Fin 0,
     st_BatteryLimitPct = Fin 0,
     st_Gear = GearUnknown,
     st_Charger = ChargerUnknown,
     st_Plug = PlugUnknown,
     st_ChargePortOpen = False,
     st_TimeToEndOfChargeMin = 0,
     st_ChargerVoltageV = 0,
     st_BatteryHeaterOn = False,
     st_CabinTempC = Fin 0,
     st_OutsideTempC = Fin 0,
     st_DriverSetpointC = Fin 0,
     st_SeatHeatFrontLeft = '''',
     st_SeatHeatFrontRight = '''',
     st_SeatHeatRearLeft = '''',
     st_SeatHeatRearRight = '''',
     st_SteeringWheelHeat = '''',
     st_DefrostStatus = '''',
     st_PreconditioningStatus = '''',
     st_CarType = '''',
     st_TrimBadging = '''',
     st_GearGuardStatus = '''',
     st_TpmsFrontLeft = '''',
     st_TpmsFrontRight = '''',
     st_TpmsRearLeft = '''',
     st_TpmsRearRight = '''',
     st_TpmsPressureFlBar = Fin 0,
     st_TpmsPressureFrBar = Fin 0,
     st_TpmsPressureRlBar = Fin 0,
     st_TpmsPressureRrBar = Fin 0,
     st_DoorFrontLeftLocked = '''',
     st_DoorFrontRightLocked = '''',
     st_DoorRearLeftLocked = '''',
     st_DoorRearRightLocked = '''',
     st_DoorFrontLeftClosed = '''',
     st_DoorFrontRightClosed = '''',
     st_DoorRearLeftClosed = '''',
     st_DoorRearRightClosed = '''',
     st_WindowFrontLeftClosed = '''',
     st_WindowFrontRightClosed = '''',
     st_WindowRearLeftClosed = '''',
     st_WindowRearRightClosed = '''',
     st_FrunkClosed = '''',
     st_LiftgateClosed = '''',
     st_TonneauClosed = '''',
     st_TailgateClosed = '''',
     st_OtaVersion = '''',
     st_OtaAvailableVersion = '''',
     st_OtaStatus = '''',
     st_OtaInstallProgress = Fin 0,
     st_OtaDownloadProgress = 0\<rparr>"

lemma zeroState_sel [simp]:
  shows "st_Power zeroState = PowerUnknown"
    and "st_UserPresent zeroState = False"
    and "st_CloudOnline zeroState = False"
    and "st_LastUpdate zeroState = 0"
    and "st_CloudLastSync zeroState = 0"
    and "st_Location zeroState = None"
    and "st_SpeedMps zeroState = Fin 0"
    and "st_HeadingDeg zeroState = Fin 0"
    and "st_DrivePowerKw zeroState = None"
    and "st_OdometerMeters zeroState = 0"
    and "st_RangeKm zeroState = 0"
    and "st_BatteryLevelPct zeroState = Fin 0"
    and "st_BatteryLimitPct zeroState = Fin 0"
    and "st_Gear zeroState = GearUnknown"
    and "st_Charger zeroState = ChargerUnknown"
    and "st_Plug zeroState = PlugUnknown"
    and "st_ChargePortOpen zeroState = False"
    and "st_TimeToEndOfChargeMin zeroState = 0"
    and "st_ChargerVoltageV zeroState = 0"
    and "st_BatteryHeaterOn zeroState = False"
    and "st_CabinTempC zeroState = Fin 0"
    and "st_OutsideTempC zeroState = Fin 0"
    and "st_DriverSetpointC zeroState = Fin 0"
    and "st_SeatHeatFrontLeft zeroState = ''''"
    and "st_SeatHeatFrontRight zeroState = ''''"
    and "st_SeatHeatRearLeft zeroState = ''''"
    and "st_SeatHeatRearRight zeroState = ''''"
    and "st_SteeringWheelHeat zeroState = ''''"
    and "st_DefrostStatus zeroState = ''''"
    and "st_PreconditioningStatus zeroState = ''''"
    and "st_CarType zeroState = ''''"
    and "st_TrimBadging zeroState = ''''"
    and "st_GearGuardStatus zeroState = ''''"
    and "st_TpmsFrontLeft zeroState = ''''"
    and "st_TpmsFrontRight zeroState = ''''"
    and "st_TpmsRearLeft zeroState = ''''"
    and "st_TpmsRearRight zeroState = ''''"
    and "st_TpmsPressureFlBar zeroState = Fin 0"
    and "st_TpmsPressureFrBar zeroState = Fin 0"
    and "st_TpmsPressureRlBar zeroState = Fin 0"
    and "st_TpmsPressureRrBar zeroState = Fin 0"
    and "st_DoorFrontLeftLocked zeroState = ''''"
    and "st_DoorFrontRightLocked zeroState = ''''"
    and "st_DoorRearLeftLocked zeroState = ''''"
    and "st_DoorRearRightLocked zeroState = ''''"
    and "st_DoorFrontLeftClosed zeroState = ''''"
    and "st_DoorFrontRightClosed zeroState = ''''"
    and "st_DoorRearLeftClosed zeroState = ''''"
    and "st_DoorRearRightClosed zeroState = ''''"
    and "st_WindowFrontLeftClosed zeroState = ''''"
    and "st_WindowFrontRightClosed zeroState = ''''"
    and "st_WindowRearLeftClosed zeroState = ''''"
    and "st_WindowRearRightClosed zeroState = ''''"
    and "st_FrunkClosed zeroState = ''''"
    and "st_LiftgateClosed zeroState = ''''"
    and "st_TonneauClosed zeroState = ''''"
    and "st_TailgateClosed zeroState = ''''"
    and "st_OtaVersion zeroState = ''''"
    and "st_OtaAvailableVersion zeroState = ''''"
    and "st_OtaStatus zeroState = ''''"
    and "st_OtaInstallProgress zeroState = Fin 0"
    and "st_OtaDownloadProgress zeroState = 0"
  by (simp_all add: zeroState_def)

record liveSession =
  ls_PowerKw :: f64
  ls_CurrentA :: f64
  ls_TotalChargedEnergy :: f64
  ls_TimeRemainingSec :: int
  ls_FastCharger :: bool

definition zeroLive :: liveSession where
  "zeroLive = \<lparr>ls_PowerKw = Fin 0, ls_CurrentA = Fin 0, ls_TotalChargedEnergy = Fin 0,
     ls_TimeRemainingSec = 0, ls_FastCharger = False\<rparr>"

type_synonym streamField = "32 word"

record snapshot =
  sn_State :: "state option"
  sn_Live :: "liveSession option"
  sn_FetchedAt :: gotime
  sn_StreamFields :: gotime
  sn_StreamPresent :: streamField
  sn_AsOf :: gotime

definition zeroSnapshot :: snapshot where
  "zeroSnapshot = \<lparr>sn_State = None, sn_Live = None, sn_FetchedAt = 0, sn_StreamFields = 0,
     sn_StreamPresent = 0, sn_AsOf = 0\<rparr>"

lemma zeroSnapshot_sel [simp]:
  shows "sn_State zeroSnapshot = None" and "sn_Live zeroSnapshot = None"
    and "sn_FetchedAt zeroSnapshot = 0" and "sn_StreamFields zeroSnapshot = 0"
    and "sn_StreamPresent zeroSnapshot = 0" and "sn_AsOf zeroSnapshot = 0"
  by (simp_all add: zeroSnapshot_def)

text \<open>\<^verbatim>\<open>Snapshot.AsOfTime\<close>: the stamped time, or the fresher component when unstamped.\<close>

definition asOfTime :: "snapshot \<Rightarrow> gotime" where
  "asOfTime s =
     (if \<not> is_zero_time (sn_AsOf s) then sn_AsOf s
      else if sn_FetchedAt s < sn_StreamFields s then sn_StreamFields s
      else sn_FetchedAt s)"

subsection \<open>Stream presence flags\<close>

text \<open>
  \<^verbatim>\<open>1 << iota\<close> in the order of the source, one definition for the whole constant block:
  \<open>streamBit n\<close> is the flag at position \<open>n\<close>.
\<close>

datatype streamFlag =
    SfLoc | SfSpeed | SfHeading | SfGear | SfOdometer | SfSOC | SfRange | SfChargePower
  | SfCabinTemp | SfOutsideTemp | SfTpmsFl | SfTpmsFr | SfTpmsRl | SfTpmsRr | SfChargeLimit
  | SfTimeToFull | SfChargerVoltage | SfChargeCurrent | SfChargeState | SfBatteryHeater
  | SfLocked | SfSentry | SfChargeEnergyIn

fun iota :: "streamFlag \<Rightarrow> nat" where
  "iota SfLoc = 0"
| "iota SfSpeed = 1"
| "iota SfHeading = 2"
| "iota SfGear = 3"
| "iota SfOdometer = 4"
| "iota SfSOC = 5"
| "iota SfRange = 6"
| "iota SfChargePower = 7"
| "iota SfCabinTemp = 8"
| "iota SfOutsideTemp = 9"
| "iota SfTpmsFl = 10"
| "iota SfTpmsFr = 11"
| "iota SfTpmsRl = 12"
| "iota SfTpmsRr = 13"
| "iota SfChargeLimit = 14"
| "iota SfTimeToFull = 15"
| "iota SfChargerVoltage = 16"
| "iota SfChargeCurrent = 17"
| "iota SfChargeState = 18"
| "iota SfBatteryHeater = 19"
| "iota SfLocked = 20"
| "iota SfSentry = 21"
| "iota SfChargeEnergyIn = 22"

definition flag :: "streamFlag \<Rightarrow> streamField" where
  "flag f = push_bit (iota f) 1"

abbreviation has_flag :: "streamField \<Rightarrow> streamFlag \<Rightarrow> bool" where
  "has_flag present f \<equiv> has_bit present (flag f)"

lemma iota_less: "iota f < 23"
  by (cases f) simp_all

lemma iota_inj [simp]: "iota f = iota g \<longleftrightarrow> f = g"
  by (cases f; cases g) simp_all

lemma has_flag_bit: "has_flag present f \<longleftrightarrow> bit present (iota f)"
  unfolding flag_def using iota_less [of f] by (intro has_bit_push_bit) simp

lemma has_flag_or [simp]: "has_flag (a OR b) f \<longleftrightarrow> has_flag a f \<or> has_flag b f"
  by (simp add: has_flag_bit bit_or_iff)

lemma flag_bit: "bit (flag g) (iota f) \<longleftrightarrow> g = f"
  unfolding flag_def using iota_less [of f]
  by (auto simp: bit_simps simp del: push_bit_of_1)

lemma has_flag_flag [simp]: "has_flag (flag g) f \<longleftrightarrow> g = f"
  unfolding has_flag_bit by (rule flag_bit)

lemma has_flag_clear [simp]: "has_flag (a AND NOT (flag g)) f \<longleftrightarrow> has_flag a f \<and> g \<noteq> f"
proof -
  have "bit (a AND NOT (flag g)) (iota f) \<longleftrightarrow> bit a (iota f) \<and> \<not> bit (flag g) (iota f)"
    using iota_less [of f] by (simp add: bit_and_iff bit_not_iff)
  then show ?thesis by (simp only: has_flag_bit flag_bit)
qed

lemma flag_nonzero [simp]: "flag f \<noteq> 0"
  using has_flag_flag [of f f] by fastforce

subsection \<open>Empty frames\<close>

definition isZeroish :: "state option \<Rightarrow> bool" where
  "isZeroish so = (case so of None \<Rightarrow> True | Some s \<Rightarrow>
     st_Power s = PowerUnknown \<and> st_Gear s = GearUnknown \<and> st_Location s = None \<and>
     feq (st_SpeedMps s) fzero \<and> feq (st_HeadingDeg s) fzero \<and> st_OdometerMeters s = 0 \<and>
     st_RangeKm s = 0 \<and> feq (st_BatteryLevelPct s) fzero)"

end
