(* ===== verification/Integrity.thy ===== *)
theory Integrity
  imports Vehicle
begin

section \<open>The stream-integrity gate\<close>

text \<open>
  \<^verbatim>\<open>internal/cache/integrity.go\<close>: before a stream frame is merged, each streamed numeric is
  checked against the last trusted value, and the presence bit of an impossible one is
  cleared. The model keeps the four checks as functions on the pair of presence word and
  rejection list that the closure \<^verbatim>\<open>reject\<close> mutates, in the order of the source. The lemmas
  show that the gate only clears bits, which four bits it can clear, what an accepted field
  satisfies, and that a plausible frame passes untouched.
\<close>

subsection \<open>Thresholds, reasons and counters\<close>

definition maxSpeedMps :: f64 where
  "maxSpeedMps = fconst 150"

definition maxGroundSpeedMps :: f64 where
  "maxGroundSpeedMps = fconst 150"

definition odometerSlackMeters :: int where
  "odometerSlackMeters = 2"

definition minElapsed :: duration where
  "minElapsed = Second"

definition minTeleportMeters :: f64 where
  "minTeleportMeters = fconst 100"

datatype integrityReason =
  ReasonOdometerRegress | ReasonGPSTeleport | ReasonSOCRange | ReasonSpeedRange

fun reasonString :: "integrityReason \<Rightarrow> string" where
  "reasonString ReasonOdometerRegress = ''odometer_regress''"
| "reasonString ReasonGPSTeleport = ''gps_teleport''"
| "reasonString ReasonSOCRange = ''soc_range''"
| "reasonString ReasonSpeedRange = ''speed_range''"

definition integrityReasons :: "integrityReason list" where
  "integrityReasons =
     [ReasonOdometerRegress, ReasonGPSTeleport, ReasonSOCRange, ReasonSpeedRange]"

record integrityCounters =
  ic_odometerRegress :: int
  ic_gpsTeleport :: int
  ic_socRange :: int
  ic_speedRange :: int

definition zeroIntegrity :: integrityCounters where
  "zeroIntegrity = \<lparr>ic_odometerRegress = 0, ic_gpsTeleport = 0, ic_socRange = 0, ic_speedRange = 0\<rparr>"

fun integrity_inc :: "integrityReason \<Rightarrow> integrityCounters \<Rightarrow> integrityCounters" where
  "integrity_inc ReasonOdometerRegress c = c\<lparr>ic_odometerRegress := wrap64 (ic_odometerRegress c + 1)\<rparr>"
| "integrity_inc ReasonGPSTeleport c = c\<lparr>ic_gpsTeleport := wrap64 (ic_gpsTeleport c + 1)\<rparr>"
| "integrity_inc ReasonSOCRange c = c\<lparr>ic_socRange := wrap64 (ic_socRange c + 1)\<rparr>"
| "integrity_inc ReasonSpeedRange c = c\<lparr>ic_speedRange := wrap64 (ic_speedRange c + 1)\<rparr>"

definition integritySnapshot :: "integrityCounters option \<Rightarrow> (string \<rightharpoonup> int)" where
  "integritySnapshot co =
     (let out = map_of (map (\<lambda>r. (reasonString r, 0)) integrityReasons) in
      case co of None \<Rightarrow> out
      | Some c \<Rightarrow> out(reasonString ReasonOdometerRegress \<mapsto> ic_odometerRegress c,
          reasonString ReasonGPSTeleport \<mapsto> ic_gpsTeleport c,
          reasonString ReasonSOCRange \<mapsto> ic_socRange c,
          reasonString ReasonSpeedRange \<mapsto> ic_speedRange c))"

subsection \<open>Elapsed time and distance\<close>

definition elapsedSince :: "gotime \<Rightarrow> gotime \<Rightarrow> f64" where
  "elapsedSince since now =
     (let e = time_sub now since; e' = (if e < minElapsed then minElapsed else e)
      in duration_seconds e')"

definition haversineMeters :: "f64 \<Rightarrow> f64 \<Rightarrow> f64 \<Rightarrow> f64 \<Rightarrow> f64" where
  "haversineMeters lat1 lng1 lat2 lng2 =
     (let rad = fconst (pi / 180);
          dLat = fmul (fsub lat2 lat1) rad;
          dLng = fmul (fsub lng2 lng1) rad;
          sLat = math_sin (fdiv dLat (Fin 2));
          sLng = math_sin (fdiv dLng (Fin 2));
          a = fadd (fmul sLat sLat)
            (fmul (fmul (fmul (math_cos (fmul lat1 rad)) (math_cos (fmul lat2 rad))) sLng) sLng)
      in fmul (fconst (6371000 * 2)) (math_atan2 (math_sqrt a) (math_sqrt (fsub (Fin 1) a))))"

subsection \<open>The gate\<close>

type_synonym gateAcc = "streamField \<times> integrityReason list"

fun reject :: "streamFlag \<Rightarrow> integrityReason \<Rightarrow> gateAcc \<Rightarrow> gateAcc" where
  "reject b r (present, reasons) = (present AND NOT (flag b), reasons @ [r])"

definition gateSOC :: "state \<Rightarrow> gateAcc \<Rightarrow> gateAcc" where
  "gateSOC next acc =
     (if has_flag (fst acc) SfSOC \<and>
         (flt (st_BatteryLevelPct next) fzero \<or> flt (Fin 100) (st_BatteryLevelPct next))
      then reject SfSOC ReasonSOCRange acc else acc)"

definition gateSpeed :: "state \<Rightarrow> gateAcc \<Rightarrow> gateAcc" where
  "gateSpeed next acc =
     (if has_flag (fst acc) SfSpeed \<and>
         (flt (st_SpeedMps next) fzero \<or> flt maxSpeedMps (st_SpeedMps next))
      then reject SfSpeed ReasonSpeedRange acc else acc)"

definition gateOdometer :: "state \<Rightarrow> state \<Rightarrow> gotime \<Rightarrow> gotime \<Rightarrow> gateAcc \<Rightarrow> gateAcc" where
  "gateOdometer prev next odoAt now acc =
     (if has_flag (fst acc) SfOdometer \<and> 0 < st_OdometerMeters prev
      then let delta = wrap64 (st_OdometerMeters next - st_OdometerMeters prev) in
        if delta < - odometerSlackMeters then reject SfOdometer ReasonOdometerRegress acc
        else if flt maxGroundSpeedMps (fdiv (i2f delta) (elapsedSince odoAt now))
        then reject SfOdometer ReasonOdometerRegress acc
        else acc
      else acc)"

definition gateGps :: "state \<Rightarrow> state \<Rightarrow> gotime \<Rightarrow> gotime \<Rightarrow> gateAcc \<Rightarrow> gateAcc" where
  "gateGps prev next gpsAt now acc =
     (case (st_Location next, st_Location prev) of
        (Some nl, Some pl) \<Rightarrow>
          if has_flag (fst acc) SfLoc
          then let dist = haversineMeters (loc_Latitude pl) (loc_Longitude pl)
                            (loc_Latitude nl) (loc_Longitude nl) in
            if flt minTeleportMeters dist \<and>
               flt maxGroundSpeedMps (fdiv dist (elapsedSince gpsAt now))
            then reject SfLoc ReasonGPSTeleport acc else acc
          else acc
      | _ \<Rightarrow> acc)"

definition gateStream ::
  "state option \<Rightarrow> state option \<Rightarrow> streamField \<Rightarrow> gotime \<Rightarrow> gotime \<Rightarrow> gotime \<Rightarrow> gateAcc" where
  "gateStream prev next present gpsAt odoAt now =
     (case next of None \<Rightarrow> (present, [])
      | Some n \<Rightarrow>
        let acc = gateSpeed n (gateSOC n (present, [])) in
        (case prev of None \<Rightarrow> acc
         | Some p \<Rightarrow> gateGps p n gpsAt now (gateOdometer p n odoAt now acc)))"

subsection \<open>What each check does to a flag\<close>

lemmas gate_defs = gateStream_def gateSOC_def gateSpeed_def gateOdometer_def gateGps_def

lemma fst_reject [simp]: "fst (reject b r acc) = fst acc AND NOT (flag b)"
  by (cases acc) simp

lemma snd_reject [simp]: "snd (reject b r acc) = snd acc @ [r]"
  by (cases acc) simp

lemma gateSOC_flag:
  "has_flag (fst (gateSOC n acc)) f \<longleftrightarrow> has_flag (fst acc) f \<and>
     (f = SfSOC \<longrightarrow> \<not> flt (st_BatteryLevelPct n) fzero \<and> \<not> flt (Fin 100) (st_BatteryLevelPct n))"
  by (auto simp: gateSOC_def)

lemma gateSpeed_flag:
  "has_flag (fst (gateSpeed n acc)) f \<longleftrightarrow> has_flag (fst acc) f \<and>
     (f = SfSpeed \<longrightarrow> \<not> flt (st_SpeedMps n) fzero \<and> \<not> flt maxSpeedMps (st_SpeedMps n))"
  by (auto simp: gateSpeed_def)

definition odoPlausible :: "state \<Rightarrow> state \<Rightarrow> gotime \<Rightarrow> gotime \<Rightarrow> bool" where
  "odoPlausible prev next odoAt now \<longleftrightarrow> st_OdometerMeters prev \<le> 0 \<or>
     (let delta = wrap64 (st_OdometerMeters next - st_OdometerMeters prev) in
      - odometerSlackMeters \<le> delta \<and>
      \<not> flt maxGroundSpeedMps (fdiv (i2f delta) (elapsedSince odoAt now)))"

definition gpsPlausible :: "state \<Rightarrow> state \<Rightarrow> gotime \<Rightarrow> gotime \<Rightarrow> bool" where
  "gpsPlausible prev next gpsAt now \<longleftrightarrow>
     (case (st_Location next, st_Location prev) of
        (Some nl, Some pl) \<Rightarrow>
          let dist = haversineMeters (loc_Latitude pl) (loc_Longitude pl)
                       (loc_Latitude nl) (loc_Longitude nl) in
          \<not> (flt minTeleportMeters dist \<and> flt maxGroundSpeedMps (fdiv dist (elapsedSince gpsAt now)))
      | _ \<Rightarrow> True)"

lemma gateOdometer_flag:
  "has_flag (fst (gateOdometer p n t now acc)) f \<longleftrightarrow> has_flag (fst acc) f \<and>
     (f = SfOdometer \<longrightarrow> odoPlausible p n t now)"
  by (auto simp: gateOdometer_def odoPlausible_def Let_def not_less not_le)

lemma gateGps_flag:
  "has_flag (fst (gateGps p n t now acc)) f \<longleftrightarrow> has_flag (fst acc) f \<and>
     (f = SfLoc \<longrightarrow> gpsPlausible p n t now)"
  by (auto simp: gateGps_def gpsPlausible_def Let_def split: option.splits)

lemmas gate_flags = gateSOC_flag gateSpeed_flag gateOdometer_flag gateGps_flag

text \<open>The whole gate, flag by flag.\<close>

definition fieldPlausible ::
  "state option \<Rightarrow> state \<Rightarrow> gotime \<Rightarrow> gotime \<Rightarrow> gotime \<Rightarrow> streamFlag \<Rightarrow> bool" where
  "fieldPlausible prev n gpsAt odoAt now f \<longleftrightarrow>
     (f = SfSOC \<longrightarrow> \<not> flt (st_BatteryLevelPct n) fzero \<and> \<not> flt (Fin 100) (st_BatteryLevelPct n)) \<and>
     (f = SfSpeed \<longrightarrow> \<not> flt (st_SpeedMps n) fzero \<and> \<not> flt maxSpeedMps (st_SpeedMps n)) \<and>
     (case prev of None \<Rightarrow> True | Some p \<Rightarrow>
        (f = SfOdometer \<longrightarrow> odoPlausible p n odoAt now) \<and>
        (f = SfLoc \<longrightarrow> gpsPlausible p n gpsAt now))"

lemma gateStream_flag:
  "has_flag (fst (gateStream prev (Some n) present gpsAt odoAt now)) f \<longleftrightarrow>
     has_flag present f \<and> fieldPlausible prev n gpsAt odoAt now f"
  by (auto simp: gateStream_def Let_def fieldPlausible_def gate_flags split: option.split)

lemma gateStream_only_clears:
  "has_flag (fst (gateStream prev next present gpsAt odoAt now)) f \<Longrightarrow> has_flag present f"
  by (cases "next") (auto simp: gateStream_flag, simp add: gateStream_def)

lemma elapsedSince_floor:
  "time_sub now since \<le> Second \<Longrightarrow> elapsedSince since now = duration_seconds Second"
  by (simp add: elapsedSince_def minElapsed_def Let_def)

end
