(* ===== verification/Stores.thy ===== *)
theory Stores
  imports Vehicle
begin

section \<open>Persisted stores: the AsOf marks and the replay ring\<close>

text \<open>
  \<^verbatim>\<open>internal/cache/asofstore.go\<close> and \<^verbatim>\<open>internal/cache/replaybuffer.go\<close>. Each store keeps a
  map in memory and writes it to a JSON file, throttled. The file is part of the model: it is
  missing, unreadable, unparsable or holds a decoded map. \<^verbatim>\<open>json.Marshal\<close>, \<^verbatim>\<open>os.WriteFile\<close>
  and \<^verbatim>\<open>os.Rename\<close> succeed or fail together in the argument \<open>ok\<close> of an operation: the
  temp-file-and-rename protocol means that on any failure the old file is left as it was. The
  clock reading is the argument \<open>now\<close>.

  The interface \<open>persisted\<close> states what the cache relies on: a write never changes what is
  served from memory, and what is read back after a successful flush is what was flushed. Both
  stores interpret it.
\<close>

datatype 'a fileState = FileMissing | FileUnreadable | FileCorrupt | FileData 'a

datatype storeError = ReadError string | ParseError string | WriteError string

subsection \<open>The AsOf store\<close>

definition asofFlushInterval :: duration where
  "asofFlushInterval = 10 * Second"

record asofStore =
  as_path :: string
  as_byID :: "string \<rightharpoonup> gotime"
  as_lastFlushed :: gotime
  as_file :: "(string \<rightharpoonup> gotime) fileState"

definition newAsofStore :: "string \<Rightarrow> (string \<rightharpoonup> gotime) fileState \<Rightarrow> storeError + asofStore" where
  "newAsofStore path file =
     (let s = \<lparr>as_path = path, as_byID = Map.empty, as_lastFlushed = 0, as_file = file\<rparr> in
      if path = '''' then Inr s
      else case file of
        FileMissing \<Rightarrow> Inr s
      | FileUnreadable \<Rightarrow> Inl (ReadError path)
      | FileCorrupt \<Rightarrow> Inl (ParseError path)
      | FileData stored \<Rightarrow> Inr (s\<lparr>as_byID := stored\<rparr>))"

definition asof_Get :: "string \<Rightarrow> asofStore \<Rightarrow> gotime" where
  "asof_Get vid s = (case as_byID s vid of None \<Rightarrow> 0 | Some t \<Rightarrow> t)"

definition asof_persist :: "gotime \<Rightarrow> bool \<Rightarrow> asofStore \<Rightarrow> asofStore" where
  "asof_persist now ok s =
     (if as_path s = '''' then s
      else let s1 = s\<lparr>as_lastFlushed := now\<rparr> in
        if ok then s1\<lparr>as_file := FileData (as_byID s1)\<rparr> else s1)"

definition asof_Advance :: "gotime \<Rightarrow> bool \<Rightarrow> string \<Rightarrow> gotime \<Rightarrow> asofStore \<Rightarrow> asofStore" where
  "asof_Advance now ok vid t s =
     (if \<not> asof_Get vid s < t then s
      else let s1 = s\<lparr>as_byID := (as_byID s)(vid \<mapsto> t)\<rparr> in
        if asofFlushInterval \<le> time_sub now (as_lastFlushed s1) then asof_persist now ok s1 else s1)"

definition asof_Flush :: "gotime \<Rightarrow> bool \<Rightarrow> asofStore \<Rightarrow> asofStore" where
  "asof_Flush now ok s = asof_persist now ok s"

lemmas asof_defs = newAsofStore_def asof_Get_def asof_persist_def asof_Advance_def asof_Flush_def

lemma asof_persist_mem [simp]:
  "as_byID (asof_persist now ok s) = as_byID s" "as_path (asof_persist now ok s) = as_path s"
  by (simp_all add: asof_persist_def Let_def)

lemma asof_Get_persist [simp]: "asof_Get vid (asof_persist now ok s) = asof_Get vid s"
  by (simp add: asof_Get_def)

lemma asof_Get_Advance:
  "asof_Get vid' (asof_Advance now ok vid t s) =
     (if vid' = vid then max (asof_Get vid s) t else asof_Get vid' s)"
  by (auto simp: asof_Advance_def Let_def max_def asof_Get_def split: option.splits)

lemma asof_Advance_path [simp]: "as_path (asof_Advance now ok vid t s) = as_path s"
  by (simp add: asof_Advance_def Let_def)

text \<open>The file never holds a mark ahead of the one in memory.\<close>

definition asof_file_behind :: "asofStore \<Rightarrow> bool" where
  "asof_file_behind s = (case as_file s of
     FileData m \<Rightarrow> (\<forall>vid t. m vid = Some t \<longrightarrow> t \<le> asof_Get vid s) | _ \<Rightarrow> True)"

lemma asof_new_behind: "path \<noteq> '''' \<Longrightarrow> newAsofStore path file = Inr s \<Longrightarrow> asof_file_behind s"
  by (auto simp: asof_defs asof_file_behind_def Let_def split: fileState.splits if_splits)

lemma asof_persist_behind: "asof_file_behind s \<Longrightarrow> asof_file_behind (asof_persist now ok s)"
  by (auto simp: asof_file_behind_def asof_persist_def asof_Get_def Let_def split: fileState.splits option.splits)

lemma asof_Advance_behind:
  assumes "asof_file_behind s" shows "asof_file_behind (asof_Advance now ok vid t s)"
proof (cases "asof_Get vid s < t")
  case True
  have "asof_file_behind (s\<lparr>as_byID := (as_byID s)(vid \<mapsto> t)\<rparr>)"
    using assms True
    by (fastforce simp: asof_file_behind_def asof_Get_def split: fileState.splits option.splits)
  then show ?thesis using True by (simp add: asof_Advance_def Let_def asof_persist_behind)
next
  case False
  with assms show ?thesis by (simp add: asof_Advance_def)
qed

subsection \<open>The replay ring\<close>

definition replayFlushInterval :: duration where
  "replayFlushInterval = 10 * Second"

definition defaultReplayDepth :: int where
  "defaultReplayDepth = 256"

record replayBuffer =
  rb_path :: string
  rb_depth :: int
  rb_byID :: "string \<rightharpoonup> snapshot list"
  rb_lastFlushed :: gotime
  rb_file :: "(string \<rightharpoonup> snapshot list) fileState"

definition trimRing :: "int \<Rightarrow> 'a list \<Rightarrow> 'a list" where
  "trimRing depth ring =
     (if depth < int (length ring) then drop (length ring - nat depth) ring else ring)"

definition newReplayBuffer ::
  "string \<Rightarrow> int \<Rightarrow> (string \<rightharpoonup> snapshot list) fileState \<Rightarrow> storeError + replayBuffer" where
  "newReplayBuffer path depth file =
     (let depth' = (if depth \<le> 0 then defaultReplayDepth else depth);
          b = \<lparr>rb_path = path, rb_depth = depth', rb_byID = Map.empty, rb_lastFlushed = 0,
               rb_file = file\<rparr> in
      if path = '''' then Inr b
      else case file of
        FileMissing \<Rightarrow> Inr b
      | FileUnreadable \<Rightarrow> Inl (ReadError path)
      | FileCorrupt \<Rightarrow> Inl (ParseError path)
      | FileData stored \<Rightarrow> Inr (b\<lparr>rb_byID := (\<lambda>vid. map_option (trimRing depth') (stored vid))\<rparr>))"

definition ringOf :: "string \<Rightarrow> replayBuffer \<Rightarrow> snapshot list" where
  "ringOf vid b = (case rb_byID b vid of None \<Rightarrow> [] | Some r \<Rightarrow> r)"

definition replay_persist :: "gotime \<Rightarrow> bool \<Rightarrow> replayBuffer \<Rightarrow> replayBuffer" where
  "replay_persist now ok b =
     (if rb_path b = '''' then b
      else let b1 = b\<lparr>rb_lastFlushed := now\<rparr> in
        if ok then b1\<lparr>rb_file := FileData (rb_byID b1)\<rparr> else b1)"

definition replay_Append ::
  "gotime \<Rightarrow> bool \<Rightarrow> string \<Rightarrow> snapshot \<Rightarrow> replayBuffer \<Rightarrow> replayBuffer" where
  "replay_Append now ok vid snap b =
     (if rb_path b = '''' then b
      else let ring = trimRing (rb_depth b) (ringOf vid b @ [snap]);
               b1 = b\<lparr>rb_byID := (rb_byID b)(vid \<mapsto> ring)\<rparr> in
        if replayFlushInterval \<le> time_sub now (rb_lastFlushed b1) then replay_persist now ok b1 else b1)"

text \<open>\<^verbatim>\<open>Replay\<close> returns nil for a disabled buffer, an unknown id or an empty ring: the empty list.\<close>

definition replay_Replay :: "string \<Rightarrow> replayBuffer \<Rightarrow> snapshot list" where
  "replay_Replay vid b = (if rb_path b = '''' then [] else ringOf vid b)"

definition replay_Flush :: "gotime \<Rightarrow> bool \<Rightarrow> replayBuffer \<Rightarrow> replayBuffer" where
  "replay_Flush now ok b = replay_persist now ok b"

lemma replay_persist_mem [simp]:
  "rb_byID (replay_persist now ok b) = rb_byID b" "rb_path (replay_persist now ok b) = rb_path b"
  "rb_depth (replay_persist now ok b) = rb_depth b"
  by (simp_all add: replay_persist_def Let_def)

lemma replay_Append_mem [simp]:
  "rb_path (replay_Append now ok vid snap b) = rb_path b"
  "rb_depth (replay_Append now ok vid snap b) = rb_depth b"
  by (simp_all add: replay_Append_def Let_def)

lemma ringOf_persist [simp]: "ringOf vid (replay_persist now ok b) = ringOf vid b"
  by (simp add: ringOf_def)

lemma ringOf_Append:
  "rb_path b \<noteq> '''' \<Longrightarrow> ringOf vid' (replay_Append now ok vid snap b) =
     (if vid' = vid then trimRing (rb_depth b) (ringOf vid b @ [snap]) else ringOf vid' b)"
  by (auto simp: replay_Append_def Let_def ringOf_def)

lemma length_trimRing: "0 \<le> d \<Longrightarrow> int (length (trimRing d xs)) = min d (int (length xs))"
  by (auto simp: trimRing_def)

lemma trimRing_le: "0 \<le> d \<Longrightarrow> length (trimRing d xs) \<le> nat d"
  by (auto simp: trimRing_def)

lemma trimRing_id [simp]: "int (length xs) \<le> d \<Longrightarrow> trimRing d xs = xs"
  by (simp add: trimRing_def)

lemma trimRing_snoc:
  assumes "0 < d"
  shows "trimRing d (trimRing d xs @ [x]) = trimRing d (xs @ [x])"
proof (cases "d < int (length xs)")
  case True
  define n where "n = nat d"
  have n: "0 < n" "n < length xs" "d = int n" using assms True by (auto simp: n_def)
  have "drop 1 (drop (length xs - n) xs @ [x]) = drop (Suc (length xs) - n) (xs @ [x])"
    using n by (simp add: Suc_diff_le)
  then show ?thesis using n by (simp add: trimRing_def)
next
  case False
  then show ?thesis by simp
qed

text \<open>The ring invariant: bounded by the depth, in memory and on disk.\<close>

definition replay_bounded :: "replayBuffer \<Rightarrow> bool" where
  "replay_bounded b \<longleftrightarrow> 0 < rb_depth b \<and> (\<forall>vid. int (length (ringOf vid b)) \<le> rb_depth b)"

lemma replay_new_bounded: "newReplayBuffer path depth file = Inr b \<Longrightarrow> replay_bounded b"
  using trimRing_le [of 256] trimRing_le [of depth]
  by (auto simp: newReplayBuffer_def replay_bounded_def ringOf_def defaultReplayDepth_def
      length_trimRing Let_def split: fileState.splits if_splits option.splits)

lemma replay_Append_bounded:
  assumes "replay_bounded b" shows "replay_bounded (replay_Append now ok vid snap b)"
proof (cases "rb_path b = ''''")
  case True
  with assms show ?thesis by (simp add: replay_Append_def)
next
  case False
  then show ?thesis using assms by (auto simp: replay_bounded_def ringOf_Append length_trimRing)
qed

subsection \<open>The interface and its two implementations\<close>

locale persisted =
  fixes enabled :: "'s \<Rightarrow> bool"
    and read :: "'s \<Rightarrow> 'k \<Rightarrow> 'v"
    and flush :: "gotime \<Rightarrow> bool \<Rightarrow> 's \<Rightarrow> 's"
    and restart :: "'s \<Rightarrow> storeError + 's"
  assumes flush_read: "read (flush now ok s) = read s"
    and flush_enabled: "enabled (flush now ok s) = enabled s"
    and restart_flush: "enabled s \<Longrightarrow> \<exists>s'. restart (flush now True s) = Inr s' \<and> enabled s' \<and> read s' = read s"
begin

text \<open>Any number of flushes, failed or not, then a good one and a restart: nothing is lost.\<close>

lemma flushes_read: "read (fold (\<lambda>(now, ok). flush now ok) fs s) = read s"
  by (induction fs arbitrary: s) (simp_all add: flush_read split_beta)

lemma flushes_enabled: "enabled (fold (\<lambda>(now, ok). flush now ok) fs s) = enabled s"
  by (induction fs arbitrary: s) (simp_all add: flush_enabled split_beta)

lemma restart_after_flushes:
  assumes "enabled s"
  obtains s' where "restart (flush now True (fold (\<lambda>(now, ok). flush now ok) fs s)) = Inr s'"
    and "enabled s'" and "read s' = read s"
  using restart_flush [of "fold (\<lambda>(now, ok). flush now ok) fs s" now] assms
  by (auto simp: flushes_read flushes_enabled)

end

definition asof_restart :: "asofStore \<Rightarrow> storeError + asofStore" where
  "asof_restart s = newAsofStore (as_path s) (as_file s)"

definition replay_restart :: "replayBuffer \<Rightarrow> storeError + replayBuffer" where
  "replay_restart b = newReplayBuffer (rb_path b) (rb_depth b) (rb_file b)"

interpretation asof: persisted "\<lambda>s. as_path s \<noteq> ''''" "\<lambda>s vid. asof_Get vid s" asof_Flush asof_restart
proof
  show "(\<lambda>vid. asof_Get vid (asof_Flush now ok s)) = (\<lambda>vid. asof_Get vid s)" for now ok s
    by (simp add: asof_Flush_def)
  show "(as_path (asof_Flush now ok s) \<noteq> '''') = (as_path s \<noteq> '''')" for now ok s
    by (simp add: asof_Flush_def)
  show "\<exists>s'. asof_restart (asof_Flush now True s) = Inr s' \<and> as_path s' \<noteq> '''' \<and>
      (\<lambda>vid. asof_Get vid s') = (\<lambda>vid. asof_Get vid s)" if "as_path s \<noteq> ''''" for s now
    using that by (simp add: asof_restart_def asof_defs Let_def)
qed

text \<open>A ring store is well formed when it is enabled and its rings obey the bound.\<close>

interpretation replay: persisted "\<lambda>b. rb_path b \<noteq> '''' \<and> replay_bounded b" "\<lambda>b vid. replay_Replay vid b"
  replay_Flush replay_restart
proof
  show "(\<lambda>vid. replay_Replay vid (replay_Flush now ok b)) = (\<lambda>vid. replay_Replay vid b)" for now ok b
    by (auto simp: replay_Flush_def replay_Replay_def)
  show "(rb_path (replay_Flush now ok b) \<noteq> '''' \<and> replay_bounded (replay_Flush now ok b)) =
      (rb_path b \<noteq> '''' \<and> replay_bounded b)" for now ok b
    by (simp add: replay_Flush_def replay_bounded_def)
  fix b :: replayBuffer and now :: gotime
  assume b: "rb_path b \<noteq> '''' \<and> replay_bounded b"
  have trim: "map_option (trimRing (rb_depth b)) (rb_byID b vid) = rb_byID b vid" for vid
    using b by (cases "rb_byID b vid") (auto simp: replay_bounded_def ringOf_def dest: spec [of _ vid])
  obtain b' where r: "replay_restart (replay_Flush now True b) = Inr b'"
      and m: "rb_path b' = rb_path b" "rb_byID b' = rb_byID b"
    using b trim by (auto simp: replay_restart_def newReplayBuffer_def replay_Flush_def
        replay_persist_def replay_bounded_def Let_def)
  have "replay_bounded b'" using r unfolding replay_restart_def by (rule replay_new_bounded)
  with r m b show "\<exists>b'. replay_restart (replay_Flush now True b) = Inr b' \<and>
      (rb_path b' \<noteq> '''' \<and> replay_bounded b') \<and>
      (\<lambda>vid. replay_Replay vid b') = (\<lambda>vid. replay_Replay vid b)"
    by (auto simp: replay_Replay_def ringOf_def)
qed

end
