(* ===== verification/Merge.thy ===== *)
theory Merge
  imports Integrity Trigger Stores
begin

section \<open>The merger: one served snapshot, two writers\<close>

text \<open>
  \<^verbatim>\<open>internal/cache/merge.go\<close>: the per-vehicle \<^verbatim>\<open>Merger\<close> the poll loop and the stream source
  write through. The record \<open>merger\<close> holds the struct's own state; what the mergers share
  through pointers (the integrity and session counters, and the AsOf store behind the
  \<^verbatim>\<open>onAsOf\<close> callback) is the record \<open>cshared\<close>, passed beside it, with None for a nil
  pointer. A subscriber channel is its number of buffered events. The clock and the outcome of
  the store's disk write come in the environment record \<open>cenv\<close>; one clock reading serves all
  the \<^verbatim>\<open>time.Since\<close> calls of one locked operation. Log output is left out.

  Pointers: a snapshot's \<^verbatim>\<open>State\<close> is cloned before it is written (\<^verbatim>\<open>cloneState\<close>), so values
  model it, with one aliasing that shows: \<^verbatim>\<open>commit\<close> gets the snapshot by value but shares its
  \<^verbatim>\<open>State\<close> pointer with the caller's \<^verbatim>\<open>out\<close>, so the returned snapshot sees the liveness
  degradation made in \<^verbatim>\<open>commit\<close> and not the \<^verbatim>\<open>AsOf\<close> and \<^verbatim>\<open>StreamPresent\<close> it stamps.
\<close>

subsection \<open>Streamed fields\<close>

definition subscriberBuf :: nat where
  "subscriberBuf = 4"

definition streamedFields :: "(streamFlag \<times> (state \<Rightarrow> state \<Rightarrow> state)) list" where
  "streamedFields = [
     (SfLoc, \<lambda>d s. d\<lparr>st_Location := st_Location s\<rparr>),
     (SfSpeed, \<lambda>d s. d\<lparr>st_SpeedMps := st_SpeedMps s\<rparr>),
     (SfHeading, \<lambda>d s. d\<lparr>st_HeadingDeg := st_HeadingDeg s\<rparr>),
     (SfGear, \<lambda>d s. d\<lparr>st_Gear := st_Gear s\<rparr>),
     (SfOdometer, \<lambda>d s. d\<lparr>st_OdometerMeters := st_OdometerMeters s\<rparr>),
     (SfSOC, \<lambda>d s. d\<lparr>st_BatteryLevelPct := st_BatteryLevelPct s\<rparr>),
     (SfRange, \<lambda>d s. d\<lparr>st_RangeKm := st_RangeKm s\<rparr>),
     (SfCabinTemp, \<lambda>d s. d\<lparr>st_CabinTempC := st_CabinTempC s\<rparr>),
     (SfOutsideTemp, \<lambda>d s. d\<lparr>st_OutsideTempC := st_OutsideTempC s\<rparr>),
     (SfTpmsFl, \<lambda>d s. d\<lparr>st_TpmsPressureFlBar := st_TpmsPressureFlBar s\<rparr>),
     (SfTpmsFr, \<lambda>d s. d\<lparr>st_TpmsPressureFrBar := st_TpmsPressureFrBar s\<rparr>),
     (SfTpmsRl, \<lambda>d s. d\<lparr>st_TpmsPressureRlBar := st_TpmsPressureRlBar s\<rparr>),
     (SfTpmsRr, \<lambda>d s. d\<lparr>st_TpmsPressureRrBar := st_TpmsPressureRrBar s\<rparr>),
     (SfChargeLimit, \<lambda>d s. d\<lparr>st_BatteryLimitPct := st_BatteryLimitPct s\<rparr>),
     (SfTimeToFull, \<lambda>d s. d\<lparr>st_TimeToEndOfChargeMin := st_TimeToEndOfChargeMin s\<rparr>),
     (SfChargerVoltage, \<lambda>d s. d\<lparr>st_ChargerVoltageV := st_ChargerVoltageV s\<rparr>),
     (SfChargeState, \<lambda>d s. d\<lparr>st_Charger := st_Charger s, st_Plug := st_Plug s\<rparr>),
     (SfBatteryHeater, \<lambda>d s. d\<lparr>st_BatteryHeaterOn := st_BatteryHeaterOn s\<rparr>),
     (SfLocked, \<lambda>d s. d\<lparr>st_DoorFrontLeftLocked := st_DoorFrontLeftLocked s,
        st_DoorFrontRightLocked := st_DoorFrontRightLocked s,
        st_DoorRearLeftLocked := st_DoorRearLeftLocked s,
        st_DoorRearRightLocked := st_DoorRearRightLocked s\<rparr>),
     (SfSentry, \<lambda>d s. d\<lparr>st_GearGuardStatus := st_GearGuardStatus s\<rparr>)]"

definition copyStreamed :: "state \<Rightarrow> state \<Rightarrow> streamField \<Rightarrow> state" where
  "copyStreamed dst src present =
     fold (\<lambda>(b, copy) d. if has_flag present b then copy d src else d) streamedFields dst"

subsection \<open>State\<close>

record merger =
  mg_id :: string
  mg_snap :: snapshot
  mg_subs :: "nat \<rightharpoonup> nat"
  mg_drive :: driveDebouncer
  mg_wake :: wakeDebouncer
  mg_offlineCount :: int
  mg_offlineDriving :: bool
  mg_gpsAt :: gotime
  mg_odoAt :: gotime

record cshared =
  sh_integrity :: "integrityCounters option"
  sh_session :: "sessionCounters option"
  sh_asof :: "asofStore option"

record cenv =
  en_now :: gotime
  en_asofOk :: bool
  en_replayOk :: bool

definition newMerger :: "string \<Rightarrow> merger" where
  "newMerger vid = \<lparr>mg_id = vid, mg_snap = zeroSnapshot, mg_subs = Map.empty, mg_drive = zeroDrive,
     mg_wake = zeroWake, mg_offlineCount = 0, mg_offlineDriving = False, mg_gpsAt = 0, mg_odoAt = 0\<rparr>"

definition newPersistedMerger :: "string \<Rightarrow> gotime \<Rightarrow> merger" where
  "newPersistedMerger vid flr = (newMerger vid)\<lparr>mg_snap := zeroSnapshot\<lparr>sn_AsOf := flr\<rparr>\<rparr>"

subsection \<open>Change detection\<close>

definition locChanged :: "location option \<Rightarrow> location option \<Rightarrow> bool" where
  "locChanged a b =
     (case (a, b) of
        (None, None) \<Rightarrow> False
      | (Some x, Some y) \<Rightarrow>
          fne (loc_Latitude x) (loc_Latitude y) \<or> fne (loc_Longitude x) (loc_Longitude y)
      | _ \<Rightarrow> True)"

definition liveChanged :: "liveSession option \<Rightarrow> liveSession option \<Rightarrow> bool" where
  "liveChanged a b =
     (case (a, b) of
        (None, None) \<Rightarrow> False
      | (Some x, Some y) \<Rightarrow>
          fne (ls_PowerKw x) (ls_PowerKw y) \<or>
          fne (ls_TotalChargedEnergy x) (ls_TotalChargedEnergy y)
      | _ \<Rightarrow> True)"

definition streamChanged :: "snapshot \<Rightarrow> snapshot \<Rightarrow> bool" where
  "streamChanged a b =
     (case (sn_State a, sn_State b) of
        (None, None) \<Rightarrow> False
      | (Some sa, Some sb) \<Rightarrow>
          if st_Power sa \<noteq> st_Power sb \<or> st_Gear sa \<noteq> st_Gear sb \<or>
             fne (st_SpeedMps sa) (st_SpeedMps sb) \<or> fne (st_HeadingDeg sa) (st_HeadingDeg sb) \<or>
             st_OdometerMeters sa \<noteq> st_OdometerMeters sb \<or> st_RangeKm sa \<noteq> st_RangeKm sb \<or>
             fne (st_BatteryLevelPct sa) (st_BatteryLevelPct sb)
          then True
          else if locChanged (st_Location sa) (st_Location sb) then True
          else liveChanged (sn_Live a) (sn_Live b)
      | _ \<Rightarrow> True)"

definition maxTime :: "gotime list \<Rightarrow> gotime" where
  "maxTime ts = fold (\<lambda>t latest. if latest < t then t else latest) ts 0"

definition powerOf :: "snapshot \<Rightarrow> power" where
  "powerOf s = (case sn_State s of None \<Rightarrow> PowerUnknown | Some st \<Rightarrow> st_Power st)"

subsection \<open>Commit\<close>

definition notify :: "(nat \<rightharpoonup> nat) \<Rightarrow> (nat \<rightharpoonup> nat)" where
  "notify subs = (\<lambda>ch. map_option (\<lambda>n. if n < subscriberBuf then n + 1 else n) (subs ch))"

text \<open>The degradation of a stalled stream, on the snapshot to be stored.\<close>

definition degradeStale :: "gotime \<Rightarrow> duration \<Rightarrow> snapshot \<Rightarrow> snapshot" where
  "degradeStale now staleAfter snap =
     (if 0 < staleAfter \<and> \<not> is_zero_time (sn_StreamFields snap) \<and>
         staleAfter < time_sub now (sn_StreamFields snap)
      then
        let s1 = snap\<lparr>sn_StreamPresent := 0\<rparr>;
            pollStale = (is_zero_time (sn_FetchedAt s1) \<or> staleAfter < time_sub now (sn_FetchedAt s1)) in
        (case sn_State s1 of
           Some st \<Rightarrow> if pollStale \<and> st_Power st = PowerOnline
             then s1\<lparr>sn_State := Some (st\<lparr>st_Power := PowerOffline\<rparr>)\<rparr> else s1
         | None \<Rightarrow> s1)
      else snap)"

definition commit ::
  "cenv \<Rightarrow> snapshot \<Rightarrow> duration \<Rightarrow> merger \<times> cshared \<Rightarrow> bool \<times> merger \<times> cshared" where
  "commit e snap staleAfter ms =
     (let (m, sh) = ms;
          asOf = maxTime [sn_AsOf (mg_snap m), sn_FetchedAt snap, sn_StreamFields snap];
          snap1 = snap\<lparr>sn_AsOf := asOf\<rparr>;
          sh1 = sh\<lparr>sh_asof := map_option (asof_Advance (en_now e) (en_asofOk e) (mg_id m) asOf) (sh_asof sh)\<rparr>;
          snap2 = degradeStale (en_now e) staleAfter snap1;
          changed = streamChanged (mg_snap m) snap2;
          m1 = m\<lparr>mg_snap := snap2, mg_subs := (if changed then notify (mg_subs m) else mg_subs m)\<rparr>
      in (changed, m1, sh1))"

subsection \<open>The poll path\<close>

definition offlineSleepConfirmPolls :: int where
  "offlineSleepConfirmPolls = 2"

definition classifyPollLiveness :: "state \<Rightarrow> snapshot \<Rightarrow> merger \<Rightarrow> state \<times> merger" where
  "classifyPollLiveness now prev m =
     (if st_Power now \<noteq> PowerOffline then (now, m\<lparr>mg_offlineCount := 0, mg_offlineDriving := False\<rparr>)
      else
        let m1 = (if mg_offlineCount m = 0 then m\<lparr>mg_offlineDriving := inDrive (gearOf prev)\<rparr> else m);
            m2 = m1\<lparr>mg_offlineCount := wrap64 (mg_offlineCount m1 + 1)\<rparr> in
        (if \<not> mg_offlineDriving m2 \<and> offlineSleepConfirmPolls \<le> mg_offlineCount m2
         then now\<lparr>st_Power := PowerSleep\<rparr> else now, m2))"

definition streamFresher :: "snapshot \<Rightarrow> snapshot \<Rightarrow> bool" where
  "streamFresher prev pollSnap \<longleftrightarrow> \<not> is_zero_time (sn_StreamFields prev) \<and>
     sn_FetchedAt pollSnap < sn_StreamFields prev \<and>
     sn_State prev \<noteq> None \<and> sn_State pollSnap \<noteq> None"

definition protectStreamed :: "snapshot \<Rightarrow> snapshot \<Rightarrow> snapshot" where
  "protectStreamed prev out =
     (case (sn_State prev, sn_State out) of
        (Some ps, Some os) \<Rightarrow>
          out\<lparr>sn_State := Some (copyStreamed os ps (sn_StreamPresent prev)),
              sn_Live := (case sn_Live prev of None \<Rightarrow> sn_Live out | Some l \<Rightarrow> Some l)\<rparr>
      | _ \<Rightarrow> out)"

definition mergePoll ::
  "cenv \<Rightarrow> snapshot \<Rightarrow> duration \<Rightarrow> merger \<times> cshared \<Rightarrow> snapshot \<times> merger \<times> cshared" where
  "mergePoll e pollSnap staleAfter ms =
     (let (m, sh) = ms;
          prev = mg_snap m;
          out0 = pollSnap\<lparr>sn_StreamFields := sn_StreamFields prev,
                          sn_StreamPresent := sn_StreamPresent prev\<rparr>;
          fresher = streamFresher prev pollSnap;
          out1 = (if fresher then protectStreamed prev out0 else out0);
          streamHoldsLoc = (fresher \<and> has_flag (sn_StreamPresent prev) SfLoc);
          streamHoldsOdo = (fresher \<and> has_flag (sn_StreamPresent prev) SfOdometer);
          (out2, m1) = (case sn_State out1 of
             None \<Rightarrow> (out1, m)
           | Some st \<Rightarrow>
               let ma = (if \<not> streamHoldsLoc \<and> st_Location st \<noteq> None
                         then m\<lparr>mg_gpsAt := sn_FetchedAt pollSnap\<rparr> else m);
                   mb = (if \<not> streamHoldsOdo \<and> 0 < st_OdometerMeters st
                         then ma\<lparr>mg_odoAt := sn_FetchedAt pollSnap\<rparr> else ma);
                   (st1, mc) = classifyPollLiveness st prev mb
               in (out1\<lparr>sn_State := Some st1\<rparr>, mc));
          (_, m2, sh2) = commit e out2 staleAfter (m1, sh)
      in (out2\<lparr>sn_State := sn_State (mg_snap m2)\<rparr>, m2, sh2))"

subsection \<open>The stream path\<close>

definition gate ::
  "state option \<Rightarrow> state option \<Rightarrow> streamField \<Rightarrow> gotime \<Rightarrow> gotime \<Rightarrow> gotime \<Rightarrow> cshared \<Rightarrow>
     streamField \<times> cshared" where
  "gate prev next present gpsAt odoAt now sh =
     (case sh_integrity sh of
        None \<Rightarrow> (present, sh)
      | Some c \<Rightarrow>
          let (gated, reasons) = gateStream prev next present gpsAt odoAt now
          in (gated, sh\<lparr>sh_integrity := Some (fold integrity_inc reasons c)\<rparr>))"

text \<open>The live session after a frame: only the streamed numbers it carries are updated.\<close>

definition mergeLive ::
  "streamField \<Rightarrow> liveSession option \<Rightarrow> liveSession option \<Rightarrow> liveSession option" where
  "mergeLive present streamLive outLive =
     (case streamLive of
        None \<Rightarrow> outLive
      | Some sl \<Rightarrow>
          let hasPower = (has_flag present SfChargePower \<and> fne (ls_PowerKw sl) fzero);
              hasCurrent = has_flag present SfChargeCurrent;
              hasEnergy = has_flag present SfChargeEnergyIn in
          if hasPower \<or> hasCurrent \<or> hasEnergy
          then (case outLive of
              None \<Rightarrow> Some sl
            | Some ol \<Rightarrow>
                let m1 = (if hasPower then ol\<lparr>ls_PowerKw := ls_PowerKw sl\<rparr> else ol);
                    m2 = (if hasCurrent then m1\<lparr>ls_CurrentA := ls_CurrentA sl\<rparr> else m1);
                    m3 = (if hasEnergy then m2\<lparr>ls_TotalChargedEnergy := ls_TotalChargedEnergy sl\<rparr> else m2)
                in Some m3)
          else outLive)"

text \<open>The first frame of a vehicle, and a frame on top of a served snapshot.\<close>

definition streamFirst :: "snapshot \<Rightarrow> streamField \<Rightarrow> snapshot" where
  "streamFirst streamSnap present =
     streamSnap\<lparr>
       sn_State := Some (case sn_State streamSnap of
           None \<Rightarrow> zeroState
         | Some ss \<Rightarrow> copyStreamed (zeroState\<lparr>st_Power := st_Power ss\<rparr>) ss present),
       sn_StreamPresent := present,
       sn_StreamFields := sn_FetchedAt streamSnap\<rparr>"

definition streamOnto :: "snapshot \<Rightarrow> state \<Rightarrow> snapshot \<Rightarrow> streamField \<Rightarrow> snapshot" where
  "streamOnto prev ps streamSnap present =
     prev\<lparr>
       sn_State := Some (case sn_State streamSnap of
           None \<Rightarrow> ps
         | Some ss \<Rightarrow>
             let c = copyStreamed ps ss present in
             if st_Power c = PowerUnknown \<or> st_Power c = PowerOffline
             then c\<lparr>st_Power := PowerOnline\<rparr> else c),
       sn_StreamFields := sn_FetchedAt streamSnap,
       sn_StreamPresent := sn_StreamPresent prev OR present,
       sn_Live := mergeLive present (sn_Live streamSnap) (sn_Live prev)\<rparr>"

definition mergeStreamLocked ::
  "cenv \<Rightarrow> snapshot \<Rightarrow> duration \<Rightarrow> merger \<times> cshared \<Rightarrow> snapshot \<times> merger \<times> cshared" where
  "mergeStreamLocked e streamSnap staleAfter ms =
     (let (m, sh) = ms;
          prev = mg_snap m;
          (present, sh1) = gate (sn_State prev) (sn_State streamSnap) (sn_StreamPresent streamSnap)
             (mg_gpsAt m) (mg_odoAt m) (sn_FetchedAt streamSnap) sh;
          m1 = (if has_flag present SfLoc then m\<lparr>mg_gpsAt := sn_FetchedAt streamSnap\<rparr> else m);
          m2 = (if has_flag present SfOdometer then m1\<lparr>mg_odoAt := sn_FetchedAt streamSnap\<rparr> else m1);
          out = (case sn_State prev of
              None \<Rightarrow> streamFirst streamSnap present
            | Some ps \<Rightarrow> streamOnto prev ps streamSnap present);
          (_, m3, sh3) = commit e out staleAfter (m2, sh1)
      in (out\<lparr>sn_State := sn_State (mg_snap m3)\<rparr>, m3, sh3))"

definition mergeStream ::
  "cenv \<Rightarrow> snapshot \<Rightarrow> duration \<Rightarrow> merger \<times> cshared \<Rightarrow> snapshot \<times> merger \<times> cshared" where
  "mergeStream e streamSnap staleAfter ms = mergeStreamLocked e streamSnap staleAfter ms"

definition mergeStreamDetect ::
  "cenv \<Rightarrow> snapshot \<Rightarrow> duration \<Rightarrow> merger \<times> cshared \<Rightarrow> (snapshot \<times> bool) \<times> merger \<times> cshared" where
  "mergeStreamDetect e streamSnap staleAfter ms =
     (let prev = mg_snap (fst ms);
          (merged, m1, sh1) = mergeStreamLocked e streamSnap staleAfter ms;
          (drive, dd) = drive_boundary prev merged (sn_FetchedAt streamSnap) (mg_drive m1);
          m2 = m1\<lparr>mg_drive := dd\<rparr>;
          endCharge = chargeEnded prev streamSnap;
          started = chargeStarted prev streamSnap;
          boundary = (drive \<or> endCharge);
          (fireWake, m3) = (if \<not> boundary
             then (let (b, w) = wake_frame (asleep prev) (sn_FetchedAt streamSnap) (mg_wake m2)
                   in (b, m2\<lparr>mg_wake := w\<rparr>))
             else (False, m2));
          ses1 = (if drive then count_driveBoundary merged (sh_session sh1) else sh_session sh1);
          ses2 = (if endCharge then chargeClosed ses1
                  else if started then chargeOpened ses1 else ses1)
      in ((merged, boundary \<or> fireWake), m3, sh1\<lparr>sh_session := ses2\<rparr>))"

text \<open>The two detectors as \<^verbatim>\<open>Merger\<close> methods of their own, in \<^verbatim>\<open>trigger.go\<close>.\<close>

definition merger_SessionBoundary ::
  "snapshot \<Rightarrow> snapshot \<Rightarrow> snapshot \<Rightarrow> gotime \<Rightarrow> merger \<times> cshared \<Rightarrow> bool \<times> merger \<times> cshared" where
  "merger_SessionBoundary prev raw now t ms =
     (let (m, sh) = ms;
          (drive, dd) = drive_boundary prev now t (mg_drive m);
          ses1 = (if drive then count_driveBoundary now (sh_session sh) else sh_session sh);
          endCharge = chargeEnded prev raw;
          ses2 = (if endCharge then chargeClosed ses1
                  else if chargeStarted prev raw then chargeOpened ses1 else ses1)
      in (drive \<or> endCharge, m\<lparr>mg_drive := dd\<rparr>, sh\<lparr>sh_session := ses2\<rparr>))"

definition merger_WakeBoundary :: "snapshot \<Rightarrow> gotime \<Rightarrow> merger \<Rightarrow> bool \<times> merger" where
  "merger_WakeBoundary prev t m =
     (let (b, w) = wake_frame (asleep prev) t (mg_wake m) in (b, m\<lparr>mg_wake := w\<rparr>))"

subsection \<open>Readers and subscribers\<close>

definition merger_Latest :: "merger \<Rightarrow> snapshot" where
  "merger_Latest m = mg_snap m"

definition merger_LastStreamAt :: "merger \<Rightarrow> gotime" where
  "merger_LastStreamAt m = sn_StreamFields (mg_snap m)"

definition merger_Subscribe :: "nat \<Rightarrow> merger \<Rightarrow> merger" where
  "merger_Subscribe ch m = m\<lparr>mg_subs := (mg_subs m)(ch \<mapsto> 0)\<rparr>"

definition merger_Unsubscribe :: "nat \<Rightarrow> merger \<Rightarrow> merger" where
  "merger_Unsubscribe ch m = m\<lparr>mg_subs := (mg_subs m)(ch := None)\<rparr>"

end
