(* ===== verification/MergeLaws.thy ===== *)
theory MergeLaws
  imports Merge
begin

section \<open>Laws of the merger\<close>

text \<open>
  Which fields a copy touches, what a commit stamps, and what a poll and a frame make of the served snapshot, field by
  field.
\<close>

subsection \<open>Copying streamed fields\<close>

text \<open>
  One lemma for the whole table: a selector the table writes under one flag reads the source
  when that flag is present and the destination otherwise.
\<close>

lemma fold_copy_sel:
  assumes "\<forall>(b, c) \<in> set xs. \<forall>d. g (c d src) = (if b = f then g src else g d)"
  shows "g (fold (\<lambda>(b, copy) d. if has_flag p b then copy d src else d) xs dst) =
    (if has_flag p f \<and> f \<in> fst ` set xs then g src else g dst)"
  using assms
proof (induction xs arbitrary: dst)
  case (Cons x xs)
  obtain b c where x: "x = (b, c)" by fastforce
  have "g (if has_flag p b then c dst src else dst) =
      (if has_flag p b \<and> b = f then g src else g dst)"
    using Cons.prems x by auto
  then show ?case using Cons.IH [of "if has_flag p b then c dst src else dst"] Cons.prems x by auto
qed simp

lemma fold_copy_other:
  assumes "\<forall>(b, c) \<in> set xs. \<forall>d. g (c d src) = g d"
  shows "g (fold (\<lambda>(b, copy) d. if has_flag p b then copy d src else d) xs dst) = g dst"
  using assms by (induction xs arbitrary: dst) (auto split: prod.splits)

lemma copyStreamed_field:
  assumes "\<forall>(b, c) \<in> set streamedFields. \<forall>d. g (c d s) = (if b = f then g s else g d)"
    and "f \<in> fst ` set streamedFields"
  shows "g (copyStreamed d s p) = (if has_flag p f then g s else g d)"
  unfolding copyStreamed_def using fold_copy_sel [OF assms(1)] assms(2) by simp

lemma copyStreamed_other:
  assumes "\<forall>(b, c) \<in> set streamedFields. \<forall>d. g (c d s) = g d"
  shows "g (copyStreamed d s p) = g d"
  unfolding copyStreamed_def by (rule fold_copy_other [OF assms])

lemma copyStreamed_Location [simp]:
  "st_Location (copyStreamed d s p) = (if has_flag p SfLoc then st_Location s else st_Location d)"
  by (rule copyStreamed_field [where g = st_Location]) (simp_all add: streamedFields_def)

lemma copyStreamed_SpeedMps [simp]:
  "st_SpeedMps (copyStreamed d s p) = (if has_flag p SfSpeed then st_SpeedMps s else st_SpeedMps d)"
  by (rule copyStreamed_field [where g = st_SpeedMps]) (simp_all add: streamedFields_def)

lemma copyStreamed_HeadingDeg [simp]:
  "st_HeadingDeg (copyStreamed d s p) = (if has_flag p SfHeading then st_HeadingDeg s else st_HeadingDeg d)"
  by (rule copyStreamed_field [where g = st_HeadingDeg]) (simp_all add: streamedFields_def)

lemma copyStreamed_Gear [simp]:
  "st_Gear (copyStreamed d s p) = (if has_flag p SfGear then st_Gear s else st_Gear d)"
  by (rule copyStreamed_field [where g = st_Gear]) (simp_all add: streamedFields_def)

lemma copyStreamed_OdometerMeters [simp]:
  "st_OdometerMeters (copyStreamed d s p) = (if has_flag p SfOdometer then st_OdometerMeters s else st_OdometerMeters d)"
  by (rule copyStreamed_field [where g = st_OdometerMeters]) (simp_all add: streamedFields_def)

lemma copyStreamed_BatteryLevelPct [simp]:
  "st_BatteryLevelPct (copyStreamed d s p) = (if has_flag p SfSOC then st_BatteryLevelPct s else st_BatteryLevelPct d)"
  by (rule copyStreamed_field [where g = st_BatteryLevelPct]) (simp_all add: streamedFields_def)

lemma copyStreamed_RangeKm [simp]:
  "st_RangeKm (copyStreamed d s p) = (if has_flag p SfRange then st_RangeKm s else st_RangeKm d)"
  by (rule copyStreamed_field [where g = st_RangeKm]) (simp_all add: streamedFields_def)

lemma copyStreamed_CabinTempC [simp]:
  "st_CabinTempC (copyStreamed d s p) = (if has_flag p SfCabinTemp then st_CabinTempC s else st_CabinTempC d)"
  by (rule copyStreamed_field [where g = st_CabinTempC]) (simp_all add: streamedFields_def)

lemma copyStreamed_OutsideTempC [simp]:
  "st_OutsideTempC (copyStreamed d s p) = (if has_flag p SfOutsideTemp then st_OutsideTempC s else st_OutsideTempC d)"
  by (rule copyStreamed_field [where g = st_OutsideTempC]) (simp_all add: streamedFields_def)

lemma copyStreamed_TpmsPressureFlBar [simp]:
  "st_TpmsPressureFlBar (copyStreamed d s p) = (if has_flag p SfTpmsFl then st_TpmsPressureFlBar s else st_TpmsPressureFlBar d)"
  by (rule copyStreamed_field [where g = st_TpmsPressureFlBar]) (simp_all add: streamedFields_def)

lemma copyStreamed_TpmsPressureFrBar [simp]:
  "st_TpmsPressureFrBar (copyStreamed d s p) = (if has_flag p SfTpmsFr then st_TpmsPressureFrBar s else st_TpmsPressureFrBar d)"
  by (rule copyStreamed_field [where g = st_TpmsPressureFrBar]) (simp_all add: streamedFields_def)

lemma copyStreamed_TpmsPressureRlBar [simp]:
  "st_TpmsPressureRlBar (copyStreamed d s p) = (if has_flag p SfTpmsRl then st_TpmsPressureRlBar s else st_TpmsPressureRlBar d)"
  by (rule copyStreamed_field [where g = st_TpmsPressureRlBar]) (simp_all add: streamedFields_def)

lemma copyStreamed_TpmsPressureRrBar [simp]:
  "st_TpmsPressureRrBar (copyStreamed d s p) = (if has_flag p SfTpmsRr then st_TpmsPressureRrBar s else st_TpmsPressureRrBar d)"
  by (rule copyStreamed_field [where g = st_TpmsPressureRrBar]) (simp_all add: streamedFields_def)

lemma copyStreamed_BatteryLimitPct [simp]:
  "st_BatteryLimitPct (copyStreamed d s p) = (if has_flag p SfChargeLimit then st_BatteryLimitPct s else st_BatteryLimitPct d)"
  by (rule copyStreamed_field [where g = st_BatteryLimitPct]) (simp_all add: streamedFields_def)

lemma copyStreamed_TimeToEndOfChargeMin [simp]:
  "st_TimeToEndOfChargeMin (copyStreamed d s p) = (if has_flag p SfTimeToFull then st_TimeToEndOfChargeMin s else st_TimeToEndOfChargeMin d)"
  by (rule copyStreamed_field [where g = st_TimeToEndOfChargeMin]) (simp_all add: streamedFields_def)

lemma copyStreamed_ChargerVoltageV [simp]:
  "st_ChargerVoltageV (copyStreamed d s p) = (if has_flag p SfChargerVoltage then st_ChargerVoltageV s else st_ChargerVoltageV d)"
  by (rule copyStreamed_field [where g = st_ChargerVoltageV]) (simp_all add: streamedFields_def)

lemma copyStreamed_Charger [simp]:
  "st_Charger (copyStreamed d s p) = (if has_flag p SfChargeState then st_Charger s else st_Charger d)"
  by (rule copyStreamed_field [where g = st_Charger]) (simp_all add: streamedFields_def)

lemma copyStreamed_Plug [simp]:
  "st_Plug (copyStreamed d s p) = (if has_flag p SfChargeState then st_Plug s else st_Plug d)"
  by (rule copyStreamed_field [where g = st_Plug]) (simp_all add: streamedFields_def)

lemma copyStreamed_BatteryHeaterOn [simp]:
  "st_BatteryHeaterOn (copyStreamed d s p) = (if has_flag p SfBatteryHeater then st_BatteryHeaterOn s else st_BatteryHeaterOn d)"
  by (rule copyStreamed_field [where g = st_BatteryHeaterOn]) (simp_all add: streamedFields_def)

lemma copyStreamed_DoorFrontLeftLocked [simp]:
  "st_DoorFrontLeftLocked (copyStreamed d s p) = (if has_flag p SfLocked then st_DoorFrontLeftLocked s else st_DoorFrontLeftLocked d)"
  by (rule copyStreamed_field [where g = st_DoorFrontLeftLocked]) (simp_all add: streamedFields_def)

lemma copyStreamed_DoorFrontRightLocked [simp]:
  "st_DoorFrontRightLocked (copyStreamed d s p) = (if has_flag p SfLocked then st_DoorFrontRightLocked s else st_DoorFrontRightLocked d)"
  by (rule copyStreamed_field [where g = st_DoorFrontRightLocked]) (simp_all add: streamedFields_def)

lemma copyStreamed_DoorRearLeftLocked [simp]:
  "st_DoorRearLeftLocked (copyStreamed d s p) = (if has_flag p SfLocked then st_DoorRearLeftLocked s else st_DoorRearLeftLocked d)"
  by (rule copyStreamed_field [where g = st_DoorRearLeftLocked]) (simp_all add: streamedFields_def)

lemma copyStreamed_DoorRearRightLocked [simp]:
  "st_DoorRearRightLocked (copyStreamed d s p) = (if has_flag p SfLocked then st_DoorRearRightLocked s else st_DoorRearRightLocked d)"
  by (rule copyStreamed_field [where g = st_DoorRearRightLocked]) (simp_all add: streamedFields_def)

lemma copyStreamed_GearGuardStatus [simp]:
  "st_GearGuardStatus (copyStreamed d s p) = (if has_flag p SfSentry then st_GearGuardStatus s else st_GearGuardStatus d)"
  by (rule copyStreamed_field [where g = st_GearGuardStatus]) (simp_all add: streamedFields_def)

text \<open>Every other field is the destination's: the poll owns it.\<close>

lemma copyStreamed_poll_owned [simp]:
  "st_Power (copyStreamed d s p) = st_Power d"
  "st_UserPresent (copyStreamed d s p) = st_UserPresent d"
  "st_CloudOnline (copyStreamed d s p) = st_CloudOnline d"
  "st_LastUpdate (copyStreamed d s p) = st_LastUpdate d"
  "st_CloudLastSync (copyStreamed d s p) = st_CloudLastSync d"
  "st_DrivePowerKw (copyStreamed d s p) = st_DrivePowerKw d"
  "st_ChargePortOpen (copyStreamed d s p) = st_ChargePortOpen d"
  "st_DriverSetpointC (copyStreamed d s p) = st_DriverSetpointC d"
  "st_SeatHeatFrontLeft (copyStreamed d s p) = st_SeatHeatFrontLeft d"
  "st_SeatHeatFrontRight (copyStreamed d s p) = st_SeatHeatFrontRight d"
  "st_SeatHeatRearLeft (copyStreamed d s p) = st_SeatHeatRearLeft d"
  "st_SeatHeatRearRight (copyStreamed d s p) = st_SeatHeatRearRight d"
  "st_SteeringWheelHeat (copyStreamed d s p) = st_SteeringWheelHeat d"
  "st_DefrostStatus (copyStreamed d s p) = st_DefrostStatus d"
  "st_PreconditioningStatus (copyStreamed d s p) = st_PreconditioningStatus d"
  "st_CarType (copyStreamed d s p) = st_CarType d"
  "st_TrimBadging (copyStreamed d s p) = st_TrimBadging d"
  "st_TpmsFrontLeft (copyStreamed d s p) = st_TpmsFrontLeft d"
  "st_TpmsFrontRight (copyStreamed d s p) = st_TpmsFrontRight d"
  "st_TpmsRearLeft (copyStreamed d s p) = st_TpmsRearLeft d"
  "st_TpmsRearRight (copyStreamed d s p) = st_TpmsRearRight d"
  "st_DoorFrontLeftClosed (copyStreamed d s p) = st_DoorFrontLeftClosed d"
  "st_DoorFrontRightClosed (copyStreamed d s p) = st_DoorFrontRightClosed d"
  "st_DoorRearLeftClosed (copyStreamed d s p) = st_DoorRearLeftClosed d"
  "st_DoorRearRightClosed (copyStreamed d s p) = st_DoorRearRightClosed d"
  "st_WindowFrontLeftClosed (copyStreamed d s p) = st_WindowFrontLeftClosed d"
  "st_WindowFrontRightClosed (copyStreamed d s p) = st_WindowFrontRightClosed d"
  "st_WindowRearLeftClosed (copyStreamed d s p) = st_WindowRearLeftClosed d"
  "st_WindowRearRightClosed (copyStreamed d s p) = st_WindowRearRightClosed d"
  "st_FrunkClosed (copyStreamed d s p) = st_FrunkClosed d"
  "st_LiftgateClosed (copyStreamed d s p) = st_LiftgateClosed d"
  "st_TonneauClosed (copyStreamed d s p) = st_TonneauClosed d"
  "st_TailgateClosed (copyStreamed d s p) = st_TailgateClosed d"
  "st_OtaVersion (copyStreamed d s p) = st_OtaVersion d"
  "st_OtaAvailableVersion (copyStreamed d s p) = st_OtaAvailableVersion d"
  "st_OtaStatus (copyStreamed d s p) = st_OtaStatus d"
  "st_OtaInstallProgress (copyStreamed d s p) = st_OtaInstallProgress d"
  "st_OtaDownloadProgress (copyStreamed d s p) = st_OtaDownloadProgress d"
  by (rule copyStreamed_other, simp add: streamedFields_def)+

text \<open>
  Agreement of two states on the fields behind one flag, and on every field the poll owns
  (all but the streamed ones and the liveness, which both writers set).
\<close>

fun streamedEq :: "streamFlag \<Rightarrow> state \<Rightarrow> state \<Rightarrow> bool" where
  "streamedEq SfLoc s t = (st_Location s = st_Location t)"
| "streamedEq SfSpeed s t = (st_SpeedMps s = st_SpeedMps t)"
| "streamedEq SfHeading s t = (st_HeadingDeg s = st_HeadingDeg t)"
| "streamedEq SfGear s t = (st_Gear s = st_Gear t)"
| "streamedEq SfOdometer s t = (st_OdometerMeters s = st_OdometerMeters t)"
| "streamedEq SfSOC s t = (st_BatteryLevelPct s = st_BatteryLevelPct t)"
| "streamedEq SfRange s t = (st_RangeKm s = st_RangeKm t)"
| "streamedEq SfCabinTemp s t = (st_CabinTempC s = st_CabinTempC t)"
| "streamedEq SfOutsideTemp s t = (st_OutsideTempC s = st_OutsideTempC t)"
| "streamedEq SfTpmsFl s t = (st_TpmsPressureFlBar s = st_TpmsPressureFlBar t)"
| "streamedEq SfTpmsFr s t = (st_TpmsPressureFrBar s = st_TpmsPressureFrBar t)"
| "streamedEq SfTpmsRl s t = (st_TpmsPressureRlBar s = st_TpmsPressureRlBar t)"
| "streamedEq SfTpmsRr s t = (st_TpmsPressureRrBar s = st_TpmsPressureRrBar t)"
| "streamedEq SfChargeLimit s t = (st_BatteryLimitPct s = st_BatteryLimitPct t)"
| "streamedEq SfTimeToFull s t = (st_TimeToEndOfChargeMin s = st_TimeToEndOfChargeMin t)"
| "streamedEq SfChargerVoltage s t = (st_ChargerVoltageV s = st_ChargerVoltageV t)"
| "streamedEq SfChargeState s t = (st_Charger s = st_Charger t \<and> st_Plug s = st_Plug t)"
| "streamedEq SfBatteryHeater s t = (st_BatteryHeaterOn s = st_BatteryHeaterOn t)"
| "streamedEq SfLocked s t = (st_DoorFrontLeftLocked s = st_DoorFrontLeftLocked t \<and> st_DoorFrontRightLocked s = st_DoorFrontRightLocked t \<and> st_DoorRearLeftLocked s = st_DoorRearLeftLocked t \<and> st_DoorRearRightLocked s = st_DoorRearRightLocked t)"
| "streamedEq SfSentry s t = (st_GearGuardStatus s = st_GearGuardStatus t)"
| "streamedEq SfChargePower s t = True"
| "streamedEq SfChargeCurrent s t = True"
| "streamedEq SfChargeEnergyIn s t = True"

definition pollOwnedEq :: "state \<Rightarrow> state \<Rightarrow> bool" where
  "pollOwnedEq s t \<longleftrightarrow>
     st_UserPresent s = st_UserPresent t \<and>
     st_CloudOnline s = st_CloudOnline t \<and>
     st_LastUpdate s = st_LastUpdate t \<and>
     st_CloudLastSync s = st_CloudLastSync t \<and>
     st_DrivePowerKw s = st_DrivePowerKw t \<and>
     st_ChargePortOpen s = st_ChargePortOpen t \<and>
     st_DriverSetpointC s = st_DriverSetpointC t \<and>
     st_SeatHeatFrontLeft s = st_SeatHeatFrontLeft t \<and>
     st_SeatHeatFrontRight s = st_SeatHeatFrontRight t \<and>
     st_SeatHeatRearLeft s = st_SeatHeatRearLeft t \<and>
     st_SeatHeatRearRight s = st_SeatHeatRearRight t \<and>
     st_SteeringWheelHeat s = st_SteeringWheelHeat t \<and>
     st_DefrostStatus s = st_DefrostStatus t \<and>
     st_PreconditioningStatus s = st_PreconditioningStatus t \<and>
     st_CarType s = st_CarType t \<and>
     st_TrimBadging s = st_TrimBadging t \<and>
     st_TpmsFrontLeft s = st_TpmsFrontLeft t \<and>
     st_TpmsFrontRight s = st_TpmsFrontRight t \<and>
     st_TpmsRearLeft s = st_TpmsRearLeft t \<and>
     st_TpmsRearRight s = st_TpmsRearRight t \<and>
     st_DoorFrontLeftClosed s = st_DoorFrontLeftClosed t \<and>
     st_DoorFrontRightClosed s = st_DoorFrontRightClosed t \<and>
     st_DoorRearLeftClosed s = st_DoorRearLeftClosed t \<and>
     st_DoorRearRightClosed s = st_DoorRearRightClosed t \<and>
     st_WindowFrontLeftClosed s = st_WindowFrontLeftClosed t \<and>
     st_WindowFrontRightClosed s = st_WindowFrontRightClosed t \<and>
     st_WindowRearLeftClosed s = st_WindowRearLeftClosed t \<and>
     st_WindowRearRightClosed s = st_WindowRearRightClosed t \<and>
     st_FrunkClosed s = st_FrunkClosed t \<and>
     st_LiftgateClosed s = st_LiftgateClosed t \<and>
     st_TonneauClosed s = st_TonneauClosed t \<and>
     st_TailgateClosed s = st_TailgateClosed t \<and>
     st_OtaVersion s = st_OtaVersion t \<and>
     st_OtaAvailableVersion s = st_OtaAvailableVersion t \<and>
     st_OtaStatus s = st_OtaStatus t \<and>
     st_OtaInstallProgress s = st_OtaInstallProgress t \<and>
     st_OtaDownloadProgress s = st_OtaDownloadProgress t"

lemma streamedEq_refl [simp]: "streamedEq f s s"
  by (cases f) simp_all

lemma streamedEq_power [simp]:
  "streamedEq f (s\<lparr>st_Power := x\<rparr>) t = streamedEq f s t"
  "streamedEq f s (t\<lparr>st_Power := x\<rparr>) = streamedEq f s t"
  by (cases f; simp)+

lemma pollOwnedEq_refl [simp]: "pollOwnedEq s s"
  by (simp add: pollOwnedEq_def)

lemma pollOwnedEq_power [simp]:
  "pollOwnedEq (s\<lparr>st_Power := x\<rparr>) t = pollOwnedEq s t"
  "pollOwnedEq s (t\<lparr>st_Power := x\<rparr>) = pollOwnedEq s t"
  by (simp_all add: pollOwnedEq_def)

lemma copyStreamed_present: "has_flag p f \<Longrightarrow> streamedEq f (copyStreamed d s p) s"
  by (cases f) simp_all

lemma copyStreamed_absent: "\<not> has_flag p f \<Longrightarrow> streamedEq f (copyStreamed d s p) d"
  by (cases f) simp_all

lemma copyStreamed_pollOwned [simp]: "pollOwnedEq (copyStreamed d s p) d"
  by (simp add: pollOwnedEq_def)

subsection \<open>Commit\<close>

lemma maxTime3: "maxTime [a, b, c] = max 0 (max a (max b c))"
  by (auto simp: maxTime_def)

definition staleBoth :: "gotime \<Rightarrow> duration \<Rightarrow> snapshot \<Rightarrow> bool" where
  "staleBoth now d s \<longleftrightarrow> 0 < d \<and> \<not> is_zero_time (sn_StreamFields s) \<and>
     d < time_sub now (sn_StreamFields s) \<and>
     (is_zero_time (sn_FetchedAt s) \<or> d < time_sub now (sn_FetchedAt s))"

lemma degradeStale_sel [simp]:
  "sn_AsOf (degradeStale now d s) = sn_AsOf s"
  "sn_FetchedAt (degradeStale now d s) = sn_FetchedAt s"
  "sn_StreamFields (degradeStale now d s) = sn_StreamFields s"
  "sn_Live (degradeStale now d s) = sn_Live s"
  by (auto simp: degradeStale_def Let_def split: option.split)

lemma degradeStale_State:
  "sn_State (degradeStale now d s) = map_option (\<lambda>st.
     if staleBoth now d s \<and> st_Power st = PowerOnline then st\<lparr>st_Power := PowerOffline\<rparr> else st)
     (sn_State s)"
  by (auto simp: degradeStale_def staleBoth_def Let_def split: option.split)

lemma degradeStale_present:
  "sn_StreamPresent (degradeStale now d s) =
     (if 0 < d \<and> \<not> is_zero_time (sn_StreamFields s) \<and> d < time_sub now (sn_StreamFields s)
      then 0 else sn_StreamPresent s)"
  by (auto simp: degradeStale_def Let_def split: option.split)

lemma staleBoth_AsOf [simp]: "staleBoth now d (s\<lparr>sn_AsOf := t\<rparr>) = staleBoth now d s"
  by (simp add: staleBoth_def)

lemma commit_snap:
  "mg_snap (fst (snd (commit e s d (m, sh)))) = degradeStale (en_now e) d
     (s\<lparr>sn_AsOf := maxTime [sn_AsOf (mg_snap m), sn_FetchedAt s, sn_StreamFields s]\<rparr>)"
  by (simp add: commit_def Let_def)

lemma commit_frame [simp]:
  "mg_id (fst (snd (commit e s d (m, sh)))) = mg_id m"
  "mg_drive (fst (snd (commit e s d (m, sh)))) = mg_drive m"
  "mg_wake (fst (snd (commit e s d (m, sh)))) = mg_wake m"
  "mg_offlineCount (fst (snd (commit e s d (m, sh)))) = mg_offlineCount m"
  "mg_offlineDriving (fst (snd (commit e s d (m, sh)))) = mg_offlineDriving m"
  "mg_gpsAt (fst (snd (commit e s d (m, sh)))) = mg_gpsAt m"
  "mg_odoAt (fst (snd (commit e s d (m, sh)))) = mg_odoAt m"
  "sh_integrity (snd (snd (commit e s d (m, sh)))) = sh_integrity sh"
  "sh_session (snd (snd (commit e s d (m, sh)))) = sh_session sh"
  by (simp_all add: commit_def Let_def)

lemma commit_asof:
  "sh_asof (snd (snd (commit e s d (m, sh)))) = map_option (asof_Advance (en_now e) (en_asofOk e) (mg_id m)
     (maxTime [sn_AsOf (mg_snap m), sn_FetchedAt s, sn_StreamFields s])) (sh_asof sh)"
  by (simp add: commit_def Let_def)

lemma commit_subs:
  "mg_subs (fst (snd (commit e s d (m, sh)))) =
     (if streamChanged (mg_snap m) (mg_snap (fst (snd (commit e s d (m, sh)))))
      then notify (mg_subs m) else mg_subs m)"
  by (simp add: commit_def Let_def)

subsection \<open>The poll path\<close>

text \<open>What the poll path hands to \<open>commit\<close>, and the merger it commits into.\<close>

definition pollState :: "snapshot \<Rightarrow> snapshot \<Rightarrow> state \<Rightarrow> state" where
  "pollState prev pollSnap s =
     (if streamFresher prev pollSnap
      then copyStreamed s (the (sn_State prev)) (sn_StreamPresent prev) else s)"

definition pollLive :: "snapshot \<Rightarrow> snapshot \<Rightarrow> liveSession option" where
  "pollLive prev pollSnap =
     (if streamFresher prev pollSnap
      then (case sn_Live prev of None \<Rightarrow> sn_Live pollSnap | Some l \<Rightarrow> Some l)
      else sn_Live pollSnap)"

lemma classify_frame [simp]:
  "mg_id (snd (classifyPollLiveness s prev m)) = mg_id m"
  "mg_snap (snd (classifyPollLiveness s prev m)) = mg_snap m"
  "mg_subs (snd (classifyPollLiveness s prev m)) = mg_subs m"
  "mg_drive (snd (classifyPollLiveness s prev m)) = mg_drive m"
  "mg_wake (snd (classifyPollLiveness s prev m)) = mg_wake m"
  "mg_gpsAt (snd (classifyPollLiveness s prev m)) = mg_gpsAt m"
  "mg_odoAt (snd (classifyPollLiveness s prev m)) = mg_odoAt m"
  by (simp_all add: classifyPollLiveness_def Let_def)

lemma classify_state:
  "fst (classifyPollLiveness s prev m) = s \<or>
   st_Power s = PowerOffline \<and> fst (classifyPollLiveness s prev m) = s\<lparr>st_Power := PowerSleep\<rparr>"
  by (auto simp: classifyPollLiveness_def Let_def)

lemma mergePoll_served:
  fixes e d pollSnap m sh
  defines "m' \<equiv> fst (snd (mergePoll e pollSnap d (m, sh)))"
  shows "sn_FetchedAt (mg_snap m') = sn_FetchedAt pollSnap"
    and "sn_StreamFields (mg_snap m') = sn_StreamFields (mg_snap m)"
    and "sn_Live (mg_snap m') = pollLive (mg_snap m) pollSnap"
    and "sn_AsOf (mg_snap m') =
       maxTime [sn_AsOf (mg_snap m), sn_FetchedAt pollSnap, sn_StreamFields (mg_snap m)]"
    and "mg_id m' = mg_id m" and "mg_drive m' = mg_drive m" and "mg_wake m' = mg_wake m"
    and "mg_subs m' = (if streamChanged (mg_snap m) (mg_snap m') then notify (mg_subs m) else mg_subs m)"
  unfolding m'_def mergePoll_def
  by (auto simp: Let_def split_beta commit_snap commit_subs protectStreamed_def pollLive_def streamFresher_def
      split: option.split)

lemma classify_anchor:
  "fst (classifyPollLiveness s prev (m\<lparr>mg_gpsAt := t\<rparr>)) = fst (classifyPollLiveness s prev m)"
  "fst (classifyPollLiveness s prev (m\<lparr>mg_odoAt := t\<rparr>)) = fst (classifyPollLiveness s prev m)"
  "mg_offlineCount (snd (classifyPollLiveness s prev (m\<lparr>mg_gpsAt := t\<rparr>))) =
     mg_offlineCount (snd (classifyPollLiveness s prev m))"
  "mg_offlineCount (snd (classifyPollLiveness s prev (m\<lparr>mg_odoAt := t\<rparr>))) =
     mg_offlineCount (snd (classifyPollLiveness s prev m))"
  "mg_offlineDriving (snd (classifyPollLiveness s prev (m\<lparr>mg_gpsAt := t\<rparr>))) =
     mg_offlineDriving (snd (classifyPollLiveness s prev m))"
  "mg_offlineDriving (snd (classifyPollLiveness s prev (m\<lparr>mg_odoAt := t\<rparr>))) =
     mg_offlineDriving (snd (classifyPollLiveness s prev m))"
  by (auto simp: classifyPollLiveness_def Let_def)

text \<open>Both signals stale, as \<open>commit\<close> sees it after a poll.\<close>

definition pollStaleBoth :: "gotime \<Rightarrow> duration \<Rightarrow> snapshot \<Rightarrow> snapshot \<Rightarrow> bool" where
  "pollStaleBoth now d prev pollSnap =
     staleBoth now d (pollSnap\<lparr>sn_StreamFields := sn_StreamFields prev\<rparr>)"

lemma classify_anchors:
  "fst (classifyPollLiveness s prev (let ma = if a then m\<lparr>mg_gpsAt := t\<rparr> else m
     in if b then ma\<lparr>mg_odoAt := t\<rparr> else ma)) = fst (classifyPollLiveness s prev m)"
  by (simp add: Let_def classify_anchor)

lemma pollSnap_out:
  "sn_State (if streamFresher prev pollSnap then protectStreamed prev out else out) =
     map_option (pollState prev pollSnap) (sn_State out)"
  if "sn_State out = sn_State pollSnap"
  using that by (cases "sn_State pollSnap")
    (auto simp: streamFresher_def protectStreamed_def pollState_def split: option.split)

lemma pollOut_times:
  "sn_FetchedAt (if b then protectStreamed prev out else out) = sn_FetchedAt out"
  "sn_StreamFields (if b then protectStreamed prev out else out) = sn_StreamFields out"
  by (simp_all add: protectStreamed_def split: option.split)

lemma mergePoll_State:
  "sn_State (mg_snap (fst (snd (mergePoll e pollSnap d (m, sh))))) =
     map_option (\<lambda>s. let s1 = fst (classifyPollLiveness (pollState (mg_snap m) pollSnap s) (mg_snap m) m) in
       if pollStaleBoth (en_now e) d (mg_snap m) pollSnap \<and> st_Power s1 = PowerOnline
       then s1\<lparr>st_Power := PowerOffline\<rparr> else s1) (sn_State pollSnap)"
proof (cases "sn_State pollSnap")
  case None
  then show ?thesis
    by (simp add: mergePoll_def Let_def split_beta streamFresher_def commit_snap degradeStale_State)
next
  case (Some s)
  define out where "out = (if streamFresher (mg_snap m) pollSnap
     then protectStreamed (mg_snap m) (pollSnap\<lparr>sn_StreamFields := sn_StreamFields (mg_snap m),
            sn_StreamPresent := sn_StreamPresent (mg_snap m)\<rparr>)
     else pollSnap\<lparr>sn_StreamFields := sn_StreamFields (mg_snap m),
            sn_StreamPresent := sn_StreamPresent (mg_snap m)\<rparr>)"
  have st: "sn_State out = Some (pollState (mg_snap m) pollSnap s)"
    unfolding out_def by (subst pollSnap_out) (simp_all add: Some)
  have t: "sn_FetchedAt out = sn_FetchedAt pollSnap" "sn_StreamFields out = sn_StreamFields (mg_snap m)"
    by (simp_all add: out_def pollOut_times)
  show ?thesis
    unfolding mergePoll_def Let_def split_beta fst_conv snd_conv out_def [symmetric]
    using t by (simp add: st Some commit_snap degradeStale_State classify_anchor pollStaleBoth_def staleBoth_def)
qed

lemma mergePoll_State_form:
  assumes "sn_State pollSnap = Some s"
  obtains p where "sn_State (mg_snap (fst (snd (mergePoll e pollSnap d (m, sh))))) =
    Some ((pollState (mg_snap m) pollSnap s)\<lparr>st_Power := p\<rparr>)"
proof -
  let ?s = "pollState (mg_snap m) pollSnap s"
  have "\<exists>p. x = x\<lparr>st_Power := p\<rparr>" for x :: state
    by (rule exI [of _ "st_Power x"]) simp
  moreover have "(x\<lparr>st_Power := p\<rparr>)\<lparr>st_Power := q\<rparr> = x\<lparr>st_Power := q\<rparr>" for x :: state and p q
    by simp
  ultimately have "\<exists>p. sn_State (mg_snap (fst (snd (mergePoll e pollSnap d (m, sh))))) =
      Some (?s\<lparr>st_Power := p\<rparr>)"
    using classify_state [of ?s "mg_snap m" m] assms
    by (auto simp: mergePoll_State Let_def)
  then show thesis by (auto intro: that)
qed

lemma poll_keeps_streamed:
  assumes "streamFresher (mg_snap m) pollSnap" and "sn_State (mg_snap m) = Some ps"
    and "has_flag (sn_StreamPresent (mg_snap m)) f"
  shows "\<exists>st. sn_State (mg_snap (fst (snd (mergePoll e pollSnap d (m, sh))))) = Some st \<and>
    streamedEq f st ps"
proof -
  from assms(1) obtain s where s: "sn_State pollSnap = Some s" by (auto simp: streamFresher_def)
  obtain p where "sn_State (mg_snap (fst (snd (mergePoll e pollSnap d (m, sh))))) =
      Some ((pollState (mg_snap m) pollSnap s)\<lparr>st_Power := p\<rparr>)"
    using s by (rule mergePoll_State_form)
  then show ?thesis using assms by (simp add: pollState_def copyStreamed_present)
qed

lemma poll_supplies_rest:
  assumes "sn_State pollSnap = Some s"
  shows "\<exists>st. sn_State (mg_snap (fst (snd (mergePoll e pollSnap d (m, sh))))) = Some st \<and>
    pollOwnedEq st s \<and>
    (\<forall>f. \<not> (streamFresher (mg_snap m) pollSnap \<and> has_flag (sn_StreamPresent (mg_snap m)) f) \<longrightarrow>
       streamedEq f st s)"
proof -
  obtain p where "sn_State (mg_snap (fst (snd (mergePoll e pollSnap d (m, sh))))) =
      Some ((pollState (mg_snap m) pollSnap s)\<lparr>st_Power := p\<rparr>)"
    using assms by (rule mergePoll_State_form)
  then show ?thesis by (simp add: pollState_def copyStreamed_absent)
qed

subsection \<open>The stream path\<close>

definition gatedPresent :: "merger \<Rightarrow> cshared \<Rightarrow> snapshot \<Rightarrow> streamField" where
  "gatedPresent m sh frame = fst (gate (sn_State (mg_snap m)) (sn_State frame) (sn_StreamPresent frame)
     (mg_gpsAt m) (mg_odoAt m) (sn_FetchedAt frame) sh)"

lemma gatedPresent_only_clears: "has_flag (gatedPresent m sh frame) f \<Longrightarrow> has_flag (sn_StreamPresent frame) f"
  by (auto simp: gatedPresent_def gate_def split_beta split: option.splits dest: gateStream_only_clears)

lemma gatedPresent_plausible:
  assumes "sh_integrity sh \<noteq> None" and "sn_State frame = Some s"
  shows "has_flag (gatedPresent m sh frame) f \<longleftrightarrow> has_flag (sn_StreamPresent frame) f \<and>
    fieldPlausible (sn_State (mg_snap m)) s (mg_gpsAt m) (mg_odoAt m) (sn_FetchedAt frame) f"
  using assms by (cases "sh_integrity sh") (simp_all add: gatedPresent_def gate_def split_beta gateStream_flag)

lemma gate_shared [simp]:
  "sh_session (snd (gate p n pr g o' t sh)) = sh_session sh"
  "sh_asof (snd (gate p n pr g o' t sh)) = sh_asof sh"
  by (simp_all add: gate_def split_beta split: option.split)

definition streamOut :: "merger \<Rightarrow> cshared \<Rightarrow> snapshot \<Rightarrow> snapshot" where
  "streamOut m sh frame = (case sn_State (mg_snap m) of
     None \<Rightarrow> streamFirst frame (gatedPresent m sh frame)
   | Some ps \<Rightarrow> streamOnto (mg_snap m) ps frame (gatedPresent m sh frame))"

lemma mergeStream_snap:
  "mg_snap (fst (snd (mergeStreamLocked e frame d (m, sh)))) = degradeStale (en_now e) d
     ((streamOut m sh frame)\<lparr>sn_AsOf := maxTime [sn_AsOf (mg_snap m),
        sn_FetchedAt (streamOut m sh frame), sn_StreamFields (streamOut m sh frame)]\<rparr>)"
  by (cases "sn_State (mg_snap m)")
    (simp_all add: mergeStreamLocked_def Let_def split_beta commit_snap streamOut_def gatedPresent_def)

lemma streamOut_times:
  "sn_StreamFields (streamOut m sh frame) = sn_FetchedAt frame"
  "sn_FetchedAt (streamOut m sh frame) =
     (if sn_State (mg_snap m) = None then sn_FetchedAt frame else sn_FetchedAt (mg_snap m))"
  by (simp_all add: streamOut_def streamFirst_def streamOnto_def split: option.split)

lemma mergeStream_served:
  fixes e d frame m sh
  defines "m' \<equiv> fst (snd (mergeStreamLocked e frame d (m, sh)))"
  shows "sn_StreamFields (mg_snap m') = sn_FetchedAt frame"
    and "sn_FetchedAt (mg_snap m') =
       (if sn_State (mg_snap m) = None then sn_FetchedAt frame else sn_FetchedAt (mg_snap m))"
    and "sn_AsOf (mg_snap m') = maxTime [sn_AsOf (mg_snap m), sn_FetchedAt (mg_snap m'), sn_FetchedAt frame]"
    and "mg_id m' = mg_id m" and "mg_drive m' = mg_drive m" and "mg_wake m' = mg_wake m"
    and "mg_offlineCount m' = mg_offlineCount m" and "mg_offlineDriving m' = mg_offlineDriving m"
  unfolding m'_def
  by (simp_all add: mergeStream_snap streamOut_times,
      simp_all add: mergeStreamLocked_def Let_def split_beta)

text \<open>The served state after a frame on top of a served snapshot.\<close>

lemma mergeStream_State:
  assumes "sn_State (mg_snap m) = Some ps" and "sn_State frame = Some s"
  shows "\<exists>p. sn_State (mg_snap (fst (snd (mergeStreamLocked e frame d (m, sh))))) =
    Some ((copyStreamed ps s (gatedPresent m sh frame))\<lparr>st_Power := p\<rparr>) \<and>
    (st_Power ps = PowerSleep \<longrightarrow> p = PowerSleep) \<and>
    (st_Power ps \<noteq> PowerSleep \<longrightarrow> p = PowerOnline \<or> p = PowerOffline)"
proof -
  let ?c = "copyStreamed ps s (gatedPresent m sh frame)"
  define p where "p = (if st_Power ps = PowerUnknown \<or> st_Power ps = PowerOffline
    then PowerOnline else st_Power ps)"
  have "?c = ?c\<lparr>st_Power := st_Power ps\<rparr>" by simp
  then have out: "sn_State (streamOut m sh frame) = Some (?c\<lparr>st_Power := p\<rparr>)"
    using assms by (auto simp: streamOut_def streamOnto_def Let_def p_def)
  define q where "q = (if staleBoth (en_now e) d (streamOut m sh frame) \<and> p = PowerOnline
    then PowerOffline else p)"
  have "sn_State (mg_snap (fst (snd (mergeStreamLocked e frame d (m, sh))))) = Some (?c\<lparr>st_Power := q\<rparr>)"
    by (simp add: mergeStream_snap degradeStale_State out q_def)
  then show ?thesis by (cases "st_Power ps") (auto simp: p_def q_def)
qed

lemma frame_keeps_and_sets:
  assumes "sn_State (mg_snap m) = Some ps" and "sn_State frame = Some s"
  shows "\<exists>st. sn_State (mg_snap (fst (snd (mergeStreamLocked e frame d (m, sh))))) = Some st \<and>
    pollOwnedEq st ps \<and>
    (\<forall>f. has_flag (gatedPresent m sh frame) f \<longrightarrow> streamedEq f st s) \<and>
    (\<forall>f. \<not> has_flag (gatedPresent m sh frame) f \<longrightarrow> streamedEq f st ps)"
  using mergeStream_State [OF assms, of e d sh]
  by (auto simp: copyStreamed_present copyStreamed_absent)

end
