(* ===== verification/MergerRun.thy ===== *)
theory MergerRun
  imports MergeLaws
begin

section \<open>Runs of one merger\<close>

text \<open>
  The merger as a state machine: polls, stream frames, subscribers coming, going and draining
  an event, in any order, each with its own clock reading and disk outcome. The invariants
  over runs are the clamp on the served time, its agreement with the persisted mark, the
  bounded subscriber channels, and the balance of the drive counters.
\<close>

subsection \<open>The interface of a monotone clock\<close>

text \<open>
  What a consumer of the served time relies on: no operation moves it backwards. The lemmas
  hold for any such state machine.
\<close>

locale monotone_clock =
  fixes step :: "'op \<Rightarrow> 's \<Rightarrow> 's" and clock :: "'s \<Rightarrow> gotime"
  assumes step_clock: "clock s \<le> clock (step a s)"
begin

lemma run_clock: "clock s \<le> clock (fold step as s)"
  by (induction as arbitrary: s) (auto intro: order_trans step_clock)

lemma run_clock_prefix: "clock (fold step as s) \<le> clock (fold step (as @ bs) s)"
  by (simp add: run_clock)

lemma observed_sorted:
  "sorted (map (\<lambda>n. clock (fold step (take n as) s)) [0..<Suc (length as)])"
proof (rule sorted_iff_nth_mono [THEN iffD2], intro allI impI)
  fix i j
  assume "i \<le> j" and j: "j < length (map (\<lambda>n. clock (fold step (take n as) s)) [0..<Suc (length as)])"
  then have "take j as = take i as @ take (j - i) (drop i as)"
    by (metis le_add_diff_inverse take_add)
  then have "clock (fold step (take i as) s) \<le> clock (fold step (take j as) s)"
    by (simp add: run_clock)
  moreover have "[0..<Suc (length as)] ! i = i" "[0..<Suc (length as)] ! j = j"
    using \<open>i \<le> j\<close> j by (simp_all del: upt_Suc)
  ultimately show "map (\<lambda>n. clock (fold step (take n as) s)) [0..<Suc (length as)] ! i \<le>
      map (\<lambda>n. clock (fold step (take n as) s)) [0..<Suc (length as)] ! j"
    using \<open>i \<le> j\<close> j by (simp del: upt_Suc)
qed

end

subsection \<open>The merger's operations\<close>

datatype mergeOp =
  PollOp snapshot | StreamOp snapshot | SubscribeOp nat | UnsubscribeOp nat | ReceiveOp nat

fun merger_step :: "duration \<Rightarrow> cenv \<times> mergeOp \<Rightarrow> merger \<times> cshared \<Rightarrow> merger \<times> cshared" where
  "merger_step d (e, PollOp snap) ms = snd (mergePoll e snap d ms)"
| "merger_step d (e, StreamOp snap) ms = snd (mergeStreamDetect e snap d ms)"
| "merger_step d (e, SubscribeOp ch) (m, sh) = (merger_Subscribe ch m, sh)"
| "merger_step d (e, UnsubscribeOp ch) (m, sh) = (merger_Unsubscribe ch m, sh)"
| "merger_step d (e, ReceiveOp ch) (m, sh) =
     (m\<lparr>mg_subs := (case mg_subs m ch of Some (Suc n) \<Rightarrow> (mg_subs m)(ch \<mapsto> n) | _ \<Rightarrow> mg_subs m)\<rparr>, sh)"

lemma detect_merger:
  "mg_snap (fst (snd (mergeStreamDetect e snap d ms))) = mg_snap (fst (snd (mergeStreamLocked e snap d ms)))"
  "mg_id (fst (snd (mergeStreamDetect e snap d ms))) = mg_id (fst (snd (mergeStreamLocked e snap d ms)))"
  "mg_subs (fst (snd (mergeStreamDetect e snap d ms))) = mg_subs (fst (snd (mergeStreamLocked e snap d ms)))"
  "sh_asof (snd (snd (mergeStreamDetect e snap d ms))) = sh_asof (snd (snd (mergeStreamLocked e snap d ms)))"
  by (simp_all add: mergeStreamDetect_def Let_def split_beta)

lemma mergePoll_asof:
  "sh_asof (snd (snd (mergePoll e pollSnap d (m, sh)))) =
     map_option (asof_Advance (en_now e) (en_asofOk e) (mg_id m)
       (sn_AsOf (mg_snap (fst (snd (mergePoll e pollSnap d (m, sh))))))) (sh_asof sh)"
  unfolding mergePoll_served(4) unfolding mergePoll_def
  by (auto simp: Let_def split_beta commit_asof protectStreamed_def split: option.split)

lemma mergeStream_asof:
  "sh_asof (snd (snd (mergeStreamLocked e frame d (m, sh)))) =
     map_option (asof_Advance (en_now e) (en_asofOk e) (mg_id m)
       (sn_AsOf (mg_snap (fst (snd (mergeStreamLocked e frame d (m, sh))))))) (sh_asof sh)"
  unfolding mergeStream_served(3) mergeStream_served(2) unfolding mergeStreamLocked_def
  by (auto simp: Let_def split_beta commit_asof streamFirst_def streamOnto_def split: option.split)

lemma mergeStream_subs:
  "mg_subs (fst (snd (mergeStreamLocked e frame d (m, sh)))) =
     (if streamChanged (mg_snap m) (mg_snap (fst (snd (mergeStreamLocked e frame d (m, sh)))))
      then notify (mg_subs m) else mg_subs m)"
  unfolding mergeStreamLocked_def by (simp add: Let_def split_beta commit_subs)

subsection \<open>The served time\<close>

definition servedAsOf :: "merger \<times> cshared \<Rightarrow> gotime" where
  "servedAsOf ms = sn_AsOf (mg_snap (fst ms))"

interpretation served: monotone_clock "merger_step d" servedAsOf for d
proof
  fix s :: "merger \<times> cshared" and a :: "cenv \<times> mergeOp"
  obtain m sh where s: "s = (m, sh)" by fastforce
  obtain e b where a: "a = (e, b)" by fastforce
  show "servedAsOf s \<le> servedAsOf (merger_step d a s)"
    by (cases b) (simp_all add: s a servedAsOf_def mergePoll_served(4) detect_merger
        mergeStream_served(3) maxTime3 merger_Subscribe_def merger_Unsubscribe_def)
qed

interpretation marks: monotone_clock
  "\<lambda>(now, ok, vid, t). asof_Advance now ok vid t" "asof_Get vid'" for vid'
  by unfold_locales (auto simp: asof_Get_Advance)

text \<open>The persisted mark is the served time, as long as the store was seeded with the merger.\<close>

definition markAgrees :: "merger \<times> cshared \<Rightarrow> bool" where
  "markAgrees ms \<longleftrightarrow> (\<forall>st. sh_asof (snd ms) = Some st \<longrightarrow>
     asof_Get (mg_id (fst ms)) st = servedAsOf ms \<and> 0 \<le> servedAsOf ms)"

lemma step_markAgrees: "markAgrees ms \<Longrightarrow> markAgrees (merger_step d a ms)"
proof -
  assume ag: "markAgrees ms"
  obtain m sh where s: "ms = (m, sh)" by fastforce
  obtain e b where a: "a = (e, b)" by fastforce
  from ag show ?thesis
    unfolding s a
    by (cases b) (auto simp: markAgrees_def servedAsOf_def detect_merger mergePoll_asof
        mergeStream_asof mergePoll_served mergeStream_served asof_Get_Advance maxTime3
        merger_Subscribe_def merger_Unsubscribe_def)
qed

lemma run_markAgrees: "markAgrees ms \<Longrightarrow> markAgrees (fold (merger_step d) as ms)"
  by (induction as arbitrary: ms) (simp_all add: step_markAgrees)

subsection \<open>Subscribers\<close>

definition subs_bounded :: "merger \<Rightarrow> bool" where
  "subs_bounded m \<longleftrightarrow> (\<forall>ch n. mg_subs m ch = Some n \<longrightarrow> n \<le> subscriberBuf)"

lemma notify_bounded: "(\<forall>ch n. subs ch = Some n \<longrightarrow> n \<le> subscriberBuf) \<Longrightarrow> notify subs ch = Some n \<Longrightarrow> n \<le> subscriberBuf"
  by (auto simp: notify_def split: if_splits)

lemma notify_pending: "subs ch = Some n \<Longrightarrow> \<exists>k. notify subs ch = Some k \<and> 1 \<le> k"
  by (auto simp: notify_def subscriberBuf_def)

lemma step_subs_bounded: "subs_bounded (fst ms) \<Longrightarrow> subs_bounded (fst (merger_step d a ms))"
proof -
  assume bd: "subs_bounded (fst ms)"
  obtain m sh where s: "ms = (m, sh)" by fastforce
  obtain e b where a: "a = (e, b)" by fastforce
  from bd show ?thesis
    unfolding s a
    by (cases b) (auto simp: subs_bounded_def detect_merger mergeStream_subs mergePoll_served
        merger_Subscribe_def merger_Unsubscribe_def notify_bounded
        intro: Suc_leD split: if_splits option.splits nat.splits)
qed

lemma run_subs_bounded: "subs_bounded (fst ms) \<Longrightarrow> subs_bounded (fst (fold (merger_step d) as ms))"
  by (induction as arbitrary: ms) (simp_all add: step_subs_bounded)

subsection \<open>Drive sessions balance\<close>

text \<open>
  With \<open>n\<close> frames seen: the opened and closed counts are at most \<open>n\<close>, and their difference
  is fixed by the debouncer's class up to the class it was seeded with.
\<close>

definition driveBalanced :: "int \<Rightarrow> merger \<times> cshared \<Rightarrow> bool" where
  "driveBalanced n ms \<longleftrightarrow> (case sh_session (snd ms) of None \<Rightarrow> True | Some c \<Rightarrow>
     0 \<le> sc_drivesOpened c \<and> sc_drivesOpened c \<le> n \<and>
     0 \<le> sc_drivesClosed c \<and> sc_drivesClosed c \<le> n \<and>
     (let k = sc_drivesOpened c - sc_drivesClosed c; dd = mg_drive (fst ms) in
      if \<not> dd_set dd then k = 0 else if dd_class dd then k = 0 \<or> k = 1 else k = 0 \<or> k = -1))"

lemma mergeStream_session [simp]:
  "sh_session (snd (snd (mergeStreamLocked e frame d (m, sh)))) = sh_session sh"
  by (simp add: mergeStreamLocked_def Let_def split_beta)

lemma mergePoll_session [simp]:
  "sh_session (snd (snd (mergePoll e pollSnap d (m, sh)))) = sh_session sh"
  by (auto simp: mergePoll_def Let_def split_beta split: option.split)

lemma mergePoll_drive [simp]: "mg_drive (fst (snd (mergePoll e pollSnap d (m, sh)))) = mg_drive m"
  by (auto simp: mergePoll_def Let_def split_beta commit_def classifyPollLiveness_def split: option.split)

lemma chargeCounters_drives:
  "chargeOpened so = Some c \<Longrightarrow> \<exists>c0. so = Some c0 \<and>
     sc_drivesOpened c = sc_drivesOpened c0 \<and> sc_drivesClosed c = sc_drivesClosed c0"
  "chargeClosed so = Some c \<Longrightarrow> \<exists>c0. so = Some c0 \<and>
     sc_drivesOpened c = sc_drivesOpened c0 \<and> sc_drivesClosed c = sc_drivesClosed c0"
  by (auto simp: chargeOpened_def chargeClosed_def)

lemma detect_session:
  fixes e frame d m sh
  defines "r \<equiv> mergeStreamDetect e frame d (m, sh)"
  assumes "sh_session (snd (snd r)) = Some c"
  obtains c0 fired where "sh_session sh = Some c0"
    and "(fired, mg_drive (fst (snd r))) =
       drive_boundary (mg_snap m) (fst (fst r)) (sn_FetchedAt frame) (mg_drive m)"
    and "sc_drivesOpened c = (if fired \<and> inDrive (gearOf (fst (fst r)))
           then wrap64 (sc_drivesOpened c0 + 1) else sc_drivesOpened c0)"
    and "sc_drivesClosed c = (if fired \<and> \<not> inDrive (gearOf (fst (fst r)))
           then wrap64 (sc_drivesClosed c0 + 1) else sc_drivesClosed c0)"
proof -
  let ?db = "drive_boundary (mg_snap m) (fst (fst r)) (sn_FetchedAt frame) (mg_drive m)"
  have merged: "fst (fst r) = fst (mergeStreamLocked e frame d (m, sh))"
    by (simp add: r_def mergeStreamDetect_def Let_def split_beta)
  have drv: "mg_drive (fst (snd r)) = snd ?db"
    by (simp add: r_def mergeStreamDetect_def Let_def split_beta mergeStream_served merged)
  define ses1 where "ses1 = (if fst ?db then count_driveBoundary (fst (fst r)) (sh_session sh) else sh_session sh)"
  have "sh_session (snd (snd r)) = ses1 \<or> sh_session (snd (snd r)) = chargeOpened ses1 \<or>
      sh_session (snd (snd r)) = chargeClosed ses1"
    by (simp add: r_def mergeStreamDetect_def Let_def split_beta mergeStream_served merged ses1_def)
  then obtain c1 where c1: "ses1 = Some c1" "sc_drivesOpened c = sc_drivesOpened c1"
      "sc_drivesClosed c = sc_drivesClosed c1"
    using assms(2) by (metis chargeCounters_drives)
  then obtain c0 where c0: "sh_session sh = Some c0"
    by (auto simp: ses1_def count_driveBoundary_def split: if_splits)
  show thesis
    using c1 c0 drv
    by (intro that [of c0 "fst ?db"]) (auto simp: ses1_def count_driveBoundary_def split: if_splits)
qed

lemma detect_balanced:
  assumes bal: "driveBalanced n (m, sh)" and n: "n < maxInt64"
  shows "driveBalanced (n + 1) (snd (mergeStreamDetect e frame d (m, sh)))"
proof (cases "sh_session (snd (snd (mergeStreamDetect e frame d (m, sh))))")
  case None
  then show ?thesis by (simp add: driveBalanced_def)
next
  case (Some c)
  let ?r = "mergeStreamDetect e frame d (m, sh)"
  obtain c0 fired where c0: "sh_session sh = Some c0"
    and db: "(fired, mg_drive (fst (snd ?r))) =
       drive_boundary (mg_snap m) (fst (fst ?r)) (sn_FetchedAt frame) (mg_drive m)"
    and o': "sc_drivesOpened c = (if fired \<and> inDrive (gearOf (fst (fst ?r)))
           then wrap64 (sc_drivesOpened c0 + 1) else sc_drivesOpened c0)"
    and cl: "sc_drivesClosed c = (if fired \<and> \<not> inDrive (gearOf (fst (fst ?r)))
           then wrap64 (sc_drivesClosed c0 + 1) else sc_drivesClosed c0)"
    using Some by (rule detect_session)
  have w: "wrap64 (k + 1) = k + 1" if "0 \<le> k" "k \<le> n" for k
    using that n by (intro wrap64_id) (simp add: in_int64_def minInt64_def)
  note st = drive_boundary_step [OF db [symmetric]]
  show ?thesis
    using bal st(1,2) st(3) o' cl
    by (cases fired; cases "dd_set (mg_drive m)"; cases "dd_class (mg_drive m)")
       (auto simp: driveBalanced_def Let_def c0 Some w drive_seeded_def split: if_splits)
qed

lemma driveBalanced_cong:
  "sh_session (snd ms') = sh_session (snd ms) \<Longrightarrow> mg_drive (fst ms') = mg_drive (fst ms) \<Longrightarrow>
    driveBalanced n ms \<Longrightarrow> driveBalanced n ms'"
  unfolding driveBalanced_def by (simp only:)

lemma driveBalanced_mono: "driveBalanced n ms \<Longrightarrow> n \<le> n' \<Longrightarrow> driveBalanced n' ms"
  by (auto simp: driveBalanced_def Let_def split: option.splits)

lemma step_balanced:
  assumes "driveBalanced n ms" and "n < maxInt64"
  shows "driveBalanced (n + 1) (merger_step d a ms)"
proof -
  obtain m sh where s: "ms = (m, sh)" by fastforce
  obtain e b where a: "a = (e, b)" by fastforce
  have mono: "driveBalanced (n + 1) ms" using assms(1) by (rule driveBalanced_mono) simp
  show ?thesis
  proof (cases b)
    case (StreamOp f)
    then show ?thesis using detect_balanced assms by (simp add: s a)
  qed (rule driveBalanced_cong [OF _ _ mono],
      simp_all add: s a merger_Subscribe_def merger_Unsubscribe_def)+
qed

lemma run_balanced:
  assumes "driveBalanced n ms" and "n + int (length as) \<le> maxInt64"
  shows "driveBalanced (n + int (length as)) (fold (merger_step d) as ms)"
  using assms
proof (induction as arbitrary: n ms)
  case (Cons a as)
  have "driveBalanced (n + 1) (merger_step d a ms)" using Cons.prems by (intro step_balanced) simp_all
  from Cons.IH [OF this] Cons.prems show ?case by (simp add: algebra_simps)
qed simp

lemma balanced_diff:
  assumes "driveBalanced n (m, sh)" and "sh_session sh = Some c"
  shows "\<bar>sc_drivesOpened c - sc_drivesClosed c\<bar> \<le> 1"
  using assms by (auto simp: driveBalanced_def Let_def split: if_splits)

subsection \<open>An offline car settles to asleep\<close>

lemma mergePoll_offline:
  fixes e pollSnap d m sh s
  assumes "sn_State pollSnap = Some s" and "st_Power s = PowerOffline"
    and "0 \<le> mg_offlineCount m" and "mg_offlineCount m < maxInt64"
  defines "drv \<equiv> (if mg_offlineCount m = 0 then inDrive (gearOf (mg_snap m)) else mg_offlineDriving m)"
    and "m' \<equiv> fst (snd (mergePoll e pollSnap d (m, sh)))"
  shows "mg_offlineCount m' = mg_offlineCount m + 1" and "mg_offlineDriving m' = drv"
    and "powerOf (mg_snap m') = (if \<not> drv \<and> 1 \<le> mg_offlineCount m then PowerSleep else PowerOffline)"
proof -
  have w: "wrap64 (mg_offlineCount m + 1) = mg_offlineCount m + 1"
    using assms(3,4) by (intro wrap64_id) (simp add: in_int64_def minInt64_def)
  have p: "st_Power (pollState (mg_snap m) pollSnap s) = PowerOffline"
    using assms(2) by (simp add: pollState_def)
  show "powerOf (mg_snap m') = (if \<not> drv \<and> 1 \<le> mg_offlineCount m then PowerSleep else PowerOffline)"
    unfolding m'_def drv_def using assms(1) p w
    by (auto simp: powerOf_def mergePoll_State classifyPollLiveness_def offlineSleepConfirmPolls_def Let_def)
  define out where "out = (if streamFresher (mg_snap m) pollSnap
     then protectStreamed (mg_snap m) (pollSnap\<lparr>sn_StreamFields := sn_StreamFields (mg_snap m),
            sn_StreamPresent := sn_StreamPresent (mg_snap m)\<rparr>)
     else pollSnap\<lparr>sn_StreamFields := sn_StreamFields (mg_snap m),
            sn_StreamPresent := sn_StreamPresent (mg_snap m)\<rparr>)"
  have st: "sn_State out = Some (pollState (mg_snap m) pollSnap s)"
    unfolding out_def by (subst pollSnap_out) (simp_all add: assms(1))
  have "mg_offlineCount m' = mg_offlineCount m + 1 \<and> mg_offlineDriving m' = drv"
    unfolding m'_def mergePoll_def Let_def split_beta fst_conv snd_conv out_def [symmetric]
    using w p by (auto simp: st drv_def classifyPollLiveness_def Let_def)
  then show "mg_offlineCount m' = mg_offlineCount m + 1" and "mg_offlineDriving m' = drv" by auto
qed

text \<open>An episode: consecutive offline polls from a merger whose offline count is 0.\<close>

lemma offline_episode:
  fixes ps :: "(cenv \<times> snapshot) list" and d m sh
  assumes "\<forall>(e, p) \<in> set ps. \<exists>s. sn_State p = Some s \<and> st_Power s = PowerOffline"
    and "mg_offlineCount m = 0" and "ps \<noteq> []" and "int (length ps) < maxInt64"
  defines "m' \<equiv> fst (fold (merger_step d) (map (\<lambda>(e, p). (e, PollOp p)) ps) (m, sh))"
  shows "powerOf (mg_snap m') =
      (if inDrive (gearOf (mg_snap m)) \<or> length ps < 2 then PowerOffline else PowerSleep) \<and>
    mg_offlineCount m' = int (length ps) \<and> mg_offlineDriving m' = inDrive (gearOf (mg_snap m))"
  using assms(1,3,4) unfolding m'_def
proof (induction ps rule: rev_induct)
  case (snoc x ps)
  obtain e p where x: "x = (e, p)" by fastforce
  obtain m1 sh1 where r: "fold (merger_step d) (map (\<lambda>(e, p). (e, PollOp p)) ps) (m, sh) = (m1, sh1)"
    by fastforce
  from snoc.prems x obtain s where s: "sn_State p = Some s" "st_Power s = PowerOffline" by auto
  show ?case
  proof (cases "ps = []")
    case True
    then have "m1 = m" using r by simp
    then show ?thesis
      using mergePoll_offline [OF s, of m e d sh1] True assms(2) r
      by (auto simp: x maxInt64_def)
  next
    case False
    with snoc r have "mg_offlineCount m1 = int (length ps)" "mg_offlineDriving m1 = inDrive (gearOf (mg_snap m))"
      by auto
    then show ?thesis
      using mergePoll_offline [OF s, of m1 e d sh1] False snoc.prems r
      by (auto simp: x Suc_le_eq)
  qed
qed simp

end
