(* ===== verification/Poll.thy ===== *)
theory Poll
  imports MergerRun
begin

section \<open>The poll loop\<close>

text \<open>
  \<^verbatim>\<open>internal/poll/poll.go\<close> and the error classification of
  \<^verbatim>\<open>internal/plugin/source/source.go\<close>. A poller is the record \<open>poller\<close>; the call of the
  source's \<^verbatim>\<open>Poll\<close> is an argument, its outcome: an error or a snapshot.

  Two things the poller uses are parameters, given by the record \<open>pollOps\<close>: the exponential
  backoff of the package cenkalti/backoff (its state is of type \<open>'b\<close>) and the cache behind the
  interface \<^verbatim>\<open>poll.Cache\<close> (of type \<open>'c\<close>). The clock readings and the random number of one poll
  come in \<open>penv\<close>: a reading for the operation's own \<^verbatim>\<open>time.Now\<close> and one for each of its two calls
  of \<^verbatim>\<open>streamFresh\<close>. Log output is left out.
\<close>

subsection \<open>Errors of a source\<close>

text \<open>
  An error is the list of what \<^verbatim>\<open>errors.As\<close> visits: the error, then what it wraps. Each layer has
  its text and, for each classification method, None where its type has no such method.
\<close>

record errLayer =
  el_text :: string
  el_Unauthenticated :: "bool option"
  el_RateLimited :: "bool option"
  el_RetryAfter :: "(duration \<times> bool) option"
  el_QuotaBlocked :: "bool option"
  el_AccountDisabled :: "bool option"
  el_TelemetryConfigWiped :: "bool option"

type_synonym goError = "errLayer list"

definition errorText :: "goError \<Rightarrow> string" where
  "errorText err = (case err of [] \<Rightarrow> '''' | l # _ \<Rightarrow> el_text l)"

fun errorsAs :: "(errLayer \<Rightarrow> 'a option) \<Rightarrow> goError \<Rightarrow> 'a option" where
  "errorsAs f [] = None"
| "errorsAs f (l # ls) = (case f l of Some x \<Rightarrow> Some x | None \<Rightarrow> errorsAs f ls)"

definition isUnauthenticated :: "goError \<Rightarrow> bool" where
  "isUnauthenticated err = (case errorsAs el_Unauthenticated err of None \<Rightarrow> False | Some b \<Rightarrow> b)"

definition isRateLimited :: "goError \<Rightarrow> bool" where
  "isRateLimited err = (case errorsAs el_RateLimited err of None \<Rightarrow> False | Some b \<Rightarrow> b)"

definition isQuotaBlocked :: "goError \<Rightarrow> bool" where
  "isQuotaBlocked err = (case errorsAs el_QuotaBlocked err of None \<Rightarrow> False | Some b \<Rightarrow> b)"

definition isAccountDisabled :: "goError \<Rightarrow> bool" where
  "isAccountDisabled err = (case errorsAs el_AccountDisabled err of None \<Rightarrow> False | Some b \<Rightarrow> b)"

definition telemetryConfigWiped :: "goError \<Rightarrow> bool" where
  "telemetryConfigWiped err =
     (case errorsAs el_TelemetryConfigWiped err of None \<Rightarrow> False | Some b \<Rightarrow> b)"

definition retryAfter :: "goError \<Rightarrow> duration \<times> bool" where
  "retryAfter err = (case errorsAs el_RetryAfter err of None \<Rightarrow> (0, False) | Some r \<Rightarrow> r)"

subsection \<open>Configuration\<close>

definition defaultMinInterval :: duration where "defaultMinInterval = 5 * Second"
definition defaultMaxBackoff :: duration where "defaultMaxBackoff = 15 * Minute"
definition defaultJitterPct :: f64 where "defaultJitterPct = fconst 0.1"
definition defaultAwakeBackoffCap :: duration where "defaultAwakeBackoffCap = 5 * Minute"
definition defaultQuotaBlockFloor :: duration where "defaultQuotaBlockFloor = Hour"
definition defaultDCThresholdKw :: f64 where "defaultDCThresholdKw = fconst 25"

record intervals =
  iv_Online :: duration
  iv_Driving :: duration
  iv_Charging :: duration
  iv_Asleep :: duration
  iv_Default :: duration
  iv_ChargingDC :: duration
  iv_DCThresholdKw :: f64
  iv_DrivingStreaming :: duration
  iv_StreamFreshWithin :: duration
  iv_MinInterval :: duration
  iv_MaxBackoff :: duration
  iv_JitterPct :: f64
  iv_AwakeBackoffCap :: duration
  iv_QuotaBlockFloor :: duration

subsection \<open>The library and the cache behind the poller\<close>

record ('b, 'c) pollOps =
  op_newBackoff :: "duration \<Rightarrow> f64 \<Rightarrow> f64 \<Rightarrow> duration \<Rightarrow> 'b"
  op_reset :: "'b \<Rightarrow> 'b"
  op_next :: "'b \<Rightarrow> duration \<times> 'b"
  op_MergePoll :: "cenv \<Rightarrow> string \<Rightarrow> snapshot \<Rightarrow> 'c \<Rightarrow> snapshot \<times> 'c"
  op_LastStreamAt :: "string \<Rightarrow> 'c \<Rightarrow> gotime"

record penv =
  pe_now :: gotime
  pe_sinceBackoff :: gotime
  pe_sinceInterval :: gotime
  pe_rand :: f64
  pe_cache :: cenv

record 'b poller =
  po_id :: string
  po_intervals :: intervals
  po_eb :: 'b
  po_minInterval :: duration
  po_maxBackoff :: duration
  po_jitterPct :: f64
  po_awakeBackoffCap :: duration
  po_quotaBlockFloor :: duration
  po_dcThresholdKw :: f64
  po_drivingStreaming :: duration
  po_streamFreshWithin :: duration
  po_snapshot :: snapshot
  po_cached :: bool
  po_pollNow :: bool
  po_lastSuccessAt :: gotime
  po_lastErr :: "goError option"
  po_lastErrAt :: gotime
  po_consecutiveFailures :: int
  po_needsReauth :: bool
  po_lastBackoff :: duration
  po_successCount :: int
  po_errorCount :: int
  po_rateLimitedCount :: int
  po_changedCount :: int
  po_lastChangeAt :: gotime
  po_startedAt :: gotime
  po_consecutiveIdle :: int
  po_quotaBlockedCount :: int
  po_telemetryConfigWiped :: bool
  po_quotaBlockedUntil :: gotime
  po_vehicleDataFetches :: int
  po_pollsByState :: "string \<rightharpoonup> int"
  po_scheduledInterval :: duration
  po_derivedState :: string
  po_streamBackoffActive :: bool

text \<open>\<^verbatim>\<open>newBackoff\<close> sets the initial interval, the multiplier 2, the randomization 0.1 and the cap.\<close>

definition newBackoff :: "('b, 'c) pollOps \<Rightarrow> duration \<Rightarrow> duration \<Rightarrow> 'b" where
  "newBackoff ops initial maxBackoff =
     (let i = (if initial \<le> 0 then 60 * Second else initial);
          mx = (if maxBackoff \<le> 0 then defaultMaxBackoff else maxBackoff)
      in op_reset ops (op_newBackoff ops i (fconst 2) (fconst 0.1) mx))"

definition fillIntervals :: "intervals \<Rightarrow> intervals" where
  "fillIntervals iv0 =
     (let iv1 = (if iv_Online iv0 = 0 then iv0\<lparr>iv_Online := 2 * Minute\<rparr> else iv0);
          iv2 = (if iv_Driving iv1 = 0 then iv1\<lparr>iv_Driving := 10 * Second\<rparr> else iv1);
          iv3 = (if iv_Charging iv2 = 0 then iv2\<lparr>iv_Charging := 30 * Second\<rparr> else iv2);
          iv4 = (if iv_ChargingDC iv3 = 0 then iv3\<lparr>iv_ChargingDC := iv_Charging iv3\<rparr> else iv3);
          iv5 = (if iv_Asleep iv4 = 0 then iv4\<lparr>iv_Asleep := 15 * Minute\<rparr> else iv4)
      in if iv_Default iv5 = 0 then iv5\<lparr>iv_Default := 60 * Second\<rparr> else iv5)"

definition newPoller ::
  "('b, 'c) pollOps \<Rightarrow> gotime \<Rightarrow> string \<Rightarrow> intervals \<Rightarrow> 'b poller" where
  "newPoller ops now vid iv0 =
     (let iv = fillIntervals iv0;
          mi = (if iv_MinInterval iv \<le> 0 then defaultMinInterval else iv_MinInterval iv);
          mb = (if iv_MaxBackoff iv \<le> 0 then defaultMaxBackoff else iv_MaxBackoff iv);
          jp = (if fle (iv_JitterPct iv) fzero then defaultJitterPct else iv_JitterPct iv);
          ab = (if iv_AwakeBackoffCap iv \<le> 0 then defaultAwakeBackoffCap else iv_AwakeBackoffCap iv);
          qf = (if iv_QuotaBlockFloor iv \<le> 0 then defaultQuotaBlockFloor else iv_QuotaBlockFloor iv);
          dc = (if fle (iv_DCThresholdKw iv) fzero then defaultDCThresholdKw else iv_DCThresholdKw iv);
          sf = (if 0 < iv_DrivingStreaming iv \<and> iv_StreamFreshWithin iv \<le> 0
                then iv_Driving iv else iv_StreamFreshWithin iv)
      in \<lparr>po_id = vid, po_intervals = iv, po_eb = newBackoff ops (iv_Default iv) mb,
          po_minInterval = mi, po_maxBackoff = mb, po_jitterPct = jp, po_awakeBackoffCap = ab,
          po_quotaBlockFloor = qf, po_dcThresholdKw = dc,
          po_drivingStreaming = iv_DrivingStreaming iv, po_streamFreshWithin = sf,
          po_snapshot = zeroSnapshot, po_cached = False, po_pollNow = False,
          po_lastSuccessAt = 0, po_lastErr = None, po_lastErrAt = 0, po_consecutiveFailures = 0,
          po_needsReauth = False, po_lastBackoff = 0, po_successCount = 0, po_errorCount = 0,
          po_rateLimitedCount = 0, po_changedCount = 0, po_lastChangeAt = 0, po_startedAt = now,
          po_consecutiveIdle = 0, po_quotaBlockedCount = 0, po_telemetryConfigWiped = False,
          po_quotaBlockedUntil = 0, po_vehicleDataFetches = 0, po_pollsByState = Map.empty,
          po_scheduledInterval = 0, po_derivedState = '''', po_streamBackoffActive = False\<rparr>)"

subsection \<open>Classifying a snapshot\<close>

definition isDriving :: "state option \<Rightarrow> bool" where
  "isDriving vs = (case vs of None \<Rightarrow> False
     | Some s \<Rightarrow> st_Gear s = GearDrive \<or> st_Gear s = GearReverse \<or> st_Gear s = GearNeutral)"

definition isCharging :: "state option \<Rightarrow> liveSession option \<Rightarrow> bool" where
  "isCharging vs live \<longleftrightarrow>
     (if live \<noteq> None then True
      else case vs of None \<Rightarrow> False | Some s \<Rightarrow> st_Charger s = ChargerCharging)"

definition isDC :: "liveSession option \<Rightarrow> f64 \<Rightarrow> bool" where
  "isDC live thresholdKw = (case live of None \<Rightarrow> False
     | Some l \<Rightarrow> ls_FastCharger l \<or> (flt fzero thresholdKw \<and> fle thresholdKw (ls_PowerKw l)))"

definition hasPower :: "power \<Rightarrow> state option \<Rightarrow> bool" where
  "hasPower p vs = (case vs of None \<Rightarrow> False | Some s \<Rightarrow> st_Power s = p)"

definition deriveState :: "f64 \<Rightarrow> state option \<Rightarrow> liveSession option \<Rightarrow> string" where
  "deriveState dcThresholdKw vs live =
     (if isDriving vs then ''driving''
      else if isCharging vs live then
        (if isDC live dcThresholdKw then ''charging_dc'' else ''charging_ac'')
      else if hasPower PowerSleep vs then ''asleep''
      else if hasPower PowerOnline vs then ''online''
      else if hasPower PowerOffline vs then ''offline''
      else ''unknown'')"

definition syncAdvanced :: "state option \<Rightarrow> state option \<Rightarrow> bool" where
  "syncAdvanced old new = (case (old, new) of
      (Some a, Some b) \<Rightarrow> st_LastUpdate a < st_LastUpdate b \<or> st_CloudLastSync a < st_CloudLastSync b
    | (None, None) \<Rightarrow> False
    | _ \<Rightarrow> True)"

definition pollChanged ::
  "state option \<Rightarrow> state option \<Rightarrow> liveSession option \<Rightarrow> liveSession option \<Rightarrow> bool" where
  "pollChanged old new oldLive newLive = (case (old, new) of
      (Some a, Some b) \<Rightarrow>
        if st_OdometerMeters a \<noteq> st_OdometerMeters b \<or>
           f2i (st_BatteryLevelPct a) \<noteq> f2i (st_BatteryLevelPct b) \<or>
           st_Power a \<noteq> st_Power b \<or> st_Gear a \<noteq> st_Gear b \<or> st_Charger a \<noteq> st_Charger b \<or>
           st_Plug a \<noteq> st_Plug b \<or> st_ChargePortOpen a \<noteq> st_ChargePortOpen b \<or>
           st_RangeKm a \<noteq> st_RangeKm b
        then True
        else if (oldLive = None) \<noteq> (newLive = None) then True
        else (case (st_Location a, st_Location b) of
            (Some x, Some y) \<Rightarrow>
              fne (loc_Latitude x) (loc_Latitude y) \<or> fne (loc_Longitude x) (loc_Longitude y)
          | (None, None) \<Rightarrow> False
          | _ \<Rightarrow> True)
    | (None, None) \<Rightarrow> False
    | _ \<Rightarrow> True)"

subsection \<open>The cadence\<close>

definition idleGrace :: int where
  "idleGrace = 3"

definition stretch :: "duration \<Rightarrow> int \<Rightarrow> duration \<Rightarrow> duration" where
  "stretch base idle ceil0 =
     (let ceil = (if ceil0 < base then base else ceil0) in
      if idle \<le> idleGrace then base
      else
        let steps0 = idle - idleGrace;
            steps = (if 20 < steps0 then 20 else steps0);
            d = wrap64 (base * 2 ^ nat steps)
        in if d \<le> 0 \<or> ceil < d then ceil else d)"

definition streamFresh ::
  "('b, 'c) pollOps \<Rightarrow> gotime \<Rightarrow> 'c \<Rightarrow> 'b poller \<Rightarrow> bool" where
  "streamFresh ops now c p =
     (if po_drivingStreaming p \<le> 0 \<or> \<not> po_cached p then False
      else let last = op_LastStreamAt ops (po_id p) c in
        \<not> is_zero_time last \<and> time_sub now last < po_streamFreshWithin p)"

definition intervalFor ::
  "bool \<Rightarrow> 'b poller \<Rightarrow> state option \<Rightarrow> liveSession option \<Rightarrow> int \<Rightarrow> duration" where
  "intervalFor fresh p vs live idle =
     (if isDriving vs then (if fresh then po_drivingStreaming p else iv_Driving (po_intervals p))
      else if isCharging vs live then
        (if isDC live (po_dcThresholdKw p) then iv_ChargingDC (po_intervals p)
         else iv_Charging (po_intervals p))
      else if hasPower PowerSleep vs then iv_Asleep (po_intervals p)
      else if hasPower PowerOnline vs then
        stretch (iv_Online (po_intervals p)) idle (po_awakeBackoffCap p)
      else stretch (iv_Default (po_intervals p)) idle (po_awakeBackoffCap p))"

definition jitter :: "f64 \<Rightarrow> 'b poller \<Rightarrow> duration \<Rightarrow> duration" where
  "jitter u p d0 =
     (let d = (if d0 < po_minInterval p then po_minInterval p else d0);
          delta = fmul (i2f d) (po_jitterPct p);
          j = f2i (fmul (fsub (fmul u (fconst 2)) (fconst 1)) delta);
          out = wrap64 (d + j)
      in if out < po_minInterval p then po_minInterval p else out)"

subsection \<open>One poll\<close>

definition handleQuotaBlock ::
  "('b, 'c) pollOps \<Rightarrow> penv \<Rightarrow> goError \<Rightarrow> 'b poller \<Rightarrow> duration \<times> 'b poller" where
  "handleQuotaBlock ops e err p =
     (let d0 = po_quotaBlockFloor p;
          (ra, ok) = retryAfter err;
          d = (if ok \<and> d0 < ra then ra else d0)
      in (d, p\<lparr>po_errorCount := wrap64 (po_errorCount p + 1),
               po_consecutiveFailures := wrap64 (po_consecutiveFailures p + 1),
               po_quotaBlockedCount := wrap64 (po_quotaBlockedCount p + 1),
               po_telemetryConfigWiped := telemetryConfigWiped err,
               po_quotaBlockedUntil := pe_now e + d,
               po_lastErr := Some err,
               po_lastErrAt := pe_now e,
               po_lastBackoff := d,
               po_eb := op_reset ops (po_eb p)\<rparr>))"

definition handleError ::
  "('b, 'c) pollOps \<Rightarrow> penv \<Rightarrow> goError \<Rightarrow> 'b poller \<Rightarrow> duration \<times> 'b poller" where
  "handleError ops e err p =
     (if isQuotaBlocked err then handleQuotaBlock ops e err p
      else
        let (d0, eb) = op_next ops (po_eb p);
            d1 = (if d0 < po_minInterval p then po_minInterval p else d0);
            (ra, ok) = retryAfter err;
            d = (if ok \<and> d1 < ra then ra else d1);
            p1 = p\<lparr>po_eb := eb,
                   po_errorCount := wrap64 (po_errorCount p + 1),
                   po_consecutiveFailures := wrap64 (po_consecutiveFailures p + 1),
                   po_lastErr := Some err,
                   po_lastErrAt := pe_now e,
                   po_lastBackoff := d\<rparr>
        in (d,
            if isUnauthenticated err then p1\<lparr>po_needsReauth := True\<rparr>
            else if isRateLimited err
            then p1\<lparr>po_rateLimitedCount := wrap64 (po_rateLimitedCount p1 + 1)\<rparr>
            else p1))"

definition count_state :: "string \<Rightarrow> (string \<rightharpoonup> int) \<Rightarrow> (string \<rightharpoonup> int)" where
  "count_state k m = m(k \<mapsto> wrap64 ((case m k of None \<Rightarrow> 0 | Some n \<Rightarrow> n) + 1))"

definition pollOnce ::
  "('b, 'c) pollOps \<Rightarrow> penv \<Rightarrow> goError + snapshot \<Rightarrow> 'b poller \<times> 'c \<Rightarrow> duration \<times> 'b poller \<times> 'c" where
  "pollOnce ops e result pc =
     (let (p, c) = pc in
      case result of
        Inl err \<Rightarrow> (let (d, p') = handleError ops e err p in (d, p', c))
      | Inr snap0 \<Rightarrow>
          let vs = sn_State snap0;
              live = sn_Live snap0;
              now = pe_now e;
              snap = (if is_zero_time (sn_FetchedAt snap0) then snap0\<lparr>sn_FetchedAt := now\<rparr> else snap0);
              prev = sn_State (po_snapshot p);
              contentChanged = pollChanged prev vs (sn_Live (po_snapshot p)) live;
              idle = (if contentChanged \<or> syncAdvanced prev vs then 0
                      else wrap64 (po_consecutiveIdle p + 1));
              state = deriveState (po_dcThresholdKw p) vs live;
              backoff = (isDriving vs \<and> streamFresh ops (pe_sinceBackoff e) c p);
              interval = intervalFor (streamFresh ops (pe_sinceInterval e) c p) p vs live idle;
              p1 = p\<lparr>po_eb := op_reset ops (po_eb p),
                     po_changedCount := (if contentChanged then wrap64 (po_changedCount p + 1)
                                         else po_changedCount p),
                     po_lastChangeAt := (if contentChanged then now else po_lastChangeAt p),
                     po_consecutiveIdle := idle,
                     po_snapshot := snap,
                     po_lastSuccessAt := now,
                     po_lastErr := None,
                     po_lastBackoff := 0,
                     po_consecutiveFailures := 0,
                     po_telemetryConfigWiped := False,
                     po_quotaBlockedUntil := 0,
                     po_successCount := wrap64 (po_successCount p + 1),
                     po_needsReauth := False,
                     po_pollsByState := count_state state (po_pollsByState p),
                     po_vehicleDataFetches := (if hasPower PowerOnline vs
                       then wrap64 (po_vehicleDataFetches p + 1) else po_vehicleDataFetches p),
                     po_derivedState := state,
                     po_scheduledInterval := interval,
                     po_streamBackoffActive := backoff\<rparr>;
              c1 = (if po_cached p then snd (op_MergePoll ops (pe_cache e) (po_id p) snap c) else c)
          in (jitter (pe_rand e) p interval, p1, c1))"

subsection \<open>The loop\<close>

definition triggerNow :: "gotime \<Rightarrow> 'b poller \<Rightarrow> 'b poller" where
  "triggerNow now p =
     (if \<not> is_zero_time (po_lastSuccessAt p) \<and>
         time_sub now (po_lastSuccessAt p) < po_minInterval p
      then p else p\<lparr>po_pollNow := True\<rparr>)"

text \<open>
  What the \<^verbatim>\<open>select\<close> of \<^verbatim>\<open>Run\<close> takes: the cancelled context, the timer, or the boundary channel.
  The last can only be taken when a trigger is buffered, which it drains.
\<close>

datatype wakeup = CtxDone | TimerFired | PollNowReceived

fun poller_wake :: "wakeup \<Rightarrow> 'b poller \<Rightarrow> (string \<times> 'b poller) option" where
  "poller_wake CtxDone p = None"
| "poller_wake TimerFired p = Some (''scheduled'', p)"
| "poller_wake PollNowReceived p =
     (if po_pollNow p then Some (''boundary'', p\<lparr>po_pollNow := False\<rparr>) else None)"

text \<open>
  A run of the loop: every round polls and is woken. The stream may request polls while the
  source is being called (they see the success time of the poll before) and between the rounds.
  The result lists every round's trigger and delay.
\<close>

record pollRound =
  rd_env :: penv
  rd_during :: "gotime list"
  rd_result :: "goError + snapshot"
  rd_after :: "gotime list"
  rd_wakeup :: wakeup

fun poller_run ::
  "('b, 'c) pollOps \<Rightarrow> string \<Rightarrow> pollRound list \<Rightarrow> 'b poller \<times> 'c \<Rightarrow>
     (string \<times> duration) list \<times> 'b poller \<times> 'c" where
  "poller_run ops trigger [] pc = ([], pc)"
| "poller_run ops trigger (rd # rounds) (p, c) =
     (let p0 = fold triggerNow (rd_during rd) p;
          (next, p1, c1) = pollOnce ops (rd_env rd) (rd_result rd) (p0, c);
          p2 = fold triggerNow (rd_after rd) p1 in
      case poller_wake (rd_wakeup rd) p2 of
        None \<Rightarrow> ([(trigger, next)], p2, c1)
      | Some (trigger', p3) \<Rightarrow>
          (let (tr, pc') = poller_run ops trigger' rounds (p3, c1) in ((trigger, next) # tr, pc')))"

subsection \<open>Introspection\<close>

record pollStats =
  ps_FetchedAt :: gotime
  ps_LastSuccessAt :: gotime
  ps_LastError :: string
  ps_LastErrorAt :: gotime
  ps_ConsecutiveFailures :: int
  ps_NeedsReauth :: bool
  ps_Backoff :: duration
  ps_SuccessCount :: int
  ps_ErrorCount :: int
  ps_RateLimitedCount :: int
  ps_ChangedCount :: int
  ps_LastChangeAt :: gotime
  ps_StartedAt :: gotime
  ps_ConsecutiveIdle :: int
  ps_QuotaBlockedCount :: int
  ps_TelemetryConfigWiped :: bool
  ps_QuotaBlockedUntil :: gotime
  ps_VehicleDataFetches :: int
  ps_PollsByState :: "(string \<rightharpoonup> int) option"
  ps_ScheduledInterval :: duration
  ps_DerivedState :: string
  ps_StreamBackoffActive :: bool

definition zeroStats :: pollStats where
  "zeroStats = \<lparr>ps_FetchedAt = 0, ps_LastSuccessAt = 0, ps_LastError = '''', ps_LastErrorAt = 0,
     ps_ConsecutiveFailures = 0, ps_NeedsReauth = False, ps_Backoff = 0, ps_SuccessCount = 0,
     ps_ErrorCount = 0, ps_RateLimitedCount = 0, ps_ChangedCount = 0, ps_LastChangeAt = 0,
     ps_StartedAt = 0, ps_ConsecutiveIdle = 0, ps_QuotaBlockedCount = 0,
     ps_TelemetryConfigWiped = False, ps_QuotaBlockedUntil = 0, ps_VehicleDataFetches = 0,
     ps_PollsByState = None, ps_ScheduledInterval = 0, ps_DerivedState = '''',
     ps_StreamBackoffActive = False\<rparr>"

definition poller_Stats :: "'b poller \<Rightarrow> pollStats" where
  "poller_Stats p = \<lparr>ps_FetchedAt = sn_FetchedAt (po_snapshot p),
     ps_LastSuccessAt = po_lastSuccessAt p,
     ps_LastError = (case po_lastErr p of None \<Rightarrow> '''' | Some err \<Rightarrow> errorText err),
     ps_LastErrorAt = po_lastErrAt p, ps_ConsecutiveFailures = po_consecutiveFailures p,
     ps_NeedsReauth = po_needsReauth p, ps_Backoff = po_lastBackoff p,
     ps_SuccessCount = po_successCount p, ps_ErrorCount = po_errorCount p,
     ps_RateLimitedCount = po_rateLimitedCount p, ps_ChangedCount = po_changedCount p,
     ps_LastChangeAt = po_lastChangeAt p, ps_StartedAt = po_startedAt p,
     ps_ConsecutiveIdle = po_consecutiveIdle p, ps_QuotaBlockedCount = po_quotaBlockedCount p,
     ps_TelemetryConfigWiped = po_telemetryConfigWiped p,
     ps_QuotaBlockedUntil = po_quotaBlockedUntil p,
     ps_VehicleDataFetches = po_vehicleDataFetches p,
     ps_PollsByState = (if po_pollsByState p = Map.empty then None else Some (po_pollsByState p)),
     ps_ScheduledInterval = po_scheduledInterval p, ps_DerivedState = po_derivedState p,
     ps_StreamBackoffActive = po_streamBackoffActive p\<rparr>"

subsection \<open>The manager\<close>

record 'b manager =
  ma_pollers :: "string \<rightharpoonup> 'b poller"
  ma_order :: "string list"

definition newManager ::
  "('b, 'c) pollOps \<Rightarrow> gotime \<Rightarrow> string list \<Rightarrow> intervals \<Rightarrow> 'b manager" where
  "newManager ops now ids iv =
     fold (\<lambda>vid m. m\<lparr>ma_pollers := (ma_pollers m)(vid \<mapsto> newPoller ops now vid iv),
                     ma_order := ma_order m @ [vid]\<rparr>)
       ids \<lparr>ma_pollers = Map.empty, ma_order = []\<rparr>"

definition manager_SetCache :: "bool \<Rightarrow> 'b manager \<Rightarrow> 'b manager" where
  "manager_SetCache c m =
     m\<lparr>ma_pollers := (\<lambda>vid. map_option (\<lambda>p. p\<lparr>po_cached := c\<rparr>) (ma_pollers m vid))\<rparr>"

definition manager_Latest :: "string \<Rightarrow> 'b manager \<Rightarrow> snapshot" where
  "manager_Latest vid m =
     (case ma_pollers m vid of None \<Rightarrow> zeroSnapshot | Some p \<Rightarrow> po_snapshot p)"

definition manager_PollNow :: "gotime \<Rightarrow> string \<Rightarrow> 'b manager \<Rightarrow> 'b manager" where
  "manager_PollNow now vid m =
     (case ma_pollers m vid of None \<Rightarrow> m
      | Some p \<Rightarrow> m\<lparr>ma_pollers := (ma_pollers m)(vid \<mapsto> triggerNow now p)\<rparr>)"

definition manager_Stats :: "string \<Rightarrow> 'b manager \<Rightarrow> pollStats" where
  "manager_Stats vid m = (case ma_pollers m vid of None \<Rightarrow> zeroStats | Some p \<Rightarrow> poller_Stats p)"

subsection \<open>The jittered delay\<close>

lemma jitter_floor: "po_minInterval p \<le> jitter u p d"
  by (simp add: jitter_def Let_def)

lemma unit_interval_jitter:
  assumes "0 \<le> u" "u \<le> 1"
  obtains x where "fsub (fmul (Fin u) (fconst 2)) (fconst 1) = Fin x" and "\<bar>x\<bar> \<le> 1"
proof -
  obtain y where y: "round64 (u * 2 - 1) = Fin y" "\<bar>y\<bar> \<le> of_int 1"
    using assms by (auto intro: round64_abs [of "u * 2 - 1" 1])
  have "\<bar>u * 2\<bar> \<le> of_int 2" using assms by simp
  then obtain z where z: "round64 (u * 2) = Fin z" "\<bar>z\<bar> \<le> of_int 2" by (rule round64_abs) simp
  have "0 \<le> rnd (u * 2)" using assms by (intro rnd_nonneg) simp
  moreover have "z = rnd (u * 2)" using z(1) by (auto simp: round64_rnd split: if_splits)
  ultimately have "\<bar>z - 1\<bar> \<le> of_int 1" using z(2) by auto
  then obtain x where "round64 (z - 1) = Fin x" "\<bar>x\<bar> \<le> of_int 1" by (rule round64_abs) simp
  with z(1) show thesis by (intro that [of x]) (simp_all add: fsub_def)
qed

lemma jitter_band:
  assumes "po_jitterPct p = Fin pct" and "0 \<le> pct" and "0 \<le> u" "u \<le> 1"
    and "0 < po_minInterval p" and d: "d' = max d (po_minInterval p)" "d' \<le> 2 ^ 53"
    and n: "of_int d' * pct \<le> of_int n" "n \<le> 2 ^ 53"
  shows "\<bar>jitter (Fin u) p d - d'\<bar> \<le> n"
proof -
  have d': "0 < d'" and i2f: "i2f d' = Fin (of_int d')" using assms by (auto intro: i2f_exact)
  have "\<bar>of_int d' * pct\<bar> \<le> of_int n" using d' assms(2) n(1) by simp
  then obtain delta where delta: "round64 (of_int d' * pct) = Fin delta" "\<bar>delta\<bar> \<le> of_int n"
    using n(2) by (rule round64_abs)
  obtain x where x: "fsub (fmul (Fin u) (fconst 2)) (fconst 1) = Fin x" "\<bar>x\<bar> \<le> 1"
    using assms(3,4) by (rule unit_interval_jitter)
  have "\<bar>x * delta\<bar> \<le> 1 * of_int n" unfolding abs_mult using x(2) delta(2) by (intro mult_mono) auto
  then have "\<bar>x * delta\<bar> \<le> of_int n" by simp
  then obtain y where y: "round64 (x * delta) = Fin y" "\<bar>y\<bar> \<le> of_int n"
    using n(2) by (rule round64_abs)
  have j: "\<bar>f2i (Fin y)\<bar> \<le> n" using y(2) n(2) by (intro f2i_abs) (simp_all add: maxInt64_def)
  have w: "wrap64 (d' + f2i (Fin y)) = d' + f2i (Fin y)"
    using j d' d(2) n(2) by (intro wrap64_id) (auto simp: in_int64_def minInt64_def maxInt64_def)
  have "jitter (Fin u) p d = max (d' + f2i (Fin y)) (po_minInterval p)"
    using d(1) i2f delta(1) x(1) y(1) w assms(1)
    by (auto simp: jitter_def Let_def max_def simp del: f2i.simps)
  moreover have "po_minInterval p \<le> d'" using d(1) by simp
  ultimately show ?thesis using j by (auto simp: max_def abs_le_iff)
qed

subsection \<open>The change-adaptive stretch\<close>

definition stretchSpec :: "duration \<Rightarrow> int \<Rightarrow> duration \<Rightarrow> duration" where
  "stretchSpec base idle ceil = min (base * 2 ^ nat (min 20 (max 0 (idle - 3)))) (max base ceil)"

lemma stretch_spec:
  assumes "0 < base" and "base < 2 ^ 43"
  shows "stretch base idle ceil = stretchSpec base idle ceil"
proof -
  let ?k = "nat (min 20 (max 0 (idle - 3)))"
  have k: "?k \<le> 20" by simp
  have p: "(2 :: int) ^ ?k \<le> 2 ^ 20" using k by (intro power_increasing) auto
  have "base * 2 ^ ?k \<le> base * 2 ^ 20" using p assms(1) by (intro mult_left_mono) auto
  then have "base * 2 ^ ?k < 2 ^ 63" using assms(2) by simp
  moreover have pos: "0 < base * 2 ^ ?k" using assms(1) by simp
  ultimately have w: "wrap64 (base * 2 ^ ?k) = base * 2 ^ ?k"
    by (intro wrap64_id) (simp add: in_int64_def minInt64_def maxInt64_def)
  have pw: "2 ^ m = (1 :: int)" if "base * 2 ^ m \<le> base" for m :: nat
    using that assms(1) one_le_power [of "2 :: int" m] by (simp add: mult_le_cancel_left2 antisym)
  show ?thesis
  proof (cases "idle \<le> 3")
    case True
    then have "?k = 0" by simp
    then show ?thesis using True by (auto simp: stretch_def stretchSpec_def idleGrace_def Let_def)
  next
    case False
    then have k: "(if 20 < idle - 3 then 20 else idle - 3) = min 20 (max 0 (idle - 3))" by auto
    show ?thesis
      using False w pos unfolding stretch_def stretchSpec_def idleGrace_def Let_def k
      by (auto simp: min_def max_def dest: pw)
  qed
qed

lemma stretch_bounds:
  assumes "0 < base" and "base < 2 ^ 43"
  shows "base \<le> stretch base idle ceil" and "stretch base idle ceil \<le> max base ceil"
  unfolding stretch_spec [OF assms] stretchSpec_def using assms(1)
  by (auto simp: mult_le_cancel_left1 min_le_iff_disj)

lemma stretch_mono:
  assumes "0 < base" and "base < 2 ^ 43" and "i \<le> j"
  shows "stretch base i ceil \<le> stretch base j ceil"
proof -
  have "(2 :: int) ^ nat (min 20 (max 0 (i - 3))) \<le> 2 ^ nat (min 20 (max 0 (j - 3)))"
    using assms(3) by (intro power_increasing) auto
  then have "base * 2 ^ nat (min 20 (max 0 (i - 3))) \<le> base * 2 ^ nat (min 20 (max 0 (j - 3)))"
    using assms(1) by (intro mult_left_mono) auto
  then show ?thesis unfolding stretch_spec [OF assms(1,2)] stretchSpec_def by (auto simp: min_def)
qed

text \<open>Beyond that base the 64-bit shift wraps, and the stretched interval can be far below the base.\<close>

lemma stretch_wraps: "stretch (2 ^ 44 + 1) 23 (2 ^ 62) = 2 ^ 20"
  by (simp add: stretch_def idleGrace_def Let_def wrap64_def)

subsection \<open>Cadence and derived state\<close>

text \<open>The interval as a function of the derived state.\<close>

definition cadenceOf :: "bool \<Rightarrow> 'b poller \<Rightarrow> int \<Rightarrow> string \<Rightarrow> duration" where
  "cadenceOf fresh p idle state =
     (if state = ''driving'' then (if fresh then po_drivingStreaming p else iv_Driving (po_intervals p))
      else if state = ''charging_dc'' then iv_ChargingDC (po_intervals p)
      else if state = ''charging_ac'' then iv_Charging (po_intervals p)
      else if state = ''asleep'' then iv_Asleep (po_intervals p)
      else if state = ''online'' then stretch (iv_Online (po_intervals p)) idle (po_awakeBackoffCap p)
      else stretch (iv_Default (po_intervals p)) idle (po_awakeBackoffCap p))"

lemma intervalFor_deriveState:
  "intervalFor fresh p vs live idle = cadenceOf fresh p idle (deriveState (po_dcThresholdKw p) vs live)"
  by (simp add: intervalFor_def cadenceOf_def deriveState_def)

subsection \<open>What one poll does\<close>

lemmas poll_step_defs = pollOnce_def handleError_def handleQuotaBlock_def

lemma handleError_delay:
  "min (po_minInterval p) (po_quotaBlockFloor p) \<le> fst (handleError ops e err p)"
  "\<not> isQuotaBlocked err \<Longrightarrow> po_minInterval p \<le> fst (handleError ops e err p)"
  "isQuotaBlocked err \<Longrightarrow> po_quotaBlockFloor p \<le> fst (handleError ops e err p)"
  by (auto simp: handleError_def handleQuotaBlock_def Let_def split_beta min_def)

lemma handleError_retryAfter: "retryAfter err = (ra, True) \<Longrightarrow> ra \<le> fst (handleError ops e err p)"
  by (auto simp: handleError_def handleQuotaBlock_def Let_def split_beta)

lemma pollOnce_Inl:
  "pollOnce ops e (Inl err) (p, c) =
     (fst (handleError ops e err p), snd (handleError ops e err p), c)"
  by (simp add: pollOnce_def split_beta)

lemma pollOnce_delay:
  "min (po_minInterval p) (po_quotaBlockFloor p) \<le> fst (pollOnce ops e r (p, c))"
proof (cases r)
  case (Inl err)
  then show ?thesis by (simp add: pollOnce_Inl handleError_delay(1))
next
  case (Inr snap)
  then show ?thesis using jitter_floor [of p] by (simp add: pollOnce_def Let_def min.coboundedI1)
qed

lemma handleError_keeps [simp]:
  "po_snapshot (snd (handleError ops e err p)) = po_snapshot p"
  "po_id (snd (handleError ops e err p)) = po_id p"
  "po_intervals (snd (handleError ops e err p)) = po_intervals p"
  "po_minInterval (snd (handleError ops e err p)) = po_minInterval p"
  "po_quotaBlockFloor (snd (handleError ops e err p)) = po_quotaBlockFloor p"
  "po_cached (snd (handleError ops e err p)) = po_cached p"
  "po_pollNow (snd (handleError ops e err p)) = po_pollNow p"
  "po_lastSuccessAt (snd (handleError ops e err p)) = po_lastSuccessAt p"
  "po_successCount (snd (handleError ops e err p)) = po_successCount p"
  "po_changedCount (snd (handleError ops e err p)) = po_changedCount p"
  "po_consecutiveIdle (snd (handleError ops e err p)) = po_consecutiveIdle p"
  "po_pollsByState (snd (handleError ops e err p)) = po_pollsByState p"
  "po_vehicleDataFetches (snd (handleError ops e err p)) = po_vehicleDataFetches p"
  by (simp_all add: handleError_def handleQuotaBlock_def Let_def split_beta)

lemma pollOnce_config [simp]:
  "po_id (fst (snd (pollOnce ops e r (p, c)))) = po_id p"
  "po_intervals (fst (snd (pollOnce ops e r (p, c)))) = po_intervals p"
  "po_minInterval (fst (snd (pollOnce ops e r (p, c)))) = po_minInterval p"
  "po_quotaBlockFloor (fst (snd (pollOnce ops e r (p, c)))) = po_quotaBlockFloor p"
  "po_cached (fst (snd (pollOnce ops e r (p, c)))) = po_cached p"
  "po_pollNow (fst (snd (pollOnce ops e r (p, c)))) = po_pollNow p"
  by (cases r; simp add: pollOnce_Inl; simp add: pollOnce_def Let_def)+

lemma triggerNow_form: "triggerNow now p = p\<lparr>po_pollNow := po_pollNow (triggerNow now p)\<rparr>"
  by (simp add: triggerNow_def)

lemma fold_triggerNow: "\<exists>b. fold triggerNow ts p = p\<lparr>po_pollNow := b\<rparr>"
proof (induction ts arbitrary: p)
  case Nil
  have "fold triggerNow [] p = p\<lparr>po_pollNow := po_pollNow p\<rparr>" by simp
  then show ?case by (rule exI)
next
  case (Cons t ts)
  from Cons [of "triggerNow t p"] obtain b where "fold triggerNow ts (triggerNow t p) =
      (triggerNow t p)\<lparr>po_pollNow := b\<rparr>" ..
  then have "fold triggerNow (t # ts) p = p\<lparr>po_pollNow := b\<rparr>"
    by (simp add: triggerNow_def)
  then show ?case by (rule exI)
qed

text \<open>The observable effect of a successful poll, field by field.\<close>

lemma pollOnce_Inr:
  fixes snap c ops e p
  defines "p' \<equiv> fst (snd (pollOnce ops e (Inr snap) (p, c)))"
    and "new \<equiv> pollChanged (sn_State (po_snapshot p)) (sn_State snap) (sn_Live (po_snapshot p)) (sn_Live snap)"
  shows "po_successCount p' = wrap64 (po_successCount p + 1)"
    and "po_errorCount p' = po_errorCount p"
    and "po_changedCount p' = (if new then wrap64 (po_changedCount p + 1) else po_changedCount p)"
    and "po_vehicleDataFetches p' = (if hasPower PowerOnline (sn_State snap)
       then wrap64 (po_vehicleDataFetches p + 1) else po_vehicleDataFetches p)"
    and "po_consecutiveIdle p' = (if new \<or> syncAdvanced (sn_State (po_snapshot p)) (sn_State snap) then 0
       else wrap64 (po_consecutiveIdle p + 1))"
    and "po_rateLimitedCount p' = po_rateLimitedCount p"
    and "po_quotaBlockedCount p' = po_quotaBlockedCount p"
    and "po_consecutiveFailures p' = 0" and "po_lastErr p' = None" and "\<not> po_needsReauth p'"
    and "\<not> po_telemetryConfigWiped p'" and "po_quotaBlockedUntil p' = 0" and "po_lastBackoff p' = 0"
    and "po_pollsByState p' = count_state (deriveState (po_dcThresholdKw p) (sn_State snap) (sn_Live snap))
       (po_pollsByState p)"
    and "po_lastSuccessAt p' = pe_now e"
    and "po_snapshot p' = (if is_zero_time (sn_FetchedAt snap) then snap\<lparr>sn_FetchedAt := pe_now e\<rparr> else snap)"
    and "po_derivedState p' = deriveState (po_dcThresholdKw p) (sn_State snap) (sn_Live snap)"
  unfolding p'_def new_def by (simp_all add: pollOnce_def Let_def)

subsection \<open>The poller's books\<close>

definition stateNames :: "string list" where
  "stateNames = [''driving'', ''charging_dc'', ''charging_ac'', ''asleep'', ''online'', ''offline'', ''unknown'']"

definition stateTotal :: "(string \<rightharpoonup> int) \<Rightarrow> int" where
  "stateTotal m = sum_list (map (\<lambda>k. case m k of None \<Rightarrow> 0 | Some n \<Rightarrow> n) stateNames)"

definition pollBooks :: "int \<Rightarrow> 'b poller \<Rightarrow> bool" where
  "pollBooks n p \<longleftrightarrow>
     0 \<le> po_successCount p \<and> 0 \<le> po_errorCount p \<and> po_successCount p + po_errorCount p = n \<and>
     0 \<le> po_changedCount p \<and> po_changedCount p \<le> po_successCount p \<and>
     0 \<le> po_vehicleDataFetches p \<and> po_vehicleDataFetches p \<le> po_successCount p \<and>
     0 \<le> po_consecutiveIdle p \<and> po_consecutiveIdle p + po_changedCount p \<le> po_successCount p \<and>
     0 \<le> po_rateLimitedCount p \<and> 0 \<le> po_quotaBlockedCount p \<and>
     po_rateLimitedCount p + po_quotaBlockedCount p \<le> po_errorCount p \<and>
     0 \<le> po_consecutiveFailures p \<and> po_consecutiveFailures p \<le> po_errorCount p \<and>
     (po_consecutiveFailures p = 0 \<longleftrightarrow> po_lastErr p = None) \<and>
     (po_lastErr p = None \<longrightarrow> \<not> po_needsReauth p \<and> \<not> po_telemetryConfigWiped p \<and>
        po_quotaBlockedUntil p = 0 \<and> po_lastBackoff p = 0) \<and>
     (\<forall>k n. po_pollsByState p k = Some n \<longrightarrow> 0 \<le> n \<and> n \<le> po_successCount p) \<and>
     stateTotal (po_pollsByState p) = po_successCount p"

lemma new_books: "pollBooks 0 (newPoller ops now vid iv)"
  by (simp add: pollBooks_def newPoller_def Let_def stateTotal_def stateNames_def)

lemma wrap64_inc: "0 \<le> k \<Longrightarrow> k < maxInt64 \<Longrightarrow> wrap64 (k + 1) = k + 1"
  by (intro wrap64_id) (simp add: in_int64_def minInt64_def)

lemma books_congr: "pollBooks n p \<Longrightarrow> pollBooks n (p\<lparr>po_pollNow := b\<rparr>)"
  by (simp add: pollBooks_def)

lemma handleError_books:
  assumes "pollBooks n p" and "n < maxInt64"
  shows "pollBooks (n + 1) (snd (handleError ops e err p))"
proof -
  have w: "wrap64 (po_errorCount p + 1) = po_errorCount p + 1"
      "wrap64 (po_consecutiveFailures p + 1) = po_consecutiveFailures p + 1"
      "wrap64 (po_quotaBlockedCount p + 1) = po_quotaBlockedCount p + 1"
      "wrap64 (po_rateLimitedCount p + 1) = po_rateLimitedCount p + 1"
    using assms by (auto simp: pollBooks_def intro!: wrap64_inc)
  show ?thesis
    using assms unfolding handleError_def handleQuotaBlock_def Let_def split_beta
    by (simp add: w pollBooks_def)
qed

lemma deriveState_names: "deriveState th vs live \<in> set stateNames"
  by (simp add: deriveState_def stateNames_def)

lemma stateTotal_count:
  assumes "k \<in> set stateNames" and "\<And>n. m k = Some n \<Longrightarrow> 0 \<le> n \<and> n < maxInt64"
  shows "stateTotal (count_state k m) = stateTotal m + 1"
proof -
  let ?v = "\<lambda>m k. case m k of None \<Rightarrow> 0 :: int | Some n \<Rightarrow> n"
  have upd: "?v (count_state k m) k' = ?v m k' + (if k' = k then 1 else 0)" for k'
    using assms(2) by (auto simp: count_state_def wrap64_inc split: option.split)
      (simp_all add: wrap64_def)
  have "sum_list (map (?v (count_state k m)) ks) = sum_list (map (?v m) ks) + (if k \<in> set ks then 1 else 0)"
    if "distinct ks" for ks
    using that by (induction ks) (auto simp: upd)
  moreover have "distinct stateNames" by (simp add: stateNames_def)
  ultimately show ?thesis using assms(1) by (simp add: stateTotal_def)
qed

lemma count_state_bound:
  assumes "\<forall>k n. m k = Some n \<longrightarrow> 0 \<le> n \<and> n \<le> s" and "0 \<le> s" and "s < maxInt64"
    and "count_state k0 m k = Some x"
  shows "0 \<le> x \<and> x \<le> s + 1"
proof (cases "k = k0")
  case True
  define v where "v = (case m k0 of None \<Rightarrow> 0 | Some n \<Rightarrow> n)"
  have v: "0 \<le> v" "v \<le> s" using assms(1,2) by (auto simp: v_def split: option.split)
  have "x = wrap64 (v + 1)" using assms(4) True by (simp add: count_state_def v_def)
  also have "\<dots> = v + 1" using v assms(3) by (intro wrap64_inc) simp_all
  finally show ?thesis using v by simp
next
  case False
  then show ?thesis using assms(1,2,4) by (fastforce simp: count_state_def)
qed

lemma pollOnce_books:
  assumes bk: "pollBooks n p" and n: "n < maxInt64"
  shows "pollBooks (n + 1) (fst (snd (pollOnce ops e r (p, c))))"
proof (cases r)
  case (Inl err)
  then show ?thesis using handleError_books [OF assms] by (simp add: pollOnce_Inl)
next
  case (Inr snap)
  let ?s = "deriveState (po_dcThresholdKw p) (sn_State snap) (sn_Live snap)"
  have w: "wrap64 (po_successCount p + 1) = po_successCount p + 1"
      "wrap64 (po_changedCount p + 1) = po_changedCount p + 1"
      "wrap64 (po_vehicleDataFetches p + 1) = po_vehicleDataFetches p + 1"
      "wrap64 (po_consecutiveIdle p + 1) = po_consecutiveIdle p + 1"
    using assms by (auto simp: pollBooks_def intro!: wrap64_inc)
  have b: "0 \<le> x \<and> x < maxInt64" if "po_pollsByState p k = Some x" for k x
    using that bk n by (fastforce simp: pollBooks_def)
  have tot: "stateTotal (count_state ?s (po_pollsByState p)) = stateTotal (po_pollsByState p) + 1"
    using b by (intro stateTotal_count deriveState_names)
  have cnt: "0 \<le> x \<and> x \<le> po_successCount p + 1" if "count_state ?s (po_pollsByState p) k = Some x" for k x
  proof (rule count_state_bound [OF _ _ _ that])
    show "\<forall>k n. po_pollsByState p k = Some n \<longrightarrow> 0 \<le> n \<and> n \<le> po_successCount p"
      using bk unfolding pollBooks_def by blast
    show "0 \<le> po_successCount p" using bk unfolding pollBooks_def by blast
    show "po_successCount p < maxInt64" using bk n unfolding pollBooks_def by linarith
  qed
  note b = bk [unfolded pollBooks_def]
  from b have c: "0 \<le> po_successCount p" "0 \<le> po_errorCount p" "po_successCount p + po_errorCount p = n"
      "0 \<le> po_changedCount p" "po_changedCount p \<le> po_successCount p"
      "0 \<le> po_vehicleDataFetches p" "po_vehicleDataFetches p \<le> po_successCount p"
      "0 \<le> po_consecutiveIdle p" "po_consecutiveIdle p + po_changedCount p \<le> po_successCount p"
      "0 \<le> po_rateLimitedCount p" "0 \<le> po_quotaBlockedCount p"
      "po_rateLimitedCount p + po_quotaBlockedCount p \<le> po_errorCount p"
      "stateTotal (po_pollsByState p) = po_successCount p" by blast+
  show ?thesis
    unfolding pollBooks_def Inr pollOnce_Inr w tot
    by (intro conjI allI impI; (use cnt in blast | use c in \<open>simp add: pollOnce_Inr(10,11)\<close>)?)
qed

subsection \<open>Runs of the loop\<close>

text \<open>What every poll and every trigger keeps, every run keeps.\<close>

lemma poller_run_induct [consumes 1, case_names poll now]:
  assumes "P n p"
    and poll: "\<And>n p c e r. P n p \<Longrightarrow> n < N \<Longrightarrow> P (n + 1) (fst (snd (pollOnce ops e r (p, c))))"
    and now: "\<And>n p b. P n p \<Longrightarrow> P n (p\<lparr>po_pollNow := b\<rparr>)"
    and "n + int (length rounds) \<le> N"
  shows "P (n + int (length (fst (poller_run ops trigger rounds (p, c)))))
           (fst (snd (poller_run ops trigger rounds (p, c))))"
  using assms(1,4)
proof (induction rounds arbitrary: trigger p c n)
  case (Cons rd rounds)
  obtain b where b: "fold triggerNow (rd_during rd) p = p\<lparr>po_pollNow := b\<rparr>"
    using fold_triggerNow by blast
  obtain d p1 c1 where po: "pollOnce ops (rd_env rd) (rd_result rd) (p\<lparr>po_pollNow := b\<rparr>, c) = (d, p1, c1)"
    by (metis surj_pair)
  obtain b2 where b2: "fold triggerNow (rd_after rd) p1 = p1\<lparr>po_pollNow := b2\<rparr>"
    using fold_triggerNow by blast
  have p1: "P (n + 1) p1"
    using poll [OF now [OF Cons.prems(1), of b], of "rd_env rd" "rd_result rd" c] po Cons.prems(2) by simp
  show ?case
  proof (cases "poller_wake (rd_wakeup rd) (p1\<lparr>po_pollNow := b2\<rparr>)")
    case None
    then show ?thesis using now [OF p1] by (simp add: b po b2)
  next
    case (Some x)
    obtain tr p3 where x: "x = (tr, p3)" by fastforce
    have "\<exists>b3. p3 = p1\<lparr>po_pollNow := b3\<rparr>"
      using Some x by (cases "rd_wakeup rd") (auto split: if_splits)
    then have "P (n + 1) p3" using now [OF p1] by auto
    from Cons.IH [OF this, of tr c1] Some x Cons.prems(2) show ?thesis
      by (auto simp: b po b2 split_beta algebra_simps)
  qed
qed simp

lemma run_books:
  assumes "pollBooks n p" and "n + int (length rounds) \<le> maxInt64"
  shows "pollBooks (n + int (length (fst (poller_run ops trigger rounds (p, c)))))
     (fst (snd (poller_run ops trigger rounds (p, c))))"
  using assms(1) pollOnce_books books_congr assms(2) by (rule poller_run_induct)

lemma run_delays:
  assumes "(tr, d) \<in> set (fst (poller_run ops trigger rounds (p, c)))"
  shows "min (po_minInterval p) (po_quotaBlockFloor p) \<le> d"
  using assms
proof (induction rounds arbitrary: trigger p c)
  case (Cons rd rounds)
  obtain b where b: "fold triggerNow (rd_during rd) p = p\<lparr>po_pollNow := b\<rparr>"
    using fold_triggerNow by blast
  obtain d1 p1 c1 where po: "pollOnce ops (rd_env rd) (rd_result rd) (p\<lparr>po_pollNow := b\<rparr>, c) = (d1, p1, c1)"
    by (metis surj_pair)
  obtain b2 where b2: "fold triggerNow (rd_after rd) p1 = p1\<lparr>po_pollNow := b2\<rparr>"
    using fold_triggerNow by blast
  have cfg: "po_minInterval p1 = po_minInterval p" "po_quotaBlockFloor p1 = po_quotaBlockFloor p"
    using pollOnce_config(3,4) [of ops "rd_env rd" "rd_result rd" "p\<lparr>po_pollNow := b\<rparr>" c] po by simp_all
  have d1: "min (po_minInterval p) (po_quotaBlockFloor p) \<le> d1"
    using pollOnce_delay [of "p\<lparr>po_pollNow := b\<rparr>" ops "rd_env rd" "rd_result rd" c] po by simp
  show ?case
  proof (cases "poller_wake (rd_wakeup rd) (p1\<lparr>po_pollNow := b2\<rparr>)")
    case None
    then show ?thesis using Cons.prems d1 by (simp add: b po b2)
  next
    case (Some x)
    obtain tr' p3 where x: "x = (tr', p3)" by fastforce
    have p3: "\<exists>b3. p3 = p1\<lparr>po_pollNow := b3\<rparr>"
      using Some x by (cases "rd_wakeup rd") (auto split: if_splits)
    then have "(tr, d) = (trigger, d1) \<or> (tr, d) \<in> set (fst (poller_run ops tr' rounds (p3, c1)))"
      using Cons.prems Some x by (simp add: b po b2 split_beta)
    then show ?thesis using d1 Cons.IH [of tr' p3 c1] p3 cfg by auto
  qed
qed simp

subsection \<open>The cache interface\<close>

text \<open>
  What the loop relies on when it writes through the cache and reads the stream's freshness
  back: a poll written through never counts as a stream frame. The loop then cannot put itself
  into the streaming cadence.
\<close>

locale poll_cache =
  fixes ops :: "('b, 'c) pollOps"
  assumes poll_is_no_frame:
    "op_LastStreamAt ops vid' (snd (op_MergePoll ops ce vid snap c)) = op_LastStreamAt ops vid' c"
begin

lemma pollOnce_no_frame:
  "op_LastStreamAt ops vid (snd (snd (pollOnce ops e r (p, c)))) = op_LastStreamAt ops vid c"
  by (cases r) (simp_all add: pollOnce_Inl, simp add: pollOnce_def Let_def poll_is_no_frame)

lemma run_no_frame:
  "op_LastStreamAt ops vid (snd (snd (poller_run ops trigger rounds (p, c)))) = op_LastStreamAt ops vid c"
proof (induction rounds arbitrary: trigger p c)
  case (Cons rd rounds)
  obtain d p1 c1 where po:
    "pollOnce ops (rd_env rd) (rd_result rd) (fold triggerNow (rd_during rd) p, c) = (d, p1, c1)"
    by (metis surj_pair)
  have c1: "op_LastStreamAt ops vid c1 = op_LastStreamAt ops vid c"
    using pollOnce_no_frame [of vid "rd_env rd" "rd_result rd" "fold triggerNow (rd_during rd) p" c] po by simp
  show ?case
  proof (cases "poller_wake (rd_wakeup rd) (fold triggerNow (rd_after rd) p1)")
    case None
    then show ?thesis by (simp add: Let_def po c1)
  next
    case (Some x)
    then show ?thesis using Cons.IH [of "fst x" "snd x" c1] by (simp add: Let_def po c1 split_beta)
  qed
qed simp

text \<open>A stalled stream stays stalled however often the loop polls.\<close>

lemma stalled_stays_stalled:
  assumes "po_streamFreshWithin p \<le> time_sub now (op_LastStreamAt ops (po_id p) c)"
  shows "\<not> streamFresh ops now (snd (snd (poller_run ops trigger rounds (p, c)))) p"
  using assms by (simp add: streamFresh_def run_no_frame Let_def)

end

subsection \<open>Limits of the pacing\<close>

text \<open>
  The quota delay is the configured floor as it is, below \<open>minInterval\<close> when it is configured
  so; and a trigger looks at the last success only, so it cuts a quota block short.
\<close>

lemma quota_delay_unfloored:
  "isQuotaBlocked err \<Longrightarrow> retryAfter err = (0, False) \<Longrightarrow> fst (handleError ops e err p) = po_quotaBlockFloor p"
  by (simp add: handleError_def handleQuotaBlock_def Let_def)

lemma quota_block_cut_short:
  assumes "po_minInterval p \<le> time_sub now (po_lastSuccessAt p)"
  shows "\<exists>p'. poller_wake PollNowReceived (triggerNow now (snd (handleQuotaBlock ops e err p))) =
      Some (''boundary'', p') \<and> po_quotaBlockedUntil p' = po_quotaBlockedUntil (snd (handleQuotaBlock ops e err p))"
  using assms by (simp add: triggerNow_def handleQuotaBlock_def Let_def split_beta)

end
