(* ===== verification/Service.thy ===== *)
theory Service
  imports Poll
begin

section \<open>The cache service\<close>

text \<open>
  \<^verbatim>\<open>internal/cache/service.go\<close>: one merger per served vehicle, the shared stores and counters,
  and the views the poll loop, the stream sources and the sinks have of them. The function
  pointer \<^verbatim>\<open>pollTrigger\<close> is a flag that tells whether it is set; \<^verbatim>\<open>Put\<close> and
  \<^verbatim>\<open>OnStreamDisconnect\<close> return the ids they call it with. \<^verbatim>\<open>Subscribe\<close> returns False for
  the closed channel an unknown id gets. The lemmas show that one vehicle's operations leave the
  others alone, that the marks survive a restart, and that the replay ring is the tail of what
  was served; the last part interprets the poll loop's cache interface.
\<close>

record service =
  sv_mergers :: "string \<rightharpoonup> merger"
  sv_order :: "string list"
  sv_identities :: "identity list"
  sv_staleAfter :: duration
  sv_shared :: cshared
  sv_replay :: replayBuffer
  sv_hasTrigger :: bool
  sv_streamFreshWithin :: duration

definition newService ::
  "identity list \<Rightarrow> duration \<Rightarrow> string \<Rightarrow> (string \<rightharpoonup> gotime) fileState \<Rightarrow> string \<Rightarrow>
     (string \<rightharpoonup> snapshot list) fileState \<Rightarrow> int \<Rightarrow> storeError + service" where
  "newService identities staleAfter asofFile asofData replayFile replayData replayDepth =
     (case newAsofStore asofFile asofData of
        Inl err \<Rightarrow> Inl err
      | Inr store \<Rightarrow>
        (case newReplayBuffer replayFile replayDepth replayData of
           Inl err \<Rightarrow> Inl err
         | Inr ring \<Rightarrow>
             Inr (fold (\<lambda>ident s. s\<lparr>
                  sv_mergers := (sv_mergers s)(id_ID ident \<mapsto>
                     newPersistedMerger (id_ID ident) (asof_Get (id_ID ident) store)),
                  sv_order := sv_order s @ [id_ID ident]\<rparr>)
                identities
                \<lparr>sv_mergers = Map.empty, sv_order = [], sv_identities = identities,
                 sv_staleAfter = staleAfter,
                 sv_shared = \<lparr>sh_integrity = Some zeroIntegrity, sh_session = Some zeroSession,
                              sh_asof = Some store\<rparr>,
                 sv_replay = ring, sv_hasTrigger = False, sv_streamFreshWithin = 0\<rparr>)))"

definition service_IntegrityStats :: "service \<Rightarrow> (string \<rightharpoonup> int)" where
  "service_IntegrityStats s = integritySnapshot (sh_integrity (sv_shared s))"

definition service_SessionStats :: "service \<Rightarrow> (string \<rightharpoonup> int)" where
  "service_SessionStats s = sessionSnapshot (sh_session (sv_shared s))"

definition service_FlushAsOf :: "cenv \<Rightarrow> service \<Rightarrow> service" where
  "service_FlushAsOf e s = s\<lparr>sv_shared := (sv_shared s)\<lparr>
     sh_asof := map_option (asof_Flush (en_now e) (en_asofOk e)) (sh_asof (sv_shared s))\<rparr>\<rparr>"

definition service_FlushReplay :: "cenv \<Rightarrow> service \<Rightarrow> service" where
  "service_FlushReplay e s = s\<lparr>sv_replay := replay_Flush (en_now e) (en_replayOk e) (sv_replay s)\<rparr>"

definition service_Replay :: "string \<Rightarrow> service \<Rightarrow> snapshot list" where
  "service_Replay vid s = replay_Replay vid (sv_replay s)"

definition service_SetPollTrigger :: "service \<Rightarrow> service" where
  "service_SetPollTrigger s = s\<lparr>sv_hasTrigger := True\<rparr>"

definition service_SetStreamFreshWithin :: "duration \<Rightarrow> service \<Rightarrow> service" where
  "service_SetStreamFreshWithin d s = s\<lparr>sv_streamFreshWithin := d\<rparr>"

definition service_MergePoll ::
  "cenv \<Rightarrow> string \<Rightarrow> snapshot \<Rightarrow> service \<Rightarrow> snapshot \<times> service" where
  "service_MergePoll e vid snap s =
     (case sv_mergers s vid of
        None \<Rightarrow> (snap, s)
      | Some m \<Rightarrow>
          let (merged, m', sh') = mergePoll e snap (sv_staleAfter s) (m, sv_shared s)
          in (merged, s\<lparr>sv_mergers := (sv_mergers s)(vid \<mapsto> m'), sv_shared := sh',
                sv_replay := replay_Append (en_now e) (en_replayOk e) vid merged (sv_replay s)\<rparr>))"

definition service_LastStreamAt :: "string \<Rightarrow> service \<Rightarrow> gotime" where
  "service_LastStreamAt vid s =
     (case sv_mergers s vid of None \<Rightarrow> 0 | Some m \<Rightarrow> merger_LastStreamAt m)"

definition service_Put ::
  "cenv \<Rightarrow> string \<Rightarrow> snapshot \<Rightarrow> service \<Rightarrow> string list \<times> service" where
  "service_Put e vid snap s =
     (case sv_mergers s vid of
        None \<Rightarrow> ([], s)
      | Some m \<Rightarrow>
          if sn_State snap = None \<or> sn_StreamPresent snap = 0 then ([], s)
          else
            let ((merged, poll), m', sh') =
                  mergeStreamDetect e snap (sv_staleAfter s) (m, sv_shared s)
            in (if poll \<and> sv_hasTrigger s then [vid] else [],
                s\<lparr>sv_mergers := (sv_mergers s)(vid \<mapsto> m'), sv_shared := sh',
                  sv_replay := replay_Append (en_now e) (en_replayOk e) vid merged (sv_replay s)\<rparr>))"

definition service_OnStreamDisconnect :: "gotime \<Rightarrow> string \<Rightarrow> service \<Rightarrow> string list" where
  "service_OnStreamDisconnect now vid s =
     (if \<not> sv_hasTrigger s then []
      else
        let last = service_LastStreamAt vid s;
            streamAge = (if \<not> is_zero_time last then time_sub now last else 0) in
        if 0 < sv_streamFreshWithin s \<and> 0 < streamAge \<and> streamAge < sv_streamFreshWithin s
        then [] else [vid])"

definition service_KnownIDs :: "service \<Rightarrow> string set" where
  "service_KnownIDs s = dom (sv_mergers s)"

definition service_Latest :: "string \<Rightarrow> service \<Rightarrow> snapshot" where
  "service_Latest vid s =
     (case sv_mergers s vid of None \<Rightarrow> zeroSnapshot | Some m \<Rightarrow> merger_Latest m)"

definition service_Subscribe :: "nat \<Rightarrow> string \<Rightarrow> service \<Rightarrow> bool \<times> service" where
  "service_Subscribe ch vid s =
     (case sv_mergers s vid of
        None \<Rightarrow> (False, s)
      | Some m \<Rightarrow> (True, s\<lparr>sv_mergers := (sv_mergers s)(vid \<mapsto> merger_Subscribe ch m)\<rparr>))"

definition service_Unsubscribe :: "nat \<Rightarrow> string \<Rightarrow> service \<Rightarrow> service" where
  "service_Unsubscribe ch vid s =
     (case sv_mergers s vid of
        None \<Rightarrow> s
      | Some m \<Rightarrow> s\<lparr>sv_mergers := (sv_mergers s)(vid \<mapsto> merger_Unsubscribe ch m)\<rparr>)"

definition service_Vehicles :: "service \<Rightarrow> identity list" where
  "service_Vehicles s = sv_identities s"

text \<open>The provider adapter: content from the cache, health from the poll manager, which may be nil.\<close>

definition provider_Stats :: "'b manager option \<Rightarrow> string \<Rightarrow> pollStats" where
  "provider_Stats mgr vid = (case mgr of None \<Rightarrow> zeroStats | Some m \<Rightarrow> manager_Stats vid m)"

subsection \<open>The service as a state machine\<close>

datatype serviceOp =
  SvMergePoll string snapshot | SvPut string snapshot | SvSubscribe nat string
| SvUnsubscribe nat string | SvFlushAsOf | SvFlushReplay

fun service_step :: "cenv \<times> serviceOp \<Rightarrow> service \<Rightarrow> service" where
  "service_step (e, SvMergePoll vid snap) s = snd (service_MergePoll e vid snap s)"
| "service_step (e, SvPut vid snap) s = snd (service_Put e vid snap s)"
| "service_step (e, SvSubscribe ch vid) s = snd (service_Subscribe ch vid s)"
| "service_step (e, SvUnsubscribe ch vid) s = service_Unsubscribe ch vid s"
| "service_step (e, SvFlushAsOf) s = service_FlushAsOf e s"
| "service_step (e, SvFlushReplay) s = service_FlushReplay e s"

text \<open>The snapshot an operation serves for a vehicle, if it serves one.\<close>

fun servedBy :: "string \<Rightarrow> cenv \<times> serviceOp \<Rightarrow> service \<Rightarrow> snapshot list" where
  "servedBy vid (e, SvMergePoll vid' snap) s =
     (if vid' = vid \<and> sv_mergers s vid \<noteq> None then [fst (service_MergePoll e vid snap s)] else [])"
| "servedBy vid (e, SvPut vid' snap) s =
     (case sv_mergers s vid of
        Some m \<Rightarrow> if vid' = vid \<and> sn_State snap \<noteq> None \<and> sn_StreamPresent snap \<noteq> 0
          then [fst (fst (mergeStreamDetect e snap (sv_staleAfter s) (m, sv_shared s)))] else []
      | None \<Rightarrow> [])"
| "servedBy vid (e, _) s = []"

fun servedLog :: "string \<Rightarrow> (cenv \<times> serviceOp) list \<Rightarrow> service \<Rightarrow> snapshot list" where
  "servedLog vid [] s = []"
| "servedLog vid (a # as) s = servedBy vid a s @ servedLog vid as (service_step a s)"

lemmas service_defs = service_MergePoll_def service_Put_def service_Subscribe_def
  service_Unsubscribe_def service_FlushAsOf_def service_FlushReplay_def

subsection \<open>Deny by default and isolation\<close>

lemma step_dom [simp]: "dom (sv_mergers (service_step a s)) = dom (sv_mergers s)"
proof -
  obtain e b where a: "a = (e, b)" by fastforce
  show ?thesis unfolding a
    by (cases b) (auto simp: service_defs Let_def split_beta split: option.splits)
qed

lemma run_dom [simp]: "dom (sv_mergers (fold service_step as s)) = dom (sv_mergers s)"
  by (induction as arbitrary: s) simp_all

fun opVehicle :: "serviceOp \<Rightarrow> string option" where
  "opVehicle (SvMergePoll vid _) = Some vid"
| "opVehicle (SvPut vid _) = Some vid"
| "opVehicle (SvSubscribe _ vid) = Some vid"
| "opVehicle (SvUnsubscribe _ vid) = Some vid"
| "opVehicle _ = None"

lemma step_other_merger:
  "opVehicle b \<noteq> Some vid \<Longrightarrow> sv_mergers (service_step (e, b) s) vid = sv_mergers s vid"
  by (cases b) (auto simp: service_defs Let_def split_beta split: option.splits)

lemma Append_other: "vid' \<noteq> vid \<Longrightarrow> replay_Replay vid (replay_Append now ok vid' snap b) = replay_Replay vid b"
  using ringOf_Append [of b vid] by (auto simp: replay_Replay_def)

lemma trimRing_append:
  assumes "0 < d" shows "trimRing d (trimRing d xs @ ys) = trimRing d (xs @ ys)"
proof (induction ys rule: rev_induct)
  case Nil
  then show ?case using length_trimRing [of d xs] assms by simp
next
  case (snoc y ys)
  have "trimRing d (trimRing d xs @ ys @ [y]) = trimRing d (trimRing d (trimRing d xs @ ys) @ [y])"
    using trimRing_snoc [OF assms, of "trimRing d xs @ ys" y] by simp
  also have "\<dots> = trimRing d (trimRing d (xs @ ys) @ [y])" by (simp add: snoc)
  also have "\<dots> = trimRing d (xs @ ys @ [y])" using trimRing_snoc [OF assms, of "xs @ ys" y] by simp
  finally show ?case .
qed

lemma step_other_replay:
  "opVehicle b \<noteq> Some vid \<Longrightarrow> service_Replay vid (service_step (e, b) s) = service_Replay vid s"
  by (cases b) (auto simp: service_defs service_Replay_def Append_other Let_def split_beta
      replay.flush_read [THEN fun_cong] split: option.splits)

lemma Append_same:
  "rb_path b \<noteq> '''' \<Longrightarrow> replay_Replay vid (replay_Append now ok vid snap b) =
     trimRing (rb_depth b) (replay_Replay vid b @ [snap])"
  by (simp add: replay_Replay_def ringOf_Append)

lemma step_ring [simp]:
  "rb_path (sv_replay (service_step a s)) = rb_path (sv_replay s)"
  "rb_depth (sv_replay (service_step a s)) = rb_depth (sv_replay s)"
proof -
  obtain e b where a: "a = (e, b)" by fastforce
  show "rb_path (sv_replay (service_step a s)) = rb_path (sv_replay s)"
       "rb_depth (sv_replay (service_step a s)) = rb_depth (sv_replay s)" unfolding a
    by (cases b; auto simp: service_defs Let_def split_beta replay_Flush_def split: option.splits)+
qed

lemma step_replay:
  assumes "rb_path (sv_replay s) \<noteq> ''''" and "replay_bounded (sv_replay s)"
  shows "service_Replay vid (service_step a s) =
     trimRing (rb_depth (sv_replay s)) (service_Replay vid s @ servedBy vid a s)"
proof -
  obtain e b where a: "a = (e, b)" by fastforce
  have bd: "int (length (service_Replay vid s)) \<le> rb_depth (sv_replay s)"
    using assms by (simp add: replay_bounded_def service_Replay_def replay_Replay_def)
  show ?thesis
  proof (cases "opVehicle b = Some vid")
    case False
    then have "servedBy vid a s = []" by (cases b) (auto simp: a split: option.split)
    then show ?thesis using False bd by (simp add: a step_other_replay)
  next
    case True
    then show ?thesis using assms(1) bd unfolding a
      by (cases b) (auto simp: service_defs service_Replay_def Append_same Let_def split_beta
          split: option.splits)
  qed
qed

lemma step_replay_bounded:
  assumes "replay_bounded (sv_replay s)" shows "replay_bounded (sv_replay (service_step a s))"
proof -
  obtain e b where a: "a = (e, b)" by fastforce
  have fl: "replay_bounded (replay_Flush now ok r) = replay_bounded r" for now ok r
    by (simp add: replay_Flush_def replay_bounded_def)
  show ?thesis using assms unfolding a
    by (cases b) (auto simp: service_defs Let_def split_beta replay_Append_bounded fl split: option.splits)
qed

lemma run_replay:
  assumes "rb_path (sv_replay s) \<noteq> ''''" and "replay_bounded (sv_replay s)"
  shows "service_Replay vid (fold service_step as s) =
     trimRing (rb_depth (sv_replay s)) (service_Replay vid s @ servedLog vid as s)"
  using assms
proof (induction as arbitrary: s)
  case Nil
  then show ?case
    by (simp add: replay_bounded_def service_Replay_def replay_Replay_def)
next
  case (Cons a as)
  let ?d = "rb_depth (sv_replay s)"
  have d: "0 < ?d" using Cons.prems by (simp add: replay_bounded_def)
  have "service_Replay vid (fold service_step (a # as) s) =
      trimRing ?d (trimRing ?d (service_Replay vid s @ servedBy vid a s) @ servedLog vid as (service_step a s))"
    using Cons.IH [of "service_step a s"] Cons.prems step_replay_bounded step_replay [of s vid a] by simp
  also have "\<dots> = trimRing ?d (service_Replay vid s @ servedLog vid (a # as) s)"
    by (simp add: trimRing_append [OF d, of "service_Replay vid s @ servedBy vid a s", simplified])
  finally show ?case .
qed

subsection \<open>The invariant of the service\<close>

definition service_ok :: "service \<Rightarrow> bool" where
  "service_ok s \<longleftrightarrow>
     (\<forall>vid m. sv_mergers s vid = Some m \<longrightarrow>
        mg_id m = vid \<and> markAgrees (m, sv_shared s) \<and> subs_bounded m) \<and>
     replay_bounded (sv_replay s)"

definition servedMark :: "string \<Rightarrow> service \<Rightarrow> gotime" where
  "servedMark vid s = (case sh_asof (sv_shared s) of None \<Rightarrow> 0 | Some st \<Rightarrow> asof_Get vid st)"

lemma markAgrees_other:
  assumes "markAgrees (m, sh)" and "mg_id m \<noteq> vid"
    and "sh_asof sh' = map_option (asof_Advance now ok vid t) (sh_asof sh)"
  shows "markAgrees (m, sh')"
  using assms by (auto simp: markAgrees_def servedAsOf_def asof_Get_Advance)

lemma step_asof_form:
  "\<exists>t. sh_asof (snd (merger_step d (e, b) (m, sh))) = sh_asof sh \<or>
     sh_asof (snd (merger_step d (e, b) (m, sh))) =
       map_option (asof_Advance (en_now e) (en_asofOk e) (mg_id m) t) (sh_asof sh)"
  by (cases b) (auto simp: mergePoll_asof detect_merger mergeStream_asof)

lemma merger_step_id [simp]: "mg_id (fst (merger_step d a (m, sh))) = mg_id m"
proof -
  obtain e b where a: "a = (e, b)" by fastforce
  show ?thesis unfolding a
    by (cases b) (simp_all add: detect_merger mergePoll_served mergeStream_served
        merger_Subscribe_def merger_Unsubscribe_def)
qed

text \<open>Every step is a step of one merger, a flush, or nothing.\<close>

lemma step_shapes:
  obtains (none) "sv_mergers (service_step (e, b) s) = sv_mergers s"
      "sv_shared (service_step (e, b) s) = sv_shared s"
  | (flush) "sv_mergers (service_step (e, b) s) = sv_mergers s" "b = SvFlushAsOf"
      "sv_shared (service_step (e, b) s) = (sv_shared s)\<lparr>sh_asof :=
         map_option (asof_Flush (en_now e) (en_asofOk e)) (sh_asof (sv_shared s))\<rparr>"
  | (merger) vid m mop where "opVehicle b = Some vid" "sv_mergers s vid = Some m"
      "sv_mergers (service_step (e, b) s) =
         (sv_mergers s)(vid \<mapsto> fst (merger_step (sv_staleAfter s) (e, mop) (m, sv_shared s)))"
      "sv_shared (service_step (e, b) s) = snd (merger_step (sv_staleAfter s) (e, mop) (m, sv_shared s))"
proof (cases b)
  case (SvMergePoll vid snap)
  then show thesis using that(1) that(3) [of vid _ "PollOp snap"]
    by (cases "sv_mergers s vid") (auto simp: service_MergePoll_def Let_def split_beta)
next
  case (SvPut vid snap)
  then show thesis using that(1) that(3) [of vid _ "StreamOp snap"]
    by (cases "sv_mergers s vid"; cases "sn_State snap = None \<or> sn_StreamPresent snap = 0")
       (auto simp: service_Put_def Let_def split_beta)
next
  case (SvSubscribe ch vid)
  then show thesis using that(1) that(3) [of vid _ "SubscribeOp ch"]
    by (cases "sv_mergers s vid") (auto simp: service_Subscribe_def)
next
  case (SvUnsubscribe ch vid)
  then show thesis using that(1) that(3) [of vid _ "UnsubscribeOp ch"]
    by (cases "sv_mergers s vid") (auto simp: service_Unsubscribe_def)
next
  case SvFlushAsOf
  then show thesis using that(2) by (simp add: service_FlushAsOf_def)
next
  case SvFlushReplay
  then show thesis using that(1) by (simp add: service_FlushReplay_def)
qed

definition mergerOk :: "string \<Rightarrow> merger \<times> cshared \<Rightarrow> bool" where
  "mergerOk vid ms \<longleftrightarrow> mg_id (fst ms) = vid \<and> markAgrees ms \<and> subs_bounded (fst ms)"

lemma service_ok_mergers:
  "service_ok s \<longleftrightarrow> (\<forall>vid m. sv_mergers s vid = Some m \<longrightarrow> mergerOk vid (m, sv_shared s)) \<and>
     replay_bounded (sv_replay s)"
  by (simp add: service_ok_def mergerOk_def)

lemma mergerOk_step: "mergerOk vid (m, sh) \<Longrightarrow> mergerOk vid (merger_step d a (m, sh))"
  by (simp add: mergerOk_def step_markAgrees step_subs_bounded)

lemma mergerOk_other:
  assumes "mergerOk vid (k, sh)" and "mg_id m \<noteq> vid"
  shows "mergerOk vid (k, snd (merger_step d (e, mop) (m, sh)))"
proof -
  obtain t where "sh_asof (snd (merger_step d (e, mop) (m, sh))) = sh_asof sh \<or>
      sh_asof (snd (merger_step d (e, mop) (m, sh))) =
       map_option (asof_Advance (en_now e) (en_asofOk e) (mg_id m) t) (sh_asof sh)"
    using step_asof_form by blast
  then show ?thesis using assms
    by (auto simp: mergerOk_def markAgrees_def servedAsOf_def asof_Get_Advance)
qed

lemma step_ok:
  assumes ok: "service_ok s" shows "service_ok (service_step a s)"
proof -
  obtain e b where a: "a = (e, b)" by fastforce
  have rb: "replay_bounded (sv_replay (service_step a s))"
    using ok step_replay_bounded by (simp add: service_ok_def)
  have mk: "mergerOk v (k, sv_shared s)" if "sv_mergers s v = Some k" for v k
    using ok that by (simp add: service_ok_mergers)
  have "mergerOk v (k, sv_shared (service_step (e, b) s))"
    if k: "sv_mergers (service_step (e, b) s) v = Some k" for v k
  proof (cases rule: step_shapes [of e b s])
    case none
    with mk k show ?thesis by simp
  next
    case flush
    with mk [of v k] k show ?thesis
      by (auto simp: mergerOk_def markAgrees_def servedAsOf_def asof_Flush_def)
  next
    case (merger vid m mop)
    show ?thesis
    proof (cases "v = vid")
      case True
      let ?r = "merger_step (sv_staleAfter s) (e, mop) (m, sv_shared s)"
      have "mergerOk vid (fst ?r, snd ?r)" using mergerOk_step [OF mk [OF merger(2)]] by simp
      with k merger True show ?thesis by auto
    next
      case False
      moreover have "mg_id m = vid" using mk [OF merger(2)] by (simp add: mergerOk_def)
      ultimately show ?thesis using k merger mk [of v k] mergerOk_other by simp
    qed
  qed
  with rb show ?thesis by (simp add: service_ok_mergers a)
qed

lemma run_ok: "service_ok s \<Longrightarrow> service_ok (fold service_step as s)"
  by (induction as arbitrary: s) (simp_all add: step_ok)

subsection \<open>A fresh service\<close>

lemma newService_mergers:
  assumes "newService idents d asofFile asofData replayFile replayData depth = Inr s"
  obtains store ring where "newAsofStore asofFile asofData = Inr store"
    and "newReplayBuffer replayFile depth replayData = Inr ring"
    and "sv_replay s = ring" and "sh_asof (sv_shared s) = Some store"
    and "sv_mergers s = (\<lambda>vid. if vid \<in> id_ID ` set idents
           then Some (newPersistedMerger vid (asof_Get vid store)) else None)"
    and "sv_staleAfter s = d" and "sv_hasTrigger s = False" and "sv_identities s = idents"
    and "sv_order s = map id_ID idents"
proof -
  obtain store where store: "newAsofStore asofFile asofData = Inr store"
    using assms by (auto simp: newService_def split: sum.splits)
  obtain ring where ring: "newReplayBuffer replayFile depth replayData = Inr ring"
    using assms store by (auto simp: newService_def split: sum.splits)
  let ?f = "\<lambda>ident s. s\<lparr>sv_mergers := (sv_mergers s)(id_ID ident \<mapsto>
      newPersistedMerger (id_ID ident) (asof_Get (id_ID ident) store)),
      sv_order := sv_order s @ [id_ID ident]\<rparr>"
  have f: "sv_replay (fold ?f ids t) = sv_replay t \<and> sv_shared (fold ?f ids t) = sv_shared t \<and>
      sv_staleAfter (fold ?f ids t) = sv_staleAfter t \<and> sv_hasTrigger (fold ?f ids t) = sv_hasTrigger t \<and>
      sv_identities (fold ?f ids t) = sv_identities t \<and>
      sv_order (fold ?f ids t) = sv_order t @ map id_ID ids \<and>
      sv_mergers (fold ?f ids t) = (\<lambda>vid. if vid \<in> id_ID ` set ids
           then Some (newPersistedMerger vid (asof_Get vid store)) else sv_mergers t vid)"
    for ids :: "identity list" and t :: service
    by (induction ids arbitrary: t) (auto simp: fun_eq_iff)
  show thesis
    using assms store ring f by (intro that [of store ring]) (auto simp: newService_def)
qed

lemma newService_ok:
  assumes s: "newService idents d asofFile asofData replayFile replayData depth = Inr s"
    and pos: "\<And>m vid t. asofData = FileData m \<Longrightarrow> m vid = Some t \<Longrightarrow> 0 \<le> t"
  shows "service_ok s"
proof (rule newService_mergers [OF s])
  fix store ring
  assume store: "newAsofStore asofFile asofData = Inr store"
    and ring: "newReplayBuffer replayFile depth replayData = Inr ring"
    and m: "sv_replay s = ring" "sh_asof (sv_shared s) = Some store"
      "sv_mergers s = (\<lambda>vid. if vid \<in> id_ID ` set idents
           then Some (newPersistedMerger vid (asof_Get vid store)) else None)"
  have "0 \<le> asof_Get vid store" for vid
    using store pos by (auto simp: asof_defs Let_def split: fileState.splits if_splits option.splits)
  moreover have "replay_bounded ring" using ring by (rule replay_new_bounded)
  ultimately show ?thesis
    by (auto simp: service_ok_def m markAgrees_def servedAsOf_def newPersistedMerger_def newMerger_def
        subs_bounded_def)
qed

subsection \<open>Restart\<close>

text \<open>The service a process builds from the AsOf file another one left.\<close>

definition service_restart ::
  "identity list \<Rightarrow> (string \<rightharpoonup> snapshot list) fileState \<Rightarrow> service \<Rightarrow> storeError + service" where
  "service_restart idents replayData s =
     (case sh_asof (sv_shared s) of
        None \<Rightarrow> Inl (ReadError '''')
      | Some st \<Rightarrow> newService idents (sv_staleAfter s) (as_path st) (as_file st)
          (rb_path (sv_replay s)) replayData (rb_depth (sv_replay s)))"

definition servedAt :: "string \<Rightarrow> service \<Rightarrow> gotime" where
  "servedAt vid s = sn_AsOf (service_Latest vid s)"

lemma servedAt_mark:
  assumes "service_ok s" and "sv_mergers s vid = Some m" and "sh_asof (sv_shared s) = Some st"
  shows "servedAt vid s = asof_Get vid st"
proof -
  have "mg_id m = vid" "markAgrees (m, sv_shared s)" using assms by (auto simp: service_ok_def)
  then show ?thesis using assms(2,3)
    by (auto simp: markAgrees_def servedAsOf_def servedAt_def service_Latest_def merger_Latest_def)
qed

lemma restart_resumes:
  assumes ok: "service_ok s" and st: "sh_asof (sv_shared s) = Some st" and path: "as_path st \<noteq> ''''"
    and vid: "sv_mergers s vid \<noteq> None" "vid \<in> id_ID ` set idents"
    and r: "service_restart idents replayData (service_FlushAsOf (e\<lparr>en_asofOk := True\<rparr>) s) = Inr s'"
  shows "servedAt vid s' = servedAt vid s"
proof -
  let ?fl = "asof_Flush (en_now e) True st"
  have r': "newService idents (sv_staleAfter s) (as_path ?fl) (as_file ?fl)
      (rb_path (sv_replay s)) replayData (rb_depth (sv_replay s)) = Inr s'"
    using r st by (simp add: service_restart_def service_FlushAsOf_def)
  then show ?thesis
  proof (rule newService_mergers)
    fix store
    assume new: "newAsofStore (as_path ?fl) (as_file ?fl) = Inr store"
      and m: "sv_mergers s' = (\<lambda>vid. if vid \<in> id_ID ` set idents
           then Some (newPersistedMerger vid (asof_Get vid store)) else None)"
    have "(\<lambda>v. asof_Get v store) = (\<lambda>v. asof_Get v st)"
      using asof.restart_flush [OF path, of "en_now e"] new by (auto simp: asof_restart_def)
    then have "asof_Get vid store = asof_Get vid st" by meson
    moreover obtain m0 where "sv_mergers s vid = Some m0" using vid by blast
    ultimately show ?thesis
      using m vid servedAt_mark [OF ok _ st]
      by (simp add: servedAt_def service_Latest_def merger_Latest_def newPersistedMerger_def)
  qed
qed

subsection \<open>The served time of every vehicle\<close>

interpretation servedAts: monotone_clock service_step "servedAt vid" for vid
proof
  fix s :: service and a :: "cenv \<times> serviceOp"
  obtain e b where a: "a = (e, b)" by fastforce
  show "servedAt vid s \<le> servedAt vid (service_step a s)"
  proof (cases rule: step_shapes [of e b s])
    case (merger v m mop)
    then show ?thesis
      using served.step_clock [of "(m, sv_shared s)" "sv_staleAfter s" "(e, mop)"]
      by (auto simp: a servedAt_def service_Latest_def merger_Latest_def servedAsOf_def
          split: option.split)
  qed (simp_all add: a servedAt_def service_Latest_def)
qed

subsection \<open>The poll loop's cache\<close>

definition serviceOps ::
  "(duration \<Rightarrow> f64 \<Rightarrow> f64 \<Rightarrow> duration \<Rightarrow> 'b) \<Rightarrow> ('b \<Rightarrow> 'b) \<Rightarrow> ('b \<Rightarrow> duration \<times> 'b) \<Rightarrow>
     ('b, service) pollOps" where
  "serviceOps newB reset next = \<lparr>op_newBackoff = newB, op_reset = reset, op_next = next,
     op_MergePoll = service_MergePoll, op_LastStreamAt = service_LastStreamAt\<rparr>"

lemma MergePoll_LastStreamAt:
  "service_LastStreamAt vid' (snd (service_MergePoll e vid snap s)) = service_LastStreamAt vid' s"
  by (cases "sv_mergers s vid") (auto simp: service_MergePoll_def service_LastStreamAt_def
      merger_LastStreamAt_def Let_def split_beta mergePoll_served split: option.split)

interpretation cachePolls: poll_cache "serviceOps newB reset next" for newB reset "next"
  by unfold_locales (simp add: serviceOps_def MergePoll_LastStreamAt)

text \<open>A stream source's view: it can only move known vehicles, and only with real frames.\<close>

lemma Put_unknown: "sv_mergers s vid = None \<Longrightarrow> service_Put e vid snap s = ([], s)"
  by (simp add: service_Put_def)

lemma Put_keepalive: "sn_State snap = None \<or> sn_StreamPresent snap = 0 \<Longrightarrow> service_Put e vid snap s = ([], s)"
  by (auto simp: service_Put_def split: option.split)

end
