(* ===== verification/Idmap.thy ===== *)
theory Idmap
  imports Stores
begin

section \<open>The id map\<close>

text \<open>
  \<^verbatim>\<open>internal/plugin/sink/idmap/idmap.go\<close>: stable positive \<^verbatim>\<open>int64\<close> ids for vehicle GUIDs, from
  the FNV-1a hash of \<^verbatim>\<open>hash/fnv\<close> with linear probing, persisted on every assignment. The file
  and the outcome \<open>ok\<close> of writing it are as for the stores of the cache. The probe loop of
  \<^verbatim>\<open>ID\<close> takes fuel; the lemmas show that one more than the number of taken ids is enough.

  The invariant \<open>idmap_ok\<close> is that the two maps are inverse to each other, with positive ids;
  it makes the numbering injective and stable.
\<close>

record idMap =
  im_path :: string
  im_byID :: "int \<rightharpoonup> string"
  im_byKey :: "string \<rightharpoonup> int"
  im_file :: "(string \<rightharpoonup> int) fileState"

text \<open>
  The load loop ranges over the decoded object in the map's iteration order, which Go leaves
  open: the order is the list \<open>stored\<close> of the object's pairs.
\<close>

definition loadPairs :: "(string \<times> int) list \<Rightarrow> idMap \<Rightarrow> idMap" where
  "loadPairs stored m = fold (\<lambda>(guid, vid) m.
     m\<lparr>im_byKey := (im_byKey m)(guid \<mapsto> vid), im_byID := (im_byID m)(vid \<mapsto> guid)\<rparr>) stored m"

definition newIdMap ::
  "string \<Rightarrow> (string \<rightharpoonup> int) fileState \<Rightarrow> (string \<times> int) list \<Rightarrow> storeError + idMap" where
  "newIdMap path file stored =
     (let m = \<lparr>im_path = path, im_byID = Map.empty, im_byKey = Map.empty, im_file = file\<rparr> in
      if path = [] then Inr m
      else case file of
        FileMissing \<Rightarrow> Inr m
      | FileUnreadable \<Rightarrow> Inl (ReadError path)
      | FileCorrupt \<Rightarrow> Inl (ParseError path)
      | FileData _ \<Rightarrow> Inr (loadPairs stored m))"

definition fnvOffset64 :: "64 word" where
  "fnvOffset64 = 14695981039346656037"

definition fnvPrime64 :: "64 word" where
  "fnvPrime64 = 1099511628211"

definition fnv64a :: "string \<Rightarrow> 64 word" where
  "fnv64a s = fold (\<lambda>c h. (h XOR of_nat (of_char c)) * fnvPrime64) s fnvOffset64"

definition hashID :: "string \<Rightarrow> int" where
  "hashID guid =
     (let vid = uint (fnv64a guid AND 0x7fffffffffffffff) in if vid = 0 then 1 else vid)"

definition probeNext :: "int \<Rightarrow> int" where
  "probeNext vid = (let n = wrap64 (vid + 1) in if n \<le> 0 then 1 else n)"

fun probe :: "nat \<Rightarrow> (int \<rightharpoonup> string) \<Rightarrow> string \<Rightarrow> int \<Rightarrow> int option" where
  "probe 0 byID guid vid = None"
| "probe (Suc fuel) byID guid vid =
     (case byID vid of
        None \<Rightarrow> Some vid
      | Some existing \<Rightarrow> if existing = guid then Some vid else probe fuel byID guid (probeNext vid))"

definition idmap_persist :: "bool \<Rightarrow> idMap \<Rightarrow> (storeError option) \<times> idMap" where
  "idmap_persist ok m =
     (if im_path m = [] then (None, m)
      else if ok then (None, m\<lparr>im_file := FileData (im_byKey m)\<rparr>)
      else (Some (WriteError (im_path m)), m))"

text \<open>\<^verbatim>\<open>ID\<close>: None when the fuel of the probe loop runs out.\<close>

definition idmap_ID :: "nat \<Rightarrow> bool \<Rightarrow> string \<Rightarrow> idMap \<Rightarrow> ((storeError + int) \<times> idMap) option" where
  "idmap_ID fuel ok guid m =
     (case im_byKey m guid of
        Some vid \<Rightarrow> Some (Inr vid, m)
      | None \<Rightarrow>
          (case probe fuel (im_byID m) guid (hashID guid) of
             None \<Rightarrow> None
           | Some vid \<Rightarrow>
               let m1 = m\<lparr>im_byKey := (im_byKey m)(guid \<mapsto> vid), im_byID := (im_byID m)(vid \<mapsto> guid)\<rparr>;
                   (err, m2) = idmap_persist ok m1
               in Some (case err of None \<Rightarrow> Inr vid | Some e \<Rightarrow> Inl e, m2)))"

definition idmap_GUID :: "int \<Rightarrow> idMap \<Rightarrow> string option" where
  "idmap_GUID vid m = im_byID m vid"

subsection \<open>The hash\<close>

lemma hashID_range: "0 < hashID guid \<and> hashID guid \<le> maxInt64"
proof -
  let ?w = "fnv64a guid AND 0x7fffffffffffffff"
  have "uint ?w = uint (fnv64a guid) AND 0x7fffffffffffffff"
    by (simp add: uint_and uint_word_of_int take_bit_eq_mod)
  moreover have "uint (fnv64a guid) AND 0x7fffffffffffffff \<le> 0x7fffffffffffffff"
    by (rule AND_upper2) simp
  ultimately have "uint ?w \<le> maxInt64" by (simp add: maxInt64_def)
  moreover have "0 \<le> uint ?w" by simp
  ultimately show ?thesis by (auto simp: hashID_def Let_def maxInt64_def less_le)
qed

lemma probeNext_spec:
  assumes "0 < vid" "vid \<le> maxInt64"
  shows "probeNext vid = (if vid = maxInt64 then 1 else vid + 1)"
proof (cases "vid = maxInt64")
  case True
  then show ?thesis by (simp add: probeNext_def wrap64_def maxInt64_def)
next
  case False
  then have "wrap64 (vid + 1) = vid + 1"
    using assms by (intro wrap64_id) (simp add: in_int64_def minInt64_def)
  with False assms show ?thesis by (simp add: probeNext_def)
qed

subsection \<open>The probe loop\<close>

text \<open>The k-th slot the loop visits.\<close>

definition slot :: "int \<Rightarrow> nat \<Rightarrow> int" where
  "slot vid k = (vid - 1 + int k) mod maxInt64 + 1"

lemma slot_range: "0 < slot vid k \<and> slot vid k \<le> maxInt64"
  using pos_mod_bound [of maxInt64 "vid - 1 + int k"] pos_mod_sign [of maxInt64 "vid - 1 + int k"]
  by (simp add: slot_def maxInt64_def)

lemma slot_0: "0 < vid \<Longrightarrow> vid \<le> maxInt64 \<Longrightarrow> slot vid 0 = vid"
  by (simp add: slot_def mod_pos_pos_trivial)

lemma slot_next: "0 < vid \<Longrightarrow> vid \<le> maxInt64 \<Longrightarrow> slot (probeNext vid) k = slot vid (Suc k)"
proof -
  assume v: "0 < vid" "vid \<le> maxInt64"
  show ?thesis
  proof (cases "vid = maxInt64")
    case True
    have "(maxInt64 - 1 + int (Suc k)) mod maxInt64 = (int k + maxInt64) mod maxInt64"
      by (simp add: algebra_simps)
    also have "\<dots> = int k mod maxInt64" by simp
    finally show ?thesis using True by (simp add: slot_def probeNext_spec maxInt64_def)
  next
    case False
    then show ?thesis using v by (simp add: slot_def probeNext_spec algebra_simps)
  qed
qed

lemma slot_inj: "i < j \<Longrightarrow> int j - int i < maxInt64 \<Longrightarrow> slot vid i \<noteq> slot vid j"
proof
  assume ij: "i < j" "int j - int i < maxInt64" and eq: "slot vid i = slot vid j"
  then have "(vid - 1 + int j) mod maxInt64 = (vid - 1 + int i) mod maxInt64" by (simp add: slot_def)
  then have "maxInt64 dvd (vid - 1 + int j) - (vid - 1 + int i)" by (simp add: mod_eq_dvd_iff)
  then have "maxInt64 dvd int j - int i" by simp
  then have "maxInt64 \<le> int j - int i" using ij(1) by (intro zdvd_imp_le) auto
  then show False using ij(2) by simp
qed

lemma probe_result:
  assumes "probe fuel byID guid vid = Some r" and "0 < vid" "vid \<le> maxInt64"
  shows "(byID r = None \<or> byID r = Some guid) \<and> 0 < r \<and> r \<le> maxInt64"
  using assms
proof (induction fuel arbitrary: vid)
  case (Suc fuel)
  have "0 < probeNext vid \<and> probeNext vid \<le> maxInt64"
    using Suc.prems(2,3) by (simp add: probeNext_spec maxInt64_def)
  with Suc show ?case by (auto split: option.splits if_splits)
qed simp

lemma probe_fails:
  assumes "probe fuel byID guid vid = None" and "0 < vid" "vid \<le> maxInt64" and "k < fuel"
  shows "\<exists>g. byID (slot vid k) = Some g \<and> g \<noteq> guid"
  using assms
proof (induction fuel arbitrary: vid k)
  case (Suc fuel)
  have p: "0 < probeNext vid \<and> probeNext vid \<le> maxInt64"
    using Suc.prems(2,3) by (simp add: probeNext_spec maxInt64_def)
  show ?case
  proof (cases k)
    case 0
    then show ?thesis using Suc.prems by (auto simp: slot_0 split: option.splits if_splits)
  next
    case (Suc j)
    have "probe fuel byID guid (probeNext vid) = None" using Suc.prems(1) by (auto split: option.splits if_splits)
    then have "\<exists>g. byID (slot (probeNext vid) j) = Some g \<and> g \<noteq> guid"
      using Suc.IH p Suc.prems(4) Suc by blast
    then show ?thesis using Suc slot_next Suc.prems(2,3) by simp
  qed
qed simp

lemma probe_enough_fuel:
  assumes fin: "finite (dom byID)" and "card (dom byID) < fuel" and "int fuel \<le> maxInt64"
    and "0 < vid" "vid \<le> maxInt64"
  shows "\<exists>r. probe fuel byID guid vid = Some r"
proof (rule ccontr)
  assume "\<not> ?thesis"
  then have none: "probe fuel byID guid vid = None" by auto
  have "slot vid ` {..<fuel} \<subseteq> dom byID"
    using probe_fails [OF none assms(4,5)] by auto
  then have "card (slot vid ` {..<fuel}) \<le> card (dom byID)" by (rule card_mono [OF fin])
  moreover have "inj_on (slot vid) {..<fuel}"
  proof (rule inj_onI)
    fix i j assume "i \<in> {..<fuel}" "j \<in> {..<fuel}" "slot vid i = slot vid j"
    then show "i = j" using slot_inj [of i j vid] slot_inj [of j i vid] assms(3)
      by (cases i j rule: linorder_cases) auto
  qed
  ultimately show False using assms(2) by (simp add: card_image)
qed

subsection \<open>The invariant\<close>

definition idmap_ok :: "idMap \<Rightarrow> bool" where
  "idmap_ok m \<longleftrightarrow> finite (dom (im_byID m)) \<and>
     (\<forall>guid vid. im_byKey m guid = Some vid \<longleftrightarrow> im_byID m vid = Some guid) \<and>
     (\<forall>vid. im_byID m vid \<noteq> None \<longrightarrow> 0 < vid \<and> vid \<le> maxInt64)"

lemma idmap_persist_keeps [simp]:
  "im_byID (snd (idmap_persist ok m)) = im_byID m" "im_byKey (snd (idmap_persist ok m)) = im_byKey m"
  "im_path (snd (idmap_persist ok m)) = im_path m"
  by (simp_all add: idmap_persist_def)

lemma idmap_ID_ok:
  assumes ok: "idmap_ok m" and r: "idmap_ID fuel wok guid m = Some (res, m')"
  shows "idmap_ok m'" and "\<exists>vid. im_byKey m' guid = Some vid \<and> 0 < vid \<and> (res = Inr vid \<or> \<not> wok)"
    and "im_byKey m \<subseteq>\<^sub>m im_byKey m'" and "dom (im_byKey m') = insert guid (dom (im_byKey m))"
proof -
  have "idmap_ok m' \<and> (\<exists>vid. im_byKey m' guid = Some vid \<and> 0 < vid \<and> (res = Inr vid \<or> \<not> wok)) \<and>
    im_byKey m \<subseteq>\<^sub>m im_byKey m' \<and> dom (im_byKey m') = insert guid (dom (im_byKey m))"
  proof (cases "im_byKey m guid")
    case (Some vid)
    then have "m' = m" "res = Inr vid" using r by (auto simp: idmap_ID_def)
    moreover have "0 < vid" using ok Some by (auto simp: idmap_ok_def)
    ultimately show ?thesis using ok Some by auto
  next
    case None
    then obtain vid where p: "probe fuel (im_byID m) guid (hashID guid) = Some vid"
      using r by (auto simp: idmap_ID_def split: option.splits)
    have v: "im_byID m vid = None \<or> im_byID m vid = Some guid" "0 < vid" "vid \<le> maxInt64"
      using probe_result [OF p] hashID_range [of guid] by auto
    have nk: "im_byID m x \<noteq> Some guid" for x
      using None ok unfolding idmap_ok_def by (metis option.distinct(1))
    with v(1) have free: "im_byID m vid = None" by blast
    let ?m1 = "m\<lparr>im_byKey := (im_byKey m)(guid \<mapsto> vid), im_byID := (im_byID m)(vid \<mapsto> guid)\<rparr>"
    have m': "m' = snd (idmap_persist wok ?m1)"
      and res: "res = (case fst (idmap_persist wok ?m1) of None \<Rightarrow> Inr vid | Some e \<Rightarrow> Inl e)"
      using r p None by (auto simp: idmap_ID_def Let_def split_beta)
    have "idmap_ok ?m1" using ok None free v nk by (auto simp: idmap_ok_def)
    then have "idmap_ok m'" unfolding m' by (simp add: idmap_ok_def)
    moreover have "im_byKey m' = (im_byKey m)(guid \<mapsto> vid)" unfolding m' by simp
    moreover have "res = Inr vid \<or> \<not> wok" unfolding res by (simp add: idmap_persist_def)
    ultimately show ?thesis using None v(2) by (auto simp: map_le_def)
  qed
  then show "idmap_ok m'" "\<exists>vid. im_byKey m' guid = Some vid \<and> 0 < vid \<and> (res = Inr vid \<or> \<not> wok)"
    "im_byKey m \<subseteq>\<^sub>m im_byKey m'" "dom (im_byKey m') = insert guid (dom (im_byKey m))" by blast+
qed

lemma idmap_ID_total:
  assumes "idmap_ok m" and "card (dom (im_byID m)) < fuel" and "int fuel \<le> maxInt64"
  shows "\<exists>r. idmap_ID fuel wok guid m = Some r"
proof (cases "im_byKey m guid")
  case None
  have "finite (dom (im_byID m))" using assms(1) by (simp add: idmap_ok_def)
  then have "\<exists>vid. probe fuel (im_byID m) guid (hashID guid) = Some vid"
    using probe_enough_fuel assms(2,3) hashID_range [of guid] by blast
  then obtain vid where "probe fuel (im_byID m) guid (hashID guid) = Some vid" ..
  with None show ?thesis by (simp add: idmap_ID_def Let_def split_beta)
qed (simp add: idmap_ID_def)

text \<open>Without collisions the id of a GUID is its hash, whatever was numbered before.\<close>

lemma idmap_ID_fresh:
  assumes "im_byKey m guid = None" and "im_byID m (hashID guid) = None" and "0 < fuel"
  shows "\<exists>m'. idmap_ID fuel True guid m = Some (Inr (hashID guid), m')"
  using assms by (cases fuel) (simp_all add: idmap_ID_def Let_def split_beta idmap_persist_def)

subsection \<open>Loading\<close>

lemma loadPairs_maps:
  "im_byKey (loadPairs ps m) = im_byKey m ++ map_of (rev ps)"
  "im_byID (loadPairs ps m) = im_byID m ++ map_of (rev (map (\<lambda>(g, v). (v, g)) ps))"
  "im_path (loadPairs ps m) = im_path m" "im_file (loadPairs ps m) = im_file m"
  unfolding loadPairs_def
  by (induction ps arbitrary: m) (auto simp: map_add_upd)

text \<open>A saved map that satisfies the invariant loads, in any order, to the same numbering.\<close>

lemma load_roundtrip:
  assumes ok: "idmap_ok m" and path: "im_path m \<noteq> []"
    and pairs: "distinct (map fst ps)" "map_of ps = im_byKey m"
  shows "\<exists>m'. newIdMap (im_path m) (im_file (snd (idmap_persist True m))) ps = Inr m' \<and>
    im_byKey m' = im_byKey m \<and> im_byID m' = im_byID m \<and> idmap_ok m'"
proof -
  have saved: "im_file (snd (idmap_persist True m)) = FileData (im_byKey m)"
    using path by (simp add: idmap_persist_def)
  have mem: "(g, v) \<in> set ps \<longleftrightarrow> im_byKey m g = Some v" for g v
    using pairs by (metis map_of_eq_Some_iff)
  have key: "map_of (rev ps) = im_byKey m"
  proof (rule ext)
    fix g
    have "map_of (rev ps) g = Some v \<longleftrightarrow> im_byKey m g = Some v" for v
      using pairs(1) mem by (simp add: map_of_eq_Some_iff rev_map [symmetric])
    then show "map_of (rev ps) g = im_byKey m g" by (metis option.exhaust)
  qed
  have vals: "distinct (map snd ps)"
  proof -
    have "inj_on snd (set ps)"
      using mem ok by (auto simp: inj_on_def idmap_ok_def)
    then show ?thesis using pairs(1) by (simp add: distinct_map)
  qed
  have bid: "map_of (rev (map (\<lambda>(g, v). (v, g)) ps)) = im_byID m"
  proof (rule ext)
    fix v
    have d: "distinct (map fst (rev (map (\<lambda>(g, v). (v, g)) ps)))"
      using vals by (simp add: rev_map [symmetric] split_beta comp_def)
    have "map_of (rev (map (\<lambda>(g, v). (v, g)) ps)) v = Some g \<longleftrightarrow> im_byID m v = Some g" for g
      using mem ok by (subst map_of_eq_Some_iff [OF d]) (auto simp: idmap_ok_def image_iff intro!: bexI [where x = "(g, v)"])
    then show "map_of (rev (map (\<lambda>(g, v). (v, g)) ps)) v = im_byID m v" by (metis option.exhaust)
  qed
  show ?thesis
    using path ok by (auto simp: newIdMap_def saved Let_def loadPairs_maps key bid idmap_ok_def)
qed

end
