(* ===== verification/Wire.thy ===== *)
theory Wire
  imports Vehicle
begin

section \<open>The Tesla Fleet wire types\<close>

text \<open>
  \<^verbatim>\<open>internal/protocol/tesla/fleet/poll/v1/wire/wire.go\<close>: the response structs, field for field.
  A pointer field is an option, None being JSON null. For each struct of pointers there is its
  zero value, which the encoder's struct literals start from.
\<close>

record product =
  pr_ID :: int
  pr_VehicleID :: int
  pr_VIN :: string
  pr_DisplayName :: string
  pr_State :: string

record summary =
  su_ID :: int
  su_VehicleID :: int
  su_VIN :: string
  su_DisplayName :: string
  su_State :: string

record wireChargeState =
  cs_ChargeMilesAddedRated :: "f64 option"
  cs_ChargeCurrentRequest :: "int option"
  cs_ChargerPower :: "f64 option"
  cs_ManagedChargingStartTime :: "int option"
  cs_ChargerPhases :: "int option"
  cs_ChargeEnergyAdded :: "f64 option"
  cs_ChargerVoltage :: "int option"
  cs_FastChargerType :: "string option"
  cs_TimeToFullCharge :: "f64 option"
  cs_IdealBatteryRange :: "f64 option"
  cs_UsableBatteryLevel :: "int option"
  cs_ScheduledChargingPending :: "bool option"
  cs_ChargerActualCurrent :: "int option"
  cs_EstBatteryRange :: "f64 option"
  cs_ChargeLimitSocMin :: "int option"
  cs_ChargePortDoorOpen :: "bool option"
  cs_ManagedChargingActive :: "bool option"
  cs_ChargeLimitSocMax :: "int option"
  cs_FastChargerPresent :: "bool option"
  cs_FastChargerBrand :: "string option"
  cs_ScheduledChargingStartTime :: "int option"
  cs_ConnChargeCable :: "string option"
  cs_Timestamp :: "int option"
  cs_UserChargeEnableRequest :: "bool option"
  cs_ChargePortColdWeatherMode :: "bool option"
  cs_ChargeToMaxRange :: "bool option"
  cs_MaxRangeChargeCounter :: "int option"
  cs_ChargeLimitSocStd :: "int option"
  cs_ChargePortLatch :: "string option"
  cs_ManagedChargingUserCanceled :: "bool option"
  cs_ChargerPilotCurrent :: "int option"
  cs_TripCharging :: "bool option"
  cs_BatteryRange :: "f64 option"
  cs_ChargingState :: "string option"
  cs_ChargeRate :: "f64 option"
  cs_NotEnoughPowerToHeat :: "bool option"
  cs_ChargeLimitSoc :: "int option"
  cs_ChargeEnableRequest :: "bool option"
  cs_ChargeCurrentRequestMax :: "int option"
  cs_BatteryLevel :: "int option"
  cs_ChargeMilesAddedIdeal :: "f64 option"
  cs_BatteryHeaterOn :: "bool option"

definition zeroWireChargeState :: wireChargeState where
  "zeroWireChargeState =
    \<lparr>cs_ChargeMilesAddedRated = None, cs_ChargeCurrentRequest = None,
     cs_ChargerPower = None, cs_ManagedChargingStartTime = None, cs_ChargerPhases = None,
     cs_ChargeEnergyAdded = None, cs_ChargerVoltage = None, cs_FastChargerType = None,
     cs_TimeToFullCharge = None, cs_IdealBatteryRange = None, cs_UsableBatteryLevel = None,
     cs_ScheduledChargingPending = None, cs_ChargerActualCurrent = None, cs_EstBatteryRange = None,
     cs_ChargeLimitSocMin = None, cs_ChargePortDoorOpen = None, cs_ManagedChargingActive = None,
     cs_ChargeLimitSocMax = None, cs_FastChargerPresent = None, cs_FastChargerBrand = None,
     cs_ScheduledChargingStartTime = None, cs_ConnChargeCable = None, cs_Timestamp = None,
     cs_UserChargeEnableRequest = None, cs_ChargePortColdWeatherMode = None,
     cs_ChargeToMaxRange = None, cs_MaxRangeChargeCounter = None, cs_ChargeLimitSocStd = None,
     cs_ChargePortLatch = None, cs_ManagedChargingUserCanceled = None,
     cs_ChargerPilotCurrent = None, cs_TripCharging = None, cs_BatteryRange = None,
     cs_ChargingState = None, cs_ChargeRate = None, cs_NotEnoughPowerToHeat = None,
     cs_ChargeLimitSoc = None, cs_ChargeEnableRequest = None, cs_ChargeCurrentRequestMax = None,
     cs_BatteryLevel = None, cs_ChargeMilesAddedIdeal = None, cs_BatteryHeaterOn = None\<rparr>"

lemma zeroWireChargeState_sel [simp]:
  "cs_ChargeMilesAddedRated zeroWireChargeState = None"
  "cs_ChargeCurrentRequest zeroWireChargeState = None"
  "cs_ChargerPower zeroWireChargeState = None"
  "cs_ManagedChargingStartTime zeroWireChargeState = None"
  "cs_ChargerPhases zeroWireChargeState = None"
  "cs_ChargeEnergyAdded zeroWireChargeState = None"
  "cs_ChargerVoltage zeroWireChargeState = None"
  "cs_FastChargerType zeroWireChargeState = None"
  "cs_TimeToFullCharge zeroWireChargeState = None"
  "cs_IdealBatteryRange zeroWireChargeState = None"
  "cs_UsableBatteryLevel zeroWireChargeState = None"
  "cs_ScheduledChargingPending zeroWireChargeState = None"
  "cs_ChargerActualCurrent zeroWireChargeState = None"
  "cs_EstBatteryRange zeroWireChargeState = None"
  "cs_ChargeLimitSocMin zeroWireChargeState = None"
  "cs_ChargePortDoorOpen zeroWireChargeState = None"
  "cs_ManagedChargingActive zeroWireChargeState = None"
  "cs_ChargeLimitSocMax zeroWireChargeState = None"
  "cs_FastChargerPresent zeroWireChargeState = None"
  "cs_FastChargerBrand zeroWireChargeState = None"
  "cs_ScheduledChargingStartTime zeroWireChargeState = None"
  "cs_ConnChargeCable zeroWireChargeState = None"
  "cs_Timestamp zeroWireChargeState = None"
  "cs_UserChargeEnableRequest zeroWireChargeState = None"
  "cs_ChargePortColdWeatherMode zeroWireChargeState = None"
  "cs_ChargeToMaxRange zeroWireChargeState = None"
  "cs_MaxRangeChargeCounter zeroWireChargeState = None"
  "cs_ChargeLimitSocStd zeroWireChargeState = None"
  "cs_ChargePortLatch zeroWireChargeState = None"
  "cs_ManagedChargingUserCanceled zeroWireChargeState = None"
  "cs_ChargerPilotCurrent zeroWireChargeState = None"
  "cs_TripCharging zeroWireChargeState = None"
  "cs_BatteryRange zeroWireChargeState = None"
  "cs_ChargingState zeroWireChargeState = None"
  "cs_ChargeRate zeroWireChargeState = None"
  "cs_NotEnoughPowerToHeat zeroWireChargeState = None"
  "cs_ChargeLimitSoc zeroWireChargeState = None"
  "cs_ChargeEnableRequest zeroWireChargeState = None"
  "cs_ChargeCurrentRequestMax zeroWireChargeState = None"
  "cs_BatteryLevel zeroWireChargeState = None"
  "cs_ChargeMilesAddedIdeal zeroWireChargeState = None"
  "cs_BatteryHeaterOn zeroWireChargeState = None"
  by (simp_all add: zeroWireChargeState_def)

record wireClimateState =
  cl_BatteryHeater :: "bool option"
  cl_BatteryHeaterNoPower :: "bool option"
  cl_ClimateKeeperMode :: "string option"
  cl_DefrostMode :: "int option"
  cl_DriverTempSetting :: "f64 option"
  cl_FanStatus :: "int option"
  cl_InsideTemp :: "f64 option"
  cl_IsAutoConditioningOn :: "bool option"
  cl_IsClimateOn :: "bool option"
  cl_IsFrontDefrosterOn :: "bool option"
  cl_IsPreconditioning :: "bool option"
  cl_IsRearDefrosterOn :: "bool option"
  cl_LeftTempDirection :: "int option"
  cl_MaxAvailTemp :: "f64 option"
  cl_MinAvailTemp :: "f64 option"
  cl_OutsideTemp :: "f64 option"
  cl_PassengerTempSetting :: "f64 option"
  cl_RemoteHeaterControlEnabled :: "bool option"
  cl_RightTempDirection :: "int option"
  cl_SeatHeaterLeft :: "int option"
  cl_SeatHeaterRearCenter :: "int option"
  cl_SeatHeaterRearLeft :: "int option"
  cl_SeatHeaterRearRight :: "int option"
  cl_SeatHeaterRearLeftBack :: "int option"
  cl_SeatHeaterRearRightBack :: "int option"
  cl_SeatHeaterRight :: "int option"
  cl_SideMirrorHeaters :: "bool option"
  cl_SteeringWheelHeater :: "bool option"
  cl_SmartPreconditioning :: "bool option"
  cl_Timestamp :: "int option"
  cl_WiperBladeHeater :: "bool option"

definition zeroWireClimateState :: wireClimateState where
  "zeroWireClimateState =
    \<lparr>cl_BatteryHeater = None, cl_BatteryHeaterNoPower = None, cl_ClimateKeeperMode = None,
     cl_DefrostMode = None, cl_DriverTempSetting = None, cl_FanStatus = None, cl_InsideTemp = None,
     cl_IsAutoConditioningOn = None, cl_IsClimateOn = None, cl_IsFrontDefrosterOn = None,
     cl_IsPreconditioning = None, cl_IsRearDefrosterOn = None, cl_LeftTempDirection = None,
     cl_MaxAvailTemp = None, cl_MinAvailTemp = None, cl_OutsideTemp = None,
     cl_PassengerTempSetting = None, cl_RemoteHeaterControlEnabled = None,
     cl_RightTempDirection = None, cl_SeatHeaterLeft = None, cl_SeatHeaterRearCenter = None,
     cl_SeatHeaterRearLeft = None, cl_SeatHeaterRearRight = None, cl_SeatHeaterRearLeftBack = None,
     cl_SeatHeaterRearRightBack = None, cl_SeatHeaterRight = None, cl_SideMirrorHeaters = None,
     cl_SteeringWheelHeater = None, cl_SmartPreconditioning = None, cl_Timestamp = None,
     cl_WiperBladeHeater = None\<rparr>"

lemma zeroWireClimateState_sel [simp]:
  "cl_BatteryHeater zeroWireClimateState = None"
  "cl_BatteryHeaterNoPower zeroWireClimateState = None"
  "cl_ClimateKeeperMode zeroWireClimateState = None"
  "cl_DefrostMode zeroWireClimateState = None"
  "cl_DriverTempSetting zeroWireClimateState = None"
  "cl_FanStatus zeroWireClimateState = None"
  "cl_InsideTemp zeroWireClimateState = None"
  "cl_IsAutoConditioningOn zeroWireClimateState = None"
  "cl_IsClimateOn zeroWireClimateState = None"
  "cl_IsFrontDefrosterOn zeroWireClimateState = None"
  "cl_IsPreconditioning zeroWireClimateState = None"
  "cl_IsRearDefrosterOn zeroWireClimateState = None"
  "cl_LeftTempDirection zeroWireClimateState = None"
  "cl_MaxAvailTemp zeroWireClimateState = None"
  "cl_MinAvailTemp zeroWireClimateState = None"
  "cl_OutsideTemp zeroWireClimateState = None"
  "cl_PassengerTempSetting zeroWireClimateState = None"
  "cl_RemoteHeaterControlEnabled zeroWireClimateState = None"
  "cl_RightTempDirection zeroWireClimateState = None"
  "cl_SeatHeaterLeft zeroWireClimateState = None"
  "cl_SeatHeaterRearCenter zeroWireClimateState = None"
  "cl_SeatHeaterRearLeft zeroWireClimateState = None"
  "cl_SeatHeaterRearRight zeroWireClimateState = None"
  "cl_SeatHeaterRearLeftBack zeroWireClimateState = None"
  "cl_SeatHeaterRearRightBack zeroWireClimateState = None"
  "cl_SeatHeaterRight zeroWireClimateState = None"
  "cl_SideMirrorHeaters zeroWireClimateState = None"
  "cl_SteeringWheelHeater zeroWireClimateState = None"
  "cl_SmartPreconditioning zeroWireClimateState = None"
  "cl_Timestamp zeroWireClimateState = None"
  "cl_WiperBladeHeater zeroWireClimateState = None"
  by (simp_all add: zeroWireClimateState_def)

record wireDriveState =
  ds_GpsAsOf :: "int option"
  ds_Heading :: "int option"
  ds_Latitude :: "f64 option"
  ds_Longitude :: "f64 option"
  ds_NativeLatitude :: "f64 option"
  ds_NativeLocationSupported :: "int option"
  ds_NativeLongitude :: "f64 option"
  ds_NativeType :: "string option"
  ds_Power :: "f64 option"
  ds_ShiftState :: "string option"
  ds_Speed :: "f64 option"
  ds_Timestamp :: "int option"
  ds_ActiveRouteDestination :: "string option"
  ds_ActiveRouteEnergyAtArrival :: "f64 option"
  ds_ActiveRouteLatitude :: "f64 option"
  ds_ActiveRouteLongitude :: "f64 option"
  ds_ActiveRouteMilesToArrival :: "f64 option"
  ds_ActiveRouteMinutesToArrival :: "f64 option"
  ds_ActiveRouteTrafficMinutesDelay :: "f64 option"

definition zeroWireDriveState :: wireDriveState where
  "zeroWireDriveState =
    \<lparr>ds_GpsAsOf = None, ds_Heading = None, ds_Latitude = None, ds_Longitude = None,
     ds_NativeLatitude = None, ds_NativeLocationSupported = None, ds_NativeLongitude = None,
     ds_NativeType = None, ds_Power = None, ds_ShiftState = None, ds_Speed = None,
     ds_Timestamp = None, ds_ActiveRouteDestination = None, ds_ActiveRouteEnergyAtArrival = None,
     ds_ActiveRouteLatitude = None, ds_ActiveRouteLongitude = None,
     ds_ActiveRouteMilesToArrival = None, ds_ActiveRouteMinutesToArrival = None,
     ds_ActiveRouteTrafficMinutesDelay = None\<rparr>"

lemma zeroWireDriveState_sel [simp]:
  "ds_GpsAsOf zeroWireDriveState = None"
  "ds_Heading zeroWireDriveState = None"
  "ds_Latitude zeroWireDriveState = None"
  "ds_Longitude zeroWireDriveState = None"
  "ds_NativeLatitude zeroWireDriveState = None"
  "ds_NativeLocationSupported zeroWireDriveState = None"
  "ds_NativeLongitude zeroWireDriveState = None"
  "ds_NativeType zeroWireDriveState = None"
  "ds_Power zeroWireDriveState = None"
  "ds_ShiftState zeroWireDriveState = None"
  "ds_Speed zeroWireDriveState = None"
  "ds_Timestamp zeroWireDriveState = None"
  "ds_ActiveRouteDestination zeroWireDriveState = None"
  "ds_ActiveRouteEnergyAtArrival zeroWireDriveState = None"
  "ds_ActiveRouteLatitude zeroWireDriveState = None"
  "ds_ActiveRouteLongitude zeroWireDriveState = None"
  "ds_ActiveRouteMilesToArrival zeroWireDriveState = None"
  "ds_ActiveRouteMinutesToArrival zeroWireDriveState = None"
  "ds_ActiveRouteTrafficMinutesDelay zeroWireDriveState = None"
  by (simp_all add: zeroWireDriveState_def)

record wireVehicleConfig =
  vc_CanAcceptNavigationRequests :: "bool option"
  vc_CanActuateTrunks :: "bool option"
  vc_CarSpecialType :: "string option"
  vc_CarType :: "string option"
  vc_ChargePortType :: "string option"
  vc_EuVehicle :: "bool option"
  vc_ExteriorColor :: "string option"
  vc_HasAirSuspension :: "bool option"
  vc_HasLudicrousMode :: "bool option"
  vc_KeyVersion :: "int option"
  vc_MotorizedChargePort :: "bool option"
  vc_PerfConfig :: "string option"
  vc_Plg :: "bool option"
  vc_RearSeatHeaters :: "int option"
  vc_RearSeatType :: "int option"
  vc_Rhd :: "bool option"
  vc_RoofColor :: "string option"
  vc_SeatType :: "int option"
  vc_SpoilerType :: "string option"
  vc_SunRoofInstalled :: "int option"
  vc_ThirdRowSeats :: "string option"
  vc_Timestamp :: "int option"
  vc_TrimBadging :: "string option"
  vc_UseRangeBadging :: "bool option"
  vc_WheelType :: "string option"

definition zeroWireVehicleConfig :: wireVehicleConfig where
  "zeroWireVehicleConfig =
    \<lparr>vc_CanAcceptNavigationRequests = None, vc_CanActuateTrunks = None,
     vc_CarSpecialType = None, vc_CarType = None, vc_ChargePortType = None, vc_EuVehicle = None,
     vc_ExteriorColor = None, vc_HasAirSuspension = None, vc_HasLudicrousMode = None,
     vc_KeyVersion = None, vc_MotorizedChargePort = None, vc_PerfConfig = None, vc_Plg = None,
     vc_RearSeatHeaters = None, vc_RearSeatType = None, vc_Rhd = None, vc_RoofColor = None,
     vc_SeatType = None, vc_SpoilerType = None, vc_SunRoofInstalled = None,
     vc_ThirdRowSeats = None, vc_Timestamp = None, vc_TrimBadging = None,
     vc_UseRangeBadging = None, vc_WheelType = None\<rparr>"

lemma zeroWireVehicleConfig_sel [simp]:
  "vc_CanAcceptNavigationRequests zeroWireVehicleConfig = None"
  "vc_CanActuateTrunks zeroWireVehicleConfig = None"
  "vc_CarSpecialType zeroWireVehicleConfig = None"
  "vc_CarType zeroWireVehicleConfig = None"
  "vc_ChargePortType zeroWireVehicleConfig = None"
  "vc_EuVehicle zeroWireVehicleConfig = None"
  "vc_ExteriorColor zeroWireVehicleConfig = None"
  "vc_HasAirSuspension zeroWireVehicleConfig = None"
  "vc_HasLudicrousMode zeroWireVehicleConfig = None"
  "vc_KeyVersion zeroWireVehicleConfig = None"
  "vc_MotorizedChargePort zeroWireVehicleConfig = None"
  "vc_PerfConfig zeroWireVehicleConfig = None"
  "vc_Plg zeroWireVehicleConfig = None"
  "vc_RearSeatHeaters zeroWireVehicleConfig = None"
  "vc_RearSeatType zeroWireVehicleConfig = None"
  "vc_Rhd zeroWireVehicleConfig = None"
  "vc_RoofColor zeroWireVehicleConfig = None"
  "vc_SeatType zeroWireVehicleConfig = None"
  "vc_SpoilerType zeroWireVehicleConfig = None"
  "vc_SunRoofInstalled zeroWireVehicleConfig = None"
  "vc_ThirdRowSeats zeroWireVehicleConfig = None"
  "vc_Timestamp zeroWireVehicleConfig = None"
  "vc_TrimBadging zeroWireVehicleConfig = None"
  "vc_UseRangeBadging zeroWireVehicleConfig = None"
  "vc_WheelType zeroWireVehicleConfig = None"
  by (simp_all add: zeroWireVehicleConfig_def)

record wireSoftwareUpdate =
  sw_DownloadPerc :: "int option"
  sw_ExpectedDurationSec :: "int option"
  sw_InstallPerc :: "int option"
  sw_ScheduledTimeMs :: "int option"
  sw_Status :: "string option"
  sw_Version :: "string option"

definition zeroWireSoftwareUpdate :: wireSoftwareUpdate where
  "zeroWireSoftwareUpdate =
    \<lparr>sw_DownloadPerc = None, sw_ExpectedDurationSec = None, sw_InstallPerc = None,
     sw_ScheduledTimeMs = None, sw_Status = None, sw_Version = None\<rparr>"

lemma zeroWireSoftwareUpdate_sel [simp]:
  "sw_DownloadPerc zeroWireSoftwareUpdate = None"
  "sw_ExpectedDurationSec zeroWireSoftwareUpdate = None"
  "sw_InstallPerc zeroWireSoftwareUpdate = None"
  "sw_ScheduledTimeMs zeroWireSoftwareUpdate = None"
  "sw_Status zeroWireSoftwareUpdate = None"
  "sw_Version zeroWireSoftwareUpdate = None"
  by (simp_all add: zeroWireSoftwareUpdate_def)

record wireVehicleState =
  vst_APIVersion :: "int option"
  vst_AutoparkStateV3 :: "string option"
  vst_AutoparkStyle :: "string option"
  vst_CalendarSupported :: "bool option"
  vst_CarVersion :: "string option"
  vst_CenterDisplayState :: "int option"
  vst_Df :: "int option"
  vst_Dr :: "int option"
  vst_Ft :: "int option"
  vst_HomelinkDeviceCount :: "int option"
  vst_HomelinkNearby :: "bool option"
  vst_IsUserPresent :: "bool option"
  vst_LastAutoparkError :: "string option"
  vst_Locked :: "bool option"
  vst_NotificationsSupported :: "bool option"
  vst_Odometer :: "f64 option"
  vst_ParsedCalendarSupported :: "bool option"
  vst_Pf :: "int option"
  vst_Pr :: "int option"
  vst_RemoteStart :: "bool option"
  vst_RemoteStartEnabled :: "bool option"
  vst_RemoteStartSupported :: "bool option"
  vst_Rt :: "int option"
  vst_FdWindow :: "int option"
  vst_FpWindow :: "int option"
  vst_RdWindow :: "int option"
  vst_RpWindow :: "int option"
  vst_SentryMode :: "bool option"
  vst_SentryModeAvailable :: "bool option"
  vst_SmartSummonAvailable :: "bool option"
  vst_SoftwareUpdate :: "wireSoftwareUpdate option"
  vst_SummonStandbyModeEnabled :: "bool option"
  vst_SunRoofPercentOpen :: "int option"
  vst_SunRoofState :: "string option"
  vst_Timestamp :: "int option"
  vst_ValetMode :: "bool option"
  vst_ValetPinNeeded :: "bool option"
  vst_VehicleName :: "string option"
  vst_TpmsPressureFl :: "f64 option"
  vst_TpmsPressureFr :: "f64 option"
  vst_TpmsPressureRl :: "f64 option"
  vst_TpmsPressureRr :: "f64 option"
  vst_TpmsSoftWarningFl :: "bool option"
  vst_TpmsSoftWarningFr :: "bool option"
  vst_TpmsSoftWarningRl :: "bool option"
  vst_TpmsSoftWarningRr :: "bool option"

definition zeroWireVehicleState :: wireVehicleState where
  "zeroWireVehicleState =
    \<lparr>vst_APIVersion = None, vst_AutoparkStateV3 = None, vst_AutoparkStyle = None,
     vst_CalendarSupported = None, vst_CarVersion = None, vst_CenterDisplayState = None,
     vst_Df = None, vst_Dr = None, vst_Ft = None, vst_HomelinkDeviceCount = None,
     vst_HomelinkNearby = None, vst_IsUserPresent = None, vst_LastAutoparkError = None,
     vst_Locked = None, vst_NotificationsSupported = None, vst_Odometer = None,
     vst_ParsedCalendarSupported = None, vst_Pf = None, vst_Pr = None, vst_RemoteStart = None,
     vst_RemoteStartEnabled = None, vst_RemoteStartSupported = None, vst_Rt = None,
     vst_FdWindow = None, vst_FpWindow = None, vst_RdWindow = None, vst_RpWindow = None,
     vst_SentryMode = None, vst_SentryModeAvailable = None, vst_SmartSummonAvailable = None,
     vst_SoftwareUpdate = None, vst_SummonStandbyModeEnabled = None, vst_SunRoofPercentOpen = None,
     vst_SunRoofState = None, vst_Timestamp = None, vst_ValetMode = None,
     vst_ValetPinNeeded = None, vst_VehicleName = None, vst_TpmsPressureFl = None,
     vst_TpmsPressureFr = None, vst_TpmsPressureRl = None, vst_TpmsPressureRr = None,
     vst_TpmsSoftWarningFl = None, vst_TpmsSoftWarningFr = None, vst_TpmsSoftWarningRl = None,
     vst_TpmsSoftWarningRr = None\<rparr>"

lemma zeroWireVehicleState_sel [simp]:
  "vst_APIVersion zeroWireVehicleState = None"
  "vst_AutoparkStateV3 zeroWireVehicleState = None"
  "vst_AutoparkStyle zeroWireVehicleState = None"
  "vst_CalendarSupported zeroWireVehicleState = None"
  "vst_CarVersion zeroWireVehicleState = None"
  "vst_CenterDisplayState zeroWireVehicleState = None"
  "vst_Df zeroWireVehicleState = None"
  "vst_Dr zeroWireVehicleState = None"
  "vst_Ft zeroWireVehicleState = None"
  "vst_HomelinkDeviceCount zeroWireVehicleState = None"
  "vst_HomelinkNearby zeroWireVehicleState = None"
  "vst_IsUserPresent zeroWireVehicleState = None"
  "vst_LastAutoparkError zeroWireVehicleState = None"
  "vst_Locked zeroWireVehicleState = None"
  "vst_NotificationsSupported zeroWireVehicleState = None"
  "vst_Odometer zeroWireVehicleState = None"
  "vst_ParsedCalendarSupported zeroWireVehicleState = None"
  "vst_Pf zeroWireVehicleState = None"
  "vst_Pr zeroWireVehicleState = None"
  "vst_RemoteStart zeroWireVehicleState = None"
  "vst_RemoteStartEnabled zeroWireVehicleState = None"
  "vst_RemoteStartSupported zeroWireVehicleState = None"
  "vst_Rt zeroWireVehicleState = None"
  "vst_FdWindow zeroWireVehicleState = None"
  "vst_FpWindow zeroWireVehicleState = None"
  "vst_RdWindow zeroWireVehicleState = None"
  "vst_RpWindow zeroWireVehicleState = None"
  "vst_SentryMode zeroWireVehicleState = None"
  "vst_SentryModeAvailable zeroWireVehicleState = None"
  "vst_SmartSummonAvailable zeroWireVehicleState = None"
  "vst_SoftwareUpdate zeroWireVehicleState = None"
  "vst_SummonStandbyModeEnabled zeroWireVehicleState = None"
  "vst_SunRoofPercentOpen zeroWireVehicleState = None"
  "vst_SunRoofState zeroWireVehicleState = None"
  "vst_Timestamp zeroWireVehicleState = None"
  "vst_ValetMode zeroWireVehicleState = None"
  "vst_ValetPinNeeded zeroWireVehicleState = None"
  "vst_VehicleName zeroWireVehicleState = None"
  "vst_TpmsPressureFl zeroWireVehicleState = None"
  "vst_TpmsPressureFr zeroWireVehicleState = None"
  "vst_TpmsPressureRl zeroWireVehicleState = None"
  "vst_TpmsPressureRr zeroWireVehicleState = None"
  "vst_TpmsSoftWarningFl zeroWireVehicleState = None"
  "vst_TpmsSoftWarningFr zeroWireVehicleState = None"
  "vst_TpmsSoftWarningRl zeroWireVehicleState = None"
  "vst_TpmsSoftWarningRr zeroWireVehicleState = None"
  by (simp_all add: zeroWireVehicleState_def)

record vehicleData =
  vd_ID :: int
  vd_VehicleID :: int
  vd_VIN :: string
  vd_DisplayName :: string
  vd_State :: string
  vd_OptionCodes :: "string option"
  vd_APIVersion :: "int option"
  vd_InService :: "bool option"
  vd_ChargeState :: "wireChargeState option"
  vd_ClimateState :: "wireClimateState option"
  vd_DriveState :: "wireDriveState option"
  vd_VehicleConfig :: "wireVehicleConfig option"
  vd_VehicleState :: "wireVehicleState option"
end
