(* ===== verification/FleetSink.thy ===== *)
theory FleetSink
  imports Wire Units
begin

section \<open>Encoding the canonical model as Tesla vehicle data\<close>

text \<open>
  \<^verbatim>\<open>internal/protocol/tesla/fleet/poll/v1/sink_mapping.go\<close>: the functions that turn a canonical
  state, an optional live session and the previously served payload into the \<^verbatim>\<open>vehicle_data\<close>
  TeslaMate reads. The clock, used when a snapshot carries no time, is the argument \<open>now\<close>.

  What is proved of it is in the theory \<open>FleetLaws\<close>.
  \<close>

record fleetIDs =
  fi_ID :: int
  fi_VehicleID :: int
  fi_VIN :: string
  fi_DisplayName :: string

record fleetCfg =
  fc_CarType :: string
  fc_Model :: string

subsection \<open>Enumerations and strings\<close>

definition shiftState :: "gear \<Rightarrow> string" where
  "shiftState g = (case g of GearDrive \<Rightarrow> ''D'' | GearReverse \<Rightarrow> ''R'' | GearNeutral \<Rightarrow> ''N'' | _ \<Rightarrow> ''P'')"

definition topState :: "power \<Rightarrow> string" where
  "topState p = (case p of PowerOnline \<Rightarrow> ''online'' | PowerSleep \<Rightarrow> ''asleep'' | _ \<Rightarrow> ''offline'')"

definition chargingState :: "chargerState \<Rightarrow> chargePlug \<Rightarrow> string" where
  "chargingState c plug =
     (if plug = PlugDisconnected then ''Disconnected''
      else case c of ChargerCharging \<Rightarrow> ''Charging'' | ChargerIdle \<Rightarrow> ''Stopped''
        | ChargerDisconnect \<Rightarrow> ''Disconnected'' | ChargerUnknown \<Rightarrow> ''Disconnected'')"

definition softwareUpdateStatus :: "string \<Rightarrow> string" where
  "softwareUpdateStatus otaStatus =
     (let s = to_lower otaStatus in
      if s = ''installing'' then ''installing''
      else if s = ''downloading'' \<or> s = ''ready_to_download'' then ''downloading''
      else if s = ''ready_to_install'' \<or> s = ''scheduled_to_install'' \<or> s = ''awaiting_install'' \<or>
              s = ''install_countdown'' \<or> s = ''preparing'' then ''available''
      else [])"

definition openClosedToInt :: "string \<Rightarrow> int" where
  "openClosedToInt v = (if v = ''open'' then 1 else 0)"

definition allLocked :: "string list \<Rightarrow> bool" where
  "allLocked locks \<longleftrightarrow> (\<forall>l \<in> set locks. l = ''locked'') \<and> 0 < length locks"

definition seatHeatLevel :: "string \<Rightarrow> int option" where
  "seatHeatLevel v = (if v = ''Off'' then Some 0 else if v = ''Level_1'' then Some 1
     else if v = ''Level_2'' then Some 2 else if v = ''Level_3'' then Some 3 else None)"

definition isOn :: "string \<Rightarrow> bool" where
  "isOn v \<longleftrightarrow> v \<noteq> [] \<and> \<not> equal_fold v ''Off''"

definition preconditioningActive :: "string \<Rightarrow> bool" where
  "preconditioningActive status =
     (let s = to_lower status in s = ''active'' \<or> s = ''complete_maintain'' \<or> s = ''initiate'')"

definition gearGuardArmed :: "string \<Rightarrow> bool" where
  "gearGuardArmed status = (let s = to_lower status in s = ''enabled'' \<or> s = ''engaged'')"

definition tpmsWarning :: "string \<Rightarrow> bool option" where
  "tpmsWarning status = (if status = [] then None else Some (\<not> equal_fold status ''OK''))"

definition invertClosed :: "string \<Rightarrow> string" where
  "invertClosed v = (if v = ''open'' then ''open'' else ''closed'')"

fun firstNonEmpty :: "string list \<Rightarrow> string" where
  "firstNonEmpty [] = []"
| "firstNonEmpty (v # vs) = (if v \<noteq> [] then v else firstNonEmpty vs)"

definition derefStr :: "string option \<Rightarrow> string" where
  "derefStr p = (case p of None \<Rightarrow> [] | Some s \<Rightarrow> s)"

subsection \<open>Drive, charge and climate state\<close>

definition undocumentedAPIVersion :: int where
  "undocumentedAPIVersion = 71"

definition dcChargeThresholdKw :: f64 where
  "dcChargeThresholdKw = fconst 25"

definition driveState :: "vehicleData option \<Rightarrow> state \<Rightarrow> int \<Rightarrow> wireDriveState" where
  "driveState prev vs nowMs =
     (let pds = Option.bind prev vd_DriveState;
          ds0 = zeroWireDriveState\<lparr>ds_Timestamp := Some nowMs, ds_Power := st_DrivePowerKw vs\<rparr>;
          held = Option.bind pds ds_ShiftState;
          ds1 = ds0\<lparr>ds_ShiftState :=
             (if st_Gear vs = GearUnknown \<and> held \<noteq> None then held else Some (shiftState (st_Gear vs)))\<rparr>;
          ds2 = (case st_Location vs of
             Some l \<Rightarrow> ds1\<lparr>ds_Latitude := Some (loc_Latitude l), ds_Longitude := Some (loc_Longitude l),
                ds_GpsAsOf := Some (go_quot (unixMilli (loc_TimeStamp l)) 1000)\<rparr>
           | None \<Rightarrow> (case pds of
               Some pd \<Rightarrow> ds1\<lparr>ds_Latitude := ds_Latitude pd, ds_Longitude := ds_Longitude pd,
                  ds_GpsAsOf := Some (go_quot nowMs 1000)\<rparr>
             | None \<Rightarrow> ds1\<lparr>ds_GpsAsOf := Some (go_quot nowMs 1000)\<rparr>))
      in ds2\<lparr>ds_Heading := Some (f2i (st_HeadingDeg vs)), ds_Speed := Some (mpsToMph (st_SpeedMps vs))\<rparr>)"

definition timeFromMinutes :: "state \<Rightarrow> f64" where
  "timeFromMinutes vs = (if 0 < st_TimeToEndOfChargeMin vs
     then fdiv (i2f (st_TimeToEndOfChargeMin vs)) (fconst 60) else fzero)"

definition chargeLive ::
  "vehicleData option \<Rightarrow> state \<Rightarrow> liveSession option \<Rightarrow> wireChargeState \<Rightarrow> wireChargeState" where
  "chargeLive prev vs live cs =
     (case live of
        Some l \<Rightarrow> cs\<lparr>cs_ChargerPower := Some (math_round (ls_PowerKw l)),
            cs_ChargerActualCurrent := Some (f2i (ls_CurrentA l)),
            cs_ChargeEnergyAdded := Some (ls_TotalChargedEnergy l),
            cs_TimeToFullCharge := Some (if 0 < ls_TimeRemainingSec l
               then fdiv (i2f (ls_TimeRemainingSec l)) (fconst 3600) else timeFromMinutes vs)\<rparr>
      | None \<Rightarrow>
          let held = Option.bind (Option.bind prev vd_ChargeState) cs_ChargeEnergyAdded in
          cs\<lparr>cs_ChargerPower := Some fzero,
            cs_ChargerActualCurrent := Some 0,
            cs_ChargeEnergyAdded := (if held \<noteq> None then held else Some fzero),
            cs_TimeToFullCharge := Some (timeFromMinutes vs)\<rparr>)"

definition isDcSession :: "liveSession option \<Rightarrow> bool" where
  "isDcSession live = (case live of None \<Rightarrow> False
     | Some l \<Rightarrow> ls_FastCharger l \<or> fle dcChargeThresholdKw (ls_PowerKw l))"

definition chargeKind :: "liveSession option \<Rightarrow> wireChargeState \<Rightarrow> wireChargeState" where
  "chargeKind live cs =
     (if isDcSession live then cs\<lparr>cs_FastChargerPresent := Some True, cs_FastChargerType := Some ''Combo'',
         cs_FastChargerBrand := Some ''Rivian'', cs_ChargerPhases := None, cs_ChargerVoltage := None,
         cs_ChargerActualCurrent := None\<rparr>
      else case live of
        Some l \<Rightarrow> if flt fzero (ls_PowerKw l)
          then cs\<lparr>cs_FastChargerPresent := Some False, cs_ChargerPhases := Some 2,
                 cs_ChargerVoltage := Some 240\<rparr>
          else cs\<lparr>cs_FastChargerPresent := Some False\<rparr>
      | None \<Rightarrow> cs\<lparr>cs_FastChargerPresent := Some False\<rparr>)"

definition chargeState ::
  "vehicleData option \<Rightarrow> state \<Rightarrow> liveSession option \<Rightarrow> int \<Rightarrow> wireChargeState" where
  "chargeState prev vs live nowMs =
     (let pcs = Option.bind prev vd_ChargeState;
          heldLevel = Option.bind pcs cs_BatteryLevel;
          level = (if feq (st_BatteryLevelPct vs) fzero \<and> heldLevel \<noteq> None then heldLevel
                   else Some (f2i (st_BatteryLevelPct vs)));
          heldLimit = Option.bind pcs cs_ChargeLimitSoc;
          limit = (if feq (st_BatteryLimitPct vs) fzero \<and> heldLimit \<noteq> None then heldLimit
                   else Some (f2i (st_BatteryLimitPct vs)));
          heldRange = Option.bind pcs cs_IdealBatteryRange;
          rng = (if st_RangeKm vs = 0 \<and> heldRange \<noteq> None then heldRange
                 else Some (kmToMiles (i2f (st_RangeKm vs))));
          cs0 = zeroWireChargeState\<lparr>cs_Timestamp := Some nowMs, cs_BatteryLevel := level,
             cs_UsableBatteryLevel := level, cs_ChargeLimitSoc := limit,
             cs_BatteryHeaterOn := Some (st_BatteryHeaterOn vs),
             cs_IdealBatteryRange := rng, cs_EstBatteryRange := rng, cs_BatteryRange := rng,
             cs_ChargingState := Some (chargingState (st_Charger vs) (st_Plug vs)),
             cs_ChargePortDoorOpen := Some (st_ChargePortOpen vs)\<rparr>;
          cs1 = chargeLive prev vs live cs0;
          cs2 = cs1\<lparr>cs_ChargeRate := Some fzero\<rparr>
      in chargeKind live cs2)"

definition nonZero :: "f64 \<Rightarrow> f64 option" where
  "nonZero x = (if fne x fzero then Some x else None)"

definition climateState :: "state \<Rightarrow> int \<Rightarrow> wireClimateState" where
  "climateState vs nowMs =
     (let pre = preconditioningActive (st_PreconditioningStatus vs) in
      zeroWireClimateState\<lparr>
        cl_InsideTemp := Some (st_CabinTempC vs),
        cl_Timestamp := Some nowMs,
        cl_OutsideTemp := nonZero (st_OutsideTempC vs),
        cl_SeatHeaterLeft := seatHeatLevel (st_SeatHeatFrontLeft vs),
        cl_SeatHeaterRight := seatHeatLevel (st_SeatHeatFrontRight vs),
        cl_SeatHeaterRearLeft := seatHeatLevel (st_SeatHeatRearLeft vs),
        cl_SeatHeaterRearRight := seatHeatLevel (st_SeatHeatRearRight vs),
        cl_SteeringWheelHeater := Some (isOn (st_SteeringWheelHeat vs)),
        cl_IsFrontDefrosterOn := Some (isOn (st_DefrostStatus vs)),
        cl_IsPreconditioning := Some pre,
        cl_IsClimateOn := Some pre,
        cl_DriverTempSetting := nonZero (st_DriverSetpointC vs)\<rparr>)"

subsection \<open>Vehicle state and configuration\<close>

definition panelInt :: "string \<Rightarrow> int option" where
  "panelInt v = Some (openClosedToInt (invertClosed v))"

definition vehicleState ::
  "vehicleData option \<Rightarrow> state \<Rightarrow> fleetIDs \<Rightarrow> int \<Rightarrow> wireVehicleState" where
  "vehicleState prev vs ids nowMs =
     (let pvs = Option.bind prev vd_VehicleState;
          heldOdo = Option.bind pvs vst_Odometer;
          heldVersion = Option.bind pvs vst_CarVersion in
      zeroWireVehicleState\<lparr>
        vst_Timestamp := Some nowMs,
        vst_VehicleName := Some (fi_DisplayName ids),
        vst_IsUserPresent := Some (st_UserPresent vs),
        vst_SentryMode := Some (gearGuardArmed (st_GearGuardStatus vs)),
        vst_TpmsSoftWarningFl := tpmsWarning (st_TpmsFrontLeft vs),
        vst_TpmsSoftWarningFr := tpmsWarning (st_TpmsFrontRight vs),
        vst_TpmsSoftWarningRl := tpmsWarning (st_TpmsRearLeft vs),
        vst_TpmsSoftWarningRr := tpmsWarning (st_TpmsRearRight vs),
        vst_TpmsPressureFl := nonZero (st_TpmsPressureFlBar vs),
        vst_TpmsPressureFr := nonZero (st_TpmsPressureFrBar vs),
        vst_TpmsPressureRl := nonZero (st_TpmsPressureRlBar vs),
        vst_TpmsPressureRr := nonZero (st_TpmsPressureRrBar vs),
        vst_Odometer := (if st_OdometerMeters vs = 0 \<and> heldOdo \<noteq> None then heldOdo
           else Some (metersToMiles (i2f (st_OdometerMeters vs)))),
        vst_Locked := Some (allLocked [st_DoorFrontLeftLocked vs, st_DoorFrontRightLocked vs,
           st_DoorRearLeftLocked vs, st_DoorRearRightLocked vs]),
        vst_Df := panelInt (st_DoorFrontLeftClosed vs),
        vst_Dr := panelInt (st_DoorRearLeftClosed vs),
        vst_Pf := panelInt (st_DoorFrontRightClosed vs),
        vst_Pr := panelInt (st_DoorRearRightClosed vs),
        vst_Ft := panelInt (st_FrunkClosed vs),
        vst_Rt := panelInt (st_LiftgateClosed vs),
        vst_FdWindow := panelInt (st_WindowFrontLeftClosed vs),
        vst_FpWindow := panelInt (st_WindowFrontRightClosed vs),
        vst_RdWindow := panelInt (st_WindowRearLeftClosed vs),
        vst_RpWindow := panelInt (st_WindowRearRightClosed vs),
        vst_CarVersion := (if st_OtaVersion vs \<noteq> [] then Some (st_OtaVersion vs)
           else if heldVersion \<noteq> None then heldVersion else Some []),
        vst_SoftwareUpdate := Some (zeroWireSoftwareUpdate\<lparr>
           sw_Status := Some (softwareUpdateStatus (st_OtaStatus vs)),
           sw_Version := Some (st_OtaAvailableVersion vs),
           sw_DownloadPerc := Some (st_OtaDownloadProgress vs),
           sw_InstallPerc := Some (f2i (math_round (st_OtaInstallProgress vs)))\<rparr>)\<rparr>)"

definition teslaModelNames :: "string \<rightharpoonup> string" where
  "teslaModelNames = map_of [(''cybertruck'', ''Cybertruck''), (''roadster'', ''Roadster''),
     (''semi'', ''Semi''), (''cybercab'', ''Cybercab'')]"

definition teslaMateCarTypeTrim :: "string \<Rightarrow> string \<Rightarrow> string \<times> string" where
  "teslaMateCarTypeTrim carType trim =
     (case teslaModelNames carType of Some name \<Rightarrow> (''model3'', name) | None \<Rightarrow> (carType, trim))"

definition stateCarType :: "state option \<Rightarrow> string" where
  "stateCarType vs = (case vs of None \<Rightarrow> [] | Some s \<Rightarrow> st_CarType s)"

definition stateTrim :: "state option \<Rightarrow> string" where
  "stateTrim vs = (case vs of None \<Rightarrow> [] | Some s \<Rightarrow> st_TrimBadging s)"

definition prevCarType :: "vehicleData option \<Rightarrow> string" where
  "prevCarType prev = derefStr (Option.bind (Option.bind prev vd_VehicleConfig) vc_CarType)"

definition prevTrim :: "vehicleData option \<Rightarrow> string" where
  "prevTrim prev = derefStr (Option.bind (Option.bind prev vd_VehicleConfig) vc_TrimBadging)"

definition vehicleConfig ::
  "vehicleData option \<Rightarrow> state option \<Rightarrow> fleetCfg \<Rightarrow> int \<Rightarrow> wireVehicleConfig" where
  "vehicleConfig prev vs cfg nowMs =
     (let carType0 = firstNonEmpty [stateCarType vs, prevCarType prev, fc_CarType cfg, ''model3''];
          trim0 = firstNonEmpty [stateTrim vs, prevTrim prev, fc_Model cfg];
          (carType, trim) = teslaMateCarTypeTrim carType0 trim0;
          vc = zeroWireVehicleConfig\<lparr>vc_CarType := Some carType, vc_Rhd := Some False,
             vc_Timestamp := Some nowMs\<rparr>
      in if trim \<noteq> [] then vc\<lparr>vc_TrimBadging := Some trim\<rparr> else vc)"

subsection \<open>The payload\<close>

definition asleepFallback ::
  "gotime \<Rightarrow> vehicleData option \<Rightarrow> fleetIDs \<Rightarrow> fleetCfg \<Rightarrow> vehicleData" where
  "asleepFallback now prev ids cfg =
     (case prev of
        Some p \<Rightarrow> p\<lparr>vd_ID := fi_ID ids, vd_VehicleID := fi_VehicleID ids, vd_VIN := fi_VIN ids,
            vd_DisplayName := fi_DisplayName ids, vd_State := ''asleep''\<rparr>
      | None \<Rightarrow>
          let nowMs = unixMilli now in
          \<lparr>vd_ID = fi_ID ids, vd_VehicleID = fi_VehicleID ids, vd_VIN = fi_VIN ids,
           vd_DisplayName = fi_DisplayName ids, vd_State = ''asleep'', vd_OptionCodes = None,
           vd_APIVersion = Some undocumentedAPIVersion, vd_InService = Some False,
           vd_ChargeState = Some (zeroWireChargeState\<lparr>
             cs_BatteryLevel := Some 0, cs_IdealBatteryRange := Some fzero,
             cs_EstBatteryRange := Some fzero, cs_BatteryRange := Some fzero,
             cs_ChargeEnergyAdded := Some fzero, cs_ChargingState := Some ''Disconnected'',
             cs_Timestamp := Some nowMs\<rparr>),
           vd_ClimateState = Some (zeroWireClimateState\<lparr>cl_IsClimateOn := Some False,
             cl_Timestamp := Some nowMs\<rparr>),
           vd_DriveState = Some (zeroWireDriveState\<lparr>ds_Timestamp := Some nowMs,
             ds_GpsAsOf := Some (go_quot nowMs 1000)\<rparr>),
           vd_VehicleConfig = Some (vehicleConfig prev None cfg nowMs),
           vd_VehicleState = Some (zeroWireVehicleState\<lparr>
             vst_Odometer := Some fzero, vst_Locked := Some True,
             vst_VehicleName := Some (fi_DisplayName ids),
             vst_SoftwareUpdate := Some (zeroWireSoftwareUpdate\<lparr>sw_Status := Some [],
                sw_Version := Some []\<rparr>),
             vst_Timestamp := Some nowMs\<rparr>)\<rparr>)"

definition snapTime :: "gotime \<Rightarrow> state \<Rightarrow> gotime \<Rightarrow> gotime" where
  "snapTime now vs asOf =
     (if \<not> is_zero_time asOf then asOf
      else
        let t = (case st_Location vs of
              Some l \<Rightarrow> if is_zero_time (loc_TimeStamp l) then st_LastUpdate vs else loc_TimeStamp l
            | None \<Rightarrow> st_LastUpdate vs)
        in if is_zero_time t then now else t)"

definition vehicleDataOf ::
  "gotime \<Rightarrow> vehicleData option \<Rightarrow> state option \<Rightarrow> liveSession option \<Rightarrow> fleetIDs \<Rightarrow> fleetCfg \<Rightarrow>
     gotime \<Rightarrow> vehicleData" where
  "vehicleDataOf now prev vso live ids cfg asOf =
     (case vso of
        None \<Rightarrow> asleepFallback now prev ids cfg
      | Some vs \<Rightarrow>
          let nowMs = unixMilli (snapTime now vs asOf) in
          \<lparr>vd_ID = fi_ID ids, vd_VehicleID = fi_VehicleID ids, vd_VIN = fi_VIN ids,
           vd_DisplayName = fi_DisplayName ids, vd_State = topState (st_Power vs),
           vd_OptionCodes = None, vd_APIVersion = Some undocumentedAPIVersion,
           vd_InService = Some False,
           vd_ChargeState = Some (chargeState prev vs live nowMs),
           vd_ClimateState = Some (climateState vs nowMs),
           vd_DriveState = Some (driveState prev vs nowMs),
           vd_VehicleConfig = Some (vehicleConfig prev (Some vs) cfg nowMs),
           vd_VehicleState = Some (vehicleState prev vs ids nowMs)\<rparr>)"

definition fleetState :: "state option \<Rightarrow> string" where
  "fleetState vs = (case vs of None \<Rightarrow> ''asleep'' | Some s \<Rightarrow> topState (st_Power s))"

end
