(* ===== verification/FleetSource.thy ===== *)
theory FleetSource
  imports FleetSink
begin

section \<open>Decoding Tesla vehicle data into the canonical model\<close>

text \<open>
  \<^verbatim>\<open>internal/protocol/tesla/fleet/poll/v1/source_mapping.go\<close>: the inverse of the sink's encoding.
  \<^verbatim>\<open>DecodeVehicleData\<close> is one definition per sub-object it reads, composed in its order.
\<close>

subsection \<open>Enumerations and strings\<close>

definition powerFromTesla :: "string \<Rightarrow> power" where
  "powerFromTesla s = (if s = ''online'' then PowerOnline else if s = ''asleep'' then PowerSleep
     else if s = ''offline'' then PowerOffline else PowerUnknown)"

definition gearFromTesla :: "string \<Rightarrow> gear" where
  "gearFromTesla shift = (if shift = ''D'' then GearDrive else if shift = ''R'' then GearReverse
     else if shift = ''N'' then GearNeutral else if shift = ''P'' then GearPark else GearUnknown)"

definition chargerFromTesla :: "string \<Rightarrow> chargerState" where
  "chargerFromTesla c = (if c = ''Charging'' then ChargerCharging
     else if c = ''Stopped'' \<or> c = ''Complete'' \<or> c = ''NoPower'' \<or> c = ''Starting'' then ChargerIdle
     else if c = ''Disconnected'' then ChargerDisconnect else ChargerUnknown)"

definition plugFromTesla :: "string \<Rightarrow> chargePlug" where
  "plugFromTesla c = (if c = ''Charging'' \<or> c = ''Stopped'' \<or> c = ''Complete'' \<or> c = ''NoPower'' \<or>
       c = ''Starting'' then PlugConnected
     else if c = ''Disconnected'' then PlugDisconnected else PlugUnknown)"

definition seatLevelFromTesla :: "int option \<Rightarrow> string" where
  "seatLevelFromTesla level = (case level of None \<Rightarrow> []
     | Some n \<Rightarrow> if n = 0 then ''Off'' else if n = 1 then ''Level_1'' else if n = 2 then ''Level_2''
         else if n = 3 then ''Level_3'' else [])"

definition onOffLevel :: "bool \<Rightarrow> string" where
  "onOffLevel b = (if b then ''Level_1'' else ''Off'')"

definition onOff :: "bool \<Rightarrow> string" where
  "onOff b = (if b then ''On'' else ''Off'')"

definition preconditioningFromTesla :: "bool \<Rightarrow> string" where
  "preconditioningFromTesla b = (if b then ''active'' else ''off'')"

definition gearGuardFromTesla :: "bool \<Rightarrow> string" where
  "gearGuardFromTesla b = (if b then ''enabled'' else ''disabled'')"

definition tpmsFromTesla :: "bool option \<Rightarrow> string" where
  "tpmsFromTesla w = (case w of None \<Rightarrow> [] | Some b \<Rightarrow> if b then ''WARN'' else ''OK'')"

definition lockedFromTesla :: "bool option \<Rightarrow> string" where
  "lockedFromTesla l = (case l of None \<Rightarrow> [] | Some b \<Rightarrow> if b then ''locked'' else ''unlocked'')"

definition closedFromTesla :: "int option \<Rightarrow> string" where
  "closedFromTesla v = (case v of None \<Rightarrow> [] | Some n \<Rightarrow> if n = 1 then ''open'' else ''closed'')"

definition msToTime :: "int option \<Rightarrow> gotime" where
  "msToTime ms = (case ms of None \<Rightarrow> 0 | Some n \<Rightarrow> if n = 0 then 0 else fromUnixMilli n)"

definition secToTime :: "int option \<Rightarrow> gotime" where
  "secToTime s = (case s of None \<Rightarrow> 0 | Some n \<Rightarrow> if n = 0 then 0 else fromUnixSec n)"

definition derefInt :: "int option \<Rightarrow> int" where
  "derefInt p = (case p of None \<Rightarrow> 0 | Some n \<Rightarrow> n)"

definition derefF64 :: "f64 option \<Rightarrow> f64" where
  "derefF64 p = (case p of None \<Rightarrow> fzero | Some x \<Rightarrow> x)"

definition derefBool :: "bool option \<Rightarrow> bool" where
  "derefBool p = (case p of None \<Rightarrow> False | Some b \<Rightarrow> b)"

subsection \<open>The payload\<close>

definition decodeDrive :: "wireDriveState option \<Rightarrow> state \<Rightarrow> state" where
  "decodeDrive dso st = (case dso of None \<Rightarrow> st
     | Some ds \<Rightarrow> st\<lparr>st_LastUpdate := msToTime (ds_Timestamp ds),
         st_HeadingDeg := i2f (derefInt (ds_Heading ds)),
         st_SpeedMps := mphToMps (derefF64 (ds_Speed ds)),
         st_Gear := gearFromTesla (derefStr (ds_ShiftState ds)),
         st_DrivePowerKw := (case ds_Power ds of None \<Rightarrow> st_DrivePowerKw st | Some x \<Rightarrow> Some x),
         st_Location := (case (ds_Latitude ds, ds_Longitude ds) of
             (Some la, Some lo) \<Rightarrow> Some \<lparr>loc_Latitude = la, loc_Longitude = lo,
                loc_TimeStamp = secToTime (ds_GpsAsOf ds)\<rparr>
           | _ \<Rightarrow> st_Location st)\<rparr>)"

definition decodeCharge :: "wireChargeState option \<Rightarrow> state \<Rightarrow> state" where
  "decodeCharge cso st = (case cso of None \<Rightarrow> st
     | Some cs \<Rightarrow> st\<lparr>st_RangeKm := f2i (math_round (milesToKm (derefF64 (cs_BatteryRange cs)))),
         st_BatteryLevelPct := i2f (derefInt (cs_BatteryLevel cs)),
         st_BatteryLimitPct := i2f (derefInt (cs_ChargeLimitSoc cs)),
         st_Charger := chargerFromTesla (derefStr (cs_ChargingState cs)),
         st_Plug := plugFromTesla (derefStr (cs_ChargingState cs)),
         st_ChargePortOpen := derefBool (cs_ChargePortDoorOpen cs),
         st_TimeToEndOfChargeMin := f2i (math_round (fmul (derefF64 (cs_TimeToFullCharge cs)) (fconst 60))),
         st_ChargerVoltageV := derefInt (cs_ChargerVoltage cs),
         st_BatteryHeaterOn := derefBool (cs_BatteryHeaterOn cs)\<rparr>)"

definition decodeClimate :: "wireClimateState option \<Rightarrow> state \<Rightarrow> state" where
  "decodeClimate clo st = (case clo of None \<Rightarrow> st
     | Some cl \<Rightarrow> st\<lparr>st_CabinTempC := derefF64 (cl_InsideTemp cl),
         st_OutsideTempC := derefF64 (cl_OutsideTemp cl),
         st_DriverSetpointC := derefF64 (cl_DriverTempSetting cl),
         st_SeatHeatFrontLeft := seatLevelFromTesla (cl_SeatHeaterLeft cl),
         st_SeatHeatFrontRight := seatLevelFromTesla (cl_SeatHeaterRight cl),
         st_SeatHeatRearLeft := seatLevelFromTesla (cl_SeatHeaterRearLeft cl),
         st_SeatHeatRearRight := seatLevelFromTesla (cl_SeatHeaterRearRight cl),
         st_SteeringWheelHeat := onOffLevel (derefBool (cl_SteeringWheelHeater cl)),
         st_DefrostStatus := onOff (derefBool (cl_IsFrontDefrosterOn cl)),
         st_PreconditioningStatus := preconditioningFromTesla (derefBool (cl_IsPreconditioning cl))\<rparr>)"

definition decodeUpdate :: "wireSoftwareUpdate option \<Rightarrow> state \<Rightarrow> state" where
  "decodeUpdate suo st = (case suo of None \<Rightarrow> st
     | Some su \<Rightarrow> st\<lparr>st_OtaStatus := derefStr (sw_Status su),
         st_OtaAvailableVersion := derefStr (sw_Version su),
         st_OtaDownloadProgress := derefInt (sw_DownloadPerc su),
         st_OtaInstallProgress := i2f (derefInt (sw_InstallPerc su))\<rparr>)"

definition decodeVehicle :: "wireVehicleState option \<Rightarrow> state \<Rightarrow> state" where
  "decodeVehicle vso st = (case vso of None \<Rightarrow> st
     | Some v \<Rightarrow>
         let lock = lockedFromTesla (vst_Locked v) in
         decodeUpdate (vst_SoftwareUpdate v) (st\<lparr>st_UserPresent := derefBool (vst_IsUserPresent v),
           st_OdometerMeters := f2i (math_round (milesToMeters (derefF64 (vst_Odometer v)))),
           st_GearGuardStatus := gearGuardFromTesla (derefBool (vst_SentryMode v)),
           st_TpmsFrontLeft := tpmsFromTesla (vst_TpmsSoftWarningFl v),
           st_TpmsFrontRight := tpmsFromTesla (vst_TpmsSoftWarningFr v),
           st_TpmsRearLeft := tpmsFromTesla (vst_TpmsSoftWarningRl v),
           st_TpmsRearRight := tpmsFromTesla (vst_TpmsSoftWarningRr v),
           st_TpmsPressureFlBar := derefF64 (vst_TpmsPressureFl v),
           st_TpmsPressureFrBar := derefF64 (vst_TpmsPressureFr v),
           st_TpmsPressureRlBar := derefF64 (vst_TpmsPressureRl v),
           st_TpmsPressureRrBar := derefF64 (vst_TpmsPressureRr v),
           st_DoorFrontLeftLocked := lock, st_DoorFrontRightLocked := lock,
           st_DoorRearLeftLocked := lock, st_DoorRearRightLocked := lock,
           st_DoorFrontLeftClosed := closedFromTesla (vst_Df v),
           st_DoorFrontRightClosed := closedFromTesla (vst_Pf v),
           st_DoorRearLeftClosed := closedFromTesla (vst_Dr v),
           st_DoorRearRightClosed := closedFromTesla (vst_Pr v),
           st_WindowFrontLeftClosed := closedFromTesla (vst_FdWindow v),
           st_WindowFrontRightClosed := closedFromTesla (vst_FpWindow v),
           st_WindowRearLeftClosed := closedFromTesla (vst_RdWindow v),
           st_WindowRearRightClosed := closedFromTesla (vst_RpWindow v),
           st_FrunkClosed := closedFromTesla (vst_Ft v),
           st_LiftgateClosed := closedFromTesla (vst_Rt v),
           st_OtaVersion := derefStr (vst_CarVersion v)\<rparr>))"

definition decodeConfig :: "wireVehicleConfig option \<Rightarrow> state \<Rightarrow> state" where
  "decodeConfig vco st = (case vco of None \<Rightarrow> st
     | Some vc \<Rightarrow> st\<lparr>st_CarType := derefStr (vc_CarType vc), st_TrimBadging := derefStr (vc_TrimBadging vc)\<rparr>)"

definition liveFromTesla :: "wireChargeState option \<Rightarrow> liveSession option" where
  "liveFromTesla cso = (case cso of None \<Rightarrow> None
     | Some cs \<Rightarrow>
         if derefStr (cs_ChargingState cs) \<noteq> ''Charging'' then None
         else Some \<lparr>ls_PowerKw = derefF64 (cs_ChargerPower cs),
           ls_CurrentA = i2f (derefInt (cs_ChargerActualCurrent cs)),
           ls_TotalChargedEnergy = derefF64 (cs_ChargeEnergyAdded cs),
           ls_TimeRemainingSec = f2i (math_round (fmul (derefF64 (cs_TimeToFullCharge cs)) (fconst 3600))),
           ls_FastCharger = derefBool (cs_FastChargerPresent cs)\<rparr>)"

definition decodeVehicleData :: "vehicleData option \<Rightarrow> snapshot" where
  "decodeVehicleData vdo = (case vdo of None \<Rightarrow> zeroSnapshot
     | Some vd \<Rightarrow>
         let st = decodeConfig (vd_VehicleConfig vd) (decodeVehicle (vd_VehicleState vd)
              (decodeClimate (vd_ClimateState vd) (decodeCharge (vd_ChargeState vd)
              (decodeDrive (vd_DriveState vd) (zeroState\<lparr>st_Power := powerFromTesla (vd_State vd)\<rparr>)))))
         in zeroSnapshot\<lparr>sn_State := Some st, sn_Live := liveFromTesla (vd_ChargeState vd)\<rparr>)"

definition summaryToSnapshot :: "gotime \<Rightarrow> summary \<Rightarrow> snapshot" where
  "summaryToSnapshot now s =
     (let p = powerFromTesla (su_State s) in
      zeroSnapshot\<lparr>sn_State := Some (zeroState\<lparr>st_Power := p, st_CloudOnline := (p \<noteq> PowerOffline),
         st_LastUpdate := now\<rparr>), sn_FetchedAt := now\<rparr>)"

end
