(* ===== verification/FleetLaws.thy ===== *)
theory FleetLaws
  imports FleetSource Poll
begin

section \<open>The Fleet encoding and decoding\<close>

text \<open>
  What the two mappings of the Tesla Fleet plugin guarantee: every payload carries the fields
  TeslaMate cannot do without, junk zeros of a sleeping car hold the last known reading over any
  number of requests, the DC split agrees with the poll loop's, and what comes back of a state from
  its own encoding is named field by field.
\<close>

subsection \<open>What every payload carries\<close>

lemma chargeLive_keeps [simp]:
  "cs_BatteryLevel (chargeLive prev vs live cs) = cs_BatteryLevel cs"
  "cs_UsableBatteryLevel (chargeLive prev vs live cs) = cs_UsableBatteryLevel cs"
  "cs_ChargeLimitSoc (chargeLive prev vs live cs) = cs_ChargeLimitSoc cs"
  "cs_IdealBatteryRange (chargeLive prev vs live cs) = cs_IdealBatteryRange cs"
  "cs_EstBatteryRange (chargeLive prev vs live cs) = cs_EstBatteryRange cs"
  "cs_BatteryRange (chargeLive prev vs live cs) = cs_BatteryRange cs"
  "cs_ChargingState (chargeLive prev vs live cs) = cs_ChargingState cs"
  "cs_ChargePortDoorOpen (chargeLive prev vs live cs) = cs_ChargePortDoorOpen cs"
  "cs_BatteryHeaterOn (chargeLive prev vs live cs) = cs_BatteryHeaterOn cs"
  "cs_ChargerVoltage (chargeLive prev vs live cs) = cs_ChargerVoltage cs"
  "cs_ChargerPhases (chargeLive prev vs live cs) = cs_ChargerPhases cs"
  by (auto simp: chargeLive_def Let_def split: option.split)

lemma chargeKind_keeps [simp]:
  "cs_BatteryLevel (chargeKind live cs) = cs_BatteryLevel cs"
  "cs_UsableBatteryLevel (chargeKind live cs) = cs_UsableBatteryLevel cs"
  "cs_ChargeLimitSoc (chargeKind live cs) = cs_ChargeLimitSoc cs"
  "cs_IdealBatteryRange (chargeKind live cs) = cs_IdealBatteryRange cs"
  "cs_EstBatteryRange (chargeKind live cs) = cs_EstBatteryRange cs"
  "cs_BatteryRange (chargeKind live cs) = cs_BatteryRange cs"
  "cs_ChargingState (chargeKind live cs) = cs_ChargingState cs"
  "cs_ChargePortDoorOpen (chargeKind live cs) = cs_ChargePortDoorOpen cs"
  "cs_BatteryHeaterOn (chargeKind live cs) = cs_BatteryHeaterOn cs"
  "cs_ChargerPower (chargeKind live cs) = cs_ChargerPower cs"
  "cs_ChargeEnergyAdded (chargeKind live cs) = cs_ChargeEnergyAdded cs"
  "cs_TimeToFullCharge (chargeKind live cs) = cs_TimeToFullCharge cs"
  by (auto simp: chargeKind_def split: option.split)

text \<open>The held value of a load-bearing field.\<close>

abbreviation pcs :: "vehicleData option \<Rightarrow> wireChargeState option" where
  "pcs prev \<equiv> Option.bind prev vd_ChargeState"

lemma chargeState_fields:
  "cs_BatteryLevel (chargeState prev vs live ms) =
     (if feq (st_BatteryLevelPct vs) fzero \<and> Option.bind (pcs prev) cs_BatteryLevel \<noteq> None
      then Option.bind (pcs prev) cs_BatteryLevel else Some (f2i (st_BatteryLevelPct vs)))"
  "cs_ChargeLimitSoc (chargeState prev vs live ms) =
     (if feq (st_BatteryLimitPct vs) fzero \<and> Option.bind (pcs prev) cs_ChargeLimitSoc \<noteq> None
      then Option.bind (pcs prev) cs_ChargeLimitSoc else Some (f2i (st_BatteryLimitPct vs)))"
  "cs_IdealBatteryRange (chargeState prev vs live ms) =
     (if st_RangeKm vs = 0 \<and> Option.bind (pcs prev) cs_IdealBatteryRange \<noteq> None
      then Option.bind (pcs prev) cs_IdealBatteryRange else Some (kmToMiles (i2f (st_RangeKm vs))))"
  "cs_EstBatteryRange (chargeState prev vs live ms) = cs_IdealBatteryRange (chargeState prev vs live ms)"
  "cs_BatteryRange (chargeState prev vs live ms) = cs_IdealBatteryRange (chargeState prev vs live ms)"
  "cs_UsableBatteryLevel (chargeState prev vs live ms) = cs_BatteryLevel (chargeState prev vs live ms)"
  "cs_ChargingState (chargeState prev vs live ms) = Some (chargingState (st_Charger vs) (st_Plug vs))"
  "cs_ChargePortDoorOpen (chargeState prev vs live ms) = Some (st_ChargePortOpen vs)"
  "cs_BatteryHeaterOn (chargeState prev vs live ms) = Some (st_BatteryHeaterOn vs)"
  "cs_ChargeEnergyAdded (chargeState prev vs live ms) = (case live of
     Some l \<Rightarrow> Some (ls_TotalChargedEnergy l)
   | None \<Rightarrow> if Option.bind (pcs prev) cs_ChargeEnergyAdded \<noteq> None
       then Option.bind (pcs prev) cs_ChargeEnergyAdded else Some fzero)"
  "cs_ChargerPower (chargeState prev vs live ms) =
     Some (case live of Some l \<Rightarrow> math_round (ls_PowerKw l) | None \<Rightarrow> fzero)"
  by (auto simp: chargeState_def Let_def chargeLive_def split: option.split)

lemma chargeState_kind:
  "cs_FastChargerPresent (chargeState prev vs live ms) = Some (isDcSession live)"
  "isDcSession live \<Longrightarrow> cs_ChargerVoltage (chargeState prev vs live ms) = None \<and>
     cs_ChargerPhases (chargeState prev vs live ms) = None \<and>
     cs_ChargerActualCurrent (chargeState prev vs live ms) = None"
  "\<not> isDcSession live \<Longrightarrow> cs_ChargerVoltage (chargeState prev vs live ms) =
     (case live of Some l \<Rightarrow> if flt fzero (ls_PowerKw l) then Some 240 else None | None \<Rightarrow> None)"
  by (auto simp: chargeState_def Let_def chargeKind_def split: option.split)

lemma driveState_fields:
  "ds_ShiftState (driveState prev vs ms) =
     (if st_Gear vs = GearUnknown \<and> Option.bind (Option.bind prev vd_DriveState) ds_ShiftState \<noteq> None
      then Option.bind (Option.bind prev vd_DriveState) ds_ShiftState else Some (shiftState (st_Gear vs)))"
  "ds_Latitude (driveState prev vs ms) = (case st_Location vs of Some l \<Rightarrow> Some (loc_Latitude l)
     | None \<Rightarrow> Option.bind (Option.bind prev vd_DriveState) ds_Latitude)"
  "ds_Longitude (driveState prev vs ms) = (case st_Location vs of Some l \<Rightarrow> Some (loc_Longitude l)
     | None \<Rightarrow> Option.bind (Option.bind prev vd_DriveState) ds_Longitude)"
  "ds_GpsAsOf (driveState prev vs ms) = Some (case st_Location vs of
       Some l \<Rightarrow> go_quot (unixMilli (loc_TimeStamp l)) 1000 | None \<Rightarrow> go_quot ms 1000)"
  "ds_Timestamp (driveState prev vs ms) = Some ms"
  "ds_Power (driveState prev vs ms) = st_DrivePowerKw vs"
  "ds_Heading (driveState prev vs ms) = Some (f2i (st_HeadingDeg vs))"
  "ds_Speed (driveState prev vs ms) = Some (mpsToMph (st_SpeedMps vs))"
  by (cases prev; cases "vd_DriveState (the prev)"; auto simp: driveState_def Let_def split: option.split)+

lemma teslaModelNames_None [simp]: "teslaModelNames ''model3'' = None"
  by (simp add: teslaModelNames_def)

lemma teslaMate_idem: "teslaMateCarTypeTrim c t = (c', t') \<Longrightarrow> teslaMateCarTypeTrim c' t'' = (c', t'')"
  by (auto simp: teslaMateCarTypeTrim_def split: option.splits)

lemma firstNonEmpty_last: "v \<noteq> [] \<Longrightarrow> v \<in> set vs \<Longrightarrow> firstNonEmpty vs \<noteq> []"
  by (induction vs) auto

lemma vehicleConfig_carType:
  obtains c where "vc_CarType (vehicleConfig prev vs cfg ms) = Some c" and "c \<noteq> []"
    and "teslaModelNames c = None"
proof -
  define c0 where "c0 = firstNonEmpty [stateCarType vs, prevCarType prev, fc_CarType cfg, ''model3'']"
  define t0 where "t0 = firstNonEmpty [stateTrim vs, prevTrim prev, fc_Model cfg]"
  obtain c t where ct: "teslaMateCarTypeTrim c0 t0 = (c, t)" by fastforce
  have "c0 \<noteq> []" unfolding c0_def by (rule firstNonEmpty_last [of "''model3''"]) simp_all
  then have "c \<noteq> []" "teslaModelNames c = None"
    using ct by (auto simp: teslaMateCarTypeTrim_def split: option.splits)
  moreover have "vc_CarType (vehicleConfig prev vs cfg ms) = Some c"
    unfolding vehicleConfig_def Let_def c0_def [symmetric] t0_def [symmetric] ct by simp
  ultimately show thesis by (rule that [rotated])
qed

definition loadBearing :: "vehicleData \<Rightarrow> bool" where
  "loadBearing vd \<longleftrightarrow>
     (\<exists>cs cl ds vc v. vd_ChargeState vd = Some cs \<and> vd_ClimateState vd = Some cl \<and>
        vd_DriveState vd = Some ds \<and> vd_VehicleConfig vd = Some vc \<and> vd_VehicleState vd = Some v \<and>
        cs_BatteryLevel cs \<noteq> None \<and> cs_IdealBatteryRange cs \<noteq> None \<and> cs_EstBatteryRange cs \<noteq> None \<and>
        cs_BatteryRange cs \<noteq> None \<and> cs_ChargeEnergyAdded cs \<noteq> None \<and> cs_ChargingState cs \<noteq> None \<and>
        ds_Timestamp ds \<noteq> None \<and> ds_GpsAsOf ds \<noteq> None \<and>
        (\<exists>c. vc_CarType vc = Some c \<and> c \<noteq> [] \<and> teslaModelNames c = None) \<and>
        vst_Odometer v \<noteq> None \<and> vst_Locked v \<noteq> None \<and> vst_SoftwareUpdate v \<noteq> None)"

lemma asleepFallback_loadBearing:
  assumes "\<And>p. prev = Some p \<Longrightarrow> loadBearing p"
  shows "loadBearing (asleepFallback now prev ids cfg)"
proof (cases prev)
  case None
  obtain c where "vc_CarType (vehicleConfig prev None cfg (unixMilli now)) = Some c" "c \<noteq> []"
    "teslaModelNames c = None" by (rule vehicleConfig_carType)
  then show ?thesis by (auto simp: asleepFallback_def None loadBearing_def Let_def)
next
  case (Some p)
  then show ?thesis using assms by (simp add: asleepFallback_def loadBearing_def)
qed

lemma vehicleDataOf_loadBearing:
  assumes "\<And>p. prev = Some p \<Longrightarrow> loadBearing p"
  shows "loadBearing (vehicleDataOf now prev vso live ids cfg asOf)"
proof (cases vso)
  case None
  then show ?thesis using assms by (simp add: vehicleDataOf_def asleepFallback_loadBearing)
next
  case (Some vs)
  obtain c where "vc_CarType (vehicleConfig prev (Some vs) cfg (unixMilli (snapTime now vs asOf))) = Some c"
      "c \<noteq> []" "teslaModelNames c = None" by (rule vehicleConfig_carType)
  then show ?thesis
    by (auto simp: Some vehicleDataOf_def loadBearing_def Let_def chargeState_fields driveState_fields
        vehicleState_def split: option.split)
qed

subsection \<open>A history of payloads\<close>

text \<open>
  The server encodes each snapshot against the payload it served before. A request is the clock,
  the snapshot's state and live session, and its time.
\<close>

type_synonym fleetRequest = "gotime \<times> state option \<times> liveSession option \<times> gotime"

definition serve :: "fleetIDs \<Rightarrow> fleetCfg \<Rightarrow> fleetRequest \<Rightarrow> vehicleData option \<Rightarrow> vehicleData option" where
  "serve ids cfg r prev = (case r of (now, vso, live, asOf) \<Rightarrow>
     Some (vehicleDataOf now prev vso live ids cfg asOf))"

lemma serve_run_loadBearing:
  assumes "\<And>p. prev = Some p \<Longrightarrow> loadBearing p" and "fold (serve ids cfg) rs prev = Some vd"
  shows "loadBearing vd"
  using assms
proof (induction rs arbitrary: prev)
  case (Cons r rs)
  obtain now vso live asOf where r: "r = (now, vso, live, asOf)" by (metis surj_pair)
  let ?q = "vehicleDataOf now prev vso live ids cfg asOf"
  have q: "serve ids cfg r prev = Some ?q" by (simp add: serve_def r)
  have "loadBearing ?q" using Cons.prems(1) by (rule vehicleDataOf_loadBearing)
  then show ?case using Cons.IH [of "Some ?q"] Cons.prems(2) q by simp
qed simp

text \<open>
  A summary snapshot of a sleeping or offline car carries none of the load-bearing readings.
  However many of them are served, those readings stay what they were.
\<close>

definition junkState :: "state \<Rightarrow> bool" where
  "junkState vs \<longleftrightarrow> feq (st_BatteryLevelPct vs) fzero \<and> feq (st_BatteryLimitPct vs) fzero \<and>
     st_RangeKm vs = 0 \<and> st_OdometerMeters vs = 0 \<and> st_Gear vs = GearUnknown \<and>
     st_Location vs = None \<and> st_OtaVersion vs = [] \<and> st_CarType vs = [] \<and> st_TrimBadging vs = []"

definition junkRequest :: "fleetRequest \<Rightarrow> bool" where
  "junkRequest r = (case r of (now, vso, live, asOf) \<Rightarrow>
     live = None \<and> (case vso of None \<Rightarrow> True | Some vs \<Rightarrow> junkState vs))"

text \<open>What is held: a payload's readings, with the field names of the wire.\<close>

definition heldReadings ::
  "vehicleData \<Rightarrow> int option \<times> int option \<times> f64 option \<times> f64 option \<times> f64 option \<times> string option \<times>
     f64 option \<times> f64 option \<times> string option" where
  "heldReadings vd =
     (let cs = vd_ChargeState vd; ds = vd_DriveState vd; v = vd_VehicleState vd in
      (Option.bind cs cs_BatteryLevel, Option.bind cs cs_ChargeLimitSoc,
       Option.bind cs cs_IdealBatteryRange, Option.bind cs cs_ChargeEnergyAdded,
       Option.bind v vst_Odometer, Option.bind ds ds_ShiftState, Option.bind ds ds_Latitude,
       Option.bind ds ds_Longitude, Option.bind v vst_CarVersion))"

definition fullReadings :: "vehicleData \<Rightarrow> bool" where
  "fullReadings vd = (case heldReadings vd of (a, b, c, d, e, f, g, h, i) \<Rightarrow>
     a \<noteq> None \<and> b \<noteq> None \<and> c \<noteq> None \<and> d \<noteq> None \<and> e \<noteq> None \<and> f \<noteq> None \<and> i \<noteq> None)"

lemma vehicleState_fields:
  "vst_Odometer (vehicleState prev vs ids ms) =
     (if st_OdometerMeters vs = 0 \<and> Option.bind (Option.bind prev vd_VehicleState) vst_Odometer \<noteq> None
      then Option.bind (Option.bind prev vd_VehicleState) vst_Odometer
      else Some (metersToMiles (i2f (st_OdometerMeters vs))))"
  "vst_CarVersion (vehicleState prev vs ids ms) = (if st_OtaVersion vs \<noteq> [] then Some (st_OtaVersion vs)
     else if Option.bind (Option.bind prev vd_VehicleState) vst_CarVersion \<noteq> None
     then Option.bind (Option.bind prev vd_VehicleState) vst_CarVersion else Some [])"
  by (simp_all add: vehicleState_def Let_def)

lemma junk_holds:
  assumes "junkRequest r" and "fullReadings p" and "serve ids cfg r (Some p) = Some vd"
  shows "heldReadings vd = heldReadings p"
proof -
  obtain now vso live asOf where r: "r = (now, vso, live, asOf)" by (metis surj_pair)
  show ?thesis
  proof (cases vso)
    case None
    then show ?thesis using assms
      by (auto simp: serve_def r vehicleDataOf_def asleepFallback_def heldReadings_def)
  next
    case (Some vs)
    then show ?thesis using assms
      by (auto simp: serve_def r vehicleDataOf_def Let_def heldReadings_def chargeState_fields
          driveState_fields vehicleState_fields junkRequest_def junkState_def fullReadings_def)
  qed
qed

lemma junk_run_holds:
  assumes "\<forall>r \<in> set rs. junkRequest r" and "fullReadings p" and "fold (serve ids cfg) rs (Some p) = Some vd"
  shows "heldReadings vd = heldReadings p"
  using assms
proof (induction rs arbitrary: p)
  case (Cons r rs)
  obtain q where q: "serve ids cfg r (Some p) = Some q" by (cases r) (simp add: serve_def)
  have h: "heldReadings q = heldReadings p" using junk_holds [OF _ Cons.prems(2) q] Cons.prems(1) by simp
  moreover have "fullReadings q" using h Cons.prems(2) by (simp add: fullReadings_def)
  ultimately show ?case using Cons q by simp
qed simp

lemma served_full:
  assumes "serve ids cfg (now, Some vs, live, asOf) prev = Some p" shows "fullReadings p"
  using assms by (auto simp: serve_def vehicleDataOf_def Let_def fullReadings_def heldReadings_def
      chargeState_fields driveState_fields vehicleState_fields split: option.split)

subsection \<open>Agreement with the other layers\<close>

lemma vehicleDataOf_state: "vd_State (vehicleDataOf now prev vso live ids cfg asOf) = fleetState vso"
  by (auto simp: vehicleDataOf_def asleepFallback_def fleetState_def Let_def split: option.split)

lemma isDcSession_isDC: "isDcSession live = isDC live defaultDCThresholdKw"
proof -
  have "round64 25 = Fin 25" using round64_of_int [of 25] by simp
  then show ?thesis
    by (auto simp: isDcSession_def isDC_def dcChargeThresholdKw_def defaultDCThresholdKw_def split: option.split)
qed

subsection \<open>Round trips of the enumerations\<close>

lemma power_roundtrip: "powerFromTesla (topState p) = (if p = PowerUnknown then PowerOffline else p)"
  by (cases p) (simp_all add: powerFromTesla_def topState_def)

lemma gear_roundtrip: "gearFromTesla (shiftState g) = (if g = GearUnknown then GearPark else g)"
  by (cases g) (simp_all add: gearFromTesla_def shiftState_def)

lemma charger_roundtrip:
  "chargerFromTesla (chargingState c plug) = (if plug = PlugDisconnected \<or> c = ChargerUnknown then ChargerDisconnect else c)"
  "plugFromTesla (chargingState c plug) =
     (if plug \<noteq> PlugDisconnected \<and> (c = ChargerCharging \<or> c = ChargerIdle) then PlugConnected else PlugDisconnected)"
  by (cases c; cases plug; simp add: chargerFromTesla_def plugFromTesla_def chargingState_def)+

text \<open>
  What the sink makes of a textual reading and the source of that: the first table is the reading
  after both.
\<close>

definition seatImage :: "string \<Rightarrow> string" where
  "seatImage v = (if v \<in> {''Off'', ''Level_1'', ''Level_2'', ''Level_3''} then v else [])"

definition switchImage :: "string \<Rightarrow> string \<Rightarrow> string" where
  "switchImage on v = (if v = [] \<or> equal_fold v ''Off'' then ''Off'' else on)"

definition preconditionImage :: "string \<Rightarrow> string" where
  "preconditionImage v =
     (if to_lower v \<in> {''active'', ''complete_maintain'', ''initiate''} then ''active'' else ''off'')"

definition guardImage :: "string \<Rightarrow> string" where
  "guardImage v = (if to_lower v \<in> {''enabled'', ''engaged''} then ''enabled'' else ''disabled'')"

definition tpmsImage :: "string \<Rightarrow> string" where
  "tpmsImage v = (if v = [] then [] else if equal_fold v ''OK'' then ''OK'' else ''WARN'')"

definition panelImage :: "string \<Rightarrow> string" where
  "panelImage v = (if v = ''open'' then ''open'' else ''closed'')"

definition updateImage :: "string \<Rightarrow> string" where
  "updateImage v =
     (if to_lower v = ''installing'' then ''installing''
      else if to_lower v \<in> {''downloading'', ''ready_to_download''} then ''downloading''
      else if to_lower v \<in> {''ready_to_install'', ''scheduled_to_install'', ''awaiting_install'',
        ''install_countdown'', ''preparing''} then ''available'' else [])"

lemma image_roundtrip:
  "seatLevelFromTesla (seatHeatLevel v) = seatImage v"
  "onOffLevel (isOn v) = switchImage ''Level_1'' v"
  "onOff (isOn v) = switchImage ''On'' v"
  "preconditioningFromTesla (preconditioningActive v) = preconditionImage v"
  "gearGuardFromTesla (gearGuardArmed v) = guardImage v"
  "tpmsFromTesla (tpmsWarning v) = tpmsImage v"
  "closedFromTesla (panelInt v) = panelImage v"
  "softwareUpdateStatus v = updateImage v"
  by (simp_all add: seatLevelFromTesla_def seatHeatLevel_def seatImage_def onOffLevel_def isOn_def
      switchImage_def onOff_def preconditioningFromTesla_def preconditioningActive_def preconditionImage_def
      gearGuardFromTesla_def gearGuardArmed_def guardImage_def tpmsFromTesla_def tpmsWarning_def tpmsImage_def
      closedFromTesla_def panelInt_def openClosedToInt_def invertClosed_def panelImage_def
      softwareUpdateStatus_def updateImage_def Let_def)

lemma lock_roundtrip:
  "lockedFromTesla (Some (allLocked [a, b, c, d])) =
     (if a = ''locked'' \<and> b = ''locked'' \<and> c = ''locked'' \<and> d = ''locked'' then ''locked'' else ''unlocked'')"
  by (simp add: lockedFromTesla_def allLocked_def)

lemma nonZero_roundtrip [simp]: "derefF64 (nonZero x) = x"
  by (cases x) (auto simp: nonZero_def derefF64_def)

subsection \<open>Round trips of numbers and times\<close>

text \<open>A percentage or an angle: finite and small enough for its integer part to be exact.\<close>

definition moderate :: "f64 \<Rightarrow> bool" where
  "moderate x \<longleftrightarrow> (\<exists>r. x = Fin r \<and> \<bar>r\<bar> \<le> 2 ^ 53 - 1)"

fun cutFraction :: "f64 \<Rightarrow> f64" where
  "cutFraction (Fin x) = Fin (of_int (trunc x))"
| "cutFraction x = x"

lemma abs_real_le_iff_int: "\<bar>of_int n :: real\<bar> \<le> 2 ^ 53 \<longleftrightarrow> \<bar>n\<bar> \<le> 2 ^ 53"
  by (metis of_int_abs of_int_le_iff of_int_numeral of_int_power)

lemma small_exact: "\<bar>n\<bar> \<le> 2 ^ 53 \<Longrightarrow> i2f (f2i (Fin (of_int n))) = Fin (of_int n)"
  by (auto simp: i2f_exact in_int64_def minInt64_def maxInt64_def)

lemma cut_roundtrip:
  assumes "moderate x" shows "i2f (f2i x) = cutFraction x"
proof -
  obtain r where r: "x = Fin r" "\<bar>r\<bar> \<le> 2 ^ 53 - 1" using assms by (auto simp: moderate_def)
  have "\<bar>trunc r\<bar> \<le> 2 ^ 53" using r(2) by (auto simp: trunc_def) linarith+
  then show ?thesis by (simp add: r(1) i2f_exact in_int64_def minInt64_def maxInt64_def abs_le_iff)
qed

lemma round_roundtrip:
  assumes "moderate x" shows "i2f (f2i (math_round x)) = math_round x"
proof -
  obtain r where r: "x = Fin r" "\<bar>r\<bar> \<le> 2 ^ 53 - 1" using assms by (auto simp: moderate_def)
  have "\<bar>round_half_away r\<bar> \<le> 2 ^ 53" using r(2) by (auto simp: round_half_away_def) linarith+
  then show ?thesis unfolding r(1) math_round.simps by (rule small_exact)
qed

lemma odo_roundtrip:
  "\<bar>m\<bar> \<le> 2 ^ 50 \<Longrightarrow> f2i (math_round (milesToMeters (metersToMiles (i2f m)))) = m"
  by (subst odometer_roundtrip) (auto simp: in_int64_def minInt64_def maxInt64_def)

lemma rangeKm_roundtrip:
  "\<bar>m\<bar> \<le> 2 ^ 50 \<Longrightarrow> f2i (math_round (milesToKm (kmToMiles (i2f m)))) = m"
  by (subst range_roundtrip) (auto simp: in_int64_def minInt64_def maxInt64_def)

lemma minutes_roundtrip:
  assumes "0 \<le> st_TimeToEndOfChargeMin vs" and "st_TimeToEndOfChargeMin vs \<le> 2 ^ 50"
  shows "f2i (math_round (fmul (timeFromMinutes vs) (fconst 60))) = st_TimeToEndOfChargeMin vs"
proof -
  let ?m = "st_TimeToEndOfChargeMin vs"
  have c: "round64 60 = Fin 60" using round64_of_int [of 60] by simp
  have "math_round (fmul (fdiv (i2f ?m) (Fin 60)) (Fin 60)) = Fin (of_int ?m)"
    using assms by (intro scale_roundtrip) auto
  moreover have "round_half_away 0 = 0" "trunc 0 = 0"
    using round_half_away_of_int [of 0] trunc_of_int [of 0] by simp_all
  ultimately show ?thesis
    using assms by (auto simp: timeFromMinutes_def c in_int64_def minInt64_def maxInt64_def)
qed

text \<open>A time cut to whole units since the epoch, as the wire's millisecond and second stamps do.\<close>

definition cutTime :: "duration \<Rightarrow> gotime \<Rightarrow> gotime" where
  "cutTime unit t = unixEpoch + (t - unixEpoch) div unit * unit"

lemma millis_roundtrip:
  assumes "unixEpoch + Millisecond \<le> t" shows "msToTime (Some (unixMilli t)) = cutTime Millisecond t"
proof -
  have "0 < (t - unixEpoch) div Millisecond" using assms by (simp add: pos_imp_zdiv_pos_iff)
  then show ?thesis by (simp add: msToTime_def unixMilli_def fromUnixMilli_def cutTime_def)
qed

lemma seconds_roundtrip:
  assumes "unixEpoch + Second \<le> t"
  shows "secToTime (Some (go_quot (unixMilli t) 1000)) = cutTime Second t"
proof -
  have "(t - unixEpoch) div Millisecond div 1000 = (t - unixEpoch) div Second"
    by (simp add: div_mult2_eq [symmetric] zdiv_zmult2_eq [symmetric])
  moreover have "0 < (t - unixEpoch) div Second" "0 \<le> (t - unixEpoch) div Millisecond"
    using assms by (simp_all add: pos_imp_zdiv_pos_iff pos_imp_zdiv_nonneg_iff)
  ultimately show ?thesis
    by (simp add: secToTime_def unixMilli_def go_quot_nonneg fromUnixSec_def cutTime_def)
qed

subsection \<open>The round trip of a state\<close>

text \<open>
  The readings the sink would fill from its last payload or its configuration are there, and the
  numbers are ones a vehicle reports.
\<close>

definition readingsKnown :: "state \<Rightarrow> bool" where
  "readingsKnown vs \<longleftrightarrow> st_Gear vs \<noteq> GearUnknown \<and>
     fne (st_BatteryLevelPct vs) fzero \<and> fne (st_BatteryLimitPct vs) fzero \<and>
     st_OdometerMeters vs \<noteq> 0 \<and> st_RangeKm vs \<noteq> 0 \<and> st_Location vs \<noteq> None \<and>
     st_OtaVersion vs \<noteq> [] \<and> st_CarType vs \<noteq> [] \<and> st_TrimBadging vs \<noteq> []"

definition readingsModerate :: "state \<Rightarrow> bool" where
  "readingsModerate vs \<longleftrightarrow> moderate (st_HeadingDeg vs) \<and> moderate (st_BatteryLevelPct vs) \<and>
     moderate (st_BatteryLimitPct vs) \<and> moderate (st_OtaInstallProgress vs) \<and>
     \<bar>st_OdometerMeters vs\<bar> \<le> 2 ^ 50 \<and> \<bar>st_RangeKm vs\<bar> \<le> 2 ^ 50 \<and>
     0 \<le> st_TimeToEndOfChargeMin vs \<and> st_TimeToEndOfChargeMin vs \<le> 2 ^ 50 \<and>
     (\<forall>l. st_Location vs = Some l \<longrightarrow> unixEpoch + Second \<le> loc_TimeStamp l)"

text \<open>The state after the wire, field by field; the fields not named are unchanged.\<close>

definition wireImage :: "gotime \<Rightarrow> state \<Rightarrow> state" where
  "wireImage asOf vs =
     (let lock = (if st_DoorFrontLeftLocked vs = ''locked'' \<and> st_DoorFrontRightLocked vs = ''locked'' \<and>
            st_DoorRearLeftLocked vs = ''locked'' \<and> st_DoorRearRightLocked vs = ''locked''
          then ''locked'' else ''unlocked'') in
      vs\<lparr>st_Power := (if st_Power vs = PowerUnknown then PowerOffline else st_Power vs),
         st_LastUpdate := cutTime Millisecond asOf, st_CloudOnline := False, st_CloudLastSync := 0,
         st_SpeedMps := mphToMps (mpsToMph (st_SpeedMps vs)), st_HeadingDeg := cutFraction (st_HeadingDeg vs),
         st_Location := map_option (\<lambda>l. l\<lparr>loc_TimeStamp := cutTime Second (loc_TimeStamp l)\<rparr>) (st_Location vs),
         st_BatteryLevelPct := cutFraction (st_BatteryLevelPct vs),
         st_BatteryLimitPct := cutFraction (st_BatteryLimitPct vs),
         st_Charger := (if st_Plug vs = PlugDisconnected \<or> st_Charger vs = ChargerUnknown
            then ChargerDisconnect else st_Charger vs),
         st_Plug := (if st_Plug vs \<noteq> PlugDisconnected \<and> st_Charger vs \<in> {ChargerCharging, ChargerIdle}
            then PlugConnected else PlugDisconnected),
         st_ChargerVoltageV := 0,
         st_SeatHeatFrontLeft := seatImage (st_SeatHeatFrontLeft vs),
         st_SeatHeatFrontRight := seatImage (st_SeatHeatFrontRight vs),
         st_SeatHeatRearLeft := seatImage (st_SeatHeatRearLeft vs),
         st_SeatHeatRearRight := seatImage (st_SeatHeatRearRight vs),
         st_SteeringWheelHeat := switchImage ''Level_1'' (st_SteeringWheelHeat vs),
         st_DefrostStatus := switchImage ''On'' (st_DefrostStatus vs),
         st_PreconditioningStatus := preconditionImage (st_PreconditioningStatus vs),
         st_GearGuardStatus := guardImage (st_GearGuardStatus vs),
         st_TpmsFrontLeft := tpmsImage (st_TpmsFrontLeft vs), st_TpmsFrontRight := tpmsImage (st_TpmsFrontRight vs),
         st_TpmsRearLeft := tpmsImage (st_TpmsRearLeft vs), st_TpmsRearRight := tpmsImage (st_TpmsRearRight vs),
         st_DoorFrontLeftLocked := lock, st_DoorFrontRightLocked := lock,
         st_DoorRearLeftLocked := lock, st_DoorRearRightLocked := lock,
         st_DoorFrontLeftClosed := panelImage (st_DoorFrontLeftClosed vs),
         st_DoorFrontRightClosed := panelImage (st_DoorFrontRightClosed vs),
         st_DoorRearLeftClosed := panelImage (st_DoorRearLeftClosed vs),
         st_DoorRearRightClosed := panelImage (st_DoorRearRightClosed vs),
         st_WindowFrontLeftClosed := panelImage (st_WindowFrontLeftClosed vs),
         st_WindowFrontRightClosed := panelImage (st_WindowFrontRightClosed vs),
         st_WindowRearLeftClosed := panelImage (st_WindowRearLeftClosed vs),
         st_WindowRearRightClosed := panelImage (st_WindowRearRightClosed vs),
         st_FrunkClosed := panelImage (st_FrunkClosed vs), st_LiftgateClosed := panelImage (st_LiftgateClosed vs),
         st_TonneauClosed := [], st_TailgateClosed := [],
         st_OtaStatus := updateImage (st_OtaStatus vs),
         st_OtaInstallProgress := math_round (st_OtaInstallProgress vs),
         st_CarType := (case teslaModelNames (st_CarType vs) of None \<Rightarrow> st_CarType vs | Some name \<Rightarrow> ''model3''),
         st_TrimBadging := (case teslaModelNames (st_CarType vs) of None \<Rightarrow> st_TrimBadging vs | Some name \<Rightarrow> name)\<rparr>)"

lemma decodeDrive_encode:
  assumes "readingsKnown vs" "readingsModerate vs" and "unixEpoch + Millisecond \<le> asOf"
  shows "decodeDrive (Some (driveState prev vs (unixMilli asOf))) st =
     st\<lparr>st_LastUpdate := cutTime Millisecond asOf, st_HeadingDeg := cutFraction (st_HeadingDeg vs),
        st_SpeedMps := mphToMps (mpsToMph (st_SpeedMps vs)), st_Gear := st_Gear vs,
        st_DrivePowerKw := (case st_DrivePowerKw vs of None \<Rightarrow> st_DrivePowerKw st | Some x \<Rightarrow> Some x),
        st_Location := st_Location (wireImage asOf vs)\<rparr>"
proof -
  obtain l where l: "st_Location vs = Some l" using assms(1) by (auto simp: readingsKnown_def)
  then have t: "secToTime (Some (go_quot (unixMilli (loc_TimeStamp l)) 1000)) = cutTime Second (loc_TimeStamp l)"
    using assms(2) by (intro seconds_roundtrip) (simp add: readingsModerate_def)
  have "st_Gear vs \<noteq> GearUnknown" and h: "moderate (st_HeadingDeg vs)"
    using assms by (simp_all add: readingsKnown_def readingsModerate_def)
  then show ?thesis
    using l t by (simp add: decodeDrive_def driveState_fields millis_roundtrip [OF assms(3)] cut_roundtrip [OF h]
        derefInt_def derefF64_def derefStr_def gear_roundtrip wireImage_def Let_def)
qed

lemma decodeCharge_encode:
  assumes "readingsKnown vs" "readingsModerate vs"
  shows "decodeCharge (Some (chargeState prev vs None ms)) st =
     st\<lparr>st_RangeKm := st_RangeKm vs, st_BatteryLevelPct := cutFraction (st_BatteryLevelPct vs),
        st_BatteryLimitPct := cutFraction (st_BatteryLimitPct vs),
        st_Charger := st_Charger (wireImage asOf vs), st_Plug := st_Plug (wireImage asOf vs),
        st_ChargePortOpen := st_ChargePortOpen vs,
        st_TimeToEndOfChargeMin := st_TimeToEndOfChargeMin vs, st_ChargerVoltageV := 0,
        st_BatteryHeaterOn := st_BatteryHeaterOn vs\<rparr>"
proof -
  have t: "cs_TimeToFullCharge (chargeState prev vs None ms) = Some (timeFromMinutes vs)"
    by (simp add: chargeState_def Let_def chargeLive_def)
  have v: "cs_ChargerVoltage (chargeState prev vs None ms) = None"
    by (simp add: chargeState_kind(3) isDcSession_def)
  have k: "fne (st_BatteryLevelPct vs) fzero" "fne (st_BatteryLimitPct vs) fzero" "st_RangeKm vs \<noteq> 0"
    using assms(1) by (simp_all add: readingsKnown_def)
  have r: "moderate (st_BatteryLevelPct vs)" "moderate (st_BatteryLimitPct vs)" "\<bar>st_RangeKm vs\<bar> \<le> 2 ^ 50"
      "0 \<le> st_TimeToEndOfChargeMin vs" "st_TimeToEndOfChargeMin vs \<le> 2 ^ 50"
    using assms(2) by (simp_all add: readingsModerate_def)
  show ?thesis
    by (simp add: decodeCharge_def chargeState_fields t v k charger_roundtrip derefInt_def derefF64_def
        derefStr_def derefBool_def cut_roundtrip [OF r(1)] cut_roundtrip [OF r(2)] rangeKm_roundtrip [OF r(3)]
        minutes_roundtrip [OF r(4,5)] wireImage_def Let_def)
qed

lemma decodeClimate_encode:
  "decodeClimate (Some (climateState vs ms)) st =
     st\<lparr>st_CabinTempC := st_CabinTempC vs, st_OutsideTempC := st_OutsideTempC vs,
        st_DriverSetpointC := st_DriverSetpointC vs, st_SeatHeatFrontLeft := seatImage (st_SeatHeatFrontLeft vs),
        st_SeatHeatFrontRight := seatImage (st_SeatHeatFrontRight vs),
        st_SeatHeatRearLeft := seatImage (st_SeatHeatRearLeft vs),
        st_SeatHeatRearRight := seatImage (st_SeatHeatRearRight vs),
        st_SteeringWheelHeat := switchImage ''Level_1'' (st_SteeringWheelHeat vs),
        st_DefrostStatus := switchImage ''On'' (st_DefrostStatus vs),
        st_PreconditioningStatus := preconditionImage (st_PreconditioningStatus vs)\<rparr>"
proof -
  have d: "derefBool (Some b) = b" "derefF64 (Some x) = x" for b x
    by (simp_all add: derefBool_def derefF64_def)
  show ?thesis by (simp add: decodeClimate_def climateState_def Let_def image_roundtrip d)
qed

lemma decodeVehicle_encode:
  fixes asOf
  assumes "readingsKnown vs" and "readingsModerate vs"
  defines "w \<equiv> wireImage asOf vs"
  shows "decodeVehicle (Some (vehicleState prev vs ids ms)) st =
     st\<lparr>st_UserPresent := st_UserPresent vs, st_OdometerMeters := st_OdometerMeters vs,
        st_GearGuardStatus := st_GearGuardStatus w,
        st_TpmsFrontLeft := st_TpmsFrontLeft w, st_TpmsFrontRight := st_TpmsFrontRight w,
        st_TpmsRearLeft := st_TpmsRearLeft w, st_TpmsRearRight := st_TpmsRearRight w,
        st_TpmsPressureFlBar := st_TpmsPressureFlBar vs, st_TpmsPressureFrBar := st_TpmsPressureFrBar vs,
        st_TpmsPressureRlBar := st_TpmsPressureRlBar vs, st_TpmsPressureRrBar := st_TpmsPressureRrBar vs,
        st_DoorFrontLeftLocked := st_DoorFrontLeftLocked w, st_DoorFrontRightLocked := st_DoorFrontRightLocked w,
        st_DoorRearLeftLocked := st_DoorRearLeftLocked w, st_DoorRearRightLocked := st_DoorRearRightLocked w,
        st_DoorFrontLeftClosed := st_DoorFrontLeftClosed w, st_DoorFrontRightClosed := st_DoorFrontRightClosed w,
        st_DoorRearLeftClosed := st_DoorRearLeftClosed w, st_DoorRearRightClosed := st_DoorRearRightClosed w,
        st_WindowFrontLeftClosed := st_WindowFrontLeftClosed w,
        st_WindowFrontRightClosed := st_WindowFrontRightClosed w,
        st_WindowRearLeftClosed := st_WindowRearLeftClosed w,
        st_WindowRearRightClosed := st_WindowRearRightClosed w,
        st_FrunkClosed := st_FrunkClosed w, st_LiftgateClosed := st_LiftgateClosed w,
        st_OtaVersion := st_OtaVersion vs, st_OtaStatus := st_OtaStatus w,
        st_OtaAvailableVersion := st_OtaAvailableVersion vs,
        st_OtaDownloadProgress := st_OtaDownloadProgress vs,
        st_OtaInstallProgress := st_OtaInstallProgress w\<rparr>"
proof -
  have r: "\<bar>st_OdometerMeters vs\<bar> \<le> 2 ^ 50" "st_OdometerMeters vs \<noteq> 0" "st_OtaVersion vs \<noteq> []"
      "moderate (st_OtaInstallProgress vs)"
    using assms(1,2) unfolding readingsKnown_def readingsModerate_def by blast+
  have d: "derefBool (Some b) = b" "derefF64 (Some x) = x" "derefStr (Some s) = s" "derefInt (Some n) = n"
    for b x s n
    by (simp_all add: derefBool_def derefF64_def derefStr_def derefInt_def)
  show ?thesis
    by (simp add: decodeVehicle_def decodeUpdate_def vehicleState_def Let_def d image_roundtrip lock_roundtrip
        odo_roundtrip [OF r(1)] r(2,3) round_roundtrip [OF r(4)] w_def wireImage_def)
qed

lemma decodeConfig_encode:
  assumes "readingsKnown vs"
  shows "decodeConfig (Some (vehicleConfig prev (Some vs) cfg ms)) st =
     st\<lparr>st_CarType := st_CarType (wireImage asOf vs), st_TrimBadging := st_TrimBadging (wireImage asOf vs)\<rparr>"
  using assms by (auto simp: decodeConfig_def vehicleConfig_def readingsKnown_def stateCarType_def
      stateTrim_def teslaMateCarTypeTrim_def derefStr_def wireImage_def Let_def teslaModelNames_def
      split: option.split)

lemma fleet_state_roundtrip:
  assumes "readingsKnown vs" "readingsModerate vs" and "unixEpoch + Millisecond \<le> asOf"
  shows "sn_State (decodeVehicleData (Some (vehicleDataOf now prev (Some vs) None ids cfg asOf))) =
    Some (wireImage asOf vs)"
proof -
  have "asOf \<noteq> 0" using assms(3) by (auto simp: unixEpoch_def)
  then have t: "snapTime now vs asOf = asOf" by (simp add: snapTime_def)
  have "sn_State (decodeVehicleData (Some (vehicleDataOf now prev (Some vs) None ids cfg asOf))) =
      Some (decodeConfig (Some (vehicleConfig prev (Some vs) cfg (unixMilli asOf)))
        (decodeVehicle (Some (vehicleState prev vs ids (unixMilli asOf)))
        (decodeClimate (Some (climateState vs (unixMilli asOf)))
        (decodeCharge (Some (chargeState prev vs None (unixMilli asOf)))
        (decodeDrive (Some (driveState prev vs (unixMilli asOf)))
          (zeroState\<lparr>st_Power := powerFromTesla (topState (st_Power vs))\<rparr>))))))"
    by (simp add: decodeVehicleData_def vehicleDataOf_def t Let_def)
  also have "\<dots> = Some (wireImage asOf vs)"
    unfolding decodeDrive_encode [OF assms] decodeCharge_encode [OF assms(1,2), where asOf = asOf]
        decodeClimate_encode decodeVehicle_encode [OF assms(1,2), where asOf = asOf]
        decodeConfig_encode [OF assms(1), where asOf = asOf] power_roundtrip option.inject
    by (rule state.equality) (simp_all add: wireImage_def Let_def split: option.split)
  finally show ?thesis .
qed

end
