(* ===== verification/Strconv.thy ===== *)
theory Strconv
  imports GoFloat
begin

section \<open>Numbers as text\<close>

text \<open>
  What the source uses of Go's \<^verbatim>\<open>strconv\<close> and \<^verbatim>\<open>strings\<close>: \<^verbatim>\<open>Itoa\<close>/\<^verbatim>\<open>FormatInt(_, 10)\<close>,
  \<^verbatim>\<open>ParseInt(_, 10, 64)\<close>, the decimal and special syntax of \<^verbatim>\<open>ParseFloat\<close>, \<^verbatim>\<open>Join\<close> on a comma
  and the quoting of \<^verbatim>\<open>%q\<close>. A \<^typ>\<open>string\<close> is the list of a Go string's bytes.

  \<^verbatim>\<open>ParseFloat\<close> also takes hexadecimal literals and digit separators; a string with a hexadecimal
  prefix or an underscore goes to the parameter \<open>exotic\<close>. \<open>goQuote\<close> passes bytes above 127
  through, which is \<^verbatim>\<open>%q\<close> on printable text.
\<close>

subsection \<open>Integers\<close>

definition digitChar :: "nat \<Rightarrow> char" where
  "digitChar d = char_of (48 + d)"

fun showNat :: "nat \<Rightarrow> string" where
  "showNat n = (if n < 10 then [digitChar n] else showNat (n div 10) @ [digitChar (n mod 10)])"

declare showNat.simps [simp del]

definition itoa :: "int \<Rightarrow> string" where
  "itoa n = (if n < 0 then CHR ''-'' # showNat (nat (- n)) else showNat (nat n))"

definition isDigit :: "char \<Rightarrow> bool" where
  "isDigit c \<longleftrightarrow> 48 \<le> (of_char c :: nat) \<and> (of_char c :: nat) \<le> 57"

definition digitVal :: "char \<Rightarrow> nat" where
  "digitVal c = of_char c - 48"

definition readNat :: "string \<Rightarrow> nat" where
  "readNat s = fold (\<lambda>c n. 10 * n + digitVal c) s 0"

definition splitSign :: "string \<Rightarrow> bool \<times> string" where
  "splitSign s = (case s of
      c # cs \<Rightarrow> if c = CHR ''-'' then (True, cs) else if c = CHR ''+'' then (False, cs) else (False, s)
    | [] \<Rightarrow> (False, s))"

text \<open>\<^verbatim>\<open>ParseInt(s, 10, 64)\<close>: None for its syntax and range errors.\<close>

definition parseInt64 :: "string \<Rightarrow> int option" where
  "parseInt64 s =
     (let (neg, ds) = splitSign s in
      if ds = [] \<or> \<not> list_all isDigit ds then None
      else let n = (if neg then - int (readNat ds) else int (readNat ds)) in
        if in_int64 n then Some n else None)"

subsection \<open>Floats\<close>

definition readExp :: "string \<Rightarrow> int" where
  "readExp ds = int (fold (\<lambda>c e. if e < 10000 then 10 * e + digitVal c else e) ds 0)"

fun spanDigits :: "string \<Rightarrow> string \<times> string" where
  "spanDigits [] = ([], [])"
| "spanDigits (c # cs) =
     (if isDigit c then (let (ds, rest) = spanDigits cs in (c # ds, rest)) else ([], c # cs))"

definition parseExponent :: "string \<Rightarrow> int option" where
  "parseExponent s = (case s of [] \<Rightarrow> Some 0
     | c # cs \<Rightarrow> if c = CHR ''e'' \<or> c = CHR ''E'' then
         (let (neg, ds) = splitSign cs in
          if ds = [] \<or> \<not> list_all isDigit ds then None
          else Some (if neg then - readExp ds else readExp ds))
       else None)"

definition parseDecimal :: "bool \<Rightarrow> string \<Rightarrow> f64 option" where
  "parseDecimal neg s =
     (let (whole, r1) = spanDigits s;
          (frac, r2) = (case r1 of c # cs \<Rightarrow> if c = CHR ''.'' then spanDigits cs else ([], r1) | [] \<Rightarrow> ([], [])) in
      if whole = [] \<and> frac = [] then None
      else case parseExponent r2 of
        None \<Rightarrow> None
      | Some e \<Rightarrow>
          let m = of_nat (readNat (whole @ frac)) * 10 powi (e - int (length frac)) :: real
          in Some (round64 (if neg then - m else m)))"

definition isExotic :: "string \<Rightarrow> bool" where
  "isExotic s \<longleftrightarrow> CHR ''_'' \<in> set s \<or> (case snd (splitSign s) of
     a # b # _ \<Rightarrow> a = CHR ''0'' \<and> (b = CHR ''x'' \<or> b = CHR ''X'') | _ \<Rightarrow> False)"

text \<open>\<^verbatim>\<open>ParseFloat(s, 64)\<close>: None for a syntax error; a range error still gives the infinity.\<close>

definition parseFloat :: "(string \<Rightarrow> f64 option) \<Rightarrow> string \<Rightarrow> f64 option" where
  "parseFloat exotic s =
     (if isExotic s then exotic s
      else
        let (neg, body) = splitSign s; low = to_lower body in
        if low = ''inf'' \<or> low = ''infinity'' then Some (if neg then NInf else PInf)
        else if to_lower s = ''nan'' then Some NaN
        else parseDecimal neg body)"

text \<open>\<^verbatim>\<open>ParseFloat\<close> where the caller checks the error, of syntax or of range.\<close>

definition parseFloatOk :: "(string \<Rightarrow> f64 option) \<Rightarrow> string \<Rightarrow> f64 option" where
  "parseFloatOk exotic s =
     (let low = to_lower (snd (splitSign s)) in
      case parseFloat exotic s of None \<Rightarrow> None
      | Some x \<Rightarrow> if (x = PInf \<or> x = NInf) \<and> low \<noteq> ''inf'' \<and> low \<noteq> ''infinity'' then None else Some x)"

subsection \<open>Joining and quoting\<close>

fun joinComma :: "string list \<Rightarrow> string" where
  "joinComma [] = []"
| "joinComma [s] = s"
| "joinComma (s # ss) = s @ CHR '','' # joinComma ss"

fun splitComma :: "string \<Rightarrow> string list" where
  "splitComma [] = [[]]"
| "splitComma (c # cs) = (if c = CHR '','' then [] # splitComma cs
     else case splitComma cs of [] \<Rightarrow> [[c]] | w # ws \<Rightarrow> (c # w) # ws)"

fun splitSlash :: "string \<Rightarrow> string list" where
  "splitSlash [] = [[]]"
| "splitSlash (c # s) = (if c = CHR ''/'' then [] # splitSlash s
     else case splitSlash s of [] \<Rightarrow> [[c]] | t # ts \<Rightarrow> (c # t) # ts)"

definition hexDigit :: "nat \<Rightarrow> char" where
  "hexDigit d = (if d < 10 then digitChar d else char_of (87 + d))"

definition quoteChar :: "char \<Rightarrow> string" where
  "quoteChar c =
     (let n = of_char c :: nat in
      if c = CHR 0x22 then [CHR 0x5C, CHR 0x22]
      else if c = CHR 0x5C then [CHR 0x5C, CHR 0x5C]
      else if 32 \<le> n \<and> n \<noteq> 127 then [c]
      else if n = 7 then [CHR 0x5C, CHR ''a''] else if n = 8 then [CHR 0x5C, CHR ''b'']
      else if n = 9 then [CHR 0x5C, CHR ''t''] else if n = 10 then [CHR 0x5C, CHR ''n'']
      else if n = 11 then [CHR 0x5C, CHR ''v''] else if n = 12 then [CHR 0x5C, CHR ''f'']
      else if n = 13 then [CHR 0x5C, CHR ''r'']
      else [CHR 0x5C, CHR ''x'', hexDigit (n div 16), hexDigit (n mod 16)])"

definition goQuote :: "string \<Rightarrow> string" where
  "goQuote s = CHR 0x22 # concat (map quoteChar s) @ [CHR 0x22]"

subsection \<open>Round trips\<close>

lemma of_char_digitChar: "d < 10 \<Longrightarrow> (of_char (digitChar d) :: nat) = 48 + d"
  by (simp add: digitChar_def)

lemma digit_digitChar [simp]: "d < 10 \<Longrightarrow> isDigit (digitChar d)" "d < 10 \<Longrightarrow> digitVal (digitChar d) = d"
  by (simp_all add: isDigit_def digitVal_def of_char_digitChar)

lemma showNat_digits: "list_all isDigit (showNat n)"
  by (induction n rule: showNat.induct) (subst showNat.simps, auto)

lemma showNat_nonempty [simp]: "showNat n \<noteq> []"
  by (subst showNat.simps) auto

lemma readNat_snoc [simp]: "readNat (s @ [c]) = 10 * readNat s + digitVal c"
  by (simp add: readNat_def)

lemma readNat_showNat [simp]: "readNat (showNat n) = n"
proof (induction n rule: showNat.induct)
  case (1 n)
  show ?case
  proof (cases "n < 10")
    case True
    then show ?thesis by (subst showNat.simps) (simp add: readNat_def)
  next
    case False
    then show ?thesis using 1 by (subst showNat.simps) simp
  qed
qed

lemma showNat_hd: "isDigit (hd (showNat n))"
  using showNat_digits [of n] by (cases "showNat n") auto

lemma isDigit_not [simp]: "\<not> isDigit (CHR ''-'')" "\<not> isDigit (CHR ''+'')" "\<not> isDigit (CHR '','')"
  "\<not> isDigit (CHR ''.'')"
  by (simp_all add: isDigit_def)

lemma splitSign_showNat [simp]: "splitSign (showNat n) = (False, showNat n)"
  using showNat_hd [of n] by (cases "showNat n") (auto simp: splitSign_def)

lemma splitSign_minus [simp]: "splitSign (CHR ''-'' # s) = (True, s)"
  by (simp add: splitSign_def)

lemma parseInt64_itoa: "in_int64 n \<Longrightarrow> parseInt64 (itoa n) = Some n"
  using showNat_digits splitSign_minus by (auto simp: parseInt64_def itoa_def)

lemma itoa_nonempty [simp]: "itoa n \<noteq> []"
  by (simp add: itoa_def)

lemma itoa_no_comma: "CHR '','' \<notin> set (itoa n)"
proof -
  have "CHR '','' \<notin> set (showNat m)" for m
    using showNat_digits [of m] isDigit_not(3) by (metis list_all_iff)
  then show ?thesis by (simp add: itoa_def)
qed

lemma splitComma_nonempty [simp]: "splitComma s \<noteq> []"
  by (induction s) (auto split: list.split)

lemma splitComma_plain: "CHR '','' \<notin> set s \<Longrightarrow> splitComma s = [s]"
  by (induction s) (auto split: list.split)

lemma splitComma_append:
  "CHR '','' \<notin> set s \<Longrightarrow> splitComma (s @ CHR '','' # t) = s # splitComma t"
  by (induction s) auto

lemma split_join:
  "ss \<noteq> [] \<Longrightarrow> \<forall>s \<in> set ss. CHR '','' \<notin> set s \<Longrightarrow> splitComma (joinComma ss) = ss"
  by (induction ss rule: joinComma.induct) (auto simp: splitComma_append splitComma_plain)

end
