(* ===== verification/StreamDecode.thy ===== *)
theory StreamDecode
  imports Strconv FleetSource Merge
begin

section \<open>Decoding Fleet Telemetry frames\<close>

text \<open>
  \<^verbatim>\<open>internal/protocol/tesla/fleet/stream/v1/source_mapping.go\<close>. The protobuf types come from the
  package teslamotors/fleet-telemetry: a datum has one of the field keys the source names, or
  another one, and a value with one of the variants the source switches on, or another one. An
  enum value is represented by what its \<^verbatim>\<open>String()\<close> returns, as far as the source looks at it.
  \<^verbatim>\<open>proto.Unmarshal\<close> is the parameter of \<open>payloadOf\<close>; \<open>exotic\<close> is that of \<open>parseFloat\<close>.
\<close>

datatype datumField =
  FdVehicleSpeed | FdOdometer | FdSoc | FdGear | FdGpsHeading | FdLocation | FdRatedRange
| FdInsideTemp | FdOutsideTemp | FdTpmsFl | FdTpmsFr | FdTpmsRl | FdTpmsRr
| FdDCChargingPower | FdACChargingPower | FdDCChargingEnergyIn | FdACChargingEnergyIn
| FdChargeLimitSoc | FdTimeToFullCharge | FdChargerVoltage | FdChargeAmps
| FdDetailedChargeState | FdBatteryHeaterOn | FdLocked | FdSentryMode | FdOther nat

datatype sentryState = SentryUnknown | SentryOff | SentryActive

datatype datumValue =
  DoubleValue f64 | FloatValue f64 | IntValue int | LongValue int | StringValue string
| BooleanValue bool | ShiftStateValue string | DetailedChargeStateValue string
| SentryModeStateValue sentryState | LocationValue f64 f64 | OtherValue

record datum =
  dt_Key :: datumField
  dt_Value :: "datumValue option"

subsection \<open>Values\<close>

definition numVal :: "(string \<Rightarrow> f64 option) \<Rightarrow> datum \<Rightarrow> f64" where
  "numVal exotic d = (case dt_Value d of
     Some (DoubleValue x) \<Rightarrow> x
   | Some (FloatValue x) \<Rightarrow> x
   | Some (IntValue n) \<Rightarrow> i2f n
   | Some (LongValue n) \<Rightarrow> i2f n
   | Some (StringValue s) \<Rightarrow> (case parseFloat exotic s of Some x \<Rightarrow> x | None \<Rightarrow> fzero)
   | _ \<Rightarrow> fzero)"

definition gearVal :: "datum \<Rightarrow> gear" where
  "gearVal d = (case dt_Value d of
     Some (ShiftStateValue s) \<Rightarrow> gearFromTesla (trim_prefix ''ShiftState'' s)
   | Some (StringValue s) \<Rightarrow> gearFromTesla s
   | _ \<Rightarrow> GearUnknown)"

definition chargeStateStr :: "datum \<Rightarrow> string" where
  "chargeStateStr d = (case dt_Value d of
     Some (DetailedChargeStateValue s) \<Rightarrow> trim_prefix ''DetailedChargeState'' s
   | Some (StringValue s) \<Rightarrow> trim_prefix ''DetailedChargeState'' s
   | _ \<Rightarrow> [])"

definition chargerVal :: "datum \<Rightarrow> chargerState" where
  "chargerVal d = chargerFromTesla (chargeStateStr d)"

definition plugVal :: "datum \<Rightarrow> chargePlug" where
  "plugVal d = plugFromTesla (chargeStateStr d)"

definition boolVal :: "(string \<Rightarrow> f64 option) \<Rightarrow> datum \<Rightarrow> bool" where
  "boolVal exotic d = (case dt_Value d of
     Some (BooleanValue b) \<Rightarrow> b
   | Some (StringValue s) \<Rightarrow> equal_fold s ''true''
   | _ \<Rightarrow> fne (numVal exotic d) fzero)"

definition lockedStr :: "bool \<Rightarrow> string" where
  "lockedStr b = (if b then ''locked'' else ''unlocked'')"

definition sentryVal :: "(string \<Rightarrow> f64 option) \<Rightarrow> datum \<Rightarrow> string" where
  "sentryVal exotic d =
     (let b = (case dt_Value d of
          Some (SentryModeStateValue s) \<Rightarrow> s \<noteq> SentryUnknown \<and> s \<noteq> SentryOff
        | _ \<Rightarrow> boolVal exotic d)
      in if b then ''enabled'' else ''disabled'')"

definition locationVal :: "datum \<Rightarrow> (f64 \<times> f64) option" where
  "locationVal d = (case dt_Value d of Some (LocationValue la lo) \<Rightarrow> Some (la, lo) | _ \<Rightarrow> None)"

subsection \<open>A frame\<close>

record decodeAcc =
  da_st :: state
  da_live :: "liveSession option"
  da_present :: streamField

definition mark :: "streamFlag \<Rightarrow> decodeAcc \<Rightarrow> decodeAcc" where
  "mark b a = a\<lparr>da_present := da_present a OR flag b\<rparr>"

definition onState :: "(state \<Rightarrow> state) \<Rightarrow> streamFlag \<Rightarrow> decodeAcc \<Rightarrow> decodeAcc" where
  "onState f b a = mark b (a\<lparr>da_st := f (da_st a)\<rparr>)"

definition onLive :: "(liveSession \<Rightarrow> liveSession) \<Rightarrow> streamFlag \<Rightarrow> decodeAcc \<Rightarrow> decodeAcc" where
  "onLive f b a = mark b (a\<lparr>da_live := Some (f (case da_live a of None \<Rightarrow> zeroLive | Some l \<Rightarrow> l))\<rparr>)"

definition decodeDatum :: "(string \<Rightarrow> f64 option) \<Rightarrow> gotime \<Rightarrow> datum \<Rightarrow> decodeAcc \<Rightarrow> decodeAcc" where
  "decodeDatum exotic now d a =
     (let num = numVal exotic d in
      case dt_Key d of
        FdVehicleSpeed \<Rightarrow> onState (st_SpeedMps_update (\<lambda>_. mphToMps num)) SfSpeed a
      | FdOdometer \<Rightarrow> onState (st_OdometerMeters_update (\<lambda>_. f2i (math_round (milesToMeters num)))) SfOdometer a
      | FdSoc \<Rightarrow> onState (st_BatteryLevelPct_update (\<lambda>_. num)) SfSOC a
      | FdGear \<Rightarrow> onState (st_Gear_update (\<lambda>_. gearVal d)) SfGear a
      | FdGpsHeading \<Rightarrow> onState (st_HeadingDeg_update (\<lambda>_. num)) SfHeading a
      | FdLocation \<Rightarrow> (case locationVal d of
            Some (la, lo) \<Rightarrow> onState (st_Location_update (\<lambda>_. Some \<lparr>loc_Latitude = la,
               loc_Longitude = lo, loc_TimeStamp = now\<rparr>)) SfLoc a
          | None \<Rightarrow> a)
      | FdRatedRange \<Rightarrow> onState (st_RangeKm_update (\<lambda>_. f2i (math_round (milesToKm num)))) SfRange a
      | FdInsideTemp \<Rightarrow> onState (st_CabinTempC_update (\<lambda>_. num)) SfCabinTemp a
      | FdOutsideTemp \<Rightarrow> onState (st_OutsideTempC_update (\<lambda>_. num)) SfOutsideTemp a
      | FdTpmsFl \<Rightarrow> onState (st_TpmsPressureFlBar_update (\<lambda>_. num)) SfTpmsFl a
      | FdTpmsFr \<Rightarrow> onState (st_TpmsPressureFrBar_update (\<lambda>_. num)) SfTpmsFr a
      | FdTpmsRl \<Rightarrow> onState (st_TpmsPressureRlBar_update (\<lambda>_. num)) SfTpmsRl a
      | FdTpmsRr \<Rightarrow> onState (st_TpmsPressureRrBar_update (\<lambda>_. num)) SfTpmsRr a
      | FdDCChargingPower \<Rightarrow> onLive (ls_PowerKw_update (\<lambda>_. num)) SfChargePower a
      | FdACChargingPower \<Rightarrow> onLive (ls_PowerKw_update (\<lambda>_. num)) SfChargePower a
      | FdDCChargingEnergyIn \<Rightarrow> onLive (ls_TotalChargedEnergy_update (\<lambda>_. num)) SfChargeEnergyIn a
      | FdACChargingEnergyIn \<Rightarrow> onLive (ls_TotalChargedEnergy_update (\<lambda>_. num)) SfChargeEnergyIn a
      | FdChargeLimitSoc \<Rightarrow> onState (st_BatteryLimitPct_update (\<lambda>_. num)) SfChargeLimit a
      | FdTimeToFullCharge \<Rightarrow> onState (st_TimeToEndOfChargeMin_update
            (\<lambda>_. f2i (math_round (fmul num (fconst 60))))) SfTimeToFull a
      | FdChargerVoltage \<Rightarrow> onState (st_ChargerVoltageV_update (\<lambda>_. f2i (math_round num))) SfChargerVoltage a
      | FdChargeAmps \<Rightarrow> onLive (ls_CurrentA_update (\<lambda>_. num)) SfChargeCurrent a
      | FdDetailedChargeState \<Rightarrow> onState (\<lambda>s. s\<lparr>st_Charger := chargerVal d, st_Plug := plugVal d\<rparr>) SfChargeState a
      | FdBatteryHeaterOn \<Rightarrow> onState (st_BatteryHeaterOn_update (\<lambda>_. boolVal exotic d)) SfBatteryHeater a
      | FdLocked \<Rightarrow> (let lock = lockedStr (boolVal exotic d) in
          onState (\<lambda>s. s\<lparr>st_DoorFrontLeftLocked := lock, st_DoorFrontRightLocked := lock,
             st_DoorRearLeftLocked := lock, st_DoorRearRightLocked := lock\<rparr>) SfLocked a)
      | FdSentryMode \<Rightarrow> onState (st_GearGuardStatus_update (\<lambda>_. sentryVal exotic d)) SfSentry a
      | FdOther _ \<Rightarrow> a)"

definition decodePayload ::
  "(string \<Rightarrow> f64 option) \<Rightarrow> gotime \<Rightarrow> datum option list option \<Rightarrow> snapshot" where
  "decodePayload exotic now payload = (case payload of
     None \<Rightarrow> zeroSnapshot
   | Some ds \<Rightarrow>
       let a = fold (\<lambda>d a. case d of None \<Rightarrow> a | Some x \<Rightarrow> decodeDatum exotic now x a) ds
                 \<lparr>da_st = zeroState, da_live = None, da_present = 0\<rparr>
       in zeroSnapshot\<lparr>sn_State := Some (da_st a), sn_Live := da_live a, sn_FetchedAt := now,
            sn_StreamPresent := da_present a\<rparr>)"

definition payloadOf :: "(string \<Rightarrow> datum option list option) \<Rightarrow> string \<Rightarrow> datum option list option" where
  "payloadOf unmarshal bytes = (if bytes = [] then None else unmarshal bytes)"

end
