(* ===== verification/StreamDecodeLaws.thy ===== *)
theory StreamDecodeLaws
  imports StreamDecode MergeLaws
begin

section \<open>What decoding a frame establishes\<close>

text \<open>
  Which flags a decoded frame raises, that it touches no field it does not flag, and that data
  under unknown keys change nothing.
\<close>

subsection \<open>What a frame marks\<close>

text \<open>The flag a datum of the frame marks, if any.\<close>

definition flagOf :: "datum \<Rightarrow> streamFlag option" where
  "flagOf d = (case dt_Key d of
     FdVehicleSpeed \<Rightarrow> Some SfSpeed | FdOdometer \<Rightarrow> Some SfOdometer | FdSoc \<Rightarrow> Some SfSOC
   | FdGear \<Rightarrow> Some SfGear | FdGpsHeading \<Rightarrow> Some SfHeading
   | FdLocation \<Rightarrow> (if locationVal d = None then None else Some SfLoc)
   | FdRatedRange \<Rightarrow> Some SfRange | FdInsideTemp \<Rightarrow> Some SfCabinTemp | FdOutsideTemp \<Rightarrow> Some SfOutsideTemp
   | FdTpmsFl \<Rightarrow> Some SfTpmsFl | FdTpmsFr \<Rightarrow> Some SfTpmsFr | FdTpmsRl \<Rightarrow> Some SfTpmsRl
   | FdTpmsRr \<Rightarrow> Some SfTpmsRr | FdDCChargingPower \<Rightarrow> Some SfChargePower
   | FdACChargingPower \<Rightarrow> Some SfChargePower | FdDCChargingEnergyIn \<Rightarrow> Some SfChargeEnergyIn
   | FdACChargingEnergyIn \<Rightarrow> Some SfChargeEnergyIn | FdChargeLimitSoc \<Rightarrow> Some SfChargeLimit
   | FdTimeToFullCharge \<Rightarrow> Some SfTimeToFull | FdChargerVoltage \<Rightarrow> Some SfChargerVoltage
   | FdChargeAmps \<Rightarrow> Some SfChargeCurrent | FdDetailedChargeState \<Rightarrow> Some SfChargeState
   | FdBatteryHeaterOn \<Rightarrow> Some SfBatteryHeater | FdLocked \<Rightarrow> Some SfLocked
   | FdSentryMode \<Rightarrow> Some SfSentry | FdOther _ \<Rightarrow> None)"

lemma mark_sel [simp]: "da_st (mark b a) = da_st a" "da_live (mark b a) = da_live a"
  "da_present (mark b a) = da_present a OR flag b"
  by (simp_all add: mark_def)

lemma onState_sel [simp]: "da_st (onState f b a) = f (da_st a)" "da_live (onState f b a) = da_live a"
  "da_present (onState f b a) = da_present a OR flag b"
  by (simp_all add: onState_def)

lemma onLive_sel [simp]: "da_st (onLive f b a) = da_st a"
  "da_live (onLive f b a) = Some (f (case da_live a of None \<Rightarrow> zeroLive | Some l \<Rightarrow> l))"
  "da_present (onLive f b a) = da_present a OR flag b"
  by (simp_all add: onLive_def)

lemma decodeDatum_present:
  "da_present (decodeDatum exotic now d a) =
     (case flagOf d of None \<Rightarrow> da_present a | Some b \<Rightarrow> da_present a OR flag b)"
  by (cases "dt_Key d") (simp_all add: decodeDatum_def flagOf_def Let_def split: option.split)

definition decodeAll :: "(string \<Rightarrow> f64 option) \<Rightarrow> gotime \<Rightarrow> datum option list \<Rightarrow> decodeAcc \<Rightarrow> decodeAcc" where
  "decodeAll exotic now ds a =
     fold (\<lambda>d a. case d of None \<Rightarrow> a | Some x \<Rightarrow> decodeDatum exotic now x a) ds a"

lemma decodeAll_present:
  "has_flag (da_present (decodeAll exotic now ds a)) b \<longleftrightarrow>
     has_flag (da_present a) b \<or> (\<exists>d. Some d \<in> set ds \<and> flagOf d = Some b)"
proof (induction ds arbitrary: a)
  case (Cons d ds)
  show ?case
  proof (cases d)
    case None
    then show ?thesis using Cons [of a] by (auto simp: decodeAll_def)
  next
    case (Some x)
    have "has_flag (da_present (decodeDatum exotic now x a)) b \<longleftrightarrow> has_flag (da_present a) b \<or> flagOf x = Some b"
      by (auto simp: decodeDatum_present has_flag_or split: option.split)
    then show ?thesis using Cons [of "decodeDatum exotic now x a"] Some by (auto simp: decodeAll_def)
  qed
qed (simp add: decodeAll_def)

lemma decodePayload_present:
  "has_flag (sn_StreamPresent (decodePayload exotic now (Some ds))) b \<longleftrightarrow>
     (\<exists>d. Some d \<in> set ds \<and> flagOf d = Some b)"
  using decodeAll_present [of exotic now ds "\<lparr>da_st = zeroState, da_live = None, da_present = 0\<rparr>" b]
  by (simp add: decodePayload_def decodeAll_def Let_def)

text \<open>A decoded state holds nothing but the fields its flags name.\<close>

definition onlyMarked :: "decodeAcc \<Rightarrow> bool" where
  "onlyMarked a \<longleftrightarrow> copyStreamed zeroState (da_st a) (da_present a) = da_st a"

definition overwrites :: "streamFlag \<Rightarrow> (state \<Rightarrow> state) \<Rightarrow> bool" where
  "overwrites b f \<longleftrightarrow> (\<forall>(b', c) \<in> set streamedFields. \<forall>d s.
     if b' = b then c d (f s) = f d \<and> f (c d s) = f d
     else c d (f s) = c d s \<and> c (f d) s = f (c d s))"

lemma fold_onto:
  assumes "\<forall>(b', c) \<in> set L. \<forall>d s. if b' = b then c d (f s) = f d \<and> f (c d s) = f d
      else c d (f s) = c d s \<and> c (f d) s = f (c d s)"
  shows "b \<notin> fst ` set L \<Longrightarrow>
      fold (\<lambda>(b', c) d. if has_flag (p OR flag b) b' then c d (f s) else d) L (f d) =
      f (fold (\<lambda>(b', c) d. if has_flag p b' then c d s else d) L d)"
    and "distinct (map fst L) \<Longrightarrow> b \<in> fst ` set L \<Longrightarrow>
      fold (\<lambda>(b', c) d. if has_flag (p OR flag b) b' then c d (f s) else d) L d =
      f (fold (\<lambda>(b', c) d. if has_flag p b' then c d s else d) L d)"
  using assms
proof (induction L arbitrary: d)
  case (Cons x L)
  obtain b' c where x: "x = (b', c)" by fastforce
  {
    case 1
    then have "b' \<noteq> b" using x by auto
    then show ?case using 1 Cons.IH(1) x by auto
  next
    case 2
    show ?case
    proof (cases "b' = b")
      case True
      then have "b \<notin> fst ` set L" using 2 x by auto
      then show ?thesis
        using True 2(3) Cons.IH(1) [of "if has_flag p b then c d s else d"] x by auto
    next
      case False
      then show ?thesis using 2 Cons.IH(2) x by auto
    qed
  }
qed simp_all

lemma copyStreamed_onto:
  assumes "overwrites b f" and "b \<in> fst ` set streamedFields"
  shows "copyStreamed z (f s) (p OR flag b) = f (copyStreamed z s p)"
proof -
  have "distinct (map fst streamedFields)" by (simp add: streamedFields_def)
  from fold_onto(2) [OF _ this assms(2)] assms(1) show ?thesis
    unfolding copyStreamed_def overwrites_def by blast
qed

lemma copyStreamed_liveFlag:
  assumes "b \<notin> fst ` set streamedFields"
  shows "copyStreamed z s (p OR flag b) = copyStreamed z s p"
proof -
  have "fold (\<lambda>(b', c) d. if has_flag (p OR flag b) b' then c d s else d) L z =
      fold (\<lambda>(b', c) d. if has_flag p b' then c d s else d) L z" if "b \<notin> fst ` set L" for L
    using that by (induction L arbitrary: z) auto
  then show ?thesis using assms by (simp add: copyStreamed_def)
qed

lemma onlyMarked_onState:
  assumes "onlyMarked a" and "overwrites b f" and "b \<in> fst ` set streamedFields"
  shows "onlyMarked (onState f b a)"
  using assms by (simp add: onlyMarked_def copyStreamed_onto)

lemma onlyMarked_onLive:
  assumes "onlyMarked a" and "b \<notin> fst ` set streamedFields" shows "onlyMarked (onLive f b a)"
  using assms by (simp add: onlyMarked_def copyStreamed_liveFlag)

lemma liveFlags:
  "SfChargePower \<notin> fst ` set streamedFields" "SfChargeEnergyIn \<notin> fst ` set streamedFields"
  "SfChargeCurrent \<notin> fst ` set streamedFields"
  by (simp_all add: streamedFields_def)

lemma overwrites_scalar:
  "overwrites SfSpeed (st_SpeedMps_update (\<lambda>_. x))" "overwrites SfOdometer (st_OdometerMeters_update (\<lambda>_. n))"
  "overwrites SfSOC (st_BatteryLevelPct_update (\<lambda>_. x))" "overwrites SfGear (st_Gear_update (\<lambda>_. g))"
  "overwrites SfHeading (st_HeadingDeg_update (\<lambda>_. x))" "overwrites SfLoc (st_Location_update (\<lambda>_. l))"
  "overwrites SfRange (st_RangeKm_update (\<lambda>_. n))"
  by (simp_all add: overwrites_def streamedFields_def)

lemma overwrites_climate:
  "overwrites SfCabinTemp (st_CabinTempC_update (\<lambda>_. x))" "overwrites SfOutsideTemp (st_OutsideTempC_update (\<lambda>_. x))"
  "overwrites SfTpmsFl (st_TpmsPressureFlBar_update (\<lambda>_. x))" "overwrites SfTpmsFr (st_TpmsPressureFrBar_update (\<lambda>_. x))"
  "overwrites SfTpmsRl (st_TpmsPressureRlBar_update (\<lambda>_. x))" "overwrites SfTpmsRr (st_TpmsPressureRrBar_update (\<lambda>_. x))"
  by (simp_all add: overwrites_def streamedFields_def)

lemma overwrites_charge:
  "overwrites SfChargeLimit (st_BatteryLimitPct_update (\<lambda>_. x))"
  "overwrites SfTimeToFull (st_TimeToEndOfChargeMin_update (\<lambda>_. n))"
  "overwrites SfChargerVoltage (st_ChargerVoltageV_update (\<lambda>_. n))"
  "overwrites SfChargeState (\<lambda>s. s\<lparr>st_Charger := c, st_Plug := pl\<rparr>)"
  "overwrites SfBatteryHeater (st_BatteryHeaterOn_update (\<lambda>_. bb))"
  by (simp_all add: overwrites_def streamedFields_def)

lemma overwrites_body:
  "overwrites SfLocked (\<lambda>s. s\<lparr>st_DoorFrontLeftLocked := l, st_DoorFrontRightLocked := l,
     st_DoorRearLeftLocked := l, st_DoorRearRightLocked := l\<rparr>)"
  "overwrites SfSentry (st_GearGuardStatus_update (\<lambda>_. l))"
  by (simp_all add: overwrites_def streamedFields_def)

lemmas overwrites_all = overwrites_scalar overwrites_climate overwrites_charge overwrites_body

lemma streamedFlags:
  "fst ` set streamedFields = {SfLoc, SfSpeed, SfHeading, SfGear, SfOdometer, SfSOC, SfRange, SfCabinTemp,
     SfOutsideTemp, SfTpmsFl, SfTpmsFr, SfTpmsRl, SfTpmsRr, SfChargeLimit, SfTimeToFull, SfChargerVoltage,
     SfChargeState, SfBatteryHeater, SfLocked, SfSentry}"
  by (auto simp: streamedFields_def)

lemma onlyMarked_decodeDatum:
  assumes "onlyMarked a" shows "onlyMarked (decodeDatum exotic now d a)"
  using assms
  by (cases "dt_Key d") (auto simp: decodeDatum_def Let_def streamedFlags
      intro!: onlyMarked_onState overwrites_all onlyMarked_onLive [OF _ liveFlags(1)]
        onlyMarked_onLive [OF _ liveFlags(2)] onlyMarked_onLive [OF _ liveFlags(3)] split: option.split)

lemma onlyMarked_decodeAll: "onlyMarked a \<Longrightarrow> onlyMarked (decodeAll exotic now ds a)"
proof (induction ds arbitrary: a)
  case (Cons d ds)
  then show ?case by (cases d) (simp_all add: decodeAll_def onlyMarked_decodeDatum)
qed (simp add: decodeAll_def)

lemma decodePayload_onlyMarked:
  assumes "sn_State (decodePayload exotic now (Some ds)) = Some st"
  shows "copyStreamed zeroState st (sn_StreamPresent (decodePayload exotic now (Some ds))) = st"
proof -
  let ?a0 = "\<lparr>da_st = zeroState, da_live = None, da_present = 0\<rparr>"
  have "onlyMarked ?a0" by (simp add: onlyMarked_def copyStreamed_def streamedFields_def)
  then have "onlyMarked (decodeAll exotic now ds ?a0)" by (rule onlyMarked_decodeAll)
  then show ?thesis using assms by (simp add: decodePayload_def onlyMarked_def decodeAll_def Let_def)
qed

text \<open>A key the decoder does not know, and a missing datum, change nothing.\<close>

lemma decodePayload_unknown:
  "decodePayload exotic now (Some (filter (\<lambda>d. case d of None \<Rightarrow> False | Some x \<Rightarrow> flagOf x \<noteq> None) ds)) =
   decodePayload exotic now (Some ds)"
proof -
  have skip: "decodeDatum exotic now x a = a" if "flagOf x = None" for x a
    using that by (cases "dt_Key x") (auto simp: decodeDatum_def flagOf_def split: if_splits option.split)
  have "decodeAll exotic now (filter (\<lambda>d. case d of None \<Rightarrow> False | Some x \<Rightarrow> flagOf x \<noteq> None) ds) a =
      decodeAll exotic now ds a" for a
    by (induction ds arbitrary: a) (auto simp: decodeAll_def skip split: option.split)
  then show ?thesis unfolding decodePayload_def option.case decodeAll_def [symmetric] by (simp only:)
qed

text \<open>A frame's gear and charge state go through the poll path's tables.\<close>

lemma gearVal_letter: "dt_Value d = Some (ShiftStateValue (''ShiftState'' @ s)) \<Longrightarrow> gearVal d = gearFromTesla s"
  by (simp add: gearVal_def)

end
