(* ===== verification/StreamSource.thy ===== *)
theory StreamSource
  imports StreamDecode Service
begin

section \<open>The Fleet Telemetry source\<close>

text \<open>
  \<^verbatim>\<open>internal/protocol/tesla/fleet/stream/v1/source.go\<close> and \<^verbatim>\<open>source_listener.go\<close>, with the
  counters of \<^verbatim>\<open>internal/transport/wssutil/stats.go\<close>. The sockets, TLS and the record framing are
  libraries: an accepted connection is its remote address, a client certificate check is its
  outcome, and \<^verbatim>\<open>telemetry.NewRecord\<close> is an error with or without a record, or a record with its
  type, VIN and payload bytes. What the handlers write back on the socket is returned.
\<close>

subsection \<open>Counters\<close>

definition gapBucketsSeconds :: "f64 list" where
  "gapBucketsSeconds = map fconst [0.5, 1, 2, 5, 10, 20, 30, 60, 120, 300]"

definition streamFieldNames :: "(streamFlag \<times> string) list" where
  "streamFieldNames = [
     (SfLoc, ''location''), (SfSpeed, ''speed''), (SfHeading, ''heading''), (SfGear, ''gear''),
     (SfOdometer, ''odometer''), (SfSOC, ''soc''), (SfRange, ''range''),
     (SfChargePower, ''charge_power''), (SfCabinTemp, ''cabin_temp''),
     (SfOutsideTemp, ''outside_temp''), (SfTpmsFl, ''tpms_fl''), (SfTpmsFr, ''tpms_fr''),
     (SfTpmsRl, ''tpms_rl''), (SfTpmsRr, ''tpms_rr''), (SfChargeLimit, ''charge_limit_soc''),
     (SfTimeToFull, ''time_to_full_charge''), (SfChargerVoltage, ''charger_voltage''),
     (SfChargeCurrent, ''charge_amps''), (SfChargeState, ''detailed_charge_state''),
     (SfBatteryHeater, ''battery_heater_on''), (SfLocked, ''locked''), (SfSentry, ''sentry_mode'')]"

record sourceCounters =
  sr_connected :: int
  sr_connects :: int
  sr_disconnects :: int
  sr_idleTimeouts :: int
  sr_frames :: int
  sr_lastFrameAt :: int
  sr_gapBuckets :: "int list option"
  sr_gapSum :: f64
  sr_gapCount :: int
  sr_fieldFrame :: "string \<rightharpoonup> int"
  sr_rejects :: "string \<rightharpoonup> int"

definition zeroCounters :: sourceCounters where
  "zeroCounters = \<lparr>sr_connected = 0, sr_connects = 0, sr_disconnects = 0, sr_idleTimeouts = 0,
     sr_frames = 0, sr_lastFrameAt = 0, sr_gapBuckets = None, sr_gapSum = fzero, sr_gapCount = 0,
     sr_fieldFrame = Map.empty, sr_rejects = Map.empty\<rparr>"

definition src_Connected :: "sourceCounters \<Rightarrow> sourceCounters" where
  "src_Connected c = c\<lparr>sr_connected := wrap64 (sr_connected c + 1), sr_connects := wrap64 (sr_connects c + 1)\<rparr>"

definition src_Disconnected :: "sourceCounters \<Rightarrow> sourceCounters" where
  "src_Disconnected c = c\<lparr>sr_connected := wrap64 (sr_connected c - 1),
     sr_disconnects := wrap64 (sr_disconnects c + 1)\<rparr>"

definition src_IdleTimeout :: "sourceCounters \<Rightarrow> sourceCounters" where
  "src_IdleTimeout c = c\<lparr>sr_idleTimeouts := wrap64 (sr_idleTimeouts c + 1)\<rparr>"

definition unixNano :: "gotime \<Rightarrow> int" where
  "unixNano t = wrap64 (t - unixEpoch)"

text \<open>The bucket counts are 64-bit unsigned.\<close>

definition observeGap :: "f64 \<Rightarrow> sourceCounters \<Rightarrow> sourceCounters" where
  "observeGap secs c =
     (let bs = (case sr_gapBuckets c of None \<Rightarrow> replicate (length gapBucketsSeconds) 0 | Some bs \<Rightarrow> bs) in
      c\<lparr>sr_gapBuckets := Some (map2 (\<lambda>le n. if fle secs le then (n + 1) mod 2 ^ 64 else n) gapBucketsSeconds bs),
        sr_gapSum := fadd (sr_gapSum c) secs, sr_gapCount := (sr_gapCount c + 1) mod 2 ^ 64\<rparr>)"

definition src_Frame :: "gotime \<Rightarrow> sourceCounters \<Rightarrow> sourceCounters" where
  "src_Frame t c =
     (let now = unixNano t; prev = sr_lastFrameAt c;
          c1 = c\<lparr>sr_lastFrameAt := now, sr_frames := wrap64 (sr_frames c + 1)\<rparr>
      in if 0 < prev then observeGap (duration_seconds (wrap64 (now - prev))) c1 else c1)"

definition count_key :: "string \<Rightarrow> (string \<rightharpoonup> int) \<Rightarrow> (string \<rightharpoonup> int)" where
  "count_key k m = m(k \<mapsto> wrap64 ((case m k of None \<Rightarrow> 0 | Some n \<Rightarrow> n) + 1))"

definition src_RecordFields :: "streamField \<Rightarrow> sourceCounters \<Rightarrow> sourceCounters" where
  "src_RecordFields present c =
     (if present = 0 then c
      else c\<lparr>sr_fieldFrame := fold (\<lambda>(b, name) m. if has_flag present b then count_key name m else m)
               streamFieldNames (sr_fieldFrame c)\<rparr>)"

definition src_Reject :: "string \<Rightarrow> sourceCounters \<Rightarrow> sourceCounters" where
  "src_Reject reason c = c\<lparr>sr_rejects := count_key reason (sr_rejects c)\<rparr>"

subsection \<open>The capped listener\<close>

record cappedListener =
  cl_global :: int
  cl_perIP :: int
  cl_active :: int
  cl_byIP :: "string \<rightharpoonup> int"

definition newCappedListener :: "int \<Rightarrow> int \<Rightarrow> cappedListener" where
  "newCappedListener global perIP = \<lparr>cl_global = global, cl_perIP = perIP, cl_active = 0, cl_byIP = Map.empty\<rparr>"

definition ipCount :: "string \<Rightarrow> cappedListener \<Rightarrow> int" where
  "ipCount ip l = (case cl_byIP l ip of None \<Rightarrow> 0 | Some n \<Rightarrow> n)"

definition listener_reserve :: "string \<Rightarrow> cappedListener \<Rightarrow> bool \<times> cappedListener" where
  "listener_reserve ip l =
     (if cl_global l \<le> cl_active l then (False, l)
      else if 0 < cl_perIP l \<and> cl_perIP l \<le> ipCount ip l then (False, l)
      else (True, l\<lparr>cl_active := wrap64 (cl_active l + 1),
                    cl_byIP := (cl_byIP l)(ip \<mapsto> wrap64 (ipCount ip l + 1))\<rparr>))"

definition listener_release :: "string \<Rightarrow> cappedListener \<Rightarrow> cappedListener" where
  "listener_release ip l =
     (let n = wrap64 (ipCount ip l - 1) in
      l\<lparr>cl_active := wrap64 (cl_active l - 1),
        cl_byIP := (if n \<le> 0 then (cl_byIP l)(ip := None) else (cl_byIP l)(ip \<mapsto> n))\<rparr>)"

text \<open>
  \<^verbatim>\<open>Accept\<close> on the stream of dialed connections: those over a cap are closed, the first admitted
  one is returned, with the connections left. A \<^verbatim>\<open>cappedConn\<close> releases on its first close.
\<close>

fun listener_Accept :: "string list \<Rightarrow> cappedListener \<Rightarrow> (string option \<times> string list) \<times> cappedListener" where
  "listener_Accept [] l = ((None, []), l)"
| "listener_Accept (ip # ips) l =
     (let (ok, l') = listener_reserve ip l in
      if ok then ((Some ip, ips), l') else listener_Accept ips l')"

record cappedConn =
  cn_ip :: string
  cn_done :: bool

definition conn_Close :: "cappedConn \<Rightarrow> cappedListener \<Rightarrow> cappedConn \<times> cappedListener" where
  "conn_Close c l = (if cn_done c then (c, l) else (c\<lparr>cn_done := True\<rparr>, listener_release (cn_ip c) l))"

subsection \<open>Settings\<close>

record sourceSettings =
  ss_Port :: int
  ss_Host :: string
  ss_Path :: string
  ss_KnownVINs :: "string list"
  ss_IdleTimeout :: duration
  ss_MaxConns :: int
  ss_MaxConnsPerIP :: int

definition sourceDefaults :: "sourceSettings \<Rightarrow> sourceSettings" where
  "sourceDefaults s =
     (let s1 = (if ss_Port s = 0 then s\<lparr>ss_Port := 443\<rparr> else s);
          s2 = (if ss_Host s1 = [] then s1\<lparr>ss_Host := ''0.0.0.0''\<rparr> else s1);
          s3 = (if ss_Path s2 = [] then s2\<lparr>ss_Path := ''/''\<rparr> else s2);
          s4 = (if ss_IdleTimeout s3 = 0 then s3\<lparr>ss_IdleTimeout := 60 * Second\<rparr> else s3);
          s5 = (if ss_MaxConns s4 = 0 then s4\<lparr>ss_MaxConns := 32\<rparr> else s4)
      in if ss_MaxConnsPerIP s5 = 0 then s5\<lparr>ss_MaxConnsPerIP := 4\<rparr> else s5)"

record fleetTelemetrySource =
  ft_settings :: sourceSettings
  ft_known :: "string set"
  ft_counters :: sourceCounters

definition newSource :: "sourceSettings \<Rightarrow> fleetTelemetrySource" where
  "newSource s0 =
     (let s = sourceDefaults s0 in
      \<lparr>ft_settings = s, ft_known = set (ss_KnownVINs s), ft_counters = zeroCounters\<rparr>)"

abbreviation counting :: "(sourceCounters \<Rightarrow> sourceCounters) \<Rightarrow> fleetTelemetrySource \<Rightarrow> fleetTelemetrySource" where
  "counting f src \<equiv> src\<lparr>ft_counters := f (ft_counters src)\<rparr>"

subsection \<open>A connection's messages\<close>

record vehicleRecord =
  vr_TxType :: string
  vr_Vin :: string
  vr_Payload :: string

datatype recordResult = RecordError "vehicleRecord option" | RecordOk vehicleRecord

datatype socketWrite = WriteAck vehicleRecord | WriteError vehicleRecord

record telemetryEnv =
  te_exotic :: "string \<Rightarrow> f64 option"
  te_unmarshal :: "string \<Rightarrow> datum option list option"
  te_now :: gotime
  te_cache :: cenv

text \<open>
  A connection's own state is the flag \<^verbatim>\<open>rejectLogged\<close>, and the sink is the cache service; the
  result also lists the ids the cache asks the poll loop to poll.
\<close>

definition handleVehicleData ::
  "telemetryEnv \<Rightarrow> vehicleRecord \<Rightarrow> fleetTelemetrySource \<times> bool \<times> service \<Rightarrow>
     string list \<times> fleetTelemetrySource \<times> bool \<times> service" where
  "handleVehicleData e rec st =
     (let (src, logged, sv) = st;
          snap = decodePayload (te_exotic e) (te_now e) (payloadOf (te_unmarshal e) (vr_Payload rec)) in
      if sn_StreamPresent snap = 0 then ([], src, logged, sv)
      else if service_KnownIDs sv \<noteq> {} \<and> vr_Vin rec \<notin> service_KnownIDs sv
      then ([], counting (src_Reject ''unknown_vin'') src, True, sv)
      else
        let src1 = counting (src_RecordFields (sn_StreamPresent snap) \<circ> src_Frame (te_now e)) src;
            (polls, sv1) = service_Put (te_cache e) (vr_Vin rec) snap sv
        in (polls, src1, logged, sv1))"

definition source_OnMessage ::
  "telemetryEnv \<Rightarrow> recordResult \<Rightarrow> fleetTelemetrySource \<times> bool \<times> service \<Rightarrow>
     socketWrite list \<times> string list \<times> fleetTelemetrySource \<times> bool \<times> service" where
  "source_OnMessage e r st =
     (case r of
        RecordError None \<Rightarrow> ([], [], st)
      | RecordError (Some rec) \<Rightarrow> ([WriteError rec], [], st)
      | RecordOk rec \<Rightarrow>
          (let (polls, st1) = (if vr_TxType rec = ''V'' then handleVehicleData e rec st else ([], st))
           in ([WriteAck rec], polls, st1)))"

definition source_OnOpen :: "fleetTelemetrySource \<Rightarrow> fleetTelemetrySource" where
  "source_OnOpen src = counting src_Connected src"

text \<open>\<^verbatim>\<open>OnClose\<close>, with the device id of the connection, if it has one, and whether the idle timer closed it.\<close>

definition source_OnClose ::
  "gotime \<Rightarrow> bool \<Rightarrow> string option \<Rightarrow> fleetTelemetrySource \<times> service \<Rightarrow>
     string list \<times> fleetTelemetrySource" where
  "source_OnClose now idle device st =
     (let (src, sv) = st;
          src1 = counting src_Disconnected src;
          src2 = (if idle then counting src_IdleTimeout src1 else src1)
      in (case device of None \<Rightarrow> [] | Some vid \<Rightarrow> service_OnStreamDisconnect now vid sv, src2))"

subsection \<open>Admission\<close>

text \<open>
  The interface of a bounded pool: what the accept paths promise for any sequence of admissions
  and departures. \<open>held\<close> lists who is inside; only those inside leave.
\<close>

locale admission =
  fixes reserve :: "'k \<Rightarrow> 's \<Rightarrow> bool \<times> 's" and release :: "'k \<Rightarrow> 's \<Rightarrow> 's"
    and ok :: "'k list \<Rightarrow> 's \<Rightarrow> bool" and cap :: "'s \<Rightarrow> nat"
  assumes reserve_in: "ok held s \<Longrightarrow> reserve k s = (True, s') \<Longrightarrow> ok (k # held) s' \<and> cap s' = cap s"
    and reserve_out: "ok held s \<Longrightarrow> reserve k s = (False, s') \<Longrightarrow> ok held s' \<and> cap s' = cap s"
    and release_ok: "ok held s \<Longrightarrow> k \<in> set held \<Longrightarrow> ok (remove1 k held) (release k s) \<and> cap (release k s) = cap s"
    and ok_bound: "ok held s \<Longrightarrow> length held \<le> cap s"
begin

text \<open>An arrival, or the departure of one inside; a departure of one outside does nothing.\<close>

fun visit :: "bool \<times> 'k \<Rightarrow> 'k list \<times> 's \<Rightarrow> 'k list \<times> 's" where
  "visit (True, k) (held, s) = (case reserve k s of (True, s') \<Rightarrow> (k # held, s') | (False, s') \<Rightarrow> (held, s'))"
| "visit (False, k) (held, s) = (if k \<in> set held then (remove1 k held, release k s) else (held, s))"

lemma visit_ok: "ok held s \<Longrightarrow> visit v (held, s) = (held', s') \<Longrightarrow> ok held' s' \<and> cap s' = cap s"
proof (cases "(v, (held, s))" rule: visit.cases)
  case (1 k h t)
  assume a: "ok held s" "visit v (held, s) = (held', s')"
  obtain b s1 where r: "reserve k s = (b, s1)" by fastforce
  then show ?thesis using a 1 reserve_in [OF a(1), of k s1] reserve_out [OF a(1), of k s1]
    by (cases b) auto
next
  case (2 k h t)
  assume "ok held s" "visit v (held, s) = (held', s')"
  then show ?thesis using 2 release_ok [of held s k] by (auto split: if_splits)
qed

lemma visits_ok:
  assumes "ok held s" and "fold visit vs (held, s) = (held', s')"
  shows "ok held' s' \<and> cap s' = cap s"
  using assms
proof (induction vs arbitrary: held s)
  case (Cons v vs)
  obtain h1 s1 where v: "visit v (held, s) = (h1, s1)" by fastforce
  with Cons.prems visit_ok [of held s v] Cons.IH [of h1 s1] show ?case by auto
qed simp

lemma visits_bound:
  assumes "ok held s" and "fold visit vs (held, s) = (held', s')"
  shows "length held' \<le> cap s"
  using visits_ok [OF assms] ok_bound by metis

end

definition listener_ok :: "string list \<Rightarrow> cappedListener \<Rightarrow> bool" where
  "listener_ok held l \<longleftrightarrow> cl_global l \<le> maxInt64 \<and> cl_active l = int (length held) \<and>
     int (length held) \<le> max 0 (cl_global l) \<and>
     (\<forall>ip. ipCount ip l = int (count_list held ip) \<and> (cl_byIP l ip \<noteq> None \<longleftrightarrow> ip \<in> set held)) \<and>
     (0 < cl_perIP l \<longrightarrow> (\<forall>ip. int (count_list held ip) \<le> cl_perIP l))"

lemma count_list_remove1: "k \<in> set xs \<Longrightarrow> count_list (remove1 k xs) y = (if y = k then count_list xs y - 1 else count_list xs y)"
  by (induction xs) (auto simp: count_list_0_iff)

lemma count_list_pos: "k \<in> set xs \<Longrightarrow> 0 < count_list xs k"
  using count_list_0_iff [of xs k] by auto

lemma listener_reserve_in:
  assumes "listener_ok held l" and "listener_reserve ip l = (True, l')"
  shows "listener_ok (ip # held) l' \<and> nat (cl_global l') = nat (cl_global l)"
proof -
  have a: "cl_active l < cl_global l" "\<not> (0 < cl_perIP l \<and> cl_perIP l \<le> ipCount ip l)"
    and l': "l' = l\<lparr>cl_active := wrap64 (cl_active l + 1), cl_byIP := (cl_byIP l)(ip \<mapsto> wrap64 (ipCount ip l + 1))\<rparr>"
    using assms(2) by (auto simp: listener_reserve_def split: if_splits)
  have cnt: "ipCount ip l = int (count_list held ip)" "cl_active l = int (length held)"
    using assms(1) by (auto simp: listener_ok_def)
  have le: "count_list held ip \<le> length held" by (rule count_le_length)
  have w: "wrap64 (int (length held) + 1) = int (length held) + 1"
      "wrap64 (int (count_list held ip) + 1) = int (count_list held ip) + 1"
    using a(1) cnt le assms(1) by (auto simp: listener_ok_def intro!: wrap64_inc)
  have l'': "l' = l\<lparr>cl_active := int (length held) + 1, cl_byIP := (cl_byIP l)(ip \<mapsto> int (count_list held ip) + 1)\<rparr>"
    unfolding l' cnt w ..
  show ?thesis
    using assms(1) a cnt unfolding l'' listener_ok_def by (auto simp: ipCount_def)
qed

lemma listener_release_ok:
  assumes "listener_ok held l" and "ip \<in> set held"
  shows "listener_ok (remove1 ip held) (listener_release ip l) \<and>
    nat (cl_global (listener_release ip l)) = nat (cl_global l)"
proof -
  have cnt: "ipCount ip l = int (count_list held ip)" "cl_active l = int (length held)"
    "int (length held) \<le> max 0 (cl_global l)" "cl_global l \<le> maxInt64"
    using assms(1) by (auto simp: listener_ok_def)
  have pos: "0 < count_list held ip" using assms(2) by (rule count_list_pos)
  have le: "count_list held ip \<le> length held" by (rule count_le_length)
  have w: "wrap64 (int (length held) - 1) = int (length held - 1)"
      "wrap64 (int (count_list held ip) - 1) = int (count_list held ip - 1)"
    using cnt pos le by (auto intro!: wrap64_id simp: in_int64_def minInt64_def of_nat_diff)
  have l': "listener_release ip l = l\<lparr>cl_active := int (length held - 1), cl_byIP :=
      (if count_list held ip = 1 then (cl_byIP l)(ip := None)
       else (cl_byIP l)(ip \<mapsto> int (count_list held ip - 1)))\<rparr>"
    using pos unfolding listener_release_def cnt w Let_def by auto
  have per: "0 < cl_perIP l \<Longrightarrow> int (count_list held ip) - 1 \<le> cl_perIP l"
    using assms(1) unfolding listener_ok_def by (smt (verit) of_nat_0_le_iff)
  have len: "length (remove1 ip held) = length held - 1" using assms(2) by (simp add: length_remove1)
  have mem: "(k \<in> set (remove1 ip held)) = (0 < count_list (remove1 ip held) k)" for k
    using count_list_0_iff [of "remove1 ip held" k] by auto
  show ?thesis
    using assms cnt pos per unfolding listener_ok_def l'
    by (auto simp: len ipCount_def count_list_remove1 mem intro: count_list_pos split: if_splits option.splits)
qed

interpretation listener: admission listener_reserve listener_release listener_ok "\<lambda>l. nat (cl_global l)"
proof
  show "listener_ok (k # held) l' \<and> nat (cl_global l') = nat (cl_global l)"
    if "listener_ok held l" "listener_reserve k l = (True, l')" for held l k l'
    using that by (rule listener_reserve_in)
  show "listener_ok held l' \<and> nat (cl_global l') = nat (cl_global l)"
    if "listener_ok held l" "listener_reserve k l = (False, l')" for held l k l'
    using that by (auto simp: listener_reserve_def split: if_splits)
  show "listener_ok (remove1 k held) (listener_release k l) \<and>
      nat (cl_global (listener_release k l)) = nat (cl_global l)"
    if "listener_ok held l" "k \<in> set held" for held l k
    using that by (rule listener_release_ok)
  show "length held \<le> nat (cl_global l)" if "listener_ok held l" for held l
    using that by (auto simp: listener_ok_def)
qed

lemma newListener_ok: "global \<le> maxInt64 \<Longrightarrow> listener_ok [] (newCappedListener global perIP)"
  by (simp add: listener_ok_def newCappedListener_def ipCount_def)

subsection \<open>Deny by default\<close>

lemma handle_unknown:
  assumes "vr_Vin rec \<notin> service_KnownIDs sv" and "handleVehicleData e rec (src, logged, sv) = (polls, src', logged', sv')"
  shows "sv' = sv \<and> polls = []"
  using assms
  by (auto simp: handleVehicleData_def Let_def service_KnownIDs_def domIff Put_unknown split: if_splits prod.splits)

text \<open>The setting \<^verbatim>\<open>known_vins\<close> is stored and never consulted: it does not change what is put.\<close>

lemma known_vins_ignored:
  "handleVehicleData e rec (src\<lparr>ft_known := vins\<rparr>, logged, sv) =
     (let (polls, src', r) = handleVehicleData e rec (src, logged, sv) in (polls, src'\<lparr>ft_known := vins\<rparr>, r))"
  by (simp add: handleVehicleData_def Let_def split_beta)

end
