(* ===== verification/StreamSink.thy ===== *)
theory StreamSink
  imports Strconv FleetSink Idmap Service
begin

section \<open>The data:update streaming sink\<close>

text \<open>
  \<^verbatim>\<open>internal/protocol/tesla/stream/v1/stream_encode.go\<close> and \<^verbatim>\<open>sink.go\<close>, with the bounded sender
  of \<^verbatim>\<open>internal/transport/wssutil/ws.go\<close>. \<^verbatim>\<open>strconv.FormatFloat(_, 'f', -1, 64)\<close> is the parameter
  \<open>fmt\<close> of the encoder and \<^verbatim>\<open>json.Unmarshal\<close> on a subscribe frame that of \<open>parseSubscribe\<close>;
  sockets are libraries, so a handler returns the frames it writes.
\<close>

subsection \<open>The frames\<close>

definition dataColumns :: "string list" where
  "dataColumns = [''speed'', ''odometer'', ''soc'', ''elevation'', ''est_heading'', ''est_lat'', ''est_lng'',
     ''power'', ''shift_state'', ''range'', ''est_range'', ''heading'']"

definition numColumns :: nat where
  "numColumns = length dataColumns"

definition roundInt :: "f64 \<Rightarrow> string" where
  "roundInt x = itoa (f2i (math_round x))"

definition dataColumnsFor :: "(f64 \<Rightarrow> string) \<Rightarrow> snapshot \<Rightarrow> (string \<times> string list) option" where
  "dataColumnsFor fmt snap = (case sn_State snap of None \<Rightarrow> None
     | Some st \<Rightarrow>
         let c0 = replicate numColumns [];
             c1 = (if fne (st_SpeedMps st) fzero then c0[0 := roundInt (mpsToMph (st_SpeedMps st))] else c0);
             c2 = (if st_OdometerMeters st \<noteq> 0
                   then c1[1 := fmt (metersToMiles (i2f (st_OdometerMeters st)))] else c1);
             c3 = (if fne (st_BatteryLevelPct st) fzero then c2[2 := roundInt (st_BatteryLevelPct st)] else c2);
             h = roundInt (st_HeadingDeg st);
             c4 = (if fne (st_HeadingDeg st) fzero then c3[4 := h, 11 := h] else c3);
             c5 = (case st_Location st of None \<Rightarrow> c4
                   | Some l \<Rightarrow> c4[5 := fmt (loc_Latitude l), 6 := fmt (loc_Longitude l)]);
             hasLoc = (st_Location st \<noteq> None);
             online = (if st_Power st = PowerOnline \<and> hasLoc then c5[7 := ''0''] else c5);
             c6 = (case sn_Live snap of
                Some l \<Rightarrow> if fne (ls_PowerKw l) fzero then c5[7 := roundInt (ls_PowerKw l)] else online
              | None \<Rightarrow> online);
             c7 = (if st_Gear st \<noteq> GearUnknown \<and> hasLoc then c6[8 := shiftState (st_Gear st)] else c6);
             c8 = (if st_RangeKm st \<noteq> 0 then c7[9 := roundInt (kmToMiles (i2f (st_RangeKm st)))] else c7)
         in Some (itoa (unixMilli (asOfTime snap)), c8))"

definition frameValue :: "string \<Rightarrow> string list \<Rightarrow> string" where
  "frameValue ts cols = ts @ CHR '','' # joinComma cols"

definition encodeFrame :: "string \<Rightarrow> string \<Rightarrow> string list \<Rightarrow> string" where
  "encodeFrame tag ts cols =
     (let q = [CHR 0x22] in
      CHR 0x7B # q @ ''msg_type'' @ q @ '':'' @ q @ ''data:update'' @ q @ '','' @ q @ ''tag'' @ q @ '':'' @
      goQuote tag @ '','' @ q @ ''value'' @ q @ '':'' @ goQuote (frameValue ts cols) @ [CHR 0x7D])"

definition encodeDataUpdate :: "(f64 \<Rightarrow> string) \<Rightarrow> string \<Rightarrow> snapshot \<Rightarrow> string" where
  "encodeDataUpdate fmt tag snap =
     (case dataColumnsFor fmt snap of None \<Rightarrow> [] | Some (ts, cols) \<Rightarrow> encodeFrame tag ts cols)"

definition encodeError :: "string \<Rightarrow> string \<Rightarrow> string \<Rightarrow> string" where
  "encodeError tag kind message =
     (let q = [CHR 0x22] in
      CHR 0x7B # q @ ''msg_type'' @ q @ '':'' @ q @ ''data:error'' @ q @ '','' @ q @ ''tag'' @ q @ '':'' @
      goQuote tag @ '','' @ q @ ''error_type'' @ q @ '':'' @ goQuote kind @ '','' @ q @ ''error'' @ q @ '':'' @
      goQuote message @ [CHR 0x7D])"

definition encodeHello :: "int \<Rightarrow> string" where
  "encodeHello connectionTimeoutMs =
     (let q = [CHR 0x22] in
      CHR 0x7B # q @ ''msg_type'' @ q @ '':'' @ q @ ''control:hello'' @ q @ '','' @ q @ ''connection_timeout'' @
      q @ '':'' @ itoa connectionTimeoutMs @ [CHR 0x7D])"

definition helloInterval :: duration where
  "helloInterval = 10 * Second"

subsection \<open>Settings and the tag resolver\<close>

record sinkSettings =
  sk_ListenAddr :: string
  sk_MaxPushHz :: f64
  sk_MaxConsumers :: int
  sk_IDMapFile :: string
  sk_SendBuf :: int

definition applySinkDefaults :: "sinkSettings \<Rightarrow> sinkSettings" where
  "applySinkDefaults s =
     (let s1 = (if sk_ListenAddr s = [] then s\<lparr>sk_ListenAddr := '':4001''\<rparr> else s);
          s2 = (if feq (sk_MaxPushHz s1) fzero then s1\<lparr>sk_MaxPushHz := fconst 1\<rparr> else s1);
          s3 = (if sk_MaxConsumers s2 = 0 then s2\<lparr>sk_MaxConsumers := 16\<rparr> else s2)
      in if sk_SendBuf s3 = 0 then s3\<lparr>sk_SendBuf := 64\<rparr> else s3)"

definition minPushInterval :: "sinkSettings \<Rightarrow> duration" where
  "minPushInterval s =
     (if fle (sk_MaxPushHz s) fzero then 0 else f2i (fdiv (i2f Second) (sk_MaxPushHz s)))"

record tagResolver =
  tr_byInt64 :: "int \<rightharpoonup> string"
  tr_byVIN :: "string \<rightharpoonup> string"

definition resolveTag :: "tagResolver \<Rightarrow> string \<Rightarrow> string option" where
  "resolveTag r tag = (case parseInt64 tag of Some n \<Rightarrow> tr_byInt64 r n | None \<Rightarrow> tr_byVIN r tag)"

text \<open>
  The loop of \<^verbatim>\<open>buildResolver\<close>; \<open>wok\<close> tells for which ids the id map's file could be written.
  None when the fuel of the id map's probe loop runs out.
\<close>

fun addIdentities ::
  "nat \<Rightarrow> (string \<Rightarrow> bool) \<Rightarrow> identity list \<Rightarrow> idMap \<times> tagResolver \<Rightarrow>
     (storeError + idMap \<times> tagResolver) option" where
  "addIdentities fuel wok [] mr = Some (Inr mr)"
| "addIdentities fuel wok (ident # idents) (m, r) =
     (case idmap_ID fuel (wok (id_ID ident)) (id_ID ident) m of
        None \<Rightarrow> None
      | Some (Inl err, _) \<Rightarrow> Some (Inl err)
      | Some (Inr n, m') \<Rightarrow>
          let r1 = r\<lparr>tr_byInt64 := (tr_byInt64 r)(n \<mapsto> id_ID ident)\<rparr>;
              r2 = (if id_VIN ident \<noteq> [] then r1\<lparr>tr_byVIN := (tr_byVIN r1)(id_VIN ident \<mapsto> id_ID ident)\<rparr> else r1)
          in addIdentities fuel wok idents (m', r2))"

definition buildResolver ::
  "nat \<Rightarrow> (string \<Rightarrow> bool) \<Rightarrow> string \<Rightarrow> (string \<rightharpoonup> int) fileState \<Rightarrow> (string \<times> int) list \<Rightarrow>
     identity list \<Rightarrow> (storeError + tagResolver) option" where
  "buildResolver fuel wok path fileData stored identities =
     (case newIdMap path fileData stored of
        Inl err \<Rightarrow> Some (Inl err)
      | Inr m \<Rightarrow>
          map_option (map_sum (\<lambda>err. err) snd)
            (addIdentities fuel wok identities (m, \<lparr>tr_byInt64 = Map.empty, tr_byVIN = Map.empty\<rparr>)))"

subsection \<open>The sender\<close>

record sender =
  se_cap :: nat
  se_queue :: "string list"
  se_done :: bool

definition newSender :: "int \<Rightarrow> sender" where
  "newSender buf = \<lparr>se_cap = nat (if buf \<le> 0 then 64 else buf), se_queue = [], se_done = False\<rparr>"

definition sender_Close :: "sender \<Rightarrow> sender" where
  "sender_Close s = s\<lparr>se_done := True\<rparr>"

definition sender_Send :: "string \<Rightarrow> sender \<Rightarrow> bool \<times> sender" where
  "sender_Send msg s =
     (if se_done s then (False, s)
      else if length (se_queue s) < se_cap s then (True, s\<lparr>se_queue := se_queue s @ [msg]\<rparr>)
      else (False, sender_Close s))"

text \<open>One turn of the write loop: the message written, if any, given whether the write succeeds.\<close>

definition sender_write :: "bool \<Rightarrow> sender \<Rightarrow> string option \<times> sender" where
  "sender_write ok s =
     (if se_done s then (None, s)
      else case se_queue s of
        [] \<Rightarrow> (None, s)
      | msg # q \<Rightarrow> if ok then (Some msg, s\<lparr>se_queue := q\<rparr>) else (None, sender_Close (s\<lparr>se_queue := q\<rparr>)))"

subsection \<open>Consumers\<close>

text \<open>
  The consumer count is an atomic that \<^verbatim>\<open>OnOpen\<close> increments and then compares, taking the
  increment back in a second step when it is over the bound; handlers of different connections
  interleave between the two.
\<close>

datatype connPhase = ConnNew | ConnOpen | ConnOver | ConnRejected | ConnClosed

type_synonym sinkConns = "int \<times> (nat \<Rightarrow> connPhase)"

inductive sink_step :: "int \<Rightarrow> sinkConns \<Rightarrow> sinkConns \<Rightarrow> bool" for maxConsumers :: int where
  OpenUnder: "ph c = ConnNew \<Longrightarrow> count + 1 \<le> maxConsumers \<Longrightarrow>
    sink_step maxConsumers (count, ph) (count + 1, ph(c := ConnOpen))"
| OpenOver: "ph c = ConnNew \<Longrightarrow> maxConsumers < count + 1 \<Longrightarrow>
    sink_step maxConsumers (count, ph) (count + 1, ph(c := ConnOver))"
| TakeBack: "ph c = ConnOver \<Longrightarrow> sink_step maxConsumers (count, ph) (count - 1, ph(c := ConnRejected))"
| CloseOpen: "ph c = ConnOpen \<Longrightarrow> sink_step maxConsumers (count, ph) (count - 1, ph(c := ConnClosed))"
| CloseRejected: "ph c = ConnRejected \<Longrightarrow> sink_step maxConsumers (count, ph) (count, ph(c := ConnClosed))"

subsection \<open>Broadcasting\<close>

record broadcaster =
  bc_tag :: string
  bc_canonID :: string
  bc_sender :: sender
  bc_lastPush :: gotime
  bc_pending :: bool

record pushCounters =
  pc_pushed :: int
  pc_dropped :: int

definition pushSnap ::
  "(f64 \<Rightarrow> string) \<Rightarrow> gotime \<Rightarrow> snapshot \<Rightarrow> broadcaster \<times> pushCounters \<Rightarrow> bool \<times> broadcaster \<times> pushCounters" where
  "pushSnap fmt now snap st =
     (let (b, k) = st in
      case dataColumnsFor fmt snap of
        None \<Rightarrow> (True, b, k)
      | Some (ts, cols) \<Rightarrow>
          let (ok, s) = sender_Send (encodeFrame (bc_tag b) ts cols) (bc_sender b);
              b1 = b\<lparr>bc_lastPush := now, bc_sender := s\<rparr>
          in (ok, b1, if ok then k\<lparr>pc_pushed := wrap64 (pc_pushed k + 1)\<rparr>
                       else k\<lparr>pc_dropped := wrap64 (pc_dropped k + 1)\<rparr>))"

text \<open>The replay before the first live frame stops when the consumer is dropped.\<close>

fun replayAll ::
  "(f64 \<Rightarrow> string) \<Rightarrow> (gotime \<times> snapshot) list \<Rightarrow> broadcaster \<times> pushCounters \<Rightarrow> bool \<times> broadcaster \<times> pushCounters" where
  "replayAll fmt [] st = (True, st)"
| "replayAll fmt ((now, snap) # rest) st =
     (let (ok, st') = pushSnap fmt now snap st in if ok then replayAll fmt rest st' else (False, st'))"

datatype bcInput = BcDone | BcHello | BcEvent | BcEventsClosed | BcTick

text \<open>
  One round of the loop's \<^verbatim>\<open>select\<close>; \<open>latest\<close> is what the cache serves. The first component tells
  whether the loop goes on.
\<close>

definition push ::
  "(f64 \<Rightarrow> string) \<Rightarrow> gotime \<Rightarrow> snapshot \<Rightarrow> broadcaster \<times> pushCounters \<Rightarrow> bool \<times> broadcaster \<times> pushCounters" where
  "push fmt now latest st =
     (let (ok, b, k) = pushSnap fmt now latest st in (ok, if ok then b\<lparr>bc_pending := False\<rparr> else b, k))"

definition broadcast_round ::
  "(f64 \<Rightarrow> string) \<Rightarrow> duration \<Rightarrow> gotime \<Rightarrow> snapshot \<Rightarrow> bcInput \<Rightarrow> broadcaster \<times> pushCounters \<Rightarrow>
     bool \<times> broadcaster \<times> pushCounters" where
  "broadcast_round fmt minInt now latest i st =
     (let (b, k) = st in
      case i of
        BcDone \<Rightarrow> (False, st)
      | BcEventsClosed \<Rightarrow> (False, st)
      | BcHello \<Rightarrow> (True, b\<lparr>bc_sender := snd (sender_Send (encodeHello (go_quot helloInterval Millisecond)) (bc_sender b))\<rparr>, k)
      | BcEvent \<Rightarrow>
          if 0 < minInt \<and> time_sub now (bc_lastPush b) < minInt then (True, b\<lparr>bc_pending := True\<rparr>, k)
          else push fmt now latest st
      | BcTick \<Rightarrow>
          if 0 < minInt \<and> bc_pending b \<and> minInt \<le> time_sub now (bc_lastPush b) then push fmt now latest st
          else (True, st))"

subsection \<open>The subscribe handshake\<close>

definition parseSubscribe :: "(string \<Rightarrow> (string \<times> string) option) \<Rightarrow> string \<Rightarrow> string option" where
  "parseSubscribe unmarshal frame = (case unmarshal frame of
     None \<Rightarrow> None
   | Some (msgType, tag) \<Rightarrow>
       if msgType = ''data:subscribe_oauth'' \<or> msgType = ''data:subscribe_all'' then Some tag else None)"

text \<open>
  A refused subscription writes an error frame and closes with code 1008; an accepted one starts a
  broadcaster for a canonical id and a tag.
\<close>

datatype subscribeResult = SubscribeClosed string | Subscribed string string sender

definition sink_OnMessage ::
  "(string \<Rightarrow> (string \<times> string) option) \<Rightarrow> tagResolver \<Rightarrow> string \<Rightarrow> sender \<Rightarrow> subscribeResult" where
  "sink_OnMessage unmarshal r frame s =
     (case parseSubscribe unmarshal frame of
        None \<Rightarrow> SubscribeClosed (encodeError [] ''client_error'' ''expected data:subscribe_oauth or data:subscribe_all'')
      | Some tag \<Rightarrow>
          (case resolveTag r tag of
             None \<Rightarrow> SubscribeClosed (encodeError tag ''vehicle_error'' ''unknown vehicle'')
           | Some canonID \<Rightarrow>
               Subscribed canonID tag (snd (sender_Send (encodeHello (go_quot helloInterval Millisecond)) s))))"

end
