(* ===== verification/StreamSinkLaws.thy ===== *)
theory StreamSinkLaws
  imports StreamSink
begin

section \<open>What the streaming sink promises\<close>

text \<open>
  Frames split into their columns, tags resolve, the number of consumers stays bounded under
  interleaving, the outgoing queue is bounded, and a broadcaster tick paces pushes without losing
  an event.
\<close>

subsection \<open>The columns\<close>

lemma columns_length: "dataColumnsFor fmt snap = Some (ts, cols) \<Longrightarrow> length cols = numColumns"
  by (auto simp: dataColumnsFor_def Let_def numColumns_def split: option.splits)

lemma columns_ts: "dataColumnsFor fmt snap = Some (ts, cols) \<Longrightarrow> ts = itoa (unixMilli (asOfTime snap))"
  by (auto simp: dataColumnsFor_def Let_def split: option.splits)

lemma shiftState_no_comma: "CHR '','' \<notin> set (shiftState g)"
  by (cases g) (simp_all add: shiftState_def)

definition plainCols :: "string list \<Rightarrow> bool" where
  "plainCols cols \<longleftrightarrow> (\<forall>c \<in> set cols. CHR '','' \<notin> set c)"

lemma plainCols_update: "plainCols cols \<Longrightarrow> CHR '','' \<notin> set v \<Longrightarrow> plainCols (cols[i := v])"
  using set_update_subset_insert [of cols i v] by (auto simp: plainCols_def)

lemma plainCols_if: "(b \<Longrightarrow> plainCols x) \<Longrightarrow> (\<not> b \<Longrightarrow> plainCols y) \<Longrightarrow> plainCols (if b then x else y)"
  by simp

lemma plainCols_case:
  "plainCols x \<Longrightarrow> (\<And>l. plainCols (y l)) \<Longrightarrow> plainCols (case z of None \<Rightarrow> x | Some l \<Rightarrow> y l)"
  by (simp split: option.split)

lemma columns_no_comma:
  assumes "\<And>x. CHR '','' \<notin> set (fmt x)" and "dataColumnsFor fmt snap = Some (ts, cols)"
  shows "plainCols cols"
proof -
  have r: "plainCols (replicate n [])" for n by (simp add: plainCols_def)
  have rd: "CHR '','' \<notin> set (roundInt x)" for x by (simp add: roundInt_def itoa_no_comma)
  have z: "CHR '','' \<notin> set ''0''" by simp
  obtain st where st: "sn_State snap = Some st" using assms(2) by (auto simp: dataColumnsFor_def split: option.splits)
  have "plainCols (snd (the (dataColumnsFor fmt snap)))"
    unfolding dataColumnsFor_def st option.case Let_def option.sel snd_conv
    by (intro plainCols_if plainCols_case plainCols_update r rd z assms(1) shiftState_no_comma)
  then show ?thesis using assms(2) by simp
qed

lemma frame_parses:
  assumes "\<And>x. CHR '','' \<notin> set (fmt x)" and "dataColumnsFor fmt snap = Some (ts, cols)"
  shows "splitComma (frameValue ts cols) = ts # cols \<and> length cols = numColumns"
proof -
  have len: "length cols = numColumns" using assms(2) by (rule columns_length)
  then have ne: "cols \<noteq> []" by (auto simp: numColumns_def dataColumns_def)
  have "CHR '','' \<notin> set ts" using columns_ts [OF assms(2)] by (simp add: itoa_no_comma)
  moreover have "splitComma (joinComma cols) = cols"
    using columns_no_comma [OF assms] ne by (intro split_join) (simp_all add: plainCols_def)
  ultimately show ?thesis using len by (simp add: frameValue_def splitComma_append)
qed

lemma columns_nth:
  assumes "dataColumnsFor fmt snap = Some (ts, cols)" and "sn_State snap = Some st"
  shows "cols ! 8 = (if st_Gear st \<noteq> GearUnknown \<and> st_Location st \<noteq> None then shiftState (st_Gear st) else [])"
    and "cols ! 5 = (case st_Location st of None \<Rightarrow> [] | Some l \<Rightarrow> fmt (loc_Latitude l))"
    and "cols ! 6 = (case st_Location st of None \<Rightarrow> [] | Some l \<Rightarrow> fmt (loc_Longitude l))"
    and "cols ! 1 = (if st_OdometerMeters st \<noteq> 0 then fmt (metersToMiles (i2f (st_OdometerMeters st))) else [])"
    and "cols ! 7 = (case sn_Live snap of
        Some l \<Rightarrow> if fne (ls_PowerKw l) fzero then roundInt (ls_PowerKw l)
          else if st_Power st = PowerOnline \<and> st_Location st \<noteq> None then ''0'' else []
      | None \<Rightarrow> if st_Power st = PowerOnline \<and> st_Location st \<noteq> None then ''0'' else [])"
  using assms by (auto simp: dataColumnsFor_def Let_def numColumns_def dataColumns_def split: option.splits)

text \<open>The timestamp is the one the REST sink emits for the same snapshot.\<close>

lemma rest_timestamp:
  assumes "dataColumnsFor fmt snap = Some (ts, cols)" and "asOfTime snap \<noteq> 0"
    and "vd_DriveState (vehicleDataOf now prev (sn_State snap) live ids cfg (asOfTime snap)) = Some ds"
  shows "\<exists>ms. ds_Timestamp ds = Some ms \<and> ts = itoa ms"
proof -
  obtain st where st: "sn_State snap = Some st" using assms(1) by (auto simp: dataColumnsFor_def split: option.splits)
  have "ds_Timestamp ds = Some (unixMilli (asOfTime snap))"
    using assms(2,3) by (auto simp: st vehicleDataOf_def Let_def snapTime_def driveState_def split: option.splits)
  then show ?thesis using columns_ts [OF assms(1)] by simp
qed

subsection \<open>Resolving tags\<close>

definition resolver_ok :: "idMap \<times> tagResolver \<Rightarrow> bool" where
  "resolver_ok mr \<longleftrightarrow> idmap_ok (fst mr) \<and>
     (\<forall>n g. tr_byInt64 (snd mr) n = Some g \<longrightarrow> im_byKey (fst mr) g = Some n)"

definition numbered :: "string \<Rightarrow> idMap \<times> tagResolver \<Rightarrow> bool" where
  "numbered g mr \<longleftrightarrow> (\<exists>n. im_byKey (fst mr) g = Some n \<and> tr_byInt64 (snd mr) n = Some g)"

lemma addIdentities_step:
  assumes ok: "resolver_ok (m, r)" and i: "idmap_ID fuel w g m = Some (Inr n, m')"
  shows "resolver_ok (m', r\<lparr>tr_byInt64 := (tr_byInt64 r)(n \<mapsto> g), tr_byVIN := v\<rparr>)"
    and "numbered g (m', r\<lparr>tr_byInt64 := (tr_byInt64 r)(n \<mapsto> g), tr_byVIN := v\<rparr>)"
    and "numbered h (m, r) \<Longrightarrow> numbered h (m', r\<lparr>tr_byInt64 := (tr_byInt64 r)(n \<mapsto> g), tr_byVIN := v\<rparr>)"
proof -
  have mok: "idmap_ok m" using ok by (simp add: resolver_ok_def)
  have m': "idmap_ok m'" "im_byKey m \<subseteq>\<^sub>m im_byKey m'" using idmap_ID_ok [OF mok i] by auto
  have n: "im_byKey m' g = Some n" using i
    by (auto simp: idmap_ID_def Let_def split_beta split: option.splits)
  have keep: "im_byKey m h = Some k \<Longrightarrow> im_byKey m' h = Some k" for h k
    using m'(2) by (auto simp: map_le_def dom_def)
  have inj: "im_byKey m' a = Some k \<Longrightarrow> im_byKey m' b = Some k \<Longrightarrow> a = b" for a b k
    using m'(1) unfolding idmap_ok_def by (metis option.inject)
  show "resolver_ok (m', r\<lparr>tr_byInt64 := (tr_byInt64 r)(n \<mapsto> g), tr_byVIN := v\<rparr>)"
    using ok m'(1) n keep by (auto simp: resolver_ok_def)
  show "numbered g (m', r\<lparr>tr_byInt64 := (tr_byInt64 r)(n \<mapsto> g), tr_byVIN := v\<rparr>)"
    using n by (simp add: numbered_def)
  show "numbered h (m', r\<lparr>tr_byInt64 := (tr_byInt64 r)(n \<mapsto> g), tr_byVIN := v\<rparr>)" if nh: "numbered h (m, r)"
  proof -
    obtain k where k: "im_byKey m h = Some k" "tr_byInt64 r k = Some h" using nh by (auto simp: numbered_def)
    have "k = n \<Longrightarrow> h = g" using inj keep [OF k(1)] n by blast
    then show ?thesis using k keep by (auto simp: numbered_def)
  qed
qed

lemma addIdentities_numbered:
  assumes "resolver_ok (m, r)" and "addIdentities fuel wok idents (m, r) = Some (Inr mr')"
  shows "resolver_ok mr' \<and> (\<forall>ident \<in> set idents. numbered (id_ID ident) mr') \<and>
    (\<forall>h. numbered h (m, r) \<longrightarrow> numbered h mr')"
  using assms
proof (induction idents arbitrary: m r)
  case (Cons ident idents)
  obtain n m1 where i: "idmap_ID fuel (wok (id_ID ident)) (id_ID ident) m = Some (Inr n, m1)"
    using Cons.prems(2) by (auto split: option.splits sum.splits)
  define r2 where "r2 = r\<lparr>tr_byInt64 := (tr_byInt64 r)(n \<mapsto> id_ID ident), tr_byVIN :=
      (if id_VIN ident \<noteq> [] then (tr_byVIN r)(id_VIN ident \<mapsto> id_ID ident) else tr_byVIN r)\<rparr>"
  have rest: "addIdentities fuel wok idents (m1, r2) = Some (Inr mr')"
    using Cons.prems(2) i unfolding r2_def by (simp add: Let_def split: if_splits)
  note st = addIdentities_step [OF Cons.prems(1) i, where v = "(if id_VIN ident \<noteq> []
      then (tr_byVIN r)(id_VIN ident \<mapsto> id_ID ident) else tr_byVIN r)", folded r2_def]
  show ?case using Cons.IH [OF st(1) rest] st(2,3) by auto
qed simp

lemma numbered_resolves:
  assumes "resolver_ok (m, r)" and "numbered g (m, r)"
  shows "\<exists>n. im_byKey m g = Some n \<and> resolveTag r (itoa n) = Some g"
proof -
  obtain n where n: "im_byKey m g = Some n" "tr_byInt64 r n = Some g"
    using assms(2) by (auto simp: numbered_def)
  have "0 < n \<and> n \<le> maxInt64" using assms(1) n(1) unfolding resolver_ok_def idmap_ok_def by fastforce
  then have "in_int64 n" by (simp add: in_int64_def minInt64_def)
  then show ?thesis using n by (auto simp: resolveTag_def parseInt64_itoa)
qed

lemma newIdMap_memory_ok: "newIdMap [] file ps = Inr m \<Longrightarrow> idmap_ok m"
  by (auto simp: newIdMap_def Let_def idmap_ok_def)

subsection \<open>The consumer bound under interleaving\<close>

definition phases :: "connPhase \<Rightarrow> sinkConns \<Rightarrow> nat set" where
  "phases p s = {c. snd s c = p}"

definition sink_inv :: "int \<Rightarrow> sinkConns \<Rightarrow> bool" where
  "sink_inv mx s \<longleftrightarrow> finite (phases ConnOpen s) \<and> finite (phases ConnOver s) \<and>
     fst s = int (card (phases ConnOpen s)) + int (card (phases ConnOver s)) \<and>
     int (card (phases ConnOpen s)) \<le> mx"

lemma phases_upd:
  "phases p (k, ph(c := q)) = (if q = p then insert c (phases p (k0, ph)) else phases p (k0, ph) - {c})"
  by (auto simp: phases_def)

lemma phases_count: "phases p (k, ph) = phases p (k', ph)"
  by (simp add: phases_def)

lemma sink_step_inv:
  assumes "sink_step mx s s'" and "sink_inv mx s"
  shows "sink_inv mx s'"
  using assms
proof (induction rule: sink_step.induct)
  case (OpenUnder ph c count)
  then have "c \<notin> phases ConnOpen (count, ph)" "c \<notin> phases ConnOver (count, ph)" by (auto simp: phases_def)
  with OpenUnder show ?case
    by (simp add: sink_inv_def phases_upd [where ?k0.0 = count] phases_count [where k = "count + 1" and k' = count])
next
  case (OpenOver ph c count)
  then have "c \<notin> phases ConnOpen (count, ph)" "c \<notin> phases ConnOver (count, ph)" by (auto simp: phases_def)
  with OpenOver show ?case by (simp add: sink_inv_def phases_upd [where ?k0.0 = count])
next
  case (TakeBack ph c count)
  then have "c \<notin> phases ConnOpen (count, ph)" "c \<in> phases ConnOver (count, ph)" by (auto simp: phases_def)
  moreover from this TakeBack have "0 < card (phases ConnOver (count, ph))"
    by (auto simp: sink_inv_def card_gt_0_iff)
  ultimately show ?case using TakeBack
    by (simp add: sink_inv_def phases_upd [where ?k0.0 = count] card_Diff_singleton of_nat_diff)
next
  case (CloseOpen ph c count)
  then have "c \<in> phases ConnOpen (count, ph)" "c \<notin> phases ConnOver (count, ph)" by (auto simp: phases_def)
  moreover from this CloseOpen have "0 < card (phases ConnOpen (count, ph))"
    by (auto simp: sink_inv_def card_gt_0_iff)
  ultimately show ?case using CloseOpen
    by (simp add: sink_inv_def phases_upd [where ?k0.0 = count] card_Diff_singleton of_nat_diff)
next
  case (CloseRejected ph c count)
  then have "c \<notin> phases ConnOpen (count, ph)" "c \<notin> phases ConnOver (count, ph)" by (auto simp: phases_def)
  with CloseRejected show ?case by (simp add: sink_inv_def phases_upd [where ?k0.0 = count])
qed

lemma sink_reachable_inv: "(sink_step mx)\<^sup>*\<^sup>* s s' \<Longrightarrow> sink_inv mx s \<Longrightarrow> sink_inv mx s'"
  by (induction rule: rtranclp_induct) (simp_all add: sink_step_inv)

lemma sink_init_inv: "0 \<le> mx \<Longrightarrow> sink_inv mx (0, \<lambda>_. ConnNew)"
  by (simp add: sink_inv_def phases_def)

subsection \<open>The sender and the pacing of frames\<close>

lemma sender_Send_bounded:
  "length (se_queue s) \<le> se_cap s \<Longrightarrow> length (se_queue (snd (sender_Send msg s))) \<le> se_cap (snd (sender_Send msg s))"
  by (simp add: sender_Send_def sender_Close_def)

lemma sender_done_stays: "se_done s \<Longrightarrow> sender_Send msg s = (False, s)"
  by (simp add: sender_Send_def)

lemma sender_Send_fail: "fst (sender_Send msg s) = False \<Longrightarrow> se_done (snd (sender_Send msg s))"
  by (auto simp: sender_Send_def sender_Close_def split: if_splits)

text \<open>The frames a round puts on the wire queue, and when.\<close>

lemma round_paces:
  assumes "broadcast_round fmt minInt now latest i (b, k) = (go, b', k')"
    and "bc_lastPush b' \<noteq> bc_lastPush b" and "0 < minInt"
  shows "bc_lastPush b' = now \<and> minInt \<le> time_sub now (bc_lastPush b)"
  using assms
  by (auto simp: broadcast_round_def push_def pushSnap_def Let_def split_beta split: bcInput.splits if_splits option.splits)

text \<open>A change event is pushed at once or left pending; a pending one is pushed by the first tick that may.\<close>

lemma event_kept:
  assumes "broadcast_round fmt minInt now latest BcEvent (b, k) = (True, b', k')"
  shows "bc_pending b' \<or> (\<exists>b0. pushSnap fmt now latest (b, k) = (True, b0, k') \<and> b' = b0\<lparr>bc_pending := False\<rparr>)"
proof -
  obtain ok b0 k0 where "pushSnap fmt now latest (b, k) = (ok, b0, k0)" by (metis surj_pair)
  then show ?thesis using assms by (auto simp: broadcast_round_def push_def split: if_splits)
qed

lemma tick_pushes:
  assumes "bc_pending b" and "0 < minInt" and "minInt \<le> time_sub now (bc_lastPush b)"
  shows "broadcast_round fmt minInt now latest BcTick (b, k) = push fmt now latest (b, k)"
  using assms by (simp add: broadcast_round_def)

end
