(* ===== verification/FleetAdapter.thy ===== *)
theory FleetAdapter
  imports FleetLaws Service Idmap Strconv
begin

section \<open>The served vehicles of the Fleet sink\<close>

text \<open>
  \<^verbatim>\<open>internal/protocol/tesla/fleet/poll/v1/adapter.go\<close>, with the static source of
  \<^verbatim>\<open>datasource.go\<close> and its fixture: what stands between the HTTP handlers and the cache. The
  adapter keeps, per vehicle, its identity, the payload it served last and the payload it may serve
  again while the served time stands still.

  \<^verbatim>\<open>sink.Provider\<close> is the record \<open>provider\<close>: the identities and, at the time of a call, the
  latest snapshot and the poll statistics of each vehicle; the cache service gives one. Both maps of
  the adapter point at the same entries; \<^verbatim>\<open>byVIN\<close> is read for the id alone, so it maps to the id.
  The mutexes serialise whole calls on an entry, so a call is one step. The interface
  \<open>data_source\<close> is Go's \<^verbatim>\<open>VehicleDataSource\<close> with the laws the server rests on.
\<close>

subsection \<open>Providers\<close>

record provider =
  pv_Vehicles :: "identity list"
  pv_Latest :: "string \<Rightarrow> snapshot"
  pv_Stats :: "string \<Rightarrow> pollStats"

definition service_Provider :: "'b manager option \<Rightarrow> service \<Rightarrow> provider" where
  "service_Provider mgr s = \<lparr>pv_Vehicles = service_Vehicles s, pv_Latest = (\<lambda>vid. service_Latest vid s),
     pv_Stats = provider_Stats mgr\<rparr>"

subsection \<open>Entries\<close>

record teslaIdentity =
  ti_canonID :: string
  ti_id :: int
  ti_vehicleID :: int
  ti_vin :: string
  ti_displayName :: string

record vehicleEntry =
  ve_identity :: teslaIdentity
  ve_cfg :: fleetCfg
  ve_prev :: "vehicleData option"
  ve_cached :: "vehicleData option"
  ve_cachedAsOf :: gotime

record sourceAdapter =
  ad_staleAfter :: duration
  ad_byID :: "int \<rightharpoonup> vehicleEntry"
  ad_byVIN :: "string \<rightharpoonup> int"
  ad_order :: "int list"
  ad_unchangedReads :: int

definition teslaWMIs :: "string list" where
  "teslaWMIs = [''5YJ'', ''5XJ'', ''7SA'', ''7G2'', ''LRW'', ''XP7'', ''SFZ'']"

definition teslaLineCarType :: "char \<rightharpoonup> string" where
  "teslaLineCarType = map_of [(CHR ''S'', ''models''), (CHR ''3'', ''model3''), (CHR ''X'', ''modelx''),
     (CHR ''Y'', ''modely''), (CHR ''R'', ''roadster''), (CHR ''C'', ''cybertruck''),
     (CHR ''T'', ''semi''), (CHR ''A'', ''cybercab'')]"

definition carTypeFromVIN :: "string \<Rightarrow> string" where
  "carTypeFromVIN vin =
     (if length vin < 4 \<or> take 3 vin \<notin> set teslaWMIs then []
      else case teslaLineCarType (vin ! 3) of None \<Rightarrow> [] | Some c \<Rightarrow> c)"

definition entryCarType :: "(string \<Rightarrow> string) option \<Rightarrow> string \<Rightarrow> string" where
  "entryCarType carType vin =
     (let ct = carTypeFromVIN vin;
          ct1 = (case carType of Some f \<Rightarrow> if f vin \<noteq> [] then f vin else ct | None \<Rightarrow> ct)
      in if ct1 = [] then ''model3'' else ct1)"

text \<open>
  The loop of \<^verbatim>\<open>newSourceAdapter\<close>; \<open>wok\<close> tells for which keys the id map's file could be written.
  None when the fuel of the id map's probe loop runs out.
\<close>

fun addVehicles ::
  "nat \<Rightarrow> (string \<Rightarrow> bool) \<Rightarrow> (string \<Rightarrow> string) option \<Rightarrow> identity list \<Rightarrow> idMap \<times> sourceAdapter \<Rightarrow>
     (storeError + idMap \<times> sourceAdapter) option" where
  "addVehicles fuel wok carType [] ms = Some (Inr ms)"
| "addVehicles fuel wok carType (v # vs) (m, s) =
     (case idmap_ID fuel (wok (id_ID v)) (id_ID v) m of
        None \<Rightarrow> None
      | Some (Inl err, _) \<Rightarrow> Some (Inl err)
      | Some (Inr tid, m1) \<Rightarrow>
          (case idmap_ID fuel (wok (id_ID v @ '':vid'')) (id_ID v @ '':vid'') m1 of
             None \<Rightarrow> None
           | Some (Inl err, _) \<Rightarrow> Some (Inl err)
           | Some (Inr vid, m2) \<Rightarrow>
               let e = \<lparr>ve_identity = \<lparr>ti_canonID = id_ID v, ti_id = tid, ti_vehicleID = vid,
                          ti_vin = id_VIN v, ti_displayName = id_DisplayName v\<rparr>,
                        ve_cfg = \<lparr>fc_CarType = entryCarType carType (id_VIN v), fc_Model = id_Model v\<rparr>,
                        ve_prev = None, ve_cached = None, ve_cachedAsOf = 0\<rparr>;
                   s1 = s\<lparr>ad_byID := (ad_byID s)(tid \<mapsto> e),
                          ad_byVIN := (if id_VIN v \<noteq> [] then (ad_byVIN s)(id_VIN v \<mapsto> tid) else ad_byVIN s),
                          ad_order := ad_order s @ [tid]\<rparr>
               in addVehicles fuel wok carType vs (m2, s1)))"

definition newSourceAdapter ::
  "nat \<Rightarrow> (string \<Rightarrow> bool) \<Rightarrow> provider \<Rightarrow> idMap \<Rightarrow> duration \<Rightarrow> (string \<Rightarrow> string) option \<Rightarrow>
     (storeError + sourceAdapter) option" where
  "newSourceAdapter fuel wok prov ids staleAfter carType =
     map_option (map_sum (\<lambda>err. err) snd)
       (addVehicles fuel wok carType (pv_Vehicles prov)
          (ids, \<lparr>ad_staleAfter = staleAfter, ad_byID = Map.empty, ad_byVIN = Map.empty, ad_order = [],
                ad_unchangedReads = 0\<rparr>))"

definition adapter_ResolveTag :: "string \<Rightarrow> sourceAdapter \<Rightarrow> int option" where
  "adapter_ResolveTag tag s =
     (case parseInt64 tag of
        Some n \<Rightarrow> if ad_byID s n \<noteq> None then Some n else ad_byVIN s tag
      | None \<Rightarrow> ad_byVIN s tag)"

subsection \<open>Staleness\<close>

definition isStale :: "gotime \<Rightarrow> duration \<Rightarrow> gotime \<Rightarrow> bool" where
  "isStale now staleAfter asOf \<longleftrightarrow>
     0 < staleAfter \<and> \<not> is_zero_time asOf \<and> staleAfter < time_sub now asOf"

definition lostState :: "bool \<Rightarrow> string" where
  "lostState driving = (if driving then ''offline'' else ''asleep'')"

definition staleLiveness :: "vehicleData \<Rightarrow> string" where
  "staleLiveness out = lostState (case Option.bind (vd_DriveState out) ds_ShiftState of
     None \<Rightarrow> False | Some g \<Rightarrow> g = ''D'' \<or> g = ''N'' \<or> g = ''R'')"

definition degradeIfStale :: "gotime \<Rightarrow> duration \<Rightarrow> vehicleData \<Rightarrow> gotime \<Rightarrow> vehicleData" where
  "degradeIfStale now staleAfter out asOf =
     (if isStale now staleAfter asOf then out\<lparr>vd_State := staleLiveness out\<rparr> else out)"

definition drivingGear :: "state option \<Rightarrow> bool" where
  "drivingGear st = (case st of None \<Rightarrow> False
     | Some s \<Rightarrow> st_Gear s \<in> {GearDrive, GearReverse, GearNeutral})"

subsection \<open>Translation\<close>

definition idsForTranslate :: "vehicleEntry \<Rightarrow> fleetIDs" where
  "idsForTranslate e = \<lparr>fi_ID = ti_id (ve_identity e), fi_VehicleID = ti_vehicleID (ve_identity e),
     fi_VIN = ti_vin (ve_identity e), fi_DisplayName = ti_displayName (ve_identity e)\<rparr>"

text \<open>The full encoding, and \<^verbatim>\<open>translate\<close> with its fast path; the flag tells which it was.\<close>

definition encodeEntry :: "gotime \<Rightarrow> snapshot \<Rightarrow> vehicleEntry \<Rightarrow> vehicleData" where
  "encodeEntry now snap e = vehicleDataOf now (ve_prev e) (sn_State snap) (sn_Live snap)
     (idsForTranslate e) (ve_cfg e) (asOfTime snap)"

definition translate ::
  "gotime \<Rightarrow> duration \<Rightarrow> snapshot \<Rightarrow> vehicleEntry \<Rightarrow> bool \<times> vehicleData \<times> vehicleEntry" where
  "translate now staleAfter snap e =
     (let asOf = asOfTime snap in
      case (if \<not> is_zero_time asOf \<and> asOf = ve_cachedAsOf e then ve_cached e else None) of
        Some c \<Rightarrow> (True, degradeIfStale now staleAfter c asOf, e)
      | None \<Rightarrow>
          let out = encodeEntry now snap e;
              e1 = e\<lparr>ve_prev := Some out\<rparr>;
              e2 = (if \<not> is_zero_time asOf then e1\<lparr>ve_cached := Some out, ve_cachedAsOf := asOf\<rparr> else e1)
          in (False, degradeIfStale now staleAfter out asOf, e2))"

definition currentState :: "gotime \<Rightarrow> duration \<Rightarrow> snapshot \<Rightarrow> string" where
  "currentState now staleAfter snap =
     (if isStale now staleAfter (asOfTime snap) then lostState (drivingGear (sn_State snap))
      else fleetState (sn_State snap))"

subsection \<open>The surfaces\<close>

text \<open>
  A call reads the clock and the provider. The entry of an id of \<^verbatim>\<open>order\<close> always exists; the
  model gives an empty result where Go would dereference nil.
\<close>

definition entryState :: "gotime \<times> provider \<Rightarrow> sourceAdapter \<Rightarrow> vehicleEntry \<Rightarrow> string" where
  "entryState np s e = currentState (fst np) (ad_staleAfter s) (pv_Latest (snd np) (ti_canonID (ve_identity e)))"

definition entryProduct :: "gotime \<times> provider \<Rightarrow> sourceAdapter \<Rightarrow> vehicleEntry \<Rightarrow> product" where
  "entryProduct np s e = \<lparr>pr_ID = ti_id (ve_identity e), pr_VehicleID = ti_vehicleID (ve_identity e),
     pr_VIN = ti_vin (ve_identity e), pr_DisplayName = ti_displayName (ve_identity e),
     pr_State = entryState np s e\<rparr>"

definition adapter_Products :: "gotime \<times> provider \<Rightarrow> sourceAdapter \<Rightarrow> product list" where
  "adapter_Products np s = map (entryProduct np s) (List.map_filter (ad_byID s) (ad_order s))"

definition adapter_Summary :: "gotime \<times> provider \<Rightarrow> int \<Rightarrow> sourceAdapter \<Rightarrow> summary option" where
  "adapter_Summary np tid s = map_option (\<lambda>e. \<lparr>su_ID = ti_id (ve_identity e),
     su_VehicleID = ti_vehicleID (ve_identity e), su_VIN = ti_vin (ve_identity e),
     su_DisplayName = ti_displayName (ve_identity e), su_State = entryState np s e\<rparr>) (ad_byID s tid)"

definition adapter_VehicleData ::
  "gotime \<times> provider \<Rightarrow> int \<Rightarrow> sourceAdapter \<Rightarrow> vehicleData option \<times> sourceAdapter" where
  "adapter_VehicleData np tid s =
     (case ad_byID s tid of
        None \<Rightarrow> (None, s)
      | Some e \<Rightarrow>
          let (hit, out, e') = translate (fst np) (ad_staleAfter s)
                 (pv_Latest (snd np) (ti_canonID (ve_identity e))) e
          in (Some out, s\<lparr>ad_byID := (ad_byID s)(tid \<mapsto> e'),
                ad_unchangedReads := (if hit then wrap64 (ad_unchangedReads s + 1) else ad_unchangedReads s)\<rparr>))"

record vehicleStatus =
  vs_ID :: int
  vs_VehicleID :: int
  vs_VIN :: string
  vs_DisplayName :: string
  vs_State :: string
  vs_FetchedAt :: gotime
  vs_AgeSeconds :: f64
  vs_Stale :: bool
  vs_LastError :: string
  vs_LastErrorAt :: gotime
  vs_BackoffSeconds :: f64
  vs_ConsecutiveFailures :: int
  vs_NeedsReauth :: bool
  vs_PollSuccess :: int
  vs_PollChanged :: int
  vs_PollErrors :: int
  vs_RateLimited :: int
  vs_LastChangeAt :: gotime

definition entryStatus :: "gotime \<times> provider \<Rightarrow> sourceAdapter \<Rightarrow> vehicleEntry \<Rightarrow> vehicleStatus" where
  "entryStatus np s e =
     (let st = pv_Stats (snd np) (ti_canonID (ve_identity e));
          snap = pv_Latest (snd np) (ti_canonID (ve_identity e));
          asOf = asOfTime snap
      in \<lparr>vs_ID = ti_id (ve_identity e), vs_VehicleID = ti_vehicleID (ve_identity e),
          vs_VIN = ti_vin (ve_identity e), vs_DisplayName = ti_displayName (ve_identity e),
          vs_State = entryState np s e, vs_FetchedAt = sn_FetchedAt snap,
          vs_AgeSeconds = (if is_zero_time asOf then fzero else duration_seconds (time_sub (fst np) asOf)),
          vs_Stale = isStale (fst np) (ad_staleAfter s) asOf,
          vs_LastError = ps_LastError st, vs_LastErrorAt = ps_LastErrorAt st,
          vs_BackoffSeconds = duration_seconds (ps_Backoff st),
          vs_ConsecutiveFailures = ps_ConsecutiveFailures st, vs_NeedsReauth = ps_NeedsReauth st,
          vs_PollSuccess = ps_SuccessCount st, vs_PollChanged = ps_ChangedCount st,
          vs_PollErrors = ps_ErrorCount st, vs_RateLimited = ps_RateLimitedCount st,
          vs_LastChangeAt = ps_LastChangeAt st\<rparr>)"

definition adapter_Status :: "gotime \<times> provider \<Rightarrow> sourceAdapter \<Rightarrow> vehicleStatus list" where
  "adapter_Status np s = map (entryStatus np s) (List.map_filter (ad_byID s) (ad_order s))"

definition adapter_Extras ::
  "gotime \<times> provider \<Rightarrow> int \<Rightarrow> sourceAdapter \<Rightarrow> (state option \<times> liveSession option \<times> gotime) option" where
  "adapter_Extras np tid s = map_option (\<lambda>e.
     let snap = pv_Latest (snd np) (ti_canonID (ve_identity e))
     in (sn_State snap, sn_Live snap, sn_FetchedAt snap)) (ad_byID s tid)"

definition adapter_VehicleCount :: "sourceAdapter \<Rightarrow> nat" where
  "adapter_VehicleCount s = length (ad_order s)"

definition adapter_UnchangedReads :: "sourceAdapter \<Rightarrow> int" where
  "adapter_UnchangedReads s = ad_unchangedReads s"

definition adapter_teslaID :: "string \<Rightarrow> sourceAdapter \<Rightarrow> int option" where
  "adapter_teslaID canonID s =
     (if canonID = [] then (case ad_order s of [] \<Rightarrow> None | tid # _ \<Rightarrow> Some tid)
      else find (\<lambda>tid. map_option (\<lambda>e. ti_canonID (ve_identity e)) (ad_byID s tid) = Some canonID) (ad_order s))"

end
