(* ===== verification/FleetAdapterLaws.thy ===== *)
theory FleetAdapterLaws
  imports FleetAdapter
begin

section \<open>What the served vehicles promise\<close>

text \<open>
  The data source interface and its two providers, the adapter over the cache and the static test
  source; the fast path of the translation against the full encoding; and the degradation of stale
  vehicles.
\<close>

subsection \<open>The static source\<close>

record staticSource =
  ss_id :: int
  ss_vehicleID :: int
  ss_vin :: string
  ss_displayName :: string

definition newOnlineVehicleData :: "gotime \<Rightarrow> int \<Rightarrow> int \<Rightarrow> string \<Rightarrow> string \<Rightarrow> vehicleData" where
  "newOnlineVehicleData now tid vid vin name =
     (let nowMs = unixMilli now in
      \<lparr>vd_ID = tid, vd_VehicleID = vid, vd_VIN = vin, vd_DisplayName = name, vd_State = ''online'',
       vd_OptionCodes = None, vd_APIVersion = Some 71, vd_InService = Some False,
       vd_ChargeState = Some (zeroWireChargeState\<lparr>cs_BatteryLevel := Some 72,
         cs_UsableBatteryLevel := Some 72, cs_BatteryRange := Some (fconst 230),
         cs_IdealBatteryRange := Some (fconst 230), cs_EstBatteryRange := Some (fconst 215),
         cs_ChargeLimitSoc := Some 80, cs_ChargeEnergyAdded := Some fzero,
         cs_ChargingState := Some ''Disconnected'', cs_ChargePortDoorOpen := Some False,
         cs_ChargerPower := Some fzero, cs_ChargerActualCurrent := Some 0, cs_ChargerVoltage := Some 0,
         cs_TimeToFullCharge := Some fzero, cs_ChargeRate := Some fzero,
         cs_FastChargerPresent := Some False, cs_Timestamp := Some nowMs\<rparr>),
       vd_ClimateState = Some (zeroWireClimateState\<lparr>cl_InsideTemp := Some (fconst 21),
         cl_IsClimateOn := Some False, cl_Timestamp := Some nowMs\<rparr>),
       vd_DriveState = Some (zeroWireDriveState\<lparr>ds_Latitude := Some (fconst 37.7749),
         ds_Longitude := Some (fconst (- 122.4194)), ds_Heading := Some 0, ds_Timestamp := Some nowMs,
         ds_GpsAsOf := Some (go_quot nowMs 1000)\<rparr>),
       vd_VehicleConfig = Some (zeroWireVehicleConfig\<lparr>vc_CarType := Some ''model3'',
         vc_TrimBadging := Some ''R1T'', vc_Rhd := Some False, vc_Timestamp := Some nowMs\<rparr>),
       vd_VehicleState = Some (zeroWireVehicleState\<lparr>vst_Odometer := Some (fconst 12345.6),
         vst_Locked := Some True, vst_CarVersion := Some ''2024.0.0'', vst_VehicleName := Some name,
         vst_IsUserPresent := Some False, vst_SentryMode := Some False, vst_Df := Some 0,
         vst_Dr := Some 0, vst_Pf := Some 0, vst_Pr := Some 0, vst_Ft := Some 0, vst_Rt := Some 0,
         vst_FdWindow := Some 0, vst_FpWindow := Some 0, vst_RdWindow := Some 0, vst_RpWindow := Some 0,
         vst_SoftwareUpdate := Some (zeroWireSoftwareUpdate\<lparr>sw_Status := Some [], sw_Version := Some []\<rparr>),
         vst_Timestamp := Some nowMs\<rparr>)\<rparr>)"

definition static_Products :: "gotime \<Rightarrow> staticSource \<Rightarrow> product list" where
  "static_Products now s = [\<lparr>pr_ID = ss_id s, pr_VehicleID = ss_vehicleID s, pr_VIN = ss_vin s,
     pr_DisplayName = ss_displayName s, pr_State = ''online''\<rparr>]"

definition static_Summary :: "gotime \<Rightarrow> int \<Rightarrow> staticSource \<Rightarrow> summary option" where
  "static_Summary now tid s = (if tid \<noteq> ss_id s then None
     else Some \<lparr>su_ID = ss_id s, su_VehicleID = ss_vehicleID s, su_VIN = ss_vin s,
       su_DisplayName = ss_displayName s, su_State = ''online''\<rparr>)"

definition static_VehicleData :: "gotime \<Rightarrow> int \<Rightarrow> staticSource \<Rightarrow> vehicleData option \<times> staticSource" where
  "static_VehicleData now tid s = (if tid \<noteq> ss_id s then None
     else Some (newOnlineVehicleData now (ss_id s) (ss_vehicleID s) (ss_vin s) (ss_displayName s)), s)"

subsection \<open>The interface\<close>

text \<open>
  A data source lists its products; a summary is the listed product under its id; vehicle data
  exist for the listed ids, carry the product's identity and the load-bearing readings, and reading
  them changes no list.
\<close>

definition summaryOf :: "product \<Rightarrow> summary" where
  "summaryOf p = \<lparr>su_ID = pr_ID p, su_VehicleID = pr_VehicleID p, su_VIN = pr_VIN p,
     su_DisplayName = pr_DisplayName p, su_State = pr_State p\<rparr>"

definition sameCar :: "product \<Rightarrow> vehicleData \<Rightarrow> bool" where
  "sameCar p vd \<longleftrightarrow> vd_ID vd = pr_ID p \<and> vd_VehicleID vd = pr_VehicleID p \<and> vd_VIN vd = pr_VIN p \<and>
     vd_DisplayName vd = pr_DisplayName p"

locale data_source =
  fixes prods :: "'e \<Rightarrow> 's \<Rightarrow> product list"
    and summ :: "'e \<Rightarrow> int \<Rightarrow> 's \<Rightarrow> summary option"
    and vdata :: "'e \<Rightarrow> int \<Rightarrow> 's \<Rightarrow> vehicleData option \<times> 's"
    and wf :: "'s \<Rightarrow> bool"
  assumes summary_known: "wf s \<Longrightarrow> summ e tid s = map_option summaryOf (find (\<lambda>p. pr_ID p = tid) (prods e s))"
    and data_known: "wf s \<Longrightarrow> fst (vdata e tid s) \<noteq> None \<longleftrightarrow> tid \<in> pr_ID ` set (prods e s)"
    and data_same: "wf s \<Longrightarrow> fst (vdata e tid s) = Some vd \<Longrightarrow>
      find (\<lambda>p. pr_ID p = tid) (prods e s) = Some p \<Longrightarrow> sameCar p vd \<and> loadBearing vd"
    and data_wf: "wf s \<Longrightarrow> wf (snd (vdata e tid s))"
    and data_lists: "wf s \<Longrightarrow> prods e' (snd (vdata e tid s)) = prods e' s"

text \<open>A run of reads.\<close>

fun source_reads ::
  "('e \<Rightarrow> int \<Rightarrow> 's \<Rightarrow> vehicleData option \<times> 's) \<Rightarrow> ('e \<times> int) list \<Rightarrow> 's \<Rightarrow> vehicleData option list \<times> 's" where
  "source_reads vdata [] s = ([], s)"
| "source_reads vdata ((e, tid) # rs) s =
     (let (a, s1) = vdata e tid s; (as, s2) = source_reads vdata rs s1 in (a # as, s2))"

definition answers :: "product list \<Rightarrow> int \<Rightarrow> vehicleData option \<Rightarrow> bool" where
  "answers ps tid a \<longleftrightarrow> (case find (\<lambda>p. pr_ID p = tid) ps of
     None \<Rightarrow> a = None | Some p \<Rightarrow> (\<exists>vd. a = Some vd \<and> sameCar p vd \<and> loadBearing vd))"

context data_source
begin

lemma read_answers: "wf s \<Longrightarrow> answers (prods e s) tid (fst (vdata e tid s))"
  using data_known [of s e tid] data_same [of s e tid]
  by (cases "fst (vdata e tid s)")
    (auto simp: answers_def find_None_iff find_Some_iff split: option.split)

lemma reads_wf: "wf s \<Longrightarrow> wf (snd (source_reads vdata rs s))"
proof (induction rs arbitrary: s)
  case (Cons r rs)
  obtain e tid where r: "r = (e, tid)" by force
  show ?case using Cons.IH [OF data_wf [OF Cons.prems, of e tid]]
    by (simp add: r Let_def case_prod_unfold)
qed simp

lemma reads_list: "wf s \<Longrightarrow> prods e' (snd (source_reads vdata rs s)) = prods e' s"
proof (induction rs arbitrary: s)
  case (Cons r rs)
  obtain e tid where r: "r = (e, tid)" by force
  show ?case using Cons.IH [OF data_wf [OF Cons.prems, of e tid]] data_lists [OF Cons.prems, of e' e tid]
    by (simp add: r Let_def case_prod_unfold)
qed simp

lemma reads_answer:
  "wf s \<Longrightarrow> list_all2 (\<lambda>(e, tid) a. answers (prods e s) tid a) rs (fst (source_reads vdata rs s))"
proof (induction rs arbitrary: s)
  case (Cons r rs)
  obtain e tid where r: "r = (e, tid)" by force
  have "list_all2 (\<lambda>(e', t) a. answers (prods e' s) t a) rs (fst (source_reads vdata rs (snd (vdata e tid s))))"
    using Cons.IH [OF data_wf [OF Cons.prems, of e tid]] data_lists [OF Cons.prems] by (simp add: case_prod_unfold)
  then show ?case using read_answers [OF Cons.prems, of e tid]
    by (simp add: r Let_def case_prod_unfold)
qed simp

end

subsection \<open>The static source provides it\<close>

lemma newOnline_loadBearing: "loadBearing (newOnlineVehicleData now tid vid vin name)"
  by (auto simp: newOnlineVehicleData_def Let_def loadBearing_def teslaModelNames_def)

lemma newOnline_identity:
  "vd_ID (newOnlineVehicleData now tid vid vin name) = tid"
  "vd_VehicleID (newOnlineVehicleData now tid vid vin name) = vid"
  "vd_VIN (newOnlineVehicleData now tid vid vin name) = vin"
  "vd_DisplayName (newOnlineVehicleData now tid vid vin name) = name"
  by (simp_all add: newOnlineVehicleData_def Let_def)

interpretation static: data_source static_Products static_Summary static_VehicleData "\<lambda>_. True"
proof
  show "static_Summary e tid s = map_option summaryOf (find (\<lambda>p. pr_ID p = tid) (static_Products e s))" for e tid s
    by (simp add: static_Summary_def static_Products_def summaryOf_def)
  show "(fst (static_VehicleData e tid s) \<noteq> None) = (tid \<in> pr_ID ` set (static_Products e s))" for e tid s
    by (simp add: static_VehicleData_def static_Products_def)
  show "sameCar p vd \<and> loadBearing vd"
    if "fst (static_VehicleData e tid s) = Some vd"
      "find (\<lambda>p. pr_ID p = tid) (static_Products e s) = Some p" for e tid s p vd
    using that by (auto simp: static_VehicleData_def static_Products_def sameCar_def newOnline_loadBearing
      newOnline_identity split: if_splits)
  show "static_Products e' (snd (static_VehicleData e tid s)) = static_Products e' s" for e e' tid s
    by (simp add: static_VehicleData_def)
qed simp

subsection \<open>The adapter provides it\<close>

definition carries :: "teslaIdentity \<Rightarrow> vehicleData \<Rightarrow> bool" where
  "carries i vd \<longleftrightarrow> loadBearing vd \<and> vd_ID vd = ti_id i \<and> vd_VehicleID vd = ti_vehicleID i \<and>
     vd_VIN vd = ti_vin i \<and> vd_DisplayName vd = ti_displayName i"

definition entry_ok :: "int \<Rightarrow> vehicleEntry \<Rightarrow> bool" where
  "entry_ok tid e \<longleftrightarrow> ti_id (ve_identity e) = tid \<and>
     pred_option (carries (ve_identity e)) (ve_prev e) \<and> pred_option (carries (ve_identity e)) (ve_cached e)"

definition adapter_ok :: "sourceAdapter \<Rightarrow> bool" where
  "adapter_ok s \<longleftrightarrow> (\<forall>tid e. ad_byID s tid = Some e \<longrightarrow> entry_ok tid e) \<and> dom (ad_byID s) = set (ad_order s)"

lemma vehicleDataOf_identity [simp]:
  "vd_ID (vehicleDataOf now prev vso live ids cfg asOf) = fi_ID ids"
  "vd_VehicleID (vehicleDataOf now prev vso live ids cfg asOf) = fi_VehicleID ids"
  "vd_VIN (vehicleDataOf now prev vso live ids cfg asOf) = fi_VIN ids"
  "vd_DisplayName (vehicleDataOf now prev vso live ids cfg asOf) = fi_DisplayName ids"
  by (auto simp: vehicleDataOf_def asleepFallback_def Let_def split: option.split)

lemma idsForTranslate_sel [simp]:
  "fi_ID (idsForTranslate e) = ti_id (ve_identity e)"
  "fi_VehicleID (idsForTranslate e) = ti_vehicleID (ve_identity e)"
  "fi_VIN (idsForTranslate e) = ti_vin (ve_identity e)"
  "fi_DisplayName (idsForTranslate e) = ti_displayName (ve_identity e)"
  by (simp_all add: idsForTranslate_def)

lemma degrade_sel [simp]:
  "vd_ID (degradeIfStale now sa out t) = vd_ID out"
  "vd_VehicleID (degradeIfStale now sa out t) = vd_VehicleID out"
  "vd_VIN (degradeIfStale now sa out t) = vd_VIN out"
  "vd_DisplayName (degradeIfStale now sa out t) = vd_DisplayName out"
  "vd_ChargeState (degradeIfStale now sa out t) = vd_ChargeState out"
  "vd_ClimateState (degradeIfStale now sa out t) = vd_ClimateState out"
  "vd_DriveState (degradeIfStale now sa out t) = vd_DriveState out"
  "vd_VehicleConfig (degradeIfStale now sa out t) = vd_VehicleConfig out"
  "vd_VehicleState (degradeIfStale now sa out t) = vd_VehicleState out"
  by (simp_all add: degradeIfStale_def)

lemma loadBearing_degrade [simp]: "loadBearing (degradeIfStale now sa out t) = loadBearing out"
  by (simp add: loadBearing_def)

lemma carries_degrade [simp]: "carries i (degradeIfStale now sa out t) = carries i out"
  by (simp add: carries_def)

lemma encodeEntry_carries: "entry_ok tid e \<Longrightarrow> carries (ve_identity e) (encodeEntry now snap e)"
  unfolding carries_def encodeEntry_def
  by (auto simp: entry_ok_def carries_def intro!: vehicleDataOf_loadBearing)

lemma translate_ok:
  assumes "entry_ok tid e" and "translate now sa snap e = (hit, out, e')"
  shows "carries (ve_identity e) out" and "entry_ok tid e'" and "ve_identity e' = ve_identity e"
    and "ve_cfg e' = ve_cfg e"
  using assms encodeEntry_carries [OF assms(1), of now snap]
  by (auto simp: translate_def Let_def entry_ok_def split: option.splits if_splits)

lemma adapter_entry: "adapter_ok s \<Longrightarrow> ad_byID s tid = Some e \<Longrightarrow> entry_ok tid e"
  by (simp add: adapter_ok_def)

lemma adapter_find:
  assumes "adapter_ok s"
  shows "find (\<lambda>p. pr_ID p = tid) (adapter_Products np s) = map_option (entryProduct np s) (ad_byID s tid)"
proof -
  have "find (\<lambda>p. pr_ID p = tid) (map (entryProduct np s) (List.map_filter (ad_byID s) ts)) =
      (if tid \<in> set ts then map_option (entryProduct np s) (ad_byID s tid) else None)" for ts
  proof (induction ts)
    case (Cons t ts)
    have "ti_id (ve_identity e) = t" if "ad_byID s t = Some e" for e
      using adapter_entry [OF assms that] by (simp add: entry_ok_def)
    moreover have "pr_ID (entryProduct np s e) = ti_id (ve_identity e)" for e by (simp add: entryProduct_def)
    ultimately show ?case using Cons by (cases "ad_byID s t") (auto simp: map_filter_simps)
  qed (simp add: map_filter_simps)
  moreover have "ad_byID s tid = None" if "tid \<notin> set (ad_order s)"
    using assms that unfolding adapter_ok_def by blast
  ultimately show ?thesis by (simp add: adapter_Products_def)
qed

lemma adapter_read:
  assumes "adapter_ok s" and "adapter_VehicleData np tid s = (a, s')"
  shows "adapter_ok s'" and "ad_order s' = ad_order s" and "ad_staleAfter s' = ad_staleAfter s"
    and "ad_byVIN s' = ad_byVIN s"
    and "map_option ve_identity (ad_byID s' k) = map_option ve_identity (ad_byID s k)"
    and "a = None \<longleftrightarrow> ad_byID s tid = None"
proof -
  have "adapter_ok s' \<and> ad_order s' = ad_order s \<and> ad_staleAfter s' = ad_staleAfter s \<and>
    ad_byVIN s' = ad_byVIN s \<and>
    (map_option ve_identity (ad_byID s' k) = map_option ve_identity (ad_byID s k)) \<and>
    (a = None \<longleftrightarrow> ad_byID s tid = None)"
  proof (cases "ad_byID s tid")
    case None
    then show ?thesis using assms by (auto simp: adapter_VehicleData_def)
  next
    case (Some e)
    obtain hit out e' where t: "translate (fst np) (ad_staleAfter s)
        (pv_Latest (snd np) (ti_canonID (ve_identity e))) e = (hit, out, e')" by (metis surj_pair)
    note ok = translate_ok [OF adapter_entry [OF assms(1) Some] t]
    have s': "s' = s\<lparr>ad_byID := (ad_byID s)(tid \<mapsto> e'),
        ad_unchangedReads := (if hit then wrap64 (ad_unchangedReads s + 1) else ad_unchangedReads s)\<rparr>"
      and a: "a = Some out"
      using assms(2) by (simp_all add: adapter_VehicleData_def Some t)
    have "tid \<in> set (ad_order s)" using assms(1) Some unfolding adapter_ok_def by blast
    then have "adapter_ok s'" using assms(1) ok(2) unfolding adapter_ok_def s' by auto
    then show ?thesis using ok(3) Some by (simp add: s' a)
  qed
  then show "adapter_ok s'" "ad_order s' = ad_order s" "ad_staleAfter s' = ad_staleAfter s"
    "ad_byVIN s' = ad_byVIN s"
    "map_option ve_identity (ad_byID s' k) = map_option ve_identity (ad_byID s k)"
    "a = None \<longleftrightarrow> ad_byID s tid = None" by blast+
qed

lemma products_identity:
  assumes "ad_order s' = ad_order s" "ad_staleAfter s' = ad_staleAfter s"
    and "\<And>k. map_option ve_identity (ad_byID s' k) = map_option ve_identity (ad_byID s k)"
  shows "adapter_Products np s' = adapter_Products np s"
proof -
  have "map (entryProduct np s') (List.map_filter (ad_byID s') ts) =
      map (entryProduct np s) (List.map_filter (ad_byID s) ts)" for ts
  proof (induction ts)
    case (Cons t ts)
    show ?case using Cons assms(2) assms(3) [of t]
      by (cases "ad_byID s t"; cases "ad_byID s' t")
        (simp_all add: map_filter_simps entryProduct_def entryState_def)
  qed (simp add: map_filter_simps)
  then show ?thesis by (simp add: adapter_Products_def assms(1))
qed

interpretation adapter: data_source adapter_Products adapter_Summary adapter_VehicleData adapter_ok
proof
  fix s np tid assume ok: "adapter_ok s"
  note f = adapter_find [OF ok]
  obtain a s' where r: "adapter_VehicleData np tid s = (a, s')" by force
  show "adapter_Summary np tid s = map_option summaryOf (find (\<lambda>p. pr_ID p = tid) (adapter_Products np s))"
    unfolding f by (cases "ad_byID s tid") (simp_all add: adapter_Summary_def summaryOf_def entryProduct_def)
  have "tid \<in> pr_ID ` set (adapter_Products np s) \<longleftrightarrow> find (\<lambda>p. pr_ID p = tid) (adapter_Products np s) \<noteq> None"
    by (auto simp: find_None_iff)
  then show "(fst (adapter_VehicleData np tid s) \<noteq> None) = (tid \<in> pr_ID ` set (adapter_Products np s))"
    unfolding f using adapter_read(6) [OF ok r] by (simp add: r)
  show "sameCar p vd \<and> loadBearing vd" if d: "fst (adapter_VehicleData np tid s) = Some vd"
    and p: "find (\<lambda>p. pr_ID p = tid) (adapter_Products np s) = Some p" for p vd
  proof -
    obtain e where e: "ad_byID s tid = Some e" "p = entryProduct np s e" using p unfolding f by auto
    obtain hit out e' where t: "translate (fst np) (ad_staleAfter s)
        (pv_Latest (snd np) (ti_canonID (ve_identity e))) e = (hit, out, e')" by (metis surj_pair)
    have "vd = out" using d by (simp add: adapter_VehicleData_def e(1) t)
    then show ?thesis using translate_ok(1) [OF adapter_entry [OF ok e(1)] t]
      by (simp add: carries_def sameCar_def e(2) entryProduct_def)
  qed
  show "adapter_ok (snd (adapter_VehicleData np tid s))" using adapter_read(1) [OF ok r] by (simp add: r)
  show "adapter_Products np' (snd (adapter_VehicleData np tid s)) = adapter_Products np' s" for np'
    using products_identity [OF adapter_read(2,3,5) [OF ok r]] by (simp add: r)
qed

subsection \<open>Construction\<close>

definition servesVehicle :: "string \<Rightarrow> idMap \<times> sourceAdapter \<Rightarrow> bool" where
  "servesVehicle g ms \<longleftrightarrow> (\<exists>tid e. im_byKey (fst ms) g = Some tid \<and> ad_byID (snd ms) tid = Some e \<and>
     ti_canonID (ve_identity e) = g)"

lemma idmap_ID_key:
  assumes "idmap_ID fuel w g m = Some (Inr n, m')"
  shows "im_byKey m' g = Some n"
  using assms by (auto simp: idmap_ID_def Let_def split_beta split: option.splits)

lemma idmap_ID_dom:
  assumes "idmap_ID fuel w g m = Some (res, m')"
  shows "\<exists>n. dom (im_byID m') \<subseteq> insert n (dom (im_byID m))"
  using assms by (auto simp: idmap_ID_def Let_def split_beta split: option.splits)

lemma idmap_ID_card:
  assumes "idmap_ok m" "idmap_ID fuel w g m = Some (res, m')"
  shows "card (dom (im_byID m')) \<le> Suc (card (dom (im_byID m)))"
proof -
  have fin: "finite (dom (im_byID m))" using assms(1) by (simp add: idmap_ok_def)
  obtain n where "dom (im_byID m') \<subseteq> insert n (dom (im_byID m))" using idmap_ID_dom [OF assms(2)] by blast
  then have "card (dom (im_byID m')) \<le> card (insert n (dom (im_byID m)))" using fin by (intro card_mono) auto
  also have "\<dots> \<le> Suc (card (dom (im_byID m)))" by (simp add: fin card_insert_if)
  finally show ?thesis .
qed

lemma addVehicles_ok:
  assumes "idmap_ok m" "adapter_ok s" "addVehicles fuel wok ct vs (m, s) = Some (Inr (m', s'))"
  shows "idmap_ok m' \<and> adapter_ok s' \<and> ad_staleAfter s' = ad_staleAfter s \<and>
    (\<forall>g. servesVehicle g (m, s) \<or> g \<in> id_ID ` set vs \<longrightarrow> servesVehicle g (m', s'))"
  using assms
proof (induction vs arbitrary: m s)
  case (Cons v vs)
  obtain tid m1 where i1: "idmap_ID fuel (wok (id_ID v)) (id_ID v) m = Some (Inr tid, m1)"
    using Cons.prems(3) by (auto split: option.splits sum.splits)
  obtain vid m2 where i2: "idmap_ID fuel (wok (id_ID v @ '':vid'')) (id_ID v @ '':vid'') m1 = Some (Inr vid, m2)"
    using Cons.prems(3) i1 by (auto split: option.splits sum.splits)
  define e where "e = \<lparr>ve_identity = \<lparr>ti_canonID = id_ID v, ti_id = tid, ti_vehicleID = vid,
      ti_vin = id_VIN v, ti_displayName = id_DisplayName v\<rparr>,
      ve_cfg = \<lparr>fc_CarType = entryCarType ct (id_VIN v), fc_Model = id_Model v\<rparr>,
      ve_prev = None, ve_cached = None, ve_cachedAsOf = 0\<rparr>"
  define s1 where "s1 = s\<lparr>ad_byID := (ad_byID s)(tid \<mapsto> e),
      ad_byVIN := (if id_VIN v \<noteq> [] then (ad_byVIN s)(id_VIN v \<mapsto> tid) else ad_byVIN s),
      ad_order := ad_order s @ [tid]\<rparr>"
  have rest: "addVehicles fuel wok ct vs (m2, s1) = Some (Inr (m', s'))"
    using Cons.prems(3) i1 i2 by (simp add: Let_def s1_def e_def)
  have m1: "idmap_ok m1" "im_byKey m \<subseteq>\<^sub>m im_byKey m1" using idmap_ID_ok [OF Cons.prems(1) i1] by auto
  have m2: "idmap_ok m2" "im_byKey m1 \<subseteq>\<^sub>m im_byKey m2" using idmap_ID_ok [OF m1(1) i2] by auto
  have keep: "im_byKey m g = Some n \<Longrightarrow> im_byKey m2 g = Some n" for g n
    using m1(2) m2(2) by (metis map_le_def domI)
  have key: "im_byKey m2 (id_ID v) = Some tid"
    using idmap_ID_key [OF i1] m2(2) by (metis map_le_def domI)
  have inj: "im_byKey m2 a = Some k \<Longrightarrow> im_byKey m2 b = Some k \<Longrightarrow> a = b" for a b k
    using m2(1) unfolding idmap_ok_def by (metis option.inject)
  have "entry_ok tid e" by (simp add: entry_ok_def e_def)
  then have s1: "adapter_ok s1" using Cons.prems(2) by (auto simp: adapter_ok_def s1_def)
  have new: "servesVehicle (id_ID v) (m2, s1)"
    using key by (auto simp: servesVehicle_def s1_def e_def)
  have old: "servesVehicle g (m2, s1)" if g: "servesVehicle g (m, s)" for g
  proof -
    obtain k f where k: "im_byKey m g = Some k" "ad_byID s k = Some f" "ti_canonID (ve_identity f) = g"
      using g by (auto simp: servesVehicle_def)
    show ?thesis
    proof (cases "k = tid")
      case True
      then have "g = id_ID v" using inj keep [OF k(1)] key by blast
      with new show ?thesis by simp
    next
      case False
      then show ?thesis using k keep by (auto simp: servesVehicle_def s1_def)
    qed
  qed
  have "ad_staleAfter s1 = ad_staleAfter s" by (simp add: s1_def)
  then show ?case using Cons.IH [OF m2(1) s1 rest] new old by auto
qed auto

lemma addVehicles_total:
  assumes "idmap_ok m" "card (dom (im_byID m)) + 2 * length vs < fuel" "int fuel \<le> maxInt64"
  shows "\<exists>r. addVehicles fuel (\<lambda>_. True) ct vs (m, s) = Some (Inr r)"
  using assms
proof (induction vs arbitrary: m s)
  case (Cons v vs)
  have step: "\<exists>n m1. idmap_ID fuel True g k = Some (Inr n, m1) \<and> idmap_ok m1 \<and>
      card (dom (im_byID m1)) \<le> Suc (card (dom (im_byID k)))"
    if k: "idmap_ok k" "card (dom (im_byID k)) < fuel" for g k
  proof -
    obtain r m1 where r: "idmap_ID fuel True g k = Some (r, m1)"
      using idmap_ID_total [OF k(1,2) Cons.prems(3)] by (metis surj_pair)
    then obtain n where "r = Inr n" using idmap_ID_ok(2) [OF k(1) r] by blast
    then show ?thesis using r idmap_ID_ok(1) [OF k(1) r] idmap_ID_card [OF k(1) r] by blast
  qed
  obtain n m1 where 1: "idmap_ID fuel True (id_ID v) m = Some (Inr n, m1)" "idmap_ok m1"
      "card (dom (im_byID m1)) \<le> Suc (card (dom (im_byID m)))"
    using step [OF Cons.prems(1)] Cons.prems(2) by fastforce
  obtain n2 m2 where 2: "idmap_ID fuel True (id_ID v @ '':vid'') m1 = Some (Inr n2, m2)" "idmap_ok m2"
      "card (dom (im_byID m2)) \<le> Suc (card (dom (im_byID m1)))"
    using step [OF 1(2)] 1(3) Cons.prems(2) by fastforce
  show ?case using Cons.IH [OF 2(2)] 1 2 Cons.prems(2,3) by (simp add: Let_def)
qed simp

lemma adapter_empty_ok: "adapter_ok \<lparr>ad_staleAfter = sa, ad_byID = Map.empty, ad_byVIN = Map.empty,
    ad_order = [], ad_unchangedReads = 0\<rparr>"
  by (simp add: adapter_ok_def)

lemma newSourceAdapter_ok:
  assumes "idmap_ok ids" "newSourceAdapter fuel wok prov ids sa ct = Some (Inr ad)"
  shows "adapter_ok ad" "ad_staleAfter ad = sa"
    and "v \<in> set (pv_Vehicles prov) \<Longrightarrow> \<exists>tid e. ad_byID ad tid = Some e \<and> ti_canonID (ve_identity e) = id_ID v \<and> 0 < tid"
proof -
  obtain m' where a: "addVehicles fuel wok ct (pv_Vehicles prov) (ids, \<lparr>ad_staleAfter = sa,
      ad_byID = Map.empty, ad_byVIN = Map.empty, ad_order = [], ad_unchangedReads = 0\<rparr>) = Some (Inr (m', ad))"
    using assms(2) unfolding newSourceAdapter_def map_option_eq_Some
    by (elim exE conjE, rename_tac z, case_tac z) auto
  note ok = addVehicles_ok [OF assms(1) adapter_empty_ok a]
  show "adapter_ok ad" "ad_staleAfter ad = sa" using ok by auto
  assume "v \<in> set (pv_Vehicles prov)"
  then have "servesVehicle (id_ID v) (m', ad)" using ok by blast
  then obtain tid e where "im_byKey m' (id_ID v) = Some tid" "ad_byID ad tid = Some e"
      "ti_canonID (ve_identity e) = id_ID v" by (auto simp: servesVehicle_def)
  moreover have "0 < tid" using ok calculation(1) unfolding idmap_ok_def by fastforce
  ultimately show "\<exists>tid e. ad_byID ad tid = Some e \<and> ti_canonID (ve_identity e) = id_ID v \<and> 0 < tid" by blast
qed

lemma newSourceAdapter_total:
  assumes "idmap_ok ids" "card (dom (im_byID ids)) + 2 * length (pv_Vehicles prov) < fuel" "int fuel \<le> maxInt64"
  shows "\<exists>ad. newSourceAdapter fuel (\<lambda>_. True) prov ids sa ct = Some (Inr ad)"
  using addVehicles_total [OF assms, of ct] by (fastforce simp: newSourceAdapter_def)

subsection \<open>The fast path\<close>

text \<open>Encoding a snapshot again on top of its own payload changes nothing.\<close>

definition trimSettled :: "state option \<Rightarrow> bool" where
  "trimSettled vso = (case vso of None \<Rightarrow> True | Some vs \<Rightarrow> st_TrimBadging vs = [] \<or> st_CarType vs \<noteq> [])"

definition configNames :: "vehicleData option \<Rightarrow> state option \<Rightarrow> fleetCfg \<Rightarrow> string \<times> string" where
  "configNames prev vs cfg =
     teslaMateCarTypeTrim (firstNonEmpty [stateCarType vs, prevCarType prev, fc_CarType cfg, ''model3''])
       (firstNonEmpty [stateTrim vs, prevTrim prev, fc_Model cfg])"

lemma vehicleConfig_names:
  "vehicleConfig prev vs cfg ms = zeroWireVehicleConfig\<lparr>vc_CarType := Some (fst (configNames prev vs cfg)),
     vc_Rhd := Some False, vc_Timestamp := Some ms,
     vc_TrimBadging := (if snd (configNames prev vs cfg) \<noteq> [] then Some (snd (configNames prev vs cfg)) else None)\<rparr>"
  by (simp add: vehicleConfig_def configNames_def Let_def case_prod_unfold zeroWireVehicleConfig_def)

lemma teslaMate_known: "teslaModelNames c = None \<Longrightarrow> teslaMateCarTypeTrim c t = (c, t)"
  by (simp add: teslaMateCarTypeTrim_def)

lemma teslaMate_cases:
  obtains "teslaModelNames c = None" "teslaMateCarTypeTrim c t = (c, t)"
  | name where "teslaModelNames c = Some name" "name \<noteq> []" "teslaMateCarTypeTrim c t = (''model3'', name)"
  by (cases "teslaModelNames c")
    (auto simp: teslaMateCarTypeTrim_def teslaModelNames_def split: if_splits)

lemma configNames_again:
  assumes "trimSettled (Some vs)" and "vd_VehicleConfig p = Some (vehicleConfig prev (Some vs) cfg ms)"
  shows "configNames (Some p) (Some vs) cfg = configNames prev (Some vs) cfg"
proof -
  define c0 t0 where "c0 = firstNonEmpty [stateCarType (Some vs), prevCarType prev, fc_CarType cfg, ''model3'']"
    and "t0 = firstNonEmpty [stateTrim (Some vs), prevTrim prev, fc_Model cfg]"
  have n: "configNames prev (Some vs) cfg = teslaMateCarTypeTrim c0 t0" by (simp add: configNames_def c0_def t0_def)
  have p: "prevCarType (Some p) = fst (teslaMateCarTypeTrim c0 t0)"
    "prevTrim (Some p) = snd (teslaMateCarTypeTrim c0 t0)"
    using assms(2) by (simp_all add: vehicleConfig_names prevCarType_def prevTrim_def derefStr_def n)
  have c0: "c0 \<noteq> []" unfolding c0_def by (rule firstNonEmpty_last [of "''model3''"]) simp_all
  have s: "st_TrimBadging vs = [] \<or> st_CarType vs \<noteq> []" using assms(1) by (simp add: trimSettled_def)
  have t: "st_TrimBadging vs \<noteq> [] \<Longrightarrow> t0 = st_TrimBadging vs" "st_CarType vs \<noteq> [] \<Longrightarrow> c0 = st_CarType vs"
    by (simp_all add: t0_def c0_def stateTrim_def stateCarType_def)
  have t0: "st_TrimBadging vs = [] \<Longrightarrow> t0 = [] \<Longrightarrow> fc_Model cfg = []"
    by (simp add: t0_def stateTrim_def split: if_splits)
  show ?thesis
  proof (rule teslaMate_cases [of c0 t0])
    assume "teslaModelNames c0 = None" "teslaMateCarTypeTrim c0 t0 = (c0, t0)"
    then show ?thesis unfolding n using c0 t t0
      by (cases "st_CarType vs = []"; cases "st_TrimBadging vs = []")
        (auto simp: configNames_def p stateCarType_def stateTrim_def)
  next
    fix name assume k: "teslaModelNames c0 = Some name" "name \<noteq> []" "teslaMateCarTypeTrim c0 t0 = (''model3'', name)"
    show ?thesis
    proof (cases "st_CarType vs = []")
      case True
      then show ?thesis unfolding n using s k
        by (simp add: configNames_def p stateCarType_def stateTrim_def teslaMate_known)
    next
      case False
      then show ?thesis unfolding n using k t(2) [OF False]
        by (simp add: configNames_def stateCarType_def teslaMateCarTypeTrim_def)
    qed
  qed
qed

lemma vehicleConfig_again:
  assumes "trimSettled (Some vs)" and "vd_VehicleConfig p = Some (vehicleConfig prev (Some vs) cfg ms)"
  shows "vehicleConfig (Some p) (Some vs) cfg ms' = (vehicleConfig prev (Some vs) cfg ms)\<lparr>vc_Timestamp := Some ms'\<rparr>"
  unfolding vehicleConfig_names configNames_again [OF assms] by simp

text \<open>The encodings depend on the previous payload only through the readings they hold.\<close>

definition chargeWith ::
  "int option \<Rightarrow> int option \<Rightarrow> f64 option \<Rightarrow> f64 option \<Rightarrow> state \<Rightarrow> liveSession option \<Rightarrow> int \<Rightarrow> wireChargeState" where
  "chargeWith level limit rng energy vs live ms =
     (let cs0 = zeroWireChargeState\<lparr>cs_Timestamp := Some ms, cs_BatteryLevel := level,
             cs_UsableBatteryLevel := level, cs_ChargeLimitSoc := limit,
             cs_BatteryHeaterOn := Some (st_BatteryHeaterOn vs),
             cs_IdealBatteryRange := rng, cs_EstBatteryRange := rng, cs_BatteryRange := rng,
             cs_ChargingState := Some (chargingState (st_Charger vs) (st_Plug vs)),
             cs_ChargePortDoorOpen := Some (st_ChargePortOpen vs)\<rparr>;
          cs1 = (chargeLive None vs live cs0)\<lparr>cs_ChargeEnergyAdded := energy\<rparr>
      in chargeKind live (cs1\<lparr>cs_ChargeRate := Some fzero\<rparr>))"

lemma chargeState_with:
  "chargeState prev vs live ms = chargeWith (cs_BatteryLevel (chargeState prev vs live ms))
     (cs_ChargeLimitSoc (chargeState prev vs live ms)) (cs_IdealBatteryRange (chargeState prev vs live ms))
     (cs_ChargeEnergyAdded (chargeState prev vs live ms)) vs live ms"
proof -
  define level limit rng energy where
    "level = cs_BatteryLevel (chargeState prev vs live ms)"
    and "limit = cs_ChargeLimitSoc (chargeState prev vs live ms)"
    and "rng = cs_IdealBatteryRange (chargeState prev vs live ms)"
    and "energy = cs_ChargeEnergyAdded (chargeState prev vs live ms)"
  note held = chargeState_fields(1-3) [of prev vs live ms, folded level_def limit_def rng_def]
  have "chargeState prev vs live ms = chargeWith level limit rng energy vs live ms"
  proof (cases live)
    case None
    have "energy = (if Option.bind (pcs prev) cs_ChargeEnergyAdded \<noteq> None
       then Option.bind (pcs prev) cs_ChargeEnergyAdded else Some fzero)"
      unfolding energy_def chargeState_fields by (simp only: None option.case)
    note energy = this [symmetric]
    show ?thesis
      unfolding chargeState_def Let_def held [symmetric] chargeWith_def chargeLive_def None option.case energy
      by (simp add: zeroWireChargeState_def)
  next
    case (Some l)
    have energy: "Some (ls_TotalChargedEnergy l) = energy"
      unfolding energy_def chargeState_fields by (simp add: Some)
    show ?thesis
      unfolding chargeState_def Let_def held [symmetric] chargeWith_def chargeLive_def Some option.case energy
      by (simp add: zeroWireChargeState_def)
  qed
  then show ?thesis unfolding level_def limit_def rng_def energy_def .
qed

lemma chargeState_again:
  assumes p: "vd_ChargeState p = Some (chargeState prev vs live ms)"
  shows "chargeState (Some p) vs live ms = chargeState prev vs live ms"
proof -
  have h: "pcs (Some p) = Some (chargeState prev vs live ms)" by (simp add: p)
  have "cs_BatteryLevel (chargeState (Some p) vs live ms) = cs_BatteryLevel (chargeState prev vs live ms)"
    unfolding chargeState_fields(1) [of "Some p"] h by (simp add: chargeState_fields(1))
  moreover have "cs_ChargeLimitSoc (chargeState (Some p) vs live ms) = cs_ChargeLimitSoc (chargeState prev vs live ms)"
    unfolding chargeState_fields(2) [of "Some p"] h by (simp add: chargeState_fields(2))
  moreover have "cs_IdealBatteryRange (chargeState (Some p) vs live ms) = cs_IdealBatteryRange (chargeState prev vs live ms)"
    unfolding chargeState_fields(3) [of "Some p"] h by (simp add: chargeState_fields(3))
  moreover have "cs_ChargeEnergyAdded (chargeState (Some p) vs live ms) = cs_ChargeEnergyAdded (chargeState prev vs live ms)"
    unfolding chargeState_fields(10) [of "Some p"] h by (cases live) (simp_all add: chargeState_fields(10))
  ultimately show ?thesis by (metis chargeState_with)
qed

definition driveWith ::
  "string option \<Rightarrow> f64 option \<Rightarrow> f64 option \<Rightarrow> int option \<Rightarrow> state \<Rightarrow> int \<Rightarrow> wireDriveState" where
  "driveWith shift lat lon gps vs ms = zeroWireDriveState\<lparr>ds_Timestamp := Some ms,
     ds_Power := st_DrivePowerKw vs, ds_ShiftState := shift, ds_Latitude := lat, ds_Longitude := lon,
     ds_GpsAsOf := gps, ds_Heading := Some (f2i (st_HeadingDeg vs)), ds_Speed := Some (mpsToMph (st_SpeedMps vs))\<rparr>"

lemma driveState_with:
  "driveState prev vs ms = driveWith (ds_ShiftState (driveState prev vs ms)) (ds_Latitude (driveState prev vs ms))
     (ds_Longitude (driveState prev vs ms)) (ds_GpsAsOf (driveState prev vs ms)) vs ms"
  unfolding driveState_fields
  by (cases prev; cases "vd_DriveState (the prev)"; cases "st_Location vs")
    (simp_all add: driveState_def driveWith_def zeroWireDriveState_def Let_def)

lemma driveState_again:
  assumes "vd_DriveState p = Some (driveState prev vs ms)"
  shows "driveState (Some p) vs ms = driveState prev vs ms"
proof -
  have "driveWith (ds_ShiftState (driveState (Some p) vs ms)) (ds_Latitude (driveState (Some p) vs ms))
     (ds_Longitude (driveState (Some p) vs ms)) (ds_GpsAsOf (driveState (Some p) vs ms)) vs ms =
    driveWith (ds_ShiftState (driveState prev vs ms)) (ds_Latitude (driveState prev vs ms))
     (ds_Longitude (driveState prev vs ms)) (ds_GpsAsOf (driveState prev vs ms)) vs ms"
    by (simp add: driveState_fields assms split: option.split)
  then show ?thesis by (simp only: driveState_with [symmetric])
qed

lemma vehicleState_again:
  assumes "vd_VehicleState p = Some (vehicleState prev vs ids ms)"
  shows "vehicleState (Some p) vs ids ms = vehicleState prev vs ids ms"
proof -
  have "vst_Odometer (vehicleState prev vs ids ms) = (let h = Option.bind (Option.bind prev vd_VehicleState) vst_Odometer
      in if st_OdometerMeters vs = 0 \<and> h \<noteq> None then h else Some (metersToMiles (i2f (st_OdometerMeters vs))))"
    and "vst_CarVersion (vehicleState prev vs ids ms) = (let h = Option.bind (Option.bind prev vd_VehicleState) vst_CarVersion
      in if st_OtaVersion vs \<noteq> [] then Some (st_OtaVersion vs) else if h \<noteq> None then h else Some [])"
    by (simp_all add: vehicleState_def Let_def)
  then show ?thesis
    by (simp add: vehicleState_def [of "Some p"] assms) (simp add: vehicleState_def Let_def)
qed

lemma vehicleDataOf_again:
  assumes "trimSettled vso" and "asOf \<noteq> 0"
  shows "vehicleDataOf now' (Some (vehicleDataOf now prev vso live ids cfg asOf)) vso live ids cfg asOf =
     vehicleDataOf now prev vso live ids cfg asOf"
proof (cases vso)
  case None
  then show ?thesis by (cases prev) (simp_all add: vehicleDataOf_def asleepFallback_def Let_def)
next
  case (Some vs)
  let ?p = "vehicleDataOf now prev vso live ids cfg asOf"
  define ms where "ms = unixMilli asOf"
  have t: "unixMilli (snapTime n vs asOf) = ms" for n using assms(2) by (simp add: snapTime_def ms_def)
  have p: "vd_ChargeState ?p = Some (chargeState prev vs live ms)"
    "vd_DriveState ?p = Some (driveState prev vs ms)"
    "vd_VehicleConfig ?p = Some (vehicleConfig prev (Some vs) cfg ms)"
    "vd_VehicleState ?p = Some (vehicleState prev vs ids ms)"
    by (simp_all add: Some vehicleDataOf_def Let_def t)
  have "vc_Timestamp (vehicleConfig prev (Some vs) cfg ms) = Some ms" by (simp add: vehicleConfig_names)
  then have "vehicleConfig (Some ?p) (Some vs) cfg ms = vehicleConfig prev (Some vs) cfg ms"
    using vehicleConfig_again [OF _ p(3)] assms(1) by (simp add: Some)
  then show ?thesis
    using chargeState_again [OF p(1)] driveState_again [OF p(2)] vehicleState_again [OF p(4)]
    by (simp add: Some vehicleDataOf_def Let_def t)
qed

lemma encode_again:
  assumes "trimSettled (sn_State snap)" and "asOfTime snap \<noteq> 0"
    and "ve_prev e' = Some (encodeEntry now snap e)" and "ve_identity e' = ve_identity e" "ve_cfg e' = ve_cfg e"
  shows "encodeEntry now' snap e' = encodeEntry now snap e"
  using vehicleDataOf_again [OF assms(1,2)] assms(3-5) by (simp add: encodeEntry_def idsForTranslate_def)

end
