(* ===== verification/FleetServer.thy ===== *)
theory FleetServer
  imports FleetAdapterLaws
begin

section \<open>The HTTP surface of the Fleet sink\<close>

text \<open>
  \<^verbatim>\<open>internal/protocol/tesla/fleet/poll/v1/server.go\<close> and \<^verbatim>\<open>introspect.go\<close>: the handlers behind the
  routes, the bearer check and the request counters. The router is a library: a request comes with
  the route it matched, or none (the library's own not-found answer), and its \<^verbatim>\<open>Authorization\<close>
  header, empty when absent. A response is its status and its body before JSON encoding; log lines
  and the memory statistics of the runtime are left out.

  The server takes any \<^verbatim>\<open>VehicleDataSource\<close>: its operations are the record \<open>sourceOps\<close>, with the
  two optional capabilities the code asks for by a type assertion, tag resolution and introspection.
\<close>

record ('e, 's) introOps =
  io_Status :: "'e \<Rightarrow> 's \<Rightarrow> vehicleStatus list"
  io_Extras :: "'e \<Rightarrow> int \<Rightarrow> 's \<Rightarrow> (state option \<times> liveSession option \<times> gotime) option"
  io_VehicleCount :: "'s \<Rightarrow> nat"
  io_UnchangedReads :: "'s \<Rightarrow> int"

record ('e, 's) sourceOps =
  so_Products :: "'e \<Rightarrow> 's \<Rightarrow> product list option"
  so_Summary :: "'e \<Rightarrow> int \<Rightarrow> 's \<Rightarrow> summary option"
  so_VehicleData :: "'e \<Rightarrow> int \<Rightarrow> 's \<Rightarrow> vehicleData option \<times> 's"
  so_ResolveTag :: "(string \<Rightarrow> 's \<Rightarrow> int option) option"
  so_Intro :: "('e, 's) introOps option"

definition adapterOps :: "(gotime \<times> provider, sourceAdapter) sourceOps" where
  "adapterOps = \<lparr>so_Products = (\<lambda>np s. Some (adapter_Products np s)), so_Summary = adapter_Summary,
     so_VehicleData = adapter_VehicleData, so_ResolveTag = Some adapter_ResolveTag,
     so_Intro = Some \<lparr>io_Status = adapter_Status, io_Extras = adapter_Extras,
       io_VehicleCount = adapter_VehicleCount, io_UnchangedReads = adapter_UnchangedReads\<rparr>\<rparr>"

definition staticOps :: "(gotime, staticSource) sourceOps" where
  "staticOps = \<lparr>so_Products = (\<lambda>now s. Some (static_Products now s)), so_Summary = static_Summary,
     so_VehicleData = static_VehicleData, so_ResolveTag = None, so_Intro = None\<rparr>"

subsection \<open>Requests and responses\<close>

datatype route = RToken | RProducts | RVehicles | RSummary string | RVehicleData string
  | RStatus | RStats | RExtras string

fun routePattern :: "route \<Rightarrow> string" where
  "routePattern RToken = ''/api/oauth2/v3/token''"
| "routePattern RProducts = ''/api/1/products''"
| "routePattern RVehicles = ''/api/1/vehicles''"
| "routePattern (RSummary _) = ''/api/1/vehicles/{id}''"
| "routePattern (RVehicleData _) = ''/api/1/vehicles/{id}/vehicle_data''"
| "routePattern RStatus = ''/status''"
| "routePattern RStats = ''/stats''"
| "routePattern (RExtras _) = ''/api/1/vehicles/{id}/source_extras''"

record statsView =
  sw_uptimeSeconds :: f64
  sw_vehiclesKnown :: nat
  sw_requests :: "string \<rightharpoonup> int"
  sw_polls :: int
  sw_changes :: int
  sw_errors :: int
  sw_rateLimited :: int
  sw_reads :: int
  sw_unchangedReads :: int
  sw_readsPerMin :: f64
  sw_pollsPerMin :: f64
  sw_changesPerMin :: f64
  sw_readsPerPoll :: f64
  sw_readsPerChange :: f64
  sw_changeRatio :: f64
  sw_cacheHitRatio :: f64

datatype body = TokenBody string gotime | ProductsBody "product list" | SummaryBody summary
  | DataBody vehicleData | StatusBody "vehicleStatus list" | StatsBody statsView
  | ExtrasBody "state option \<times> liveSession option \<times> gotime" | ErrorBody string | RouterNotFound

record server =
  sv_authToken :: string
  sv_startedAt :: gotime
  sv_counters :: "string \<rightharpoonup> int"

definition newServer :: "gotime \<Rightarrow> string \<Rightarrow> server" where
  "newServer now authToken = \<lparr>sv_authToken = authToken, sv_startedAt = now, sv_counters = Map.empty\<rparr>"

definition counters_inc :: "string \<Rightarrow> (string \<rightharpoonup> int) \<Rightarrow> (string \<rightharpoonup> int)" where
  "counters_inc pattern m = (if pattern = [] then m
     else m(pattern \<mapsto> wrap64 ((case m pattern of None \<Rightarrow> 0 | Some n \<Rightarrow> n) + 1)))"

subsection \<open>The handlers\<close>

definition authorized :: "string \<Rightarrow> string \<Rightarrow> bool" where
  "authorized token header \<longleftrightarrow> token = [] \<or> trim_prefix ''Bearer '' header = token"

definition handleToken :: "gotime \<Rightarrow> server \<Rightarrow> int \<times> body" where
  "handleToken now sv = (200, TokenBody (if sv_authToken sv \<noteq> [] then sv_authToken sv else ''qts-local'') now)"

definition pathID :: "('e, 's) sourceOps \<Rightarrow> string \<Rightarrow> 's \<Rightarrow> int option" where
  "pathID ops tag s = (case so_ResolveTag ops of Some resolve \<Rightarrow> resolve tag s | None \<Rightarrow> parseInt64 tag)"

definition notFound :: "int \<times> body" where
  "notFound = (404, ErrorBody ''not_found'')"

definition handleProducts :: "('e, 's) sourceOps \<Rightarrow> 'e \<Rightarrow> 's \<Rightarrow> int \<times> body" where
  "handleProducts ops e s = (case so_Products ops e s of
     None \<Rightarrow> (500, ErrorBody ''internal_error'') | Some ps \<Rightarrow> (200, ProductsBody ps))"

definition handleSummary :: "('e, 's) sourceOps \<Rightarrow> 'e \<Rightarrow> string \<Rightarrow> 's \<Rightarrow> int \<times> body" where
  "handleSummary ops e tag s = (case pathID ops tag s of
     None \<Rightarrow> notFound
   | Some tid \<Rightarrow> (case so_Summary ops e tid s of None \<Rightarrow> notFound | Some x \<Rightarrow> (200, SummaryBody x)))"

definition handleVehicleDataRoute :: "('e, 's) sourceOps \<Rightarrow> 'e \<Rightarrow> string \<Rightarrow> 's \<Rightarrow> (int \<times> body) \<times> 's" where
  "handleVehicleDataRoute ops e tag s = (case pathID ops tag s of
     None \<Rightarrow> (notFound, s)
   | Some tid \<Rightarrow> (case so_VehicleData ops e tid s of
       (None, s') \<Rightarrow> (notFound, s') | (Some vd, s') \<Rightarrow> ((200, DataBody vd), s')))"

definition handleExtras :: "('e, 's) sourceOps \<Rightarrow> ('e, 's) introOps \<Rightarrow> 'e \<Rightarrow> string \<Rightarrow> 's \<Rightarrow> int \<times> body" where
  "handleExtras ops io e tag s = (case pathID ops tag s of
     None \<Rightarrow> notFound
   | Some tid \<Rightarrow> (case io_Extras io e tid s of None \<Rightarrow> notFound | Some x \<Rightarrow> (200, ExtrasBody x)))"

text \<open>\<^verbatim>\<open>Duration.Minutes\<close>, and the two ratios of the statistics.\<close>

definition duration_minutes :: "duration \<Rightarrow> f64" where
  "duration_minutes d = fadd (i2f (go_quot d Minute)) (fdiv (i2f (go_rem d Minute)) (i2f Minute))"

definition perMinute :: "f64 \<Rightarrow> int \<Rightarrow> f64" where
  "perMinute uptimeMin n = (if fle uptimeMin fzero then fzero else fdiv (i2f n) uptimeMin)"

definition ratio :: "int \<Rightarrow> int \<Rightarrow> f64" where
  "ratio a b = (if b = 0 then fzero else fdiv (i2f a) (i2f b))"

definition statusTotal :: "(vehicleStatus \<Rightarrow> int) \<Rightarrow> vehicleStatus list \<Rightarrow> int" where
  "statusTotal f vs = fold (\<lambda>v n. wrap64 (n + f v)) vs 0"

definition handleStats :: "('e, 's) introOps \<Rightarrow> gotime \<Rightarrow> 'e \<Rightarrow> server \<Rightarrow> 's \<Rightarrow> int \<times> body" where
  "handleStats io now e sv s =
     (let st = io_Status io e s;
          polls = statusTotal vs_PollSuccess st;
          changes = statusTotal vs_PollChanged st;
          reads = (case sv_counters sv ''/api/1/vehicles/{id}/vehicle_data'' of None \<Rightarrow> 0 | Some n \<Rightarrow> n);
          up = time_sub now (sv_startedAt sv);
          upMin = duration_minutes up
      in (200, StatsBody \<lparr>sw_uptimeSeconds = duration_seconds up, sw_vehiclesKnown = io_VehicleCount io s,
           sw_requests = sv_counters sv, sw_polls = polls, sw_changes = changes,
           sw_errors = statusTotal vs_PollErrors st, sw_rateLimited = statusTotal vs_RateLimited st,
           sw_reads = reads, sw_unchangedReads = io_UnchangedReads io s,
           sw_readsPerMin = perMinute upMin reads, sw_pollsPerMin = perMinute upMin polls,
           sw_changesPerMin = perMinute upMin changes, sw_readsPerPoll = ratio reads polls,
           sw_readsPerChange = ratio reads changes, sw_changeRatio = ratio changes polls,
           sw_cacheHitRatio = ratio reads polls\<rparr>))"

subsection \<open>The handler\<close>

text \<open>
  The routes the handler registers, those behind the bearer check, and one request: it is counted
  under its pattern after it was answered, a refused one too.
\<close>

definition registered :: "('e, 's) sourceOps \<Rightarrow> route \<Rightarrow> bool" where
  "registered ops r = (case r of RStatus \<Rightarrow> so_Intro ops \<noteq> None | RStats \<Rightarrow> so_Intro ops \<noteq> None
     | RExtras _ \<Rightarrow> so_Intro ops \<noteq> None | _ \<Rightarrow> True)"

definition dispatch ::
  "('e, 's) sourceOps \<Rightarrow> gotime \<Rightarrow> 'e \<Rightarrow> route \<Rightarrow> server \<Rightarrow> 's \<Rightarrow> (int \<times> body) \<times> 's" where
  "dispatch ops now e r sv s =
     (case r of
        RToken \<Rightarrow> (handleToken now sv, s)
      | RProducts \<Rightarrow> (handleProducts ops e s, s)
      | RVehicles \<Rightarrow> (handleProducts ops e s, s)
      | RSummary tag \<Rightarrow> (handleSummary ops e tag s, s)
      | RVehicleData tag \<Rightarrow> handleVehicleDataRoute ops e tag s
      | RStatus \<Rightarrow> (case so_Intro ops of None \<Rightarrow> ((404, RouterNotFound), s)
          | Some io \<Rightarrow> ((200, StatusBody (io_Status io e s)), s))
      | RStats \<Rightarrow> (case so_Intro ops of None \<Rightarrow> ((404, RouterNotFound), s)
          | Some io \<Rightarrow> (handleStats io now e sv s, s))
      | RExtras tag \<Rightarrow> (case so_Intro ops of None \<Rightarrow> ((404, RouterNotFound), s)
          | Some io \<Rightarrow> (handleExtras ops io e tag s, s)))"

definition server_handle ::
  "('e, 's) sourceOps \<Rightarrow> gotime \<Rightarrow> 'e \<Rightarrow> route option \<Rightarrow> string \<Rightarrow> server \<times> 's \<Rightarrow> (int \<times> body) \<times> server \<times> 's" where
  "server_handle ops now e rt header st =
     (let (sv, s) = st in
      case rt of
        Some r \<Rightarrow>
          if registered ops r then
            let (resp, s') = (if r = RToken \<or> authorized (sv_authToken sv) header
                              then dispatch ops now e r sv s
                              else ((401, ErrorBody ''unauthorized''), s))
            in (resp, sv\<lparr>sv_counters := counters_inc (routePattern r) (sv_counters sv)\<rparr>, s')
          else ((404, RouterNotFound), sv, s)
      | None \<Rightarrow> ((404, RouterNotFound), sv, s))"

end
