(* ===== verification/CacheClaims.thy ===== *)
theory CacheClaims
  imports Service StreamSink
begin

section \<open>Properties of the merged cache\<close>

text \<open>
  The properties of \<^verbatim>\<open>internal/cache\<close>, each over the model's own operations, with a witness for
  each that has a hypothesis. The concrete vehicles, frames and environments of the witnesses come
  first.
\<close>

subsection \<open>Concrete inputs\<close>

definition quietEnv :: cenv where
  "quietEnv = \<lparr>en_now = 0, en_asofOk = False, en_replayOk = False\<rparr>"

definition parkedState :: state where
  "parkedState = zeroState\<lparr>st_Power := PowerOnline, st_Gear := GearPark, st_BatteryLevelPct := Fin 80\<rparr>"

definition parkedPoll :: snapshot where
  "parkedPoll = zeroSnapshot\<lparr>sn_State := Some parkedState, sn_FetchedAt := 100\<rparr>"

definition socFrame :: snapshot where
  "socFrame = zeroSnapshot\<lparr>sn_State := Some (zeroState\<lparr>st_BatteryLevelPct := Fin 70\<rparr>),
     sn_FetchedAt := 200, sn_StreamPresent := flag SfSOC\<rparr>"

definition streamedMerger :: merger where
  "streamedMerger = (newMerger ''v'')\<lparr>mg_snap := zeroSnapshot\<lparr>sn_State := Some (parkedState\<lparr>st_BatteryLevelPct := Fin 70\<rparr>),
     sn_FetchedAt := 100, sn_StreamFields := 200, sn_StreamPresent := flag SfSOC, sn_AsOf := 200\<rparr>\<rparr>"

definition chargingMerger :: merger where
  "chargingMerger = streamedMerger\<lparr>mg_snap :=
     (mg_snap streamedMerger)\<lparr>sn_Live := Some (zeroLive\<lparr>ls_PowerKw := Fin 7\<rparr>)\<rparr>\<rparr>"

definition chargeFrame :: snapshot where
  "chargeFrame = zeroSnapshot\<lparr>sn_State := Some zeroState,
     sn_Live := Some (zeroLive\<lparr>ls_PowerKw := Fin 7, ls_TotalChargedEnergy := Fin 3\<rparr>),
     sn_FetchedAt := 200, sn_StreamPresent := flag SfChargePower\<rparr>"

definition plainShared :: cshared where
  "plainShared = \<lparr>sh_integrity = Some zeroIntegrity, sh_session = Some zeroSession, sh_asof = None\<rparr>"

definition oneVehicle :: "identity list" where
  "oneVehicle = [\<lparr>id_ID = ''v'', id_VIN = ''VIN'', id_DisplayName = ''car'',
     id_Make = ''Tesla'', id_Model = ''model3''\<rparr>]"

subsection \<open>The served time\<close>

text \<open>
  C1: the time a vehicle's data are served under never goes back, whatever polls, stream frames,
  subscriptions and flushes happen, in any order and for any vehicles: the times observed after
  each operation are sorted.
\<close>

theorem served_time_monotone:
  "sorted (map (\<lambda>n. servedAt vid (fold service_step (take n as) s)) [0..<Suc (length as)])"
  by (rule servedAts.observed_sorted)

lemma restart_total:
  assumes "service_ok s" and "sh_asof (sv_shared s) = Some st" and "as_path st \<noteq> ''''"
  shows "\<exists>s'. service_restart idents FileMissing (service_FlushAsOf (e\<lparr>en_asofOk := True\<rparr>) s) = Inr s'"
  using assms by (simp add: service_restart_def service_FlushAsOf_def asof_Flush_def asof_persist_def
      newService_def newAsofStore_def newReplayBuffer_def Let_def)

lemma step_asof_some:
  "\<exists>st. sh_asof (sv_shared s) = Some st \<and> as_path st = p \<Longrightarrow>
   \<exists>st. sh_asof (sv_shared (service_step a s)) = Some st \<and> as_path st = p"
proof -
  assume s: "\<exists>st. sh_asof (sv_shared s) = Some st \<and> as_path st = p"
  obtain e b where a: "a = (e, b)" by fastforce
  show ?thesis
  proof (cases rule: step_shapes [of e b s])
    case (merger vid m mop)
    then show ?thesis using s step_asof_form [of "sv_staleAfter s" e mop m "sv_shared s"]
      by (auto simp: a)
  qed (use s in \<open>auto simp: a asof_Flush_def\<close>)
qed

lemma run_asof_some:
  "\<exists>st. sh_asof (sv_shared s) = Some st \<and> as_path st = p \<Longrightarrow>
   \<exists>st. sh_asof (sv_shared (fold service_step as s)) = Some st \<and> as_path st = p"
  by (induction as arbitrary: s) (simp_all add: step_asof_some)

text \<open>
  C2: a service started from an AsOf file with non-negative marks, run through any operations,
  whose marks are then flushed with success, can be restarted from what it left on disk, and every
  vehicle of the restarted service is served at exactly the time it was served at before.
\<close>

theorem restart_resumes_served_time:
  assumes start: "newService idents d path asofData replayFile replayData depth = Inr s0"
    and path: "path \<noteq> ''''"
    and marks: "\<And>m vid t. asofData = FileData m \<Longrightarrow> m vid = Some t \<Longrightarrow> 0 \<le> t"
    and vid: "vid \<in> id_ID ` set idents"
  shows "\<exists>s'. service_restart idents FileMissing
      (service_FlushAsOf (e\<lparr>en_asofOk := True\<rparr>) (fold service_step as s0)) = Inr s' \<and>
    servedAt vid s' = servedAt vid (fold service_step as s0)"
proof -
  let ?s = "fold service_step as s0"
  have ok: "service_ok ?s" using newService_ok [OF start marks] by (rule run_ok)
  obtain store where store: "newAsofStore path asofData = Inr store"
      and s0: "sh_asof (sv_shared s0) = Some store"
      "sv_mergers s0 = (\<lambda>vid. if vid \<in> id_ID ` set idents
           then Some (newPersistedMerger vid (asof_Get vid store)) else None)"
    using start by (rule newService_mergers)
  have "as_path store = path"
    using store path by (auto simp: newAsofStore_def Let_def split: fileState.splits)
  then obtain st where st: "sh_asof (sv_shared ?s) = Some st" "as_path st = path"
    using run_asof_some [of s0 path as] s0 by auto
  have "vid \<in> dom (sv_mergers s0)" using s0 vid by auto
  then have v: "sv_mergers ?s vid \<noteq> None" using run_dom [of as s0] by blast
  obtain s' where s': "service_restart idents FileMissing (service_FlushAsOf (e\<lparr>en_asofOk := True\<rparr>) ?s) = Inr s'"
    using restart_total [OF ok st(1)] st(2) path by blast
  show ?thesis using restart_resumes [OF ok st(1) _ v vid s'] st(2) path s' by blast
qed

definition freshService :: service where
  "freshService =
     (let store = \<lparr>as_path = ''f'', as_byID = Map.empty, as_lastFlushed = 0, as_file = FileMissing\<rparr> in
      \<lparr>sv_mergers = [''v'' \<mapsto> newPersistedMerger ''v'' 0], sv_order = [''v''], sv_identities = oneVehicle,
       sv_staleAfter = 0, sv_shared = \<lparr>sh_integrity = Some zeroIntegrity, sh_session = Some zeroSession,
         sh_asof = Some store\<rparr>,
       sv_replay = \<lparr>rb_path = ''r'', rb_depth = 2, rb_byID = Map.empty, rb_lastFlushed = 0,
         rb_file = FileMissing\<rparr>, sv_hasTrigger = False, sv_streamFreshWithin = 0\<rparr>)"

lemma freshService_new: "newService oneVehicle 0 ''f'' FileMissing ''r'' FileMissing 2 = Inr freshService"
  by (simp add: freshService_def newService_def newAsofStore_def newReplayBuffer_def oneVehicle_def
      asof_Get_def Let_def)

lemma restart_resumes_served_time_witness:
  "\<exists>s'. service_restart oneVehicle FileMissing (service_FlushAsOf (quietEnv\<lparr>en_asofOk := True\<rparr>)
      (fold service_step [(quietEnv, SvMergePoll ''v'' parkedPoll)] freshService)) = Inr s' \<and>
    servedAt ''v'' s' = servedAt ''v'' (fold service_step [(quietEnv, SvMergePoll ''v'' parkedPoll)] freshService)"
  by (rule restart_resumes_served_time [OF freshService_new]) (simp_all add: oneVehicle_def)

subsection \<open>Merging\<close>

lemma classify_power:
  "st_Power (fst (classifyPollLiveness s prev m)) =
     (if st_Power s = PowerOffline
      then if (if mg_offlineCount m = 0 then \<not> inDrive (gearOf prev) else \<not> mg_offlineDriving m) \<and>
          2 \<le> wrap64 (mg_offlineCount m + 1) then PowerSleep else PowerOffline
      else st_Power s)"
  by (auto simp: classifyPollLiveness_def offlineSleepConfirmPolls_def Let_def)

lemma pollState_power: "st_Power (pollState prev pollSnap s) = st_Power s"
  by (simp add: pollState_def)

lemma streamOut_State:
  assumes "sn_State (mg_snap m) = Some ps" and "sn_State frame = Some s"
  shows "sn_State (streamOut m sh frame) = Some ((copyStreamed ps s (gatedPresent m sh frame))\<lparr>st_Power :=
    (if st_Power ps = PowerUnknown \<or> st_Power ps = PowerOffline then PowerOnline else st_Power ps)\<rparr>)"
proof -
  have "c = c\<lparr>st_Power := st_Power ps\<rparr>" if "st_Power c = st_Power ps" for c :: state
    using that by simp
  then show ?thesis using assms by (simp add: streamOut_def streamOnto_def Let_def)
qed

text \<open>
  C3: a poll merged over a served snapshot never regresses what a fresher stream wrote. While the
  last frame is newer than the poll, every field of the state the stream has supplied keeps the
  served value, and so does a live charging session; every other field of the state, a live session
  when none is served, and all of them once the poll is the newer one, are the poll's. The liveness
  alone is computed: an offline poll is served as asleep from the second one in a row on if the
  vehicle was not driving when they began, and an online one as offline when neither the poll nor
  the last frame is younger than the stale age; otherwise it is the poll's.
\<close>

theorem poll_merge_fieldwise:
  fixes e d m sh pollSnap ps s
  defines "served \<equiv> mg_snap (fst (snd (mergePoll e pollSnap d (m, sh))))"
    and "fresher \<equiv> sn_StreamFields (mg_snap m) \<noteq> 0 \<and> sn_FetchedAt pollSnap < sn_StreamFields (mg_snap m)"
    and "parkedBefore \<equiv>
      (if mg_offlineCount m = 0 then \<not> inDrive (gearOf (mg_snap m)) else \<not> mg_offlineDriving m)"
    and "bothStale \<equiv> 0 < d \<and> sn_StreamFields (mg_snap m) \<noteq> 0 \<and>
      d < time_sub (en_now e) (sn_StreamFields (mg_snap m)) \<and>
      (sn_FetchedAt pollSnap = 0 \<or> d < time_sub (en_now e) (sn_FetchedAt pollSnap))"
  assumes "sn_State (mg_snap m) = Some ps" and "sn_State pollSnap = Some s"
  shows "\<exists>st. sn_State served = Some st \<and> pollOwnedEq st s \<and>
    (\<forall>f. streamedEq f st (if fresher \<and> has_flag (sn_StreamPresent (mg_snap m)) f then ps else s)) \<and>
    sn_Live served = (if fresher \<and> sn_Live (mg_snap m) \<noteq> None then sn_Live (mg_snap m) else sn_Live pollSnap) \<and>
    st_Power st =
      (if st_Power s = PowerOffline
       then if parkedBefore \<and> 2 \<le> wrap64 (mg_offlineCount m + 1) then PowerSleep else PowerOffline
       else if st_Power s = PowerOnline \<and> bothStale then PowerOffline else st_Power s)"
proof -
  have fr: "streamFresher (mg_snap m) pollSnap \<longleftrightarrow> fresher"
    using assms(5,6) by (simp add: streamFresher_def fresher_def)
  obtain st where st: "sn_State served = Some st" "pollOwnedEq st s"
      "\<And>f. \<not> (fresher \<and> has_flag (sn_StreamPresent (mg_snap m)) f) \<Longrightarrow> streamedEq f st s"
    using poll_supplies_rest [OF assms(6), of e d m sh] unfolding served_def fr by blast
  have keep: "fresher \<Longrightarrow> has_flag (sn_StreamPresent (mg_snap m)) f \<Longrightarrow> streamedEq f st ps" for f
    using poll_keeps_streamed [OF _ assms(5), of pollSnap f e d sh] fr st(1) unfolding served_def by auto
  have live: "sn_Live served =
      (if fresher \<and> sn_Live (mg_snap m) \<noteq> None then sn_Live (mg_snap m) else sn_Live pollSnap)"
    unfolding served_def mergePoll_served(3) pollLive_def fr by (auto split: option.split)
  have "st = (let s1 = fst (classifyPollLiveness (pollState (mg_snap m) pollSnap s) (mg_snap m) m) in
      if bothStale \<and> st_Power s1 = PowerOnline then s1\<lparr>st_Power := PowerOffline\<rparr> else s1)"
    using st(1) assms(6) unfolding served_def mergePoll_State
    by (simp add: pollStaleBoth_def staleBoth_def bothStale_def Let_def)
  then have "st_Power st =
      (if st_Power s = PowerOffline
       then if parkedBefore \<and> 2 \<le> wrap64 (mg_offlineCount m + 1) then PowerSleep else PowerOffline
       else if st_Power s = PowerOnline \<and> bothStale then PowerOffline else st_Power s)"
    by (simp add: classify_power pollState_power Let_def parkedBefore_def)
  then show ?thesis using st keep live by auto
qed

lemma poll_merge_fieldwise_witness:
  "\<exists>st. sn_State (mg_snap (fst (snd (mergePoll quietEnv (parkedPoll\<lparr>sn_FetchedAt := 150\<rparr>) 0
      (chargingMerger, plainShared))))) = Some st \<and> st_BatteryLevelPct st = Fin 70 \<and>
    st_Gear st = GearPark \<and> st_Power st = PowerOnline \<and>
    sn_Live (mg_snap (fst (snd (mergePoll quietEnv (parkedPoll\<lparr>sn_FetchedAt := 150\<rparr>) 0
      (chargingMerger, plainShared))))) = Some (zeroLive\<lparr>ls_PowerKw := Fin 7\<rparr>)"
proof -
  have prev: "sn_State (mg_snap chargingMerger) = Some (parkedState\<lparr>st_BatteryLevelPct := Fin 70\<rparr>)"
    and poll: "sn_State (parkedPoll\<lparr>sn_FetchedAt := 150\<rparr>) = Some parkedState"
    by (simp_all add: chargingMerger_def streamedMerger_def parkedPoll_def)
  obtain st where st: "sn_State (mg_snap (fst (snd (mergePoll quietEnv (parkedPoll\<lparr>sn_FetchedAt := 150\<rparr>) 0
      (chargingMerger, plainShared))))) = Some st"
    and eq: "\<And>f. streamedEq f st
      (if (sn_StreamFields (mg_snap chargingMerger) \<noteq> 0 \<and>
          sn_FetchedAt (parkedPoll\<lparr>sn_FetchedAt := 150\<rparr>) < sn_StreamFields (mg_snap chargingMerger)) \<and>
          has_flag (sn_StreamPresent (mg_snap chargingMerger)) f
       then parkedState\<lparr>st_BatteryLevelPct := Fin 70\<rparr> else parkedState)"
    and live: "sn_Live (mg_snap (fst (snd (mergePoll quietEnv (parkedPoll\<lparr>sn_FetchedAt := 150\<rparr>) 0
      (chargingMerger, plainShared))))) = Some (zeroLive\<lparr>ls_PowerKw := Fin 7\<rparr>)"
    and power: "st_Power st = PowerOnline"
    using poll_merge_fieldwise [OF prev poll, of quietEnv 0 plainShared]
    by (auto simp: chargingMerger_def streamedMerger_def parkedState_def)
  show ?thesis using st eq [of SfSOC] eq [of SfGear] live power
    by (intro exI [of _ st]) (simp add: chargingMerger_def streamedMerger_def parkedState_def)
qed

text \<open>
  C4: a stream frame merged over a served snapshot sets exactly the fields it carries that the
  integrity gate finds plausible and keeps every other field. A live session keeps its other
  readings and takes the frame's power when the frame carries one other than zero, the current and
  the energy when it carries them; with no session served, a frame with one of the three opens one.
  It never wakes a sleeping vehicle: that one stays asleep, and any other is served as online, or as
  offline when neither this frame nor the last poll is younger than the stale age.
\<close>

theorem frame_merge_fieldwise:
  fixes e d m sh frame ps s
  defines "served \<equiv> mg_snap (fst (snd (mergeStream e frame d (m, sh))))"
    and "carries \<equiv> \<lambda>f. has_flag (sn_StreamPresent frame) f \<and>
      fieldPlausible (Some ps) s (mg_gpsAt m) (mg_odoAt m) (sn_FetchedAt frame) f"
    and "bothStale \<equiv> 0 < d \<and> sn_FetchedAt frame \<noteq> 0 \<and> d < time_sub (en_now e) (sn_FetchedAt frame) \<and>
      (sn_FetchedAt (mg_snap m) = 0 \<or> d < time_sub (en_now e) (sn_FetchedAt (mg_snap m)))"
  assumes "sn_State (mg_snap m) = Some ps" and "sn_State frame = Some s" and "sh_integrity sh \<noteq> None"
  shows "\<exists>st. sn_State served = Some st \<and> pollOwnedEq st ps \<and>
    (\<forall>f. streamedEq f st (if carries f then s else ps)) \<and>
    sn_Live served = (case (sn_Live frame, sn_Live (mg_snap m)) of
        (None, old) \<Rightarrow> old
      | (Some new, None) \<Rightarrow>
          if carries SfChargePower \<and> fne (ls_PowerKw new) (Fin 0) \<or> carries SfChargeCurrent \<or>
             carries SfChargeEnergyIn then Some new else None
      | (Some new, Some old) \<Rightarrow> Some (old\<lparr>
          ls_PowerKw := (if carries SfChargePower \<and> fne (ls_PowerKw new) (Fin 0)
             then ls_PowerKw new else ls_PowerKw old),
          ls_CurrentA := (if carries SfChargeCurrent then ls_CurrentA new else ls_CurrentA old),
          ls_TotalChargedEnergy := (if carries SfChargeEnergyIn
             then ls_TotalChargedEnergy new else ls_TotalChargedEnergy old)\<rparr>)) \<and>
    st_Power st = (if st_Power ps = PowerSleep then PowerSleep
      else if bothStale then PowerOffline else PowerOnline)"
proof -
  let ?P = "gatedPresent m sh frame"
  have g: "has_flag ?P f \<longleftrightarrow> carries f" for f
    using gatedPresent_plausible [OF assms(6,5)] assms(4) by (simp add: carries_def)
  define p where "p = (if st_Power ps = PowerUnknown \<or> st_Power ps = PowerOffline
    then PowerOnline else st_Power ps)"
  have out: "sn_State (streamOut m sh frame) = Some ((copyStreamed ps s ?P)\<lparr>st_Power := p\<rparr>)"
    using streamOut_State [OF assms(4,5)] by (simp add: p_def)
  have stale: "staleBoth (en_now e) d (streamOut m sh frame) \<longleftrightarrow> bothStale"
    using assms(4) by (simp add: staleBoth_def streamOut_times bothStale_def)
  have "sn_State served = Some ((copyStreamed ps s ?P)\<lparr>st_Power :=
      (if bothStale \<and> p = PowerOnline then PowerOffline else p)\<rparr>)"
    unfolding served_def mergeStream_def by (simp add: mergeStream_snap degradeStale_State out stale)
  moreover have "(if bothStale \<and> p = PowerOnline then PowerOffline else p) =
      (if st_Power ps = PowerSleep then PowerSleep else if bothStale then PowerOffline else PowerOnline)"
    by (cases "st_Power ps") (simp_all add: p_def)
  moreover have "sn_Live served = mergeLive ?P (sn_Live frame) (sn_Live (mg_snap m))"
    unfolding served_def mergeStream_def using assms(4)
    by (simp add: mergeStream_snap streamOut_def streamOnto_def)
  ultimately show ?thesis
    by (intro exI [of _ "(copyStreamed ps s ?P)\<lparr>st_Power := (if bothStale \<and> p = PowerOnline
          then PowerOffline else p)\<rparr>"])
       (auto simp: copyStreamed_present copyStreamed_absent g [symmetric] mergeLive_def Let_def
          split: option.split)
qed

lemma frame_merge_fieldwise_witness:
  "\<exists>st. sn_State (mg_snap (fst (snd (mergeStream quietEnv chargeFrame 0
      ((newMerger ''v'')\<lparr>mg_snap := parkedPoll\<lparr>sn_Live := Some (zeroLive\<lparr>ls_CurrentA := Fin 16\<rparr>)\<rparr>\<rparr>, plainShared))))) = Some st \<and>
    st_BatteryLevelPct st = Fin 80 \<and> st_Power st = PowerOnline \<and>
    sn_Live (mg_snap (fst (snd (mergeStream quietEnv chargeFrame 0
      ((newMerger ''v'')\<lparr>mg_snap := parkedPoll\<lparr>sn_Live := Some (zeroLive\<lparr>ls_CurrentA := Fin 16\<rparr>)\<rparr>\<rparr>, plainShared))))) =
      Some (zeroLive\<lparr>ls_PowerKw := Fin 7, ls_CurrentA := Fin 16\<rparr>)"
proof -
  let ?m = "(newMerger ''v'')\<lparr>mg_snap := parkedPoll\<lparr>sn_Live := Some (zeroLive\<lparr>ls_CurrentA := Fin 16\<rparr>)\<rparr>\<rparr>"
  have prev: "sn_State (mg_snap ?m) = Some parkedState" and frame: "sn_State chargeFrame = Some zeroState"
    and count: "sh_integrity plainShared \<noteq> None"
    by (simp_all add: parkedPoll_def chargeFrame_def plainShared_def)
  obtain st where st: "sn_State (mg_snap (fst (snd (mergeStream quietEnv chargeFrame 0 (?m, plainShared))))) = Some st"
    and eq: "\<And>f. streamedEq f st
      (if has_flag (sn_StreamPresent chargeFrame) f \<and>
          fieldPlausible (Some parkedState) zeroState (mg_gpsAt ?m) (mg_odoAt ?m) (sn_FetchedAt chargeFrame) f
       then zeroState else parkedState)"
    and live: "sn_Live (mg_snap (fst (snd (mergeStream quietEnv chargeFrame 0 (?m, plainShared))))) =
      Some (zeroLive\<lparr>ls_PowerKw := Fin 7, ls_CurrentA := Fin 16\<rparr>)"
    and power: "st_Power st = PowerOnline"
    using frame_merge_fieldwise [OF prev frame count, of quietEnv 0]
    by (auto simp: chargeFrame_def parkedPoll_def parkedState_def zeroLive_def fieldPlausible_def)
  show ?thesis using st eq [of SfSOC] live power
    by (intro exI [of _ st]) (simp add: chargeFrame_def parkedState_def)
qed

subsection \<open>The integrity gate\<close>

lemma f64_range: "\<not> flt x (Fin a) \<and> \<not> flt (Fin b) x \<longleftrightarrow> x = NaN \<or> (\<exists>r. x = Fin r \<and> a \<le> r \<and> r \<le> b)"
  by (cases x) auto

text \<open>
  C11: what the gate lets through of a frame: a battery level exactly when it lies in 0 to 100, a
  speed exactly when it lies in 0 to 150 m/s, but either of them also when it is not a number; an
  odometer, once one is known, only when it is at most 2 m behind it; and it adds no field.
\<close>

theorem gate_accepts:
  fixes n p present gpsAt odoAt now
  defines "out \<equiv> fst (gateStream (Some p) (Some n) present gpsAt odoAt now)"
  shows "(has_flag out SfSOC \<longleftrightarrow> has_flag present SfSOC \<and>
      (st_BatteryLevelPct n = NaN \<or> (\<exists>x. st_BatteryLevelPct n = Fin x \<and> 0 \<le> x \<and> x \<le> 100))) \<and>
    (has_flag out SfSpeed \<longleftrightarrow> has_flag present SfSpeed \<and>
      (st_SpeedMps n = NaN \<or> (\<exists>x. st_SpeedMps n = Fin x \<and> 0 \<le> x \<and> x \<le> 150))) \<and>
    (has_flag out SfOdometer \<and> 0 < st_OdometerMeters p \<longrightarrow>
      - 2 \<le> wrap64 (st_OdometerMeters n - st_OdometerMeters p)) \<and>
    (\<forall>f. has_flag out f \<longrightarrow> has_flag present f)"
proof -
  have m: "maxSpeedMps = Fin 150" using round64_of_int [of 150] by (simp add: maxSpeedMps_def)
  show ?thesis
    unfolding out_def gateStream_flag fieldPlausible_def m
    by (auto simp: f64_range odoPlausible_def odometerSlackMeters_def Let_def)
qed

lemma gate_accepts_witness:
  "has_flag (fst (gateStream (Some parkedState) (Some (zeroState\<lparr>st_BatteryLevelPct := NaN\<rparr>)) (flag SfSOC) 0 0 0)) SfSOC"
  using gate_accepts [of parkedState "zeroState\<lparr>st_BatteryLevelPct := NaN\<rparr>" "flag SfSOC" 0 0 0] by simp

definition cleared :: "streamField \<Rightarrow> gateAcc \<Rightarrow> streamFlag set" where
  "cleared present acc = {f. has_flag present f \<and> \<not> has_flag (fst acc) f}"

definition gateBooks :: "streamField \<Rightarrow> gateAcc \<Rightarrow> bool" where
  "gateBooks present acc \<longleftrightarrow> (\<forall>f. has_flag (fst acc) f \<longrightarrow> has_flag present f) \<and>
     card (cleared present acc) = length (snd acc)"

lemma finite_flags: "finite (A :: streamFlag set)"
proof -
  have "iota ` (UNIV :: streamFlag set) \<subseteq> {..<23}" using iota_less by auto
  then have "finite (iota ` (UNIV :: streamFlag set))" by (rule finite_subset) simp
  then have "finite (UNIV :: streamFlag set)" by (rule finite_imageD) (auto simp: inj_on_def)
  then show ?thesis by (rule finite_subset [OF subset_UNIV])
qed

lemma reject_books:
  assumes "gateBooks present acc" and "has_flag (fst acc) f"
  shows "gateBooks present (reject f r acc)"
proof -
  have "cleared present (reject f r acc) = insert f (cleared present acc)" "f \<notin> cleared present acc"
    using assms by (auto simp: cleared_def gateBooks_def)
  then show ?thesis using assms finite_flags by (simp add: gateBooks_def)
qed

lemma gate_step_books:
  assumes "gateBooks present acc"
  shows "gateBooks present (gateSOC n acc)" "gateBooks present (gateSpeed n acc)"
    "gateBooks present (gateOdometer p n o' t acc)" "gateBooks present (gateGps p n g t acc)"
  using assms reject_books [OF assms]
  by (simp_all add: gateSOC_def gateSpeed_def gateOdometer_def gateGps_def Let_def split: option.split)

text \<open>
  Every field the gate withholds is reported: a frame's rejections, which
  the merger counts one by one, are as many as the fields cleared.
\<close>

theorem gate_reports_every_drop:
  "length (snd (gateStream prev n present gpsAt odoAt now)) =
     card {f. has_flag present f \<and> \<not> has_flag (fst (gateStream prev n present gpsAt odoAt now)) f}"
proof -
  have b: "gateBooks present (present, [])"
    by (simp add: gateBooks_def cleared_def)
  have "gateBooks present (gateStream prev n present gpsAt odoAt now)"
    unfolding gateStream_def Let_def
    by (cases "n"; cases prev) (simp_all add: b gate_step_books)
  then show ?thesis by (simp add: gateBooks_def cleared_def)
qed

subsection \<open>Sessions and wakes\<close>

text \<open>
  C12: after a frame of a vehicle that was not asleep, a run of frames of a sleeping vehicle
  requests a confirming poll at most once: at the first frame that is at least the third of the
  run and at least three seconds after the first of it.
\<close>

theorem wake_fires_once:
  fixes ts t0 w
  assumes "length ts < 2 ^ 63"
  defines "verdicts \<equiv> fst (wake_run ((False, t0) # map (Pair True) ts) w)"
  shows "(\<forall>i<length ts. verdicts ! Suc i \<longleftrightarrow>
      (2 \<le> i \<and> 3 * Second \<le> time_sub (ts ! i) (ts ! 0)) \<and>
      (\<forall>j<i. \<not> (2 \<le> j \<and> 3 * Second \<le> time_sub (ts ! j) (ts ! 0)))) \<and>
    card {i. i < length ts \<and> verdicts ! Suc i} \<le> 1"
proof -
  let ?w = "w\<lparr>wd_count := 0, wd_fired := False\<rparr>"
  have v: "verdicts = False # fst (wake_run (map (Pair True) ts) ?w)"
    by (simp add: verdicts_def split_beta)
  show ?thesis
    unfolding v using wake_run_asleep [of ?w ts] wake_count_at_most_one [of ?w ts] assms(1)
    by (simp add: wake_qualifies_def wakeSustainWindow_def)
qed

lemma wake_fires_once_witness:
  "fst (wake_run ((False, 0) # map (Pair True) [0, Second, 2 * Second, 3 * Second, 4 * Second]) zeroWake) ! 4 \<and>
   \<not> fst (wake_run ((False, 0) # map (Pair True) [0, Second, 2 * Second, 3 * Second, 4 * Second]) zeroWake) ! 5"
proof -
  let ?ts = "[0, Second, 2 * Second, 3 * Second, 4 * Second] :: gotime list"
  define v where "v = fst (wake_run ((False, 0) # map (Pair True) ?ts) zeroWake)"
  have len: "length ?ts < 2 ^ 63" by simp
  note verdicts = wake_fires_once [OF len, of 0 zeroWake, THEN conjunct1, folded v_def]
  have small: "j < 3 \<longleftrightarrow> j = 0 \<or> j = 1 \<or> j = 2" for j :: nat by auto
  have "v ! Suc 3"
    using verdicts [rule_format, of 3] by (auto simp: small time_sub_def minInt64_def maxInt64_def)
  moreover have "\<not> v ! Suc 4"
    using verdicts [rule_format, of 4] by (auto simp: time_sub_def minInt64_def maxInt64_def dest: spec [of _ 3])
  ultimately show ?thesis unfolding v_def [symmetric] by (simp add: eval_nat_numeral)
qed

text \<open>The boundaries a run of frames fires, each with its time and whether it opens a drive.\<close>

fun drive_run :: "(snapshot \<times> snapshot \<times> gotime) list \<Rightarrow> driveDebouncer \<Rightarrow> (gotime \<times> bool) list" where
  "drive_run [] dd = []"
| "drive_run ((prev, now, t) # fs) dd =
     (let (fired, dd') = drive_boundary prev now t dd in
      (if fired then [(t, inDrive (gearOf now))] else []) @ drive_run fs dd')"

lemma drive_run_next:
  "dd_set dd \<Longrightarrow> drive_run fs dd = (t, c) # bs \<Longrightarrow>
     c \<noteq> dd_class dd \<and> driveFlapWindow \<le> time_sub t (dd_at dd)"
proof (induction fs arbitrary: dd)
  case (Cons f fs)
  obtain prev now t' where f: "f = (prev, now, t')" by (cases f) auto
  obtain fired dd' where s: "drive_boundary prev now t' dd = (fired, dd')" by fastforce
  note st = drive_boundary_step [OF s]
  show ?case
  proof (cases fired)
    case True
    then show ?thesis using Cons.prems st by (auto simp: f s drive_seeded_def)
  next
    case False
    then show ?thesis using Cons.IH [of dd'] Cons.prems st by (simp add: f s drive_seeded_def)
  qed
qed simp

text \<open>
  C13: over any run of frames, two consecutive drive boundaries are at least five seconds apart and
  alternate between the start and the end of a drive, so a flapping gear opens no second session.
\<close>

theorem drive_boundaries_alternate:
  "successively (\<lambda>(t, c) (t', c'). c' = (\<not> c) \<and> 5 * Second \<le> time_sub t' t) (drive_run fs dd)"
proof (induction fs arbitrary: dd)
  case (Cons f fs)
  obtain prev now t where f: "f = (prev, now, t)" by (cases f) auto
  obtain fired dd' where s: "drive_boundary prev now t dd = (fired, dd')" by fastforce
  note st = drive_boundary_step [OF s]
  show ?case
  proof (cases "drive_run fs dd'")
    case Nil
    then show ?thesis by (simp add: f s)
  next
    case (Cons b bs)
    obtain t' c' where b: "b = (t', c')" by fastforce
    have n: "c' \<noteq> dd_class dd' \<and> driveFlapWindow \<le> time_sub t' (dd_at dd')"
      using drive_run_next [OF st(1)] Cons b by blast
    show ?thesis
      using Cons.IH [of dd'] n st(3,4) Cons b by (auto simp: f s driveFlapWindow_def)
  qed
qed simp

text \<open>
  From a new merger, after any run of fewer than \<open>2 ^ 63\<close> operations, the drives counted as
  opened and as closed differ by at most one, and neither is more than the number of operations.
\<close>

theorem drive_counters_balance:
  assumes "int (length as) \<le> maxInt64"
    and "sh_session (snd (fold (merger_step d) as (newMerger vid, plainShared))) = Some c"
  shows "\<bar>sc_drivesOpened c - sc_drivesClosed c\<bar> \<le> 1 \<and>
    0 \<le> sc_drivesOpened c \<and> sc_drivesOpened c \<le> int (length as) \<and>
    0 \<le> sc_drivesClosed c \<and> sc_drivesClosed c \<le> int (length as)"
proof -
  have "driveBalanced 0 (newMerger vid, plainShared)"
    by (simp add: driveBalanced_def plainShared_def zeroSession_def newMerger_def zeroDrive_def)
  then have b: "driveBalanced (int (length as)) (fold (merger_step d) as (newMerger vid, plainShared))"
    using run_balanced [of 0 "(newMerger vid, plainShared)" as d] assms(1) by simp
  then have "\<bar>sc_drivesOpened c - sc_drivesClosed c\<bar> \<le> 1"
    using balanced_diff assms(2) by (metis prod.collapse)
  then show ?thesis using b assms(2) by (simp add: driveBalanced_def)
qed

lemma drive_counters_balance_witness:
  "\<exists>c. sh_session (snd (fold (merger_step 0) [(quietEnv, PollOp parkedPoll)] (newMerger ''v'', plainShared))) = Some c \<and>
    \<bar>sc_drivesOpened c - sc_drivesClosed c\<bar> \<le> 1"
proof -
  have "sh_session (snd (fold (merger_step 0) [(quietEnv, PollOp parkedPoll)] (newMerger ''v'', plainShared))) =
      Some zeroSession"
    by (simp add: plainShared_def)
  moreover from this have "\<bar>sc_drivesOpened zeroSession - sc_drivesClosed zeroSession\<bar> \<le> 1"
    by (rule drive_counters_balance [THEN conjunct1, rotated]) (simp add: maxInt64_def)
  ultimately show ?thesis by blast
qed

text \<open>
  C35: when a vehicle's polls begin to report it offline, it is served as offline after the first
  such poll; from the second on it is served as asleep if it was last seen parked, and stays
  offline as long as the polls say so if it was last seen driving.
\<close>

theorem offline_car_settles:
  assumes "\<forall>(e, p) \<in> set ps. \<exists>s. sn_State p = Some s \<and> st_Power s = PowerOffline"
    and "mg_offlineCount m = 0" and "ps \<noteq> []" and "int (length ps) < maxInt64"
  shows "powerOf (mg_snap (fst (fold (merger_step d) (map (\<lambda>(e, p). (e, PollOp p)) ps) (m, sh)))) =
    (if inDrive (gearOf (mg_snap m)) \<or> length ps < 2 then PowerOffline else PowerSleep)"
  using offline_episode [OF assms, of d sh] by blast

lemma offline_car_settles_witness:
  "powerOf (mg_snap (fst (fold (merger_step 0) (map (\<lambda>(e, p). (e, PollOp p))
      (replicate 3 (quietEnv, parkedPoll\<lparr>sn_State := Some (parkedState\<lparr>st_Power := PowerOffline\<rparr>)\<rparr>)))
      (streamedMerger, plainShared)))) = PowerSleep"
proof -
  let ?ps = "replicate 3 (quietEnv, parkedPoll\<lparr>sn_State := Some (parkedState\<lparr>st_Power := PowerOffline\<rparr>)\<rparr>)"
  have "powerOf (mg_snap (fst (fold (merger_step 0) (map (\<lambda>(e, p). (e, PollOp p)) ?ps) (streamedMerger, plainShared)))) =
    (if inDrive (gearOf (mg_snap streamedMerger)) \<or> length ?ps < 2 then PowerOffline else PowerSleep)"
    by (rule offline_car_settles) (simp_all add: streamedMerger_def newMerger_def maxInt64_def)
  then show ?thesis by (simp add: streamedMerger_def gearOf_def parkedState_def inDrive_def)
qed

subsection \<open>Subscribers\<close>








subsection \<open>The service\<close>












text \<open>
  Operations on other vehicles, known or unknown, change nothing a vehicle's readers see: not
  its latest snapshot, not its replay ring, not the set of known vehicles.
\<close>

theorem vehicles_are_isolated:
  assumes "\<forall>a \<in> set as. opVehicle (snd a) \<noteq> Some vid"
  shows "service_Latest vid (fold service_step as s) = service_Latest vid s \<and>
    service_Replay vid (fold service_step as s) = service_Replay vid s \<and>
    service_KnownIDs (fold service_step as s) = service_KnownIDs s"
  using assms
proof (induction as arbitrary: s)
  case (Cons a as)
  obtain e b where a: "a = (e, b)" by fastforce
  have b: "opVehicle b \<noteq> Some vid" using Cons.prems by (simp add: a)
  have "service_Latest vid (service_step a s) = service_Latest vid s"
    by (simp add: a service_Latest_def step_other_merger [OF b])
  moreover have "service_KnownIDs (service_step a s) = service_KnownIDs s"
    by (simp add: service_KnownIDs_def)
  ultimately show ?case using Cons.IH [of "service_step a s"] Cons.prems
    by (simp add: a step_other_replay [OF b])
qed simp

lemma vehicles_are_isolated_witness:
  "service_Latest ''v'' (fold service_step [(quietEnv, SvPut ''other'' socFrame), (quietEnv, SvFlushAsOf)] freshService) =
   service_Latest ''v'' freshService"
  using vehicles_are_isolated [of "[(quietEnv, SvPut ''other'' socFrame), (quietEnv, SvFlushAsOf)]" "''v''" freshService]
  by simp

text \<open>
  A service whose AsOf file holds a mark later than a poll's own time serves the poll under the
  mark, but appends it to the replay ring under the poll's own time: what is replayed to a consumer
  can go back behind what it was already served.
\<close>

definition markedService :: service where
  "markedService = freshService\<lparr>sv_mergers := [''v'' \<mapsto> newPersistedMerger ''v'' 500],
     sv_shared := (sv_shared freshService)\<lparr>sh_asof := Some \<lparr>as_path = ''f'', as_byID = [''v'' \<mapsto> 500],
       as_lastFlushed = 0, as_file = FileData [''v'' \<mapsto> 500]\<rparr>\<rparr>\<rparr>"

theorem replay_lags_served:
  "newService oneVehicle 0 ''f'' (FileData [''v'' \<mapsto> 500]) ''r'' FileMissing 2 = Inr markedService \<and>
   (let s = service_step (quietEnv, SvMergePoll ''v'' parkedPoll) markedService in
    asOfTime (service_Latest ''v'' s) = 500 \<and> map asOfTime (service_Replay ''v'' s) = [100])"
  by (simp add: markedService_def freshService_def newService_def newAsofStore_def newReplayBuffer_def
      oneVehicle_def asof_Get_def Let_def newPersistedMerger_def newMerger_def service_MergePoll_def
      split_beta service_Latest_def merger_Latest_def mergePoll_served service_Replay_def
      replay_Replay_def ringOf_Append asOfTime_def ringOf_def trimRing_def mergePoll_def parkedPoll_def
      parkedState_def streamFresher_def classifyPollLiveness_def maxTime_def commit_def degradeStale_def
      replay_Append_def replay_persist_def quietEnv_def time_sub_self replayFlushInterval_def)

end
