(* ===== verification/ServerClaims.thy ===== *)
theory ServerClaims
  imports FleetServer CacheClaims
begin

section \<open>Properties of the served Fleet API\<close>

text \<open>
  The adapter and the HTTP surface together: every listed vehicle is answered under its id and its
  VIN whatever was asked before, nothing is readable without the bearer token, repeated reads are
  answered from the cache exactly as a full encoding would, and stale vehicles are not shown online.
\<close>

lemma trim_prefix_cases: "trim_prefix p s = s \<or> s = p @ trim_prefix p s"
  by simp (metis append_take_drop_id)

subsection \<open>Runs of requests\<close>

fun server_run ::
  "('e, 's) sourceOps \<Rightarrow> (gotime \<times> 'e \<times> route option \<times> string) list \<Rightarrow> server \<times> 's \<Rightarrow> server \<times> 's" where
  "server_run ops [] st = st"
| "server_run ops ((now, e, rt, h) # rs) st = server_run ops rs (snd (server_handle ops now e rt h st))"

lemma server_handle_token: "sv_authToken (fst (snd (server_handle ops now e rt h (sv, s)))) = sv_authToken sv"
  by (simp add: server_handle_def Let_def split: option.split prod.split)

lemma vehicleDataRoute_source:
  "snd (handleVehicleDataRoute ops e tag s) =
     (case pathID ops tag s of None \<Rightarrow> s | Some tid \<Rightarrow> snd (so_VehicleData ops e tid s))"
  by (auto simp: handleVehicleDataRoute_def split: option.split prod.split)

lemma dispatch_source:
  "snd (dispatch ops now e r sv s) = (case r of RVehicleData tag \<Rightarrow>
     (case pathID ops tag s of None \<Rightarrow> s | Some tid \<Rightarrow> snd (so_VehicleData ops e tid s)) | _ \<Rightarrow> s)"
  by (cases r) (simp_all add: dispatch_def vehicleDataRoute_source split: option.split)

lemma server_handle_source:
  "snd (snd (server_handle adapterOps now e rt h (sv, s))) \<in> {s} \<union> range (\<lambda>tid. snd (adapter_VehicleData e tid s))"
proof -
  have "snd (dispatch adapterOps now e r sv s) \<in> {s} \<union> range (\<lambda>tid. snd (adapter_VehicleData e tid s))" for r
    by (simp add: dispatch_source adapterOps_def split: route.split option.split)
  then show ?thesis
    by (cases rt) (auto simp: server_handle_def Let_def case_prod_unfold)
qed

definition sameVehicles :: "sourceAdapter \<Rightarrow> sourceAdapter \<Rightarrow> bool" where
  "sameVehicles s s' \<longleftrightarrow> ad_byVIN s' = ad_byVIN s \<and>
     (\<forall>k. map_option ve_identity (ad_byID s' k) = map_option ve_identity (ad_byID s k))"

lemma server_run_keeps:
  assumes "adapter_ok s" "server_run adapterOps rs (sv, s) = (sv', s')"
  shows "adapter_ok s' \<and> sameVehicles s s' \<and> sv_authToken sv' = sv_authToken sv"
  using assms
proof (induction rs arbitrary: sv s)
  case (Cons r rs)
  obtain now e rt h where r: "r = (now, e, rt, h)" by (metis surj_pair)
  obtain sv1 s1 where 1: "snd (server_handle adapterOps now e rt h (sv, s)) = (sv1, s1)" by force
  have tok: "sv_authToken sv1 = sv_authToken sv" using server_handle_token [of adapterOps now e rt h sv s] 1 by simp
  consider "s1 = s" | tid where "s1 = snd (adapter_VehicleData e tid s)"
    using server_handle_source [of now e rt h sv s] 1 by auto
  then have "adapter_ok s1 \<and> sameVehicles s s1"
  proof cases
    case 1 then show ?thesis using Cons.prems(1) by (simp add: sameVehicles_def)
  next
    case 2
    obtain a where "adapter_VehicleData e tid s = (a, s1)" using 2 by (metis prod.collapse)
    note rd = adapter_read [OF Cons.prems(1) this]
    show ?thesis using rd(1,4,5) by (simp add: sameVehicles_def)
  qed
  moreover have "server_run adapterOps rs (sv1, s1) = (sv', s')" using Cons.prems(2) 1 by (simp add: r)
  ultimately show ?case using Cons.IH tok unfolding sameVehicles_def by metis
qed (simp add: sameVehicles_def)

subsection \<open>Tags\<close>

definition vinsIndexed :: "idMap \<times> sourceAdapter \<Rightarrow> string set \<Rightarrow> bool" where
  "vinsIndexed ms P \<longleftrightarrow>
     (\<forall>tid e. ad_byID (snd ms) tid = Some e \<longrightarrow>
        im_byKey (fst ms) (ti_canonID (ve_identity e)) = Some tid \<and> ti_canonID (ve_identity e) \<in> P) \<and>
     (\<forall>vin tid. ad_byVIN (snd ms) vin = Some tid \<longrightarrow>
        (\<exists>e. ad_byID (snd ms) tid = Some e \<and> ti_vin (ve_identity e) = vin))"

lemma addVehicles_vins:
  assumes "idmap_ok m" "vinsIndexed (m, s) P" "addVehicles fuel wok ct vs (m, s) = Some (Inr (m', s'))"
    and "distinct (map id_ID vs)" "P \<inter> id_ID ` set vs = {}"
  shows "vinsIndexed (m', s') (P \<union> id_ID ` set vs) \<and>
    dom (ad_byVIN s') = dom (ad_byVIN s) \<union> {id_VIN v |v. v \<in> set vs \<and> id_VIN v \<noteq> []}"
  using assms
proof (induction vs arbitrary: m s P)
  case (Cons v vs)
  obtain tid m1 where i1: "idmap_ID fuel (wok (id_ID v)) (id_ID v) m = Some (Inr tid, m1)"
    using Cons.prems(3) by (auto split: option.splits sum.splits)
  obtain vid m2 where i2: "idmap_ID fuel (wok (id_ID v @ '':vid'')) (id_ID v @ '':vid'') m1 = Some (Inr vid, m2)"
    using Cons.prems(3) i1 by (auto split: option.splits sum.splits)
  define e where "e = \<lparr>ve_identity = \<lparr>ti_canonID = id_ID v, ti_id = tid, ti_vehicleID = vid,
      ti_vin = id_VIN v, ti_displayName = id_DisplayName v\<rparr>,
      ve_cfg = \<lparr>fc_CarType = entryCarType ct (id_VIN v), fc_Model = id_Model v\<rparr>,
      ve_prev = None, ve_cached = None, ve_cachedAsOf = 0\<rparr>"
  define s1 where "s1 = s\<lparr>ad_byID := (ad_byID s)(tid \<mapsto> e),
      ad_byVIN := (if id_VIN v \<noteq> [] then (ad_byVIN s)(id_VIN v \<mapsto> tid) else ad_byVIN s),
      ad_order := ad_order s @ [tid]\<rparr>"
  have rest: "addVehicles fuel wok ct vs (m2, s1) = Some (Inr (m', s'))"
    using Cons.prems(3) i1 i2 by (simp add: Let_def s1_def e_def)
  have m1: "idmap_ok m1" "im_byKey m \<subseteq>\<^sub>m im_byKey m1" using idmap_ID_ok [OF Cons.prems(1) i1] by auto
  have m2: "idmap_ok m2" "im_byKey m1 \<subseteq>\<^sub>m im_byKey m2" using idmap_ID_ok [OF m1(1) i2] by auto
  have keep: "im_byKey m g = Some n \<Longrightarrow> im_byKey m2 g = Some n" for g n
    using m1(2) m2(2) by (metis map_le_def domI)
  have key: "im_byKey m2 (id_ID v) = Some tid"
    using idmap_ID_key [OF i1] m2(2) by (metis map_le_def domI)
  have inj: "im_byKey m2 a = Some k \<Longrightarrow> im_byKey m2 b = Some k \<Longrightarrow> a = b" for a b k
    using m2(1) unfolding idmap_ok_def by (metis option.inject)
  have new: "ad_byID s tid = None"
  proof (rule ccontr)
    assume "ad_byID s tid \<noteq> None"
    then obtain f where f: "ad_byID s tid = Some f" by auto
    then have "im_byKey m (ti_canonID (ve_identity f)) = Some tid" "ti_canonID (ve_identity f) \<in> P"
      using Cons.prems(2) by (auto simp: vinsIndexed_def)
    then have "ti_canonID (ve_identity f) = id_ID v" using inj keep key by blast
    then show False using \<open>ti_canonID (ve_identity f) \<in> P\<close> Cons.prems(5) by auto
  qed
  have V: "vinsIndexed (m2, s1) (insert (id_ID v) P)"
    unfolding vinsIndexed_def
  proof (rule conjI; intro allI impI)
    fix k f assume f: "ad_byID (snd (m2, s1)) k = Some f"
    show "im_byKey (fst (m2, s1)) (ti_canonID (ve_identity f)) = Some k \<and>
        ti_canonID (ve_identity f) \<in> insert (id_ID v) P"
    proof (cases "k = tid")
      case True
      then show ?thesis using f key by (auto simp: s1_def e_def)
    next
      case False
      then have "ad_byID s k = Some f" using f by (simp add: s1_def)
      then have "im_byKey m (ti_canonID (ve_identity f)) = Some k" "ti_canonID (ve_identity f) \<in> P"
        using Cons.prems(2) by (simp_all add: vinsIndexed_def)
      then show ?thesis using keep by simp
    qed
  next
    fix vin k assume k: "ad_byVIN (snd (m2, s1)) vin = Some k"
    show "\<exists>f. ad_byID (snd (m2, s1)) k = Some f \<and> ti_vin (ve_identity f) = vin"
    proof (cases "id_VIN v \<noteq> [] \<and> vin = id_VIN v")
      case True
      then show ?thesis using k by (auto simp: s1_def e_def)
    next
      case False
      then have "ad_byVIN s vin = Some k" using k by (auto simp: s1_def split: if_splits)
      then obtain f where f: "ad_byID s k = Some f" "ti_vin (ve_identity f) = vin"
        using Cons.prems(2) unfolding vinsIndexed_def fst_conv snd_conv by blast
      with new have "k \<noteq> tid" by auto
      with f show ?thesis by (simp add: s1_def)
    qed
  qed
  have D: "insert (id_ID v) P \<inter> id_ID ` set vs = {}" using Cons.prems(4,5) by auto
  have "vinsIndexed (m', s') (insert (id_ID v) P \<union> id_ID ` set vs) \<and>
      dom (ad_byVIN s') = dom (ad_byVIN s1) \<union> {id_VIN v |v. v \<in> set vs \<and> id_VIN v \<noteq> []}"
    using Cons.prems(4) by (intro Cons.IH [OF m2(1) V rest _ D]) simp
  moreover have "dom (ad_byVIN s1) = dom (ad_byVIN s) \<union> {id_VIN u |u. u = v \<and> id_VIN u \<noteq> []}"
    by (auto simp: s1_def)
  ultimately show ?case by (auto simp: insert_commute)
qed simp

lemma newSourceAdapter_vin:
  assumes "idmap_ok ids" "newSourceAdapter fuel wok prov ids sa ct = Some (Inr ad)"
    and "distinct (map id_ID (pv_Vehicles prov))" "v \<in> set (pv_Vehicles prov)" "id_VIN v \<noteq> []"
  shows "\<exists>tid e. ad_byVIN ad (id_VIN v) = Some tid \<and> ad_byID ad tid = Some e \<and> ti_vin (ve_identity e) = id_VIN v"
proof -
  obtain m' where a: "addVehicles fuel wok ct (pv_Vehicles prov) (ids, \<lparr>ad_staleAfter = sa,
      ad_byID = Map.empty, ad_byVIN = Map.empty, ad_order = [], ad_unchangedReads = 0\<rparr>) = Some (Inr (m', ad))"
    using assms(2) unfolding newSourceAdapter_def map_option_eq_Some
    by (elim exE conjE, rename_tac z, case_tac z) auto
  have "vinsIndexed (ids, \<lparr>ad_staleAfter = sa, ad_byID = Map.empty, ad_byVIN = Map.empty, ad_order = [],
      ad_unchangedReads = 0\<rparr>) {}" by (simp add: vinsIndexed_def)
  from addVehicles_vins [OF assms(1) this a assms(3)]
  have "vinsIndexed (m', ad) (id_ID ` set (pv_Vehicles prov))" "id_VIN v \<in> dom (ad_byVIN ad)"
    using assms(4,5) by auto
  then show ?thesis unfolding vinsIndexed_def by fastforce
qed

subsection \<open>The properties\<close>

text \<open>
  C6: an adapter over a provider with a working id map, and enough fuel for its probe loop, always comes up; it has an entry
  for every vehicle; and over any run of reads, whatever the cache serves meanwhile, a read is answered
  exactly for the listed ids, with the identity listed under the id and all load-bearing readings.
\<close>

theorem every_vehicle_served:
  assumes "idmap_ok ids" and "card (dom (im_byID ids)) + 2 * length (pv_Vehicles prov) < fuel"
    and "int fuel \<le> maxInt64"
  shows "\<exists>ad. newSourceAdapter fuel (\<lambda>_. True) prov ids staleAfter carType = Some (Inr ad) \<and>
    (\<forall>v \<in> set (pv_Vehicles prov). \<exists>tid e. ad_byID ad tid = Some e \<and> ti_canonID (ve_identity e) = id_ID v \<and> 0 < tid) \<and>
    (\<forall>reads np. list_all2 (\<lambda>(np', tid) a. answers (adapter_Products np ad) tid a) reads
       (fst (source_reads adapter_VehicleData reads ad)))"
proof -
  obtain ad where ad: "newSourceAdapter fuel (\<lambda>_. True) prov ids staleAfter carType = Some (Inr ad)"
    using newSourceAdapter_total [OF assms] by blast
  note ok = newSourceAdapter_ok [OF assms(1) ad]
  have eq: "answers (adapter_Products np s) tid a = answers (adapter_Products np' s) tid a"
    if "adapter_ok s" for np np' s tid a
    unfolding answers_def adapter_find [OF that]
    by (cases "ad_byID s tid") (simp_all add: sameCar_def entryProduct_def)
  have "list_all2 (\<lambda>(np', tid) a. answers (adapter_Products np ad) tid a) reads
       (fst (source_reads adapter_VehicleData reads ad))" for reads np
    using adapter.reads_answer [OF ok(1), of reads]
    by (rule list_all2_mono) (clarify, metis eq [OF ok(1)])
  then show ?thesis using ad ok(3) by blast
qed

definition oneCar :: identity where
  "oneCar = \<lparr>id_ID = ''g'', id_VIN = ''5YJ3X'', id_DisplayName = ''car'', id_Make = [], id_Model = []\<rparr>"

definition parkedAt :: "gotime \<Rightarrow> snapshot" where
  "parkedAt t = zeroSnapshot\<lparr>sn_State := Some (zeroState\<lparr>st_Power := PowerOnline, st_Gear := GearPark\<rparr>),
     sn_FetchedAt := t, sn_AsOf := t\<rparr>"

definition oneProvider :: provider where
  "oneProvider = \<lparr>pv_Vehicles = [oneCar], pv_Latest = (\<lambda>_. parkedAt Second), pv_Stats = (\<lambda>_. zeroStats)\<rparr>"

definition emptyMap :: idMap where
  "emptyMap = \<lparr>im_path = [], im_byID = Map.empty, im_byKey = Map.empty, im_file = FileMissing\<rparr>"

lemma emptyMap_ok: "idmap_ok emptyMap"
  by (simp add: emptyMap_def idmap_ok_def)

lemma every_vehicle_served_witness:
  "\<exists>ad. newSourceAdapter 3 (\<lambda>_. True) oneProvider emptyMap 0 None = Some (Inr ad) \<and>
    (\<forall>v \<in> set (pv_Vehicles oneProvider). \<exists>tid e. ad_byID ad tid = Some e \<and> ti_canonID (ve_identity e) = id_ID v \<and> 0 < tid) \<and>
    (\<forall>reads np. list_all2 (\<lambda>(np', tid) a. answers (adapter_Products np ad) tid a) reads
       (fst (source_reads adapter_VehicleData reads ad)))"
  using emptyMap_ok by (rule every_vehicle_served) (simp_all add: emptyMap_def oneProvider_def maxInt64_def)

text \<open>
  C7: a vehicle with a VIN that is not a decimal number is served under it: after any run of requests,
  authorized or not, a vehicle data request for the VIN with the bearer token is answered with status
  200, that vehicle's VIN and all load-bearing readings.
\<close>

theorem vin_request_served:
  assumes "idmap_ok ids" "newSourceAdapter fuel wok prov ids staleAfter carType = Some (Inr ad)"
    and "distinct (map id_ID (pv_Vehicles prov))" "v \<in> set (pv_Vehicles prov)" "id_VIN v \<noteq> []"
    and "parseInt64 (id_VIN v) = None"
  shows "\<exists>vd. fst (server_handle adapterOps now np (Some (RVehicleData (id_VIN v))) (''Bearer '' @ token)
      (server_run adapterOps rs (newServer start token, ad))) = (200, DataBody vd) \<and>
    vd_VIN vd = id_VIN v \<and> loadBearing vd"
proof -
  obtain sv s where s: "server_run adapterOps rs (newServer start token, ad) = (sv, s)" by force
  note ok = newSourceAdapter_ok(1) [OF assms(1,2)]
  note run = server_run_keeps [OF ok s]
  obtain tid e where e: "ad_byVIN ad (id_VIN v) = Some tid" "ad_byID ad tid = Some e" "ti_vin (ve_identity e) = id_VIN v"
    using newSourceAdapter_vin [OF assms(1-5)] by blast
  have "map_option ve_identity (ad_byID s tid) = map_option ve_identity (ad_byID ad tid)"
    using run by (simp add: sameVehicles_def)
  then obtain e' where e': "ad_byID s tid = Some e'" "ve_identity e' = ve_identity e"
    using e(2) by (auto simp: map_option_eq_Some)
  have tag: "adapter_ResolveTag (id_VIN v) s = Some tid"
    using run e(1) assms(6) by (simp add: adapter_ResolveTag_def sameVehicles_def)
  obtain hit out e2 where t: "translate (fst np) (ad_staleAfter s)
      (pv_Latest (snd np) (ti_canonID (ve_identity e'))) e' = (hit, out, e2)" by (metis surj_pair)
  have "entry_ok tid e'" using run adapter_entry e'(1) by blast
  note out = translate_ok(1) [OF this t]
  have tok: "sv_authToken sv = token" using run by (simp add: newServer_def)
  have "authorized (sv_authToken sv) (''Bearer '' @ token)" by (simp add: authorized_def tok)
  then have "fst (server_handle adapterOps now np (Some (RVehicleData (id_VIN v))) (''Bearer '' @ token) (sv, s)) =
      (200, DataBody out)"
    by (simp add: server_handle_def registered_def dispatch_def handleVehicleDataRoute_def adapterOps_def
        pathID_def tag adapter_VehicleData_def e'(1) t Let_def)
  then show ?thesis using out e(3) e'(2) by (simp add: s carries_def)
qed

lemma vin_request_served_witness:
  "\<exists>ad vd. newSourceAdapter 3 (\<lambda>_. True) oneProvider emptyMap 0 None = Some (Inr ad) \<and>
    fst (server_handle adapterOps Second (Second, oneProvider) (Some (RVehicleData ''5YJ3X'')) (''Bearer '' @ ''t'')
      (server_run adapterOps [(0, (0, oneProvider), Some RProducts, [])] (newServer 0 ''t'', ad))) = (200, DataBody vd) \<and>
    vd_VIN vd = ''5YJ3X'' \<and> loadBearing vd"
proof -
  obtain ad where ad: "newSourceAdapter 3 (\<lambda>_. True) oneProvider emptyMap 0 None = Some (Inr ad)"
    using every_vehicle_served_witness by blast
  have v: "oneCar \<in> set (pv_Vehicles oneProvider)" "distinct (map id_ID (pv_Vehicles oneProvider))"
    "id_VIN oneCar \<noteq> []" by (simp_all add: oneProvider_def oneCar_def)
  have "parseInt64 (id_VIN oneCar) = None"
    by (simp add: oneCar_def parseInt64_def splitSign_def isDigit_def)
  note vin_request_served [OF emptyMap_ok ad v(2,1,3) this, where now = Second and
    np = "(Second, oneProvider)" and token = "''t''" and rs = "[(0, (0, oneProvider), Some RProducts, [])]" and start = 0]
  then have "\<exists>vd. fst (server_handle adapterOps Second (Second, oneProvider) (Some (RVehicleData ''5YJ3X'')) (''Bearer '' @ ''t'')
      (server_run adapterOps [(0, (0, oneProvider), Some RProducts, [])] (newServer 0 ''t'', ad))) = (200, DataBody vd) \<and>
    vd_VIN vd = ''5YJ3X'' \<and> loadBearing vd" by (simp only: oneCar_def identity.simps)
  with ad show ?thesis by blast
qed

text \<open>
  C8: with a token configured, a request for anything but a token, whose authorization header is not
  the token or the token behind \<^verbatim>\<open>Bearer\<close>, is refused and reads nothing: the source stays as
  it was and the answer does not depend on it. The token endpoint is open, and what it hands out opens
  every other route.
\<close>

theorem token_guards_reads:
  assumes "token \<noteq> []" and "sv_authToken sv = token"
  shows "(header \<noteq> token \<and> header \<noteq> ''Bearer '' @ token \<and> r \<noteq> RToken \<and> registered ops r \<longrightarrow>
      fst (server_handle ops now e (Some r) header (sv, s)) = (401, ErrorBody ''unauthorized'') \<and>
      snd (snd (server_handle ops now e (Some r) header (sv, s))) = s) \<and>
    (\<exists>access. fst (server_handle ops now e (Some RToken) header (sv, s)) = (200, TokenBody access now) \<and>
      (\<forall>r. registered ops r \<longrightarrow>
         fst (server_handle ops now e (Some r) (''Bearer '' @ access) (sv, s)) = fst (dispatch ops now e r sv s)))"
proof (intro conjI impI)
  assume h: "header \<noteq> token \<and> header \<noteq> ''Bearer '' @ token \<and> r \<noteq> RToken \<and> registered ops r"
  have "\<not> authorized (sv_authToken sv) header"
    using h assms trim_prefix_cases [of "''Bearer ''" header] by (auto simp: authorized_def)
  then have "server_handle ops now e (Some r) header (sv, s) = ((401, ErrorBody ''unauthorized''),
      sv\<lparr>sv_counters := counters_inc (routePattern r) (sv_counters sv)\<rparr>, s)"
    using h by (simp add: server_handle_def)
  then show "fst (server_handle ops now e (Some r) header (sv, s)) = (401, ErrorBody ''unauthorized'')"
    "snd (snd (server_handle ops now e (Some r) header (sv, s))) = s" by simp_all
next
  have "authorized (sv_authToken sv) (''Bearer '' @ token)" by (simp add: authorized_def assms(2))
  then show "\<exists>access. fst (server_handle ops now e (Some RToken) header (sv, s)) = (200, TokenBody access now) \<and>
      (\<forall>r. registered ops r \<longrightarrow>
         fst (server_handle ops now e (Some r) (''Bearer '' @ access) (sv, s)) = fst (dispatch ops now e r sv s))"
    using assms by (intro exI [of _ token])
      (auto simp: server_handle_def registered_def dispatch_def handleToken_def Let_def case_prod_unfold)
qed

lemma token_guards_reads_witness:
  "fst (server_handle adapterOps 5 (5, oneProvider) (Some RProducts) ''x'' (newServer 0 ''t'',
      \<lparr>ad_staleAfter = 0, ad_byID = Map.empty, ad_byVIN = Map.empty, ad_order = [], ad_unchangedReads = 0\<rparr>)) =
    (401, ErrorBody ''unauthorized'')"
proof -
  have "registered adapterOps RProducts" by (simp add: registered_def)
  then show ?thesis
    using token_guards_reads [of "''t''" "newServer 0 ''t''" "''x''" RProducts adapterOps 5 "(5, oneProvider)"]
    by (simp add: newServer_def)
qed

text \<open>
  C9: repeating a read is free and exact: once a snapshot with a time was encoded in full, any later
  read while the cache serves the same snapshot takes the fast path, changes nothing and answers what
  encoding it again would, unless the snapshot names a trim but no car type.
\<close>

theorem fast_path_exact:
  assumes "translate now staleAfter snap e = (False, out, e')" and "asOfTime snap \<noteq> 0"
    and "trimSettled (sn_State snap)"
  shows "translate now' staleAfter' snap e' =
    (True, degradeIfStale now' staleAfter' (encodeEntry now' snap e') (asOfTime snap), e')"
proof -
  have e': "e' = e\<lparr>ve_prev := Some (encodeEntry now snap e), ve_cached := Some (encodeEntry now snap e),
      ve_cachedAsOf := asOfTime snap\<rparr>"
    using assms(1,2) by (auto simp: translate_def Let_def split: option.splits)
  then have "encodeEntry now' snap e' = encodeEntry now snap e"
    by (intro encode_again [OF assms(3,2)]) simp_all
  then show ?thesis using assms(2) by (simp add: translate_def e' Let_def)
qed

definition newEntry :: vehicleEntry where
  "newEntry = \<lparr>ve_identity = \<lparr>ti_canonID = ''g'', ti_id = 1, ti_vehicleID = 2, ti_vin = ''v'', ti_displayName = []\<rparr>,
     ve_cfg = \<lparr>fc_CarType = ''model3'', fc_Model = []\<rparr>, ve_prev = None, ve_cached = None, ve_cachedAsOf = 0\<rparr>"

lemma newEntry_translate:
  "\<exists>out e'. translate now sa (parkedAt Second) newEntry = (False, out, e')"
  by (simp add: translate_def Let_def newEntry_def)

lemma fast_path_exact_witness:
  "\<exists>out e'. translate Second 0 (parkedAt Second) newEntry = (False, out, e') \<and>
    translate (2 * Second) 0 (parkedAt Second) e' =
      (True, degradeIfStale (2 * Second) 0 (encodeEntry (2 * Second) (parkedAt Second) e') Second, e')"
proof -
  obtain out e' where t: "translate Second 0 (parkedAt Second) newEntry = (False, out, e')"
    using newEntry_translate by blast
  have p: "asOfTime (parkedAt Second) = Second" "trimSettled (sn_State (parkedAt Second))"
    by (simp_all add: parkedAt_def asOfTime_def trimSettled_def)
  have "asOfTime (parkedAt Second) \<noteq> 0" by (simp add: p(1))
  from fast_path_exact [OF t this p(2)] t p(1) show ?thesis by metis
qed

text \<open>
  C10: a vehicle whose data are older than the configured age is never shown online. Its vehicle data
  say offline when the shift state they carry is a moving one, and asleep otherwise; the lightweight
  surfaces say offline when the gear of the snapshot served now is a moving one, and asleep otherwise.
  The two agree whenever the vehicle data were encoded from that snapshot and its gear is known. On
  the fast path they need not: there the shift state is the one of the cached encoding.
\<close>

theorem stale_never_online:
  assumes "translate now staleAfter snap e = (hit, out, e')" and "isStale now staleAfter (asOfTime snap)"
  shows "vd_State out = (if (\<exists>g. Option.bind (vd_DriveState out) ds_ShiftState = Some g \<and> g \<in> {''D'', ''N'', ''R''})
      then ''offline'' else ''asleep'') \<and>
    currentState now staleAfter snap =
      (if (\<exists>vs. sn_State snap = Some vs \<and> st_Gear vs \<in> {GearDrive, GearNeutral, GearReverse})
       then ''offline'' else ''asleep'') \<and>
    (\<not> hit \<and> (\<exists>vs. sn_State snap = Some vs \<and> st_Gear vs \<noteq> GearUnknown) \<longrightarrow>
       currentState now staleAfter snap = vd_State out) \<and>
    (hit \<longrightarrow> (\<exists>c. ve_cached e = Some c \<and> vd_DriveState out = vd_DriveState c))"
proof -
  obtain o0 where o0: "out = degradeIfStale now staleAfter o0 (asOfTime snap)" "\<not> hit \<longrightarrow> o0 = encodeEntry now snap e"
      "hit \<longrightarrow> ve_cached e = Some o0"
    using assms(1) by (auto simp: translate_def Let_def split: option.splits if_splits)
  have st: "vd_State out = staleLiveness o0" using assms(2) by (simp add: o0 degradeIfStale_def)
  have ds: "vd_DriveState out = vd_DriveState o0" by (simp add: o0)
  have "currentState now staleAfter snap = vd_State out"
    if "\<not> hit" "sn_State snap = Some vs" "st_Gear vs \<noteq> GearUnknown" for vs
  proof -
    have "Option.bind (vd_DriveState o0) ds_ShiftState = Some (shiftState (st_Gear vs))"
      using o0(2) that by (simp add: encodeEntry_def vehicleDataOf_def Let_def driveState_fields)
    then show ?thesis using that assms(2) unfolding st
      by (cases "st_Gear vs") (simp_all add: staleLiveness_def currentState_def drivingGear_def shiftState_def)
  qed
  then have "\<not> hit \<and> (\<exists>vs. sn_State snap = Some vs \<and> st_Gear vs \<noteq> GearUnknown) \<longrightarrow>
      currentState now staleAfter snap = vd_State out" by blast
  moreover have "currentState now staleAfter snap =
      (if (\<exists>vs. sn_State snap = Some vs \<and> st_Gear vs \<in> {GearDrive, GearNeutral, GearReverse})
       then ''offline'' else ''asleep'')"
    using assms(2) by (auto simp: currentState_def lostState_def drivingGear_def split: option.split)
  moreover have "hit \<longrightarrow> (\<exists>c. ve_cached e = Some c \<and> vd_DriveState out = vd_DriveState c)"
    using o0(3) ds by blast
  moreover have "vd_State out = (if (\<exists>g. Option.bind (vd_DriveState out) ds_ShiftState = Some g \<and> g \<in> {''D'', ''N'', ''R''})
      then ''offline'' else ''asleep'')"
    by (simp add: st ds staleLiveness_def lostState_def split: option.split)
  ultimately show ?thesis by blast
qed

lemma stale_never_online_witness:
  "\<exists>out e'. translate (3 * Second) Second (parkedAt Second) newEntry = (False, out, e') \<and>
    vd_State out \<in> {''offline'', ''asleep''}"
proof -
  obtain out e' where t: "translate (3 * Second) Second (parkedAt Second) newEntry = (False, out, e')"
    using newEntry_translate by blast
  have "isStale (3 * Second) Second (asOfTime (parkedAt Second))"
    by (simp add: isStale_def parkedAt_def asOfTime_def time_sub_def minInt64_def maxInt64_def)
  from stale_never_online [OF t this] t show ?thesis by (auto split: if_splits)
qed

text \<open>
  The fast path hides a poll that lands behind the stream: when the poll's time is not after the
  served one, merging it leaves the served time, and an entry that was encoded at that time goes on
  serving the old payload, whatever the poll says. The lightweight surfaces, which do not use the fast
  path, already show the new state.
\<close>

theorem poll_behind_stream_hidden:
  assumes "sv_mergers s vid = Some m" and "sn_AsOf (mg_snap m) = t" "0 < t"
    and "sn_StreamFields (mg_snap m) \<le> t" "sn_FetchedAt poll \<le> t"
    and "ve_cached e = Some c" "ve_cachedAsOf e = t"
  shows "translate now staleAfter (service_Latest vid (snd (service_MergePoll env vid poll s))) e =
      (True, degradeIfStale now staleAfter c t, e)"
proof -
  define m' where "m' = fst (snd (mergePoll env poll (sv_staleAfter s) (m, sv_shared s)))"
  have l: "service_Latest vid (snd (service_MergePoll env vid poll s)) = mg_snap m'"
    by (simp add: service_MergePoll_def assms(1) m'_def case_prod_unfold Let_def service_Latest_def merger_Latest_def)
  have "sn_AsOf (mg_snap m') = maxTime [t, sn_FetchedAt poll, sn_StreamFields (mg_snap m)]"
    unfolding m'_def mergePoll_served(4) assms(2) by (rule refl)
  then have "asOfTime (mg_snap m') = t" using assms(3-5) by (simp add: maxTime3 asOfTime_def)
  then show ?thesis using assms(3,6,7) by (simp add: l translate_def Let_def)
qed

text \<open>The witness: a stream frame at 200, read and cached; a poll fetched at 150 says the car sleeps.\<close>

definition lateService :: service where
  "lateService = freshService\<lparr>sv_mergers := [''v'' \<mapsto> streamedMerger]\<rparr>"

definition sleepPoll :: snapshot where
  "sleepPoll = zeroSnapshot\<lparr>sn_State := Some (zeroState\<lparr>st_Power := PowerSleep\<rparr>), sn_FetchedAt := 150\<rparr>"

lemma poll_behind_stream_hidden_witness:
  "\<exists>out e. translate 200 0 (service_Latest ''v'' lateService) newEntry = (False, out, e) \<and>
    vd_State out = ''online'' \<and>
    translate 300 0 (service_Latest ''v'' (snd (service_MergePoll quietEnv ''v'' sleepPoll lateService))) e =
      (True, out, e)"
proof -
  define snap where "snap = mg_snap streamedMerger"
  have l: "service_Latest ''v'' lateService = snap"
    by (simp add: service_Latest_def lateService_def merger_Latest_def snap_def)
  have a: "asOfTime snap = 200" by (simp add: snap_def streamedMerger_def asOfTime_def)
  define out where "out = encodeEntry 200 snap newEntry"
  define e where "e = newEntry\<lparr>ve_prev := Some out, ve_cached := Some out, ve_cachedAsOf := 200\<rparr>"
  have t: "translate 200 0 snap newEntry = (False, out, e)"
    by (simp add: translate_def Let_def a newEntry_def e_def out_def degradeIfStale_def isStale_def)
  have "vd_State out = ''online''"
    by (simp add: out_def encodeEntry_def vehicleDataOf_def Let_def snap_def streamedMerger_def parkedState_def topState_def)
  moreover have "translate 300 0 (service_Latest ''v'' (snd (service_MergePoll quietEnv ''v'' sleepPoll lateService))) e =
      (True, degradeIfStale 300 0 out 200, e)"
    by (rule poll_behind_stream_hidden [where m = streamedMerger])
      (simp_all add: lateService_def streamedMerger_def sleepPoll_def e_def)
  then have "translate 300 0 (service_Latest ''v'' (snd (service_MergePoll quietEnv ''v'' sleepPoll lateService))) e =
      (True, out, e)" by (simp add: degradeIfStale_def isStale_def)
  ultimately show ?thesis using t l by metis
qed

end
