(* ===== verification/PollClaims.thy ===== *)
theory PollClaims
  imports Service
begin

section \<open>Properties of the poll loop\<close>

text \<open>
  The properties of \<^verbatim>\<open>internal/poll/poll.go\<close>: the pacing of one vehicle's loop, its error
  handling, its counters and its dealings with the stream. The witnesses run a poller whose backoff
  is a constant and whose cache is the cache service.
\<close>

subsection \<open>Concrete inputs\<close>

definition plainIntervals :: intervals where
  "plainIntervals = \<lparr>iv_Online = 0, iv_Driving = 0, iv_Charging = 0, iv_Asleep = 0, iv_Default = 0,
     iv_ChargingDC = 0, iv_DCThresholdKw = fzero, iv_DrivingStreaming = Minute, iv_StreamFreshWithin = 0,
     iv_MinInterval = 0, iv_MaxBackoff = 0, iv_JitterPct = fzero, iv_AwakeBackoffCap = 0,
     iv_QuotaBlockFloor = 0\<rparr>"

definition constOps :: "(unit, service) pollOps" where
  "constOps = serviceOps (\<lambda>_ _ _ _. ()) (\<lambda>b. b) (\<lambda>b. (Minute, b))"

definition emptyService :: service where
  "emptyService = \<lparr>sv_mergers = Map.empty, sv_order = [], sv_identities = [], sv_staleAfter = 0,
     sv_shared = \<lparr>sh_integrity = None, sh_session = None, sh_asof = None\<rparr>,
     sv_replay = \<lparr>rb_path = [], rb_depth = 1, rb_byID = Map.empty, rb_lastFlushed = 0, rb_file = FileMissing\<rparr>,
     sv_hasTrigger = False, sv_streamFreshWithin = 0\<rparr>"

definition plainPoller :: "unit poller" where
  "plainPoller = newPoller constOps 0 ''v'' plainIntervals"

definition pollEnv :: penv where
  "pollEnv = \<lparr>pe_now = Hour, pe_sinceBackoff = Hour, pe_sinceInterval = Hour, pe_rand = Fin (1 / 2),
     pe_cache = \<lparr>en_now = 0, en_asofOk = False, en_replayOk = False\<rparr>\<rparr>"

definition quotaError :: goError where
  "quotaError = [\<lparr>el_text = ''402'', el_Unauthenticated = None, el_RateLimited = None,
     el_RetryAfter = Some (2 * Hour, True), el_QuotaBlocked = Some True, el_AccountDisabled = None,
     el_TelemetryConfigWiped = Some True\<rparr>]"

subsection \<open>Delays\<close>

text \<open>
  C5: every delay the loop of a new poller schedules, over any run of polls, failures and stream
  triggers, is at least the smaller of the configured minimum interval (five seconds when none is
  configured) and the configured quota floor (an hour when none is), so the loop never spins.
\<close>

theorem loop_never_spins:
  assumes "(tr, d) \<in> set (fst (poller_run ops trigger rounds (newPoller ops now vid iv, c)))"
  shows "min (if iv_MinInterval iv \<le> 0 then 5 * Second else iv_MinInterval iv)
      (if iv_QuotaBlockFloor iv \<le> 0 then Hour else iv_QuotaBlockFloor iv) \<le> d \<and> 0 < d"
proof -
  have f: "iv_MinInterval (fillIntervals iv) = iv_MinInterval iv"
      "iv_QuotaBlockFloor (fillIntervals iv) = iv_QuotaBlockFloor iv"
    by (simp_all add: fillIntervals_def Let_def)
  show ?thesis using run_delays [OF assms]
    by (auto simp: newPoller_def Let_def f defaultMinInterval_def defaultQuotaBlockFloor_def split: if_splits)
qed

lemma loop_never_spins_witness:
  "\<exists>d. (''startup'', d) \<in> set (fst (poller_run constOps ''startup''
      [\<lparr>rd_env = pollEnv, rd_during = [], rd_result = Inl quotaError, rd_after = [], rd_wakeup = CtxDone\<rparr>]
      (newPoller constOps 0 ''v'' plainIntervals, emptyService))) \<and> 5 * Second \<le> d"
proof -
  let ?run = "poller_run constOps ''startup''
      [\<lparr>rd_env = pollEnv, rd_during = [], rd_result = Inl quotaError, rd_after = [], rd_wakeup = CtxDone\<rparr>]
      (newPoller constOps 0 ''v'' plainIntervals, emptyService)"
  have "\<exists>d. (''startup'', d) \<in> set (fst ?run)"
    by (simp add: Let_def split_beta)
  then obtain d where d: "(''startup'', d) \<in> set (fst ?run)" by blast
  from loop_never_spins [OF d] have "5 * Second \<le> d" by (simp add: plainIntervals_def)
  with d show ?thesis by blast
qed

text \<open>
  After a failed poll the next one waits at least what the server's Retry-After asks for, and at
  least the quota floor when the account is out of quota and the minimum interval otherwise; the
  failure is counted once, and the last snapshot, the time of the last success and the cache stay as
  they were.
\<close>

theorem failure_backs_off:
  fixes ops e err p c
  defines "r \<equiv> pollOnce ops e (Inl err) (p, c)"
  shows "(\<forall>ra. retryAfter err = (ra, True) \<longrightarrow> ra \<le> fst r) \<and>
    (if isQuotaBlocked err then po_quotaBlockFloor p \<le> fst r else po_minInterval p \<le> fst r) \<and>
    po_errorCount (fst (snd r)) = wrap64 (po_errorCount p + 1) \<and>
    po_consecutiveFailures (fst (snd r)) = wrap64 (po_consecutiveFailures p + 1) \<and>
    po_snapshot (fst (snd r)) = po_snapshot p \<and> po_lastSuccessAt (fst (snd r)) = po_lastSuccessAt p \<and>
    snd (snd r) = c"
  unfolding r_def
  using handleError_retryAfter handleError_delay(2,3) [of err _ ops e]
  by (auto simp: pollOnce_Inl) (simp_all add: handleError_def handleQuotaBlock_def Let_def split_beta)

lemma failure_backs_off_witness:
  "2 * Hour \<le> fst (pollOnce constOps pollEnv (Inl quotaError) (plainPoller, emptyService))"
  using failure_backs_off [of quotaError constOps pollEnv plainPoller emptyService]
  by (simp add: retryAfter_def quotaError_def)

text \<open>
  A successful poll is followed by the interval of the vehicle state it derived and reports,
  jittered: the state, the scheduled interval and the delay agree.
\<close>

theorem cadence_follows_state:
  fixes ops e snap p c
  defines "p' \<equiv> fst (snd (pollOnce ops e (Inr snap) (p, c)))"
    and "d \<equiv> fst (pollOnce ops e (Inr snap) (p, c))"
  shows "po_derivedState p' = deriveState (po_dcThresholdKw p) (sn_State snap) (sn_Live snap) \<and>
    po_scheduledInterval p' =
      cadenceOf (streamFresh ops (pe_sinceInterval e) c p) p (po_consecutiveIdle p') (po_derivedState p') \<and>
    d = jitter (pe_rand e) p (po_scheduledInterval p') \<and> po_minInterval p \<le> d"
  using jitter_floor by (auto simp: p'_def d_def pollOnce_def Let_def intervalFor_deriveState)

text \<open>
  Jitter moves a delay by no more than the configured fraction of it: with a fraction \<open>pct\<close> and
  a random number in 0 to 1, the jittered delay is within \<open>n\<close> of the delay (raised to the minimum
  interval), for every whole number of nanoseconds \<open>n\<close> that is at least \<open>pct\<close> times the delay.
\<close>

theorem jitter_stays_in_band:
  assumes "po_jitterPct p = Fin pct" and "0 \<le> pct" and "0 \<le> u" "u \<le> 1"
    and "0 < po_minInterval p" and "d' = max d (po_minInterval p)" "d' \<le> 2 ^ 53"
    and "of_int d' * pct \<le> of_int n" "n \<le> 2 ^ 53"
  shows "\<bar>jitter (Fin u) p d - d'\<bar> \<le> n"
  using assms by (rule jitter_band)

lemma jitter_stays_in_band_witness:
  "\<bar>jitter (Fin (1 / 3)) (plainPoller\<lparr>po_jitterPct := Fin (1 / 8)\<rparr>) Minute - Minute\<bar> \<le> 7500000000"
  by (rule jitter_stays_in_band [of _ "1 / 8"])
     (simp_all add: plainPoller_def newPoller_def plainIntervals_def fillIntervals_def Let_def defaultMinInterval_def)

text \<open>
  For a base interval below \<open>2 ^ 43\<close> nanoseconds the stretched interval of an idle vehicle is the
  base doubled once for every idle poll after the third, twenty times at most, and never above the
  cap nor below the base; it grows with the number of idle polls.
\<close>

theorem stretch_doubles_to_cap:
  assumes "0 < base" and "base < 2 ^ 43"
  shows "stretch base idle ceil = min (base * 2 ^ nat (min 20 (max 0 (idle - 3)))) (max base ceil) \<and>
    base \<le> stretch base idle ceil \<and> stretch base idle ceil \<le> stretch base (idle + 1) ceil"
  using stretch_spec [OF assms] stretch_bounds(1) [OF assms] stretch_mono [OF assms, of idle "idle + 1"]
  by (simp add: stretchSpec_def)

lemma stretch_doubles_to_cap_witness:
  "stretch (2 * Minute) 5 (Hour) = 8 * Minute"
  using stretch_doubles_to_cap [of "2 * Minute" 5 Hour] by simp

subsection \<open>Counters\<close>

text \<open>
  C30: after any run of a new poller of \<open>n\<close> polls, the successes and the errors add up to \<open>n\<close>, the
  changed polls and the polls of an online vehicle are successes, rate limits and quota blocks are
  errors, the polls by state add up to the successes, and there is a last error exactly when the
  latest polls failed; after a success nothing remains of an earlier failure.
\<close>

theorem poll_books_balance:
  fixes ops now vid iv trigger rounds c
  defines "r \<equiv> poller_run ops trigger rounds (newPoller ops now vid iv, c)"
  defines "p \<equiv> fst (snd r)"
  assumes "int (length rounds) \<le> maxInt64"
  shows "po_successCount p + po_errorCount p = int (length (fst r)) \<and>
    po_changedCount p \<le> po_successCount p \<and> po_vehicleDataFetches p \<le> po_successCount p \<and>
    po_rateLimitedCount p + po_quotaBlockedCount p \<le> po_errorCount p \<and>
    stateTotal (po_pollsByState p) = po_successCount p \<and>
    (po_consecutiveFailures p = 0 \<longleftrightarrow> po_lastErr p = None) \<and>
    (po_lastErr p = None \<longrightarrow> \<not> po_needsReauth p \<and> \<not> po_telemetryConfigWiped p \<and>
       po_quotaBlockedUntil p = 0 \<and> po_lastBackoff p = 0)"
  using run_books [OF new_books, where ops = ops and rounds = rounds and trigger = trigger and c = c] assms(3)
  unfolding p_def r_def pollBooks_def by auto

lemma poll_books_balance_witness:
  "po_errorCount (fst (snd (poller_run constOps ''startup''
      [\<lparr>rd_env = pollEnv, rd_during = [], rd_result = Inl quotaError, rd_after = [], rd_wakeup = CtxDone\<rparr>]
      (newPoller constOps 0 ''v'' plainIntervals, emptyService)))) \<le> 1"
proof -
  let ?rs = "[\<lparr>rd_env = pollEnv, rd_during = [], rd_result = Inl quotaError, rd_after = [], rd_wakeup = CtxDone\<rparr>]"
  let ?r = "poller_run constOps ''startup'' ?rs (newPoller constOps 0 ''v'' plainIntervals, emptyService)"
  have len: "length (fst ?r) = 1" by (simp add: Let_def split_beta)
  have "0 \<le> po_successCount (fst (snd ?r))"
    by (simp add: Let_def pollOnce_Inl newPoller_def)
  then show ?thesis
    using poll_books_balance [where rounds = ?rs and ops = constOps and trigger = "''startup''" and now = 0
        and vid = "''v''" and iv = plainIntervals and c = emptyService] len
    by (simp add: maxInt64_def del: poller_run.simps)
qed

subsection \<open>The stream and the loop\<close>

text \<open>
  Polling through the cache never makes a stream look alive: if a vehicle's last frame was
  already too old at some time, it is still too old at that time after any number of polls, so the
  loop does not slow down for a stream that has stalled.
\<close>

theorem stalled_stream_stays_stalled:
  fixes newB reset nxt
  defines "ops \<equiv> serviceOps newB reset nxt"
  assumes "po_streamFreshWithin p \<le> time_sub now (service_LastStreamAt (po_id p) s)"
  shows "\<not> streamFresh ops now (snd (snd (poller_run ops trigger rounds (p, s)))) p"
proof -
  have "op_LastStreamAt (serviceOps newB reset nxt) = service_LastStreamAt" by (simp add: serviceOps_def)
  then show ?thesis unfolding ops_def using assms(2) by (intro cachePolls.stalled_stays_stalled) simp
qed

lemma stalled_stream_stays_stalled_witness:
  "\<not> streamFresh (serviceOps (\<lambda>_ _ _ _. ()) (\<lambda>b. b) (\<lambda>b. (Minute, b))) Hour
     (snd (snd (poller_run (serviceOps (\<lambda>_ _ _ _. ()) (\<lambda>b. b) (\<lambda>b. (Minute, b))) ''startup''
      [\<lparr>rd_env = pollEnv, rd_during = [], rd_result = Inr zeroSnapshot, rd_after = [], rd_wakeup = CtxDone\<rparr>]
      (plainPoller, emptyService)))) plainPoller"
  by (rule stalled_stream_stays_stalled)
     (simp add: service_LastStreamAt_def emptyService_def plainPoller_def newPoller_def plainIntervals_def
        fillIntervals_def Let_def time_sub_def minInt64_def maxInt64_def unixEpoch_def)

text \<open>
  A poll that fails because the account is out of quota does not hold the loop back from a
  stream boundary: once the minimum interval since the last success has passed, a trigger wakes the
  loop at once, although the block it has just recorded lasts longer.
\<close>

theorem quota_block_yields_to_trigger:
  assumes "isQuotaBlocked err" and "po_minInterval p \<le> time_sub now (po_lastSuccessAt p)"
    and "\<not> po_pollNow p"
  shows "\<exists>p'. poller_wake PollNowReceived (triggerNow now (fst (snd (pollOnce ops e (Inl err) (p, c))))) =
      Some (''boundary'', p') \<and> pe_now e + po_quotaBlockFloor p \<le> po_quotaBlockedUntil p'"
  using assms
  by (simp add: triggerNow_def pollOnce_Inl handleError_def handleQuotaBlock_def Let_def split_beta)

lemma quota_block_yields_to_trigger_witness:
  "\<exists>p'. poller_wake PollNowReceived (triggerNow (Hour + Second)
      (fst (snd (pollOnce constOps pollEnv (Inl quotaError) (plainPoller\<lparr>po_lastSuccessAt := 1\<rparr>, emptyService))))) =
      Some (''boundary'', p') \<and> 2 * Hour \<le> po_quotaBlockedUntil p'"
proof -
  let ?p = "plainPoller\<lparr>po_lastSuccessAt := 1\<rparr>"
  have "\<exists>p'. poller_wake PollNowReceived (triggerNow (Hour + Second)
      (fst (snd (pollOnce constOps pollEnv (Inl quotaError) (?p, emptyService))))) =
      Some (''boundary'', p') \<and> pe_now pollEnv + po_quotaBlockFloor ?p \<le> po_quotaBlockedUntil p'"
    by (rule quota_block_yields_to_trigger)
       (simp_all add: isQuotaBlocked_def quotaError_def plainPoller_def newPoller_def plainIntervals_def
          fillIntervals_def Let_def defaultMinInterval_def time_sub_def minInt64_def maxInt64_def)
  then show ?thesis
    by (simp add: pollEnv_def plainPoller_def newPoller_def plainIntervals_def
          fillIntervals_def Let_def defaultQuotaBlockFloor_def)
qed

end
