(* ===== verification/FleetClaims.thy ===== *)
theory FleetClaims
  imports FleetLaws Idmap
begin

section \<open>Properties of the Tesla Fleet sink, its source and the id map\<close>

text \<open>
  What the synthetic Tesla Fleet API of \<^verbatim>\<open>fleet/poll/v1\<close> promises its consumers, what survives the
  way through its wire format and back, and the synthetic ids of \<^verbatim>\<open>plugin/sink/idmap\<close>.
\<close>

subsection \<open>Concrete inputs\<close>

definition sampleIDs :: fleetIDs where
  "sampleIDs = \<lparr>fi_ID = 1, fi_VehicleID = 2, fi_VIN = ''VIN'', fi_DisplayName = ''car''\<rparr>"

definition sampleCfg :: fleetCfg where
  "sampleCfg = \<lparr>fc_CarType = ''model3'', fc_Model = []\<rparr>"

definition fullState :: state where
  "fullState = zeroState\<lparr>st_Power := PowerOnline, st_Gear := GearPark, st_HeadingDeg := Fin 90,
     st_BatteryLevelPct := Fin 80, st_BatteryLimitPct := Fin 90, st_OdometerMeters := 1000,
     st_RangeKm := 300, st_Charger := ChargerIdle, st_Plug := PlugConnected,
     st_Location := Some \<lparr>loc_Latitude = Fin 1, loc_Longitude = Fin 2, loc_TimeStamp = unixEpoch + Second\<rparr>,
     st_OtaVersion := ''1'', st_CarType := ''modely'', st_TrimBadging := ''74D'',
     st_SeatHeatFrontLeft := ''Off'', st_SeatHeatFrontRight := ''Off'', st_SeatHeatRearLeft := ''Off'',
     st_SeatHeatRearRight := ''Off'', st_SteeringWheelHeat := ''Off'', st_DefrostStatus := ''Off'',
     st_PreconditioningStatus := ''off'', st_GearGuardStatus := ''disabled'',
     st_DoorFrontLeftLocked := ''locked'', st_DoorFrontRightLocked := ''locked'',
     st_DoorRearLeftLocked := ''locked'', st_DoorRearRightLocked := ''locked'',
     st_DoorFrontLeftClosed := ''closed'', st_DoorFrontRightClosed := ''closed'',
     st_DoorRearLeftClosed := ''closed'', st_DoorRearRightClosed := ''closed'',
     st_WindowFrontLeftClosed := ''closed'', st_WindowFrontRightClosed := ''closed'',
     st_WindowRearLeftClosed := ''closed'', st_WindowRearRightClosed := ''closed'',
     st_FrunkClosed := ''closed'', st_LiftgateClosed := ''closed''\<rparr>"

subsection \<open>What is served\<close>

text \<open>
  Once a vehicle's state has been served, any number of reads while the source reports no state
  or an empty one repeat the last known battery level and limit, range, charged energy, odometer,
  shift state, position and software version.
\<close>

theorem junk_readings_never_served:
  assumes "serve ids cfg (now, Some vs, live, asOf) prev = Some p" and "\<forall>r \<in> set rs. junkRequest r"
  shows "\<exists>vd. fold (serve ids cfg) rs (Some p) = Some vd \<and> heldReadings vd = heldReadings p"
proof -
  have "\<exists>vd. fold (serve ids cfg) rs (Some p) = Some vd" for p
    by (induction rs arbitrary: p) (auto simp: serve_def)
  then show ?thesis using junk_run_holds [OF assms(2) served_full [OF assms(1)]] by blast
qed

lemma junk_readings_never_served_witness:
  "\<exists>p vd. serve sampleIDs sampleCfg (0, Some fullState, None, 0) None = Some p \<and>
     fold (serve sampleIDs sampleCfg) [(1, None, None, 1), (2, Some zeroState, None, 2)] (Some p) = Some vd \<and>
     heldReadings vd = heldReadings p"
proof -
  obtain p where p: "serve sampleIDs sampleCfg (0, Some fullState, None, 0) None = Some p"
    by (simp add: serve_def)
  have "\<forall>r \<in> set [(1, None, None, 1), (2, Some zeroState, None, 2)]. junkRequest r"
    by (simp add: junkRequest_def junkState_def)
  from junk_readings_never_served [OF p this] p show ?thesis by blast
qed

text \<open>
  The sink and the poll loop agree on what a DC fast charge is: the payload says a fast charger
  is present exactly when the loop's own classification, at its default threshold, says so, and then
  it carries no voltage, phases or current.
\<close>

theorem dc_charge_agrees_with_poll:
  "cs_FastChargerPresent (chargeState prev vs live ms) = Some (isDC live defaultDCThresholdKw) \<and>
   (if isDC live defaultDCThresholdKw
    then cs_ChargerVoltage (chargeState prev vs live ms) = None \<and>
      cs_ChargerPhases (chargeState prev vs live ms) = None \<and>
      cs_ChargerActualCurrent (chargeState prev vs live ms) = None
    else cs_ChargerVoltage (chargeState prev vs live ms) =
      (case live of None \<Rightarrow> None | Some l \<Rightarrow> if flt fzero (ls_PowerKw l) then Some 240 else None))"
  using chargeState_kind [where prev = prev and vs = vs and live = live and ms = ms] by (auto simp: isDcSession_isDC split: option.split)

text \<open>
  C14: a state served by the sink without a charging session and decoded by the Fleet source comes back, whatever was
  served before, as its image under the wire, field by field. The readings the sink would otherwise take from its last
  payload or the configuration must be there (gear, charge and limit, odometer, range, position, versions), percentages
  and the heading below 2^53, distances below 2^50, and the times after the epoch; nothing is asked of the others. What
  the wire cuts: times to its milliseconds and seconds, the heading, the charge and the limit to whole numbers, the
  install progress rounded, the speed through miles per hour; an unknown power is offline. What it tells apart no
  further: the four locks, locked only together; doors, windows and lids, open or closed; seat heat beyond level 3,
  heated wheel and defrost as on or off, preconditioning and the gear guard as on or off, tyres as OK or not; the
  stages of an update; the names of the models; and the charger, disconnected when it is unknown or nothing is plugged
  in, with the plug, connected only to a charger that charges or idles. What
  it has no place for: the cloud's liveness, the voltage, the tonneau and the tailgate. Every other field is unchanged.
\<close>

theorem state_survives_the_wire:
  assumes "readingsKnown vs" and "readingsModerate vs" and "unixEpoch + Millisecond \<le> asOf"
  shows "sn_State (decodeVehicleData (Some (vehicleDataOf now prev (Some vs) None ids cfg asOf))) =
    Some (wireImage asOf vs)"
  by (rule fleet_state_roundtrip [OF assms])

lemma state_survives_the_wire_witness:
  "\<exists>st. sn_State (decodeVehicleData (Some (vehicleDataOf 0 None
      (Some (fullState\<lparr>st_BatteryLevelPct := Fin (161 / 2), st_DoorRearLeftLocked := ''unlocked'', st_Power := PowerUnknown\<rparr>))
      None sampleIDs sampleCfg (unixEpoch + Second + 7)))) = Some st \<and>
    st_OdometerMeters st = 1000 \<and> st_BatteryLevelPct st = Fin 80 \<and> st_DoorFrontLeftLocked st = ''unlocked'' \<and>
    st_Power st = PowerOffline \<and> st_LastUpdate st = unixEpoch + Second \<and> st_CarType st = ''modely''"
proof -
  let ?vs = "fullState\<lparr>st_BatteryLevelPct := Fin (161 / 2), st_DoorRearLeftLocked := ''unlocked'', st_Power := PowerUnknown\<rparr>"
  have known: "readingsKnown ?vs" by (simp add: readingsKnown_def fullState_def)
  have "moderate (Fin x)" if "\<bar>x\<bar> \<le> 2 ^ 53 - 1" for x using that by (simp add: moderate_def)
  then have range: "readingsModerate ?vs" by (simp add: readingsModerate_def fullState_def)
  have time: "unixEpoch + Millisecond \<le> unixEpoch + Second + 7" by simp
  have "teslaModelNames ''modely'' = None" by (simp add: teslaModelNames_def)
  moreover have "trunc (161 / 2) = 80" by (simp add: trunc_def floor_eq_iff)
  moreover have "cutTime Millisecond (unixEpoch + Second + 7) = unixEpoch + Second" by (simp add: cutTime_def)
  ultimately show ?thesis
    unfolding state_survives_the_wire [OF known range time] by (simp add: wireImage_def Let_def fullState_def)
qed

subsection \<open>Synthetic ids\<close>

text \<open>
  C31: asked for a vehicle's id with a working disk, a well-formed map with fewer entries than the
  probe bound always answers; the id is positive, belongs to this vehicle alone and leads back to it,
  every id given before stays, and the map is well formed again. Written to its file and loaded, in
  whatever order the file lists its pairs, it answers the same.
\<close>

theorem ids_are_stable_and_unique:
  assumes "idmap_ok m" and "card (dom (im_byID m)) < fuel" and "int fuel \<le> maxInt64"
  shows "\<exists>vid m'. idmap_ID fuel True guid m = Some (Inr vid, m') \<and> 0 < vid \<and>
    idmap_GUID vid m' = Some guid \<and> (\<forall>g. im_byKey m' g = Some vid \<longrightarrow> g = guid) \<and>
    im_byKey m \<subseteq>\<^sub>m im_byKey m' \<and> idmap_ok m' \<and>
    (\<forall>ps. im_path m' \<noteq> [] \<and> distinct (map fst ps) \<and> map_of ps = im_byKey m' \<longrightarrow>
      (\<exists>m2. newIdMap (im_path m') (im_file (snd (idmap_persist True m'))) ps = Inr m2 \<and>
        im_byKey m2 = im_byKey m' \<and> im_byID m2 = im_byID m'))"
proof -
  obtain res m' where r: "idmap_ID fuel True guid m = Some (res, m')"
    using idmap_ID_total [OF assms, of True guid] by (metis prod.collapse)
  note ok = idmap_ID_ok [OF assms(1) r]
  from ok(2) obtain vid where vid: "im_byKey m' guid = Some vid" "0 < vid" "res = Inr vid" by auto
  have both: "im_byKey m' g = Some v \<longleftrightarrow> im_byID m' v = Some g" for g v
    using ok(1) by (simp add: idmap_ok_def)
  have "\<forall>ps. im_path m' \<noteq> [] \<and> distinct (map fst ps) \<and> map_of ps = im_byKey m' \<longrightarrow>
      (\<exists>m2. newIdMap (im_path m') (im_file (snd (idmap_persist True m'))) ps = Inr m2 \<and>
        im_byKey m2 = im_byKey m' \<and> im_byID m2 = im_byID m')"
    using load_roundtrip [OF ok(1)] by blast
  moreover have "idmap_GUID vid m' = Some guid" "\<forall>g. im_byKey m' g = Some vid \<longrightarrow> g = guid"
    using both vid(1) by (auto simp: idmap_GUID_def)
  ultimately show ?thesis using r vid(2,3) ok(1,3) by blast
qed

lemma ids_are_stable_and_unique_witness:
  "\<exists>vid m'. idmap_ID 1 True ''guid'' \<lparr>im_path = [], im_byID = Map.empty, im_byKey = Map.empty,
      im_file = FileMissing\<rparr> = Some (Inr vid, m') \<and> 0 < vid \<and> idmap_GUID vid m' = Some ''guid''"
  using ids_are_stable_and_unique [of "\<lparr>im_path = [], im_byID = Map.empty, im_byKey = Map.empty,
      im_file = FileMissing\<rparr>" 1 "''guid''"]
  by (auto simp: idmap_ok_def maxInt64_def)

end
