(* ===== verification/StreamClaims.thy ===== *)
theory StreamClaims
  imports StreamDecodeLaws StreamSource StreamSinkLaws
begin

section \<open>Properties of the streaming source and the streaming sink\<close>

text \<open>
  \<^verbatim>\<open>fleet/stream/v1\<close>, which receives Fleet Telemetry frames, and \<^verbatim>\<open>tesla/stream/v1\<close>, which pushes
  \<^verbatim>\<open>data:update\<close> frames: what a decoded frame marks, who is admitted, what a pushed frame holds and
  how pushes are paced.
\<close>

subsection \<open>Decoding\<close>

text \<open>
  A decoded frame carries a field exactly when one of its data has the field's key (and, for a
  position, a position's value); every field it does not carry is left at its zero value, and data
  under keys the source does not know change nothing.
\<close>

theorem frame_carries_what_it_marks:
  fixes exotic now ds
  defines "snap \<equiv> decodePayload exotic now (Some ds)"
  shows "(\<forall>b. has_flag (sn_StreamPresent snap) b = (\<exists>d. Some d \<in> set ds \<and> flagOf d = Some b)) \<and>
    copyStreamed zeroState (the (sn_State snap)) (sn_StreamPresent snap) = the (sn_State snap) \<and>
    snap = decodePayload exotic now
      (Some (filter (\<lambda>d. case d of None \<Rightarrow> False | Some x \<Rightarrow> flagOf x \<noteq> None) ds))"
proof -
  obtain st where st: "sn_State snap = Some st"
    by (simp add: snap_def decodePayload_def Let_def)
  show ?thesis
    using decodePayload_present decodePayload_onlyMarked [OF st [unfolded snap_def]] decodePayload_unknown st
    by (simp add: snap_def)
qed

subsection \<open>Admission\<close>

text \<open>
  Over any sequence of arrivals and departures, the listener admits at most its global cap of
  connections at once, and from one address at most the per-address cap, when there is one; a
  departure makes room again.
\<close>

theorem listener_caps_hold:
  assumes "global \<le> maxInt64"
    and "fold listener.visit vs ([], newCappedListener global perIP) = (held, l)"
  shows "int (length held) \<le> max 0 global \<and> cl_active l = int (length held) \<and>
    (0 < perIP \<longrightarrow> (\<forall>ip. int (count_list held ip) \<le> perIP)) \<and>
    (\<forall>ip. fst (listener_reserve ip l) \<longleftrightarrow> int (length held) < global \<and>
       (0 < perIP \<longrightarrow> int (count_list held ip) < perIP))"
proof -
  have ok: "listener_ok held l"
    using listener.visits_ok [OF newListener_ok [OF assms(1)] assms(2)] by blast
  have v: "cl_global (snd (listener.visit v (h, k))) = cl_global k \<and> cl_perIP (snd (listener.visit v (h, k))) = cl_perIP k"
    for v h k
    by (cases v; cases "fst v"; auto simp: listener_reserve_def listener_release_def Let_def split: bool.split if_splits)
  have v': "cl_global (snd (listener.visit v hk)) = cl_global (snd hk) \<and>
      cl_perIP (snd (listener.visit v hk)) = cl_perIP (snd hk)" for v hk
    using v [of v "fst hk" "snd hk"] by simp
  have "cl_global (snd (fold listener.visit vs hk)) = cl_global (snd hk) \<and>
      cl_perIP (snd (fold listener.visit vs hk)) = cl_perIP (snd hk)" for hk
    by (induction vs arbitrary: hk) (simp_all add: v')
  from this [of "([], newCappedListener global perIP)"] assms(2)
  have "cl_global l = global" "cl_perIP l = perIP" by (simp_all add: newCappedListener_def)
  then show ?thesis using ok by (auto simp: listener_ok_def listener_reserve_def)
qed

lemma listener_caps_hold_witness:
  "\<exists>held l. fold listener.visit [(True, ''a''), (True, ''a''), (True, ''b'')] ([], newCappedListener 2 1) = (held, l) \<and>
     length held \<le> 2 \<and> count_list held ''a'' \<le> 1"
proof -
  obtain held l where r: "fold listener.visit [(True, ''a''), (True, ''a''), (True, ''b'')]
      ([], newCappedListener 2 1) = (held, l)" by fastforce
  from listener_caps_hold [OF _ r] have "int (length held) \<le> 2" "int (count_list held ''a'') \<le> 1"
    by (simp_all add: maxInt64_def)
  with r show ?thesis by (simp del: fold_simps)
qed

text \<open>
  A frame of a vehicle the cache does not know moves nothing in the cache and asks for no poll,
  and only the cache's own set of vehicles decides that: the source's configured list of VINs is never
  consulted.
\<close>

theorem unknown_vehicle_ignored:
  "(vr_Vin rec \<notin> service_KnownIDs sv \<longrightarrow>
     (case handleVehicleData e rec (src, logged, sv) of (polls, _, _, sv') \<Rightarrow> polls = [] \<and> sv' = sv)) \<and>
   handleVehicleData e rec (src\<lparr>ft_known := vins\<rparr>, logged, sv) =
     (case handleVehicleData e rec (src, logged, sv) of (polls, src', r) \<Rightarrow> (polls, src'\<lparr>ft_known := vins\<rparr>, r))"
proof -
  obtain polls src' logged' sv' where h: "handleVehicleData e rec (src, logged, sv) = (polls, src', logged', sv')"
    by (metis surj_pair)
  show ?thesis using handle_unknown [OF _ h] known_vins_ignored [where e = e and rec = rec and src = src and vins = vins
      and logged = logged and sv = sv] h by auto
qed

definition noUnmarshal :: telemetryEnv where
  "noUnmarshal = \<lparr>te_exotic = (\<lambda>_. None), te_unmarshal = (\<lambda>_. Some [Some \<lparr>dt_Key = FdSoc, dt_Value = Some (DoubleValue (Fin 50))\<rparr>]),
     te_now = 5, te_cache = \<lparr>en_now = 5, en_asofOk = False, en_replayOk = False\<rparr>\<rparr>"

definition knownService :: service where
  "knownService = \<lparr>sv_mergers = [''v'' \<mapsto> newMerger ''v''], sv_order = [''v''], sv_identities = [], sv_staleAfter = 0,
     sv_shared = \<lparr>sh_integrity = None, sh_session = None, sh_asof = None\<rparr>,
     sv_replay = \<lparr>rb_path = [], rb_depth = 1, rb_byID = Map.empty, rb_lastFlushed = 0, rb_file = FileMissing\<rparr>,
     sv_hasTrigger = True, sv_streamFreshWithin = 0\<rparr>"

lemma unknown_vehicle_ignored_witness:
  "\<exists>src'. handleVehicleData noUnmarshal \<lparr>vr_TxType = ''V'', vr_Vin = ''w'', vr_Payload = ''p''\<rparr>
      (newSource \<lparr>ss_Port = 0, ss_Host = [], ss_Path = [], ss_KnownVINs = [], ss_IdleTimeout = 0,
         ss_MaxConns = 0, ss_MaxConnsPerIP = 0\<rparr>, False, knownService) = ([], src')
    \<and> snd (snd src') = knownService"
  using unknown_vehicle_ignored [of "\<lparr>vr_TxType = ''V'', vr_Vin = ''w'', vr_Payload = ''p''\<rparr>" knownService noUnmarshal
      "newSource \<lparr>ss_Port = 0, ss_Host = [], ss_Path = [], ss_KnownVINs = [], ss_IdleTimeout = 0,
         ss_MaxConns = 0, ss_MaxConnsPerIP = 0\<rparr>" False "{}"]
  by (auto simp: service_KnownIDs_def knownService_def split: prod.splits)

subsection \<open>Pushed frames\<close>

text \<open>
  With numbers formatted without commas, the value of a pushed frame splits at its commas into
  the timestamp and twelve columns; the timestamp is the served time in Unix milliseconds, the
  position is in its columns when there is one, and a shift state is sent only together with a
  position.
\<close>

theorem frame_splits_into_columns:
  assumes "\<And>x. CHR '','' \<notin> set (fmt x)" and "sn_State snap = Some st"
  shows "\<exists>cols. dataColumnsFor fmt snap = Some (itoa (unixMilli (asOfTime snap)), cols) \<and>
    splitComma (frameValue (itoa (unixMilli (asOfTime snap))) cols) = itoa (unixMilli (asOfTime snap)) # cols \<and>
    length cols = 12 \<and>
    cols ! 5 = (case st_Location st of None \<Rightarrow> [] | Some l \<Rightarrow> fmt (loc_Latitude l)) \<and>
    cols ! 6 = (case st_Location st of None \<Rightarrow> [] | Some l \<Rightarrow> fmt (loc_Longitude l)) \<and>
    cols ! 8 = (if st_Gear st \<noteq> GearUnknown \<and> st_Location st \<noteq> None then shiftState (st_Gear st) else [])"
proof -
  obtain ts cols where c: "dataColumnsFor fmt snap = Some (ts, cols)"
    using assms(2) by (simp add: dataColumnsFor_def Let_def)
  have n: "numColumns = 12" by (simp add: numColumns_def dataColumns_def)
  show ?thesis
    using c columns_ts [OF c] frame_parses [OF assms(1) c] columns_nth(1-3) [OF c assms(2)] n
    by (intro exI [of _ cols]) simp
qed

lemma frame_splits_into_columns_witness:
  "\<exists>cols. dataColumnsFor (\<lambda>_. ''1.5'') (zeroSnapshot\<lparr>sn_State := Some zeroState\<rparr>) =
      Some (itoa (unixMilli 0), cols) \<and> length cols = 12"
proof -
  have "\<exists>cols. dataColumnsFor (\<lambda>_. ''1.5'') (zeroSnapshot\<lparr>sn_State := Some zeroState\<rparr>) =
      Some (itoa (unixMilli (asOfTime (zeroSnapshot\<lparr>sn_State := Some zeroState\<rparr>))), cols) \<and>
    splitComma (frameValue (itoa (unixMilli (asOfTime (zeroSnapshot\<lparr>sn_State := Some zeroState\<rparr>)))) cols) =
      itoa (unixMilli (asOfTime (zeroSnapshot\<lparr>sn_State := Some zeroState\<rparr>))) # cols \<and>
    length cols = 12 \<and>
    cols ! 5 = (case st_Location zeroState of None \<Rightarrow> [] | Some l \<Rightarrow> ''1.5'') \<and>
    cols ! 6 = (case st_Location zeroState of None \<Rightarrow> [] | Some l \<Rightarrow> ''1.5'') \<and>
    cols ! 8 = (if st_Gear zeroState \<noteq> GearUnknown \<and> st_Location zeroState \<noteq> None
      then shiftState (st_Gear zeroState) else [])"
    by (rule frame_splits_into_columns) simp_all
  then show ?thesis by (auto simp: asOfTime_def)
qed

lemma addIdentities_vin:
  assumes "addIdentities fuel wok idents (m, r) = Some (Inr (m', r'))"
  shows "tr_byVIN r' v = (case map_of (rev (map (\<lambda>i. (id_VIN i, id_ID i)) (filter (\<lambda>i. id_VIN i \<noteq> []) idents))) v of
      None \<Rightarrow> tr_byVIN r v | Some g \<Rightarrow> Some g)"
  using assms
proof (induction idents arbitrary: m r)
  case (Cons i idents)
  obtain n m1 where i: "idmap_ID fuel (wok (id_ID i)) (id_ID i) m = Some (Inr n, m1)"
    using Cons.prems by (auto split: option.splits sum.splits)
  from Cons.prems i Cons.IH show ?case
    by (fastforce simp: Let_def map_add_def split: option.splits if_splits)
qed simp

text \<open>
  The resolver built in memory for a set of vehicles with distinct VINs resolves every one of
  them from the decimal form of a positive synthetic id, and from its VIN when it has one that is not
  itself a decimal number.
\<close>

theorem resolver_finds_every_vehicle:
  assumes "buildResolver fuel wok [] file stored idents = Some (Inr r)"
    and "distinct (map id_VIN (filter (\<lambda>i. id_VIN i \<noteq> []) idents))" and "ident \<in> set idents"
  shows "(\<exists>n. 0 < n \<and> resolveTag r (itoa n) = Some (id_ID ident)) \<and>
    (id_VIN ident \<noteq> [] \<and> parseInt64 (id_VIN ident) = None \<longrightarrow> resolveTag r (id_VIN ident) = Some (id_ID ident))"
proof -
  let ?e = "\<lparr>tr_byInt64 = Map.empty, tr_byVIN = Map.empty\<rparr> :: tagResolver"
  obtain m where m: "newIdMap [] file stored = Inr m"
    using assms(1) by (auto simp: buildResolver_def split: sum.splits)
  from assms(1) m have "map_option (map_sum (\<lambda>err. err) snd) (addIdentities fuel wok idents (m, ?e)) = Some (Inr r)"
    by (simp add: buildResolver_def)
  then obtain x where "addIdentities fuel wok idents (m, ?e) = Some x" "map_sum (\<lambda>err. err) snd x = Inr r" by auto
  then obtain m' where a: "addIdentities fuel wok idents (m, ?e) = Some (Inr (m', r))"
    by (cases x) auto
  have "resolver_ok (m, ?e)" using newIdMap_memory_ok [OF m] by (simp add: resolver_ok_def)
  from addIdentities_numbered [OF this a] have ok: "resolver_ok (m', r)" and num: "numbered (id_ID ident) (m', r)"
    using assms(3) by auto
  from numbered_resolves [OF this] obtain n where n: "im_byKey m' (id_ID ident) = Some n"
      "resolveTag r (itoa n) = Some (id_ID ident)" by blast
  have "0 < n" using ok n(1) by (auto simp: resolver_ok_def idmap_ok_def)
  moreover have "tr_byVIN r (id_VIN ident) = Some (id_ID ident)" if "id_VIN ident \<noteq> []"
  proof -
    let ?ps = "map (\<lambda>i. (id_VIN i, id_ID i)) (filter (\<lambda>i. id_VIN i \<noteq> []) idents)"
    have d: "distinct (map fst (rev ?ps))"
      using assms(2) by (simp add: rev_map [symmetric] comp_def)
    have "(id_VIN ident, id_ID ident) \<in> set (rev ?ps)" using that assms(3) by auto
    with d have "map_of (rev ?ps) (id_VIN ident) = Some (id_ID ident)" by (simp only: map_of_is_SomeI)
    then show ?thesis using addIdentities_vin [OF a, of "id_VIN ident"] by simp
  qed
  ultimately show ?thesis using n(2) by (auto simp: resolveTag_def)
qed

lemma resolver_finds_every_vehicle_witness:
  "\<exists>r n. buildResolver 1 (\<lambda>_. True) [] FileMissing []
      [\<lparr>id_ID = ''g'', id_VIN = ''V'', id_DisplayName = [], id_Make = [], id_Model = []\<rparr>] = Some (Inr r) \<and>
     resolveTag r (itoa n) = Some ''g'' \<and> resolveTag r ''V'' = Some ''g''"
proof -
  let ?i = "\<lparr>id_ID = ''g'', id_VIN = ''V'', id_DisplayName = [], id_Make = [], id_Model = []\<rparr> :: identity"
  obtain r where r: "buildResolver 1 (\<lambda>_. True) [] FileMissing [] [?i] = Some (Inr r)"
    by (simp add: buildResolver_def newIdMap_def idmap_ID_def idmap_persist_def Let_def)
  have "parseInt64 ''V'' = None" by (simp add: parseInt64_def splitSign_def isDigit_def)
  then show ?thesis using resolver_finds_every_vehicle [OF r, of ?i] r by auto
qed

subsection \<open>Consumers and pacing\<close>

text \<open>
  C33: however the opening and closing handlers of concurrent consumers interleave, with the counter
  raised before it is compared and taken back after, no more than the configured maximum are ever
  being served, and the counter is exact whenever no rejection is in progress.
\<close>

theorem consumers_stay_bounded:
  assumes "(sink_step maxConsumers)\<^sup>*\<^sup>* (0, \<lambda>_. ConnNew) (count, ph)" and "0 \<le> maxConsumers"
  shows "finite {c. ph c = ConnOpen} \<and> int (card {c. ph c = ConnOpen}) \<le> maxConsumers \<and>
    ({c. ph c = ConnOver} = {} \<longrightarrow> count = int (card {c. ph c = ConnOpen}))"
  using sink_reachable_inv [OF assms(1) sink_init_inv [OF assms(2)]]
  by (auto simp: sink_inv_def phases_def)

lemma consumers_stay_bounded_witness:
  "\<exists>count ph. (sink_step 1)\<^sup>*\<^sup>* (0, \<lambda>_. ConnNew) (count, ph) \<and> ph 7 = ConnOpen \<and>
     int (card {c. ph c = ConnOpen}) \<le> 1"
proof -
  have "sink_step 1 (0, \<lambda>_. ConnNew) (0 + 1, (\<lambda>_. ConnNew)(7 := ConnOpen))"
    by (rule sink_step.OpenUnder) simp_all
  then have r: "(sink_step 1)\<^sup>*\<^sup>* (0, \<lambda>_. ConnNew) (0 + 1, (\<lambda>_. ConnNew)(7 := ConnOpen))"
    by (rule r_into_rtranclp)
  show ?thesis
    using consumers_stay_bounded [OF r] r
    by (intro exI [of _ "0 + 1"] exI [of _ "(\<lambda>_. ConnNew)(7 := ConnOpen)"]) (simp del: fun_upd_apply, simp)
qed

text \<open>The latest snapshot is the last frame queued, unless it has no state to push.\<close>

definition delivered :: "(f64 \<Rightarrow> string) \<Rightarrow> snapshot \<Rightarrow> broadcaster \<Rightarrow> bool" where
  "delivered fmt latest b = (case dataColumnsFor fmt latest of None \<Rightarrow> True
     | Some (ts, cols) \<Rightarrow> se_queue (bc_sender b) \<noteq> [] \<and>
         last (se_queue (bc_sender b)) = encodeFrame (bc_tag b) ts cols)"

lemma pushSnap_delivers:
  "pushSnap fmt now latest (b, k) = (True, b', k') \<Longrightarrow> delivered fmt latest b' \<and>
     (bc_pending b' = bc_pending b)"
  by (auto simp: pushSnap_def delivered_def sender_Send_def Let_def split: option.splits if_splits)

text \<open>
  C34: in a round of the broadcaster that leaves the consumer connected, a change is either pushed or
  remembered; a remembered one stays remembered until the latest snapshot is pushed, which the first
  tick after the pacing interval does; two pushes are at least the interval apart; and the outgoing
  queue never exceeds its capacity.
\<close>

theorem no_change_is_lost:
  assumes "broadcast_round fmt minInt now latest i (b, k) = (True, b', k')" and "0 < minInt"
  shows "(i = BcEvent \<or> bc_pending b \<longrightarrow> bc_pending b' \<or> delivered fmt latest b') \<and>
    (i = BcTick \<and> bc_pending b \<and> minInt \<le> time_sub now (bc_lastPush b) \<longrightarrow> delivered fmt latest b') \<and>
    (bc_lastPush b' \<noteq> bc_lastPush b \<longrightarrow> bc_lastPush b' = now \<and> minInt \<le> time_sub now (bc_lastPush b)) \<and>
    (length (se_queue (bc_sender b)) \<le> se_cap (bc_sender b) \<longrightarrow>
       length (se_queue (bc_sender b')) \<le> se_cap (bc_sender b'))"
proof -
  have del: "delivered fmt latest b'" if "push fmt now latest (b, k) = (True, b', k')"
  proof -
    obtain ok b0 k0 where p: "pushSnap fmt now latest (b, k) = (ok, b0, k0)" by (metis surj_pair)
    with that have "ok" "b' = b0\<lparr>bc_pending := False\<rparr>" by (auto simp: push_def)
    moreover have "delivered fmt latest b0" using pushSnap_delivers [of fmt now latest b k b0 k0] p \<open>ok\<close> by simp
    ultimately show ?thesis by (auto simp: delivered_def split: option.splits)
  qed
  have q: "length (se_queue (bc_sender b')) \<le> se_cap (bc_sender b')"
    if "push fmt now latest (b, k) = (True, b', k')" "length (se_queue (bc_sender b)) \<le> se_cap (bc_sender b)"
    using that by (auto simp: push_def pushSnap_def sender_Send_def Let_def split: option.splits if_splits prod.splits)
  show ?thesis
    using assms del q round_paces [OF assms(1) _ assms(2)] sender_Send_bounded [of "bc_sender b"]
    by (cases i) (auto simp: broadcast_round_def split: if_splits)
qed

lemma no_change_is_lost_witness:
  "\<exists>b'. broadcast_round (\<lambda>_. []) 10 5 zeroSnapshot BcEvent
      (\<lparr>bc_tag = ''t'', bc_canonID = ''v'', bc_sender = newSender 0, bc_lastPush = 0, bc_pending = False\<rparr>,
       \<lparr>pc_pushed = 0, pc_dropped = 0\<rparr>) = (True, b', \<lparr>pc_pushed = 0, pc_dropped = 0\<rparr>) \<and>
     (bc_pending b' \<or> delivered (\<lambda>_. []) zeroSnapshot b')"
proof -
  let ?b = "\<lparr>bc_tag = ''t'', bc_canonID = ''v'', bc_sender = newSender 0, bc_lastPush = 0, bc_pending = False\<rparr>"
  let ?k = "\<lparr>pc_pushed = 0, pc_dropped = 0\<rparr>"
  have r: "broadcast_round (\<lambda>_. []) 10 5 zeroSnapshot BcEvent (?b, ?k) = (True, ?b\<lparr>bc_pending := True\<rparr>, ?k)"
    by (simp add: broadcast_round_def time_sub_def minInt64_def maxInt64_def)
  show ?thesis using no_change_is_lost [OF r] r by (intro exI [of _ "?b\<lparr>bc_pending := True\<rparr>"]) simp
qed

end
