(* ===== verification/GoTime.thy ===== *)
theory GoTime
  imports Strconv
begin

section \<open>Calendar times as text\<close>

text \<open>
  What the source uses of Go's \<^verbatim>\<open>time\<close> package to print and read times: the civil date of an
  instant, \<^verbatim>\<open>Format\<close>, \<^verbatim>\<open>Parse\<close> and \<^verbatim>\<open>ParseInLocation\<close>.  A layout is the list of its items, as
  \<^verbatim>\<open>nextStdChunk\<close> cuts it; \<open>rfc3339Nano\<close> and \<open>rfc3339Milli\<close> are the layouts of the Rivian wire and
  \<open>teslafiDate\<close> that of the CSV files.

  A location is its UTC offset in seconds at each instant.  A \<^verbatim>\<open>time.Time\<close> here is an instant
  alone, so where the code prints a time the offset of the location it carries is an argument.
\<close>

subsection \<open>Dates\<close>

definition isLeap :: "int \<Rightarrow> bool" where
  "isLeap y \<longleftrightarrow> 4 dvd y \<and> (\<not> 100 dvd y \<or> 400 dvd y)"

text \<open>Days from 1 January of year 1 to 1 January of year \<open>y\<close>.\<close>

definition daysBefore :: "int \<Rightarrow> int" where
  "daysBefore y = (let n = y - 1 in 365 * n + n div 4 - n div 100 + n div 400)"

definition yearOf :: "int \<Rightarrow> int" where
  "yearOf d = (let e = 400 * d div 146097 in
     if d < daysBefore (e + 1) then e else if d < daysBefore (e + 2) then e + 1 else e + 2)"

definition monthLengths :: "bool \<Rightarrow> int list" where
  "monthLengths leap = [31, if leap then 29 else 28, 31, 30, 31, 30, 31, 31, 30, 31, 30, 31]"

text \<open>Month and day of a zero-based day of the year, counting the months from \<open>m\<close>.\<close>

fun monthDay :: "int \<Rightarrow> int list \<Rightarrow> int \<Rightarrow> int \<times> int" where
  "monthDay m [] d = (m, d + 1)"
| "monthDay m (l # ls) d = (if d < l then (m, d + 1) else monthDay (m + 1) ls (d - l))"

definition daysIn :: "int \<Rightarrow> int \<Rightarrow> int" where
  "daysIn m y = monthLengths (isLeap y) ! nat (m - 1)"

record civil =
  cv_year :: int
  cv_month :: int
  cv_day :: int
  cv_hour :: int
  cv_min :: int
  cv_sec :: int
  cv_nsec :: int

definition civilOf :: "gotime \<Rightarrow> civil" where
  "civilOf t =
     (let d = t div (24 * Hour); r = t mod (24 * Hour); y = yearOf d;
          (m, dd) = monthDay 1 (monthLengths (isLeap y)) (d - daysBefore y) in
      \<lparr>cv_year = y, cv_month = m, cv_day = dd, cv_hour = r div Hour, cv_min = r div Minute mod 60,
       cv_sec = r div Second mod 60, cv_nsec = r mod Second\<rparr>)"

text \<open>\<^verbatim>\<open>time.Date\<close> on fields in range, in UTC and in a location.\<close>

definition dateUTC :: "civil \<Rightarrow> gotime" where
  "dateUTC c =
     (daysBefore (cv_year c) + sum_list (take (nat (cv_month c - 1)) (monthLengths (isLeap (cv_year c)))) +
      cv_day c - 1) * (24 * Hour) + cv_hour c * Hour + cv_min c * Minute + cv_sec c * Second + cv_nsec c"

definition dateIn :: "(gotime \<Rightarrow> int) \<Rightarrow> civil \<Rightarrow> gotime" where
  "dateIn loc c = (let u = dateUTC c; off = loc u in
     if off = 0 then u else u - loc (u - off * Second) * Second)"

lemma div_pred: "0 < k \<Longrightarrow> (y - 1) div k = y div k - (if k dvd y then 1 else 0)" for k y :: int
proof -
  assume k: "0 < k"
  have y: "y = k * (y div k) + y mod k" "0 \<le> y mod k" "y mod k < k" using k by auto
  show ?thesis
  proof (cases "k dvd y")
    case True
    then have "y - 1 = k * (y div k - 1) + (k - 1)" by (simp add: algebra_simps)
    then show ?thesis using True k int_div_pos_eq [of "y - 1" k "y div k - 1" "k - 1"] by simp
  next
    case False
    then have "y mod k \<noteq> 0" by auto
    then have "y - 1 = k * (y div k) + (y mod k - 1)" "0 \<le> y mod k - 1" "y mod k - 1 < k" using y by auto
    then show ?thesis using False int_div_pos_eq [of "y - 1" k "y div k" "y mod k - 1"] by simp
  qed
qed

lemma daysBefore_Suc: "daysBefore (y + 1) = daysBefore y + (if isLeap y then 366 else 365)"
proof -
  have "400 dvd y \<Longrightarrow> 100 dvd y" "100 dvd y \<Longrightarrow> 4 dvd y"
    using dvd_trans [of 100 400 y] dvd_trans [of 4 100 y] by simp_all
  then show ?thesis
    by (auto simp: daysBefore_def isLeap_def Let_def div_pred)
qed

lemma daysBefore_bounds:
  "400 * daysBefore y \<le> 146097 * (y - 1) + 400" "146097 * (y - 1) - 1000 \<le> 400 * daysBefore y"
proof -
  define n where "n = y - 1"
  have "4 * (n div 4) \<le> n" "n < 4 * (n div 4) + 4" "100 * (n div 100) \<le> n" "n < 100 * (n div 100) + 100"
    "400 * (n div 400) \<le> n" "n < 400 * (n div 400) + 400"
    by simp_all
  then show "400 * daysBefore y \<le> 146097 * (y - 1) + 400" "146097 * (y - 1) - 1000 \<le> 400 * daysBefore y"
    unfolding daysBefore_def Let_def n_def [symmetric] by (simp_all add: algebra_simps)
qed

lemma yearOf_bounds: "daysBefore (yearOf d) \<le> d \<and> d < daysBefore (yearOf d + 1)"
proof -
  define e where "e = 400 * d div 146097"
  have "146097 * e \<le> 400 * d" "400 * d < 146097 * e + 146097" by (simp_all add: e_def)
  then have "daysBefore e \<le> d" "d < daysBefore (e + 3)"
    using daysBefore_bounds [of e] daysBefore_bounds [of "e + 3"] by (simp_all add: algebra_simps)
  moreover have "yearOf d = (if d < daysBefore (e + 1) then e else if d < daysBefore (e + 2) then e + 1 else e + 2)"
    by (simp add: yearOf_def e_def Let_def)
  ultimately show ?thesis by (auto simp: algebra_simps)
qed

lemma daysBefore_mono: "x \<le> y \<Longrightarrow> daysBefore x \<le> daysBefore y"
  by (induction y rule: int_ge_induct) (auto simp: daysBefore_Suc)

lemma yearOf_unique:
  assumes "daysBefore y \<le> d" "d < daysBefore (y + 1)"
  shows "yearOf d = y"
proof (rule ccontr)
  assume "yearOf d \<noteq> y"
  then have "yearOf d + 1 \<le> y \<or> y + 1 \<le> yearOf d" by linarith
  then show False using daysBefore_mono [of "yearOf d + 1" y] daysBefore_mono [of "y + 1" "yearOf d"]
    yearOf_bounds [of d] assms by linarith
qed

lemma monthDay_spec:
  "0 \<le> d \<Longrightarrow> d < sum_list ls \<Longrightarrow>
   \<exists>k < length ls. monthDay m ls d = (m + int k, d - sum_list (take k ls) + 1) \<and>
     sum_list (take k ls) \<le> d \<and> d < sum_list (take k ls) + ls ! k"
proof (induction m ls d rule: monthDay.induct)
  case (2 m l ls d)
  show ?case
  proof (cases "d < l")
    case True then show ?thesis using 2 by (intro exI [of _ 0]) simp
  next
    case False
    then obtain k where "k < length ls"
      "monthDay (m + 1) ls (d - l) = (m + 1 + int k, d - l - sum_list (take k ls) + 1)"
      "sum_list (take k ls) \<le> d - l" "d - l < sum_list (take k ls) + ls ! k"
      using 2 by auto
    then show ?thesis using False by (intro exI [of _ "Suc k"]) auto
  qed
qed simp

lemma monthLengths_sum [simp]: "sum_list (monthLengths leap) = (if leap then 366 else 365)"
  "length (monthLengths leap) = 12"
  by (simp_all add: monthLengths_def)

lemma day_split:
  fixes t :: int
  shows "t = t div (24 * Hour) * (24 * Hour) + t mod (24 * Hour)"
    "0 \<le> t mod (24 * Hour)" "t mod (24 * Hour) < 24 * Hour"
  by simp_all

lemma clock_split:
  fixes r :: int
  assumes "0 \<le> r" "r < 24 * Hour"
  shows "r = r div Hour * Hour + r div Minute mod 60 * Minute + r div Second mod 60 * Second + r mod Second"
    "0 \<le> r div Hour" "r div Hour < 24"
proof -
  define s where "s = r div Second"
  define m where "m = s div 60"
  define h where "h = m div 60"
  have e: "r div Minute = m" "r div Hour = h"
    by (simp_all add: m_def s_def h_def zdiv_zmult2_eq [of 60 r Second, simplified]
        zdiv_zmult2_eq [of 60 "r div Second" 60, simplified, symmetric]
        zdiv_zmult2_eq [of 3600 r Second, simplified, symmetric])
  have "r = s * Second + r mod Second" by (simp add: s_def)
  moreover have "s = m * 60 + s mod 60" by (simp add: m_def)
  moreover have "m = h * 60 + m mod 60" by (simp add: h_def)
  ultimately have "r = h * Hour + m mod 60 * Minute + s mod 60 * Second + r mod Second"
    by linarith
  then show "r = r div Hour * Hour + r div Minute mod 60 * Minute + r div Second mod 60 * Second + r mod Second"
    unfolding e s_def [symmetric] .
  have "r = h * Hour + r mod Hour" "0 \<le> r mod Hour" "r mod Hour < Hour"
    unfolding e(2) [symmetric] by simp_all
  then show "0 \<le> r div Hour" "r div Hour < 24"
    unfolding e(2) using assms by - linarith+
qed

definition civil_ok :: "civil \<Rightarrow> bool" where
  "civil_ok c \<longleftrightarrow> 1 \<le> cv_month c \<and> cv_month c \<le> 12 \<and> 1 \<le> cv_day c \<and> cv_day c \<le> daysIn (cv_month c) (cv_year c) \<and>
     0 \<le> cv_hour c \<and> cv_hour c < 24 \<and> 0 \<le> cv_min c \<and> cv_min c < 60 \<and> 0 \<le> cv_sec c \<and> cv_sec c < 60 \<and>
     0 \<le> cv_nsec c \<and> cv_nsec c < Second"

lemma dateUTC_fields:
  "dateUTC \<lparr>cv_year = y, cv_month = 1 + int k, cv_day = D, cv_hour = H, cv_min = M, cv_sec = S, cv_nsec = N\<rparr> =
     (daysBefore y + sum_list (take k (monthLengths (isLeap y))) + D - 1) * (24 * Hour) +
     (H * Hour + M * Minute + S * Second + N)"
  by (simp add: dateUTC_def)

lemma civil_ok_fields:
  "k < 12 \<Longrightarrow> 0 < D \<Longrightarrow> D \<le> monthLengths (isLeap y) ! k \<Longrightarrow> 0 \<le> H \<Longrightarrow> H < 24 \<Longrightarrow> 0 \<le> M \<Longrightarrow> M < 60 \<Longrightarrow>
   0 \<le> S \<Longrightarrow> S < 60 \<Longrightarrow> 0 \<le> N \<Longrightarrow> N < Second \<Longrightarrow>
   civil_ok \<lparr>cv_year = y, cv_month = 1 + int k, cv_day = D, cv_hour = H, cv_min = M, cv_sec = S, cv_nsec = N\<rparr>"
  by (simp add: civil_ok_def daysIn_def)

lemma civilOf_ok: "civil_ok (civilOf t)" and dateUTC_civilOf [simp]: "dateUTC (civilOf t) = t"
proof -
  define d where "d = t div (24 * Hour)"
  define r where "r = t mod (24 * Hour)"
  define y where "y = yearOf d"
  define ls where "ls = monthLengths (isLeap y)"
  have t: "t = d * (24 * Hour) + r" and r: "0 \<le> r" "r < 24 * Hour"
    using day_split [of t] by (simp_all add: d_def r_def)
  have "0 \<le> d - daysBefore y" "d - daysBefore y < sum_list ls"
    using yearOf_bounds [of d] by (auto simp: y_def ls_def daysBefore_Suc split: if_splits)
  from monthDay_spec [OF this, of 1] obtain k where k: "k < 12"
    "monthDay 1 ls (d - daysBefore y) = (1 + int k, d - daysBefore y - sum_list (take k ls) + 1)"
    "sum_list (take k ls) \<le> d - daysBefore y" "d - daysBefore y < sum_list (take k ls) + ls ! k"
    by (auto simp: ls_def)
  have c: "civilOf t = \<lparr>cv_year = y, cv_month = 1 + int k, cv_day = d - daysBefore y - sum_list (take k ls) + 1,
      cv_hour = r div Hour, cv_min = r div Minute mod 60, cv_sec = r div Second mod 60, cv_nsec = r mod Second\<rparr>"
    unfolding civilOf_def Let_def d_def [symmetric] r_def [symmetric] y_def [symmetric] ls_def [symmetric] k(2)
    by simp
  show "civil_ok (civilOf t)"
    unfolding c
    by (rule civil_ok_fields) (use k clock_split(2,3) [OF r] in \<open>simp_all add: ls_def [symmetric]\<close>)
  have "dateUTC (civilOf t) = d * (24 * Hour) +
      (r div Hour * Hour + r div Minute mod 60 * Minute + r div Second mod 60 * Second + r mod Second)"
    unfolding c dateUTC_fields ls_def [symmetric] by (rule arg_cong2 [where f = "(+)"], simp, rule refl)
  then show "dateUTC (civilOf t) = t" unfolding t [symmetric] clock_split(1) [OF r, symmetric] .
qed

subsection \<open>Layouts\<close>

datatype layoutItem = Lit char | LongYear | ZeroMonth | ZeroDay | HourOfDay | ZeroMinute | ZeroSecond
  | Frac9 | Frac0 nat | ZoneColon

definition isFrac :: "layoutItem \<Rightarrow> bool" where
  "isFrac it = (case it of Frac9 \<Rightarrow> True | Frac0 _ \<Rightarrow> True | _ \<Rightarrow> False)"

definition dateItems :: "char \<Rightarrow> layoutItem list" where
  "dateItems sep = [LongYear, Lit CHR ''-'', ZeroMonth, Lit CHR ''-'', ZeroDay, Lit sep,
     HourOfDay, Lit CHR '':'', ZeroMinute, Lit CHR '':'', ZeroSecond]"

definition rfc3339Nano :: "layoutItem list" where
  "rfc3339Nano = dateItems CHR ''T'' @ [Frac9, ZoneColon]"

definition rfc3339 :: "layoutItem list" where
  "rfc3339 = dateItems CHR ''T'' @ [ZoneColon]"

definition rfc3339Milli :: "layoutItem list" where
  "rfc3339Milli = dateItems CHR ''T'' @ [Frac0 3, Lit CHR ''Z'']"

definition teslafiDate :: "layoutItem list" where
  "teslafiDate = dateItems CHR '' ''"

subsection \<open>Printing\<close>

definition padNat :: "nat \<Rightarrow> nat \<Rightarrow> string" where
  "padNat w n = (let s = showNat n in replicate (w - length s) CHR ''0'' @ s)"

definition appendInt :: "nat \<Rightarrow> int \<Rightarrow> string" where
  "appendInt w n = (if n < 0 then CHR ''-'' # padNat w (nat (- n)) else padNat w (nat n))"

definition trimZeros :: "string \<Rightarrow> string" where
  "trimZeros s = rev (dropWhile (\<lambda>c. c = CHR ''0'') (rev s))"

definition fracText :: "int \<Rightarrow> string" where
  "fracText ns = (let ds = trimZeros (padNat 9 (nat ns)) in if ds = [] then [] else CHR ''.'' # ds)"

definition zoneText :: "int \<Rightarrow> string" where
  "zoneText off = (if off = 0 then ''Z''
     else let zone = go_quot off 60 in
       (if zone < 0 then CHR ''-'' else CHR ''+'') # padNat 2 (nat \<bar>zone\<bar> div 60) @ CHR '':'' # padNat 2 (nat \<bar>zone\<bar> mod 60))"

fun itemText :: "int \<Rightarrow> civil \<Rightarrow> layoutItem \<Rightarrow> string" where
  "itemText off c (Lit ch) = [ch]"
| "itemText off c LongYear = appendInt 4 (cv_year c)"
| "itemText off c ZeroMonth = appendInt 2 (cv_month c)"
| "itemText off c ZeroDay = appendInt 2 (cv_day c)"
| "itemText off c HourOfDay = appendInt 2 (cv_hour c)"
| "itemText off c ZeroMinute = appendInt 2 (cv_min c)"
| "itemText off c ZeroSecond = appendInt 2 (cv_sec c)"
| "itemText off c Frac9 = fracText (cv_nsec c)"
| "itemText off c (Frac0 k) = CHR ''.'' # take k (padNat 9 (nat (cv_nsec c)))"
| "itemText off c ZoneColon = zoneText off"

definition formatTime :: "layoutItem list \<Rightarrow> int \<Rightarrow> gotime \<Rightarrow> string" where
  "formatTime layout off t = concat (map (itemText off (civilOf (t + off * Second))) layout)"

subsection \<open>Reading\<close>

definition getnum :: "bool \<Rightarrow> string \<Rightarrow> (int \<times> string) option" where
  "getnum fixed s = (case s of
     a # b # r \<Rightarrow> if \<not> isDigit a then None
       else if isDigit b then Some (int (10 * digitVal a + digitVal b), r)
       else if fixed then None else Some (int (digitVal a), b # r)
   | [a] \<Rightarrow> if isDigit a \<and> \<not> fixed then Some (int (digitVal a), []) else None
   | [] \<Rightarrow> None)"

text \<open>The \<^verbatim>\<open>atoi\<close> of package \<^verbatim>\<open>time\<close>, on strings too short to overflow.\<close>

definition shortAtoi :: "string \<Rightarrow> int option" where
  "shortAtoi s = (let (neg, ds) = splitSign s in
     if list_all isDigit ds then Some (if neg then - int (readNat ds) else int (readNat ds)) else None)"

definition isPoint :: "char \<Rightarrow> bool" where
  "isPoint c \<longleftrightarrow> c = CHR ''.'' \<or> c = CHR '',''"

text \<open>\<^verbatim>\<open>parseNanoseconds\<close> on the point and the digits after it, nine of which count.\<close>

definition parseNanoseconds :: "string \<Rightarrow> int option" where
  "parseNanoseconds s = (case s of [] \<Rightarrow> None
     | p # ds \<Rightarrow> if \<not> isPoint p then None
       else (case shortAtoi (take 9 ds) of None \<Rightarrow> None
         | Some n \<Rightarrow> if n < 0 then None else Some (n * 10 ^ (9 - length (take 9 ds)))))"

record parsed =
  pa_civil :: civil
  pa_zone :: "int option"

definition parsed0 :: parsed where
  "parsed0 = \<lparr>pa_civil = \<lparr>cv_year = 0, cv_month = 1, cv_day = 1, cv_hour = 0, cv_min = 0, cv_sec = 0, cv_nsec = 0\<rparr>,
     pa_zone = None\<rparr>"

definition inRange :: "int \<Rightarrow> int \<Rightarrow> (int \<times> string) option \<Rightarrow> (int \<times> string) option" where
  "inRange lo hi r = (case r of None \<Rightarrow> None | Some (n, s) \<Rightarrow> if lo \<le> n \<and> n \<le> hi then Some (n, s) else None)"

definition setCivil :: "(int \<Rightarrow> civil \<Rightarrow> civil) \<Rightarrow> parsed \<Rightarrow> (int \<times> string) option \<Rightarrow> (parsed \<times> string) option" where
  "setCivil upd p r = map_option (\<lambda>(n, s). (p\<lparr>pa_civil := upd n (pa_civil p)\<rparr>, s)) r"

definition readLongYear :: "string \<Rightarrow> (int \<times> string) option" where
  "readLongYear s = (if length s < 4 \<or> \<not> isDigit (hd s) then None
     else case shortAtoi (take 4 s) of None \<Rightarrow> None | Some n \<Rightarrow> Some (n, drop 4 s))"

definition startsFrac :: "string \<Rightarrow> bool" where
  "startsFrac s = (case s of a # b # _ \<Rightarrow> isPoint a \<and> isDigit b | _ \<Rightarrow> False)"

definition readFrac :: "string \<Rightarrow> (int \<times> string) option" where
  "readFrac s = (let (ds, rest) = spanDigits (tl s) in
     case parseNanoseconds (hd s # ds) of None \<Rightarrow> None | Some n \<Rightarrow> Some (n, rest))"

definition readZone :: "string \<Rightarrow> (int \<times> string) option" where
  "readZone s = (case s of [] \<Rightarrow> None
     | c # r \<Rightarrow> if c = CHR ''Z'' then Some (0, r)
       else (case s of
           sg # a # b # col # d # e # rest \<Rightarrow>
             if col \<noteq> CHR '':'' then None
             else (case inRange 0 24 (getnum True [a, b]) of None \<Rightarrow> None
               | Some (hr, _) \<Rightarrow> case inRange 0 60 (getnum True [d, e]) of None \<Rightarrow> None
                 | Some (mm, _) \<Rightarrow>
                     if sg = CHR ''+'' then Some ((hr * 60 + mm) * 60, rest)
                     else if sg = CHR ''-'' then Some (- ((hr * 60 + mm) * 60), rest) else None)
         | _ \<Rightarrow> None))"

fun readItem :: "layoutItem \<Rightarrow> layoutItem list \<Rightarrow> string \<Rightarrow> parsed \<Rightarrow> (parsed \<times> string) option" where
  "readItem (Lit ch) _ s p =
     (if ch = CHR '' '' then
        (if s \<noteq> [] \<and> hd s \<noteq> CHR '' '' then None else Some (p, dropWhile (\<lambda>c. c = CHR '' '') s))
      else case s of [] \<Rightarrow> None | c # r \<Rightarrow> if c = ch then Some (p, r) else None)"
| "readItem LongYear _ s p = setCivil (\<lambda>n c. c\<lparr>cv_year := n\<rparr>) p (readLongYear s)"
| "readItem ZeroMonth _ s p = setCivil (\<lambda>n c. c\<lparr>cv_month := n\<rparr>) p (inRange 1 12 (getnum True s))"
| "readItem ZeroDay _ s p = setCivil (\<lambda>n c. c\<lparr>cv_day := n\<rparr>) p (getnum True s)"
| "readItem HourOfDay _ s p = setCivil (\<lambda>n c. c\<lparr>cv_hour := n\<rparr>) p (inRange 0 23 (getnum False s))"
| "readItem ZeroMinute _ s p = setCivil (\<lambda>n c. c\<lparr>cv_min := n\<rparr>) p (inRange 0 59 (getnum True s))"
| "readItem ZeroSecond next s p =
     (case setCivil (\<lambda>n c. c\<lparr>cv_sec := n\<rparr>) p (inRange 0 59 (getnum True s)) of
        None \<Rightarrow> None
      | Some (q, r) \<Rightarrow>
          if startsFrac r \<and> \<not> (next \<noteq> [] \<and> isFrac (hd next))
          then setCivil (\<lambda>n c. c\<lparr>cv_nsec := n\<rparr>) q (readFrac r)
          else Some (q, r))"
| "readItem Frac9 _ s p = (if startsFrac s then setCivil (\<lambda>n c. c\<lparr>cv_nsec := n\<rparr>) p (readFrac s) else Some (p, s))"
| "readItem (Frac0 k) _ s p =
     (if length s < 1 + k then None
      else setCivil (\<lambda>n c. c\<lparr>cv_nsec := n\<rparr>) p
        (map_option (\<lambda>n. (n, drop (1 + k) s)) (parseNanoseconds (take (1 + k) s))))"
| "readItem ZoneColon _ s p = map_option (\<lambda>(z, r). (p\<lparr>pa_zone := Some z\<rparr>, r)) (readZone s)"

fun readItems :: "layoutItem list \<Rightarrow> string \<Rightarrow> parsed \<Rightarrow> parsed option" where
  "readItems [] s p = (if s = [] then Some p else None)"
| "readItems (it # its) s p = (case readItem it its s p of None \<Rightarrow> None | Some (q, r) \<Rightarrow> readItems its r q)"

text \<open>\<^verbatim>\<open>time.ParseInLocation\<close>; \<^verbatim>\<open>time.Parse\<close> is the case of UTC. None is the error.\<close>

definition parseTimeIn :: "(gotime \<Rightarrow> int) \<Rightarrow> layoutItem list \<Rightarrow> string \<Rightarrow> gotime option" where
  "parseTimeIn loc layout s = (case readItems layout s parsed0 of None \<Rightarrow> None
     | Some p \<Rightarrow> let c = pa_civil p in
         if cv_day c < 1 \<or> daysIn (cv_month c) (cv_year c) < cv_day c then None
         else (case pa_zone p of None \<Rightarrow> Some (dateIn loc c) | Some z \<Rightarrow> Some (dateUTC c - z * Second)))"

end
