(* ===== verification/GoTimeLaws.thy ===== *)
theory GoTimeLaws
  imports GoTime
begin

section \<open>Printed times read back\<close>

text \<open>
  Item by item, what \<^verbatim>\<open>Format\<close> prints is what \<^verbatim>\<open>Parse\<close> reads; so a time of a year of four digits,
  printed for any location with an offset of whole minutes, reads back as the same instant.
\<close>

subsection \<open>Padded numbers\<close>

lemma readNat_append: "readNat (s @ t) = readNat s * 10 ^ length t + readNat t"
  by (induction t rule: rev_induct) (simp_all add: algebra_simps flip: append_assoc, simp add: readNat_def)

lemma digit_zero [simp]: "isDigit (CHR ''0'')" "digitVal (CHR ''0'') = 0"
  by (simp_all add: isDigit_def digitVal_def)

lemma readNat_zeros [simp]: "readNat (replicate k (CHR ''0'')) = 0"
  by (induction k) (simp_all add: readNat_def)

lemma showNat_length: "n < 10 ^ w \<Longrightarrow> 0 < w \<Longrightarrow> length (showNat n) \<le> w"
proof (induction n arbitrary: w rule: showNat.induct)
  case (1 n)
  show ?case
  proof (cases "n < 10")
    case True then show ?thesis using 1 by (subst showNat.simps) simp
  next
    case False
    then have "1 < w" using 1 by (cases "w = 1") auto
    then obtain v where w: "w = Suc v" "0 < v" by (cases w) auto
    then have "n div 10 < 10 ^ v" using 1 by (auto simp: less_mult_imp_div_less)
    then show ?thesis using False 1 w by (subst showNat.simps) simp
  qed
qed

lemma padNat_digits [simp]: "list_all isDigit (padNat w n)"
  using showNat_digits [of n] by (auto simp: padNat_def Let_def list_all_iff)

lemma padNat_length: "n < 10 ^ w \<Longrightarrow> 0 < w \<Longrightarrow> length (padNat w n) = w"
  using showNat_length [of n w] by (simp add: padNat_def Let_def)

lemma readNat_padNat [simp]: "readNat (padNat w n) = n"
  by (simp add: padNat_def Let_def readNat_append)

lemma padNat_nonempty [simp]: "padNat w n \<noteq> []"
  by (simp add: padNat_def Let_def)

lemma char0: "CHR ''0'' = digitChar 0"
  by (subst of_char_eq_iff [where ?'a = nat, symmetric]) (simp add: digitChar_def)

lemma padNat_two: "n < 100 \<Longrightarrow> padNat 2 n = [digitChar (n div 10), digitChar (n mod 10)]"
  by (cases "n < 10") (simp_all add: padNat_def Let_def showNat.simps numeral_2_eq_2 char0)

lemma splitSign_digit: "s \<noteq> [] \<Longrightarrow> isDigit (hd s) \<Longrightarrow> splitSign s = (False, s)"
  by (cases s) (auto simp: splitSign_def)

lemma shortAtoi_digits: "list_all isDigit s \<Longrightarrow> s \<noteq> [] \<Longrightarrow> shortAtoi s = Some (int (readNat s))"
  by (cases s) (simp_all add: shortAtoi_def splitSign_digit)

lemma getnum_two: "0 \<le> n \<Longrightarrow> n < 100 \<Longrightarrow> getnum fixed (appendInt 2 n @ rest) = Some (n, rest)"
proof -
  assume n: "0 \<le> n" "n < 100"
  then have "nat n < 100" "nat n div 10 < 10" "nat n mod 10 < 10" by auto
  then show ?thesis using n by (simp add: appendInt_def padNat_two getnum_def)
qed

lemma readLongYear_four: "0 \<le> y \<Longrightarrow> y < 10000 \<Longrightarrow> readLongYear (appendInt 4 y @ rest) = Some (y, rest)"
proof -
  assume y: "0 \<le> y" "y < 10000"
  then have l: "length (padNat 4 (nat y)) = 4" by (simp add: padNat_length)
  moreover have "isDigit (hd (padNat 4 (nat y)))" using padNat_digits [of 4 "nat y"]
    by (cases "padNat 4 (nat y)") auto
  ultimately show ?thesis using y by (simp add: appendInt_def readLongYear_def shortAtoi_digits)
qed

subsection \<open>The fraction\<close>

lemma trimZeros_split: "\<exists>k. s = trimZeros s @ replicate k (CHR ''0'')"
proof -
  let ?P = "\<lambda>c. c = CHR ''0''"
  define k where "k = length (takeWhile ?P (rev s))"
  have t: "takeWhile ?P (rev s) = replicate k (CHR ''0'')"
    unfolding k_def by (rule replicate_eqI) (auto dest: set_takeWhileD)
  have "rev s = takeWhile ?P (rev s) @ dropWhile ?P (rev s)" by (rule takeWhile_dropWhile_id [symmetric])
  from arg_cong [OF this [unfolded t], of rev] have "rev (rev s) = trimZeros s @ rev (replicate k (CHR ''0''))"
    unfolding trimZeros_def rev_append .
  then show ?thesis unfolding rev_rev_ident rev_replicate by blast
qed

lemma spanDigits_digits: "list_all isDigit ds \<Longrightarrow> rest = [] \<or> \<not> isDigit (hd rest) \<Longrightarrow> spanDigits (ds @ rest) = (ds, rest)"
proof (induction ds)
  case Nil then show ?case by (cases rest) auto
qed simp

lemma parseNanoseconds_trim:
  assumes "0 \<le> ns" "ns < Second" "trimZeros (padNat 9 (nat ns)) \<noteq> []" "isPoint pt"
  shows "parseNanoseconds (pt # trimZeros (padNat 9 (nat ns))) = Some ns"
proof -
  define s where "s = padNat 9 (nat ns)"
  obtain k where k: "s = trimZeros s @ replicate k (CHR ''0'')" using trimZeros_split by blast
  have s: "length s = 9" "list_all isDigit s" "readNat s = nat ns"
    using assms by (simp_all add: s_def padNat_length)
  then have l: "length (trimZeros s) + k = 9" using k by (metis length_append length_replicate)
  have d: "list_all isDigit (trimZeros s)" using s(2) by (subst (asm) k) simp
  have "nat ns = readNat (trimZeros s) * 10 ^ k"
    using s(3) by (subst (asm) k) (simp add: readNat_append)
  then have "ns = int (readNat (trimZeros s)) * 10 ^ k"
    using assms(1) by (metis int_nat_eq of_nat_mult of_nat_numeral of_nat_power)
  moreover have "9 - length (trimZeros s) = k" using l by simp
  moreover have "trimZeros s \<noteq> []" "take 9 (trimZeros s) = trimZeros s" using assms(3) l by (simp_all add: s_def)
  ultimately show ?thesis
    using assms(4) d unfolding s_def [symmetric]
    by (simp add: parseNanoseconds_def shortAtoi_digits [OF d])
qed

lemma readItem_Frac9:
  assumes "0 \<le> cv_nsec c" "cv_nsec c < Second" "rest = [] \<or> \<not> isDigit (hd rest) \<and> \<not> isPoint (hd rest)"
    and "cv_nsec (pa_civil p) = 0"
  shows "readItem Frac9 its (itemText off c Frac9 @ rest) p =
    Some (p\<lparr>pa_civil := (pa_civil p)\<lparr>cv_nsec := cv_nsec c\<rparr>\<rparr>, rest)"
proof (cases "trimZeros (padNat 9 (nat (cv_nsec c))) = []")
  case True
  obtain k where "padNat 9 (nat (cv_nsec c)) = replicate k (CHR ''0'')"
    using trimZeros_split [of "padNat 9 (nat (cv_nsec c))"] True by auto
  then have "readNat (padNat 9 (nat (cv_nsec c))) = 0" by simp
  then have "cv_nsec c = 0" using assms(1) by simp
  moreover have "\<not> startsFrac rest" using assms(3) by (auto simp: startsFrac_def split: list.split)
  moreover have "p\<lparr>pa_civil := (pa_civil p)\<lparr>cv_nsec := 0\<rparr>\<rparr> = p" using assms(4) by (cases p) (cases "pa_civil p", simp)
  ultimately show ?thesis using True by (simp add: fracText_def Let_def)
next
  case False
  define ds where "ds = trimZeros (padNat 9 (nat (cv_nsec c)))"
  have "list_all isDigit ds"
    using padNat_digits [of 9 "nat (cv_nsec c)"] trimZeros_split [of "padNat 9 (nat (cv_nsec c))"]
    unfolding ds_def by (metis list_all_append)
  moreover from this have "startsFrac (CHR ''.'' # ds @ rest)"
    using False by (cases ds) (simp_all add: startsFrac_def isPoint_def ds_def [symmetric])
  moreover from calculation(1) assms(3) have "spanDigits (ds @ rest) = (ds, rest)" by (auto intro: spanDigits_digits)
  moreover have "parseNanoseconds (CHR ''.'' # ds) = Some (cv_nsec c)"
    using assms False unfolding ds_def by (intro parseNanoseconds_trim) (simp_all add: isPoint_def)
  ultimately show ?thesis using False
    by (simp add: fracText_def Let_def ds_def [symmetric] setCivil_def readFrac_def)
qed

subsection \<open>The zone\<close>

definition wholeMinutes :: "int \<Rightarrow> bool" where
  "wholeMinutes off \<longleftrightarrow> 60 dvd off \<and> \<bar>off\<bar> < 24 * 3600"

lemma readZone_zoneText: "wholeMinutes off \<Longrightarrow> readZone (zoneText off @ rest) = Some (off, rest)"
proof (cases "off = 0")
  case False
  assume off: "wholeMinutes off"
  then obtain m where m: "off = 60 * m" by (auto simp: wholeMinutes_def)
  have q: "go_quot off 60 = m" using m by (simp add: go_quot_def abs_mult sgn_mult sgn_mult_abs)
  define h where "h = nat \<bar>m\<bar> div 60"
  define mm where "mm = nat \<bar>m\<bar> mod 60"
  have b: "h < 24" "mm < 60" using off m by (auto simp: wholeMinutes_def h_def mm_def div_less_iff_less_mult)
  have "int h * 60 + int mm = \<bar>m\<bar>" unfolding h_def mm_def by (simp add: zdiv_int zmod_int)
  then have e: "(int h * 60 + int mm) * 60 = \<bar>off\<bar>" using m by simp
  have g: "getnum True (padNat 2 n) = Some (int n, [])" if "n < 100" for n
    using getnum_two [of "int n" True "[]"] that by (simp add: appendInt_def)
  have "getnum True (padNat 2 h) = Some (int h, [])" "getnum True (padNat 2 mm) = Some (int mm, [])"
    using b by (simp_all add: g)
  then show ?thesis using False b e q m
    by (auto simp: zoneText_def Let_def readZone_def padNat_two inRange_def h_def [symmetric] mm_def [symmetric])
qed (simp add: zoneText_def readZone_def)

subsection \<open>Whole layouts\<close>

lemma daysIn_le:
  assumes "civil_ok c"
  shows "daysIn (cv_month c) (cv_year c) \<le> 31"
proof -
  have "nat (cv_month c - 1) < length (monthLengths (isLeap (cv_year c)))"
    using assms by (simp add: civil_ok_def nat_less_iff)
  moreover have "list_all (\<lambda>l. l \<le> 31) (monthLengths b)" for b by (simp add: monthLengths_def)
  ultimately show ?thesis unfolding daysIn_def list_all_length by blast
qed

lemma readItem_numbers:
  assumes "civil_ok c" "0 \<le> cv_year c" "cv_year c < 10000"
  shows "readItem LongYear its (itemText off c LongYear @ rest) p = Some (p\<lparr>pa_civil := (pa_civil p)\<lparr>cv_year := cv_year c\<rparr>\<rparr>, rest)"
    and "readItem ZeroMonth its (itemText off c ZeroMonth @ rest) p = Some (p\<lparr>pa_civil := (pa_civil p)\<lparr>cv_month := cv_month c\<rparr>\<rparr>, rest)"
    and "readItem ZeroDay its (itemText off c ZeroDay @ rest) p = Some (p\<lparr>pa_civil := (pa_civil p)\<lparr>cv_day := cv_day c\<rparr>\<rparr>, rest)"
    and "readItem HourOfDay its (itemText off c HourOfDay @ rest) p = Some (p\<lparr>pa_civil := (pa_civil p)\<lparr>cv_hour := cv_hour c\<rparr>\<rparr>, rest)"
    and "readItem ZeroMinute its (itemText off c ZeroMinute @ rest) p = Some (p\<lparr>pa_civil := (pa_civil p)\<lparr>cv_min := cv_min c\<rparr>\<rparr>, rest)"
    and "\<not> startsFrac rest \<or> its \<noteq> [] \<and> isFrac (hd its) \<Longrightarrow>
      readItem ZeroSecond its (itemText off c ZeroSecond @ rest) p = Some (p\<lparr>pa_civil := (pa_civil p)\<lparr>cv_sec := cv_sec c\<rparr>\<rparr>, rest)"
proof -
  have "daysIn (cv_month c) (cv_year c) \<le> 31" by (rule daysIn_le [OF assms(1)])
  then show "readItem LongYear its (itemText off c LongYear @ rest) p = Some (p\<lparr>pa_civil := (pa_civil p)\<lparr>cv_year := cv_year c\<rparr>\<rparr>, rest)"
    and "readItem ZeroMonth its (itemText off c ZeroMonth @ rest) p = Some (p\<lparr>pa_civil := (pa_civil p)\<lparr>cv_month := cv_month c\<rparr>\<rparr>, rest)"
    and "readItem ZeroDay its (itemText off c ZeroDay @ rest) p = Some (p\<lparr>pa_civil := (pa_civil p)\<lparr>cv_day := cv_day c\<rparr>\<rparr>, rest)"
    and "readItem HourOfDay its (itemText off c HourOfDay @ rest) p = Some (p\<lparr>pa_civil := (pa_civil p)\<lparr>cv_hour := cv_hour c\<rparr>\<rparr>, rest)"
    and "readItem ZeroMinute its (itemText off c ZeroMinute @ rest) p = Some (p\<lparr>pa_civil := (pa_civil p)\<lparr>cv_min := cv_min c\<rparr>\<rparr>, rest)"
    and "\<not> startsFrac rest \<or> its \<noteq> [] \<and> isFrac (hd its) \<Longrightarrow>
      readItem ZeroSecond its (itemText off c ZeroSecond @ rest) p = Some (p\<lparr>pa_civil := (pa_civil p)\<lparr>cv_sec := cv_sec c\<rparr>\<rparr>, rest)"
    using assms by (auto simp: civil_ok_def setCivil_def inRange_def getnum_two readLongYear_four)
qed

lemma readItem_Lit:
  "0 \<le> n \<Longrightarrow> n < 100 \<Longrightarrow> readItem (Lit ch) its (ch # appendInt 2 n @ r) p = Some (p, appendInt 2 n @ r)"
proof -
  assume "0 \<le> n" "n < 100"
  then have "nat n < 100" "nat n div 10 < 10" by auto
  moreover have "digitChar d \<noteq> CHR '' ''" if "d < 10" for d
    using digit_digitChar(1) [OF that] by (auto simp: isDigit_def)
  ultimately show ?thesis using \<open>0 \<le> n\<close> by (simp add: appendInt_def padNat_two)
qed

lemma readDateItems:
  assumes "civil_ok c" "0 \<le> cv_year c" "cv_year c < 10000"
    and "\<not> startsFrac rest \<or> its \<noteq> [] \<and> isFrac (hd its)"
  shows "readItems (dateItems sep @ its) (concat (map (itemText off c) (dateItems sep)) @ rest) parsed0 =
    readItems its rest (parsed0\<lparr>pa_civil := c\<lparr>cv_nsec := 0\<rparr>\<rparr>)"
proof -
  note 1 = readItem_numbers [OF assms(1-3), simplified itemText.simps]
  have 2: "c\<lparr>cv_nsec := 0\<rparr> = \<lparr>cv_year = cv_year c, cv_month = cv_month c, cv_day = cv_day c, cv_hour = cv_hour c,
      cv_min = cv_min c, cv_sec = cv_sec c, cv_nsec = 0\<rparr>"
    by (cases c) simp
  note lit = readItem_Lit [of "cv_month c"] readItem_Lit [of "cv_day c"] readItem_Lit [of "cv_hour c"]
    readItem_Lit [of "cv_min c"] readItem_Lit [of "cv_sec c"]
  have "cv_month c < 100" "cv_day c < 100" "cv_hour c < 100" "cv_min c < 100" "cv_sec c < 100"
    "0 \<le> cv_month c" "0 \<le> cv_day c" "0 \<le> cv_hour c" "0 \<le> cv_min c" "0 \<le> cv_sec c"
    using assms(1) daysIn_le [OF assms(1)] by (auto simp: civil_ok_def)
  then show ?thesis using assms(4)
    by (simp add: dateItems_def 1 2 lit parsed0_def del: readItem.simps)
qed

lemma zoneText_hd: "\<exists>a s. zoneText off = a # s \<and> \<not> isDigit a \<and> \<not> isPoint a"
  by (auto simp: zoneText_def Let_def isPoint_def isDigit_def)

text \<open>Printing and reading a time of RFC 3339 gives the instant back.\<close>

lemma parse_format_rfc3339:
  assumes "wholeMinutes off" "0 \<le> cv_year (civilOf (t + off * Second))" "cv_year (civilOf (t + off * Second)) < 10000"
  shows "parseTimeIn loc rfc3339Nano (formatTime rfc3339Nano off t) = Some t"
proof -
  define c where "c = civilOf (t + off * Second)"
  have ok: "civil_ok c" by (simp add: c_def civilOf_ok)
  have y: "0 \<le> cv_year c" "cv_year c < 10000" using assms by (simp_all add: c_def)
  have z: "zoneText off = [] \<or> \<not> isDigit (hd (zoneText off)) \<and> \<not> isPoint (hd (zoneText off))"
    using zoneText_hd [of off] by auto
  have "formatTime rfc3339Nano off t =
      concat (map (itemText off c) (dateItems CHR ''T'')) @ fracText (cv_nsec c) @ zoneText off"
    by (simp add: formatTime_def rfc3339Nano_def c_def)
  moreover have "readItems rfc3339Nano (concat (map (itemText off c) (dateItems CHR ''T'')) @ fracText (cv_nsec c) @ zoneText off) parsed0 =
      readItems [Frac9, ZoneColon] (fracText (cv_nsec c) @ zoneText off) (parsed0\<lparr>pa_civil := c\<lparr>cv_nsec := 0\<rparr>\<rparr>)"
    unfolding rfc3339Nano_def by (rule readDateItems [OF ok y]) (simp add: isFrac_def)
  moreover have "\<dots> = Some \<lparr>pa_civil = c, pa_zone = Some off\<rparr>"
    using readItem_Frac9 [of c "zoneText off" "parsed0\<lparr>pa_civil := c\<lparr>cv_nsec := 0\<rparr>\<rparr>" "[ZoneColon]" off] ok z
      readZone_zoneText [OF assms(1), of "[]"]
    by (simp add: civil_ok_def parsed0_def)
  moreover have "1 \<le> cv_day c" "cv_day c \<le> daysIn (cv_month c) (cv_year c)" using ok by (auto simp: civil_ok_def)
  ultimately show ?thesis by (simp add: parseTimeIn_def c_def)
qed

text \<open>
  The CSV date has no zone and no fraction: read in the same location it gives the instant back to the
  second, unless the location changes its offset between the instant and its wall clock read as UTC.
\<close>

lemma parse_format_teslafi:
  assumes "loc (t + loc t * Second) = loc t"
    and "0 \<le> cv_year (civilOf (t + loc t * Second))" "cv_year (civilOf (t + loc t * Second)) < 10000"
    and "t mod Second = 0"
  shows "parseTimeIn loc teslafiDate (formatTime teslafiDate (loc t) t) = Some t"
proof -
  define c where "c = civilOf (t + loc t * Second)"
  have ok: "civil_ok c" by (simp add: c_def civilOf_ok)
  have y: "0 \<le> cv_year c" "cv_year c < 10000" using assms by (simp_all add: c_def)
  have "(t + loc t * Second) mod Second = 0" using assms(4) by presburger
  then have "cv_nsec c = 0"
    by (simp add: c_def civilOf_def Let_def mod_mod_cancel split: prod.split)
  then have n: "c\<lparr>cv_nsec := 0\<rparr> = c" by (cases c) simp
  have u: "dateUTC c = t + loc t * Second" by (simp add: c_def)
  have "dateIn loc c = t" using assms(1) by (simp add: dateIn_def u Let_def)
  moreover have "readItems (teslafiDate @ []) (formatTime teslafiDate (loc t) t @ []) parsed0 = Some (parsed0\<lparr>pa_civil := c\<rparr>)"
    unfolding teslafiDate_def formatTime_def c_def [symmetric]
    by (subst readDateItems [OF ok y]) (simp_all add: startsFrac_def n)
  moreover have "1 \<le> cv_day c" "cv_day c \<le> daysIn (cv_month c) (cv_year c)" using ok by (auto simp: civil_ok_def)
  ultimately show ?thesis by (simp add: parseTimeIn_def parsed0_def)
qed

end
