(* ===== verification/Json.thy ===== *)
theory Json
  imports GoFloat
begin

section \<open>JSON values\<close>

text \<open>
  The values \<^verbatim>\<open>encoding/json\<close> reads and writes.  A number is the integer it spells or, with a
  fraction or an exponent, the double nearest to it, an infinity when it overflows.  An object is
  the list of its members.  Keys are compared exactly (the library also accepts another case).
  The text itself is the library's.
\<close>

datatype json = JNull | JBool bool | JInt int | JNum f64 | JStr string
  | JArr "json list" | JObj "(string \<times> json) list"

fun isFinite :: "f64 \<Rightarrow> bool" where
  "isFinite (Fin _) = True"
| "isFinite _ = False"

text \<open>\<^verbatim>\<open>json.Marshal\<close> refuses a value with a number that is not finite.\<close>

fun encodable :: "json \<Rightarrow> bool" where
  "encodable (JNum x) = isFinite x"
| "encodable (JArr js) = list_all encodable js"
| "encodable (JObj kvs) = list_all (\<lambda>kv. encodable (snd kv)) kvs"
| "encodable _ = True"

text \<open>\<^verbatim>\<open>json.Unmarshal\<close> into a \<^verbatim>\<open>float64\<close>, null apart: None is its error.\<close>

fun jsonFloat :: "json \<Rightarrow> f64 option" where
  "jsonFloat (JNum x) = (if isFinite x then Some x else None)"
| "jsonFloat (JInt n) = (if isFinite (i2f n) then Some (i2f n) else None)"
| "jsonFloat _ = None"

text \<open>A struct field of a scalar type: absent and null leave it zero, another type is an error.\<close>

definition fieldStr :: "string \<Rightarrow> (string \<times> json) list \<Rightarrow> string option" where
  "fieldStr k kvs = (case map_of kvs k of None \<Rightarrow> Some [] | Some JNull \<Rightarrow> Some []
     | Some (JStr s) \<Rightarrow> Some s | _ \<Rightarrow> None)"

definition fieldBool :: "string \<Rightarrow> (string \<times> json) list \<Rightarrow> bool option" where
  "fieldBool k kvs = (case map_of kvs k of None \<Rightarrow> Some False | Some JNull \<Rightarrow> Some False
     | Some (JBool b) \<Rightarrow> Some b | _ \<Rightarrow> None)"

definition fieldFloat :: "string \<Rightarrow> (string \<times> json) list \<Rightarrow> f64 option" where
  "fieldFloat k kvs = (case map_of kvs k of None \<Rightarrow> Some fzero | Some JNull \<Rightarrow> Some fzero
     | Some j \<Rightarrow> jsonFloat j)"

text \<open>A struct field: None is the error, an absent or null struct has no members.\<close>

definition fieldObj :: "string \<Rightarrow> (string \<times> json) list \<Rightarrow> (string \<times> json) list option" where
  "fieldObj k kvs = (case map_of kvs k of None \<Rightarrow> Some [] | Some JNull \<Rightarrow> Some []
     | Some (JObj m) \<Rightarrow> Some m | _ \<Rightarrow> None)"

text \<open>A pointer to a struct: absent and null are nil.\<close>

definition fieldPtr :: "string \<Rightarrow> (string \<times> json) list \<Rightarrow> (string \<times> json) list option option" where
  "fieldPtr k kvs = (case map_of kvs k of None \<Rightarrow> Some None | Some JNull \<Rightarrow> Some None
     | Some (JObj m) \<Rightarrow> Some (Some m) | _ \<Rightarrow> None)"

text \<open>The members present in a map built key by key.\<close>

fun present :: "(string \<times> json option) list \<Rightarrow> (string \<times> json) list" where
  "present [] = []"
| "present ((k, v) # es) = (case v of None \<Rightarrow> present es | Some j \<Rightarrow> (k, j) # present es)"

lemma present_keys: "set (map fst (present es)) \<subseteq> set (map fst es)"
  by (induction es rule: present.induct) (auto split: option.splits)

lemma map_of_present:
  "distinct (map fst es) \<Longrightarrow> map_of (present es) k = (case map_of es k of None \<Rightarrow> None | Some v \<Rightarrow> v)"
proof (induction es rule: present.induct)
  case (2 k' v es)
  have "k' \<notin> set (map fst (present es))" using 2(3) present_keys [of es] by auto
  then have "map_of (present es) k' = None" by (simp add: map_of_eq_None_iff)
  then show ?case using 2 by (auto split: option.splits)
qed simp

lemma present_encodable: "list_all (\<lambda>kv. encodable (snd kv)) (present es) \<longleftrightarrow>
    list_all (\<lambda>kv. case snd kv of None \<Rightarrow> True | Some j \<Rightarrow> encodable j) es"
  by (induction es rule: present.induct) (auto split: option.split)

end
