(* ===== verification/RivianParse.thy ===== *)
theory RivianParse
  imports Vehicle GoTimeLaws Json
begin

section \<open>Reading the Rivian API\<close>

text \<open>
  \<^verbatim>\<open>parse.go\<close>, \<^verbatim>\<open>types.go\<close> and \<^verbatim>\<open>source_mapping.go\<close> of the Rivian GraphQL source: the wrapped scalars of
  a response, their flattening into \<^verbatim>\<open>VehicleState\<close> and \<^verbatim>\<open>LiveSessionData\<close>, and the mapping to the
  canonical model.  \<^verbatim>\<open>rawVehicleState\<close> has some fifty fields of type \<^verbatim>\<open>*tsValue\<close>: here they are one map
  from the JSON name, of which those of \<open>stateKeys\<close> are read.  The parameter \<open>exotic\<close> is that of \<open>parseFloat\<close>.
\<close>

subsection \<open>Wrapped scalars\<close>

text \<open>\<^verbatim>\<open>flexFloat.UnmarshalJSON\<close> on the bytes of the token and the value held before.\<close>

definition trimQuotes :: "string \<Rightarrow> string" where
  "trimQuotes b = (let p = \<lambda>c. c = CHR 0x22 in rev (dropWhile p (rev (dropWhile p b))))"

definition flexFloat_UnmarshalJSON :: "(string \<Rightarrow> f64 option) \<Rightarrow> string \<Rightarrow> f64 \<Rightarrow> f64" where
  "flexFloat_UnmarshalJSON exotic b old =
     (let s = trimQuotes b in
      if s = [] \<or> s = ''null'' then old
      else case parseFloatOk exotic s of None \<Rightarrow> old | Some v \<Rightarrow> v)"

definition invalidSensorStates :: "string set" where
  "invalidSensorStates = {''fault'', ''signal_not_available'', ''undefined''}"

record tsValue =
  ts_TimeStamp :: string
  ts_Value :: "json option"

definition ts_asString :: "tsValue option \<Rightarrow> string option" where
  "ts_asString t = (case t of None \<Rightarrow> None | Some w \<Rightarrow>
     (case ts_Value w of Some (JStr s) \<Rightarrow> Some s | Some JNull \<Rightarrow> Some [] | _ \<Rightarrow> None))"

definition ts_valid :: "tsValue option \<Rightarrow> bool" where
  "ts_valid t = (case t of None \<Rightarrow> False | Some w \<Rightarrow>
     if ts_Value w = None \<or> ts_Value w = Some JNull then False
     else (case ts_asString t of None \<Rightarrow> True | Some s \<Rightarrow> to_lower s \<notin> invalidSensorStates))"

definition ts_str :: "tsValue option \<Rightarrow> string" where
  "ts_str t = (if \<not> ts_valid t then [] else case ts_asString t of None \<Rightarrow> [] | Some s \<Rightarrow> s)"

text \<open>A number, or a numeric string, as a float.\<close>

definition looseFloat :: "(string \<Rightarrow> f64 option) \<Rightarrow> json \<Rightarrow> f64" where
  "looseFloat exotic j = (case jsonFloat j of Some f \<Rightarrow> f
     | None \<Rightarrow> (case j of JStr s \<Rightarrow> (case parseFloatOk exotic s of Some f \<Rightarrow> f | None \<Rightarrow> fzero) | _ \<Rightarrow> fzero))"

definition ts_f64 :: "(string \<Rightarrow> f64 option) \<Rightarrow> tsValue option \<Rightarrow> f64" where
  "ts_f64 exotic t = (if \<not> ts_valid t then fzero else looseFloat exotic (the (ts_Value (the t))))"

definition ts_i :: "(string \<Rightarrow> f64 option) \<Rightarrow> tsValue option \<Rightarrow> int" where
  "ts_i exotic t = f2i (ts_f64 exotic t)"

definition parseTime :: "string \<Rightarrow> gotime" where
  "parseTime s = (if s = [] then 0
     else case parseTimeIn (\<lambda>_. 0) rfc3339Nano s of Some t \<Rightarrow> t
     | None \<Rightarrow> (case parseTimeIn (\<lambda>_. 0) rfc3339 s of Some t \<Rightarrow> t
       | None \<Rightarrow> (case parseTimeIn (\<lambda>_. 0) rfc3339Milli s of Some t \<Rightarrow> t | None \<Rightarrow> 0)))"

definition ts_ts :: "tsValue option \<Rightarrow> gotime" where
  "ts_ts t = (case t of None \<Rightarrow> 0 | Some w \<Rightarrow> if ts_TimeStamp w = [] then 0 else parseTime (ts_TimeStamp w))"

subsection \<open>The vehicle state\<close>

record rawVehicleState =
  rw_CloudConnection :: "(bool \<times> string) option"
  rw_GnssLocation :: "(f64 \<times> f64 \<times> string) option"
  rw_Fields :: "string \<Rightarrow> tsValue option"

definition stateKeys :: "string list" where
  "stateKeys = [
     ''gnssSpeed'', ''gnssBearing'', ''gnssAltitude'',
     ''vehicleMileage'', ''distanceToEmpty'', ''batteryLevel'',
     ''batteryLimit'', ''batteryCapacity'', ''powerState'',
     ''gearStatus'', ''driveMode'', ''chargerState'',
     ''chargerStatus'', ''chargePortState'', ''timeToEndOfCharge'',
     ''cabinClimateInteriorTemperature'', ''cabinClimateDriverTemperature'', ''cabinPreconditioningStatus'',
     ''defrostDefogStatus'', ''seatFrontLeftHeat'', ''seatFrontRightHeat'',
     ''seatRearLeftHeat'', ''seatRearRightHeat'', ''steeringWheelHeat'',
     ''gearGuardVideoStatus'', ''tirePressureStatusFrontLeft'', ''tirePressureStatusFrontRight'',
     ''tirePressureStatusRearLeft'', ''tirePressureStatusRearRight'', ''doorFrontLeftLocked'',
     ''doorFrontLeftClosed'', ''doorFrontRightLocked'', ''doorFrontRightClosed'',
     ''doorRearLeftLocked'', ''doorRearLeftClosed'', ''doorRearRightLocked'',
     ''doorRearRightClosed'', ''windowFrontLeftClosed'', ''windowFrontRightClosed'',
     ''windowRearLeftClosed'', ''windowRearRightClosed'', ''closureFrunkLocked'',
     ''closureFrunkClosed'', ''closureLiftgateLocked'', ''closureLiftgateClosed'',
     ''closureTonneauLocked'', ''closureTonneauClosed'', ''closureTailgateLocked'',
     ''closureTailgateClosed'', ''gearGuardLocked'', ''otaCurrentVersion'',
     ''otaAvailableVersion'', ''otaStatus'', ''otaInstallProgress'',
     ''otaDownloadProgress'']"

record gnssLocation =
  gl_Latitude :: f64
  gl_Longitude :: f64
  gl_TimeStamp :: gotime

record rivianState =
  rv_CloudConnectionOnline :: bool
  rv_CloudLastSync :: gotime
  rv_Location :: "gnssLocation option"
  rv_GnssSpeed :: f64
  rv_GnssBearing :: f64
  rv_GnssAltitude :: f64
  rv_VehicleMileage :: int
  rv_DistanceToEmpty :: int
  rv_BatteryLevel :: f64
  rv_BatteryLimit :: f64
  rv_BatteryCapacity :: f64
  rv_PowerState :: string
  rv_GearStatus :: string
  rv_DriveMode :: string
  rv_ChargerState :: string
  rv_ChargerStatus :: string
  rv_ChargePortState :: string
  rv_TimeToEndOfCharge :: int
  rv_CabinInteriorTemp :: f64
  rv_SeatFrontLeftHeat :: string
  rv_SeatFrontRightHeat :: string
  rv_SeatRearLeftHeat :: string
  rv_SeatRearRightHeat :: string
  rv_SteeringWheelHeat :: string
  rv_CabinPreconditioningStatus :: string
  rv_CabinClimateDriverTemperature :: f64
  rv_DefrostDefogStatus :: string
  rv_GearGuardVideoStatus :: string
  rv_TirePressureStatusFrontLeft :: string
  rv_TirePressureStatusFrontRight :: string
  rv_TirePressureStatusRearLeft :: string
  rv_TirePressureStatusRearRight :: string
  rv_DoorFrontLeftLocked :: string
  rv_DoorFrontRightLocked :: string
  rv_DoorRearLeftLocked :: string
  rv_DoorRearRightLocked :: string
  rv_GearGuardLocked :: string
  rv_DoorFrontLeftClosed :: string
  rv_DoorFrontRightClosed :: string
  rv_DoorRearLeftClosed :: string
  rv_DoorRearRightClosed :: string
  rv_WindowFrontLeftClosed :: string
  rv_WindowFrontRightClosed :: string
  rv_WindowRearLeftClosed :: string
  rv_WindowRearRightClosed :: string
  rv_ClosureFrunkClosed :: string
  rv_ClosureLiftgateClosed :: string
  rv_ClosureTonneauClosed :: string
  rv_ClosureTailgateClosed :: string
  rv_OtaCurrentVersion :: string
  rv_OtaAvailableVersion :: string
  rv_OtaStatus :: string
  rv_OtaInstallProgress :: f64
  rv_OtaDownloadProgress :: int
  rv_LastUpdate :: gotime

definition zeroRivian :: rivianState where
  "zeroRivian = \<lparr>
     rv_CloudConnectionOnline = False,
     rv_CloudLastSync = 0,
     rv_Location = None,
     rv_GnssSpeed = Fin 0,
     rv_GnssBearing = Fin 0,
     rv_GnssAltitude = Fin 0,
     rv_VehicleMileage = 0,
     rv_DistanceToEmpty = 0,
     rv_BatteryLevel = Fin 0,
     rv_BatteryLimit = Fin 0,
     rv_BatteryCapacity = Fin 0,
     rv_PowerState = [],
     rv_GearStatus = [],
     rv_DriveMode = [],
     rv_ChargerState = [],
     rv_ChargerStatus = [],
     rv_ChargePortState = [],
     rv_TimeToEndOfCharge = 0,
     rv_CabinInteriorTemp = Fin 0,
     rv_SeatFrontLeftHeat = [],
     rv_SeatFrontRightHeat = [],
     rv_SeatRearLeftHeat = [],
     rv_SeatRearRightHeat = [],
     rv_SteeringWheelHeat = [],
     rv_CabinPreconditioningStatus = [],
     rv_CabinClimateDriverTemperature = Fin 0,
     rv_DefrostDefogStatus = [],
     rv_GearGuardVideoStatus = [],
     rv_TirePressureStatusFrontLeft = [],
     rv_TirePressureStatusFrontRight = [],
     rv_TirePressureStatusRearLeft = [],
     rv_TirePressureStatusRearRight = [],
     rv_DoorFrontLeftLocked = [],
     rv_DoorFrontRightLocked = [],
     rv_DoorRearLeftLocked = [],
     rv_DoorRearRightLocked = [],
     rv_GearGuardLocked = [],
     rv_DoorFrontLeftClosed = [],
     rv_DoorFrontRightClosed = [],
     rv_DoorRearLeftClosed = [],
     rv_DoorRearRightClosed = [],
     rv_WindowFrontLeftClosed = [],
     rv_WindowFrontRightClosed = [],
     rv_WindowRearLeftClosed = [],
     rv_WindowRearRightClosed = [],
     rv_ClosureFrunkClosed = [],
     rv_ClosureLiftgateClosed = [],
     rv_ClosureTonneauClosed = [],
     rv_ClosureTailgateClosed = [],
     rv_OtaCurrentVersion = [],
     rv_OtaAvailableVersion = [],
     rv_OtaStatus = [],
     rv_OtaInstallProgress = Fin 0,
     rv_OtaDownloadProgress = 0,
     rv_LastUpdate = 0\<rparr>"

definition later :: "gotime \<Rightarrow> gotime \<Rightarrow> gotime" where
  "later t latest = (if latest < t then t else latest)"

definition trackedFields :: "string list" where
  "trackedFields = [''gnssSpeed'', ''gnssBearing'', ''gnssAltitude'', ''vehicleMileage'',
     ''distanceToEmpty'', ''batteryLevel'', ''batteryLimit'', ''batteryCapacity'',
     ''powerState'', ''gearStatus'', ''driveMode'', ''chargerState'',
     ''chargerStatus'', ''chargePortState'', ''timeToEndOfCharge'', ''cabinClimateInteriorTemperature'',
     ''otaStatus'', ''otaCurrentVersion'']"

definition rivian_flatten :: "(string \<Rightarrow> f64 option) \<Rightarrow> rawVehicleState option \<Rightarrow> rivianState" where
  "rivian_flatten exotic r = (case r of None \<Rightarrow> zeroRivian
   | Some v \<Rightarrow>
     let w = rw_Fields v;
         loc = map_option (\<lambda>(lat, lon, ts). \<lparr>gl_Latitude = lat, gl_Longitude = lon, gl_TimeStamp = parseTime ts\<rparr>) (rw_GnssLocation v);
         start = (case loc of None \<Rightarrow> 0 | Some l \<Rightarrow> later (gl_TimeStamp l) 0)
     in \<lparr>
       rv_CloudConnectionOnline = (case rw_CloudConnection v of None \<Rightarrow> False | Some c \<Rightarrow> fst c),
       rv_CloudLastSync = (case rw_CloudConnection v of None \<Rightarrow> 0 | Some c \<Rightarrow> parseTime (snd c)),
       rv_Location = loc,
       rv_GnssSpeed = ts_f64 exotic (w ''gnssSpeed''),
       rv_GnssBearing = ts_f64 exotic (w ''gnssBearing''),
       rv_GnssAltitude = ts_f64 exotic (w ''gnssAltitude''),
       rv_VehicleMileage = ts_i exotic (w ''vehicleMileage''),
       rv_DistanceToEmpty = ts_i exotic (w ''distanceToEmpty''),
       rv_BatteryLevel = ts_f64 exotic (w ''batteryLevel''),
       rv_BatteryLimit = ts_f64 exotic (w ''batteryLimit''),
       rv_BatteryCapacity = ts_f64 exotic (w ''batteryCapacity''),
       rv_PowerState = ts_str (w ''powerState''),
       rv_GearStatus = ts_str (w ''gearStatus''),
       rv_DriveMode = ts_str (w ''driveMode''),
       rv_ChargerState = ts_str (w ''chargerState''),
       rv_ChargerStatus = ts_str (w ''chargerStatus''),
       rv_ChargePortState = ts_str (w ''chargePortState''),
       rv_TimeToEndOfCharge = ts_i exotic (w ''timeToEndOfCharge''),
       rv_CabinInteriorTemp = ts_f64 exotic (w ''cabinClimateInteriorTemperature''),
       rv_SeatFrontLeftHeat = ts_str (w ''seatFrontLeftHeat''),
       rv_SeatFrontRightHeat = ts_str (w ''seatFrontRightHeat''),
       rv_SeatRearLeftHeat = ts_str (w ''seatRearLeftHeat''),
       rv_SeatRearRightHeat = ts_str (w ''seatRearRightHeat''),
       rv_SteeringWheelHeat = ts_str (w ''steeringWheelHeat''),
       rv_CabinPreconditioningStatus = ts_str (w ''cabinPreconditioningStatus''),
       rv_CabinClimateDriverTemperature = ts_f64 exotic (w ''cabinClimateDriverTemperature''),
       rv_DefrostDefogStatus = ts_str (w ''defrostDefogStatus''),
       rv_GearGuardVideoStatus = ts_str (w ''gearGuardVideoStatus''),
       rv_TirePressureStatusFrontLeft = ts_str (w ''tirePressureStatusFrontLeft''),
       rv_TirePressureStatusFrontRight = ts_str (w ''tirePressureStatusFrontRight''),
       rv_TirePressureStatusRearLeft = ts_str (w ''tirePressureStatusRearLeft''),
       rv_TirePressureStatusRearRight = ts_str (w ''tirePressureStatusRearRight''),
       rv_DoorFrontLeftLocked = ts_str (w ''doorFrontLeftLocked''),
       rv_DoorFrontRightLocked = ts_str (w ''doorFrontRightLocked''),
       rv_DoorRearLeftLocked = ts_str (w ''doorRearLeftLocked''),
       rv_DoorRearRightLocked = ts_str (w ''doorRearRightLocked''),
       rv_GearGuardLocked = ts_str (w ''gearGuardLocked''),
       rv_DoorFrontLeftClosed = ts_str (w ''doorFrontLeftClosed''),
       rv_DoorFrontRightClosed = ts_str (w ''doorFrontRightClosed''),
       rv_DoorRearLeftClosed = ts_str (w ''doorRearLeftClosed''),
       rv_DoorRearRightClosed = ts_str (w ''doorRearRightClosed''),
       rv_WindowFrontLeftClosed = ts_str (w ''windowFrontLeftClosed''),
       rv_WindowFrontRightClosed = ts_str (w ''windowFrontRightClosed''),
       rv_WindowRearLeftClosed = ts_str (w ''windowRearLeftClosed''),
       rv_WindowRearRightClosed = ts_str (w ''windowRearRightClosed''),
       rv_ClosureFrunkClosed = ts_str (w ''closureFrunkClosed''),
       rv_ClosureLiftgateClosed = ts_str (w ''closureLiftgateClosed''),
       rv_ClosureTonneauClosed = ts_str (w ''closureTonneauClosed''),
       rv_ClosureTailgateClosed = ts_str (w ''closureTailgateClosed''),
       rv_OtaCurrentVersion = ts_str (w ''otaCurrentVersion''),
       rv_OtaAvailableVersion = ts_str (w ''otaAvailableVersion''),
       rv_OtaStatus = ts_str (w ''otaStatus''),
       rv_OtaInstallProgress = ts_f64 exotic (w ''otaInstallProgress''),
       rv_OtaDownloadProgress = ts_i exotic (w ''otaDownloadProgress''),
       rv_LastUpdate = fold (\<lambda>k. later (ts_ts (w k))) trackedFields start\<rparr>)"

subsection \<open>The live session\<close>

record vrValue =
  vr_Value :: "json option"
  vr_UpdatedAt :: string

definition vr_valid :: "vrValue option \<Rightarrow> bool" where
  "vr_valid w = (case w of None \<Rightarrow> False | Some v \<Rightarrow> vr_Value v \<noteq> None \<and> vr_Value v \<noteq> Some JNull)"

definition vr_f64 :: "(string \<Rightarrow> f64 option) \<Rightarrow> vrValue option \<Rightarrow> f64" where
  "vr_f64 exotic w = (if \<not> vr_valid w then fzero else looseFloat exotic (the (vr_Value (the w))))"

definition vr_i :: "(string \<Rightarrow> f64 option) \<Rightarrow> vrValue option \<Rightarrow> int" where
  "vr_i exotic w = f2i (vr_f64 exotic w)"

definition vr_str :: "vrValue option \<Rightarrow> string" where
  "vr_str w = (if \<not> vr_valid w then [] else case vr_Value (the w) of Some (JStr s) \<Rightarrow> s | _ \<Rightarrow> [])"

record rawLiveSession =
  rl_VehicleChargerState :: "vrValue option"
  rl_Power :: "vrValue option"
  rl_Current :: "vrValue option"
  rl_KilometersChargedPerHour :: "vrValue option"
  rl_RangeAddedThisSession :: "vrValue option"
  rl_Soc :: "vrValue option"
  rl_TimeRemaining :: "vrValue option"
  rl_TotalChargedEnergy :: "vrValue option"
  rl_TimeElapsed :: f64
  rl_CurrentPrice :: f64
  rl_CurrentCurrency :: string

record liveSessionData =
  ld_Power :: f64
  ld_Current :: f64
  ld_KilometersChargedPerHr :: f64
  ld_RangeAddedThisSession :: f64
  ld_Soc :: f64
  ld_TimeRemaining :: int
  ld_TotalChargedEnergy :: f64
  ld_VehicleChargerState :: string
  ld_CurrentPrice :: f64
  ld_CurrentCurrency :: string
  ld_TimeElapsed :: int

definition live_flatten :: "(string \<Rightarrow> f64 option) \<Rightarrow> rawLiveSession \<Rightarrow> liveSessionData" where
  "live_flatten exotic s = \<lparr>
     ld_Power = vr_f64 exotic (rl_Power s),
     ld_Current = vr_f64 exotic (rl_Current s),
     ld_KilometersChargedPerHr = vr_f64 exotic (rl_KilometersChargedPerHour s),
     ld_RangeAddedThisSession = vr_f64 exotic (rl_RangeAddedThisSession s),
     ld_Soc = vr_f64 exotic (rl_Soc s),
     ld_TimeRemaining = vr_i exotic (rl_TimeRemaining s),
     ld_TotalChargedEnergy = vr_f64 exotic (rl_TotalChargedEnergy s),
     ld_VehicleChargerState = vr_str (rl_VehicleChargerState s),
     ld_CurrentPrice = rl_CurrentPrice s,
     ld_CurrentCurrency = rl_CurrentCurrency s,
     ld_TimeElapsed = f2i (rl_TimeElapsed s)\<rparr>"

subsection \<open>Decoding the responses\<close>

definition decodeTs :: "json \<Rightarrow> tsValue option option" where
  "decodeTs j = (case j of JNull \<Rightarrow> Some None
     | JObj m \<Rightarrow> (case fieldStr ''timeStamp'' m of None \<Rightarrow> None
         | Some s \<Rightarrow> Some (Some \<lparr>ts_TimeStamp = s, ts_Value = map_of m ''value''\<rparr>))
     | _ \<Rightarrow> None)"

definition decodeField :: "(string \<times> json) list \<Rightarrow> string \<Rightarrow> tsValue option option" where
  "decodeField m k = (case map_of m k of None \<Rightarrow> Some None | Some j \<Rightarrow> decodeTs j)"

definition decodeCloud :: "(string \<times> json) list \<Rightarrow> (bool \<times> string) option option" where
  "decodeCloud m = (case fieldPtr ''cloudConnection'' m of None \<Rightarrow> None | Some None \<Rightarrow> Some None
     | Some (Some c) \<Rightarrow> (case (fieldBool ''isOnline'' c, fieldStr ''lastSync'' c) of
         (Some b, Some s) \<Rightarrow> Some (Some (b, s)) | _ \<Rightarrow> None))"

definition decodeGnss :: "(string \<times> json) list \<Rightarrow> (f64 \<times> f64 \<times> string) option option" where
  "decodeGnss m = (case fieldPtr ''gnssLocation'' m of None \<Rightarrow> None | Some None \<Rightarrow> Some None
     | Some (Some g) \<Rightarrow>
         (case (fieldFloat ''latitude'' g, fieldFloat ''longitude'' g, fieldStr ''timeStamp'' g) of
            (Some lat, Some lon, Some s) \<Rightarrow> Some (Some (lat, lon, s)) | _ \<Rightarrow> None))"

definition decodeRawState :: "(string \<times> json) list \<Rightarrow> rawVehicleState option" where
  "decodeRawState m = (case (decodeCloud m, decodeGnss m) of
     (Some c, Some g) \<Rightarrow>
       if list_ex (\<lambda>k. decodeField m k = None) stateKeys then None
       else Some \<lparr>rw_CloudConnection = c, rw_GnssLocation = g,
         rw_Fields = (\<lambda>k. case decodeField m k of Some x \<Rightarrow> x | None \<Rightarrow> None)\<rparr>
   | _ \<Rightarrow> None)"

text \<open>A response \<^verbatim>\<open>{"data": {key: object}}\<close>; the object is a pointer.\<close>

definition decodeEnvelope :: "string \<Rightarrow> json \<Rightarrow> (string \<times> json) list option option" where
  "decodeEnvelope key j = (case j of JNull \<Rightarrow> Some None
     | JObj m \<Rightarrow> (case fieldObj ''data'' m of None \<Rightarrow> None | Some d \<Rightarrow> fieldPtr key d)
     | _ \<Rightarrow> None)"

definition decodeStateResponse :: "json \<Rightarrow> rawVehicleState option option" where
  "decodeStateResponse j = (case decodeEnvelope ''vehicleState'' j of None \<Rightarrow> None
     | Some None \<Rightarrow> Some None | Some (Some m) \<Rightarrow> map_option Some (decodeRawState m))"

definition decodeVr :: "string \<Rightarrow> (string \<times> json) list \<Rightarrow> vrValue option option" where
  "decodeVr k m = (case fieldPtr k m of None \<Rightarrow> None | Some None \<Rightarrow> Some None
     | Some (Some v) \<Rightarrow> map_option (\<lambda>u. Some \<lparr>vr_Value = map_of v ''value'', vr_UpdatedAt = u\<rparr>) (fieldStr ''updatedAt'' v))"

text \<open>A \<^verbatim>\<open>flexFloat\<close> field; \<open>tokenText\<close> gives the bytes of a token.\<close>

definition decodeFlex :: "(string \<Rightarrow> f64 option) \<Rightarrow> (json \<Rightarrow> string) \<Rightarrow> string \<Rightarrow> (string \<times> json) list \<Rightarrow> f64" where
  "decodeFlex exotic tokenText k m = (case map_of m k of None \<Rightarrow> fzero
     | Some j \<Rightarrow> flexFloat_UnmarshalJSON exotic (tokenText j) fzero)"

definition decodeRawLive :: "(string \<Rightarrow> f64 option) \<Rightarrow> (json \<Rightarrow> string) \<Rightarrow> (string \<times> json) list \<Rightarrow> rawLiveSession option" where
  "decodeRawLive exotic tokenText m =
     (case (decodeVr ''vehicleChargerState'' m, decodeVr ''power'' m, decodeVr ''current'' m,
        decodeVr ''kilometersChargedPerHour'' m, decodeVr ''rangeAddedThisSession'' m, decodeVr ''soc'' m,
        decodeVr ''timeRemaining'' m, decodeVr ''totalChargedEnergy'' m, fieldStr ''currentCurrency'' m) of
      (Some cs, Some p, Some c, Some k, Some r, Some s, Some t, Some e, Some cur) \<Rightarrow>
        Some \<lparr>rl_VehicleChargerState = cs, rl_Power = p, rl_Current = c, rl_KilometersChargedPerHour = k,
          rl_RangeAddedThisSession = r, rl_Soc = s, rl_TimeRemaining = t, rl_TotalChargedEnergy = e,
          rl_TimeElapsed = decodeFlex exotic tokenText ''timeElapsed'' m,
          rl_CurrentPrice = decodeFlex exotic tokenText ''currentPrice'' m, rl_CurrentCurrency = cur\<rparr>
    | _ \<Rightarrow> None)"

definition decodeLiveResponse ::
  "(string \<Rightarrow> f64 option) \<Rightarrow> (json \<Rightarrow> string) \<Rightarrow> json \<Rightarrow> rawLiveSession option option" where
  "decodeLiveResponse exotic tokenText j = (case decodeEnvelope ''getLiveSessionData'' j of None \<Rightarrow> None
     | Some None \<Rightarrow> Some None | Some (Some m) \<Rightarrow> map_option Some (decodeRawLive exotic tokenText m))"

subsection \<open>To the canonical model\<close>

definition powerToCanonical :: "string \<Rightarrow> bool \<Rightarrow> power" where
  "powerToCanonical powerState cloudOnline =
     (if \<not> cloudOnline then PowerOffline
      else if powerState = ''sleep'' then PowerSleep
      else if powerState = ''go'' \<or> powerState = ''ready'' then PowerOnline
      else PowerOffline)"

definition gearToCanonical :: "string \<Rightarrow> gear" where
  "gearToCanonical g = (if g = ''drive'' then GearDrive else if g = ''reverse'' then GearReverse
     else if g = ''neutral'' then GearNeutral else if g = ''park'' then GearPark else GearUnknown)"

definition chargerToCanonical :: "string \<Rightarrow> chargerState" where
  "chargerToCanonical c = (if c = ''charging_active'' \<or> c = ''charging_connecting'' then ChargerCharging
     else if c = ''charging_ready'' then ChargerIdle else if c = [] then ChargerDisconnect else ChargerIdle)"

definition plugToCanonical :: "string \<Rightarrow> string \<Rightarrow> chargePlug" where
  "plugToCanonical chargerState chargerStatus =
     (if chargerStatus = ''chrgr_sts_not_connected'' then PlugDisconnected
      else if chargerState = ''charging_active'' \<or> chargerState = ''charging_connecting'' \<or> chargerState = ''charging_ready''
      then PlugConnected
      else if chargerStatus \<noteq> [] then PlugConnected else PlugUnknown)"

definition liveToCanonical :: "liveSessionData option \<Rightarrow> liveSession option" where
  "liveToCanonical live = map_option (\<lambda>l. zeroLive\<lparr>ls_PowerKw := ld_Power l, ls_CurrentA := ld_Current l,
     ls_TotalChargedEnergy := ld_TotalChargedEnergy l, ls_TimeRemainingSec := ld_TimeRemaining l\<rparr>) live"

definition stateToCanonical :: "rivianState \<Rightarrow> state" where
  "stateToCanonical vs = zeroState\<lparr>
     st_Power := powerToCanonical (rv_PowerState vs) (rv_CloudConnectionOnline vs),
     st_UserPresent := (rv_PowerState vs = ''go''),
     st_CloudOnline := rv_CloudConnectionOnline vs,
     st_LastUpdate := rv_LastUpdate vs,
     st_CloudLastSync := rv_CloudLastSync vs,
     st_SpeedMps := rv_GnssSpeed vs,
     st_HeadingDeg := rv_GnssBearing vs,
     st_OdometerMeters := rv_VehicleMileage vs,
     st_RangeKm := rv_DistanceToEmpty vs,
     st_BatteryLevelPct := rv_BatteryLevel vs,
     st_BatteryLimitPct := rv_BatteryLimit vs,
     st_Gear := gearToCanonical (rv_GearStatus vs),
     st_Charger := chargerToCanonical (rv_ChargerState vs),
     st_Plug := plugToCanonical (rv_ChargerState vs) (rv_ChargerStatus vs),
     st_ChargePortOpen := (rv_ChargePortState vs = ''open''),
     st_TimeToEndOfChargeMin := rv_TimeToEndOfCharge vs,
     st_CabinTempC := rv_CabinInteriorTemp vs,
     st_DriverSetpointC := rv_CabinClimateDriverTemperature vs,
     st_SeatHeatFrontLeft := rv_SeatFrontLeftHeat vs,
     st_SeatHeatFrontRight := rv_SeatFrontRightHeat vs,
     st_SeatHeatRearLeft := rv_SeatRearLeftHeat vs,
     st_SeatHeatRearRight := rv_SeatRearRightHeat vs,
     st_SteeringWheelHeat := rv_SteeringWheelHeat vs,
     st_DefrostStatus := rv_DefrostDefogStatus vs,
     st_PreconditioningStatus := rv_CabinPreconditioningStatus vs,
     st_GearGuardStatus := rv_GearGuardVideoStatus vs,
     st_TpmsFrontLeft := rv_TirePressureStatusFrontLeft vs,
     st_TpmsFrontRight := rv_TirePressureStatusFrontRight vs,
     st_TpmsRearLeft := rv_TirePressureStatusRearLeft vs,
     st_TpmsRearRight := rv_TirePressureStatusRearRight vs,
     st_DoorFrontLeftLocked := rv_DoorFrontLeftLocked vs,
     st_DoorFrontRightLocked := rv_DoorFrontRightLocked vs,
     st_DoorRearLeftLocked := rv_DoorRearLeftLocked vs,
     st_DoorRearRightLocked := rv_DoorRearRightLocked vs,
     st_DoorFrontLeftClosed := rv_DoorFrontLeftClosed vs,
     st_DoorFrontRightClosed := rv_DoorFrontRightClosed vs,
     st_DoorRearLeftClosed := rv_DoorRearLeftClosed vs,
     st_DoorRearRightClosed := rv_DoorRearRightClosed vs,
     st_WindowFrontLeftClosed := rv_WindowFrontLeftClosed vs,
     st_WindowFrontRightClosed := rv_WindowFrontRightClosed vs,
     st_WindowRearLeftClosed := rv_WindowRearLeftClosed vs,
     st_WindowRearRightClosed := rv_WindowRearRightClosed vs,
     st_FrunkClosed := rv_ClosureFrunkClosed vs,
     st_LiftgateClosed := rv_ClosureLiftgateClosed vs,
     st_TonneauClosed := rv_ClosureTonneauClosed vs,
     st_TailgateClosed := rv_ClosureTailgateClosed vs,
     st_OtaVersion := rv_OtaCurrentVersion vs,
     st_OtaAvailableVersion := rv_OtaAvailableVersion vs,
     st_OtaStatus := rv_OtaStatus vs,
     st_OtaInstallProgress := rv_OtaInstallProgress vs,
     st_OtaDownloadProgress := rv_OtaDownloadProgress vs,
     st_Location := map_option (\<lambda>l. \<lparr>loc_Latitude = gl_Latitude l, loc_Longitude = gl_Longitude l,
       loc_TimeStamp = gl_TimeStamp l\<rparr>) (rv_Location vs)\<rparr>"

definition toCanonical :: "rivianState option \<Rightarrow> liveSessionData option \<Rightarrow> snapshot" where
  "toCanonical vs live = (case vs of None \<Rightarrow> zeroSnapshot\<lparr>sn_Live := liveToCanonical live\<rparr>
     | Some v \<Rightarrow> zeroSnapshot\<lparr>sn_State := Some (stateToCanonical v), sn_Live := liveToCanonical live\<rparr>)"

end
