(* ===== verification/RivianSink.thy ===== *)
theory RivianSink
  imports FleetAdapter RivianParse
begin

section \<open>Serving the Rivian API\<close>

text \<open>
  \<^verbatim>\<open>sink_mapping.go\<close> and \<^verbatim>\<open>sink.go\<close>: the canonical state and live session as Rivian response bodies, and
  the two GraphQL handlers.  \<open>zone\<close> gives the offset of the location a time is shown in.  A request
  body is None when it is not JSON; a response is always of status 200 and its body None when the
  value cannot be encoded, since \<^verbatim>\<open>Encode\<close> then writes nothing and its error is dropped.
\<close>

subsection \<open>Enumerations and times on the wire\<close>

definition tstr :: "(gotime \<Rightarrow> int) \<Rightarrow> gotime \<Rightarrow> string" where
  "tstr zone t = (if is_zero_time t then [] else formatTime rfc3339Nano (zone t) t)"

definition tsv :: "(gotime \<Rightarrow> int) \<Rightarrow> gotime \<Rightarrow> json \<Rightarrow> json" where
  "tsv zone t v = JObj [(''timeStamp'', JStr (tstr zone t)), (''value'', v)]"

definition vrv :: "(gotime \<Rightarrow> int) \<Rightarrow> gotime \<Rightarrow> json \<Rightarrow> json" where
  "vrv zone t v = JObj [(''value'', v), (''updatedAt'', JStr (tstr zone t))]"

definition cloudOnlineWire :: "state \<Rightarrow> bool" where
  "cloudOnlineWire st = (if st_CloudOnline st then True else st_Power st \<noteq> PowerOffline)"

definition powerToWire :: "state \<Rightarrow> string" where
  "powerToWire st = (case st_Power st of PowerSleep \<Rightarrow> ''sleep''
     | PowerOnline \<Rightarrow> (if st_UserPresent st then ''go'' else ''ready'') | _ \<Rightarrow> [])"

fun gearToWire :: "gear \<Rightarrow> string" where
  "gearToWire GearDrive = ''drive''"
| "gearToWire GearReverse = ''reverse''"
| "gearToWire GearNeutral = ''neutral''"
| "gearToWire GearPark = ''park''"
| "gearToWire GearUnknown = []"

definition chargerToWire :: "chargerState \<Rightarrow> string" where
  "chargerToWire c = (case c of ChargerCharging \<Rightarrow> ''charging_active'' | ChargerIdle \<Rightarrow> ''charging_ready'' | _ \<Rightarrow> [])"

fun plugToWire :: "chargePlug \<Rightarrow> string" where
  "plugToWire PlugDisconnected = ''chrgr_sts_not_connected''"
| "plugToWire PlugConnected = ''chrgr_sts_connected_charging''"
| "plugToWire PlugUnknown = []"

definition chargePortToWire :: "bool \<Rightarrow> string" where
  "chargePortToWire isOpen = (if isOpen then ''open'' else ''closed'')"

subsection \<open>The bodies\<close>

definition nested :: "json \<Rightarrow> string \<Rightarrow> json" where
  "nested j key = JObj [(''data'', JObj [(key, j)])]"

definition stateEntries :: "(gotime \<Rightarrow> int) \<Rightarrow> state \<Rightarrow> (string \<times> json option) list" where
  "stateEntries zone st =
     (let now = st_LastUpdate st;
          num = (\<lambda>key v. (key, Some (tsv zone now v)));
          str = (\<lambda>key s. (key, if s = [] then None else Some (tsv zone now (JStr s))))
      in [(''cloudConnection'', Some (JObj [(''isOnline'', JBool (cloudOnlineWire st)),
         (''lastSync'', JStr (tstr zone (st_CloudLastSync st)))])),
       (''gnssLocation'', map_option (\<lambda>l. JObj [(''latitude'', JNum (loc_Latitude l)),
         (''longitude'', JNum (loc_Longitude l)), (''timeStamp'', JStr (tstr zone (loc_TimeStamp l)))]) (st_Location st)),
       num ''gnssSpeed'' (JNum (st_SpeedMps st)),
       num ''gnssBearing'' (JNum (st_HeadingDeg st)),
       num ''vehicleMileage'' (JInt (st_OdometerMeters st)),
       num ''distanceToEmpty'' (JInt (st_RangeKm st)),
       num ''batteryLevel'' (JNum (st_BatteryLevelPct st)),
       num ''batteryLimit'' (JNum (st_BatteryLimitPct st)),
       str ''powerState'' (powerToWire st),
       str ''gearStatus'' (gearToWire (st_Gear st)),
       str ''chargerState'' (chargerToWire (st_Charger st)),
       str ''chargerStatus'' (plugToWire (st_Plug st)),
       str ''chargePortState'' (chargePortToWire (st_ChargePortOpen st)),
       num ''timeToEndOfCharge'' (JInt (st_TimeToEndOfChargeMin st)),
       num ''cabinClimateInteriorTemperature'' (JNum (st_CabinTempC st)),
       num ''cabinClimateDriverTemperature'' (JNum (st_DriverSetpointC st)),
       str ''cabinPreconditioningStatus'' (st_PreconditioningStatus st),
       str ''defrostDefogStatus'' (st_DefrostStatus st),
       str ''seatFrontLeftHeat'' (st_SeatHeatFrontLeft st),
       str ''seatFrontRightHeat'' (st_SeatHeatFrontRight st),
       str ''seatRearLeftHeat'' (st_SeatHeatRearLeft st),
       str ''seatRearRightHeat'' (st_SeatHeatRearRight st),
       str ''steeringWheelHeat'' (st_SteeringWheelHeat st),
       str ''gearGuardVideoStatus'' (st_GearGuardStatus st),
       str ''tirePressureStatusFrontLeft'' (st_TpmsFrontLeft st),
       str ''tirePressureStatusFrontRight'' (st_TpmsFrontRight st),
       str ''tirePressureStatusRearLeft'' (st_TpmsRearLeft st),
       str ''tirePressureStatusRearRight'' (st_TpmsRearRight st),
       str ''doorFrontLeftLocked'' (st_DoorFrontLeftLocked st),
       str ''doorFrontLeftClosed'' (st_DoorFrontLeftClosed st),
       str ''doorFrontRightLocked'' (st_DoorFrontRightLocked st),
       str ''doorFrontRightClosed'' (st_DoorFrontRightClosed st),
       str ''doorRearLeftLocked'' (st_DoorRearLeftLocked st),
       str ''doorRearLeftClosed'' (st_DoorRearLeftClosed st),
       str ''doorRearRightLocked'' (st_DoorRearRightLocked st),
       str ''doorRearRightClosed'' (st_DoorRearRightClosed st),
       str ''windowFrontLeftClosed'' (st_WindowFrontLeftClosed st),
       str ''windowFrontRightClosed'' (st_WindowFrontRightClosed st),
       str ''windowRearLeftClosed'' (st_WindowRearLeftClosed st),
       str ''windowRearRightClosed'' (st_WindowRearRightClosed st),
       str ''closureFrunkClosed'' (st_FrunkClosed st),
       str ''closureLiftgateClosed'' (st_LiftgateClosed st),
       str ''closureTonneauClosed'' (st_TonneauClosed st),
       str ''closureTailgateClosed'' (st_TailgateClosed st),
       str ''otaCurrentVersion'' (st_OtaVersion st),
       str ''otaAvailableVersion'' (st_OtaAvailableVersion st),
       str ''otaStatus'' (st_OtaStatus st),
       num ''otaInstallProgress'' (JNum (st_OtaInstallProgress st)),
       num ''otaDownloadProgress'' (JInt (st_OtaDownloadProgress st))])"

definition vehicleStateBody :: "(gotime \<Rightarrow> int) \<Rightarrow> state option \<Rightarrow> json" where
  "vehicleStateBody zone st = nested
     (case st of None \<Rightarrow> JNull | Some s \<Rightarrow> JObj (present (stateEntries zone s))) ''vehicleState''"

definition liveSessionBody :: "(gotime \<Rightarrow> int) \<Rightarrow> liveSession option \<Rightarrow> gotime \<Rightarrow> json" where
  "liveSessionBody zone live now = nested
     (case live of None \<Rightarrow> JNull | Some ls \<Rightarrow> JObj [(''__typename'', JStr ''LiveSessionData''),
        (''power'', vrv zone now (JNum (ls_PowerKw ls))), (''current'', vrv zone now (JNum (ls_CurrentA ls))),
        (''timeRemaining'', vrv zone now (JInt (ls_TimeRemainingSec ls))),
        (''totalChargedEnergy'', vrv zone now (JNum (ls_TotalChargedEnergy ls)))]) ''getLiveSessionData''"

definition gqlError :: "string \<Rightarrow> string \<Rightarrow> json" where
  "gqlError code message = JObj [(''data'', JNull), (''errors'', JArr [JObj [(''message'', JStr message),
     (''extensions'', JObj [(''code'', JStr code)])]])]"

definition writeGQLJSON :: "json \<Rightarrow> json option" where
  "writeGQLJSON body = (if encodable body then Some body else None)"

subsection \<open>The handlers\<close>

definition trimSlashes :: "string \<Rightarrow> string" where
  "trimSlashes s = (let p = \<lambda>c. c = CHR ''/'' in rev (dropWhile p (rev (dropWhile p s))))"

definition rivian_basePath :: "string \<Rightarrow> string" where
  "rivian_basePath p = CHR ''/'' # trimSlashes (if p = [] then ''/api/gql'' else p)"

record graphQLRequest =
  gq_OperationName :: string
  gq_Variables :: "(string \<times> json) list"

definition decodeRequest :: "json option \<Rightarrow> graphQLRequest option" where
  "decodeRequest body = (case body of
     Some (JObj m) \<Rightarrow> (case (fieldStr ''operationName'' m, fieldObj ''variables'' m) of
         (Some op, Some vars) \<Rightarrow> Some \<lparr>gq_OperationName = op, gq_Variables = vars\<rparr> | _ \<Rightarrow> None)
   | Some JNull \<Rightarrow> Some \<lparr>gq_OperationName = [], gq_Variables = []\<rparr>
   | _ \<Rightarrow> None)"

definition stringVar :: "string \<Rightarrow> graphQLRequest \<Rightarrow> string" where
  "stringVar k req = (case map_of (gq_Variables req) k of Some (JStr s) \<Rightarrow> s | _ \<Rightarrow> [])"

definition rivian_lookup :: "provider \<Rightarrow> string \<Rightarrow> snapshot option" where
  "rivian_lookup prov guid = (if guid = [] then None
     else if list_ex (\<lambda>v. id_ID v = guid) (pv_Vehicles prov) then Some (pv_Latest prov guid) else None)"

definition userInfoBody :: "provider \<Rightarrow> json" where
  "userInfoBody prov = nested (JObj [(''vehicles'', JArr (map (\<lambda>v. JObj [(''id'', JStr (id_ID v)),
     (''name'', JStr (id_DisplayName v)), (''vin'', JStr (id_VIN v))]) (pv_Vehicles prov)))]) ''currentUser''"

definition liveStamp :: "snapshot \<Rightarrow> gotime" where
  "liveStamp snap = (case sn_State snap of
     Some st \<Rightarrow> if \<not> is_zero_time (st_LastUpdate st) then st_LastUpdate st else sn_FetchedAt snap
   | None \<Rightarrow> sn_FetchedAt snap)"

definition badInput :: "string \<Rightarrow> json option" where
  "badInput message = writeGQLJSON (gqlError ''BAD_USER_INPUT'' message)"

definition handleGateway :: "(gotime \<Rightarrow> int) \<Rightarrow> provider \<Rightarrow> json option \<Rightarrow> json option" where
  "handleGateway zone prov body = (case decodeRequest body of
     None \<Rightarrow> badInput ''invalid request body''
   | Some req \<Rightarrow>
       if gq_OperationName req = ''GetVehicleState'' then
         (case rivian_lookup prov (stringVar ''vehicleID'' req) of
            None \<Rightarrow> badInput ''unknown vehicle id''
          | Some snap \<Rightarrow> writeGQLJSON (vehicleStateBody zone (sn_State snap)))
       else if gq_OperationName req = ''getUserInfo'' then writeGQLJSON (userInfoBody prov)
       else badInput (''unsupported operation: '' @ gq_OperationName req))"

definition handleCharging :: "(gotime \<Rightarrow> int) \<Rightarrow> provider \<Rightarrow> json option \<Rightarrow> json option" where
  "handleCharging zone prov body = (case decodeRequest body of
     None \<Rightarrow> badInput ''invalid request body''
   | Some req \<Rightarrow>
       if gq_OperationName req \<noteq> ''getLiveSessionData''
       then badInput (''unsupported operation: '' @ gq_OperationName req)
       else (case rivian_lookup prov (stringVar ''vehicleId'' req) of
            None \<Rightarrow> badInput ''unknown vehicle id''
          | Some snap \<Rightarrow> writeGQLJSON (liveSessionBody zone (sn_Live snap) (liveStamp snap))))"

text \<open>The sample request: its path and body, or no vehicles.\<close>

definition rivian_SampleRequest :: "string \<Rightarrow> provider \<Rightarrow> string \<Rightarrow> (string \<times> json) option" where
  "rivian_SampleRequest basePath prov canonID =
     (let req = (\<lambda>c. (basePath @ ''/gateway/graphql'',
        JObj [(''operationName'', JStr ''GetVehicleState''), (''variables'', JObj [(''vehicleID'', JStr c)])]))
      in if canonID = [] then
           (case pv_Vehicles prov of [] \<Rightarrow> None | v # _ \<Rightarrow> Some (req (id_ID v)))
         else Some (req canonID))"

end
