(* ===== verification/RivianClient.thy ===== *)
theory RivianClient
  imports Poll RivianParse
begin

section \<open>The Rivian client\<close>

text \<open>
  \<^verbatim>\<open>errors.go\<close>, \<^verbatim>\<open>creds.go\<close>, \<^verbatim>\<open>headers.go\<close>, \<^verbatim>\<open>request.go\<close>, \<^verbatim>\<open>queries.go\<close>, \<^verbatim>\<open>transport.go\<close>, \<^verbatim>\<open>session.go\<close>,
  \<^verbatim>\<open>client.go\<close> and \<^verbatim>\<open>plugin.go\<close>.  What lies outside, the HTTP client and the disk, is the record
  \<open>rivianNet\<close> over a state \<open>'w\<close>: the answer to a POST (an error, or a status and a body, None when it
  is not JSON), the random id put in a request, the reading of the creds file and its writing, with an error or not.  A call of the
  client takes that state and its own, the creds in memory, and gives them back.  The mutex guards
  the accesses to the creds alone; a call is taken as one step.
\<close>

subsection \<open>Errors\<close>

record graphQLError =
  ge_Message :: string
  ge_Code :: string
  ge_Reason :: string

record apiError =
  ae_Code :: string
  ae_Reason :: string
  ae_HTTPStatus :: int
  ae_Errors :: "graphQLError list"

definition apiError_Unauthenticated :: "apiError \<Rightarrow> bool" where
  "apiError_Unauthenticated e \<longleftrightarrow> ae_Code e = ''UNAUTHENTICATED'' \<or> ae_HTTPStatus e = 401"

definition apiError_RateLimited :: "apiError \<Rightarrow> bool" where
  "apiError_RateLimited e \<longleftrightarrow> ae_Code e = ''RATE_LIMIT''"

fun joinWith :: "string \<Rightarrow> string list \<Rightarrow> string" where
  "joinWith sep [] = []"
| "joinWith sep [s] = s"
| "joinWith sep (s # ss) = s @ sep @ joinWith sep ss"

definition apiError_Error :: "apiError \<Rightarrow> string" where
  "apiError_Error e = ''rivian api error (code='' @ ae_Code e @ '' status='' @ itoa (ae_HTTPStatus e) @ ''): '' @
     joinWith ''; '' (map ge_Message (ae_Errors e))"

text \<open>
  The errors of the client: an \<^verbatim>\<open>*APIError\<close>, one of another package's text under a prefix, or one
  that wraps another of the client (\<^verbatim>\<open>%w\<close>) between two texts.
\<close>

datatype rivianError = ApiErr apiError | OtherErr string | WrapErr string rivianError string

definition rivian_isUnauthenticated :: "rivianError \<Rightarrow> bool" where
  "rivian_isUnauthenticated err = (case err of ApiErr ae \<Rightarrow> ae_Code ae = ''UNAUTHENTICATED'' \<or> ae_HTTPStatus ae = 401
     | _ \<Rightarrow> False)"

definition rivian_isRateLimited :: "rivianError \<Rightarrow> bool" where
  "rivian_isRateLimited err = (case err of ApiErr ae \<Rightarrow> ae_Code ae = ''RATE_LIMIT'' | _ \<Rightarrow> False)"

fun rivianText :: "rivianError \<Rightarrow> string" where
  "rivianText (ApiErr e) = apiError_Error e"
| "rivianText (OtherErr s) = s"
| "rivianText (WrapErr pre e post) = pre @ rivianText e @ post"

text \<open>What \<^verbatim>\<open>errors.As\<close> visits, for the poll loop.\<close>

definition plainLayer :: "string \<Rightarrow> errLayer" where
  "plainLayer s = \<lparr>el_text = s, el_Unauthenticated = None, el_RateLimited = None, el_RetryAfter = None,
     el_QuotaBlocked = None, el_AccountDisabled = None, el_TelemetryConfigWiped = None\<rparr>"

fun sourceError :: "rivianError \<Rightarrow> goError" where
  "sourceError (ApiErr e) = [(plainLayer (apiError_Error e))\<lparr>el_Unauthenticated := Some (apiError_Unauthenticated e),
     el_RateLimited := Some (apiError_RateLimited e)\<rparr>]"
| "sourceError (OtherErr s) = [plainLayer s]"
| "sourceError (WrapErr pre e post) = plainLayer (rivianText (WrapErr pre e post)) # sourceError e"

subsection \<open>Creds\<close>

record rivianVehicle =
  rvh_GUID :: string
  rvh_VIN :: string
  rvh_Name :: string

record authData =
  au_Token :: string
  au_RefreshToken :: string
  au_UserSessionToken :: string
  au_CSRFToken :: string
  au_AppSessionToken :: string
  au_VehicleID :: string
  au_VIN :: string
  au_VehicleName :: string
  au_Vehicles :: "rivianVehicle list"
  au_Username :: string

definition authData_VehicleList :: "authData \<Rightarrow> rivianVehicle list" where
  "authData_VehicleList a =
     (if au_Vehicles a \<noteq> [] then au_Vehicles a
      else if au_VehicleID a \<noteq> [] then [\<lparr>rvh_GUID = au_VehicleID a, rvh_VIN = au_VIN a, rvh_Name = au_VehicleName a\<rparr>]
      else [])"

subsection \<open>Endpoints, headers and requests\<close>

datatype endpoint = Gateway | Charging

definition rivianBasePath :: string where
  "rivianBasePath = ''https://rivian.com/api/gql''"

definition apiBase :: "string \<Rightarrow> string" where
  "apiBase b = (if b = [] then rivianBasePath else rev (dropWhile (\<lambda>c. c = CHR ''/'') (rev b)))"

definition endpointURL :: "string \<Rightarrow> endpoint \<Rightarrow> string" where
  "endpointURL b e = (case e of Gateway \<Rightarrow> apiBase b @ ''/gateway/graphql'' | Charging \<Rightarrow> apiBase b @ ''/chrg/user/graphql'')"

type_synonym headers = "(string \<times> string) list"

definition dcCid :: "string \<Rightarrow> string" where
  "dcCid uuid = ''m-ios-'' @ uuid"

definition gatewayHeaders :: "string \<Rightarrow> authData \<Rightarrow> headers" where
  "gatewayHeaders uuid a = [(''A-Sess'', au_AppSessionToken a), (''U-Sess'', au_UserSessionToken a), (''Dc-Cid'', dcCid uuid)]"

definition chargingHeaders :: "string \<Rightarrow> authData \<Rightarrow> headers" where
  "chargingHeaders uuid a = [(''U-Sess'', au_UserSessionToken a), (''Dc-Cid'', dcCid uuid)]"

definition marshalGraphQL :: "string \<Rightarrow> string \<Rightarrow> (string \<times> json) list option \<Rightarrow> json" where
  "marshalGraphQL operationName query variables = JObj [(''operationName'', JStr operationName),
     (''query'', JStr query), (''variables'', case variables of None \<Rightarrow> JNull | Some m \<Rightarrow> JObj m)]"

definition stateQueryFields :: "string list" where
  "stateQueryFields = [
     ''gnssSpeed'', ''gnssBearing'', ''gnssAltitude'',
     ''vehicleMileage'', ''distanceToEmpty'', ''batteryLevel'',
     ''batteryLimit'', ''batteryCapacity'', ''powerState'',
     ''gearStatus'', ''driveMode'', ''chargerState'',
     ''chargerStatus'', ''chargePortState'', ''timeToEndOfCharge'',
     ''cabinClimateInteriorTemperature'', ''cabinClimateDriverTemperature'', ''cabinPreconditioningStatus'',
     ''defrostDefogStatus'', ''seatFrontLeftHeat'', ''seatFrontRightHeat'',
     ''seatRearLeftHeat'', ''seatRearRightHeat'', ''steeringWheelHeat'',
     ''gearGuardVideoStatus'', ''tirePressureStatusFrontLeft'', ''tirePressureStatusFrontRight'',
     ''tirePressureStatusRearLeft'', ''tirePressureStatusRearRight'', ''doorFrontLeftLocked'',
     ''doorFrontLeftClosed'', ''doorFrontRightLocked'', ''doorFrontRightClosed'',
     ''doorRearLeftLocked'', ''doorRearLeftClosed'', ''doorRearRightLocked'',
     ''doorRearRightClosed'', ''windowFrontLeftClosed'', ''windowFrontRightClosed'',
     ''windowRearLeftClosed'', ''windowRearRightClosed'', ''closureFrunkLocked'',
     ''closureFrunkClosed'', ''closureLiftgateLocked'', ''closureLiftgateClosed'',
     ''closureTonneauLocked'', ''closureTonneauClosed'', ''closureTailgateLocked'',
     ''closureTailgateClosed'', ''gearGuardLocked'', ''otaCurrentVersion'',
     ''otaAvailableVersion'', ''otaStatus'', ''otaInstallProgress'',
     ''otaDownloadProgress'']"

definition vehicleStateQuery :: "string \<Rightarrow> json" where
  "vehicleStateQuery vehicleID =
     (let fields = ''cloudConnection { isOnline lastSync } gnssLocation { latitude longitude timeStamp } '' @
        concat (map (\<lambda>f. f @ '' { timeStamp value } '') stateQueryFields)
      in marshalGraphQL ''GetVehicleState''
           (''query GetVehicleState($vehicleID: String!) { vehicleState(id: $vehicleID) { '' @ fields @ ''} }'')
           (Some [(''vehicleID'', JStr vehicleID)]))"

definition liveQueryFields :: "string list" where
  "liveQueryFields = [
     ''vehicleChargerState'', ''power'', ''current'',
     ''kilometersChargedPerHour'', ''rangeAddedThisSession'', ''soc'',
     ''timeRemaining'', ''totalChargedEnergy'']"

definition liveSessionQuery :: "string \<Rightarrow> json" where
  "liveSessionQuery vehicleID =
     (let fields = ''__typename '' @ concat (map (\<lambda>f. f @ '' { value updatedAt } '') liveQueryFields) @
        ''timeElapsed currentPrice currentCurrency ''
      in marshalGraphQL ''getLiveSessionData''
           (''query getLiveSessionData($vehicleId: ID!) { getLiveSessionData(vehicleId: $vehicleId) { '' @ fields @ ''} }'')
           (Some [(''vehicleId'', JStr vehicleID)]))"

subsection \<open>The transport\<close>

text \<open>
  \<open>rn_Post\<close> is one call of the HTTP client and what it answers in the end: the requests the client repeats by itself
  after a transient failure lie inside it, as many as theory RestClient's retry count allows.
\<close>

record 'w rivianNet =
  rn_Post :: "endpoint \<Rightarrow> json \<Rightarrow> headers \<Rightarrow> 'w \<Rightarrow> (string + int \<times> json option) \<times> 'w"
  rn_UUID :: "'w \<Rightarrow> string"
  rn_ReadCreds :: "'w \<Rightarrow> string + authData"
  rn_WriteCreds :: "authData \<Rightarrow> 'w \<Rightarrow> string option \<times> 'w"

text \<open>
  The \<^verbatim>\<open>errors\<close> array of a body. The error of \<^verbatim>\<open>Unmarshal\<close> is ignored there, so what has another
  type is left zero.
\<close>

definition looseStr :: "string \<Rightarrow> (string \<times> json) list \<Rightarrow> string" where
  "looseStr k m = (case map_of m k of Some (JStr s) \<Rightarrow> s | _ \<Rightarrow> [])"

definition decodeGraphQLError :: "json \<Rightarrow> graphQLError" where
  "decodeGraphQLError j = (let m = (case j of JObj m \<Rightarrow> m | _ \<Rightarrow> []);
       ext = (case map_of m ''extensions'' of Some (JObj x) \<Rightarrow> x | _ \<Rightarrow> [])
     in \<lparr>ge_Message = looseStr ''message'' m, ge_Code = looseStr ''code'' ext, ge_Reason = looseStr ''reason'' ext\<rparr>)"

definition envelopeErrors :: "json option \<Rightarrow> graphQLError list" where
  "envelopeErrors body = (case body of
     Some (JObj m) \<Rightarrow> (case map_of m ''errors'' of Some (JArr es) \<Rightarrow> map decodeGraphQLError es | _ \<Rightarrow> [])
   | _ \<Rightarrow> [])"

definition parseGraphQLError :: "json option \<Rightarrow> int \<Rightarrow> apiError option" where
  "parseGraphQLError body status = (case envelopeErrors body of
     [] \<Rightarrow> if status = 401 then Some \<lparr>ae_Code = [], ae_Reason = [], ae_HTTPStatus = status, ae_Errors = []\<rparr> else None
   | first # rest \<Rightarrow> Some \<lparr>ae_Code = ge_Code first, ae_Reason = ge_Reason first, ae_HTTPStatus = status,
       ae_Errors = first # rest\<rparr>)"

text \<open>\<open>decode\<close> is the unmarshalling into the result; its text is the library's and left out.\<close>

definition transport_do ::
  "'w rivianNet \<Rightarrow> endpoint \<Rightarrow> json \<Rightarrow> headers \<Rightarrow> (json \<Rightarrow> 'a option) \<Rightarrow> 'w \<Rightarrow> (rivianError + 'a) \<times> 'w" where
  "transport_do net ep body hs decode w = (case rn_Post net ep body hs w of
     (Inl e, w1) \<Rightarrow> (Inl (OtherErr (''error making request: '' @ e)), w1)
   | (Inr (status, resp), w1) \<Rightarrow>
       (case parseGraphQLError resp status of
          Some ae \<Rightarrow> (Inl (ApiErr ae), w1)
        | None \<Rightarrow>
            if status \<noteq> 200 then (Inl (ApiErr \<lparr>ae_Code = [], ae_Reason = [], ae_HTTPStatus = status, ae_Errors = []\<rparr>), w1)
            else (case Option.bind resp decode of
                None \<Rightarrow> (Inl (OtherErr ''error decoding response''), w1)
              | Some r \<Rightarrow> (Inr r, w1))))"

subsection \<open>Sessions\<close>

definition rivian_LoadCreds :: "'w rivianNet \<Rightarrow> 'w \<Rightarrow> rivianError + authData" where
  "rivian_LoadCreds net w = (case rn_ReadCreds net w of Inl e \<Rightarrow> Inl (OtherErr e)
     | Inr d \<Rightarrow> if authData_VehicleList d = [] then Inl (OtherErr ''no vehicles found in creds file'') else Inr d)"

definition rivian_SaveCreds :: "'w rivianNet \<Rightarrow> authData \<Rightarrow> 'w \<Rightarrow> rivianError option \<times> 'w" where
  "rivian_SaveCreds net d w = (case rn_WriteCreds net d w of (e, w1) \<Rightarrow> (map_option OtherErr e, w1))"

definition decodeCSRF :: "json \<Rightarrow> (string \<times> string) option" where
  "decodeCSRF j = (case j of JNull \<Rightarrow> Some ([], [])
     | JObj m \<Rightarrow> (case fieldObj ''data'' m of None \<Rightarrow> None | Some d \<Rightarrow>
         (case fieldObj ''createCsrfToken'' d of None \<Rightarrow> None | Some c \<Rightarrow>
            (case (fieldStr ''__typename'' c, fieldStr ''csrfToken'' c, fieldStr ''appSessionToken'' c) of
               (Some _, Some t, Some a) \<Rightarrow> Some (t, a) | _ \<Rightarrow> None)))
     | _ \<Rightarrow> None)"

definition mintCSRF :: "'w rivianNet \<Rightarrow> 'w \<Rightarrow> (rivianError + string \<times> string) \<times> 'w" where
  "mintCSRF net w = transport_do net Gateway
     (marshalGraphQL ''CreateCSRFToken''
        ''mutation CreateCSRFToken { createCsrfToken { __typename csrfToken appSessionToken } }'' None)
     [] decodeCSRF w"

definition refreshSession :: "'w rivianNet \<Rightarrow> string \<Rightarrow> 'w \<Rightarrow> rivianError option \<times> 'w" where
  "refreshSession net username w = (case rivian_LoadCreds net w of
     Inl e \<Rightarrow> (Some e, w)
   | Inr d \<Rightarrow> (case mintCSRF net w of
       (Inl e, w1) \<Rightarrow> (Some (WrapErr ''session refresh: create csrf token failed: '' e []), w1)
     | (Inr (csrf, app), w1) \<Rightarrow>
         (let d1 = d\<lparr>au_CSRFToken := csrf, au_AppSessionToken := app\<rparr>;
              d2 = (if username \<noteq> [] then d1\<lparr>au_Username := username\<rparr> else d1)
          in rivian_SaveCreds net d2 w1)))"

subsection \<open>The client\<close>

record 'w clientState =
  cl_data :: authData
  cl_world :: 'w

definition newClient :: "'w rivianNet \<Rightarrow> 'w \<Rightarrow> rivianError + 'w clientState" where
  "newClient net w = (case rivian_LoadCreds net w of Inl e \<Rightarrow> Inl e | Inr d \<Rightarrow> Inr \<lparr>cl_data = d, cl_world = w\<rparr>)"

definition refreshAndReload :: "'w rivianNet \<Rightarrow> 'w clientState \<Rightarrow> rivianError option \<times> 'w clientState" where
  "refreshAndReload net c = (case refreshSession net (au_Username (cl_data c)) (cl_world c) of
     (Some e, w1) \<Rightarrow> (Some e, c\<lparr>cl_world := w1\<rparr>)
   | (None, w1) \<Rightarrow> (case rivian_LoadCreds net w1 of
       Inl e \<Rightarrow> (Some e, c\<lparr>cl_world := w1\<rparr>)
     | Inr d \<Rightarrow> (None, c\<lparr>cl_data := d, cl_world := w1\<rparr>)))"

text \<open>\<open>ctxErr\<close> is the error of the context, when it is done already.\<close>

definition callWithRefresh ::
  "'w rivianNet \<Rightarrow> string option \<Rightarrow> (authData \<Rightarrow> 'w \<Rightarrow> (rivianError + 'a) \<times> 'w) \<Rightarrow> 'w clientState \<Rightarrow>
   (rivianError + 'a) \<times> 'w clientState" where
  "callWithRefresh net ctxErr fn c = (case ctxErr of Some e \<Rightarrow> (Inl (OtherErr e), c) | None \<Rightarrow>
     (case fn (cl_data c) (cl_world c) of
        (Inr r, w1) \<Rightarrow> (Inr r, c\<lparr>cl_world := w1\<rparr>)
      | (Inl err, w1) \<Rightarrow>
          if \<not> rivian_isUnauthenticated err then (Inl err, c\<lparr>cl_world := w1\<rparr>)
          else (case refreshAndReload net (c\<lparr>cl_world := w1\<rparr>) of
              (Some rerr, c2) \<Rightarrow> (Inl (WrapErr ''session refresh after UNAUTHENTICATED failed: '' rerr
                  ('' (original: '' @ rivianText err @ '')'')), c2)
            | (None, c2) \<Rightarrow> (case fn (cl_data c2) (cl_world c2) of (r, w3) \<Rightarrow> (r, c2\<lparr>cl_world := w3\<rparr>)))))"

record callEnv =
  ce_ctxErr :: "string option"
  ce_exotic :: "string \<Rightarrow> f64 option"
  ce_tokenText :: "json \<Rightarrow> string"

definition client_VehicleState ::
  "'w rivianNet \<Rightarrow> callEnv \<Rightarrow> string \<Rightarrow> 'w clientState \<Rightarrow> (rivianError + rivianState) \<times> 'w clientState" where
  "client_VehicleState net e guid c =
     (case callWithRefresh net (ce_ctxErr e)
        (\<lambda>a w. transport_do net Gateway (vehicleStateQuery guid) (gatewayHeaders (rn_UUID net w) a) decodeStateResponse w) c of
      (Inl err, c1) \<Rightarrow> (Inl err, c1)
    | (Inr raw, c1) \<Rightarrow> (Inr (rivian_flatten (ce_exotic e) raw), c1))"

definition client_LiveSession ::
  "'w rivianNet \<Rightarrow> callEnv \<Rightarrow> string \<Rightarrow> 'w clientState \<Rightarrow> (rivianError + liveSessionData option) \<times> 'w clientState" where
  "client_LiveSession net e guid c =
     (case callWithRefresh net (ce_ctxErr e)
        (\<lambda>a w. transport_do net Charging (liveSessionQuery guid) (chargingHeaders (rn_UUID net w) a)
           (decodeLiveResponse (ce_exotic e) (ce_tokenText e)) w) c of
      (Inl err, c1) \<Rightarrow> (Inl err, c1)
    | (Inr raw, c1) \<Rightarrow> (Inr (map_option (live_flatten (ce_exotic e)) raw), c1))"

subsection \<open>The source plugin\<close>

record vehicleOverride =
  vo_CarType :: string
  vo_Model :: string
  vo_DisplayName :: string

record rivianSettings =
  rt_CredsFile :: string
  rt_BaseURL :: string
  rt_Model :: string
  rt_CarType :: string
  rt_DisplayName :: string
  rt_Vehicles :: "string \<rightharpoonup> vehicleOverride"

definition rivian_applyDefaults :: "rivianSettings \<Rightarrow> rivianSettings" where
  "rivian_applyDefaults s = s\<lparr>
     rt_CredsFile := (if rt_CredsFile s = [] then ''/data/rivian.json'' else rt_CredsFile s),
     rt_BaseURL := (if rt_BaseURL s = [] then rivianBasePath else rt_BaseURL s),
     rt_Model := (if rt_Model s = [] then ''R1T'' else rt_Model s),
     rt_CarType := (if rt_CarType s = [] then ''model3'' else rt_CarType s)\<rparr>"

definition modelFromVIN :: "string \<Rightarrow> string" where
  "modelFromVIN vin =
     (if length vin < 4 \<or> take 3 vin \<notin> {''7FC'', ''7PD''} then []
      else if vin ! 3 = CHR ''T'' then ''R1T'' else if vin ! 3 = CHR ''S'' then ''R1S''
      else if vin ! 3 = CHR ''2'' then ''R2'' else [])"

definition override :: "(vehicleOverride \<Rightarrow> string) \<Rightarrow> rivianSettings \<Rightarrow> string \<Rightarrow> string" where
  "override f s vin = (case rt_Vehicles s vin of None \<Rightarrow> [] | Some ov \<Rightarrow> f ov)"

definition plugin_model :: "rivianSettings \<Rightarrow> string \<Rightarrow> string" where
  "plugin_model s vin =
     (if override vo_Model s vin \<noteq> [] then override vo_Model s vin
      else if modelFromVIN vin \<noteq> [] then modelFromVIN vin else rt_Model s)"

definition plugin_carType :: "rivianSettings \<Rightarrow> string \<Rightarrow> string" where
  "plugin_carType s vin = (if override vo_CarType s vin \<noteq> [] then override vo_CarType s vin else rt_CarType s)"

definition plugin_displayName :: "rivianSettings \<Rightarrow> rivianVehicle \<Rightarrow> string" where
  "plugin_displayName s v =
     (if override vo_DisplayName s (rvh_VIN v) \<noteq> [] then override vo_DisplayName s (rvh_VIN v)
      else if rvh_Name v \<noteq> [] then rvh_Name v
      else if rt_DisplayName s \<noteq> [] then rt_DisplayName s else ''Rivian'')"

definition plugin_Vehicles :: "rivianSettings \<Rightarrow> 'w clientState \<Rightarrow> identity list" where
  "plugin_Vehicles s c = map (\<lambda>v. \<lparr>id_ID = rvh_GUID v, id_VIN = rvh_VIN v, id_DisplayName = plugin_displayName s v,
     id_Make = ''Rivian'', id_Model = plugin_model s (rvh_VIN v)\<rparr>) (authData_VehicleList (cl_data c))"

definition pluggedIn :: "rivianState \<Rightarrow> bool" where
  "pluggedIn vs \<longleftrightarrow>
     (if rv_ChargerStatus vs = ''chrgr_sts_not_connected'' then False
      else if rv_ChargerState vs \<in> {''charging_active'', ''charging_connecting'', ''charging_ready''} then True
      else rv_ChargerStatus vs \<noteq> [] \<and> rv_ChargerStatus vs \<noteq> ''chrgr_sts_not_connected'')"

definition plugin_Poll ::
  "'w rivianNet \<Rightarrow> callEnv \<Rightarrow> gotime \<Rightarrow> string \<Rightarrow> 'w clientState \<Rightarrow> (rivianError + snapshot) \<times> 'w clientState" where
  "plugin_Poll net e now vid c = (case client_VehicleState net e vid c of
     (Inl err, c1) \<Rightarrow> (Inl err, c1)
   | (Inr vs, c1) \<Rightarrow>
       (let fin = (\<lambda>live. (toCanonical (Some vs) live)\<lparr>sn_FetchedAt := now\<rparr>) in
        if \<not> pluggedIn vs then (Inr (fin None), c1)
        else (case client_LiveSession net e vid c1 of
            (Inl lerr, c2) \<Rightarrow> if rivian_isRateLimited lerr then (Inl lerr, c2) else (Inr (fin None), c2)
          | (Inr live, c2) \<Rightarrow> (Inr (fin live), c2))))"

end
