(* ===== verification/RivianLaws.thy ===== *)
theory RivianLaws
  imports RivianSink RivianClient
begin

section \<open>What the Rivian sink serves reads back\<close>

text \<open>
  Field by field, the body the sink builds decodes to the canonical values it was built from; and the
  requests the client sends are the ones the sink's handlers know.
\<close>

subsection \<open>Times and scalars\<close>

definition wireTime :: "(gotime \<Rightarrow> int) \<Rightarrow> gotime \<Rightarrow> bool" where
  "wireTime zone t \<longleftrightarrow> t = 0 \<or> 0 < t \<and> wholeMinutes (zone t) \<and>
     0 \<le> cv_year (civilOf (t + zone t * Second)) \<and> cv_year (civilOf (t + zone t * Second)) < 10000"

lemma parseTime_tstr: "wireTime zone t \<Longrightarrow> parseTime (tstr zone t) = t"
proof (cases "t = 0")
  case False
  assume "wireTime zone t"
  then have p: "parseTimeIn (\<lambda>_. 0) rfc3339Nano (formatTime rfc3339Nano (zone t) t) = Some t"
    using False by (intro parse_format_rfc3339) (simp_all add: wireTime_def)
  moreover have "parseTimeIn (\<lambda>_. 0) rfc3339Nano [] = None"
    by (simp add: parseTimeIn_def rfc3339Nano_def dateItems_def readLongYear_def setCivil_def)
  ultimately have "formatTime rfc3339Nano (zone t) t \<noteq> []" by auto
  then show ?thesis using False p by (simp add: tstr_def parseTime_def)
qed (simp add: tstr_def parseTime_def)

lemma decodeTs_tsv [simp]: "decodeTs (tsv zone t v) = Some (Some \<lparr>ts_TimeStamp = tstr zone t, ts_Value = Some v\<rparr>)"
  by (simp add: decodeTs_def tsv_def fieldStr_def)

lemma ts_ts_wire: "wireTime zone t \<Longrightarrow> ts_ts (Some \<lparr>ts_TimeStamp = tstr zone t, ts_Value = v\<rparr>) = t"
  using parseTime_tstr [of zone t] by (auto simp: ts_ts_def parseTime_def)

lemma ts_str_wire: "to_lower s \<notin> invalidSensorStates \<Longrightarrow> ts_str (Some \<lparr>ts_TimeStamp = u, ts_Value = Some (JStr s)\<rparr>) = s"
  by (simp add: ts_str_def ts_valid_def ts_asString_def)

lemma ts_none [simp]: "ts_str None = []" "ts_f64 exotic None = fzero" "ts_ts None = 0"
  by (simp_all add: ts_str_def ts_f64_def ts_valid_def ts_ts_def)

lemma ts_f64_wire: "isFinite x \<Longrightarrow> ts_f64 exotic (Some \<lparr>ts_TimeStamp = u, ts_Value = Some (JNum x)\<rparr>) = x"
  by (simp add: ts_f64_def ts_valid_def ts_asString_def looseFloat_def)

lemma ts_i_wire: "\<bar>n\<bar> \<le> 2 ^ 53 \<Longrightarrow> ts_i exotic (Some \<lparr>ts_TimeStamp = u, ts_Value = Some (JInt n)\<rparr>) = n"
  by (simp add: ts_i_def ts_f64_def ts_valid_def ts_asString_def looseFloat_def i2f_exact in_int64_def minInt64_def
      maxInt64_def abs_le_iff)

subsection \<open>The fields of a served state\<close>

lemma stateEntries_distinct: "distinct (map fst (stateEntries zone st))"
  by (simp add: stateEntries_def Let_def)

lemma map_of_all: "distinct (map fst es) \<Longrightarrow> list_all (\<lambda>kv. map_of es (fst kv) = Some (snd kv)) es"
  by (auto simp: list_all_iff map_of_is_SomeI)

lemma stateEntries_present:
  "map_of (stateEntries zone st) ''cloudConnection'' = Some (Some (JObj [(''isOnline'', JBool (cloudOnlineWire st)),
      (''lastSync'', JStr (tstr zone (st_CloudLastSync st)))])) \<and>
   map_of (stateEntries zone st) ''gnssLocation'' = Some (map_option (\<lambda>l. JObj [(''latitude'', JNum (loc_Latitude l)),
      (''longitude'', JNum (loc_Longitude l)), (''timeStamp'', JStr (tstr zone (loc_TimeStamp l)))]) (st_Location st)) \<and>
   map_of (stateEntries zone st) ''gnssSpeed'' = Some (Some (tsv zone (st_LastUpdate st) (JNum (st_SpeedMps st)))) \<and>
   map_of (stateEntries zone st) ''gnssBearing'' = Some (Some (tsv zone (st_LastUpdate st) (JNum (st_HeadingDeg st)))) \<and>
   map_of (stateEntries zone st) ''vehicleMileage'' = Some (Some (tsv zone (st_LastUpdate st) (JInt (st_OdometerMeters st)))) \<and>
   map_of (stateEntries zone st) ''distanceToEmpty'' = Some (Some (tsv zone (st_LastUpdate st) (JInt (st_RangeKm st)))) \<and>
   map_of (stateEntries zone st) ''batteryLevel'' = Some (Some (tsv zone (st_LastUpdate st) (JNum (st_BatteryLevelPct st)))) \<and>
   map_of (stateEntries zone st) ''batteryLimit'' = Some (Some (tsv zone (st_LastUpdate st) (JNum (st_BatteryLimitPct st)))) \<and>
   map_of (stateEntries zone st) ''powerState'' = Some (if powerToWire st = [] then None else Some (tsv zone (st_LastUpdate st) (JStr (powerToWire st)))) \<and>
   map_of (stateEntries zone st) ''gearStatus'' = Some (if gearToWire (st_Gear st) = [] then None else Some (tsv zone (st_LastUpdate st) (JStr (gearToWire (st_Gear st))))) \<and>
   map_of (stateEntries zone st) ''chargerState'' = Some (if chargerToWire (st_Charger st) = [] then None else Some (tsv zone (st_LastUpdate st) (JStr (chargerToWire (st_Charger st))))) \<and>
   map_of (stateEntries zone st) ''chargerStatus'' = Some (if plugToWire (st_Plug st) = [] then None else Some (tsv zone (st_LastUpdate st) (JStr (plugToWire (st_Plug st))))) \<and>
   map_of (stateEntries zone st) ''chargePortState'' = Some (if chargePortToWire (st_ChargePortOpen st) = [] then None else Some (tsv zone (st_LastUpdate st) (JStr (chargePortToWire (st_ChargePortOpen st))))) \<and>
   map_of (stateEntries zone st) ''timeToEndOfCharge'' = Some (Some (tsv zone (st_LastUpdate st) (JInt (st_TimeToEndOfChargeMin st)))) \<and>
   map_of (stateEntries zone st) ''cabinClimateInteriorTemperature'' = Some (Some (tsv zone (st_LastUpdate st) (JNum (st_CabinTempC st)))) \<and>
   map_of (stateEntries zone st) ''cabinClimateDriverTemperature'' = Some (Some (tsv zone (st_LastUpdate st) (JNum (st_DriverSetpointC st)))) \<and>
   map_of (stateEntries zone st) ''cabinPreconditioningStatus'' = Some (if st_PreconditioningStatus st = [] then None else Some (tsv zone (st_LastUpdate st) (JStr (st_PreconditioningStatus st)))) \<and>
   map_of (stateEntries zone st) ''defrostDefogStatus'' = Some (if st_DefrostStatus st = [] then None else Some (tsv zone (st_LastUpdate st) (JStr (st_DefrostStatus st)))) \<and>
   map_of (stateEntries zone st) ''seatFrontLeftHeat'' = Some (if st_SeatHeatFrontLeft st = [] then None else Some (tsv zone (st_LastUpdate st) (JStr (st_SeatHeatFrontLeft st)))) \<and>
   map_of (stateEntries zone st) ''seatFrontRightHeat'' = Some (if st_SeatHeatFrontRight st = [] then None else Some (tsv zone (st_LastUpdate st) (JStr (st_SeatHeatFrontRight st)))) \<and>
   map_of (stateEntries zone st) ''seatRearLeftHeat'' = Some (if st_SeatHeatRearLeft st = [] then None else Some (tsv zone (st_LastUpdate st) (JStr (st_SeatHeatRearLeft st)))) \<and>
   map_of (stateEntries zone st) ''seatRearRightHeat'' = Some (if st_SeatHeatRearRight st = [] then None else Some (tsv zone (st_LastUpdate st) (JStr (st_SeatHeatRearRight st)))) \<and>
   map_of (stateEntries zone st) ''steeringWheelHeat'' = Some (if st_SteeringWheelHeat st = [] then None else Some (tsv zone (st_LastUpdate st) (JStr (st_SteeringWheelHeat st)))) \<and>
   map_of (stateEntries zone st) ''gearGuardVideoStatus'' = Some (if st_GearGuardStatus st = [] then None else Some (tsv zone (st_LastUpdate st) (JStr (st_GearGuardStatus st)))) \<and>
   map_of (stateEntries zone st) ''tirePressureStatusFrontLeft'' = Some (if st_TpmsFrontLeft st = [] then None else Some (tsv zone (st_LastUpdate st) (JStr (st_TpmsFrontLeft st)))) \<and>
   map_of (stateEntries zone st) ''tirePressureStatusFrontRight'' = Some (if st_TpmsFrontRight st = [] then None else Some (tsv zone (st_LastUpdate st) (JStr (st_TpmsFrontRight st)))) \<and>
   map_of (stateEntries zone st) ''tirePressureStatusRearLeft'' = Some (if st_TpmsRearLeft st = [] then None else Some (tsv zone (st_LastUpdate st) (JStr (st_TpmsRearLeft st)))) \<and>
   map_of (stateEntries zone st) ''tirePressureStatusRearRight'' = Some (if st_TpmsRearRight st = [] then None else Some (tsv zone (st_LastUpdate st) (JStr (st_TpmsRearRight st)))) \<and>
   map_of (stateEntries zone st) ''doorFrontLeftLocked'' = Some (if st_DoorFrontLeftLocked st = [] then None else Some (tsv zone (st_LastUpdate st) (JStr (st_DoorFrontLeftLocked st)))) \<and>
   map_of (stateEntries zone st) ''doorFrontLeftClosed'' = Some (if st_DoorFrontLeftClosed st = [] then None else Some (tsv zone (st_LastUpdate st) (JStr (st_DoorFrontLeftClosed st)))) \<and>
   map_of (stateEntries zone st) ''doorFrontRightLocked'' = Some (if st_DoorFrontRightLocked st = [] then None else Some (tsv zone (st_LastUpdate st) (JStr (st_DoorFrontRightLocked st)))) \<and>
   map_of (stateEntries zone st) ''doorFrontRightClosed'' = Some (if st_DoorFrontRightClosed st = [] then None else Some (tsv zone (st_LastUpdate st) (JStr (st_DoorFrontRightClosed st)))) \<and>
   map_of (stateEntries zone st) ''doorRearLeftLocked'' = Some (if st_DoorRearLeftLocked st = [] then None else Some (tsv zone (st_LastUpdate st) (JStr (st_DoorRearLeftLocked st)))) \<and>
   map_of (stateEntries zone st) ''doorRearLeftClosed'' = Some (if st_DoorRearLeftClosed st = [] then None else Some (tsv zone (st_LastUpdate st) (JStr (st_DoorRearLeftClosed st)))) \<and>
   map_of (stateEntries zone st) ''doorRearRightLocked'' = Some (if st_DoorRearRightLocked st = [] then None else Some (tsv zone (st_LastUpdate st) (JStr (st_DoorRearRightLocked st)))) \<and>
   map_of (stateEntries zone st) ''doorRearRightClosed'' = Some (if st_DoorRearRightClosed st = [] then None else Some (tsv zone (st_LastUpdate st) (JStr (st_DoorRearRightClosed st)))) \<and>
   map_of (stateEntries zone st) ''windowFrontLeftClosed'' = Some (if st_WindowFrontLeftClosed st = [] then None else Some (tsv zone (st_LastUpdate st) (JStr (st_WindowFrontLeftClosed st)))) \<and>
   map_of (stateEntries zone st) ''windowFrontRightClosed'' = Some (if st_WindowFrontRightClosed st = [] then None else Some (tsv zone (st_LastUpdate st) (JStr (st_WindowFrontRightClosed st)))) \<and>
   map_of (stateEntries zone st) ''windowRearLeftClosed'' = Some (if st_WindowRearLeftClosed st = [] then None else Some (tsv zone (st_LastUpdate st) (JStr (st_WindowRearLeftClosed st)))) \<and>
   map_of (stateEntries zone st) ''windowRearRightClosed'' = Some (if st_WindowRearRightClosed st = [] then None else Some (tsv zone (st_LastUpdate st) (JStr (st_WindowRearRightClosed st)))) \<and>
   map_of (stateEntries zone st) ''closureFrunkClosed'' = Some (if st_FrunkClosed st = [] then None else Some (tsv zone (st_LastUpdate st) (JStr (st_FrunkClosed st)))) \<and>
   map_of (stateEntries zone st) ''closureLiftgateClosed'' = Some (if st_LiftgateClosed st = [] then None else Some (tsv zone (st_LastUpdate st) (JStr (st_LiftgateClosed st)))) \<and>
   map_of (stateEntries zone st) ''closureTonneauClosed'' = Some (if st_TonneauClosed st = [] then None else Some (tsv zone (st_LastUpdate st) (JStr (st_TonneauClosed st)))) \<and>
   map_of (stateEntries zone st) ''closureTailgateClosed'' = Some (if st_TailgateClosed st = [] then None else Some (tsv zone (st_LastUpdate st) (JStr (st_TailgateClosed st)))) \<and>
   map_of (stateEntries zone st) ''otaCurrentVersion'' = Some (if st_OtaVersion st = [] then None else Some (tsv zone (st_LastUpdate st) (JStr (st_OtaVersion st)))) \<and>
   map_of (stateEntries zone st) ''otaAvailableVersion'' = Some (if st_OtaAvailableVersion st = [] then None else Some (tsv zone (st_LastUpdate st) (JStr (st_OtaAvailableVersion st)))) \<and>
   map_of (stateEntries zone st) ''otaStatus'' = Some (if st_OtaStatus st = [] then None else Some (tsv zone (st_LastUpdate st) (JStr (st_OtaStatus st)))) \<and>
   map_of (stateEntries zone st) ''otaInstallProgress'' = Some (Some (tsv zone (st_LastUpdate st) (JNum (st_OtaInstallProgress st)))) \<and>
   map_of (stateEntries zone st) ''otaDownloadProgress'' = Some (Some (tsv zone (st_LastUpdate st) (JInt (st_OtaDownloadProgress st))))"
proof -
  define E where "E = stateEntries zone st"
  have nil: "\<And>P. list_all P ([] :: (string \<times> json option) list) = True" by simp
  have "list_all (\<lambda>kv. map_of E (fst kv) = Some (snd kv)) (stateEntries zone st)"
    unfolding E_def by (rule map_of_all [OF stateEntries_distinct])
  from this [unfolded stateEntries_def Let_def list.pred_inject(2) nil fst_conv snd_conv simp_thms]
  show ?thesis unfolding E_def .
qed

lemma stateEntries_absent:
  shows "map_of (stateEntries zone st) ''gnssAltitude'' = None"
    and "map_of (stateEntries zone st) ''batteryCapacity'' = None"
    and "map_of (stateEntries zone st) ''driveMode'' = None"
    and "map_of (stateEntries zone st) ''closureFrunkLocked'' = None"
    and "map_of (stateEntries zone st) ''closureLiftgateLocked'' = None"
    and "map_of (stateEntries zone st) ''closureTonneauLocked'' = None"
    and "map_of (stateEntries zone st) ''closureTailgateLocked'' = None"
    and "map_of (stateEntries zone st) ''gearGuardLocked'' = None"
  by (simp_all add: stateEntries_def Let_def)

definition readTs :: "json option \<Rightarrow> tsValue option" where
  "readTs v = (case v of None \<Rightarrow> None | Some j \<Rightarrow> the (decodeTs j))"

definition wireField :: "(gotime \<Rightarrow> int) \<Rightarrow> state \<Rightarrow> string \<Rightarrow> tsValue option" where
  "wireField zone st k = (case map_of (stateEntries zone st) k of Some v \<Rightarrow> readTs v | None \<Rightarrow> None)"

definition isTs :: "(gotime \<Rightarrow> int) \<Rightarrow> gotime \<Rightarrow> json option \<Rightarrow> bool" where
  "isTs zone t v \<longleftrightarrow> v = None \<or> (\<exists>x. v = Some (tsv zone t x))"

lemma isTs_entry: "isTs zone t (Some (tsv zone t x))" "isTs zone t (if b then None else Some (tsv zone t x))"
  by (auto simp: isTs_def)

lemma stateEntries_split:
  "\<exists>c g es. stateEntries zone st = (''cloudConnection'', c) # (''gnssLocation'', g) # es \<and>
     list_all (\<lambda>kv. isTs zone (st_LastUpdate st) (snd kv)) es"
  unfolding stateEntries_def Let_def
  by (intro exI conjI, rule refl) (simp only: list.pred_inject snd_conv isTs_entry simp_thms)

lemma stateEntries_tsv:
  assumes "map_of (stateEntries zone st) k = Some v" "k \<noteq> ''cloudConnection''" "k \<noteq> ''gnssLocation''"
  shows "v = None \<or> (\<exists>x. v = Some (tsv zone (st_LastUpdate st) x))"
proof -
  have "(k, v) \<in> set (stateEntries zone st)" using assms(1) by (rule map_of_SomeD)
  moreover obtain c g es where "stateEntries zone st = (''cloudConnection'', c) # (''gnssLocation'', g) # es"
    and es: "\<And>kv. kv \<in> set es \<Longrightarrow> isTs zone (st_LastUpdate st) (snd kv)"
    using stateEntries_split [of zone st] by (auto simp: list_all_iff)
  ultimately have "(k, v) \<in> set es" using assms(2,3) by simp
  from es [OF this] show ?thesis by (simp add: isTs_def)
qed

lemma decodeField_served:
  assumes "k \<noteq> ''cloudConnection''" "k \<noteq> ''gnssLocation''"
  shows "decodeField (present (stateEntries zone st)) k = Some (wireField zone st k)"
proof (cases "map_of (stateEntries zone st) k")
  case None
  then show ?thesis by (simp add: decodeField_def wireField_def map_of_present stateEntries_distinct)
next
  case (Some v)
  then have "v = None \<or> (\<exists>x. v = Some (tsv zone (st_LastUpdate st) x))"
    using assms by (intro stateEntries_tsv)
  then show ?thesis using Some
    by (auto simp: decodeField_def wireField_def readTs_def map_of_present stateEntries_distinct)
qed

lemma readTs_value:
  "to_lower s \<notin> invalidSensorStates \<Longrightarrow> ts_str (readTs (if s = [] then None else Some (tsv zone t (JStr s)))) = s"
  "isFinite x \<Longrightarrow> ts_f64 exotic (readTs (Some (tsv zone t (JNum x)))) = x"
  "\<bar>n\<bar> \<le> 2 ^ 53 \<Longrightarrow> ts_i exotic (readTs (Some (tsv zone t (JInt n)))) = n"
  by (simp_all add: readTs_def ts_str_wire ts_f64_wire ts_i_wire)

lemma wireField_ts:
  assumes "wireTime zone (st_LastUpdate st)" "k \<noteq> ''cloudConnection''" "k \<noteq> ''gnssLocation''"
  shows "ts_ts (wireField zone st k) \<in> {0, st_LastUpdate st}"
proof (cases "map_of (stateEntries zone st) k")
  case (Some v)
  then have "v = None \<or> (\<exists>x. v = Some (tsv zone (st_LastUpdate st) x))"
    using assms by (intro stateEntries_tsv)
  then show ?thesis using Some assms by (auto simp: wireField_def readTs_def ts_ts_wire)
qed (simp add: wireField_def)

definition rawServed :: "(gotime \<Rightarrow> int) \<Rightarrow> state \<Rightarrow> rawVehicleState" where
  "rawServed zone st = \<lparr>rw_CloudConnection = Some (cloudOnlineWire st, tstr zone (st_CloudLastSync st)),
     rw_GnssLocation = map_option (\<lambda>l. (loc_Latitude l, loc_Longitude l, tstr zone (loc_TimeStamp l))) (st_Location st),
     rw_Fields = (\<lambda>k. case decodeField (present (stateEntries zone st)) k of Some x \<Rightarrow> x | None \<Rightarrow> None)\<rparr>"

definition finiteLocation :: "state \<Rightarrow> bool" where
  "finiteLocation st = (case st_Location st of None \<Rightarrow> True
     | Some l \<Rightarrow> isFinite (loc_Latitude l) \<and> isFinite (loc_Longitude l))"

lemma decode_served:
  assumes "finiteLocation st"
  shows "decodeStateResponse (vehicleStateBody zone (Some st)) = Some (Some (rawServed zone st))"
proof -
  have keys: "list_all (\<lambda>k. k \<noteq> ''cloudConnection'' \<and> k \<noteq> ''gnssLocation'') stateKeys"
    by (simp add: stateKeys_def)
  then have "\<not> list_ex (\<lambda>k. decodeField (present (stateEntries zone st)) k = None) stateKeys"
    by (auto simp: list_ex_iff list_all_iff decodeField_served)
  moreover have "decodeCloud (present (stateEntries zone st)) = Some (Some (cloudOnlineWire st, tstr zone (st_CloudLastSync st)))"
    by (simp add: decodeCloud_def fieldPtr_def map_of_present stateEntries_distinct stateEntries_present fieldBool_def fieldStr_def)
  moreover have "decodeGnss (present (stateEntries zone st)) =
      Some (map_option (\<lambda>l. (loc_Latitude l, loc_Longitude l, tstr zone (loc_TimeStamp l))) (st_Location st))"
    using assms by (auto simp: decodeGnss_def fieldPtr_def map_of_present stateEntries_distinct stateEntries_present
        fieldFloat_def fieldStr_def finiteLocation_def split: option.splits)
  ultimately show ?thesis
    by (simp add: decodeStateResponse_def decodeEnvelope_def vehicleStateBody_def nested_def fieldObj_def fieldPtr_def
        decodeRawState_def rawServed_def)
qed

text \<open>What a state becomes on the way over the wire and back.\<close>

definition rivianServed :: "state \<Rightarrow> state" where
  "rivianServed st = st\<lparr>
     st_Power := (if st_Power st = PowerUnknown then PowerOffline else st_Power st),
     st_UserPresent := (st_Power st = PowerOnline \<and> st_UserPresent st),
     st_CloudOnline := cloudOnlineWire st,
     st_LastUpdate := max (st_LastUpdate st) (case st_Location st of None \<Rightarrow> 0 | Some l \<Rightarrow> loc_TimeStamp l),
     st_DrivePowerKw := None,
     st_Charger := (if st_Charger st = ChargerUnknown then ChargerDisconnect else st_Charger st),
     st_Plug := (if st_Plug st = PlugUnknown \<and> st_Charger st \<in> {ChargerCharging, ChargerIdle} then PlugConnected
       else st_Plug st),
     st_ChargerVoltageV := 0,
     st_BatteryHeaterOn := False,
     st_OutsideTempC := fzero,
     st_CarType := [],
     st_TrimBadging := [],
     st_TpmsPressureFlBar := fzero,
     st_TpmsPressureFrBar := fzero,
     st_TpmsPressureRlBar := fzero,
     st_TpmsPressureRrBar := fzero\<rparr>"

definition wireStrings :: "state \<Rightarrow> string list" where
  "wireStrings st = [st_PreconditioningStatus st, st_DefrostStatus st, st_SeatHeatFrontLeft st, st_SeatHeatFrontRight st,
     st_SeatHeatRearLeft st, st_SeatHeatRearRight st, st_SteeringWheelHeat st, st_GearGuardStatus st,
     st_TpmsFrontLeft st, st_TpmsFrontRight st, st_TpmsRearLeft st, st_TpmsRearRight st,
     st_DoorFrontLeftLocked st, st_DoorFrontLeftClosed st, st_DoorFrontRightLocked st, st_DoorFrontRightClosed st,
     st_DoorRearLeftLocked st, st_DoorRearLeftClosed st, st_DoorRearRightLocked st, st_DoorRearRightClosed st,
     st_WindowFrontLeftClosed st, st_WindowFrontRightClosed st, st_WindowRearLeftClosed st, st_WindowRearRightClosed st,
     st_FrunkClosed st, st_LiftgateClosed st, st_TonneauClosed st, st_TailgateClosed st,
     st_OtaVersion st, st_OtaAvailableVersion st, st_OtaStatus st]"

definition wireNumbers :: "state \<Rightarrow> f64 list" where
  "wireNumbers st = [st_SpeedMps st, st_HeadingDeg st, st_BatteryLevelPct st, st_BatteryLimitPct st,
     st_CabinTempC st, st_DriverSetpointC st, st_OtaInstallProgress st]"

definition wireCounts :: "state \<Rightarrow> int list" where
  "wireCounts st = [st_OdometerMeters st, st_RangeKm st, st_TimeToEndOfChargeMin st, st_OtaDownloadProgress st]"

definition rivianRepresentable :: "(gotime \<Rightarrow> int) \<Rightarrow> state \<Rightarrow> bool" where
  "rivianRepresentable zone st \<longleftrightarrow>
     list_all (\<lambda>s. to_lower s \<notin> invalidSensorStates) (wireStrings st) \<and>
     list_all isFinite (wireNumbers st) \<and> finiteLocation st \<and>
     list_all (\<lambda>n. \<bar>n\<bar> \<le> 2 ^ 53) (wireCounts st) \<and>
     wireTime zone (st_LastUpdate st) \<and> wireTime zone (st_CloudLastSync st) \<and>
     (case st_Location st of None \<Rightarrow> True | Some l \<Rightarrow> wireTime zone (loc_TimeStamp l))"

lemma wire_enums:
  "powerToCanonical (powerToWire st) (cloudOnlineWire st) =
     (if st_Power st = PowerUnknown then PowerOffline else st_Power st)"
  "powerToWire st = ''go'' \<longleftrightarrow> st_Power st = PowerOnline \<and> st_UserPresent st"
  "gearToCanonical (gearToWire g) = g"
  "chargerToCanonical (chargerToWire c) = (if c = ChargerUnknown then ChargerDisconnect else c)"
  "plugToCanonical (chargerToWire c) (plugToWire p) =
     (if p = PlugUnknown \<and> c \<in> {ChargerCharging, ChargerIdle} then PlugConnected else p)"
  "chargePortToWire b = ''open'' \<longleftrightarrow> b"
  subgoal by (cases "st_Power st") (simp_all add: powerToCanonical_def powerToWire_def cloudOnlineWire_def)
  subgoal by (cases "st_Power st") (simp_all add: powerToWire_def)
  subgoal by (cases g) (simp_all add: gearToCanonical_def)
  subgoal by (cases c) (simp_all add: chargerToCanonical_def chargerToWire_def)
  subgoal by (cases p; cases c) (simp_all add: plugToCanonical_def chargerToWire_def)
  subgoal by (simp add: chargePortToWire_def)
  done

lemma wire_words:
  "to_lower (powerToWire st) \<notin> invalidSensorStates"
  "to_lower (gearToWire g) \<notin> invalidSensorStates"
  "to_lower (chargerToWire c) \<notin> invalidSensorStates"
  "to_lower (plugToWire p) \<notin> invalidSensorStates"
  "to_lower (chargePortToWire b) \<notin> invalidSensorStates"
  unfolding invalidSensorStates_def to_lower_def
  subgoal by (cases "st_Power st") (simp_all add: powerToWire_def to_lower_char_def)
  subgoal by (cases g) (simp_all add: to_lower_char_def)
  subgoal by (cases c) (simp_all add: chargerToWire_def to_lower_char_def)
  subgoal by (cases p) (simp_all add: to_lower_char_def)
  subgoal by (cases b) (simp_all add: chargePortToWire_def to_lower_char_def)
  done

lemma later_max: "later t u = max t u"
  by (simp add: later_def max_def)

lemma fold_later:
  assumes "\<forall>k \<in> set ks. f k = t \<or> f k = 0" "0 \<le> t" "0 \<le> s"
  shows "fold (\<lambda>k. later (f k)) ks s = (if \<exists>k \<in> set ks. f k = t then max t s else s)"
  using assms by (induction ks arbitrary: s) (auto simp: later_max max_def)

lemma flatten_LastUpdate:
  assumes "rivianRepresentable zone st"
  shows "fold (\<lambda>k. later (ts_ts (wireField zone st k))) trackedFields
      (case st_Location st of None \<Rightarrow> 0 | Some l \<Rightarrow> later (parseTime (tstr zone (loc_TimeStamp l))) 0) =
    st_LastUpdate (rivianServed st)"
proof -
  let ?t = "st_LastUpdate st" and ?loc = "case st_Location st of None \<Rightarrow> 0 | Some l \<Rightarrow> loc_TimeStamp l"
  have w: "wireTime zone ?t" using assms by (simp add: rivianRepresentable_def)
  have l: "(case st_Location st of None \<Rightarrow> 0 | Some l \<Rightarrow> later (parseTime (tstr zone (loc_TimeStamp l))) 0) = ?loc" "0 \<le> ?loc"
    using assms by (auto simp: rivianRepresentable_def parseTime_tstr later_max wireTime_def split: option.splits)
  have "list_all (\<lambda>k. k \<noteq> ''cloudConnection'' \<and> k \<noteq> ''gnssLocation'') trackedFields"
    by (simp add: trackedFields_def)
  then have "\<forall>k \<in> set trackedFields. ts_ts (wireField zone st k) = ?t \<or> ts_ts (wireField zone st k) = 0"
    using wireField_ts [OF w] by (auto simp: list_all_iff)
  moreover have "ts_ts (wireField zone st ''gnssSpeed'') = ?t"
    using w by (simp add: wireField_def readTs_def stateEntries_present ts_ts_wire)
  moreover have "''gnssSpeed'' \<in> set trackedFields" by (simp add: trackedFields_def)
  moreover have "0 \<le> ?t" using w by (auto simp: wireTime_def)
  ultimately show ?thesis
    unfolding l(1) by (subst fold_later) (auto simp: rivianServed_def l(2))
qed

lemma rawServed_field:
  "k \<noteq> ''cloudConnection'' \<Longrightarrow> k \<noteq> ''gnssLocation'' \<Longrightarrow> rw_Fields (rawServed zone st) k = wireField zone st k"
  by (simp add: rawServed_def decodeField_served)

lemma rawServed_fields:
  "list_all (\<lambda>k. rw_Fields (rawServed zone st) k = wireField zone st k) stateKeys"
proof -
  have "list_all (\<lambda>k. k \<noteq> ''cloudConnection'' \<and> k \<noteq> ''gnssLocation'') stateKeys"
    by (simp add: stateKeys_def)
  then show ?thesis by (auto simp: list_all_iff rawServed_field)
qed

lemma rawServed_sel [simp]:
  "rw_CloudConnection (rawServed zone st) = Some (cloudOnlineWire st, tstr zone (st_CloudLastSync st))"
  "rw_GnssLocation (rawServed zone st) =
     map_option (\<lambda>l. (loc_Latitude l, loc_Longitude l, tstr zone (loc_TimeStamp l))) (st_Location st)"
  by (simp_all add: rawServed_def)

lemma representable_strings:
  assumes "rivianRepresentable zone st"
  shows "list_all (\<lambda>s. to_lower s \<notin> invalidSensorStates) (wireStrings st)" "list_all isFinite (wireNumbers st)"
    "list_all (\<lambda>n. \<bar>n\<bar> \<le> 2 ^ 53) (wireCounts st)"
  using assms by (simp_all add: rivianRepresentable_def)

lemma location_same:
  "map_option (\<lambda>l. \<lparr>loc_Latitude = loc_Latitude l, loc_Longitude = loc_Longitude l, loc_TimeStamp = loc_TimeStamp l\<rparr>) loc = loc"
  by (cases loc) simp_all

lemma rivian_state_roundtrip:
  assumes R: "rivianRepresentable zone st"
  shows "stateToCanonical (rivian_flatten exotic (Some (rawServed zone st))) = rivianServed st"
proof -
  note strs = representable_strings(1) [OF R, unfolded wireStrings_def list.pred_inject(2)]
  note nums = representable_strings(2) [OF R, unfolded wireNumbers_def list.pred_inject(2)]
  note ints = representable_strings(3) [OF R, unfolded wireCounts_def list.pred_inject(2)]
  note fields = rawServed_fields [of zone st, unfolded stateKeys_def list.pred_inject(2)]
  have upd: "fold (\<lambda>k. later (ts_ts (rw_Fields (rawServed zone st) k))) trackedFields s =
      fold (\<lambda>k. later (ts_ts (wireField zone st k))) trackedFields s" for s
  proof (rule fold_cong [OF refl refl])
    fix k assume "k \<in> set trackedFields"
    moreover have "list_all (\<lambda>k. k \<noteq> ''cloudConnection'' \<and> k \<noteq> ''gnssLocation'') trackedFields"
      by (simp add: trackedFields_def)
    ultimately show "later (ts_ts (rw_Fields (rawServed zone st) k)) = later (ts_ts (wireField zone st k))"
      by (auto simp: list_all_iff rawServed_field)
  qed
  have sync: "parseTime (tstr zone (st_CloudLastSync st)) = st_CloudLastSync st"
    using R by (simp add: rivianRepresentable_def parseTime_tstr)
  define upd' where "upd' = fold (\<lambda>k. later (ts_ts (rw_Fields (rawServed zone st) k))) trackedFields
      (case st_Location st of None \<Rightarrow> 0 | Some l \<Rightarrow> later (parseTime (tstr zone (loc_TimeStamp l))) 0)"
  have lu: "upd' = st_LastUpdate (rivianServed st)"
    unfolding upd'_def upd by (rule flatten_LastUpdate [OF R])
  have loc: "map_option (\<lambda>(lat, lon, ts). \<lparr>gl_Latitude = lat, gl_Longitude = lon, gl_TimeStamp = parseTime ts\<rparr>)
      (map_option (\<lambda>l. (loc_Latitude l, loc_Longitude l, tstr zone (loc_TimeStamp l))) (st_Location st)) =
    map_option (\<lambda>l. \<lparr>gl_Latitude = loc_Latitude l, gl_Longitude = loc_Longitude l, gl_TimeStamp = loc_TimeStamp l\<rparr>) (st_Location st)"
    using R by (cases "st_Location st") (simp_all add: rivianRepresentable_def parseTime_tstr)
  have start: "(case map_option (\<lambda>l. \<lparr>gl_Latitude = loc_Latitude l, gl_Longitude = loc_Longitude l,
        gl_TimeStamp = loc_TimeStamp l\<rparr>) (st_Location st) of None \<Rightarrow> 0 | Some l \<Rightarrow> later (gl_TimeStamp l) 0) =
      (case st_Location st of None \<Rightarrow> 0 | Some l \<Rightarrow> later (parseTime (tstr zone (loc_TimeStamp l))) 0)"
    using R by (cases "st_Location st") (simp_all add: rivianRepresentable_def parseTime_tstr)
  have F: "rivian_flatten exotic (Some (rawServed zone st)) =
      \<lparr>rv_CloudConnectionOnline = cloudOnlineWire st,
       rv_CloudLastSync = st_CloudLastSync st,
       rv_Location = map_option (\<lambda>l. \<lparr>gl_Latitude = loc_Latitude l, gl_Longitude = loc_Longitude l, gl_TimeStamp = loc_TimeStamp l\<rparr>) (st_Location st),
       rv_GnssSpeed = st_SpeedMps st,
       rv_GnssBearing = st_HeadingDeg st,
       rv_GnssAltitude = fzero,
       rv_VehicleMileage = st_OdometerMeters st,
       rv_DistanceToEmpty = st_RangeKm st,
       rv_BatteryLevel = st_BatteryLevelPct st,
       rv_BatteryLimit = st_BatteryLimitPct st,
       rv_BatteryCapacity = fzero,
       rv_PowerState = powerToWire st,
       rv_GearStatus = gearToWire (st_Gear st),
       rv_DriveMode = [],
       rv_ChargerState = chargerToWire (st_Charger st),
       rv_ChargerStatus = plugToWire (st_Plug st),
       rv_ChargePortState = chargePortToWire (st_ChargePortOpen st),
       rv_TimeToEndOfCharge = st_TimeToEndOfChargeMin st,
       rv_CabinInteriorTemp = st_CabinTempC st,
       rv_SeatFrontLeftHeat = st_SeatHeatFrontLeft st,
       rv_SeatFrontRightHeat = st_SeatHeatFrontRight st,
       rv_SeatRearLeftHeat = st_SeatHeatRearLeft st,
       rv_SeatRearRightHeat = st_SeatHeatRearRight st,
       rv_SteeringWheelHeat = st_SteeringWheelHeat st,
       rv_CabinPreconditioningStatus = st_PreconditioningStatus st,
       rv_CabinClimateDriverTemperature = st_DriverSetpointC st,
       rv_DefrostDefogStatus = st_DefrostStatus st,
       rv_GearGuardVideoStatus = st_GearGuardStatus st,
       rv_TirePressureStatusFrontLeft = st_TpmsFrontLeft st,
       rv_TirePressureStatusFrontRight = st_TpmsFrontRight st,
       rv_TirePressureStatusRearLeft = st_TpmsRearLeft st,
       rv_TirePressureStatusRearRight = st_TpmsRearRight st,
       rv_DoorFrontLeftLocked = st_DoorFrontLeftLocked st,
       rv_DoorFrontRightLocked = st_DoorFrontRightLocked st,
       rv_DoorRearLeftLocked = st_DoorRearLeftLocked st,
       rv_DoorRearRightLocked = st_DoorRearRightLocked st,
       rv_GearGuardLocked = [],
       rv_DoorFrontLeftClosed = st_DoorFrontLeftClosed st,
       rv_DoorFrontRightClosed = st_DoorFrontRightClosed st,
       rv_DoorRearLeftClosed = st_DoorRearLeftClosed st,
       rv_DoorRearRightClosed = st_DoorRearRightClosed st,
       rv_WindowFrontLeftClosed = st_WindowFrontLeftClosed st,
       rv_WindowFrontRightClosed = st_WindowFrontRightClosed st,
       rv_WindowRearLeftClosed = st_WindowRearLeftClosed st,
       rv_WindowRearRightClosed = st_WindowRearRightClosed st,
       rv_ClosureFrunkClosed = st_FrunkClosed st,
       rv_ClosureLiftgateClosed = st_LiftgateClosed st,
       rv_ClosureTonneauClosed = st_TonneauClosed st,
       rv_ClosureTailgateClosed = st_TailgateClosed st,
       rv_OtaCurrentVersion = st_OtaVersion st,
       rv_OtaAvailableVersion = st_OtaAvailableVersion st,
       rv_OtaStatus = st_OtaStatus st,
       rv_OtaInstallProgress = st_OtaInstallProgress st,
       rv_OtaDownloadProgress = st_OtaDownloadProgress st,
       rv_LastUpdate = st_LastUpdate (rivianServed st)\<rparr>"
    unfolding rivian_flatten_def Let_def option.case rawServed_sel loc start upd'_def [symmetric] lu
    using strs nums ints
    by (simp add: fields wireField_def stateEntries_present stateEntries_absent readTs_value wire_words sync)
  show ?thesis
    unfolding stateToCanonical_def F rivianState.select_convs wire_enums
    by (rule state.equality) (simp_all add: rivianServed_def option.map_comp o_def location_same)
qed

subsection \<open>The live session\<close>

definition finiteLive :: "liveSession \<Rightarrow> bool" where
  "finiteLive ls \<longleftrightarrow> isFinite (ls_PowerKw ls) \<and> isFinite (ls_CurrentA ls) \<and> isFinite (ls_TotalChargedEnergy ls) \<and>
     \<bar>ls_TimeRemainingSec ls\<bar> \<le> 2 ^ 53"

lemma decodeVr_vrv:
  "map_of m k = Some (vrv zone t v) \<Longrightarrow> decodeVr k m = Some (Some \<lparr>vr_Value = Some v, vr_UpdatedAt = tstr zone t\<rparr>)"
  by (simp add: decodeVr_def fieldPtr_def vrv_def fieldStr_def)

lemma decodeVr_none: "map_of m k = None \<Longrightarrow> decodeVr k m = Some None"
  by (simp add: decodeVr_def fieldPtr_def)

lemma vr_wire:
  "isFinite x \<Longrightarrow> vr_f64 exotic (Some \<lparr>vr_Value = Some (JNum x), vr_UpdatedAt = u\<rparr>) = x"
  "\<bar>n\<bar> \<le> 2 ^ 53 \<Longrightarrow> vr_i exotic (Some \<lparr>vr_Value = Some (JInt n), vr_UpdatedAt = u\<rparr>) = n"
  by (simp_all add: vr_f64_def vr_i_def vr_valid_def looseFloat_def i2f_exact in_int64_def minInt64_def maxInt64_def
      abs_le_iff)

lemma rivian_live_roundtrip:
  assumes "\<forall>ls. live = Some ls \<longrightarrow> finiteLive ls"
  shows "map_option (\<lambda>raw. liveToCanonical (map_option (live_flatten exotic) raw))
      (decodeLiveResponse exotic tokenText (liveSessionBody zone live now)) =
    Some (map_option (\<lambda>ls. ls\<lparr>ls_FastCharger := False\<rparr>) live)"
proof (cases live)
  case None
  then show ?thesis
    by (simp add: decodeLiveResponse_def decodeEnvelope_def liveSessionBody_def nested_def fieldObj_def fieldPtr_def
        liveToCanonical_def)
next
  case (Some ls)
  then have "finiteLive ls" using assms by simp
  then show ?thesis using Some
    by (cases ls) (simp add: decodeLiveResponse_def decodeEnvelope_def liveSessionBody_def nested_def fieldObj_def
        fieldPtr_def [of "''getLiveSessionData''"] liveToCanonical_def decodeRawLive_def decodeVr_vrv decodeVr_none
        fieldStr_def decodeFlex_def live_flatten_def vr_wire finiteLive_def zeroLive_def)
qed

subsection \<open>Bodies that can be encoded\<close>

lemma encodable_wire [simp]:
  "encodable (tsv zone t v) \<longleftrightarrow> encodable v" "encodable (vrv zone t v) \<longleftrightarrow> encodable v"
  "encodable (nested j k) \<longleftrightarrow> encodable j" "encodable (gqlError c m)"
  by (simp_all add: tsv_def vrv_def nested_def gqlError_def)

definition entryOk :: "json option \<Rightarrow> bool" where
  "entryOk v = (case v of None \<Rightarrow> True | Some j \<Rightarrow> encodable j)"

lemma entryOk_simps:
  "entryOk (Some j) \<longleftrightarrow> encodable j" "entryOk (if b then None else Some (tsv zone t (JStr s)))"
  "entryOk (map_option (\<lambda>l. JObj [(a, JNum (loc_Latitude l)), (b', JNum (loc_Longitude l)), (c, JStr (g l))]) (st_Location st))
     \<longleftrightarrow> finiteLocation st"
  by (auto simp: entryOk_def finiteLocation_def split: option.split)

lemma stateBody_encodable:
  assumes "rivianRepresentable zone st"
  shows "encodable (vehicleStateBody zone (Some st))"
proof -
  have "list_all isFinite (wireNumbers st)" "finiteLocation st" using assms by (simp_all add: rivianRepresentable_def)
  then have "list_all (\<lambda>kv. entryOk (snd kv)) (stateEntries zone st)"
    unfolding stateEntries_def Let_def wireNumbers_def
    by (simp only: list.pred_inject snd_conv entryOk_simps encodable_wire encodable.simps simp_thms)
  then show ?thesis by (simp add: vehicleStateBody_def present_encodable entryOk_def)
qed

end
