(* ===== verification/RestClient.thy ===== *)
theory RestClient
  imports Prelude
begin

section \<open>The outbound HTTP clients\<close>

text \<open>
  \<^verbatim>\<open>internal/transport/restclient/restclient.go\<close>: the process-wide defaults, set once from the configuration,
  and the client built from them. The client itself is the library's; what is modelled is every setting
  it is given.
\<close>

record restOptions =
  ro_Timeout :: duration
  ro_Retries :: int
  ro_RetryWait :: duration
  ro_RetryMaxWait :: duration
  ro_Debug :: bool

record restPackage =
  rp_defaults :: restOptions
  rp_userAgent :: string

record restyClient =
  rc_BaseURL :: string
  rc_UserAgent :: string
  rc_Timeout :: duration
  rc_RetryCount :: int
  rc_RetryWaitTime :: duration
  rc_RetryMaxWaitTime :: duration
  rc_Debug :: bool

definition defaultUserAgent :: string where "defaultUserAgent = ''redswitchboard''"

definition restInitial :: restPackage where
  "restInitial = \<lparr>rp_defaults = \<lparr>ro_Timeout = 30 * Second, ro_Retries = 2, ro_RetryWait = 500 * Millisecond,
     ro_RetryMaxWait = 5 * Second, ro_Debug = False\<rparr>, rp_userAgent = defaultUserAgent\<rparr>"

definition setDefaults :: "restOptions \<Rightarrow> restPackage \<Rightarrow> restPackage" where
  "setDefaults opt pk =
     (let d0 = rp_defaults pk;
          d1 = (if 0 < ro_Timeout opt then d0\<lparr>ro_Timeout := ro_Timeout opt\<rparr> else d0);
          d2 = (if 0 < ro_Retries opt then d1\<lparr>ro_Retries := ro_Retries opt\<rparr> else d1);
          d3 = (if 0 < ro_RetryWait opt then d2\<lparr>ro_RetryWait := ro_RetryWait opt\<rparr> else d2);
          d4 = (if 0 < ro_RetryMaxWait opt then d3\<lparr>ro_RetryMaxWait := ro_RetryMaxWait opt\<rparr> else d3)
      in pk\<lparr>rp_defaults := d4\<rparr>)"

definition setUserAgent :: "string \<Rightarrow> restPackage \<Rightarrow> restPackage" where
  "setUserAgent version pk = (if version = [] then pk\<lparr>rp_userAgent := defaultUserAgent\<rparr>
     else pk\<lparr>rp_userAgent := defaultUserAgent @ ''/'' @ version\<rparr>)"

definition newWithOptions :: "restPackage \<Rightarrow> string \<Rightarrow> restOptions \<Rightarrow> restyClient" where
  "newWithOptions pk baseURL opt =
     (let d = rp_defaults pk in
      \<lparr>rc_BaseURL = baseURL, rc_UserAgent = rp_userAgent pk,
       rc_Timeout = (if ro_Timeout opt \<le> 0 then ro_Timeout d else ro_Timeout opt),
       rc_RetryCount = (if ro_Retries opt \<le> 0 then ro_Retries d else ro_Retries opt),
       rc_RetryWaitTime = (if ro_RetryWait opt \<le> 0 then ro_RetryWait d else ro_RetryWait opt),
       rc_RetryMaxWaitTime = (if ro_RetryMaxWait opt \<le> 0 then ro_RetryMaxWait d else ro_RetryMaxWait opt),
       rc_Debug = ro_Debug opt\<rparr>)"

definition restNew :: "restPackage \<Rightarrow> string \<Rightarrow> duration \<Rightarrow> bool \<Rightarrow> restyClient" where
  "restNew pk baseURL timeout debug =
     newWithOptions pk baseURL ((rp_defaults pk)\<lparr>ro_Timeout := timeout, ro_Debug := debug\<rparr>)"

subsection \<open>Every client is bounded\<close>

definition restDefaults_ok :: "restPackage \<Rightarrow> bool" where
  "restDefaults_ok pk \<longleftrightarrow> 0 < ro_Timeout (rp_defaults pk) \<and> 0 < ro_Retries (rp_defaults pk) \<and>
     0 < ro_RetryWait (rp_defaults pk) \<and> 0 < ro_RetryMaxWait (rp_defaults pk)"

lemma restInitial_ok [simp]: "restDefaults_ok restInitial"
  by (simp add: restDefaults_ok_def restInitial_def)

lemma setDefaults_ok [simp]: "restDefaults_ok pk \<Longrightarrow> restDefaults_ok (setDefaults opt pk)"
  by (simp add: restDefaults_ok_def setDefaults_def Let_def)

lemma setUserAgent_ok [simp]: "restDefaults_ok (setUserAgent v pk) = restDefaults_ok pk"
  by (simp add: restDefaults_ok_def setUserAgent_def)

lemma newWithOptions_bounded:
  "restDefaults_ok pk \<Longrightarrow> 0 < rc_Timeout (newWithOptions pk u opt) \<and> 0 < rc_RetryCount (newWithOptions pk u opt) \<and>
     0 < rc_RetryWaitTime (newWithOptions pk u opt) \<and> 0 < rc_RetryMaxWaitTime (newWithOptions pk u opt)"
  by (simp add: restDefaults_ok_def newWithOptions_def Let_def)

subsection \<open>A call and its requests\<close>

text \<open>
  One call of such a client is one call of the library, which repeats the request on a transient
  failure, as often as the retry count it was given. Where a model of a source takes a call as a
  parameter, \<open>sent\<close> says how many requests a call makes: at most one more than that count, and at
  least one when it is answered.
\<close>

definition restyCalls ::
  "restyClient \<Rightarrow> ('q \<Rightarrow> 'w \<Rightarrow> (string + 'r) \<times> 'w) \<Rightarrow> ('q \<Rightarrow> 'w \<Rightarrow> nat) \<Rightarrow> bool" where
  "restyCalls rc call sent \<longleftrightarrow> (\<forall>q w. sent q w \<le> Suc (nat (rc_RetryCount rc)) \<and>
     (\<forall>r. fst (call q w) = Inr r \<longrightarrow> 1 \<le> sent q w))"

lemma restyCalls_bounds:
  assumes "restyCalls rc call sent"
  shows "sent q w \<le> Suc (nat (rc_RetryCount rc))" and "fst (call q w) = Inr r \<Longrightarrow> 1 \<le> sent q w"
  using assms by (auto simp: restyCalls_def)

end
