(* ===== verification/RivianClaims.thy ===== *)
theory RivianClaims
  imports RivianLaws RestClient
begin

section \<open>Properties of the Rivian source and sink\<close>

text \<open>
  The two halves against each other, the client polling the sink's handlers, and the client alone: its
  single retry, the isolation of the live session, and the readings it drops.
\<close>

definition servedBy ::
  "(gotime \<Rightarrow> int) \<Rightarrow> provider \<Rightarrow> endpoint \<Rightarrow> json \<Rightarrow> headers \<Rightarrow> 'w \<Rightarrow> (string + int \<times> json option) \<times> 'w" where
  "servedBy zone prov ep body hs w =
     (Inr (200, case ep of Gateway \<Rightarrow> handleGateway zone prov (Some body) | Charging \<Rightarrow> handleCharging zone prov (Some body)), w)"

definition cablePlugged :: "state \<Rightarrow> bool" where
  "cablePlugged st \<longleftrightarrow> st_Plug st \<noteq> PlugDisconnected \<and> (st_Charger st \<in> {ChargerCharging, ChargerIdle} \<or> st_Plug st = PlugConnected)"

lemma pluggedIn_wire:
  "rv_ChargerState vs = chargerToWire (st_Charger st) \<Longrightarrow> rv_ChargerStatus vs = plugToWire (st_Plug st) \<Longrightarrow>
   pluggedIn vs \<longleftrightarrow> cablePlugged st"
  by (cases "st_Charger st"; cases "st_Plug st") (simp_all add: pluggedIn_def cablePlugged_def chargerToWire_def)

lemma request_decoded:
  "decodeRequest (Some (vehicleStateQuery vid)) = Some \<lparr>gq_OperationName = ''GetVehicleState'', gq_Variables = [(''vehicleID'', JStr vid)]\<rparr>"
  "decodeRequest (Some (liveSessionQuery vid)) = Some \<lparr>gq_OperationName = ''getLiveSessionData'', gq_Variables = [(''vehicleId'', JStr vid)]\<rparr>"
  by (simp_all add: decodeRequest_def vehicleStateQuery_def liveSessionQuery_def marshalGraphQL_def Let_def fieldStr_def fieldObj_def)

lemma no_graphql_error: "parseGraphQLError (Some (nested j k)) 200 = None"
  by (simp add: parseGraphQLError_def envelopeErrors_def nested_def)

lemma bodies_nested: "\<exists>j k. vehicleStateBody zone st = nested j k" "\<exists>j k. liveSessionBody zone live now = nested j k"
  by (auto simp: vehicleStateBody_def liveSessionBody_def)

lemma served_cable:
  "rv_ChargerState (rivian_flatten exotic (Some (rawServed zone st))) = chargerToWire (st_Charger st)"
  "rv_ChargerStatus (rivian_flatten exotic (Some (rawServed zone st))) = plugToWire (st_Plug st)"
  by (simp_all add: rivian_flatten_def Let_def rawServed_field wireField_def stateEntries_present readTs_value wire_words)

definition sinkGateway :: "(gotime \<Rightarrow> int) \<Rightarrow> provider \<Rightarrow> 'w rivianNet \<Rightarrow> bool" where
  "sinkGateway zone prov net \<longleftrightarrow>
     (\<forall>body hs w. rn_Post net Gateway body hs w = (Inr (200, handleGateway zone prov (Some body)), w))"

lemma same_world: "c\<lparr>cl_world := cl_world c\<rparr> = c"
  by (cases c) simp

lemma bodies_no_error:
  "parseGraphQLError (Some (vehicleStateBody zone st)) 200 = None"
  "parseGraphQLError (Some (liveSessionBody zone live t)) 200 = None"
  by (simp_all add: vehicleStateBody_def liveSessionBody_def no_graphql_error)

lemma lookup_served: "v \<in> set (pv_Vehicles prov) \<Longrightarrow> id_ID v = vid \<Longrightarrow> vid \<noteq> [] \<Longrightarrow>
   rivian_lookup prov vid = Some (pv_Latest prov vid)"
  by (auto simp: rivian_lookup_def list_ex_iff)

lemma gateway_read:
  assumes "sinkGateway zone prov net" "ce_ctxErr e = None" "rivian_lookup prov vid = Some snap"
    and "sn_State snap = Some st" "rivianRepresentable zone st"
  shows "client_VehicleState net e vid c = (Inr (rivian_flatten (ce_exotic e) (Some (rawServed zone st))), c)"
proof -
  have gw: "handleGateway zone prov (Some (vehicleStateQuery vid)) = Some (vehicleStateBody zone (Some st))"
    using stateBody_encodable [OF assms(5)]
    by (simp add: handleGateway_def request_decoded stringVar_def assms(3,4) writeGQLJSON_def)
  have fin: "finiteLocation st" using assms(5) by (simp add: rivianRepresentable_def)
  show ?thesis
    using assms(1) by (simp add: client_VehicleState_def callWithRefresh_def assms(2) transport_do_def sinkGateway_def gw
        decode_served [OF fin] bodies_no_error same_world)
qed

lemma served_snapshot:
  assumes "rivianRepresentable zone st"
  shows "pluggedIn (rivian_flatten exotic (Some (rawServed zone st))) = cablePlugged st"
    "stateToCanonical (rivian_flatten exotic (Some (rawServed zone st))) = rivianServed st"
  by (rule pluggedIn_wire, (rule served_cable)+) (rule rivian_state_roundtrip [OF assms])

text \<open>
  C15: a Rivian client polling this program's own Rivian sink gets, for every served vehicle with readings
  the wire can carry, the cached state back, changed only as \<open>rivianServed\<close> lists, and the live session
  too (without its fast charging flag) as long as a cable is connected.
\<close>

theorem rivian_sink_feeds_source:
  assumes "rn_Post net = servedBy zone prov" "ce_ctxErr e = None"
    and "v \<in> set (pv_Vehicles prov)" "id_ID v = vid" "vid \<noteq> []"
    and "sn_State (pv_Latest prov vid) = Some st" "rivianRepresentable zone st"
    and "\<forall>ls. sn_Live (pv_Latest prov vid) = Some ls \<longrightarrow> finiteLive ls"
  shows "plugin_Poll net e now vid c =
    (Inr (zeroSnapshot\<lparr>sn_State := Some (rivianServed st),
       sn_Live := (if cablePlugged st then map_option (\<lambda>ls. ls\<lparr>ls_FastCharger := False\<rparr>) (sn_Live (pv_Latest prov vid)) else None),
       sn_FetchedAt := now\<rparr>), c)"
proof -
  let ?snap = "pv_Latest prov vid"
  note lk = lookup_served [OF assms(3-5)]
  have "encodable (liveSessionBody zone (sn_Live ?snap) t)" for t
    using assms(8) by (cases "sn_Live ?snap") (simp_all add: liveSessionBody_def finiteLive_def)
  then have ch: "handleCharging zone prov (Some (liveSessionQuery vid)) =
      Some (liveSessionBody zone (sn_Live ?snap) (liveStamp ?snap))"
    by (simp add: handleCharging_def request_decoded stringVar_def lk writeGQLJSON_def)
  obtain raw where raw: "decodeLiveResponse (ce_exotic e) (ce_tokenText e)
      (liveSessionBody zone (sn_Live ?snap) (liveStamp ?snap)) = Some raw"
    and canon: "liveToCanonical (map_option (live_flatten (ce_exotic e)) raw) =
      map_option (\<lambda>ls. ls\<lparr>ls_FastCharger := False\<rparr>) (sn_Live ?snap)"
    using rivian_live_roundtrip [OF assms(8), of "ce_exotic e" "ce_tokenText e" zone "liveStamp ?snap"] by auto
  have ls: "client_LiveSession net e vid c = (Inr (map_option (live_flatten (ce_exotic e)) raw), c)"
    by (simp add: client_LiveSession_def callWithRefresh_def assms(1,2) transport_do_def servedBy_def ch raw
        bodies_no_error same_world)
  have "sinkGateway zone prov net" by (simp add: sinkGateway_def assms(1) servedBy_def)
  note st = gateway_read [OF this assms(2) lk assms(6,7)]
  have "liveToCanonical None = None" by (simp add: liveToCanonical_def)
  then show ?thesis
    by (simp add: plugin_Poll_def st ls toCanonical_def canon Let_def served_snapshot [OF assms(7)])
qed

text \<open>A car charging at home, seen through the sink.\<close>

definition homeState :: state where
  "homeState = zeroState\<lparr>st_Power := PowerOnline, st_UserPresent := True, st_CloudOnline := True,
     st_LastUpdate := Second, st_CloudLastSync := Second,
     st_Location := Some \<lparr>loc_Latitude = Fin 48, loc_Longitude = Fin 11, loc_TimeStamp = 2 * Second\<rparr>,
     st_Gear := GearPark, st_Charger := ChargerCharging, st_Plug := PlugConnected, st_RangeKm := 300,
     st_BatteryLevelPct := Fin 64, st_OtaVersion := ''2024.1''\<rparr>"

definition homeSession :: liveSession where
  "homeSession = \<lparr>ls_PowerKw = Fin 11, ls_CurrentA = Fin 16, ls_TotalChargedEnergy = Fin 3,
     ls_TimeRemainingSec = 3600, ls_FastCharger = True\<rparr>"

definition homeProvider :: provider where
  "homeProvider = \<lparr>pv_Vehicles = [\<lparr>id_ID = ''g1'', id_VIN = ''7FCT'', id_DisplayName = ''Truck'', id_Make = ''Rivian'', id_Model = ''R1T''\<rparr>],
     pv_Latest = (\<lambda>_. zeroSnapshot\<lparr>sn_State := Some homeState, sn_Live := Some homeSession\<rparr>),
     pv_Stats = (\<lambda>_. zeroStats)\<rparr>"

definition homeNet :: "unit rivianNet" where
  "homeNet = \<lparr>rn_Post = servedBy (\<lambda>_. 3600) homeProvider, rn_UUID = (\<lambda>_. ''u''),
     rn_ReadCreds = (\<lambda>_. Inl ''no file''), rn_WriteCreds = (\<lambda>_ w. (None, w))\<rparr>"

definition homeClient :: "unit clientState" where
  "homeClient = \<lparr>cl_data = \<lparr>au_Token = [], au_RefreshToken = [], au_UserSessionToken = ''us'', au_CSRFToken = [],
     au_AppSessionToken = ''as'', au_VehicleID = ''g1'', au_VIN = ''7FCT'', au_VehicleName = ''Truck'',
     au_Vehicles = [], au_Username = []\<rparr>, cl_world = ()\<rparr>"

definition plainEnv :: callEnv where
  "plainEnv = \<lparr>ce_ctxErr = None, ce_exotic = (\<lambda>_. None), ce_tokenText = (\<lambda>_. [])\<rparr>"

lemma cv_year_civilOf: "cv_year (civilOf t) = yearOf (t div (24 * Hour))"
  by (simp add: civilOf_def Let_def split: prod.split)

lemma wireTime_first_day: "0 < t \<Longrightarrow> t < 23 * Hour \<Longrightarrow> wireTime (\<lambda>_. 3600) t"
proof -
  assume t: "0 < t" "t < 23 * Hour"
  then have "(t + 3600 * Second) div (24 * Hour) = 0" by (intro div_pos_pos_trivial) auto
  then show ?thesis using t by (simp add: wireTime_def wholeMinutes_def cv_year_civilOf yearOf_def daysBefore_def)
qed

lemma charging_representable: "rivianRepresentable (\<lambda>_. 3600) homeState"
proof -
  have "list_all (\<lambda>s. to_lower s \<notin> invalidSensorStates) (wireStrings homeState)"
    by (simp add: homeState_def wireStrings_def invalidSensorStates_def to_lower_def to_lower_char_def)
  moreover have "list_all isFinite (wireNumbers homeState)" "list_all (\<lambda>n. \<bar>n\<bar> \<le> 2 ^ 53) (wireCounts homeState)"
    "finiteLocation homeState"
    by (simp_all add: homeState_def wireNumbers_def wireCounts_def finiteLocation_def)
  ultimately show ?thesis
    by (simp add: rivianRepresentable_def) (simp add: homeState_def wireTime_first_day)
qed

lemma rivian_sink_feeds_source_witness:
  "plugin_Poll homeNet plainEnv 7 ''g1'' homeClient =
    (Inr (zeroSnapshot\<lparr>sn_State := Some (rivianServed homeState),
       sn_Live := Some (homeSession\<lparr>ls_FastCharger := False\<rparr>), sn_FetchedAt := 7\<rparr>), homeClient)"
  using rivian_sink_feeds_source [of homeNet "\<lambda>_. 3600" homeProvider plainEnv _ "''g1''" homeState 7 homeClient]
    charging_representable
  by (simp add: homeNet_def homeProvider_def plainEnv_def cablePlugged_def homeState_def homeSession_def finiteLive_def)

subsection \<open>The client alone\<close>

text \<open>
  The network with a log of the requests it is sent: a call sends the number of them that \<open>sent\<close> says.
\<close>

type_synonym request = "endpoint \<times> json \<times> headers"



definition mintRequest :: request where
  "mintRequest = (Gateway, marshalGraphQL ''CreateCSRFToken''
     ''mutation CreateCSRFToken { createCsrfToken { __typename csrfToken appSessionToken } }'' None, [])"

datatype requestKind = StateRequest | MintRequest | OtherRequest

definition kindOf :: "string \<Rightarrow> request \<Rightarrow> requestKind" where
  "kindOf vid r = (if fst r = Gateway \<and> fst (snd r) = vehicleStateQuery vid then StateRequest
     else if r = mintRequest then MintRequest else OtherRequest)"

lemma kindOf_mint [simp]: "kindOf vid mintRequest = MintRequest"
  by (simp add: kindOf_def mintRequest_def vehicleStateQuery_def marshalGraphQL_def Let_def)
















text \<open>
  A failure of the charging endpoint costs the live session alone. The poll fails only when the vehicle
  state could not be read or the charging endpoint is rate limited; otherwise its snapshot holds the state
  read, and without a cable the charging endpoint is left alone.
\<close>

theorem live_session_is_optional:
  assumes "plugin_Poll net e now vid c = (r, c')" "client_VehicleState net e vid c = (rs, c1)"
  shows "case r of
      Inl err \<Rightarrow> rs = Inl err \<or> rivian_isRateLimited err \<and> (\<exists>vs. rs = Inr vs \<and> pluggedIn vs)
    | Inr snap \<Rightarrow> \<exists>vs. rs = Inr vs \<and> sn_State snap = Some (stateToCanonical vs) \<and> sn_FetchedAt snap = now \<and>
        (\<not> pluggedIn vs \<longrightarrow> sn_Live snap = None \<and> c' = c1)"
  using assms
  by (auto simp: plugin_Poll_def Let_def toCanonical_def liveToCanonical_def split: sum.splits if_splits prod.splits)

text \<open>The charging endpoint is down.\<close>

definition noChargingNet :: "unit rivianNet" where
  "noChargingNet = homeNet\<lparr>rn_Post := (\<lambda>ep body hs w. case ep of
     Gateway \<Rightarrow> servedBy (\<lambda>_. 3600) homeProvider ep body hs w | Charging \<Rightarrow> (Inr (500, None), w))\<rparr>"

lemma live_session_is_optional_witness:
  "\<exists>snap. fst (plugin_Poll noChargingNet plainEnv 7 ''g1'' homeClient) = Inr snap \<and>
     sn_State snap = Some (rivianServed homeState)"
proof -
  let ?vs = "rivian_flatten (ce_exotic plainEnv) (Some (rawServed (\<lambda>_. 3600) homeState))"
  have lk: "rivian_lookup homeProvider ''g1'' = Some (zeroSnapshot\<lparr>sn_State := Some homeState, sn_Live := Some homeSession\<rparr>)"
    by (simp add: rivian_lookup_def homeProvider_def)
  have gw: "sinkGateway (\<lambda>_. 3600) homeProvider noChargingNet"
    by (simp add: sinkGateway_def noChargingNet_def servedBy_def homeNet_def)
  have vs: "client_VehicleState noChargingNet plainEnv ''g1'' homeClient = (Inr ?vs, homeClient)"
    by (rule gateway_read [OF gw _ lk _ charging_representable]) (simp_all add: plainEnv_def)
  have lerr: "client_LiveSession noChargingNet plainEnv ''g1'' homeClient =
      (Inl (ApiErr \<lparr>ae_Code = [], ae_Reason = [], ae_HTTPStatus = 500, ae_Errors = []\<rparr>), homeClient)"
    by (simp add: client_LiveSession_def callWithRefresh_def plainEnv_def transport_do_def noChargingNet_def homeNet_def
        parseGraphQLError_def envelopeErrors_def rivian_isUnauthenticated_def same_world)
  have "\<exists>snap. plugin_Poll noChargingNet plainEnv 7 ''g1'' homeClient = (Inr snap, homeClient)"
    by (simp add: plugin_Poll_def vs lerr Let_def rivian_isRateLimited_def)
  then obtain snap where s: "plugin_Poll noChargingNet plainEnv 7 ''g1'' homeClient = (Inr snap, homeClient)" by blast
  show ?thesis
    using live_session_is_optional [OF s vs] s served_snapshot(2) [OF charging_representable]
    by auto
qed

text \<open>The fields of a response with the invalid ones taken out.\<close>

definition scrubbed :: "(string \<Rightarrow> tsValue option) \<Rightarrow> string \<Rightarrow> tsValue option" where
  "scrubbed w k = (if ts_valid (w k) then w k else None)"

text \<open>
  A reading the API marks as invalid, in any case of letters, counts as absent: taking it out of the
  response changes nothing of the parsed state but the time of the last update.
\<close>

theorem invalid_readings_are_absent:
  "(rivian_flatten exotic (Some (v\<lparr>rw_Fields := scrubbed (rw_Fields v)\<rparr>)))\<lparr>rv_LastUpdate := t\<rparr> =
     (rivian_flatten exotic (Some v))\<lparr>rv_LastUpdate := t\<rparr> \<and>
   ts_valid (Some \<lparr>ts_TimeStamp = u, ts_Value = Some (JStr s)\<rparr>) =
     (to_lower s \<notin> {''fault'', ''signal_not_available'', ''undefined''})"
proof -
  have "ts_str (scrubbed w k) = ts_str (w k)" "ts_f64 exotic (scrubbed w k) = ts_f64 exotic (w k)"
    "ts_i exotic (scrubbed w k) = ts_i exotic (w k)" for w k
    by (simp_all add: scrubbed_def ts_str_def ts_f64_def ts_i_def) (simp_all add: ts_valid_def)
  then show ?thesis
    by (simp add: rivian_flatten_def Let_def ts_valid_def ts_asString_def invalidSensorStates_def)
qed

end
