(* ===== verification/TeslaFi.thy ===== *)
theory TeslaFi
  imports FleetAdapter GoTimeLaws "HOL-Library.List_Lexorder" "HOL-Library.Char_ord"
begin

section \<open>The TeslaFi CSV source and sink\<close>

text \<open>
  \<^verbatim>\<open>internal/protocol/teslafi/csv/v1\<close>: the CSV row, both mappings, the export of a history into one file
  per month, reading a directory back, and the replay of a recording.

  The CSV text itself is the library's (gocsv), which writes a float with as many digits as it takes to
  read it back: a file here is the list of its rows.  A directory is a map from file name to rows, None
  for a file that cannot be opened or parsed.  A location is its offset at each instant, in seconds; what
  it takes to write a file is an argument, the error if writing it fails.
\<close>

subsection \<open>Rows\<close>

record teslafiRow =
  tr_Date :: string
  tr_ID :: int
  tr_VehicleID :: int
  tr_DisplayName :: string
  tr_VehicleName :: string
  tr_VIN :: string
  tr_State :: string
  tr_Latitude :: f64
  tr_Longitude :: f64
  tr_Heading :: int
  tr_Speed :: string
  tr_ShiftState :: string
  tr_Power :: int
  tr_Odometer :: f64
  tr_BatteryLevel :: int
  tr_UsableBatteryLevel :: int
  tr_ChargeLimitSoc :: int
  tr_BatteryRange :: f64
  tr_EstBatteryRange :: f64
  tr_IdealBatteryRange :: f64
  tr_ChargingState :: string
  tr_ChargeEnergyAdded :: f64
  tr_ChargerPower :: int
  tr_ChargerVoltage :: int
  tr_ChargerActualCurrent :: int
  tr_ChargerPhases :: string
  tr_FastChargerPresent :: bool
  tr_FastChargerType :: string
  tr_TimeToFullCharge :: f64
  tr_InsideTemp :: f64
  tr_OutsideTemp :: f64
  tr_IsClimateOn :: bool
  tr_DriverTempSetting :: f64
  tr_CarVersion :: string

text \<open>The parsed date, None for its error; a caller that drops the error goes on with the zero time.\<close>

definition parsedDate :: "(gotime \<Rightarrow> int) \<Rightarrow> teslafiRow \<Rightarrow> gotime option" where
  "parsedDate loc r = parseTimeIn loc teslafiDate (tr_Date r)"

definition dateOrZero :: "(gotime \<Rightarrow> int) \<Rightarrow> teslafiRow \<Rightarrow> gotime" where
  "dateOrZero loc r = (case parsedDate loc r of None \<Rightarrow> 0 | Some t \<Rightarrow> t)"

subsection \<open>From a snapshot to a row\<close>

definition dcThresholdKw :: f64 where "dcThresholdKw = fconst 25"
definition acVoltage :: int where "acVoltage = 240"

record vehicleIdent =
  vi_name :: string
  vi_vin :: string

definition tf_topState :: "power \<Rightarrow> string" where
  "tf_topState p = (case p of PowerSleep \<Rightarrow> ''asleep'' | PowerOffline \<Rightarrow> ''offline'' | _ \<Rightarrow> ''online'')"

definition tf_shiftState :: "gear \<Rightarrow> string" where
  "tf_shiftState g = (case g of GearDrive \<Rightarrow> ''D'' | GearReverse \<Rightarrow> ''R'' | GearNeutral \<Rightarrow> ''N'' | _ \<Rightarrow> ''P'')"

definition tf_chargingState :: "chargerState \<Rightarrow> chargePlug \<Rightarrow> string" where
  "tf_chargingState c plug = (if plug = PlugDisconnected then ''Disconnected''
     else case c of ChargerCharging \<Rightarrow> ''Charging'' | ChargerIdle \<Rightarrow> ''Complete'' | _ \<Rightarrow> ''Disconnected'')"

definition ampsFrom :: "f64 \<Rightarrow> int \<Rightarrow> int" where
  "ampsFrom powerKw volts = (if volts \<le> 0 then 0
     else f2i (math_round (fdiv (fmul powerKw (fconst 1000)) (i2f volts))))"

definition round2 :: "f64 \<Rightarrow> f64" where
  "round2 f = fdiv (math_round (fmul f (fconst 100))) (fconst 100)"

definition outsideTempOrDefault :: "f64 \<Rightarrow> f64" where
  "outsideTempOrDefault c = (if feq c fzero then fconst 20 else c)"

definition inGear :: "gear \<Rightarrow> bool" where
  "inGear g \<longleftrightarrow> g = GearDrive \<or> g = GearReverse \<or> g = GearNeutral"

definition rowLive :: "liveSession \<Rightarrow> teslafiRow \<Rightarrow> teslafiRow" where
  "rowLive live r =
     (let r1 = r\<lparr>tr_ChargeEnergyAdded := round2 (ls_TotalChargedEnergy live),
        tr_ChargerPower := f2i (math_round (ls_PowerKw live)),
        tr_TimeToFullCharge := round2 (fdiv (i2f (ls_TimeRemainingSec live)) (fconst 3600))\<rparr>
      in if fle dcThresholdKw (ls_PowerKw live)
         then r1\<lparr>tr_FastChargerPresent := True, tr_FastChargerType := ''Tesla'', tr_ChargerPhases := []\<rparr>
         else r1\<lparr>tr_FastChargerType := ''<invalid>'', tr_ChargerVoltage := acVoltage,
           tr_ChargerActualCurrent := ampsFrom (ls_PowerKw live) acVoltage, tr_ChargerPhases := ''1''\<rparr>)"

text \<open>\<^verbatim>\<open>toRow\<close> on a snapshot with a state; its callers check that there is one.\<close>

definition toRow :: "snapshot \<Rightarrow> state \<Rightarrow> int \<Rightarrow> vehicleIdent \<Rightarrow> (gotime \<Rightarrow> int) \<Rightarrow> teslafiRow" where
  "toRow snap st vehicleID ident loc =
     (let rangeMi = round2 (kmToMiles (i2f (st_RangeKm st)));
          r = \<lparr>
            tr_Date = formatTime teslafiDate (loc (sn_FetchedAt snap)) (sn_FetchedAt snap),
            tr_ID = vehicleID,
            tr_VehicleID = vehicleID,
            tr_DisplayName = vi_name ident,
            tr_VehicleName = vi_name ident,
            tr_VIN = vi_vin ident,
            tr_State = tf_topState (st_Power st),
            tr_Latitude = (case st_Location st of None \<Rightarrow> fzero | Some l \<Rightarrow> loc_Latitude l),
            tr_Longitude = (case st_Location st of None \<Rightarrow> fzero | Some l \<Rightarrow> loc_Longitude l),
            tr_Heading = f2i (math_round (st_HeadingDeg st)),
            tr_Speed = (if inGear (st_Gear st) then itoa (f2i (math_round (mpsToMph (st_SpeedMps st)))) else []),
            tr_ShiftState = (if inGear (st_Gear st) then tf_shiftState (st_Gear st) else []),
            tr_Power = 0,
            tr_Odometer = round2 (metersToMiles (i2f (st_OdometerMeters st))),
            tr_BatteryLevel = f2i (math_round (st_BatteryLevelPct st)),
            tr_UsableBatteryLevel = f2i (math_round (st_BatteryLevelPct st)),
            tr_ChargeLimitSoc = f2i (math_round (st_BatteryLimitPct st)),
            tr_BatteryRange = rangeMi,
            tr_EstBatteryRange = rangeMi,
            tr_IdealBatteryRange = rangeMi,
            tr_ChargingState = tf_chargingState (st_Charger st) (st_Plug st),
            tr_ChargeEnergyAdded = fzero,
            tr_ChargerPower = 0,
            tr_ChargerVoltage = 0,
            tr_ChargerActualCurrent = 0,
            tr_ChargerPhases = [],
            tr_FastChargerPresent = False,
            tr_FastChargerType = [],
            tr_TimeToFullCharge = fzero,
            tr_InsideTemp = st_CabinTempC st,
            tr_OutsideTemp = outsideTempOrDefault (st_OutsideTempC st),
            tr_IsClimateOn = (fne (st_CabinTempC st) fzero \<and> st_PreconditioningStatus st = ''active''),
            tr_DriverTempSetting = st_DriverSetpointC st,
            tr_CarVersion = st_OtaVersion st\<rparr>
      in case sn_Live snap of None \<Rightarrow> r | Some live \<Rightarrow> rowLive live r)"

subsection \<open>From a row to a snapshot\<close>

definition powerFromState :: "string \<Rightarrow> power" where
  "powerFromState s = (if s = ''asleep'' then PowerSleep else if s = ''offline'' then PowerOffline else PowerOnline)"

definition gearFromShift :: "string \<Rightarrow> gear" where
  "gearFromShift s = (if s = ''D'' then GearDrive else if s = ''R'' then GearReverse
     else if s = ''N'' then GearNeutral else GearPark)"

definition chargerFromState :: "string \<Rightarrow> chargerState" where
  "chargerFromState s = (if s = ''Charging'' then ChargerCharging
     else if s = ''Complete'' \<or> s = ''Stopped'' then ChargerIdle else ChargerDisconnect)"

definition plugFromState :: "string \<Rightarrow> chargePlug" where
  "plugFromState s = (if s = ''Disconnected'' \<or> s = [] then PlugDisconnected else PlugConnected)"

definition toSnapshot :: "(string \<Rightarrow> f64 option) \<Rightarrow> (gotime \<Rightarrow> int) \<Rightarrow> teslafiRow \<Rightarrow> snapshot" where
  "toSnapshot exotic loc r =
     (let t = dateOrZero loc r;
          st = zeroState\<lparr>
            st_Power := powerFromState (tr_State r),
            st_CloudOnline := (tr_State r \<noteq> ''offline''),
            st_LastUpdate := t,
            st_CloudLastSync := t,
            st_HeadingDeg := i2f (tr_Heading r),
            st_OdometerMeters := f2i (milesToMeters (tr_Odometer r)),
            st_RangeKm := f2i (milesToKm (tr_BatteryRange r)),
            st_BatteryLevelPct := i2f (tr_BatteryLevel r),
            st_BatteryLimitPct := i2f (tr_ChargeLimitSoc r),
            st_Gear := gearFromShift (tr_ShiftState r),
            st_Charger := chargerFromState (tr_ChargingState r),
            st_Plug := plugFromState (tr_ChargingState r),
            st_CabinTempC := tr_InsideTemp r,
            st_OutsideTempC := tr_OutsideTemp r,
            st_DriverSetpointC := tr_DriverTempSetting r,
            st_OtaVersion := tr_CarVersion r,
            st_SpeedMps := (case parseFloatOk exotic (tr_Speed r) of None \<Rightarrow> fzero | Some s \<Rightarrow> mphToMps s),
            st_Location := (if fne (tr_Latitude r) fzero \<or> fne (tr_Longitude r) fzero
              then Some \<lparr>loc_Latitude = tr_Latitude r, loc_Longitude = tr_Longitude r, loc_TimeStamp = t\<rparr> else None)\<rparr>;
          live = (if tr_ChargingState r = ''Charging''
            then Some (zeroLive\<lparr>ls_PowerKw := i2f (tr_ChargerPower r), ls_CurrentA := i2f (tr_ChargerActualCurrent r),
              ls_TotalChargedEnergy := tr_ChargeEnergyAdded r,
              ls_TimeRemainingSec := f2i (fmul (tr_TimeToFullCharge r) (fconst 3600))\<rparr>)
            else None)
      in zeroSnapshot\<lparr>sn_State := Some st, sn_Live := live, sn_FetchedAt := t\<rparr>)"

subsection \<open>Files\<close>

definition fileName :: "gotime \<Rightarrow> int \<Rightarrow> string" where
  "fileName t off = (let c = civilOf (t + off * Second) in ''TeslaFi'' @ itoa (cv_month c) @ itoa (cv_year c) @ ''.csv'')"

text \<open>
  The rows by month, in the order of their first row; the code ranges over a map, so in which order the
  files are written is open. None is a date that does not parse.
\<close>

fun addToMonth :: "string \<Rightarrow> teslafiRow \<Rightarrow> (string \<times> teslafiRow list) list \<Rightarrow> (string \<times> teslafiRow list) list" where
  "addToMonth name r [] = [(name, [r])]"
| "addToMonth name r ((n, rs) # ms) = (if n = name then (n, rs @ [r]) # ms else (n, rs) # addToMonth name r ms)"

fun byMonth :: "(gotime \<Rightarrow> int) \<Rightarrow> teslafiRow list \<Rightarrow> (string \<times> teslafiRow list) list \<Rightarrow> (string \<times> teslafiRow list) list option" where
  "byMonth loc [] ms = Some ms"
| "byMonth loc (r # rs) ms = (case parsedDate loc r of None \<Rightarrow> None
     | Some t \<Rightarrow> byMonth loc rs (addToMonth (fileName t (loc t)) r ms))"

datatype csvError = NoExportDir | MkdirFailed | BadDate | WriteFailed string | OpenFailed string
  | UnknownVehicle string | BadSettings

type_synonym directory = "string \<rightharpoonup> teslafiRow list option"

fun writeFiles :: "(string \<Rightarrow> bool) \<Rightarrow> (string \<times> teslafiRow list) list \<Rightarrow> directory \<Rightarrow> csvError option \<times> directory" where
  "writeFiles wok [] d = (None, d)"
| "writeFiles wok ((name, rs) # ms) d =
     (if wok name then writeFiles wok ms (d(name \<mapsto> Some rs)) else (Some (WriteFailed name), d(name \<mapsto> None)))"

definition writeMonthly ::
  "bool \<Rightarrow> (string \<Rightarrow> bool) \<Rightarrow> (gotime \<Rightarrow> int) \<Rightarrow> teslafiRow list \<Rightarrow> directory \<Rightarrow> csvError option \<times> directory" where
  "writeMonthly mkdirOk wok loc rows d = (if \<not> mkdirOk then (Some MkdirFailed, d)
     else case byMonth loc rows [] of None \<Rightarrow> (Some BadDate, d) | Some ms \<Rightarrow> writeFiles wok ms d)"

text \<open>
  \<open>names\<close> are the files of the directory, \<open>isTeslaFi\<close> the glob \<^verbatim>\<open>TeslaFi*.csv\<close>; the files are read in the
  order of their names and the rows sorted by date, stably.
\<close>

definition isTeslaFi :: "string \<Rightarrow> bool" where
  "isTeslaFi n \<longleftrightarrow> take 7 n = ''TeslaFi'' \<and> 11 \<le> length n \<and> drop (length n - 4) n = ''.csv''"

fun readFiles :: "directory \<Rightarrow> string list \<Rightarrow> csvError + teslafiRow list" where
  "readFiles d [] = Inr []"
| "readFiles d (n # ns) = (case d n of Some (Some rs) \<Rightarrow>
       (case readFiles d ns of Inl e \<Rightarrow> Inl e | Inr rs' \<Rightarrow> Inr (rs @ rs'))
     | _ \<Rightarrow> Inl (OpenFailed n))"

definition readDir :: "(gotime \<Rightarrow> int) \<Rightarrow> string list \<Rightarrow> directory \<Rightarrow> csvError + teslafiRow list" where
  "readDir loc names d = (case readFiles d (sort (filter isTeslaFi names)) of Inl e \<Rightarrow> Inl e
     | Inr rs \<Rightarrow> Inr (sort_key (dateOrZero loc) rs))"

subsection \<open>The sink\<close>

definition currentRows :: "(gotime \<Rightarrow> int) \<Rightarrow> provider \<Rightarrow> teslafiRow list" where
  "currentRows loc prov = concat (map (\<lambda>(i, v).
     let snap = pv_Latest prov (id_ID v) in
     case sn_State snap of None \<Rightarrow> []
     | Some st \<Rightarrow> [toRow snap st (i + 1) \<lparr>vi_name = id_DisplayName v, vi_vin = id_VIN v\<rparr> loc])
     (zip [0..int (length (pv_Vehicles prov)) - 1] (pv_Vehicles prov)))"

record carInfo =
  ci_id :: int
  ci_ident :: vehicleIdent

fun numberCars :: "int \<Rightarrow> identity list \<Rightarrow> (string \<rightharpoonup> carInfo) \<Rightarrow> (string \<rightharpoonup> carInfo)" where
  "numberCars i [] cars = cars"
| "numberCars i (v # vs) cars = numberCars (i + 1) vs
     (cars(id_ID v \<mapsto> \<lparr>ci_id = i, ci_ident = \<lparr>vi_name = id_DisplayName v, vi_vin = id_VIN v\<rparr>\<rparr>))"

fun exportRows ::
  "(gotime \<Rightarrow> int) \<Rightarrow> (string \<times> snapshot) list \<Rightarrow> (string \<rightharpoonup> carInfo) \<Rightarrow> teslafiRow list \<times> (string \<rightharpoonup> carInfo)" where
  "exportRows loc [] cars = ([], cars)"
| "exportRows loc ((cid, snap) # ss) cars =
     (case sn_State snap of None \<Rightarrow> exportRows loc ss cars
      | Some st \<Rightarrow>
          (let c = (case cars cid of Some c \<Rightarrow> c
                 | None \<Rightarrow> \<lparr>ci_id = int (card (dom cars)) + 1, ci_ident = \<lparr>vi_name = cid, vi_vin = []\<rparr>\<rparr>);
               (rows, cars') = exportRows loc ss (cars(cid \<mapsto> c))
           in (toRow snap st (ci_id c) (ci_ident c) loc # rows, cars')))"

definition exportHistory ::
  "bool \<Rightarrow> (string \<Rightarrow> bool) \<Rightarrow> (gotime \<Rightarrow> int) \<Rightarrow> string \<Rightarrow> provider \<Rightarrow> (string \<times> snapshot) list \<Rightarrow> directory \<Rightarrow>
   csvError option \<times> directory" where
  "exportHistory mkdirOk wok loc exportDir prov samples d =
     (if exportDir = [] then (Some NoExportDir, d)
      else writeMonthly mkdirOk wok loc (fst (exportRows loc samples (numberCars 1 (pv_Vehicles prov) Map.empty))) d)"

subsection \<open>The source\<close>

record csvSource =
  cs_loc :: "gotime \<Rightarrow> int"
  cs_scale :: f64
  cs_start :: gotime
  cs_firstDate :: gotime
  cs_order :: "string list"
  cs_rows :: "string \<rightharpoonup> teslafiRow list"
  cs_idents :: "string \<rightharpoonup> identity"

definition indexRow :: "teslafiRow \<Rightarrow> csvSource \<Rightarrow> csvSource" where
  "indexRow r s =
     (let vid = itoa (tr_VehicleID r);
          s1 = s\<lparr>cs_rows := (cs_rows s)(vid \<mapsto> (case cs_rows s vid of None \<Rightarrow> [] | Some rs \<Rightarrow> rs) @ [r])\<rparr>
      in if cs_idents s1 vid \<noteq> None then s1
         else s1\<lparr>cs_order := cs_order s1 @ [vid],
           cs_idents := (cs_idents s1)(vid \<mapsto> \<lparr>id_ID = vid, id_VIN = tr_VIN r,
             id_DisplayName = (if tr_DisplayName r = [] then tr_VehicleName r else tr_DisplayName r),
             id_Make = ''TeslaFi'', id_Model = []\<rparr>)\<rparr>)"

text \<open>
  The earliest first date of the vehicles. The code ranges over the map; the minimum does not depend on
  the order (unless a date is the zero time), so it is taken in that of \<^verbatim>\<open>order\<close>.
\<close>

definition firstOf :: "(gotime \<Rightarrow> int) \<Rightarrow> teslafiRow list option \<Rightarrow> gotime \<Rightarrow> gotime" where
  "firstOf loc rs first = (case rs of Some (r # _) \<Rightarrow>
       (case parsedDate loc r of None \<Rightarrow> first
        | Some t \<Rightarrow> if is_zero_time first \<or> t < first then t else first)
     | _ \<Rightarrow> first)"

definition csv_index :: "teslafiRow list \<Rightarrow> csvSource \<Rightarrow> csvSource" where
  "csv_index rows s =
     (let s1 = fold indexRow rows s;
          s2 = s1\<lparr>cs_order := sort (cs_order s1), cs_rows := (\<lambda>k. map_option (sort_key (dateOrZero (cs_loc s1))) (cs_rows s1 k))\<rparr>
      in s2\<lparr>cs_firstDate := fold (\<lambda>k. firstOf (cs_loc s2) (cs_rows s2 k)) (cs_order s2) (cs_firstDate s2)\<rparr>)"

definition newCsvSource :: "(gotime \<Rightarrow> int) \<Rightarrow> f64 \<Rightarrow> gotime \<Rightarrow> teslafiRow list \<Rightarrow> csvSource" where
  "newCsvSource loc scale now rows = csv_index rows
     \<lparr>cs_loc = loc, cs_scale = (if fle scale fzero then Fin 1 else scale), cs_start = now, cs_firstDate = 0,
      cs_order = [], cs_rows = Map.empty, cs_idents = Map.empty\<rparr>"

definition csv_Vehicles :: "csvSource \<Rightarrow> identity list" where
  "csv_Vehicles s = map (\<lambda>k. the (cs_idents s k)) (cs_order s)"

text \<open>The last row not after the cursor, walking from the first; a row with a bad date is passed over.\<close>

fun cursorIndex :: "(gotime \<Rightarrow> int) \<Rightarrow> gotime \<Rightarrow> nat \<Rightarrow> teslafiRow list \<Rightarrow> nat \<Rightarrow> nat" where
  "cursorIndex loc cursor i [] idx = idx"
| "cursorIndex loc cursor i (r # rs) idx = (case parsedDate loc r of
     None \<Rightarrow> cursorIndex loc cursor (i + 1) rs idx
   | Some t \<Rightarrow> if cursor < t then idx else cursorIndex loc cursor (i + 1) rs i)"

definition csv_cursor :: "gotime \<Rightarrow> csvSource \<Rightarrow> gotime" where
  "csv_cursor now s = cs_firstDate s + f2i (fmul (i2f (time_sub now (cs_start s))) (cs_scale s))"

definition csv_Poll :: "(string \<Rightarrow> f64 option) \<Rightarrow> gotime \<Rightarrow> string \<Rightarrow> csvSource \<Rightarrow> csvError + snapshot" where
  "csv_Poll exotic now vid s = (case cs_rows s vid of
     None \<Rightarrow> Inl (UnknownVehicle vid)
   | Some rows \<Rightarrow> if rows = [] then Inl (UnknownVehicle vid)
       else Inr (toSnapshot exotic (cs_loc s) (rows ! cursorIndex (cs_loc s) (csv_cursor now s) 0 rows 0)))"

end
