(* ===== verification/TeslaFiLaws.thy ===== *)
theory TeslaFiLaws
  imports TeslaFi "HOL-Library.Multiset"
begin

section \<open>Recordings: files, order and replay\<close>

text \<open>
  What is written comes back sorted and complete; the replay shows the last row that is due; distances
  lose at most what two decimals of a mile and the truncation cost.
\<close>

subsection \<open>Writing and reading a directory\<close>

definition rowsOf :: "(string \<times> teslafiRow list) list \<Rightarrow> teslafiRow multiset" where
  "rowsOf ms = mset (concat (map snd ms))"

lemma addToMonth_rows: "rowsOf (addToMonth name r ms) = add_mset r (rowsOf ms)"
  by (induction name r ms rule: addToMonth.induct) (auto simp: rowsOf_def)

lemma addToMonth_names: "set (map fst (addToMonth name r ms)) = insert name (set (map fst ms))"
  by (induction name r ms rule: addToMonth.induct) auto

lemma addToMonth_distinct: "distinct (map fst ms) \<Longrightarrow> distinct (map fst (addToMonth name r ms))"
proof (induction name r ms rule: addToMonth.induct)
  case (2 name r n rs ms)
  then show ?case using addToMonth_names [of name r ms] by auto
qed simp

lemma byMonth_spec:
  assumes "byMonth loc rs ms = Some ms'" "distinct (map fst ms)" "list_all isTeslaFi (map fst ms)"
    and "\<And>t off. isTeslaFi (fileName t off)"
  shows "rowsOf ms' = rowsOf ms + mset rs \<and> distinct (map fst ms') \<and> list_all isTeslaFi (map fst ms')"
  using assms
proof (induction rs arbitrary: ms)
  case (Cons r rs)
  then obtain t where "parsedDate loc r = Some t" "byMonth loc rs (addToMonth (fileName t (loc t)) r ms) = Some ms'"
    by (auto split: option.splits)
  moreover have "list_all isTeslaFi (map fst (addToMonth (fileName t (loc t)) r ms))"
    using Cons.prems(3,4) unfolding list_all_iff addToMonth_names by blast
  ultimately show ?case
    using Cons.IH [of "addToMonth (fileName t (loc t)) r ms"] Cons.prems
    by (simp add: addToMonth_rows addToMonth_distinct)
qed simp

lemma fileName_isTeslaFi: "isTeslaFi (fileName t off)"
  by (simp add: fileName_def isTeslaFi_def Let_def)

lemma writeFiles_all:
  assumes "\<And>n. n \<in> set (map fst ms) \<Longrightarrow> wok n"
  shows "writeFiles wok ms d = (None, d ++ (\<lambda>n. map_option Some (map_of (rev ms) n)))"
  using assms
proof (induction ms arbitrary: d)
  case (Cons m ms)
  obtain n rs where m: "m = (n, rs)" by (cases m)
  show ?case using Cons by (auto simp: m map_add_def fun_eq_iff split: option.split)
qed (simp add: map_add_def)

lemma readFiles_all:
  "(\<And>n. n \<in> set ns \<Longrightarrow> d n = Some (Some (f n))) \<Longrightarrow> readFiles d ns = Inr (concat (map f ns))"
  by (induction ns) auto

lemma rowsOf_names:
  assumes "distinct (map fst ms)" "distinct ns" "set ns = set (map fst ms)"
  shows "mset (concat (map (\<lambda>n. the (map_of ms n)) ns)) = rowsOf ms"
proof -
  have "mset ns = mset (map fst ms)" using assms set_eq_iff_mset_eq_distinct [of ns "map fst ms"] by simp
  then have "image_mset (\<lambda>n. mset (the (map_of ms n))) (mset ns) = image_mset (\<lambda>n. mset (the (map_of ms n))) (mset (map fst ms))"
    by simp
  moreover have "image_mset (\<lambda>n. mset (the (map_of ms n))) (mset (map fst ms)) = image_mset (\<lambda>m. mset (snd m)) (mset ms)"
    using assms(1) by (auto simp: multiset.map_comp o_def intro!: image_mset_cong)
  ultimately show ?thesis by (simp add: rowsOf_def mset_concat o_def flip: sum_mset_sum_list)
qed

subsection \<open>The replay cursor\<close>

lemma cursorIndex_spec:
  assumes "sorted (map (dateOrZero loc) rs)" "\<forall>r \<in> set rs. parsedDate loc r \<noteq> None"
  shows "cursorIndex loc cursor i rs idx =
    (let n = length (takeWhile (\<lambda>r. dateOrZero loc r \<le> cursor) rs) in if n = 0 then idx else i + n - 1)"
  using assms
proof (induction rs arbitrary: i idx)
  case (Cons r rs)
  then obtain t where "parsedDate loc r = Some t" by auto
  then show ?case using Cons by (auto simp: Let_def dateOrZero_def)
qed simp

subsection \<open>Distances through miles\<close>

lemma small_tail: "y \<le> 2 ^ 40 \<Longrightarrow> c \<le> 2 ^ 11 \<Longrightarrow> (6 * y + c) / 2 ^ 53 \<le> (1 / 200 :: real)"
  by simp

lemma miles_loss:
  assumes m: "0 \<le> m" "m \<le> 2 ^ 40" and c: "1 \<le> c" "c \<le> 2 ^ 11"
  obtains t where "fmul (round2 (fdiv (i2f m) (Fin c))) (Fin c) = Fin t" "\<bar>t - of_int m\<bar> \<le> c / 200 + 1 / 100"
proof -
  define x where "x = real_of_int m / c"
  define q where "q = rnd x"
  define p where "p = rnd (q * 100)"
  define k where "k = real_of_int (round_half_away p)"
  define s where "s = rnd (k / 100)"
  define t where "t = rnd (s * c)"
  have i: "i2f m = Fin (of_int m)" using m by (intro i2f_exact) simp
  have mr: "real_of_int m \<le> 2 ^ 40" using m(2) by (metis of_int_le_iff of_int_numeral of_int_power)
  have xc: "x * c = m" using c by (simp add: x_def)
  have "m = 0 \<or> 1 \<le> real_of_int m" using m(1) by (auto simp: le_less)
  then have x: "x = 0 \<or> 1 / 2 ^ 11 \<le> x"
  proof
    assume "1 \<le> real_of_int m"
    then have "1 / 2 ^ 11 \<le> real_of_int m / c" using c by (intro frac_le) auto
    then show ?thesis by (simp add: x_def)
  qed (simp add: x_def)
  have x0: "0 \<le> x" using x by auto
  have xm: "x \<le> m" using c m(1) by (simp add: x_def divide_le_eq mult_le_cancel_left1)
  have qx: "\<bar>q - x\<bar> \<le> x / 2 ^ 53" unfolding q_def using x by (intro rnd_err) auto
  have qb: "q \<le> x + x / 2 ^ 53" "x - x / 2 ^ 53 \<le> q" using rnd_upto [of x] x by (auto simp: q_def)
  have q2: "q \<le> 2 * x" "0 \<le> q" using qb x0 by simp_all
  have q: "q = 0 \<or> 1 / 2 ^ 12 \<le> q" using x qb by auto
  have pq: "\<bar>p - q * 100\<bar> \<le> q * 100 / 2 ^ 53" unfolding p_def using q by (intro rnd_err) auto
  have pb: "p \<le> q * 100 + q * 100 / 2 ^ 53" "q * 100 - q * 100 / 2 ^ 53 \<le> p"
    using rnd_upto [of "q * 100"] q by (auto simp: p_def)
  have p2: "p \<le> 201 * x" "0 \<le> p" using pb qb q2 x0 by simp_all
  have kp: "\<bar>k - p\<bar> \<le> 1 / 2" "0 \<le> k" using round_half_away_bounds [OF p2(2)] by (simp_all add: k_def)
  have k1: "k = 0 \<or> 1 \<le> k"
  proof -
    have "round_half_away p = 0 \<or> 1 \<le> round_half_away p" using kp(2) by (auto simp: k_def)
    then show ?thesis unfolding k_def by (metis of_int_0 of_int_1 of_int_le_iff)
  qed
  have k2: "k \<le> 201 * x + 1 / 2" using kp(1) p2(1) by linarith
  have sk: "\<bar>s - k / 100\<bar> \<le> k / 100 / 2 ^ 53" unfolding s_def using k1 by (intro rnd_err) auto
  have sb: "s \<le> k / 100 + k / 100 / 2 ^ 53" "k / 100 - k / 100 / 2 ^ 53 \<le> s"
    using rnd_upto [of "k / 100"] k1 by (auto simp: s_def)
  have s1: "s = 0 \<or> 1 / 200 \<le> s" using k1 sb by auto
  have s2: "s \<le> 3 * x + 1" "0 \<le> s" using sb k2 kp(2) x0 by simp_all
  have sc1: "s * c = 0 \<or> 1 / 2 ^ 20 \<le> s * c"
  proof (cases "s = 0")
    case False
    then have "1 / 200 * 1 \<le> s * c" using s1 c by (intro mult_mono) auto
    then show ?thesis by simp
  qed simp
  have "s * c \<le> (3 * x + 1) * c" using s2 c by (intro mult_right_mono) auto
  also have "\<dots> = 3 * m + c" using xc by (simp add: algebra_simps)
  finally have sc2: "s * c \<le> 2 ^ 42" using mr c by simp
  have ts: "\<bar>t - s * c\<bar> \<le> s * c / 2 ^ 53" unfolding t_def by (rule rnd_err [OF sc1])
  have "\<bar>s - x\<bar> \<le> 1 / 200 + (k / 100 + q + x) / 2 ^ 53"
  proof -
    have "k - p \<le> 1 / 2" "p - k \<le> 1 / 2" using kp(1) by linarith+
    then show ?thesis using sb pb qb unfolding abs_le_iff by (intro conjI) (simp_all add: field_simps)
  qed
  also have "\<dots> \<le> 1 / 200 + (6 * x + 1) / 2 ^ 53" using k2 q2 x0 by simp
  finally have "\<bar>s - x\<bar> * c \<le> (1 / 200 + (6 * x + 1) / 2 ^ 53) * c" using c by (intro mult_right_mono) auto
  also have "\<dots> = c / 200 + (6 * real_of_int m + c) / 2 ^ 53" using xc by (simp add: field_simps)
  finally have "\<bar>s - x\<bar> * c \<le> c / 200 + 1 / 200" using small_tail [OF mr c(2)] by linarith
  moreover have "\<bar>s * c - m\<bar> = \<bar>s - x\<bar> * c"
  proof -
    have "s * c - m = (s - x) * c" using xc by (simp add: algebra_simps)
    then show ?thesis using c by (simp add: abs_mult)
  qed
  moreover have "\<bar>t - s * c\<bar> \<le> 1 / 200" using ts sc2 by simp
  ultimately have "\<bar>t - of_int m\<bar> \<le> c / 200 + 1 / 100" by linarith
  moreover have "fmul (round2 (fdiv (i2f m) (Fin c))) (Fin c) = Fin t"
  proof -
    have "c \<noteq> 0" using c by simp
    have "x \<le> 2 ^ 60" using xm mr by simp
    then have "round64 x = Fin q" unfolding q_def using x by (intro round64_value) auto
    then have "fdiv (i2f m) (Fin c) = Fin q" using \<open>c \<noteq> 0\<close> by (simp add: i x_def)
    moreover have "fmul (Fin q) (fconst 100) = Fin p"
      using round64_value [of "q * 100"] q q2 xm mr by (auto simp: p_def)
    moreover have "fdiv (Fin k) (fconst 100) = Fin s"
      using round64_value [of "k / 100"] k1 k2 xm mr by (auto simp: s_def)
    moreover have "fmul (Fin s) (Fin c) = Fin t"
      using round64_value [OF sc1] sc2 by (simp add: t_def)
    ultimately show ?thesis by (simp add: round2_def k_def)
  qed
  ultimately show thesis by (intro that)
qed

end
