(* ===== verification/TeslaFiClaims.thy ===== *)
theory TeslaFiClaims
  imports TeslaFiLaws
begin

section \<open>Properties of the TeslaFi export and replay\<close>

text \<open>
  A snapshot as a row and back, rows as files and back, and the replay of a recording.
\<close>

subsection \<open>One row there and back\<close>

lemma trunc_between:
  assumes "of_int l \<le> t" "t < of_int (h + 1)" "0 \<le> h"
  shows "l \<le> trunc t \<and> trunc t \<le> h"
proof (cases "0 \<le> t")
  case True
  then show ?thesis using assms by (simp add: trunc_def le_floor_iff floor_le_iff)
next
  case False
  then have "\<lceil>t\<rceil> \<le> 0" by linarith
  then have "\<lceil>t\<rceil> \<le> h" using assms(3) by linarith
  moreover have "l \<le> \<lceil>t\<rceil>" using assms(1) by (metis ceiling_mono ceiling_of_int)
  ultimately show ?thesis using False by (simp add: trunc_def)
qed

lemma f2i_between:
  assumes "of_int l \<le> t" "t < of_int (h + 1)" "0 \<le> h" "in_int64 l" "in_int64 h"
  shows "l \<le> f2i (Fin t) \<and> f2i (Fin t) \<le> h"
  using trunc_between [OF assms(1-3)] assms(4,5) by (auto simp: in_int64_def)

text \<open>A number printed whole is within a half of what was measured, and a whole number is exact.\<close>

lemma round_half_away_error: "\<bar>real_of_int (round_half_away x) - x\<bar> \<le> 1 / 2"
  unfolding round_half_away_def abs_le_iff by (cases "0 \<le> x"; simp only: if_True if_False simp_thms; linarith)

lemma whole_reading:
  assumes "\<bar>x\<bar> \<le> 2 ^ 50"
  shows "i2f (f2i (math_round (Fin x))) = Fin (of_int (round_half_away x))"
proof -
  have "real_of_int \<bar>round_half_away x\<bar> \<le> of_int (2 ^ 50 + 1)"
    using round_half_away_error [of x] assms unfolding abs_le_iff of_int_abs by simp
  then have b: "\<bar>round_half_away x\<bar> \<le> 2 ^ 50 + 1" by (simp only: of_int_le_iff)
  then have "in_int64 (round_half_away x)" by (simp add: in_int64_def minInt64_def maxInt64_def abs_le_iff)
  then have "f2i (math_round (Fin x)) = round_half_away x" using f2i_of_int by (simp del: f2i.simps)
  then show ?thesis using i2f_exact [of "round_half_away x"] b by simp
qed

definition recordable :: "(gotime \<Rightarrow> int) \<Rightarrow> gotime \<Rightarrow> bool" where
  "recordable loc t \<longleftrightarrow> loc (t + loc t * Second) = loc t \<and> t mod Second = 0 \<and>
     0 \<le> cv_year (civilOf (t + loc t * Second)) \<and> cv_year (civilOf (t + loc t * Second)) < 10000"

lemma recorded_date: "recordable loc (sn_FetchedAt snap) \<Longrightarrow> parsedDate loc (toRow snap st vid ident loc) = Some (sn_FetchedAt snap)"
  by (simp add: parsedDate_def recordable_def toRow_def Let_def rowLive_def parse_format_teslafi split: option.split)

lemma toRow_plain:
  fixes snap st vid ident loc
  defines "r \<equiv> toRow snap st vid ident loc"
  shows "tr_State r = tf_topState (st_Power st)" "tr_ChargingState r = tf_chargingState (st_Charger st) (st_Plug st)"
    "tr_ShiftState r = (if inGear (st_Gear st) then tf_shiftState (st_Gear st) else [])"
    "tr_BatteryLevel r = f2i (math_round (st_BatteryLevelPct st))"
    "tr_ChargeLimitSoc r = f2i (math_round (st_BatteryLimitPct st))"
    "tr_Heading r = f2i (math_round (st_HeadingDeg st))"
    "tr_Odometer r = round2 (metersToMiles (i2f (st_OdometerMeters st)))"
    "tr_BatteryRange r = round2 (kmToMiles (i2f (st_RangeKm st)))"
    "tr_InsideTemp r = st_CabinTempC st" "tr_OutsideTemp r = outsideTempOrDefault (st_OutsideTempC st)"
    "tr_DriverTempSetting r = st_DriverSetpointC st" "tr_CarVersion r = st_OtaVersion st"
    "tr_VehicleID r = vid" "tr_VIN r = vi_vin ident" "tr_DisplayName r = vi_name ident"
    "tr_Latitude r = (case st_Location st of None \<Rightarrow> fzero | Some l \<Rightarrow> loc_Latitude l)"
    "tr_Longitude r = (case st_Location st of None \<Rightarrow> fzero | Some l \<Rightarrow> loc_Longitude l)"
    "tr_Speed r = (if inGear (st_Gear st) then itoa (f2i (math_round (mpsToMph (st_SpeedMps st)))) else [])"
  by (simp_all add: r_def toRow_def Let_def rowLive_def split: option.split)

lemma recorded_power: "powerFromState (tf_topState p) = (if p = PowerUnknown then PowerOnline else p)"
  by (cases p) (simp_all add: powerFromState_def tf_topState_def)

lemma recorded_gear: "gearFromShift (if inGear g then tf_shiftState g else []) = (if g = GearUnknown then GearPark else g)"
  by (cases g) (simp_all add: gearFromShift_def tf_shiftState_def inGear_def)

lemma recorded_charging:
  "chargerFromState (tf_chargingState c plug) = (if plug = PlugDisconnected \<or> c = ChargerUnknown then ChargerDisconnect else c)"
  "plugFromState (tf_chargingState c plug) =
     (if plug \<noteq> PlugDisconnected \<and> c \<in> {ChargerCharging, ChargerIdle} then PlugConnected else PlugDisconnected)"
  "tf_chargingState c plug = ''Charging'' \<longleftrightarrow> plug \<noteq> PlugDisconnected \<and> c = ChargerCharging"
  by (cases c; simp add: chargerFromState_def plugFromState_def tf_chargingState_def)+

lemmas recorded_enums = recorded_power recorded_gear recorded_charging

lemma metersPerMile_tight: obtains c where "metersPerMile = Fin c" "1 \<le> c" "c \<le> 1610"
proof -
  obtain c where "metersPerMile = Fin c" "of_int 1609 \<le> c" "c \<le> of_int 1610"
    unfolding metersPerMile_def
    by (rule round64_range [of 1609 "1609344 / 1000" 1610]) (simp_all add: field_simps)
  then have "metersPerMile = Fin c \<and> 1 \<le> c \<and> c \<le> 1610" by simp
  then show thesis by (blast intro: that)
qed

lemma odometer_loss:
  assumes "0 \<le> m" "m \<le> 2 ^ 40"
  shows "m - 9 \<le> f2i (milesToMeters (round2 (metersToMiles (i2f m)))) \<and> f2i (milesToMeters (round2 (metersToMiles (i2f m)))) \<le> m + 8"
proof -
  obtain c where c: "metersPerMile = Fin c" "1 \<le> c" "c \<le> 1610" by (rule metersPerMile_tight)
  have "c \<le> 2 ^ 11" using c(3) by simp
  then obtain t where t: "fmul (round2 (fdiv (i2f m) (Fin c))) (Fin c) = Fin t" "\<bar>t - of_int m\<bar> \<le> c / 200 + 1 / 100"
    using miles_loss [OF assms c(2)] by blast
  have "of_int (m - 9) \<le> t" "t < of_int (m + 8 + 1)" using t(2) c(3) unfolding abs_le_iff by simp_all
  then have "m - 9 \<le> f2i (Fin t) \<and> f2i (Fin t) \<le> m + 8"
    using assms by (intro f2i_between) (simp_all add: in_int64_def minInt64_def maxInt64_def)
  then show ?thesis by (simp add: milesToMeters_def metersToMiles_def c(1) t(1) del: f2i.simps)
qed

lemma range_loss:
  assumes "0 \<le> k" "k \<le> 2 ^ 40"
  shows "f2i (milesToKm (round2 (kmToMiles (i2f k)))) \<in> {k - 1, k}"
proof -
  obtain c where c: "kmPerMile = Fin c" "1 \<le> c" "c \<le> 2" by (rule kmPerMile_tight)
  have "c \<le> 2 ^ 11" using c(3) by simp
  then obtain t where t: "fmul (round2 (fdiv (i2f k) (Fin c))) (Fin c) = Fin t" "\<bar>t - of_int k\<bar> \<le> c / 200 + 1 / 100"
    using miles_loss [OF assms c(2)] by blast
  have "of_int (k - 1) \<le> t" "t < of_int (k + 1)" using t(2) c(3) unfolding abs_le_iff by simp_all
  then have "k - 1 \<le> f2i (Fin t) \<and> f2i (Fin t) \<le> k"
    using assms by (intro f2i_between) (simp_all add: in_int64_def minInt64_def maxInt64_def)
  then show ?thesis by (auto simp: milesToKm_def kmToMiles_def c(1) t(1) simp del: f2i.simps)
qed

text \<open>
  C18: a snapshot that is exported and replayed keeps its time (now also the time of the reading), its
  temperatures, set point, software version and position, and every power, gear, charger and plug state
  that a row can hold: an unknown power comes back as online, an unknown gear as park, an unknown
  charger, and any of an unplugged car, as disconnected, and the plug as connected exactly when a
  plugged-in car was charging or idle. An outside temperature of zero comes back as twenty degrees, and
  a position at zero degrees of both as none. Battery level, charge limit and heading come back as whole
  numbers within a half; a range loses at most a kilometre, an odometer at most nine metres. A live
  session is there exactly for a plugged-in charging car.
\<close>

theorem recorded_reading_comes_back:
  assumes "recordable loc (sn_FetchedAt snap)" "0 \<le> st_OdometerMeters st" "st_OdometerMeters st \<le> 2 ^ 40"
    and "0 \<le> st_RangeKm st" "st_RangeKm st \<le> 2 ^ 40"
    and "st_BatteryLevelPct st = Fin b" "\<bar>b\<bar> \<le> 2 ^ 50" "st_HeadingDeg st = Fin h" "\<bar>h\<bar> \<le> 2 ^ 50"
    and "st_BatteryLimitPct st = Fin l" "\<bar>l\<bar> \<le> 2 ^ 50"
    and "s' = toSnapshot exotic loc (toRow snap st vid ident loc)"
  shows "sn_FetchedAt s' = sn_FetchedAt snap \<and> (\<exists>st'. sn_State s' = Some st' \<and>
      st_LastUpdate st' = sn_FetchedAt snap \<and>
      st_Power st' = (if st_Power st = PowerUnknown then PowerOnline else st_Power st) \<and>
      st_Gear st' = (if st_Gear st = GearUnknown then GearPark else st_Gear st) \<and>
      st_Charger st' = (if st_Plug st = PlugDisconnected \<or> st_Charger st = ChargerUnknown then ChargerDisconnect else st_Charger st) \<and>
      st_Plug st' = (if st_Plug st \<noteq> PlugDisconnected \<and> st_Charger st \<in> {ChargerCharging, ChargerIdle}
        then PlugConnected else PlugDisconnected) \<and>
      (sn_Live s' \<noteq> None \<longleftrightarrow> st_Plug st \<noteq> PlugDisconnected \<and> st_Charger st = ChargerCharging) \<and>
      (\<exists>b'. st_BatteryLevelPct st' = Fin (of_int b') \<and> \<bar>of_int b' - b\<bar> \<le> 1 / 2) \<and>
      (\<exists>l'. st_BatteryLimitPct st' = Fin (of_int l') \<and> \<bar>of_int l' - l\<bar> \<le> 1 / 2) \<and>
      (\<exists>h'. st_HeadingDeg st' = Fin (of_int h') \<and> \<bar>of_int h' - h\<bar> \<le> 1 / 2) \<and>
      st_RangeKm st' \<in> {st_RangeKm st - 1, st_RangeKm st} \<and>
      st_OdometerMeters st - 9 \<le> st_OdometerMeters st' \<and> st_OdometerMeters st' \<le> st_OdometerMeters st + 8 \<and>
      st_Location st' = (case st_Location st of None \<Rightarrow> None
        | Some p \<Rightarrow> if feq (loc_Latitude p) fzero \<and> feq (loc_Longitude p) fzero then None
            else Some (p\<lparr>loc_TimeStamp := sn_FetchedAt snap\<rparr>)) \<and>
      st_CabinTempC st' = st_CabinTempC st \<and> st_DriverSetpointC st' = st_DriverSetpointC st \<and>
      st_OtaVersion st' = st_OtaVersion st \<and>
      st_OutsideTempC st' = (if feq (st_OutsideTempC st) fzero then fconst 20 else st_OutsideTempC st))"
proof -
  have d: "dateOrZero loc (toRow snap st vid ident loc) = sn_FetchedAt snap"
    by (simp add: dateOrZero_def recorded_date [OF assms(1)])
  note dist = odometer_loss [OF assms(2,3)] range_loss [OF assms(4,5)]
  note whole = whole_reading [OF assms(7)] whole_reading [OF assms(9)] whole_reading [OF assms(11)]
  have place: "(if fne la fzero \<or> fne lo fzero then Some \<lparr>loc_Latitude = la, loc_Longitude = lo, loc_TimeStamp = t\<rparr> else None) =
      (case st_Location st of None \<Rightarrow> None
        | Some p \<Rightarrow> if feq (loc_Latitude p) fzero \<and> feq (loc_Longitude p) fzero then None
            else Some (p\<lparr>loc_TimeStamp := t\<rparr>))"
    if "la = (case st_Location st of None \<Rightarrow> fzero | Some p \<Rightarrow> loc_Latitude p)"
      "lo = (case st_Location st of None \<Rightarrow> fzero | Some p \<Rightarrow> loc_Longitude p)" for la lo t
    using that by (cases "st_Location st") auto
  show ?thesis
    using dist round_half_away_error [of b] round_half_away_error [of h] round_half_away_error [of l]
    unfolding assms(12) toSnapshot_def Let_def d toRow_plain recorded_enums assms(6,8,10) whole
      outsideTempOrDefault_def place [OF refl refl]
    by (simp add: zeroSnapshot_def zeroState_def)
qed

text \<open>A car that charges, at noon of the second day, in a location an hour off.\<close>

definition noonState :: state where
  "noonState = zeroState\<lparr>st_Power := PowerOnline, st_OdometerMeters := 1234567, st_RangeKm := 300,
     st_BatteryLevelPct := Fin (129 / 2), st_Charger := ChargerCharging, st_Plug := PlugConnected, st_CabinTempC := Fin 21\<rparr>"

definition noonSnap :: snapshot where
  "noonSnap = zeroSnapshot\<lparr>sn_State := Some noonState, sn_FetchedAt := 36 * Hour\<rparr>"

lemma noon_recordable: "recordable (\<lambda>_. 3600) (36 * Hour)"
proof -
  have "cv_year (civilOf (36 * Hour + 3600 * Second)) = yearOf ((36 * Hour + 3600 * Second) div (24 * Hour))"
    by (simp add: civilOf_def Let_def split: prod.split)
  also have "(36 * Hour + 3600 * Second) div (24 * Hour) = 1" by simp
  also have "yearOf 1 = 1" by (simp add: yearOf_def daysBefore_def)
  finally show ?thesis by (simp add: recordable_def)
qed

lemma recorded_reading_comes_back_witness:
  "\<exists>st'. sn_State (toSnapshot (\<lambda>_. None) (\<lambda>_. 3600)
      (toRow noonSnap noonState 1 \<lparr>vi_name = ''Car'', vi_vin = ''5YJ''\<rparr> (\<lambda>_. 3600))) = Some st' \<and>
    st_RangeKm st' \<in> {299, 300} \<and> st_Gear st' = GearPark \<and> st_Plug st' = PlugConnected \<and> st_CabinTempC st' = Fin 21"
  using recorded_reading_comes_back [of "\<lambda>_. 3600" noonSnap noonState "129 / 2" 0 0 _ "\<lambda>_. None" 1 "\<lparr>vi_name = ''Car'', vi_vin = ''5YJ''\<rparr>"]
    noon_recordable
  by (auto simp: noonSnap_def noonState_def zeroState_def)

subsection \<open>Replay\<close>

definition rowsFor :: "string \<Rightarrow> teslafiRow list \<Rightarrow> teslafiRow list" where
  "rowsFor vid = filter (\<lambda>r. itoa (tr_VehicleID r) = vid)"

lemma indexRow_fields [simp]: "cs_loc (indexRow r s) = cs_loc s" "cs_scale (indexRow r s) = cs_scale s"
  "cs_start (indexRow r s) = cs_start s" "cs_firstDate (indexRow r s) = cs_firstDate s"
  by (simp_all add: indexRow_def Let_def)

lemma fold_indexRow_fields [simp]: "cs_loc (fold indexRow rows s) = cs_loc s" "cs_scale (fold indexRow rows s) = cs_scale s"
  "cs_start (fold indexRow rows s) = cs_start s" "cs_firstDate (fold indexRow rows s) = cs_firstDate s"
  by (induction rows arbitrary: s) simp_all

lemma fold_indexRow_rows:
  "cs_rows (fold indexRow rows s) vid = (if rowsFor vid rows = [] then cs_rows s vid
     else Some ((case cs_rows s vid of None \<Rightarrow> [] | Some rs \<Rightarrow> rs) @ rowsFor vid rows))"
proof (induction rows arbitrary: s)
  case (Cons r rows)
  have "cs_rows (indexRow r s) vid = (if itoa (tr_VehicleID r) = vid
      then Some ((case cs_rows s vid of None \<Rightarrow> [] | Some rs \<Rightarrow> rs) @ [r]) else cs_rows s vid)"
    by (simp add: indexRow_def Let_def)
  then show ?case by (auto simp: Cons.IH rowsFor_def)
qed (simp add: rowsFor_def)

lemma newCsvSource_rows:
  "cs_rows (newCsvSource loc scale start all) vid =
     (if rowsFor vid all = [] then None else Some (sort_key (dateOrZero loc) (rowsFor vid all)))"
  by (simp add: newCsvSource_def csv_index_def Let_def fold_indexRow_rows)

lemma newCsvSource_fields [simp]: "cs_loc (newCsvSource loc scale start all) = loc"
  "cs_scale (newCsvSource loc scale start all) = (if fle scale fzero then Fin 1 else scale)"
  "cs_start (newCsvSource loc scale start all) = start"
  by (simp_all add: newCsvSource_def csv_index_def Let_def)

text \<open>The row shown is the latest that is due; before the first it is the first.\<close>

lemma due_row:
  fixes cursor :: "'a :: linorder"
  assumes s: "sorted (map f rs)" and ne: "rs \<noteq> []"
  defines "n \<equiv> length (takeWhile (\<lambda>r. f r \<le> cursor) rs)"
  defines "r \<equiv> rs ! (if n = 0 then 0 else n - 1)"
  shows "r \<in> set rs" "\<And>r'. r' \<in> set rs \<Longrightarrow> f r' \<le> max cursor (f r) \<Longrightarrow> f r' \<le> f r"
    "f r \<le> cursor \<or> (\<forall>r' \<in> set rs. cursor < f r' \<and> f r \<le> f r')"
proof -
  have n: "n \<le> length rs" by (simp add: n_def length_takeWhile_le)
  show m: "r \<in> set rs" using n ne by (auto simp: r_def)
  have mono: "i \<le> j \<Longrightarrow> j < length rs \<Longrightarrow> f (rs ! i) \<le> f (rs ! j)" for i j
    using s by (auto simp: sorted_iff_nth_mono)
  have late: "cursor < f (rs ! i)" if "n \<le> i" "i < length rs" for i
  proof -
    have "n < length rs" using that by simp
    then have "\<not> f (rs ! n) \<le> cursor" unfolding n_def by (rule nth_length_takeWhile)
    then show ?thesis using mono [OF that] by simp
  qed
  have early: "f (rs ! i) \<le> cursor" if "i < n" for i
    using that unfolding n_def by (metis nth_mem set_takeWhileD takeWhile_nth)
  show "f r' \<le> f r" if r': "r' \<in> set rs" "f r' \<le> max cursor (f r)" for r'
  proof -
    obtain i where i: "r' = rs ! i" "i < length rs" using r'(1) by (auto simp: in_set_conv_nth)
    show ?thesis
    proof (cases "i < n")
      case True
      then show ?thesis using mono [of i "n - 1"] n by (simp add: i r_def)
    next
      case False
      then have "\<not> f r' \<le> cursor" using late [of i] i by auto
      then show ?thesis using r'(2) by (simp add: max_def split: if_splits)
    qed
  qed
  show "f r \<le> cursor \<or> (\<forall>r' \<in> set rs. cursor < f r' \<and> f r \<le> f r')"
  proof (cases "n = 0")
    case True
    then show ?thesis using late mono [of 0] ne by (auto simp: r_def in_set_conv_nth)
  next
    case False
    then show ?thesis using early [of "n - 1"] by (simp add: r_def)
  qed
qed

lemma shown_row:
  assumes "\<forall>r \<in> set all. parsedDate loc r \<noteq> None" "rowsFor vid all \<noteq> []" "s = newCsvSource loc scale start all"
  shows "\<exists>r \<in> set (rowsFor vid all). csv_Poll exotic now vid s = Inr (toSnapshot exotic loc r) \<and>
     (\<forall>r' \<in> set (rowsFor vid all). dateOrZero loc r' \<le> csv_cursor now s \<longrightarrow> dateOrZero loc r' \<le> dateOrZero loc r) \<and>
     (csv_cursor now s < dateOrZero loc r \<longrightarrow> (\<forall>r' \<in> set (rowsFor vid all). dateOrZero loc r \<le> dateOrZero loc r'))"
proof -
  let ?f = "dateOrZero loc" and ?c = "csv_cursor now s"
  define rs where "rs = sort_key ?f (rowsFor vid all)"
  have set: "set rs = set (rowsFor vid all)" by (simp add: rs_def)
  have sorted: "sorted (map ?f rs)" and ne: "rs \<noteq> []" using assms(2) by (simp_all add: rs_def flip: set_empty)
  have ok: "\<forall>r \<in> set rs. parsedDate loc r \<noteq> None" using assms(1) by (auto simp: set rowsFor_def)
  have rows: "cs_rows s vid = Some rs" using assms(2) by (simp add: assms(3) newCsvSource_rows rs_def)
  define i where "i = (let n = length (takeWhile (\<lambda>r. ?f r \<le> ?c) rs) in if n = 0 then 0 else n - 1)"
  have loc: "cs_loc s = loc" by (simp add: assms(3))
  have "csv_Poll exotic now vid s = Inr (toSnapshot exotic loc (rs ! i))"
    by (simp add: csv_Poll_def rows ne loc cursorIndex_spec [OF sorted ok] i_def)
  then show ?thesis
    using due_row [OF sorted ne, where cursor = ?c] unfolding set [symmetric] i_def Let_def
    by (intro bexI conjI ballI impI) auto
qed

text \<open>
  The replay shows, at every moment, the latest recorded row of the vehicle that is due at the cursor,
  and before the first is due the first.
\<close>

theorem replay_shows_what_is_due:
  assumes "\<forall>r \<in> set all. parsedDate loc r \<noteq> None" "rowsFor vid all \<noteq> []" "s = newCsvSource loc scale start all"
  shows "\<exists>r \<in> set (rowsFor vid all). csv_Poll exotic now vid s = Inr (toSnapshot exotic loc r) \<and>
     (\<forall>r' \<in> set (rowsFor vid all). dateOrZero loc r' \<le> csv_cursor now s \<longrightarrow> dateOrZero loc r' \<le> dateOrZero loc r) \<and>
     (csv_cursor now s < dateOrZero loc r \<longrightarrow> (\<forall>r' \<in> set (rowsFor vid all). dateOrZero loc r \<le> dateOrZero loc r'))"
  using shown_row [OF assms] .

definition noonRow :: teslafiRow where
  "noonRow = toRow noonSnap noonState 1 \<lparr>vi_name = ''Car'', vi_vin = ''5YJ''\<rparr> (\<lambda>_. 3600)"

lemma itoa_1: "itoa 1 = ''1''"
  by code_simp

lemma noonRow_parses: "parsedDate (\<lambda>_. 3600) noonRow = Some (36 * Hour)" "rowsFor ''1'' [noonRow] = [noonRow]"
  using recorded_date [of "\<lambda>_. 3600" noonSnap] noon_recordable
  by (simp_all add: noonRow_def noonSnap_def rowsFor_def toRow_plain itoa_1)

lemma replay_shows_what_is_due_witness:
  "csv_Poll (\<lambda>_. None) 0 ''1'' (newCsvSource (\<lambda>_. 3600) (Fin 1) 0 [noonRow]) = Inr (toSnapshot (\<lambda>_. None) (\<lambda>_. 3600) noonRow)"
  using replay_shows_what_is_due [of "[noonRow]" "\<lambda>_. 3600" "''1''" _ "Fin 1" 0 "\<lambda>_. None" 0] noonRow_parses
  by auto

lemma round64_upto:
  assumes "0 \<le> y" "y \<le> 2 ^ 62" shows "round64 y = Fin (rnd y)" "0 \<le> rnd y" "rnd y \<le> 2 ^ 62 + 512"
proof -
  have "rnd y \<le> rnd (2 ^ 62)" using assms(2) by (rule rnd_mono)
  also have "\<dots> \<le> 2 ^ 62 + 2 ^ 62 / 2 ^ 53" by (rule conjunct1 [OF rnd_upto]) simp
  also have "\<dots> = (2 ^ 62 + 512 :: real)" by simp
  finally show u: "rnd y \<le> 2 ^ 62 + 512" .
  show l: "0 \<le> rnd y" using assms(1) by (rule rnd_nonneg)
  have "\<bar>rnd y\<bar> \<le> 2 ^ 63" using u l by (simp add: abs_of_nonneg)
  also have "(2 :: real) ^ 63 < 2 ^ 1024" by (rule power_strict_increasing) simp_all
  finally have "\<bar>rnd y\<bar> < 2 ^ 1024" .
  then show "round64 y = Fin (rnd y)" by (simp add: round64_rnd)
qed

lemma rnd_double: "1 \<le> y \<Longrightarrow> rnd y \<le> 2 * y"
  using rnd_upto [of y] by auto

lemma fits: "0 \<le> n \<Longrightarrow> n \<le> 2 ^ 62 + 512 \<Longrightarrow> in_int64 n"
  by (simp add: in_int64_def minInt64_def maxInt64_def)

text \<open>The elapsed time scaled, as the cursor adds it to the first date.\<close>

lemma scaled_mono:
  assumes "0 \<le> d" "d \<le> d'" "0 < x" "of_int d' * x \<le> 2 ^ 61" "d' \<le> 2 ^ 62"
  shows "f2i (fmul (i2f d) (Fin x)) \<le> f2i (fmul (i2f d') (Fin x))"
proof -
  have one: "\<exists>p. fmul (i2f e) (Fin x) = Fin p \<and> p = rnd (rnd (of_int e) * x) \<and> 0 \<le> p \<and> p \<le> 2 ^ 62 + 512 \<and> 0 \<le> rnd (of_int e) * x"
    if "0 \<le> e" "e \<le> d'" for e
  proof -
    have e: "real_of_int e \<le> 2 ^ 62"
      using that(2) assms(5) by (metis of_int_le_iff of_int_numeral of_int_power order_trans)
    have "0 \<le> rnd (of_int e)" using that(1) by (intro rnd_nonneg) simp
    then have l: "0 \<le> rnd (of_int e) * x" using assms(3) by simp
    have "rnd (of_int e) \<le> 2 * of_int e" using that(1) rnd_double [of "of_int e"] by (cases "e = 0") auto
    then have "rnd (of_int e) * x \<le> 2 * of_int e * x" using assms(3) by (intro mult_right_mono) auto
    also have "\<dots> \<le> 2 * of_int d' * x" using that(2) assms(3) by (intro mult_right_mono) auto
    finally have u: "rnd (of_int e) * x \<le> 2 ^ 62" using assms(4) by simp
    show ?thesis using round64_upto [OF l u] round64_upto [of "of_int e"] that(1) e l by (simp add: i2f_def)
  qed
  obtain p where p: "fmul (i2f d) (Fin x) = Fin p" "p = rnd (rnd (of_int d) * x)" "0 \<le> p" using one [of d] assms by auto
  obtain p' where p': "fmul (i2f d') (Fin x) = Fin p'" "p' = rnd (rnd (of_int d') * x)" "p' \<le> 2 ^ 62 + 512" using one [of d'] assms by auto
  have "rnd (real_of_int d) \<le> rnd (of_int d')" using assms(2) by (intro rnd_mono) simp
  then have "rnd (of_int d) * x \<le> rnd (of_int d') * x" using assms(3) by (intro mult_right_mono) simp_all
  then have pp: "p \<le> p'" unfolding p(2) p'(2) by (rule rnd_mono)
  then have "\<lfloor>p\<rfloor> \<le> \<lfloor>p'\<rfloor>" by (rule floor_mono)
  moreover have "\<lfloor>p'\<rfloor> \<le> 2 ^ 62 + 512" using p'(3) by (simp add: floor_le_iff)
  moreover have "0 \<le> \<lfloor>p\<rfloor>" using p(3) by simp
  ultimately have "in_int64 \<lfloor>p\<rfloor>" "in_int64 \<lfloor>p'\<rfloor>" using fits \<open>\<lfloor>p\<rfloor> \<le> \<lfloor>p'\<rfloor>\<close> by (blast intro: order_trans)+
  then show ?thesis using p p' pp \<open>\<lfloor>p\<rfloor> \<le> \<lfloor>p'\<rfloor>\<close> by (simp add: trunc_def)
qed

text \<open>
  As long as the replayed time stays below 73 years, a replay never goes back: what it shows later was
  recorded no earlier.
\<close>

theorem replay_never_goes_back:
  assumes "\<forall>r \<in> set all. parsedDate loc r \<noteq> None" "rowsFor vid all \<noteq> []" "s = newCsvSource loc (Fin x) start all"
    and "0 < x" "start \<le> now" "now \<le> now'" "now' - start \<le> 2 ^ 62" "of_int (now' - start) * x \<le> 2 ^ 61"
    and "csv_Poll exotic now vid s = Inr a" "csv_Poll exotic now' vid s = Inr b"
  shows "sn_FetchedAt a \<le> sn_FetchedAt b"
proof -
  let ?f = "dateOrZero loc" and ?rs = "set (rowsFor vid all)"
  have sub: "time_sub n start = n - start" if "start \<le> n" "n \<le> now'" for n
    using that assms(7) by (intro time_sub_exact fits) simp_all
  have "fle (Fin x) fzero = False" using assms(4) by (simp add: fle_def)
  then have mono: "csv_cursor now s \<le> csv_cursor now' s"
    using scaled_mono [of "now - start" "now' - start" x] assms(4-8) by (simp add: csv_cursor_def assms(3) sub del: f2i.simps)
  obtain r where r: "r \<in> ?rs" "csv_Poll exotic now vid s = Inr (toSnapshot exotic loc r)"
    "csv_cursor now s < ?f r \<longrightarrow> (\<forall>r' \<in> ?rs. ?f r \<le> ?f r')"
    using shown_row [OF assms(1-3), of exotic now] by blast
  obtain r' where r': "r' \<in> ?rs" "csv_Poll exotic now' vid s = Inr (toSnapshot exotic loc r')"
    "\<forall>q \<in> ?rs. ?f q \<le> csv_cursor now' s \<longrightarrow> ?f q \<le> ?f r'"
    using shown_row [OF assms(1-3), of exotic now'] by blast
  have "?f r \<le> ?f r'"
  proof (cases "csv_cursor now s < ?f r")
    case False
    then have "?f r \<le> csv_cursor now' s" using mono by simp
    then show ?thesis using r(1) r'(3) by blast
  qed (use r(3) r'(1) in blast)
  then show ?thesis using r(2) r'(2) assms(9,10) by (auto simp: toSnapshot_def Let_def)
qed

lemma replay_never_goes_back_witness:
  "sn_FetchedAt (projr (csv_Poll (\<lambda>_. None) 5 ''1'' (newCsvSource (\<lambda>_. 3600) (Fin 2) 0 [noonRow]))) \<le>
   sn_FetchedAt (projr (csv_Poll (\<lambda>_. None) 9 ''1'' (newCsvSource (\<lambda>_. 3600) (Fin 2) 0 [noonRow])))"
proof -
  have p: "\<forall>r \<in> set [noonRow]. parsedDate (\<lambda>_. 3600) r \<noteq> None" "rowsFor ''1'' [noonRow] \<noteq> []"
    by (simp_all add: noonRow_parses)
  obtain a where a: "csv_Poll (\<lambda>_. None) 5 ''1'' (newCsvSource (\<lambda>_. 3600) (Fin 2) 0 [noonRow]) = Inr a"
    using shown_row [OF p refl, of "\<lambda>_. None" 5 "Fin 2" 0] by blast
  obtain b where b: "csv_Poll (\<lambda>_. None) 9 ''1'' (newCsvSource (\<lambda>_. 3600) (Fin 2) 0 [noonRow]) = Inr b"
    using shown_row [OF p refl, of "\<lambda>_. None" 9 "Fin 2" 0] by blast
  show ?thesis using replay_never_goes_back [OF p refl _ _ _ _ _ a b] by (simp add: a b)
qed

subsection \<open>Export and import\<close>

lemma writeFiles_done: "writeFiles wok ms d = (None, d') \<Longrightarrow> \<forall>n \<in> set (map fst ms). wok n"
  by (induction wok ms d rule: writeFiles.induct) (auto split: if_splits)

lemma map_of_rev: "distinct (map fst ms) \<Longrightarrow> map_of (rev ms) = map_of ms"
  by (subst map_of_inject_set) (simp_all add: rev_map [symmetric])

text \<open>
  C17: an export that succeeds in a directory without recordings can be read back: exactly the exported rows,
  one for every sample with a state, in the order of their dates.
\<close>

theorem export_comes_back:
  assumes "exportHistory mkdirOk wok loc exportDir prov samples d = (None, d')"
    and "\<forall>n \<in> dom d. \<not> isTeslaFi n" "distinct names" "set names = dom d'"
  shows "\<exists>rs. readDir loc names d' = Inr rs \<and> sorted (map (dateOrZero loc) rs) \<and>
     mset rs = mset (fst (exportRows loc samples (numberCars 1 (pv_Vehicles prov) Map.empty)))"
proof -
  define rows where "rows = fst (exportRows loc samples (numberCars 1 (pv_Vehicles prov) Map.empty))"
  obtain ms where ms: "byMonth loc rows [] = Some ms" "writeFiles wok ms d = (None, d')"
    using assms(1) by (auto simp: exportHistory_def writeMonthly_def rows_def split: if_splits option.splits)
  have sp: "rowsOf ms = mset rows" "distinct (map fst ms)" "list_all isTeslaFi (map fst ms)"
    using byMonth_spec [OF ms(1)] by (simp_all add: fileName_isTeslaFi rowsOf_def)
  have d': "d' = d ++ (\<lambda>n. map_option Some (map_of ms n))"
    using writeFiles_all [of ms wok d] writeFiles_done [OF ms(2)] ms(2) by (simp add: map_of_rev [OF sp(2)])
  define ns where "ns = sort (filter isTeslaFi names)"
  have "set ns = {n \<in> dom d'. isTeslaFi n}" using assms(4) by (auto simp: ns_def)
  also have "\<dots> = set (map fst ms)"
    using assms(2) sp(3) by (auto simp: d' map_add_def dom_def list_all_iff map_of_eq_None_iff split: option.splits)
  finally have ns: "set ns = set (map fst ms)" .
  have "readFiles d' ns = Inr (concat (map (\<lambda>n. the (map_of ms n)) ns))"
  proof (rule readFiles_all)
    fix n assume "n \<in> set ns"
    then obtain r where "map_of ms n = Some r" using ns by (metis map_of_eq_None_iff not_None_eq set_map)
    then show "d' n = Some (Some (the (map_of ms n)))" by (simp add: d' map_add_def)
  qed
  moreover have "mset (concat (map (\<lambda>n. the (map_of ms n)) ns)) = mset rows"
    using rowsOf_names [OF sp(2) _ ns] assms(3) by (simp add: ns_def sp(1))
  ultimately show ?thesis by (simp add: readDir_def rows_def flip: ns_def)
qed

text \<open>One sample exported to an empty directory.\<close>

definition noonProvider :: provider where
  "noonProvider = \<lparr>pv_Vehicles = [\<lparr>id_ID = ''g1'', id_VIN = ''5YJ'', id_DisplayName = ''Car'', id_Make = ''Tesla'', id_Model = ''3''\<rparr>],
     pv_Latest = (\<lambda>_. noonSnap), pv_Stats = (\<lambda>_. zeroStats)\<rparr>"

lemma export_comes_back_witness:
  "\<exists>d' rs. exportHistory True (\<lambda>_. True) (\<lambda>_. 3600) ''out'' noonProvider [(''g1'', noonSnap)] Map.empty = (None, d') \<and>
     readDir (\<lambda>_. 3600) [fileName (36 * Hour) 3600] d' = Inr rs \<and> mset rs = {#noonRow#}"
proof -
  let ?e = "exportHistory True (\<lambda>_. True) (\<lambda>_. 3600) ''out'' noonProvider [(''g1'', noonSnap)] Map.empty"
  have rows: "fst (exportRows (\<lambda>_. 3600) [(''g1'', noonSnap)] (numberCars 1 (pv_Vehicles noonProvider) Map.empty)) = [noonRow]"
    by (simp add: noonProvider_def noonRow_def noonSnap_def)
  have e: "?e = (None, [fileName (36 * Hour) 3600 \<mapsto> Some [noonRow]])"
    unfolding exportHistory_def rows writeMonthly_def by (simp add: noonRow_parses)
  show ?thesis
    using export_comes_back [OF e, of "[fileName (36 * Hour) 3600]"] e unfolding rows by auto
qed

end
