(* ===== verification/Tokens.thy ===== *)
theory Tokens
  imports Json
begin

section \<open>The Tesla token manager\<close>

text \<open>
  \<^verbatim>\<open>internal/protocol/tesla/auth\<close>: the creds file, the exchange of a refresh token, the manager with its
  refresh and schedule, the callers that compete for a refresh, and the registry of managers.

  The disk is a map from path to content, None for a file that holds no JSON text.  The answer of the token
  endpoint and the success of the disk calls are arguments.  A manager's creds and lifetime are only
  written by a caller that holds \<^verbatim>\<open>refreshMu\<close>, so \<open>tm_refresh\<close> is one step; what happens between
  the callers is the step relation at the end.
\<close>

subsection \<open>Creds\<close>

record creds =
  cr_AccessToken :: string
  cr_RefreshToken :: string
  cr_ExpiresAt :: int
  cr_ClientID :: string
  cr_TokenURL :: string
  cr_Scope :: string

definition defaultTokenURL :: string where
  "defaultTokenURL = ''https://auth.tesla.com/oauth2/v3/token''"

definition defaultScope :: string where
  "defaultScope = ''openid email offline_access''"

definition creds_applyDefaults :: "creds \<Rightarrow> creds" where
  "creds_applyDefaults c =
     (let c1 = (if cr_TokenURL c = [] then c\<lparr>cr_TokenURL := defaultTokenURL\<rparr> else c)
      in if cr_Scope c1 = [] then c1\<lparr>cr_Scope := defaultScope\<rparr> else c1)"

definition canRefresh :: "creds \<Rightarrow> bool" where
  "canRefresh c \<longleftrightarrow> cr_ClientID c \<noteq> [] \<and> cr_RefreshToken c \<noteq> []"

datatype authError = CredsUnreadable | CredsMalformed | NoAccessToken | CredsUnwritable | CredsNotReplaced
  | RefreshDisabled | RefreshError int string | ExchangeFailed string | NoTokenInResponse

text \<open>The members of the file; the optional ones are left out when empty.\<close>

definition omitEmpty :: "string \<Rightarrow> json option" where
  "omitEmpty s = (if s = [] then None else Some (JStr s))"

definition encodeCreds :: "creds \<Rightarrow> json" where
  "encodeCreds c = JObj (present
     [(''access_token'', Some (JStr (cr_AccessToken c))),
      (''refresh_token'', Some (JStr (cr_RefreshToken c))),
      (''expires_at'', if cr_ExpiresAt c = 0 then None else Some (JInt (cr_ExpiresAt c))),
      (''client_id'', omitEmpty (cr_ClientID c)),
      (''token_url'', omitEmpty (cr_TokenURL c)),
      (''scope'', omitEmpty (cr_Scope c))])"

text \<open>An \<^verbatim>\<open>int64\<close> field takes integers in range only.\<close>

definition fieldInt64 :: "string \<Rightarrow> (string \<times> json) list \<Rightarrow> int option" where
  "fieldInt64 k kvs = (case map_of kvs k of None \<Rightarrow> Some 0 | Some JNull \<Rightarrow> Some 0
     | Some (JInt n) \<Rightarrow> (if in_int64 n then Some n else None) | _ \<Rightarrow> None)"

definition decodeCreds :: "json \<Rightarrow> creds option" where
  "decodeCreds j = (case (case j of JNull \<Rightarrow> Some [] | JObj m \<Rightarrow> Some m | _ \<Rightarrow> None) of None \<Rightarrow> None
   | Some m \<Rightarrow> (case (fieldStr ''access_token'' m, fieldStr ''refresh_token'' m, fieldInt64 ''expires_at'' m,
         fieldStr ''client_id'' m, fieldStr ''token_url'' m, fieldStr ''scope'' m) of
       (Some a, Some r, Some e, Some c, Some u, Some s) \<Rightarrow> Some \<lparr>cr_AccessToken = a, cr_RefreshToken = r,
         cr_ExpiresAt = e, cr_ClientID = c, cr_TokenURL = u, cr_Scope = s\<rparr>
     | _ \<Rightarrow> None))"

type_synonym disk = "string \<rightharpoonup> json option"

definition tesla_LoadCreds :: "disk \<Rightarrow> string \<Rightarrow> authError + creds" where
  "tesla_LoadCreds disk path = (case disk path of None \<Rightarrow> Inl CredsUnreadable
     | Some None \<Rightarrow> Inl CredsMalformed
     | Some (Some j) \<Rightarrow> (case decodeCreds j of None \<Rightarrow> Inl CredsMalformed
         | Some c \<Rightarrow> if cr_AccessToken c = [] then Inl NoAccessToken else Inr (creds_applyDefaults c)))"

text \<open>What saving does to the disk, operation by operation: a crash runs a prefix of it.\<close>

datatype diskOp = Truncate string | Fill string json | Move string string | Remove string

fun applyOp :: "diskOp \<Rightarrow> disk \<Rightarrow> disk" where
  "applyOp (Truncate p) d = d(p \<mapsto> None)"
| "applyOp (Fill p j) d = d(p \<mapsto> Some j)"
| "applyOp (Move p q) d = (d(q := d p))(p := None)"
| "applyOp (Remove p) d = d(p := None)"

datatype writeOutcome = WriteOk | OpenFails | WriteFails

definition saveOps :: "string \<Rightarrow> creds \<Rightarrow> writeOutcome \<Rightarrow> bool \<Rightarrow> diskOp list" where
  "saveOps path c wr renameOk = (let tmp = path @ ''.tmp'' in case wr of
     OpenFails \<Rightarrow> []
   | WriteFails \<Rightarrow> [Truncate tmp]
   | WriteOk \<Rightarrow> [Truncate tmp, Fill tmp (encodeCreds c)] @ (if renameOk then [Move tmp path] else [Remove tmp]))"

definition tesla_SaveCreds ::
  "string \<Rightarrow> creds \<Rightarrow> writeOutcome \<Rightarrow> bool \<Rightarrow> disk \<Rightarrow> authError option \<times> disk" where
  "tesla_SaveCreds path c wr renameOk disk =
     ((if wr \<noteq> WriteOk then Some CredsUnwritable else if renameOk then None else Some CredsNotReplaced),
      fold applyOp (saveOps path c wr renameOk) disk)"

subsection \<open>The exchange\<close>

record tokenResponse =
  tk_AccessToken :: string
  tk_RefreshToken :: string
  tk_ExpiresIn :: int

text \<open>The HTTP call: an error, or the status, the text and the decoded body (zero when there is none).\<close>

type_synonym tokenEndpoint = "creds \<Rightarrow> string + int \<times> string \<times> tokenResponse"

definition exchangeRefreshToken :: "tokenEndpoint \<Rightarrow> creds \<Rightarrow> authError + tokenResponse" where
  "exchangeRefreshToken post c = (case post c of
     Inl e \<Rightarrow> Inl (ExchangeFailed e)
   | Inr (status, body, out) \<Rightarrow> if 399 < status then Inl (RefreshError status body)
       else if tk_AccessToken out = [] then Inl NoTokenInResponse else Inr out)"

fun refreshTerminal :: "authError \<Rightarrow> bool" where
  "refreshTerminal (RefreshError status _) = (status = 400 \<or> status = 401)"
| "refreshTerminal _ = False"

subsection \<open>The manager\<close>

record tokenManager =
  tm_path :: string
  tm_creds :: creds
  tm_ttl :: duration
  tm_retryFloor :: duration

definition defaultRetryFloor :: duration where "defaultRetryFloor = 5 * Minute"
definition defaultTokenLifetime :: duration where "defaultTokenLifetime = 8 * Hour"

definition newTokenManager :: "string \<Rightarrow> creds \<Rightarrow> tokenManager" where
  "newTokenManager path c = \<lparr>tm_path = path, tm_creds = c, tm_ttl = 0, tm_retryFloor = defaultRetryFloor\<rparr>"

definition tm_Token :: "tokenManager \<Rightarrow> string" where
  "tm_Token m = cr_AccessToken (tm_creds m)"

text \<open>The early answers of a refresh; None is to go on with the exchange.\<close>

definition refreshCheck :: "string \<Rightarrow> tokenManager \<Rightarrow> (authError + string) option" where
  "refreshCheck stale m =
     (let cur = tm_creds m in
      if \<not> canRefresh cur then Some (Inl RefreshDisabled)
      else if stale \<noteq> [] \<and> cr_AccessToken cur \<noteq> stale then Some (Inr (cr_AccessToken cur))
      else None)"

definition unixSec :: "gotime \<Rightarrow> int" where
  "unixSec t = (t - unixEpoch) div Second"

definition responseTtl :: "tokenResponse \<Rightarrow> duration" where
  "responseTtl resp =
     wrap64 ((if tk_ExpiresIn resp \<le> 0 then go_quot defaultTokenLifetime Second else tk_ExpiresIn resp) * Second)"

definition installTokens :: "gotime \<Rightarrow> tokenResponse \<Rightarrow> tokenManager \<Rightarrow> tokenManager" where
  "installTokens now resp m =
     (let ttl = responseTtl resp;
          c1 = (tm_creds m)\<lparr>cr_AccessToken := tk_AccessToken resp\<rparr>;
          c2 = (if tk_RefreshToken resp \<noteq> [] then c1\<lparr>cr_RefreshToken := tk_RefreshToken resp\<rparr> else c1);
          c3 = c2\<lparr>cr_ExpiresAt := unixSec (now + ttl)\<rparr>
      in m\<lparr>tm_creds := c3, tm_ttl := ttl\<rparr>)"

text \<open>What the outside does in one refresh: the endpoint, the clock when it answered, the disk calls.\<close>

record refreshEnv =
  re_post :: tokenEndpoint
  re_now :: gotime
  re_write :: writeOutcome
  re_rename :: bool

definition tm_refresh :: "refreshEnv \<Rightarrow> string \<Rightarrow> tokenManager \<Rightarrow> disk \<Rightarrow> (authError + string) \<times> tokenManager \<times> disk" where
  "tm_refresh e stale m disk = (case refreshCheck stale m of Some r \<Rightarrow> (r, m, disk)
   | None \<Rightarrow> (case exchangeRefreshToken (re_post e) (tm_creds m) of
       Inl err \<Rightarrow> (Inl err, m, disk)
     | Inr resp \<Rightarrow>
         (let m1 = installTokens (re_now e) resp m;
              (_, disk1) = tesla_SaveCreds (tm_path m1) (tm_creds m1) (re_write e) (re_rename e) disk
          in (Inr (tk_AccessToken resp), m1, disk1))))"

definition tm_RefreshAfter401 :: "refreshEnv \<Rightarrow> string \<Rightarrow> tokenManager \<Rightarrow> disk \<Rightarrow> (authError + string) \<times> tokenManager \<times> disk" where
  "tm_RefreshAfter401 e stale m disk = tm_refresh e stale m disk"

subsection \<open>The schedule\<close>

definition nextRefreshDelay :: "gotime \<Rightarrow> tokenManager \<Rightarrow> duration" where
  "nextRefreshDelay now m =
     (let exp = cr_ExpiresAt (tm_creds m) in
      if exp = 0 then 0
      else let remaining = time_sub (fromUnixSec exp) now;
               ttl = (if tm_ttl m \<le> 0 then remaining else tm_ttl m);
               delay = wrap64 (remaining - go_quot ttl 4)
           in if delay < 0 then 0 else delay)"

text \<open>
  The loop over the outcomes of its refreshes: the times at which it starts an exchange. A turn is its
  environment without the clock and the time the exchange takes; with no turn left the loop was stopped.
\<close>

fun tm_loop :: "gotime \<Rightarrow> tokenManager \<Rightarrow> disk \<Rightarrow> (refreshEnv \<times> duration) list \<Rightarrow> gotime list" where
  "tm_loop now m disk [] = []"
| "tm_loop now m disk ((e, took) # turns) =
     (let t0 = now + nextRefreshDelay now m in
      t0 # (case tm_refresh (e\<lparr>re_now := t0 + took\<rparr>) [] m disk of
          (Inr _, m', disk') \<Rightarrow> tm_loop (t0 + took) m' disk' turns
        | (Inl err, m', disk') \<Rightarrow> if refreshTerminal err then []
            else tm_loop (t0 + took + tm_retryFloor m') m' disk' turns))"

subsection \<open>The registry\<close>

text \<open>One manager per file; the second component lists the files whose loop was started.\<close>

type_synonym authRegistry = "(string \<rightharpoonup> tokenManager) \<times> string list"

definition authShared :: "disk \<Rightarrow> string \<Rightarrow> authRegistry \<Rightarrow> (authError + tokenManager) \<times> authRegistry" where
  "authShared disk file reg = (case fst reg file of
     Some m \<Rightarrow> (Inr m, reg)
   | None \<Rightarrow> (case tesla_LoadCreds disk file of
       Inl err \<Rightarrow> (Inl err, reg)
     | Inr c \<Rightarrow> (let m = newTokenManager file c in
         (Inr m, (fst reg)(file \<mapsto> m), if canRefresh c then snd reg @ [file] else snd reg))))"

subsection \<open>Callers\<close>

text \<open>
  A caller uses the token it read, is refused, waits for the lock, holds it, sends the exchange, and has
  its answer. The proactive loop is a caller that waits with no stale token. The log is a ghost with an
  entry for every exchange sent, failed ones too: the refused token its caller reported, the token in
  use when it was sent, and the token it brought, if any.
\<close>

datatype callPhase = Idle | Using string | Waiting string | Holding string | Sending string creds
  | Answered string "authError + string"

record exchange =
  ex_Reported :: string
  ex_Used :: string
  ex_Got :: "string option"

record refreshers =
  rf_tm :: tokenManager
  rf_holder :: "nat option"
  rf_phase :: "nat \<Rightarrow> callPhase"
  rf_log :: "exchange list"

inductive refresh_step :: "refreshers \<Rightarrow> refreshers \<Rightarrow> bool" where
  start: "rf_phase s i = Idle \<or> rf_phase s i = Answered st r \<Longrightarrow>
    refresh_step s (s\<lparr>rf_phase := (rf_phase s)(i := Using (tm_Token (rf_tm s)))\<rparr>)"
| refused: "rf_phase s i = Using t \<Longrightarrow> refresh_step s (s\<lparr>rf_phase := (rf_phase s)(i := Waiting t)\<rparr>)"
| proactive: "rf_phase s i = Idle \<or> rf_phase s i = Answered st r \<Longrightarrow>
    refresh_step s (s\<lparr>rf_phase := (rf_phase s)(i := Waiting [])\<rparr>)"
| lock: "rf_phase s i = Waiting st \<Longrightarrow> rf_holder s = None \<Longrightarrow>
    refresh_step s (s\<lparr>rf_holder := Some i, rf_phase := (rf_phase s)(i := Holding st)\<rparr>)"
| early: "rf_phase s i = Holding st \<Longrightarrow> refreshCheck st (rf_tm s) = Some r \<Longrightarrow>
    refresh_step s (s\<lparr>rf_holder := None, rf_phase := (rf_phase s)(i := Answered st r)\<rparr>)"
| send: "rf_phase s i = Holding st \<Longrightarrow> refreshCheck st (rf_tm s) = None \<Longrightarrow>
    refresh_step s (s\<lparr>rf_phase := (rf_phase s)(i := Sending st (tm_creds (rf_tm s)))\<rparr>)"
| fail: "rf_phase s i = Sending st cur \<Longrightarrow> exchangeRefreshToken post cur = Inl err \<Longrightarrow>
    refresh_step s (s\<lparr>rf_holder := None, rf_phase := (rf_phase s)(i := Answered st (Inl err)),
      rf_log := rf_log s @ [\<lparr>ex_Reported = st, ex_Used = cr_AccessToken cur, ex_Got = None\<rparr>]\<rparr>)"
| succeed: "rf_phase s i = Sending st cur \<Longrightarrow> exchangeRefreshToken post cur = Inr resp \<Longrightarrow>
    refresh_step s (s\<lparr>rf_tm := installTokens now resp (rf_tm s), rf_holder := None,
      rf_phase := (rf_phase s)(i := Answered st (Inr (tk_AccessToken resp))),
      rf_log := rf_log s @ [\<lparr>ex_Reported = st, ex_Used = cr_AccessToken cur,
        ex_Got = Some (tk_AccessToken resp)\<rparr>]\<rparr>)"

inductive refresh_reachable :: "tokenManager \<Rightarrow> refreshers \<Rightarrow> bool" where
  init: "refresh_reachable m \<lparr>rf_tm = m, rf_holder = None, rf_phase = (\<lambda>_. Idle), rf_log = []\<rparr>"
| step: "refresh_reachable m s \<Longrightarrow> refresh_step s s' \<Longrightarrow> refresh_reachable m s'"

inductive_cases refresh_stepE: "refresh_step s s'"

end
