(* ===== verification/TokenClaims.thy ===== *)
theory TokenClaims
  imports Tokens
begin

section \<open>Properties of the token manager\<close>

text \<open>
  The creds file under a crash, callers that compete for a refresh, and the schedule of the background loop.
\<close>

subsection \<open>The creds file\<close>

lemma fieldStr_present:
  "distinct (map fst es) \<Longrightarrow> map_of es k = Some (Some (JStr s)) \<Longrightarrow> fieldStr k (present es) = Some s"
  "distinct (map fst es) \<Longrightarrow> map_of es k = Some (omitEmpty s) \<Longrightarrow> fieldStr k (present es) = Some s"
  by (simp_all add: fieldStr_def map_of_present omitEmpty_def)

lemma creds_roundtrip:
  assumes "in_int64 (cr_ExpiresAt c)" shows "decodeCreds (encodeCreds c) = Some c"
  using assms
  by (cases c) (simp add: decodeCreds_def encodeCreds_def fieldStr_def fieldInt64_def omitEmpty_def)

lemma not_extended: "p @ s = p \<longleftrightarrow> s = []" "p = p @ s \<longleftrightarrow> s = []"
  by simp_all

lemma load_saved:
  "disk path = Some (Some (encodeCreds c)) \<Longrightarrow> in_int64 (cr_ExpiresAt c) \<Longrightarrow> cr_AccessToken c \<noteq> [] \<Longrightarrow>
   tesla_LoadCreds disk path = Inr (creds_applyDefaults c)"
  by (simp add: tesla_LoadCreds_def creds_roundtrip)

lemma load_other: "disk' path = disk path \<Longrightarrow> tesla_LoadCreds disk' path = tesla_LoadCreds disk path"
  by (simp add: tesla_LoadCreds_def)

text \<open>
  C20: however far a save gets, whether it runs to its end, fails, or the process dies in between, the creds
  file loads as it did before or as the saved creds; and when the save reports success, as the saved ones.
\<close>

theorem creds_survive_crash:
  assumes "cr_AccessToken c \<noteq> []" "in_int64 (cr_ExpiresAt c)"
  shows "tesla_LoadCreds (fold applyOp (take n (saveOps path c wr renameOk)) disk) path
      \<in> {tesla_LoadCreds disk path, Inr (creds_applyDefaults c)} \<and>
    (fst (tesla_SaveCreds path c wr renameOk disk) = None \<longrightarrow>
      tesla_LoadCreds (snd (tesla_SaveCreds path c wr renameOk disk)) path = Inr (creds_applyDefaults c))"
proof -
  let ?d = "fold applyOp (take n (saveOps path c wr renameOk)) disk"
  have "?d path \<in> {disk path, Some (Some (encodeCreds c))}"
    by (cases wr; cases renameOk; cases n; cases "n - 1"; cases "n - 2")
      (auto simp: saveOps_def Let_def)
  then have "tesla_LoadCreds ?d path \<in> {tesla_LoadCreds disk path, Inr (creds_applyDefaults c)}"
    using load_other [of ?d path disk] load_saved [OF _ assms(2,1), of ?d path] by auto
  moreover have "tesla_LoadCreds (snd (tesla_SaveCreds path c wr renameOk disk)) path = Inr (creds_applyDefaults c)"
    if "fst (tesla_SaveCreds path c wr renameOk disk) = None"
    using that load_saved [OF _ assms(2,1), of "snd (tesla_SaveCreds path c wr renameOk disk)" path]
    by (simp add: tesla_SaveCreds_def saveOps_def Let_def split: if_splits)
  ultimately show ?thesis by blast
qed

definition liveCreds :: creds where
  "liveCreds = \<lparr>cr_AccessToken = ''a1'', cr_RefreshToken = ''r1'', cr_ExpiresAt = 0, cr_ClientID = ''ownerapi'',
     cr_TokenURL = defaultTokenURL, cr_Scope = defaultScope\<rparr>"

lemma creds_survive_crash_witness:
  "tesla_LoadCreds (fold applyOp (take 1 (saveOps ''creds.json'' (liveCreds\<lparr>cr_AccessToken := ''a2''\<rparr>) WriteOk True))
      [''creds.json'' \<mapsto> Some (encodeCreds liveCreds)]) ''creds.json''
    \<in> {Inr liveCreds, Inr (liveCreds\<lparr>cr_AccessToken := ''a2''\<rparr>)}"
proof -
  have d: "creds_applyDefaults liveCreds = liveCreds"
    "creds_applyDefaults (liveCreds\<lparr>cr_AccessToken := ''a2''\<rparr>) = liveCreds\<lparr>cr_AccessToken := ''a2''\<rparr>"
    by (simp_all add: creds_applyDefaults_def liveCreds_def defaultTokenURL_def defaultScope_def)
  have l: "in_int64 (cr_ExpiresAt liveCreds)" "cr_AccessToken liveCreds \<noteq> []"
    by (simp_all add: liveCreds_def in_int64_def minInt64_def maxInt64_def)
  have "tesla_LoadCreds [''creds.json'' \<mapsto> Some (encodeCreds liveCreds)] ''creds.json'' = Inr liveCreds"
    by (subst load_saved [OF _ l]) (simp_all add: d)
  then show ?thesis
    using creds_survive_crash [of "liveCreds\<lparr>cr_AccessToken := ''a2''\<rparr>" 1 "''creds.json''" WriteOk True
        "[''creds.json'' \<mapsto> Some (encodeCreds liveCreds)]"] l
    by (simp add: d)
qed

subsection \<open>The competing callers\<close>

lemma refreshCheck_cases:
  "refreshCheck st m = Some (Inr t) \<longleftrightarrow> canRefresh (tm_creds m) \<and> st \<noteq> [] \<and> tm_Token m \<noteq> st \<and> t = tm_Token m"
  "refreshCheck st m = None \<longleftrightarrow> canRefresh (tm_creds m) \<and> (st = [] \<or> tm_Token m = st)"
  by (auto simp: refreshCheck_def tm_Token_def Let_def)

lemma installTokens_token [simp]: "tm_Token (installTokens now resp m) = tk_AccessToken resp"
  by (simp add: installTokens_def Let_def tm_Token_def)

lemma exchange_token: "exchangeRefreshToken post c = Inr resp \<Longrightarrow> tk_AccessToken resp \<noteq> []"
  by (auto simp: exchangeRefreshToken_def split: sum.splits if_splits)

text \<open>The parts of the log: the tokens brought, and the tokens replaced by them.\<close>

definition brought :: "exchange list \<Rightarrow> string list" where
  "brought es = concat (map (\<lambda>x. case ex_Got x of None \<Rightarrow> [] | Some t \<Rightarrow> [t]) es)"

definition replaced :: "exchange list \<Rightarrow> string list" where
  "replaced es = concat (map (\<lambda>x. case ex_Got x of None \<Rightarrow> [] | Some _ \<Rightarrow> [ex_Used x]) es)"

lemma brought_simps [simp]: "brought [] = []" "brought (xs @ ys) = brought xs @ brought ys"
  "brought [x] = (case ex_Got x of None \<Rightarrow> [] | Some t \<Rightarrow> [t])"
  by (simp_all add: brought_def)

lemma replaced_simps [simp]: "replaced [] = []" "replaced (xs @ ys) = replaced xs @ replaced ys"
  "replaced [x] = (case ex_Got x of None \<Rightarrow> [] | Some _ \<Rightarrow> [ex_Used x])"
  by (simp_all add: replaced_def)

lemma replaced_nth: "a < length es \<Longrightarrow> ex_Got (es ! a) \<noteq> None \<Longrightarrow> ex_Used (es ! a) \<in> set (replaced es)"
  by (force simp: replaced_def split: option.splits)

definition issued :: "tokenManager \<Rightarrow> refreshers \<Rightarrow> string list" where
  "issued m s = tm_Token m # brought (rf_log s)"

definition inSection :: "callPhase \<Rightarrow> bool" where
  "inSection p \<longleftrightarrow> (case p of Holding _ \<Rightarrow> True | Sending _ _ \<Rightarrow> True | _ \<Rightarrow> False)"

lemma inSection_simps [simp]: "inSection (Holding st)" "inSection (Sending st c)" "\<not> inSection Idle"
  "\<not> inSection (Using t)" "\<not> inSection (Waiting t)" "\<not> inSection (Answered st r)"
  by (simp_all add: inSection_def)

text \<open>
  The lock is held by the caller in the section; one that sends works on the current creds; the log is a
  chain that ends at the current token; an answer is not the token that was refused.
\<close>

definition sectionOk :: "refreshers \<Rightarrow> bool" where
  "sectionOk s \<longleftrightarrow> (\<forall>i. inSection (rf_phase s i) \<longrightarrow> rf_holder s = Some i) \<and>
     (\<forall>i st cur. rf_phase s i = Sending st cur \<longrightarrow> cur = tm_creds (rf_tm s) \<and> (st = [] \<or> tm_Token (rf_tm s) = st))"

definition chainOk :: "tokenManager \<Rightarrow> refreshers \<Rightarrow> bool" where
  "chainOk m s \<longleftrightarrow> issued m s = replaced (rf_log s) @ [tm_Token (rf_tm s)]"

definition answersOk :: "tokenManager \<Rightarrow> refreshers \<Rightarrow> bool" where
  "answersOk m s \<longleftrightarrow> (distinct (issued m s) \<longrightarrow>
     (\<forall>i st t. rf_phase s i = Answered st (Inr t) \<longrightarrow> st \<noteq> [] \<longrightarrow> t \<noteq> st))"

text \<open>
  A caller with a refused token sends only while that token is the one in use; with fresh tokens no
  exchange is sent for a token that was replaced before.
\<close>

definition ownOk :: "refreshers \<Rightarrow> bool" where
  "ownOk s \<longleftrightarrow> (\<forall>x \<in> set (rf_log s). ex_Reported x \<noteq> [] \<longrightarrow> ex_Reported x = ex_Used x)"

definition laterOk :: "tokenManager \<Rightarrow> refreshers \<Rightarrow> bool" where
  "laterOk m s \<longleftrightarrow> (distinct (issued m s) \<longrightarrow> (\<forall>b < length (rf_log s). \<forall>a < b.
     ex_Got (rf_log s ! a) \<noteq> None \<longrightarrow> ex_Used (rf_log s ! b) \<noteq> ex_Used (rf_log s ! a)))"

lemma sectionOk_holder: "sectionOk s \<Longrightarrow> inSection (rf_phase s i) \<Longrightarrow> rf_holder s = Some i"
  by (simp add: sectionOk_def)

lemma sectionOk_unique: "sectionOk s \<Longrightarrow> inSection (rf_phase s i) \<Longrightarrow> inSection (rf_phase s j) \<Longrightarrow> i = j"
  by (metis option.inject sectionOk_holder)

lemma sectionOk_sending: "sectionOk s \<Longrightarrow> rf_phase s i = Sending st cur \<Longrightarrow>
    cur = tm_creds (rf_tm s) \<and> (st = [] \<or> tm_Token (rf_tm s) = st)"
  by (simp add: sectionOk_def)

text \<open>Leaving the section: nobody else is in it.\<close>

lemma sectionOk_leave:
  assumes "sectionOk s" "inSection (rf_phase s i)" "\<not> inSection p" "\<And>st c. p \<noteq> Sending st c"
  shows "sectionOk (s\<lparr>rf_tm := m, rf_holder := None, rf_phase := (rf_phase s)(i := p), rf_log := l\<rparr>)"
proof -
  have "\<not> inSection (((rf_phase s)(i := p)) j)" for j
    using sectionOk_unique [OF assms(1,2)] assms(3) by auto
  then show ?thesis unfolding sectionOk_def by (auto dest!: spec) (metis inSection_simps(2))+
qed

lemma refresh_step_sectionOk: "refresh_step s s' \<Longrightarrow> sectionOk s \<Longrightarrow> sectionOk s'"
proof (induction rule: refresh_step.induct)
  case (early s i st r)
  then show ?case using sectionOk_leave [of s i "Answered st r" "rf_log s" "rf_tm s"] by simp
next
  case (fail s i st cur post err)
  then show ?case
    using sectionOk_leave [of s i "Answered st (Inl err)" _ "rf_tm s"] by simp
next
  case (succeed s i st cur post resp now)
  then show ?case using sectionOk_leave [of s i "Answered st (Inr (tk_AccessToken resp))"] by simp
qed (auto simp: sectionOk_def refreshCheck_cases split: if_splits)

lemma refresh_step_chainOk: "refresh_step s s' \<Longrightarrow> sectionOk s \<Longrightarrow> chainOk m s \<Longrightarrow> chainOk m s'"
proof (induction rule: refresh_step.induct)
  case (succeed s i st cur post resp now)
  then have "cr_AccessToken cur = tm_Token (rf_tm s)" using sectionOk_sending by (simp add: tm_Token_def)
  then show ?case using succeed by (simp add: chainOk_def issued_def)
qed (simp_all add: chainOk_def issued_def)

lemma refresh_step_answersOk:
  "refresh_step s s' \<Longrightarrow> sectionOk s \<Longrightarrow> chainOk m s \<Longrightarrow> answersOk m s \<Longrightarrow> answersOk m s'"
proof (induction rule: refresh_step.induct)
  case (succeed s i st cur post resp now)
  have "tm_Token (rf_tm s) \<in> set (issued m s)" using succeed(4) by (simp add: chainOk_def)
  moreover have "st = [] \<or> tm_Token (rf_tm s) = st" using succeed(1,3) sectionOk_sending by blast
  moreover have "issued m (s\<lparr>rf_tm := installTokens now resp (rf_tm s), rf_holder := None,
      rf_phase := (rf_phase s)(i := Answered st (Inr (tk_AccessToken resp))),
      rf_log := rf_log s @ [\<lparr>ex_Reported = st, ex_Used = cr_AccessToken cur, ex_Got = Some (tk_AccessToken resp)\<rparr>]\<rparr>) = issued m s @ [tk_AccessToken resp]"
    by (simp add: issued_def)
  ultimately show ?case using succeed(5) unfolding answersOk_def by auto
qed (auto simp: answersOk_def issued_def refreshCheck_cases split: if_splits)

lemma later_snoc:
  assumes "laterOk m s" "chainOk m s" "ex_Used x = tm_Token (rf_tm s)"
    and "rf_log s' = rf_log s @ [x]" "\<exists>new. issued m s' = issued m s @ new"
  shows "laterOk m s'"
  unfolding laterOk_def
proof (intro impI allI)
  fix a b assume d: "distinct (issued m s')" and b: "b < length (rf_log s')" and a: "a < b"
    and got: "ex_Got (rf_log s' ! a) \<noteq> None"
  have d': "distinct (replaced (rf_log s) @ [tm_Token (rf_tm s)])"
    using d assms(2,5) by (auto simp: chainOk_def)
  show "ex_Used (rf_log s' ! b) \<noteq> ex_Used (rf_log s' ! a)"
  proof (cases "b < length (rf_log s)")
    case True
    moreover have "distinct (issued m s)" using d assms(5) by auto
    ultimately show ?thesis using assms(1,4) a got by (simp add: laterOk_def nth_append)
  next
    case False
    then have "rf_log s' ! b = x" "a < length (rf_log s)" "rf_log s' ! a = rf_log s ! a"
      using a b assms(4) by (simp_all add: nth_append)
    then show ?thesis using replaced_nth [of a "rf_log s"] got assms(3) d' by auto
  qed
qed

lemma refresh_step_ownOk: "refresh_step s s' \<Longrightarrow> sectionOk s \<Longrightarrow> ownOk s \<Longrightarrow> ownOk s'"
proof (induction rule: refresh_step.induct)
  case (fail s i st cur post err)
  then show ?case using sectionOk_sending [of s i st cur] by (auto simp: ownOk_def tm_Token_def)
next
  case (succeed s i st cur post resp now)
  then show ?case using sectionOk_sending [of s i st cur] by (auto simp: ownOk_def tm_Token_def)
qed (simp_all add: ownOk_def)

lemma refresh_step_laterOk:
  "refresh_step s s' \<Longrightarrow> sectionOk s \<Longrightarrow> chainOk m s \<Longrightarrow> laterOk m s \<Longrightarrow> laterOk m s'"
proof (induction rule: refresh_step.induct)
  case (fail s i st cur post err)
  then have "cr_AccessToken cur = tm_Token (rf_tm s)" using sectionOk_sending by (simp add: tm_Token_def)
  then show ?case
    by (intro later_snoc [OF fail(5,4), of "\<lparr>ex_Reported = st, ex_Used = cr_AccessToken cur, ex_Got = None\<rparr>"])
      (simp_all add: issued_def)
next
  case (succeed s i st cur post resp now)
  then have "cr_AccessToken cur = tm_Token (rf_tm s)" using sectionOk_sending by (simp add: tm_Token_def)
  then show ?case
    by (intro later_snoc [OF succeed(5,4), of "\<lparr>ex_Reported = st, ex_Used = cr_AccessToken cur,
        ex_Got = Some (tk_AccessToken resp)\<rparr>"]) (simp_all add: issued_def)
qed (simp_all add: laterOk_def issued_def)

lemma refresh_reachable_ok:
  "refresh_reachable m s \<Longrightarrow> sectionOk s \<and> chainOk m s \<and> answersOk m s \<and> ownOk s \<and> laterOk m s"
proof (induction rule: refresh_reachable.induct)
  case (init m)
  show ?case by (simp add: sectionOk_def chainOk_def answersOk_def ownOk_def laterOk_def issued_def)
next
  case (step m s s')
  then show ?case using refresh_step_sectionOk refresh_step_chainOk refresh_step_answersOk
      refresh_step_ownOk refresh_step_laterOk by blast
qed

text \<open>
  C19: under any interleaving of callers, the background loop among them, exchanges never overlap, and a
  caller that reports a refused token sends one only while that token is still the one in use: callers
  refused together do not each exchange the token that replaced it. If the tokens the endpoint issues
  are all different, also from the first, then once an exchange has succeeded no exchange, successful
  or not, is sent for the token it replaced, so each token is exchanged with success at most once; and a
  caller that reports a refused token is never handed that token back. (An exchange that failed leaves
  the token in use, and the next caller may try again.)
\<close>

theorem each_token_refreshed_once:
  assumes "refresh_reachable m s"
  shows "(\<forall>i j. inSection (rf_phase s i) \<and> inSection (rf_phase s j) \<longrightarrow> i = j) \<and>
    (\<forall>x \<in> set (rf_log s). ex_Reported x \<noteq> [] \<longrightarrow> ex_Reported x = ex_Used x) \<and>
    tm_Token (rf_tm s) = last (tm_Token m # brought (rf_log s)) \<and>
    (distinct (tm_Token m # brought (rf_log s)) \<longrightarrow>
       (\<forall>b < length (rf_log s). \<forall>a < b. ex_Got (rf_log s ! a) \<noteq> None \<longrightarrow>
          ex_Used (rf_log s ! b) \<noteq> ex_Used (rf_log s ! a)) \<and>
       distinct (replaced (rf_log s)) \<and>
       (\<forall>i st t. rf_phase s i = Answered st (Inr t) \<longrightarrow> st \<noteq> [] \<longrightarrow> t \<noteq> st))"
proof -
  note ok = refresh_reachable_ok [OF assms]
  have chain: "tm_Token m # brought (rf_log s) = replaced (rf_log s) @ [tm_Token (rf_tm s)]"
    using ok by (simp add: chainOk_def issued_def)
  have "distinct (tm_Token m # brought (rf_log s)) \<longrightarrow> distinct (replaced (rf_log s))" unfolding chain by simp
  moreover have "tm_Token (rf_tm s) = last (tm_Token m # brought (rf_log s))" unfolding chain by simp
  moreover have "\<forall>i j. inSection (rf_phase s i) \<and> inSection (rf_phase s j) \<longrightarrow> i = j"
    using ok sectionOk_unique by blast
  ultimately show ?thesis using ok unfolding ownOk_def laterOk_def answersOk_def issued_def by blast
qed

text \<open>A caller is refused, waits for the lock and gets a new token.\<close>

definition newTokens :: tokenResponse where
  "newTokens = \<lparr>tk_AccessToken = ''a2'', tk_RefreshToken = [], tk_ExpiresIn = 28800\<rparr>"

lemma each_token_refreshed_once_witness:
  "\<exists>s. refresh_reachable (newTokenManager ''creds.json'' liveCreds) s \<and> rf_phase s 0 = Answered ''a1'' (Inr ''a2'') \<and>
     distinct (replaced (rf_log s)) \<and> map ex_Got (rf_log s) = [Some ''a2'']"
proof -
  let ?m = "newTokenManager ''creds.json'' liveCreds"
  let ?s0 = "\<lparr>rf_tm = ?m, rf_holder = None, rf_phase = (\<lambda>_. Idle), rf_log = []\<rparr>"
  let ?s1 = "?s0\<lparr>rf_phase := (rf_phase ?s0)(0 := Using (tm_Token (rf_tm ?s0)))\<rparr>"
  let ?s2 = "?s1\<lparr>rf_phase := (rf_phase ?s1)(0 := Waiting ''a1'')\<rparr>"
  let ?s3 = "?s2\<lparr>rf_holder := Some 0, rf_phase := (rf_phase ?s2)(0 := Holding ''a1'')\<rparr>"
  let ?s4 = "?s3\<lparr>rf_phase := (rf_phase ?s3)(0 := Sending ''a1'' (tm_creds (rf_tm ?s3)))\<rparr>"
  let ?s5 = "?s4\<lparr>rf_tm := installTokens unixEpoch newTokens (rf_tm ?s4), rf_holder := None,
      rf_phase := (rf_phase ?s4)(0 := Answered ''a1'' (Inr (tk_AccessToken newTokens))),
      rf_log := rf_log ?s4 @ [\<lparr>ex_Reported = ''a1'', ex_Used = cr_AccessToken liveCreds, ex_Got = Some (tk_AccessToken newTokens)\<rparr>]\<rparr>"
  have "refresh_reachable ?m ?s1" by (intro refresh_reachable.step [OF refresh_reachable.init] refresh_step.start) simp
  then have "refresh_reachable ?m ?s2"
    by (rule refresh_reachable.step) (rule refresh_step.refused, simp add: tm_Token_def newTokenManager_def liveCreds_def)
  then have "refresh_reachable ?m ?s3" by (rule refresh_reachable.step) (rule refresh_step.lock, simp_all)
  then have "refresh_reachable ?m ?s4"
    by (rule refresh_reachable.step) (rule refresh_step.send, simp_all add: refreshCheck_cases canRefresh_def tm_Token_def newTokenManager_def liveCreds_def)
  then have "refresh_reachable ?m ?s5"
    by (rule refresh_reachable.step) (rule refresh_step.succeed [where post = "\<lambda>_. Inr (200, [], newTokens)"],
      simp_all add: newTokenManager_def exchangeRefreshToken_def newTokens_def)
  then show ?thesis
    using each_token_refreshed_once [of ?m ?s5]
    by (intro exI [of _ ?s5]) (simp add: newTokens_def liveCreds_def newTokenManager_def tm_Token_def)
qed

subsection \<open>The schedule\<close>

text \<open>A lifetime the endpoint may report: none, or between \<open>lo\<close> seconds and 250 years.\<close>

definition plausibleLifetime :: "int \<Rightarrow> tokenEndpoint \<Rightarrow> bool" where
  "plausibleLifetime lo post \<longleftrightarrow> (\<forall>c status body resp. post c = Inr (status, body, resp) \<longrightarrow>
     tk_ExpiresIn resp \<le> 0 \<or> lo \<le> tk_ExpiresIn resp \<and> tk_ExpiresIn resp \<le> 8000000000)"

lemma responseTtl_bounds:
  assumes "tk_ExpiresIn resp \<le> 0 \<or> lo \<le> tk_ExpiresIn resp \<and> tk_ExpiresIn resp \<le> 8000000000" "lo \<le> 28800" "0 < lo"
  shows "lo * Second \<le> responseTtl resp \<and> responseTtl resp \<le> 8000000000 * Second"
proof -
  let ?n = "if tk_ExpiresIn resp \<le> 0 then 28800 else tk_ExpiresIn resp"
  have "go_quot defaultTokenLifetime Second = 28800" by (simp add: defaultTokenLifetime_def go_quot_def)
  then have "responseTtl resp = wrap64 (?n * Second)" by (simp add: responseTtl_def)
  moreover have n: "lo \<le> ?n" "?n \<le> 8000000000" using assms by auto
  moreover have "in_int64 (?n * Second)" using n assms(3) by (simp add: in_int64_def minInt64_def maxInt64_def)
  ultimately show ?thesis by simp
qed

lemma fromUnixSec_unixSec: "t - Second < fromUnixSec (unixSec t) \<and> fromUnixSec (unixSec t) \<le> t"
proof -
  have "fromUnixSec (unixSec t) = t - (t - unixEpoch) mod Second"
    by (simp only: fromUnixSec_def unixSec_def minus_mod_eq_div_mult [symmetric])
  moreover have "0 \<le> (t - unixEpoch) mod Second" "(t - unixEpoch) mod Second < Second" by simp_all
  ultimately show ?thesis by linarith
qed

text \<open>Three quarters of the lifetime, less the second the expiry is rounded down by.\<close>

lemma delay_after_refresh:
  assumes "Second \<le> L" "L \<le> responseTtl resp" "responseTtl resp \<le> 8000000000 * Second" "unixEpoch \<le> now"
  shows "L - L div 4 - Second \<le> nextRefreshDelay now (installTokens now resp m)"
proof -
  let ?ttl = "responseTtl resp"
  define e where "e = unixSec (now + ?ttl)"
  have e: "now + ?ttl - Second < fromUnixSec e" "fromUnixSec e \<le> now + ?ttl"
    using fromUnixSec_unixSec [of "now + ?ttl"] by (simp_all add: e_def)
  have "e \<noteq> 0" using e(1) assms(1,2,4) by (auto simp: fromUnixSec_def)
  have f: "tm_ttl (installTokens now resp m) = ?ttl" "cr_ExpiresAt (tm_creds (installTokens now resp m)) = e"
    by (simp_all add: installTokens_def Let_def e_def)
  have rem: "time_sub (fromUnixSec e) now = fromUnixSec e - now"
    using e assms(1-3) by (intro time_sub_exact) (simp add: in_int64_def minInt64_def maxInt64_def)
  have q: "go_quot ?ttl 4 = ?ttl div 4" using assms by (simp add: go_quot_nonneg)
  have "0 \<le> ?ttl div 4" "?ttl div 4 \<le> ?ttl" using assms(1,2) by (simp_all add: div_le_dividend)
  then have "in_int64 (fromUnixSec e - now - ?ttl div 4)"
    using e assms(1-3) by (simp add: in_int64_def minInt64_def maxInt64_def)
  moreover have "L - L div 4 \<le> ?ttl - ?ttl div 4" using assms(2) by linarith
  ultimately show ?thesis using e assms(1,2) \<open>e \<noteq> 0\<close> by (simp add: nextRefreshDelay_def f rem q)
qed

lemma nextRefreshDelay_nonneg: "0 \<le> nextRefreshDelay now m"
  by (simp add: nextRefreshDelay_def Let_def)

lemma tm_loop_first: "tm_loop now m disk turns = t # ts \<Longrightarrow> now \<le> t"
  using nextRefreshDelay_nonneg [of now m] by (cases turns) (auto simp: Let_def)

lemma refresh_outcome:
  assumes "tm_refresh e [] m disk = (r, m', disk')"
  shows "tm_retryFloor m' = tm_retryFloor m \<and> (case r of Inl err \<Rightarrow> m' = m
     | Inr _ \<Rightarrow> \<exists>resp status body. re_post e (tm_creds m) = Inr (status, body, resp) \<and> m' = installTokens (re_now e) resp m)"
  using assms
  by (auto simp: tm_refresh_def refreshCheck_def exchangeRefreshToken_def installTokens_def Let_def split: sum.splits if_splits prod.splits)

definition loopGap :: "int \<Rightarrow> tokenManager \<Rightarrow> duration" where
  "loopGap lo m = min (tm_retryFloor m) (lo * Second - lo * Second div 4 - Second)"

text \<open>
  C21: the background loop never hammers the token endpoint: with lifetimes of at least \<open>lo\<close> seconds
  (and none or a negative one standing for eight hours), it starts exchanges at least three quarters of
  \<open>lo\<close> seconds less one second apart, or the retry floor after a failure, whatever the endpoint answers.
\<close>

theorem loop_never_hammers:
  assumes "2 \<le> lo" "lo \<le> 28800" "unixEpoch \<le> now" "0 \<le> tm_retryFloor m"
    and "\<forall>(e, took) \<in> set turns. plausibleLifetime lo (re_post e) \<and> 0 \<le> took"
  shows "successively (\<lambda>a b. a + loopGap lo m \<le> b) (tm_loop now m disk turns)"
  using assms(3-5)
proof (induction now m disk turns rule: tm_loop.induct)
  case (2 now m disk e took turns)
  let ?t = "now + nextRefreshDelay now m"
  let ?e = "e\<lparr>re_now := ?t + took\<rparr>"
  obtain r m' disk' where r: "tm_refresh ?e [] m disk = (r, m', disk')" by (cases "tm_refresh ?e [] m disk")
  note out = refresh_outcome [OF r]
  have took: "0 \<le> took" "plausibleLifetime lo (re_post e)" using 2(5) by auto
  have later: "unixEpoch \<le> ?t + took" using 2(3) nextRefreshDelay_nonneg [of now m] took(1) by simp
  have gap: "loopGap lo m' = loopGap lo m" using out by (simp add: loopGap_def)
  show ?case
  proof (cases r)
    case (Inl err)
    then have m': "m' = m" using out by simp
    show ?thesis
    proof (cases "refreshTerminal err")
      case False
      let ?now' = "?t + took + tm_retryFloor m"
      have "successively (\<lambda>a b. a + loopGap lo m \<le> b) (tm_loop ?now' m disk' turns)"
        using 2(1) [OF refl r [symmetric] Inl refl False] 2(4,5) later by (simp add: m')
      moreover have "?t + loopGap lo m \<le> ?now'" using took(1) by (simp add: loopGap_def)
      ultimately show ?thesis
        using tm_loop_first [of ?now' m disk' turns] r Inl False
        by (cases "tm_loop ?now' m disk' turns") (auto simp: Let_def m' successively_Cons)
    qed (use r Inl in \<open>simp add: Let_def\<close>)
  next
    case (Inr tok)
    then obtain resp status body where resp: "re_post e (tm_creds m) = Inr (status, body, resp)" "m' = installTokens (?t + took) resp m"
      using out by auto
    let ?now' = "?t + took"
    have "tk_ExpiresIn resp \<le> 0 \<or> lo \<le> tk_ExpiresIn resp \<and> tk_ExpiresIn resp \<le> 8000000000"
      using took(2) resp(1) by (auto simp: plausibleLifetime_def)
    then have ttl: "lo * Second \<le> responseTtl resp" "responseTtl resp \<le> 8000000000 * Second"
      using responseTtl_bounds [of resp lo] assms(1,2) by auto
    have "lo * Second - lo * Second div 4 - Second \<le> nextRefreshDelay ?now' m'"
      unfolding resp(2) using ttl assms(1) later by (intro delay_after_refresh) simp_all
    then have wait: "?t + loopGap lo m \<le> ?now' + nextRefreshDelay ?now' m'" using took(1) by (simp add: loopGap_def)
    have "successively (\<lambda>a b. a + loopGap lo m \<le> b) (tm_loop ?now' m' disk' turns)"
      using 2(2) [OF refl r [symmetric] Inr refl] 2(4,5) later out by (simp add: gap)
    then show ?thesis using wait r Inr by (cases turns) (auto simp: Let_def successively_Cons)
  qed
qed simp

text \<open>An endpoint that always issues the same lifetime of eight hours.\<close>

lemma loop_never_hammers_witness:
  "successively (\<lambda>a b. a + 300 * Second \<le> b)
     (tm_loop unixEpoch (newTokenManager ''creds.json'' liveCreds) Map.empty
       (replicate 5 (\<lparr>re_post = (\<lambda>_. Inr (200, [], newTokens)), re_now = 0, re_write = WriteOk, re_rename = True\<rparr>, Second)))"
proof -
  have "loopGap 28800 (newTokenManager ''creds.json'' liveCreds) = 300 * Second"
    by (simp add: loopGap_def newTokenManager_def defaultRetryFloor_def)
  then show ?thesis
    using loop_never_hammers [of 28800 unixEpoch "newTokenManager ''creds.json'' liveCreds"
      "replicate 5 (\<lparr>re_post = (\<lambda>_. Inr (200, [], newTokens)), re_now = 0, re_write = WriteOk, re_rename = True\<rparr>, Second)" Map.empty]
    by (simp add: plausibleLifetime_def newTokens_def newTokenManager_def defaultRetryFloor_def)
qed

end
