(* ===== verification/Metrics.thy ===== *)
theory Metrics
  imports FleetServer "HOL-Library.List_Lexorder" "HOL-Library.Char_ord"
begin

section \<open>Metrics\<close>

text \<open>
  \<^verbatim>\<open>internal/metrics\<close>, and from \<^verbatim>\<open>internal/cli/serve.go\<close> the view of the poll statistics it is fed: the
  route label of a request, the recorded status, and what a scrape collects.

  The Prometheus client is a library. A collected metric is its name, its label values and its value; the
  process and Go collectors, the request counters and the text are the library's.  The code ranges over
  maps in no order; the series of a map are listed here by key, the order in which the library sorts them.
\<close>

subsection \<open>Route labels\<close>

definition idMinLen :: nat where "idMinLen = 12"
definition numIDMinLen :: nat where "numIDMinLen = 6"

fun joinSlash :: "string list \<Rightarrow> string" where
  "joinSlash [] = []"
| "joinSlash [s] = s"
| "joinSlash (s # ss) = s @ CHR ''/'' # joinSlash ss"

definition isAllDigits :: "string \<Rightarrow> bool" where
  "isAllDigits s \<longleftrightarrow> list_all isDigit s \<and> s \<noteq> []"

definition charIn :: "char \<Rightarrow> char \<Rightarrow> char \<Rightarrow> bool" where
  "charIn lo hi c \<longleftrightarrow> lo \<le> c \<and> c \<le> hi"

definition isLetter :: "char \<Rightarrow> bool" where
  "isLetter c \<longleftrightarrow> charIn CHR ''a'' CHR ''z'' c \<or> charIn CHR ''A'' CHR ''Z'' c"

definition isOpaqueToken :: "string \<Rightarrow> bool" where
  "isOpaqueToken s \<longleftrightarrow> list_all (\<lambda>c. isDigit c \<or> isLetter c \<or> c = CHR ''-'') s \<and> list_ex isDigit s"

definition isIDSegment :: "string \<Rightarrow> bool" where
  "isIDSegment s \<longleftrightarrow> numIDMinLen \<le> length s \<and> isAllDigits s \<or> idMinLen \<le> length s \<and> isOpaqueToken s"

definition idLabel :: string where "idLabel = ''{id}''"

definition normalizeSegment :: "string \<Rightarrow> string" where
  "normalizeSegment s = (if s = [] then s else if isIDSegment s then idLabel else s)"

definition normalizePath :: "string \<Rightarrow> string" where
  "normalizePath p = (if p = [] \<or> p = ''/'' then ''/'' else joinSlash (map normalizeSegment (splitSlash p)))"

subsection \<open>The recorded status\<close>

record statusRecorder =
  sr_status :: int
  sr_wroteHeader :: bool

datatype writerCall = WriteHeader int | WriteBody

definition newStatusRecorder :: statusRecorder where
  "newStatusRecorder = \<lparr>sr_status = 200, sr_wroteHeader = False\<rparr>"

fun recordCall :: "writerCall \<Rightarrow> statusRecorder \<Rightarrow> statusRecorder" where
  "recordCall (WriteHeader code) s = (if sr_wroteHeader s then s else s\<lparr>sr_status := code, sr_wroteHeader := True\<rparr>)"
| "recordCall WriteBody s = s\<lparr>sr_wroteHeader := True\<rparr>"

text \<open>One request through the middleware: what it observes of a handler that makes these calls.\<close>

definition observed :: "string \<Rightarrow> string \<Rightarrow> writerCall list \<Rightarrow> string \<times> string \<times> string" where
  "observed meth path calls =
     (meth, normalizePath path, itoa (sr_status (fold recordCall calls newStatusRecorder)))"

subsection \<open>Snapshots\<close>

record vehicleMetric =
  vm_VIN :: string
  vm_SuccessCount :: int
  vm_ErrorCount :: int
  vm_RateLimitedCount :: int
  vm_ChangedCount :: int
  vm_Backoff :: duration
  vm_ConsecutiveFailures :: int
  vm_NeedsReauth :: bool
  vm_QuotaBlockedCount :: int
  vm_QuotaBlockedUntil :: gotime
  vm_TelemetryConfigWiped :: bool
  vm_VehicleDataFetches :: int
  vm_PollsByState :: "string \<rightharpoonup> int"
  vm_ScheduledInterval :: duration
  vm_StreamBackoffActive :: bool
  vm_DerivedState :: string
  vm_LastPollAt :: gotime

text \<open>\<^verbatim>\<open>sourceSnap\<close> of the serve command: the statistics under the VIN, or the id when there is none.\<close>

definition labelVIN :: "identity \<Rightarrow> string" where
  "labelVIN v = (if id_VIN v = [] then id_ID v else id_VIN v)"

definition vehicleMetricOf :: "identity \<Rightarrow> pollStats \<Rightarrow> vehicleMetric" where
  "vehicleMetricOf v s = \<lparr>
     vm_VIN = labelVIN v,
     vm_SuccessCount = ps_SuccessCount s,
     vm_ErrorCount = ps_ErrorCount s,
     vm_RateLimitedCount = ps_RateLimitedCount s,
     vm_ChangedCount = ps_ChangedCount s,
     vm_Backoff = ps_Backoff s,
     vm_ConsecutiveFailures = ps_ConsecutiveFailures s,
     vm_NeedsReauth = ps_NeedsReauth s,
     vm_QuotaBlockedCount = ps_QuotaBlockedCount s,
     vm_QuotaBlockedUntil = ps_QuotaBlockedUntil s,
     vm_TelemetryConfigWiped = ps_TelemetryConfigWiped s,
     vm_VehicleDataFetches = ps_VehicleDataFetches s,
     vm_PollsByState = (case ps_PollsByState s of None \<Rightarrow> Map.empty | Some m \<Rightarrow> m),
     vm_ScheduledInterval = ps_ScheduledInterval s,
     vm_StreamBackoffActive = ps_StreamBackoffActive s,
     vm_DerivedState = ps_DerivedState s,
     vm_LastPollAt = ps_LastSuccessAt s\<rparr>"

definition sourceSnap :: "provider \<Rightarrow> vehicleMetric list" where
  "sourceSnap prov = map (\<lambda>v. vehicleMetricOf v (pv_Stats prov (id_ID v))) (pv_Vehicles prov)"

record streamSinkStats =
  ss_Consumers :: int
  ss_FramesPushed :: int
  ss_FramesDropped :: int

record streamSourceStats =
  so_Connected :: int
  so_Connects :: int
  so_Frames :: int
  so_LastFrameAge :: duration
  so_GapBuckets :: "(f64 \<times> int) list"
  so_GapSum :: f64
  so_GapCount :: int
  so_FieldFrames :: "string \<rightharpoonup> int"
  so_Rejects :: "string \<rightharpoonup> int"
  so_Disconnects :: int
  so_IdleTimeouts :: int

record commandStats =
  co_Sent :: int
  co_Successes :: int
  co_NominalFailures :: int
  co_InfraErrors :: int
  co_Wakes :: int
  co_RateLimitedCount :: int

subsection \<open>Collected metrics\<close>

datatype metricValue = Counter f64 | Gauge f64 | Histogram int f64 "(f64 \<times> int) list"

type_synonym metric = "string \<times> string list \<times> metricValue"

definition seriesKey :: "metric \<Rightarrow> string \<times> string list" where
  "seriesKey m = (fst m, fst (snd m))"

definition boolGauge :: "bool \<Rightarrow> f64" where
  "boolGauge b = (if b then Fin 1 else fzero)"

definition unixOrZero :: "gotime \<Rightarrow> f64" where
  "unixOrZero t = (if is_zero_time t then fzero else i2f ((t - unixEpoch) div Second))"

definition mapSeries :: "(string \<rightharpoonup> int) \<Rightarrow> (string \<Rightarrow> int \<Rightarrow> metric) \<Rightarrow> metric list" where
  "mapSeries m f = map (\<lambda>k. f k (the (m k))) (sorted_list_of_set (dom m))"

type_synonym sourceMetricDef = "string \<times> (f64 \<Rightarrow> metricValue) \<times> (gotime \<Rightarrow> vehicleMetric \<Rightarrow> f64)"

definition sourceMetricDefs :: "sourceMetricDef list" where
  "sourceMetricDefs = [
     (''redswitchboard_source_polls_total'', Counter, \<lambda>_ v. i2f (vm_SuccessCount v)),
     (''redswitchboard_source_poll_errors_total'', Counter, \<lambda>_ v. i2f (vm_ErrorCount v)),
     (''redswitchboard_source_poll_changes_total'', Counter, \<lambda>_ v. i2f (vm_ChangedCount v)),
     (''redswitchboard_source_rate_limited_total'', Counter, \<lambda>_ v. i2f (vm_RateLimitedCount v)),
     (''redswitchboard_source_poll_backoff_seconds'', Gauge, \<lambda>_ v. duration_seconds (vm_Backoff v)),
     (''redswitchboard_source_consecutive_failures'', Gauge, \<lambda>_ v. i2f (vm_ConsecutiveFailures v)),
     (''redswitchboard_source_needs_reauth'', Gauge, \<lambda>_ v. boolGauge (vm_NeedsReauth v)),
     (''redswitchboard_source_quota_blocked_total'', Counter, \<lambda>_ v. i2f (vm_QuotaBlockedCount v)),
     (''redswitchboard_source_quota_blocked'', Gauge,
        \<lambda>now v. boolGauge (\<not> is_zero_time (vm_QuotaBlockedUntil v) \<and> now < vm_QuotaBlockedUntil v)),
     (''redswitchboard_source_telemetry_config_wiped'', Gauge, \<lambda>_ v. boolGauge (vm_TelemetryConfigWiped v)),
     (''redswitchboard_source_vehicle_data_fetches_total'', Counter, \<lambda>_ v. i2f (vm_VehicleDataFetches v)),
     (''redswitchboard_source_scheduled_interval_seconds'', Gauge, \<lambda>_ v. duration_seconds (vm_ScheduledInterval v)),
     (''redswitchboard_source_stream_backoff_active'', Gauge, \<lambda>_ v. boolGauge (vm_StreamBackoffActive v)),
     (''redswitchboard_source_last_poll_timestamp_seconds'', Gauge, \<lambda>_ v. unixOrZero (vm_LastPollAt v))]"

definition collectVehicle :: "gotime \<Rightarrow> string \<Rightarrow> vehicleMetric \<Rightarrow> metric list" where
  "collectVehicle now name v =
     map (\<lambda>(n, ty, extract). (n, [name, vm_VIN v], ty (extract now v))) sourceMetricDefs @
     mapSeries (vm_PollsByState v)
       (\<lambda>state n. (''redswitchboard_source_state_polls_total'', [name, vm_VIN v, state], Counter (i2f n))) @
     (if vm_DerivedState v \<noteq> [] then [(''redswitchboard_source_state'', [name, vm_VIN v, vm_DerivedState v], Gauge (Fin 1))] else [])"

definition collectSource :: "gotime \<Rightarrow> string \<Rightarrow> vehicleMetric list \<Rightarrow> metric list" where
  "collectSource now name vs = concat (map (collectVehicle now name) vs)"

definition collectStreamSink :: "streamSinkStats \<Rightarrow> metric list" where
  "collectStreamSink s = [
     (''redswitchboard_stream_sink_consumers'', [], Gauge (i2f (ss_Consumers s))),
     (''redswitchboard_stream_sink_frames_pushed_total'', [], Counter (i2f (ss_FramesPushed s))),
     (''redswitchboard_stream_sink_frames_dropped_total'', [], Counter (i2f (ss_FramesDropped s)))]"

definition collectStreamSource :: "streamSourceStats \<Rightarrow> metric list" where
  "collectStreamSource s = [
     (''redswitchboard_stream_source_connected'', [], Gauge (i2f (so_Connected s))),
     (''redswitchboard_stream_source_connects_total'', [], Counter (i2f (so_Connects s))),
     (''redswitchboard_stream_source_frames_total'', [], Counter (i2f (so_Frames s))),
     (''redswitchboard_stream_source_last_frame_age_seconds'', [], Gauge (duration_seconds (so_LastFrameAge s)))] @
     (if 0 < so_GapCount s
      then [(''redswitchboard_stream_source_frame_gap_seconds'', [], Histogram (so_GapCount s) (so_GapSum s) (so_GapBuckets s))]
      else []) @
     mapSeries (so_FieldFrames s) (\<lambda>field n. (''redswitchboard_stream_source_field_frames_total'', [field], Counter (i2f n))) @
     mapSeries (so_Rejects s) (\<lambda>reason n. (''redswitchboard_stream_source_rejects_total'', [reason], Counter (i2f n))) @
     [(''redswitchboard_stream_source_disconnects_total'', [], Counter (i2f (so_Disconnects s))),
      (''redswitchboard_stream_source_idle_timeouts_total'', [], Counter (i2f (so_IdleTimeouts s)))]"

definition collectIntegrity :: "(string \<rightharpoonup> int) \<Rightarrow> metric list" where
  "collectIntegrity m = mapSeries m
     (\<lambda>reason n. (''redswitchboard_stream_integrity_rejections_total'', [reason], Counter (i2f n)))"

text \<open>\<^verbatim>\<open>strings.Cut(key, "_")\<close>; a key without the separator is passed over.\<close>

fun cutUnderscore :: "string \<Rightarrow> (string \<times> string) option" where
  "cutUnderscore [] = None"
| "cutUnderscore (c # s) = (if c = CHR ''_'' then Some ([], s)
     else case cutUnderscore s of None \<Rightarrow> None | Some (a, b) \<Rightarrow> Some (c # a, b))"

definition collectSession :: "(string \<rightharpoonup> int) \<Rightarrow> metric list" where
  "collectSession m = concat (map (\<lambda>k. case cutUnderscore k of None \<Rightarrow> []
     | Some (kind, edge) \<Rightarrow> [(''redswitchboard_cache_sessions_total'', [kind, edge], Counter (i2f (the (m k))))])
     (sorted_list_of_set (dom m)))"

definition collectUnchanged :: "string \<Rightarrow> int \<Rightarrow> metric list" where
  "collectUnchanged name n = [(''redswitchboard_source_unchanged_reads_total'', [name], Counter (i2f n))]"

definition totalFetches :: "vehicleMetric list \<Rightarrow> int" where
  "totalFetches vs = fold (\<lambda>v n. wrap64 (n + vm_VehicleDataFetches v)) vs 0"

definition collectCost :: "string \<Rightarrow> f64 \<Rightarrow> vehicleMetric list \<Rightarrow> metric list" where
  "collectCost name price vs = (if fle price fzero then []
     else [(''redswitchboard_source_vehicle_data_price_usd'', [name], Gauge price),
           (''redswitchboard_source_estimated_cost_usd_total'', [name], Counter (fmul (i2f (totalFetches vs)) price))])"

definition collectCommand :: "string \<Rightarrow> commandStats \<Rightarrow> metric list" where
  "collectCommand name s = map (\<lambda>(n, v). (n, [name], Counter (i2f v)))
     [(''redswitchboard_commands_total'', co_Sent s),
      (''redswitchboard_command_successes_total'', co_Successes s),
      (''redswitchboard_command_nominal_failures_total'', co_NominalFailures s),
      (''redswitchboard_command_infra_errors_total'', co_InfraErrors s),
      (''redswitchboard_command_wakes_total'', co_Wakes s),
      (''redswitchboard_command_rate_limited_total'', co_RateLimitedCount s)]"

subsection \<open>The registry\<close>

text \<open>
  A holder keeps the snapshot function; what it would return now stands for it here, None for nil. The
  name and the price are set with it.
\<close>

record metricsRegistry =
  mr_started :: gotime
  mr_vehiclesKnown :: f64
  mr_source :: "string \<times> vehicleMetric list option"
  mr_streamSink :: "streamSinkStats option"
  mr_streamSrc :: "streamSourceStats option"
  mr_streamInteg :: "(string \<rightharpoonup> int) option"
  mr_command :: "string \<times> commandStats option"
  mr_session :: "(string \<rightharpoonup> int) option"
  mr_unchanged :: "string \<times> int option"
  mr_cost :: "string \<times> f64 \<times> vehicleMetric list option"

definition newRegistry :: "gotime \<Rightarrow> metricsRegistry" where
  "newRegistry now = \<lparr>mr_started = now, mr_vehiclesKnown = fzero, mr_source = ([], None), mr_streamSink = None,
     mr_streamSrc = None, mr_streamInteg = None, mr_command = ([], None), mr_session = None,
     mr_unchanged = ([], None), mr_cost = ([], fzero, None)\<rparr>"

definition setSource :: "string \<Rightarrow> vehicleMetric list option \<Rightarrow> metricsRegistry \<Rightarrow> metricsRegistry" where
  "setSource name snap reg = reg\<lparr>mr_source := (name, snap)\<rparr>"

definition setStreamSink :: "streamSinkStats option \<Rightarrow> metricsRegistry \<Rightarrow> metricsRegistry" where
  "setStreamSink snap reg = reg\<lparr>mr_streamSink := snap\<rparr>"

definition setStreamSource :: "streamSourceStats option \<Rightarrow> metricsRegistry \<Rightarrow> metricsRegistry" where
  "setStreamSource snap reg = reg\<lparr>mr_streamSrc := snap\<rparr>"

definition setStreamIntegrity :: "(string \<rightharpoonup> int) option \<Rightarrow> metricsRegistry \<Rightarrow> metricsRegistry" where
  "setStreamIntegrity snap reg = reg\<lparr>mr_streamInteg := snap\<rparr>"

definition setCommand :: "string \<Rightarrow> commandStats option \<Rightarrow> metricsRegistry \<Rightarrow> metricsRegistry" where
  "setCommand name snap reg = reg\<lparr>mr_command := (name, snap)\<rparr>"

definition setSession :: "(string \<rightharpoonup> int) option \<Rightarrow> metricsRegistry \<Rightarrow> metricsRegistry" where
  "setSession snap reg = reg\<lparr>mr_session := snap\<rparr>"

definition setSourceUnchanged :: "string \<Rightarrow> int option \<Rightarrow> metricsRegistry \<Rightarrow> metricsRegistry" where
  "setSourceUnchanged name snap reg = reg\<lparr>mr_unchanged := (name, snap)\<rparr>"

definition setSourceCost :: "string \<Rightarrow> f64 \<Rightarrow> vehicleMetric list option \<Rightarrow> metricsRegistry \<Rightarrow> metricsRegistry" where
  "setSourceCost name price snap reg = reg\<lparr>mr_cost := (name, price, snap)\<rparr>"

definition setVehiclesKnown :: "nat \<Rightarrow> metricsRegistry \<Rightarrow> metricsRegistry" where
  "setVehiclesKnown n reg = reg\<lparr>mr_vehiclesKnown := i2f (int n)\<rparr>"

definition whenSet :: "'a option \<Rightarrow> ('a \<Rightarrow> metric list) \<Rightarrow> metric list" where
  "whenSet snap f = (case snap of None \<Rightarrow> [] | Some x \<Rightarrow> f x)"

definition scrape :: "gotime \<Rightarrow> metricsRegistry \<Rightarrow> metric list" where
  "scrape now reg =
     [(''redswitchboard_vehicles_known'', [], Gauge (mr_vehiclesKnown reg)),
      (''redswitchboard_uptime_seconds'', [], Gauge (duration_seconds (time_sub now (mr_started reg))))] @
     whenSet (snd (mr_source reg)) (collectSource now (fst (mr_source reg))) @
     whenSet (mr_streamSink reg) collectStreamSink @
     whenSet (mr_streamSrc reg) collectStreamSource @
     whenSet (mr_streamInteg reg) collectIntegrity @
     whenSet (snd (mr_command reg)) (collectCommand (fst (mr_command reg))) @
     whenSet (mr_session reg) collectSession @
     whenSet (snd (mr_unchanged reg)) (collectUnchanged (fst (mr_unchanged reg))) @
     (case mr_cost reg of (name, price, snap) \<Rightarrow> whenSet snap (collectCost name price))"

text \<open>The wiring of the serve command, for the parts that are running.\<close>

definition serveRegistry ::
  "gotime \<Rightarrow> string \<Rightarrow> f64 \<Rightarrow> provider \<Rightarrow> service option \<Rightarrow> int option \<Rightarrow> metricsRegistry" where
  "serveRegistry started source price prov svc unchanged =
     (let r0 = newRegistry started;
          r1 = (case svc of None \<Rightarrow> r0
            | Some s \<Rightarrow> setSession (Some (service_SessionStats s)) (setStreamIntegrity (Some (service_IntegrityStats s)) r0));
          r2 = (case unchanged of None \<Rightarrow> r1 | Some n \<Rightarrow> setSourceUnchanged source (Some n) r1);
          r3 = setSource source (Some (sourceSnap prov)) r2;
          r4 = setSourceCost source price (Some (sourceSnap prov)) r3
      in setVehiclesKnown (length (pv_Vehicles prov)) r4)"

end
