(* ===== verification/MetricsClaims.thy ===== *)
theory MetricsClaims
  imports Metrics
begin

section \<open>Properties of the metrics\<close>

text \<open>
  Route labels, and the exposition as a whole: which samples a scrape holds and when their series are distinct.
\<close>

subsection \<open>Route labels\<close>

definition noSlash :: "string \<Rightarrow> bool" where
  "noSlash s \<longleftrightarrow> CHR ''/'' \<notin> set s"

lemma splitSlash_nonempty: "splitSlash s \<noteq> []"
  by (induction s) (auto split: list.split)

lemma splitSlash_noSlash: "list_all noSlash (splitSlash s)"
  by (induction s) (auto simp: noSlash_def split: list.split)

lemma joinSlash_splitSlash: "joinSlash (splitSlash s) = s"
proof (induction s)
  case (Cons c s)
  obtain t ts where t: "splitSlash s = t # ts" using splitSlash_nonempty by (cases "splitSlash s") blast+
  then show ?case using Cons by (cases ts) simp_all
qed simp

lemma splitSlash_plain: "noSlash s \<Longrightarrow> splitSlash s = [s]"
  by (induction s) (auto simp: noSlash_def)

lemma splitSlash_append: "noSlash s \<Longrightarrow> splitSlash (s @ CHR ''/'' # t) = s # splitSlash t"
  by (induction s) (auto simp: noSlash_def)

lemma splitSlash_joinSlash: "ss \<noteq> [] \<Longrightarrow> list_all noSlash ss \<Longrightarrow> splitSlash (joinSlash ss) = ss"
  by (induction ss rule: joinSlash.induct) (auto simp: splitSlash_plain splitSlash_append)

lemma isIDSegment_idLabel: "\<not> isIDSegment idLabel"
  by (simp add: isIDSegment_def idLabel_def numIDMinLen_def idMinLen_def)

lemma normalizeSegment_idem [simp]: "normalizeSegment (normalizeSegment s) = normalizeSegment s"
  by (simp add: normalizeSegment_def isIDSegment_idLabel)

lemma normalizeSegment_noSlash: "noSlash s \<Longrightarrow> noSlash (normalizeSegment s)"
  by (simp add: normalizeSegment_def noSlash_def idLabel_def)

text \<open>The two paths answered at once are the ones the general case would give as well, the empty one apart.\<close>

lemma normalizePath_segments:
  "normalizePath p = (if p = [] then ''/'' else joinSlash (map normalizeSegment (splitSlash p)))"
  by (simp add: normalizePath_def normalizeSegment_def)

lemma splitSlash_normalizePath: "p \<noteq> [] \<Longrightarrow> splitSlash (normalizePath p) = map normalizeSegment (splitSlash p)"
  using splitSlash_noSlash [of p]
  by (simp add: normalizePath_segments splitSlash_joinSlash splitSlash_nonempty list_all_iff normalizeSegment_noSlash)

text \<open>
  The route label of a path has the path's segments in order, each one kept or replaced by the
  placeholder; labelling a label changes nothing; and paths that differ only in their ids have the same
  label.
\<close>

theorem route_labels:
  "(p \<noteq> [] \<longrightarrow> splitSlash (normalizePath p) = map (\<lambda>s. if isIDSegment s then idLabel else s) (splitSlash p)) \<and>
   normalizePath (normalizePath p) = normalizePath p \<and>
   (list_all2 (\<lambda>s t. s = t \<or> isIDSegment s \<and> isIDSegment t) (splitSlash p) (splitSlash q) \<longrightarrow>
      normalizePath p = normalizePath q)"
proof (intro conjI impI)
  have empty: "isIDSegment [] = False" by (simp add: isIDSegment_def numIDMinLen_def idMinLen_def)
  have seg: "normalizeSegment = (\<lambda>s. if isIDSegment s then idLabel else s)" by (auto simp: fun_eq_iff normalizeSegment_def empty)
  show "splitSlash (normalizePath p) = map (\<lambda>s. if isIDSegment s then idLabel else s) (splitSlash p)" if "p \<noteq> []"
    using splitSlash_normalizePath [OF that] by (simp add: seg)
  show "normalizePath (normalizePath p) = normalizePath p"
  proof (cases "p = []")
    case False
    note split = splitSlash_normalizePath [OF False]
    have "normalizePath p \<noteq> []"
    proof
      assume "normalizePath p = []"
      then have "map normalizeSegment (splitSlash p) = [[]]" using split by simp
      then have "splitSlash p = [[]]" by (auto simp: normalizeSegment_def idLabel_def split: if_splits)
      then show False using joinSlash_splitSlash [of p] False by simp
    qed
    then show ?thesis using False by (simp add: normalizePath_segments [of "normalizePath p"] split o_def) (simp add: normalizePath_segments)
  qed (simp add: normalizePath_def)
  assume same: "list_all2 (\<lambda>s t. s = t \<or> isIDSegment s \<and> isIDSegment t) (splitSlash p) (splitSlash q)"
  then have "map normalizeSegment (splitSlash p) = map normalizeSegment (splitSlash q)"
    unfolding seg by (induction rule: list_all2_induct) auto
  moreover have "p = [] \<longleftrightarrow> q = []"
  proof -
    have "splitSlash p = [[]] \<longleftrightarrow> splitSlash q = [[]]" using same empty by (auto simp: list_all2_Cons1 list_all2_Cons2)
    moreover have "splitSlash r = [[]] \<longleftrightarrow> r = []" for r using joinSlash_splitSlash [of r] by auto
    ultimately show ?thesis by simp
  qed
  ultimately show "normalizePath p = normalizePath q" by (simp add: normalizePath_segments)
qed

lemma route_labels_witness:
  "normalizePath ''/api/1/vehicles/5107700305316668735/wake_up'' = normalizePath ''/api/1/vehicles/5107700305316668736/wake_up''"
proof -
  have "list_all2 (\<lambda>s t. s = t \<or> isIDSegment s \<and> isIDSegment t) (splitSlash ''/api/1/vehicles/5107700305316668735/wake_up'')
     (splitSlash ''/api/1/vehicles/5107700305316668736/wake_up'')"
    by code_simp
  then show ?thesis
    using route_labels [of "''/api/1/vehicles/5107700305316668735/wake_up''" "''/api/1/vehicles/5107700305316668736/wake_up''"] by blast
qed

subsection \<open>Series\<close>

lemma mapSeries_keys:
  assumes "\<And>k n. seriesKey (f k n) = (name, ls @ [k])"
  shows "distinct (map seriesKey (mapSeries m f))" "fst ` set (mapSeries m f) \<subseteq> {name}"
proof -
  have "map seriesKey (mapSeries m f) = map (\<lambda>k. (name, ls @ [k])) (sorted_list_of_set (dom m))"
    by (simp add: mapSeries_def assms)
  then show "distinct (map seriesKey (mapSeries m f))" by (simp add: distinct_map inj_on_def)
  have "fst (f k n) = name" for k n using assms [of k n] by (simp add: seriesKey_def)
  then show "fst ` set (mapSeries m f) \<subseteq> {name}" by (auto simp: mapSeries_def)
qed

lemma distinct_keys_append:
  "distinct (map seriesKey a) \<Longrightarrow> distinct (map seriesKey b) \<Longrightarrow> fst ` set a \<inter> fst ` set b = {} \<Longrightarrow>
   distinct (map seriesKey (a @ b))"
  by (auto simp: seriesKey_def)

lemma names_disjoint: "fst ` set a \<subseteq> A \<Longrightarrow> fst ` set b \<subseteq> B \<Longrightarrow> A \<inter> B = {} \<Longrightarrow> fst ` set a \<inter> fst ` set b = {}"
  by blast

definition sourceNames :: "string list" where
  "sourceNames = map fst sourceMetricDefs @ [''redswitchboard_source_state_polls_total'', ''redswitchboard_source_state'']"

lemma collectVehicle_names: "fst ` set (collectVehicle now name v) \<subseteq> set sourceNames"
  unfolding collectVehicle_def sourceNames_def mapSeries_def by (auto simp: image_iff; force)

lemma collectVehicle_labels: "m \<in> set (collectVehicle now name v) \<Longrightarrow> \<exists>ls. fst (snd m) = name # vm_VIN v # ls"
  by (auto simp: collectVehicle_def mapSeries_def)

lemma collectVehicle_distinct: "distinct (map seriesKey (collectVehicle now name v))"
proof -
  let ?defs = "map (\<lambda>(n, ty, extract). (n, [name, vm_VIN v], ty (extract now v))) sourceMetricDefs"
  let ?polls = "mapSeries (vm_PollsByState v)
       (\<lambda>state n. (''redswitchboard_source_state_polls_total'', [name, vm_VIN v, state], Counter (i2f n)))"
  let ?state = "if vm_DerivedState v \<noteq> [] then [(''redswitchboard_source_state'', [name, vm_VIN v, vm_DerivedState v], Gauge (Fin 1))] else []"
  have names: "map fst ?defs = map fst sourceMetricDefs" by (simp add: case_prod_beta o_def)
  have d: "distinct (map fst sourceMetricDefs)" by (simp add: sourceMetricDefs_def)
  have "map fst (map seriesKey ?defs) = map fst ?defs" by (simp add: seriesKey_def o_def)
  then have 1: "distinct (map seriesKey ?defs)" using d names by (metis distinct_map)
  have 2: "distinct (map seriesKey ?polls)" "fst ` set ?polls \<subseteq> {''redswitchboard_source_state_polls_total''}"
    using mapSeries_keys [of "\<lambda>state n. (''redswitchboard_source_state_polls_total'', [name, vm_VIN v, state], Counter (i2f n))"
        "''redswitchboard_source_state_polls_total''" "[name, vm_VIN v]" "vm_PollsByState v"] by (simp_all add: seriesKey_def)
  have 3: "fst ` set ?defs \<subseteq> set (map fst sourceMetricDefs)" unfolding names [symmetric] by (simp only: set_map)
  have 4: "fst ` set (?polls @ ?state) \<subseteq> {''redswitchboard_source_state_polls_total'', ''redswitchboard_source_state''}"
    using 2(2) by (auto split: if_splits)
  have 5: "fst ` set ?state \<subseteq> {''redswitchboard_source_state''}" by (auto split: if_splits)
  have "distinct (map seriesKey ?state)" by simp
  then have "distinct (map seriesKey (?polls @ ?state))"
    by (rule distinct_keys_append [OF 2(1)], intro names_disjoint [OF 2(2) 5]) simp
  moreover have "set (map fst sourceMetricDefs) \<inter> {''redswitchboard_source_state_polls_total'', ''redswitchboard_source_state''} = {}"
    by (simp add: sourceMetricDefs_def)
  ultimately show ?thesis
    unfolding collectVehicle_def by (intro distinct_keys_append [OF 1] names_disjoint [OF 3 4])
qed

lemma collectVehicle_nonempty: "\<exists>x. (''redswitchboard_source_polls_total'', [name, vm_VIN v], x) \<in> set (collectVehicle now name v)"
  by (rule exI [of _ "Counter (i2f (vm_SuccessCount v))"]) (simp add: collectVehicle_def sourceMetricDefs_def)

lemma collectSource_distinct:
  "distinct (map seriesKey (collectSource now name vs)) \<longleftrightarrow> distinct (map vm_VIN vs)"
proof (induction vs)
  case (Cons v vs)
  have "seriesKey ` set (collectVehicle now name v) \<inter> seriesKey ` set (collectSource now name vs) = {} \<longleftrightarrow>
      vm_VIN v \<notin> vm_VIN ` set vs"
  proof
    assume disj: "seriesKey ` set (collectVehicle now name v) \<inter> seriesKey ` set (collectSource now name vs) = {}"
    show "vm_VIN v \<notin> vm_VIN ` set vs"
    proof
      assume "vm_VIN v \<in> vm_VIN ` set vs"
      then obtain w where w: "w \<in> set vs" "vm_VIN v = vm_VIN w" by blast
      obtain x y where "(''redswitchboard_source_polls_total'', [name, vm_VIN v], x) \<in> set (collectVehicle now name v)"
        "(''redswitchboard_source_polls_total'', [name, vm_VIN v], y) \<in> set (collectVehicle now name w)"
        using collectVehicle_nonempty w(2) by metis
      then have "(''redswitchboard_source_polls_total'', [name, vm_VIN v]) \<in> seriesKey ` set (collectVehicle now name v)"
        "(''redswitchboard_source_polls_total'', [name, vm_VIN v]) \<in> seriesKey ` set (collectSource now name vs)"
        using w(1) by (force simp: seriesKey_def collectSource_def)+
      then show False using disj by blast
    qed
  next
    assume new: "vm_VIN v \<notin> vm_VIN ` set vs"
    show "seriesKey ` set (collectVehicle now name v) \<inter> seriesKey ` set (collectSource now name vs) = {}"
    proof (rule ccontr)
      assume "seriesKey ` set (collectVehicle now name v) \<inter> seriesKey ` set (collectSource now name vs) \<noteq> {}"
      then obtain a b where "a \<in> set (collectVehicle now name v)" "b \<in> set (collectSource now name vs)"
        and key: "seriesKey a = seriesKey b" by blast
      moreover from this(2) obtain w where "b \<in> set (collectVehicle now name w)" "w \<in> set vs"
        by (auto simp: collectSource_def)
      ultimately show False using collectVehicle_labels [of a now name v] collectVehicle_labels [of b now name w] new key
        by (metis fst_conv image_eqI list.inject seriesKey_def snd_conv)
    qed
  qed
  then show ?case using Cons collectVehicle_distinct by (auto simp: collectSource_def)
qed (simp add: collectSource_def)

lemma cutUnderscore_joined: "cutUnderscore k = Some (a, b) \<Longrightarrow> k = a @ CHR ''_'' # b"
  by (induction k arbitrary: a) (auto split: if_splits option.splits)

lemma collectSession_keys:
  "distinct (map seriesKey (collectSession m))" "fst ` set (collectSession m) \<subseteq> {''redswitchboard_cache_sessions_total''}"
proof -
  have "distinct (map seriesKey (concat (map (\<lambda>k. case cutUnderscore k of None \<Rightarrow> []
     | Some (kind, edge) \<Rightarrow> [(''redswitchboard_cache_sessions_total'', [kind, edge], Counter (i2f (the (m k))))]) ks)))"
    if "distinct ks" for ks
    using that
  proof (induction ks)
    case (Cons k ks)
    then show ?case
      by (auto split: option.splits simp: seriesKey_def) (metis cutUnderscore_joined)
  qed simp
  then show "distinct (map seriesKey (collectSession m))" by (simp add: collectSession_def)
  show "fst ` set (collectSession m) \<subseteq> {''redswitchboard_cache_sessions_total''}"
    by (auto simp: collectSession_def split: option.splits)
qed

lemma collectStreamSource_distinct: "distinct (map seriesKey (collectStreamSource s))"
proof -
  let ?a = "[(''redswitchboard_stream_source_connected'', [], Gauge (i2f (so_Connected s))),
     (''redswitchboard_stream_source_connects_total'', [], Counter (i2f (so_Connects s))),
     (''redswitchboard_stream_source_frames_total'', [], Counter (i2f (so_Frames s))),
     (''redswitchboard_stream_source_last_frame_age_seconds'', [], Gauge (duration_seconds (so_LastFrameAge s)))] @
     (if 0 < so_GapCount s
      then [(''redswitchboard_stream_source_frame_gap_seconds'', [], Histogram (so_GapCount s) (so_GapSum s) (so_GapBuckets s))]
      else [])"
  let ?f = "mapSeries (so_FieldFrames s) (\<lambda>field n. (''redswitchboard_stream_source_field_frames_total'', [field], Counter (i2f n)))"
  let ?r = "mapSeries (so_Rejects s) (\<lambda>reason n. (''redswitchboard_stream_source_rejects_total'', [reason], Counter (i2f n)))"
  let ?z = "[(''redswitchboard_stream_source_disconnects_total'', [], Counter (i2f (so_Disconnects s))),
      (''redswitchboard_stream_source_idle_timeouts_total'', [], Counter (i2f (so_IdleTimeouts s)))]"
  have f: "distinct (map seriesKey ?f)" "fst ` set ?f \<subseteq> {''redswitchboard_stream_source_field_frames_total''}"
    using mapSeries_keys [of "\<lambda>field n. (''redswitchboard_stream_source_field_frames_total'', [field], Counter (i2f n))"
      "''redswitchboard_stream_source_field_frames_total''" "[]" "so_FieldFrames s"] by (simp_all add: seriesKey_def)
  have r: "distinct (map seriesKey ?r)" "fst ` set ?r \<subseteq> {''redswitchboard_stream_source_rejects_total''}"
    using mapSeries_keys [of "\<lambda>reason n. (''redswitchboard_stream_source_rejects_total'', [reason], Counter (i2f n))"
      "''redswitchboard_stream_source_rejects_total''" "[]" "so_Rejects s"] by (simp_all add: seriesKey_def)
  have z: "distinct (map seriesKey ?z)" by (simp add: seriesKey_def)
  have a: "distinct (map seriesKey ?a)" by (simp add: seriesKey_def)
  let ?zn = "{''redswitchboard_stream_source_disconnects_total'', ''redswitchboard_stream_source_idle_timeouts_total''}"
  have rz: "distinct (map seriesKey (?r @ ?z))"
    by (rule distinct_keys_append [OF r(1) z], rule names_disjoint [OF r(2), of _ ?zn]) simp_all
  have rzn: "fst ` set (?r @ ?z) \<subseteq> insert ''redswitchboard_stream_source_rejects_total'' ?zn" using r(2) by auto
  have frz: "distinct (map seriesKey (?f @ ?r @ ?z))"
    by (rule distinct_keys_append [OF f(1) rz], rule names_disjoint [OF f(2) rzn]) simp
  have frzn: "fst ` set (?f @ ?r @ ?z) \<subseteq>
      {''redswitchboard_stream_source_field_frames_total'', ''redswitchboard_stream_source_rejects_total''} \<union> ?zn"
    using f(2) rzn by auto
  have an: "fst ` set ?a \<subseteq> {''redswitchboard_stream_source_connected'', ''redswitchboard_stream_source_connects_total'',
      ''redswitchboard_stream_source_frames_total'', ''redswitchboard_stream_source_last_frame_age_seconds'',
      ''redswitchboard_stream_source_frame_gap_seconds''}"
    by (auto split: if_splits)
  have "distinct (map seriesKey (?a @ ?f @ ?r @ ?z))"
    by (rule distinct_keys_append [OF a frz], rule names_disjoint [OF an frzn]) simp
  then show ?thesis unfolding collectStreamSource_def by simp
qed

lemma whenSet_distinct: "(\<And>x. distinct (map seriesKey (f x))) \<Longrightarrow> distinct (map seriesKey (whenSet o' f))"
  by (simp add: whenSet_def split: option.split)

lemma whenSet_names: "(\<And>x. fst ` set (f x) \<subseteq> A) \<Longrightarrow> fst ` set (whenSet o' f) \<subseteq> A"
  by (auto simp: whenSet_def split: option.splits)

text \<open>The parts of a scrape apart from the vehicles, with the names each uses.\<close>

lemma scrape_part_names:
  "fst ` set (collectStreamSink s1) \<subseteq> {''redswitchboard_stream_sink_consumers'', ''redswitchboard_stream_sink_frames_pushed_total'',
     ''redswitchboard_stream_sink_frames_dropped_total''}"
  "fst ` set (collectStreamSource s2) \<subseteq> {''redswitchboard_stream_source_connected'', ''redswitchboard_stream_source_connects_total'',
     ''redswitchboard_stream_source_frames_total'', ''redswitchboard_stream_source_last_frame_age_seconds'',
     ''redswitchboard_stream_source_frame_gap_seconds'', ''redswitchboard_stream_source_field_frames_total'',
     ''redswitchboard_stream_source_rejects_total'', ''redswitchboard_stream_source_disconnects_total'',
     ''redswitchboard_stream_source_idle_timeouts_total''}"
  "fst ` set (collectIntegrity m) \<subseteq> {''redswitchboard_stream_integrity_rejections_total''}"
  "fst ` set (collectCommand n c) \<subseteq> {''redswitchboard_commands_total'', ''redswitchboard_command_successes_total'',
     ''redswitchboard_command_nominal_failures_total'', ''redswitchboard_command_infra_errors_total'',
     ''redswitchboard_command_wakes_total'', ''redswitchboard_command_rate_limited_total''}"
  "fst ` set (collectUnchanged n u) \<subseteq> {''redswitchboard_source_unchanged_reads_total''}"
  "fst ` set (collectCost n p vs) \<subseteq> {''redswitchboard_source_vehicle_data_price_usd'', ''redswitchboard_source_estimated_cost_usd_total''}"
  by (auto simp: collectStreamSink_def collectStreamSource_def collectIntegrity_def collectCommand_def collectUnchanged_def
      collectCost_def mapSeries_def split: if_splits)

lemma scrape_part_distinct:
  "distinct (map seriesKey (collectStreamSink s1))" "distinct (map seriesKey (collectStreamSource s2))"
  "distinct (map seriesKey (collectIntegrity m))" "distinct (map seriesKey (collectCommand n c))"
  "distinct (map seriesKey (collectUnchanged n u))" "distinct (map seriesKey (collectCost n p vs))"
  using collectStreamSource_distinct
    mapSeries_keys(1) [of "\<lambda>reason n. (''redswitchboard_stream_integrity_rejections_total'', [reason], Counter (i2f n))"
      "''redswitchboard_stream_integrity_rejections_total''" "[]" m]
  by (simp_all add: collectStreamSink_def collectIntegrity_def collectCommand_def collectUnchanged_def collectCost_def seriesKey_def)

lemma parts_names: "list_all2 (\<lambda>p ns. fst ` set p \<subseteq> set ns) parts nss \<Longrightarrow> fst ` set (concat parts) \<subseteq> set (concat nss)"
proof (induction rule: list_all2_induct)
  case (Cons p ps ns nss)
  show ?case unfolding concat.simps set_append image_Un by (rule Un_mono [OF Cons(1,3)])
qed simp

lemma distinct_parts:
  "list_all2 (\<lambda>p ns. fst ` set p \<subseteq> set ns) parts nss \<Longrightarrow> distinct (concat nss) \<Longrightarrow>
   distinct (map seriesKey (concat parts)) \<longleftrightarrow> (\<forall>p \<in> set parts. distinct (map seriesKey p))"
proof (induction rule: list_all2_induct)
  case (Cons p ps ns nss)
  have "fst ` set (concat ps) \<subseteq> set (concat nss)" using Cons(2) by (rule parts_names)
  then have "fst ` set p \<inter> fst ` set (concat ps) = {}"
    by (rule names_disjoint [OF Cons(1)]) (use Cons(4) in simp)
  then have "seriesKey ` set p \<inter> seriesKey ` set (concat ps) = {}" by (force simp: seriesKey_def)
  then show ?case using Cons by simp
qed simp

lemma collectSource_names: "fst ` set (collectSource now name vs) \<subseteq> set sourceNames"
  using collectVehicle_names by (fastforce simp: collectSource_def)

definition scrapeNames :: "string list list" where
  "scrapeNames = [[''redswitchboard_vehicles_known'', ''redswitchboard_uptime_seconds''],
     sourceNames,
     [''redswitchboard_stream_sink_consumers'', ''redswitchboard_stream_sink_frames_pushed_total'',
      ''redswitchboard_stream_sink_frames_dropped_total''],
     [''redswitchboard_stream_source_connected'', ''redswitchboard_stream_source_connects_total'',
      ''redswitchboard_stream_source_frames_total'', ''redswitchboard_stream_source_last_frame_age_seconds'',
      ''redswitchboard_stream_source_frame_gap_seconds'', ''redswitchboard_stream_source_field_frames_total'',
      ''redswitchboard_stream_source_rejects_total'', ''redswitchboard_stream_source_disconnects_total'',
      ''redswitchboard_stream_source_idle_timeouts_total''],
     [''redswitchboard_stream_integrity_rejections_total''],
     [''redswitchboard_commands_total'', ''redswitchboard_command_successes_total'',
      ''redswitchboard_command_nominal_failures_total'', ''redswitchboard_command_infra_errors_total'',
      ''redswitchboard_command_wakes_total'', ''redswitchboard_command_rate_limited_total''],
     [''redswitchboard_cache_sessions_total''],
     [''redswitchboard_source_unchanged_reads_total''],
     [''redswitchboard_source_vehicle_data_price_usd'', ''redswitchboard_source_estimated_cost_usd_total'']]"

lemma scrapeNames_distinct: "distinct (concat scrapeNames)"
  by (simp add: scrapeNames_def sourceNames_def sourceMetricDefs_def)

text \<open>
  C29: a scrape never holds two samples of one series, the condition under which the library can render it,
  exactly when no two vehicles share a label; every other part is consistent whatever its counters hold.
  In the serve command the label is the VIN, or the id of a vehicle without one.
\<close>

theorem scrape_is_consistent:
  "(distinct (map seriesKey (scrape now reg)) \<longleftrightarrow>
     (case snd (mr_source reg) of None \<Rightarrow> True | Some vs \<Rightarrow> distinct (map vm_VIN vs))) \<and>
   (distinct (map seriesKey (scrape now (serveRegistry started source price prov svc unchanged))) \<longleftrightarrow>
     distinct (map labelVIN (pv_Vehicles prov)))"
proof -
  have main: "distinct (map seriesKey (scrape now reg)) \<longleftrightarrow>
     (case snd (mr_source reg) of None \<Rightarrow> True | Some vs \<Rightarrow> distinct (map vm_VIN vs))" for reg
  proof -
    obtain cn cp cs where cost: "mr_cost reg = (cn, cp, cs)" by (cases "mr_cost reg")
    define parts where "parts = [
      [(''redswitchboard_vehicles_known'', [], Gauge (mr_vehiclesKnown reg)),
       (''redswitchboard_uptime_seconds'', [], Gauge (duration_seconds (time_sub now (mr_started reg))))],
      whenSet (snd (mr_source reg)) (collectSource now (fst (mr_source reg))),
      whenSet (mr_streamSink reg) collectStreamSink, whenSet (mr_streamSrc reg) collectStreamSource,
      whenSet (mr_streamInteg reg) collectIntegrity, whenSet (snd (mr_command reg)) (collectCommand (fst (mr_command reg))),
      whenSet (mr_session reg) collectSession, whenSet (snd (mr_unchanged reg)) (collectUnchanged (fst (mr_unchanged reg))),
      whenSet cs (collectCost cn cp)]"
    have scrape: "scrape now reg = concat parts" by (simp add: scrape_def parts_def cost)
    have "list_all2 (\<lambda>p ns. fst ` set p \<subseteq> set ns) parts scrapeNames"
      unfolding parts_def scrapeNames_def list_all2_Cons list_all2_Nil2
      by (intro conjI TrueI whenSet_names) (simp_all add: scrape_part_names collectSession_keys collectSource_names)
    then have "distinct (map seriesKey (concat parts)) \<longleftrightarrow> (\<forall>p \<in> set parts. distinct (map seriesKey p))"
      by (rule distinct_parts) (rule scrapeNames_distinct)
    then show ?thesis
      by (simp add: scrape parts_def whenSet_distinct scrape_part_distinct collectSession_keys(1))
        (simp add: seriesKey_def whenSet_def collectSource_distinct split: option.split)
  qed
  show ?thesis
    using main [of reg] main [of "serveRegistry started source price prov svc unchanged"]
    by (simp add: serveRegistry_def Let_def setVehiclesKnown_def setSourceCost_def setSource_def sourceSnap_def
        vehicleMetricOf_def o_def)
qed

end
