(* ===== verification/FleetClient.thy ===== *)
theory FleetClient
  imports Poll FleetSource Strconv Tokens RestClient
begin

section \<open>The Fleet and Owner API clients\<close>

text \<open>
  \<^verbatim>\<open>internal/protocol/tesla/fleet/poll/v1/source.go\<close> and \<^verbatim>\<open>internal/protocol/tesla/owner/poll/v1/source.go\<close>:
  the requests with their bearer and the one retry, the classified errors, the list of vehicles and the
  poll that does not wake a car.

  The HTTP client is a parameter: what a GET of a path with a token answers, in a world \<open>'w\<close> of its own.
  A reply carries what its body decodes to in each shape that is asked for, None when it does not; the
  client decodes only the body of a 2xx reply.
\<close>

subsection \<open>Text\<close>

fun containsStr :: "string \<Rightarrow> string \<Rightarrow> bool" where
  "containsStr sub [] = (sub = [])"
| "containsStr sub (c # s) = (take (length sub) (c # s) = sub \<or> containsStr sub s)"

text \<open>\<^verbatim>\<open>strings.TrimSpace\<close> on ASCII white space; header values hold no other.\<close>

definition isSpace :: "char \<Rightarrow> bool" where
  "isSpace c \<longleftrightarrow> c = CHR '' '' \<or> 9 \<le> (of_char c :: nat) \<and> (of_char c :: nat) \<le> 13"

definition trimSpace :: "string \<Rightarrow> string" where
  "trimSpace s = rev (dropWhile isSpace (rev (dropWhile isSpace s)))"

subsection \<open>Replies\<close>

record productEntry =
  pe_VehicleID :: int
  pe_VIN :: string
  pe_DisplayName :: string

record httpReply =
  hr_status :: int
  hr_statusLine :: string
  hr_body :: string
  hr_retryAfter :: string
  hr_rateLimitReset :: string
  hr_products :: "productEntry list option"
  hr_vehicles :: "summary list option"
  hr_summary :: "summary option"
  hr_data :: "vehicleData option"

text \<open>
  \<open>tn_get\<close> is one call of the HTTP client and what it answers in the end: the requests the client repeats by itself
  after a transient failure lie inside it, as many as its retry count allows.
\<close>

record 'w teslaNet =
  tn_get :: "string \<Rightarrow> string \<Rightarrow> 'w \<Rightarrow> (string + httpReply) \<times> 'w"
  tn_refreshEnv :: "'w \<Rightarrow> refreshEnv \<times> 'w"
  tn_now :: "'w \<Rightarrow> gotime"
  tn_httpTime :: "string \<Rightarrow> gotime option"

record 'w teslaState =
  ts_tm :: tokenManager
  ts_disk :: disk
  ts_world :: 'w

subsection \<open>Errors\<close>

definition clampNonNeg :: "duration \<Rightarrow> duration" where
  "clampNonNeg d = (if d < 0 then 0 else d)"

definition parseRetryAfter :: "(string \<Rightarrow> gotime option) \<Rightarrow> gotime \<Rightarrow> httpReply \<Rightarrow> duration \<times> bool" where
  "parseRetryAfter httpTime now r =
     (let v = trimSpace (hr_retryAfter r);
          u = trimSpace (hr_rateLimitReset r);
          byReset = (if u \<noteq> [] then (case parseInt64 u of
               Some epoch \<Rightarrow> (clampNonNeg (time_sub (fromUnixSec epoch) now), True)
             | None \<Rightarrow> (0, False)) else (0, False))
      in if v \<noteq> [] then (case parseInt64 v of
              Some secs \<Rightarrow> (clampNonNeg (wrap64 (secs * Second)), True)
            | None \<Rightarrow> (case httpTime v of
                Some t \<Rightarrow> (clampNonNeg (time_sub t now), True)
              | None \<Rightarrow> byReset))
         else byReset)"

record fleetError =
  se_Label :: string
  se_Status :: int
  se_Body :: string
  se_Err :: string
  se_Retry :: duration
  se_HasRetry :: bool
  se_TelemetryWiped :: bool

definition newSourceError :: "(string \<Rightarrow> gotime option) \<Rightarrow> gotime \<Rightarrow> string \<Rightarrow> httpReply \<Rightarrow> fleetError" where
  "newSourceError httpTime now label r =
     (let (retry, has) = parseRetryAfter httpTime now r in
      \<lparr>se_Label = label, se_Status = hr_status r, se_Body = hr_body r,
       se_Err = hr_statusLine r @ '': '' @ hr_body r, se_Retry = retry, se_HasRetry = has,
       se_TelemetryWiped = (hr_status r = 403 \<and> containsStr ''EXCEEDED_LIMIT'' (hr_body r))\<rparr>)"

definition se_text :: "fleetError \<Rightarrow> string" where
  "se_text e = se_Label e @ '' error (status='' @ itoa (se_Status e) @ ''): '' @ se_Err e"

definition se_Unauthenticated :: "fleetError \<Rightarrow> bool" where
  "se_Unauthenticated e \<longleftrightarrow> se_Status e = 401"

definition se_RateLimited :: "fleetError \<Rightarrow> bool" where
  "se_RateLimited e \<longleftrightarrow> se_Status e = 429"

definition se_QuotaBlocked :: "fleetError \<Rightarrow> bool" where
  "se_QuotaBlocked e \<longleftrightarrow> se_Status e = 403 \<and> containsStr ''account disabled'' (se_Body e)"

definition se_AccountDisabled :: "fleetError \<Rightarrow> bool" where
  "se_AccountDisabled e \<longleftrightarrow> se_QuotaBlocked e"

text \<open>An error with no method of its own, and the error the poll loop sees.\<close>

definition plainError :: "string \<Rightarrow> errLayer" where
  "plainError t = \<lparr>el_text = t, el_Unauthenticated = None, el_RateLimited = None, el_RetryAfter = None,
     el_QuotaBlocked = None, el_AccountDisabled = None, el_TelemetryConfigWiped = None\<rparr>"

definition fleetGoError :: "fleetError \<Rightarrow> goError" where
  "fleetGoError e =
     [\<lparr>el_text = se_text e, el_Unauthenticated = Some (se_Unauthenticated e), el_RateLimited = Some (se_RateLimited e),
       el_RetryAfter = Some (se_Retry e, se_HasRetry e), el_QuotaBlocked = Some (se_QuotaBlocked e),
       el_AccountDisabled = Some (se_AccountDisabled e), el_TelemetryConfigWiped = Some (se_TelemetryWiped e)\<rparr>,
      plainError (se_Err e)]"

subsection \<open>Requests\<close>

function getWithRefresh ::
  "'w teslaNet \<Rightarrow> string \<Rightarrow> string \<Rightarrow> bool \<Rightarrow> 'w teslaState \<Rightarrow> (goError + httpReply) \<times> 'w teslaState" where
  "getWithRefresh net label path retry s =
     (let tok = tm_Token (ts_tm s) in
      case tn_get net path tok (ts_world s) of
        (Inl err, w1) \<Rightarrow> (Inl [plainError err], s\<lparr>ts_world := w1\<rparr>)
      | (Inr r, w1) \<Rightarrow>
          if 399 < hr_status r then
            (let e = newSourceError (tn_httpTime net) (tn_now net w1) label r; fail = Inl (fleetGoError e) in
             if retry \<and> se_Unauthenticated e then
               (let (env, w2) = tn_refreshEnv net w1;
                    (res, tm', disk') = tm_RefreshAfter401 env tok (ts_tm s) (ts_disk s);
                    s' = s\<lparr>ts_tm := tm', ts_disk := disk', ts_world := w2\<rparr>
                in case res of
                     Inr newTok \<Rightarrow> if newTok \<noteq> tok then getWithRefresh net label path False s' else (fail, s')
                   | Inl _ \<Rightarrow> (fail, s'))
             else (fail, s\<lparr>ts_world := w1\<rparr>))
          else (Inr r, s\<lparr>ts_world := w1\<rparr>))"
  by pat_completeness auto

termination
  by (relation "measure (\<lambda>(_, _, _, retry, _). if retry then 1 else 0)") auto

declare getWithRefresh.simps [simp del]

definition tesla_get :: "'w teslaNet \<Rightarrow> string \<Rightarrow> string \<Rightarrow> 'w teslaState \<Rightarrow> (goError + httpReply) \<times> 'w teslaState" where
  "tesla_get net label path s = getWithRefresh net label path True s"

text \<open>What the client decodes into a zero value.\<close>

definition decodeReply :: "(httpReply \<Rightarrow> 'a option) \<Rightarrow> 'a \<Rightarrow> httpReply \<Rightarrow> goError + 'a" where
  "decodeReply sel zero r = (if 200 \<le> hr_status r \<and> hr_status r \<le> 299
     then (case sel r of None \<Rightarrow> Inl [plainError ''decode''] | Some x \<Rightarrow> Inr x) else Inr zero)"

definition zeroSummary :: summary where
  "zeroSummary = \<lparr>su_ID = 0, su_VehicleID = 0, su_VIN = [], su_DisplayName = [], su_State = []\<rparr>"

definition zeroVehicleData :: vehicleData where
  "zeroVehicleData = \<lparr>vd_ID = 0, vd_VehicleID = 0, vd_VIN = [], vd_DisplayName = [], vd_State = [], vd_OptionCodes = None,
     vd_APIVersion = None, vd_InService = None, vd_ChargeState = None, vd_ClimateState = None, vd_DriveState = None,
     vd_VehicleConfig = None, vd_VehicleState = None\<rparr>"

subsection \<open>Vehicles\<close>

definition fleetLabel :: string where "fleetLabel = ''tesla fleet api''"
definition ownerLabel :: string where "ownerLabel = ''tesla owner api''"

definition fleet_Vehicles :: "'w teslaNet \<Rightarrow> 'w teslaState \<Rightarrow> (goError + identity list) \<times> 'w teslaState" where
  "fleet_Vehicles net s = (case tesla_get net fleetLabel ''/api/1/products'' s of
     (Inl err, s1) \<Rightarrow> (Inl err, s1)
   | (Inr r, s1) \<Rightarrow> (case decodeReply hr_products [] r of Inl err \<Rightarrow> (Inl err, s1)
       | Inr ps \<Rightarrow> (Inr (map (\<lambda>p. \<lparr>id_ID = pe_VIN p, id_VIN = pe_VIN p, id_DisplayName = pe_DisplayName p,
             id_Make = ''Tesla'', id_Model = []\<rparr>) (filter (\<lambda>p. pe_VehicleID p \<noteq> 0) ps)), s1)))"

definition owner_Vehicles :: "'w teslaNet \<Rightarrow> 'w teslaState \<Rightarrow> (goError + identity list) \<times> 'w teslaState" where
  "owner_Vehicles net s = (case tesla_get net ownerLabel ''/api/1/vehicles'' s of
     (Inl err, s1) \<Rightarrow> (Inl err, s1)
   | (Inr r, s1) \<Rightarrow> (case decodeReply hr_vehicles [] r of Inl err \<Rightarrow> (Inl err, s1)
       | Inr vs \<Rightarrow> (Inr (map (\<lambda>v. \<lparr>id_ID = itoa (su_ID v), id_VIN = su_VIN v, id_DisplayName = su_DisplayName v,
             id_Make = ''Tesla'', id_Model = []\<rparr>) vs), s1)))"

subsection \<open>Poll\<close>

definition summaryPath :: "string \<Rightarrow> string" where
  "summaryPath vid = ''/api/1/vehicles/'' @ vid"

definition vehicleDataEndpoints :: string where
  "vehicleDataEndpoints = ''?endpoints=location_data%3Bcharge_state%3Bclimate_state%3Bdrive_state%3Bgui_settings%3Bvehicle_config%3Bvehicle_state''"

definition dataPath :: "string \<Rightarrow> string \<Rightarrow> string" where
  "dataPath query vid = ''/api/1/vehicles/'' @ vid @ ''/vehicle_data'' @ query"

definition tesla_Poll ::
  "string \<Rightarrow> string \<Rightarrow> 'w teslaNet \<Rightarrow> string \<Rightarrow> 'w teslaState \<Rightarrow> (goError + snapshot) \<times> 'w teslaState" where
  "tesla_Poll label query net vid s = (case tesla_get net label (summaryPath vid) s of
     (Inl err, s1) \<Rightarrow> (Inl err, s1)
   | (Inr r, s1) \<Rightarrow> (case decodeReply hr_summary zeroSummary r of
       Inl err \<Rightarrow> (Inl err, s1)
     | Inr su \<Rightarrow>
         if su_State su \<noteq> ''online'' then (Inr (summaryToSnapshot (tn_now net (ts_world s1)) su), s1)
         else (case tesla_get net label (dataPath query vid) s1 of
             (Inl err, s2) \<Rightarrow> (Inl err, s2)
           | (Inr r2, s2) \<Rightarrow> (case decodeReply hr_data zeroVehicleData r2 of
               Inl err \<Rightarrow> (Inl err, s2)
             | Inr vd \<Rightarrow> (Inr ((decodeVehicleData (Some vd))\<lparr>sn_FetchedAt := tn_now net (ts_world s2)\<rparr>), s2)))))"

definition fleet_Poll :: "'w teslaNet \<Rightarrow> string \<Rightarrow> 'w teslaState \<Rightarrow> (goError + snapshot) \<times> 'w teslaState" where
  "fleet_Poll = tesla_Poll fleetLabel vehicleDataEndpoints"

definition owner_Poll :: "'w teslaNet \<Rightarrow> string \<Rightarrow> 'w teslaState \<Rightarrow> (goError + snapshot) \<times> 'w teslaState" where
  "owner_Poll = tesla_Poll ownerLabel []"

subsection \<open>Construction\<close>

text \<open>The settings node is decoded by the YAML library: the decoded settings, or None when that fails.\<close>

record teslaSettings =
  tl_CredsFile :: string
  tl_BaseURL :: string
  tl_Timeout :: duration
  tl_Debug :: bool

definition emptySettings :: teslaSettings where
  "emptySettings = \<lparr>tl_CredsFile = [], tl_BaseURL = [], tl_Timeout = 0, tl_Debug = False\<rparr>"

definition teslaFleetHost :: string where "teslaFleetHost = ''https://fleet-api.prd.na.vn.cloud.tesla.com''"
definition ownerHost :: string where "ownerHost = ''https://owner-api.teslamotors.com''"

definition fleet_applyDefaults :: "teslaSettings \<Rightarrow> teslaSettings" where
  "fleet_applyDefaults s = s\<lparr>
     tl_CredsFile := (if tl_CredsFile s = [] then ''/data/tesla.json'' else tl_CredsFile s),
     tl_BaseURL := (if tl_BaseURL s = [] then teslaFleetHost else tl_BaseURL s)\<rparr>"

definition owner_applyDefaults :: "teslaSettings \<Rightarrow> teslaSettings" where
  "owner_applyDefaults s = s\<lparr>
     tl_CredsFile := (if tl_CredsFile s = [] then ''/data/tesla-owner.json'' else tl_CredsFile s),
     tl_BaseURL := (if tl_BaseURL s = [] then ownerHost else tl_BaseURL s)\<rparr>"

record teslaSource =
  tc_client :: restyClient
  tc_mgr :: tokenManager
  tc_settings :: teslaSettings

datatype sourceOpenError = DecodeSettings | NoCreds authError

definition newTeslaSource ::
  "(teslaSettings \<Rightarrow> teslaSettings) \<Rightarrow> restPackage \<Rightarrow> disk \<Rightarrow> teslaSettings option option \<Rightarrow> authRegistry \<Rightarrow>
     (sourceOpenError + teslaSource) \<times> authRegistry" where
  "newTeslaSource applyDefaults pk disk node reg =
     (case (case node of None \<Rightarrow> Some emptySettings | Some dec \<Rightarrow> dec) of
        None \<Rightarrow> (Inl DecodeSettings, reg)
      | Some s0 \<Rightarrow>
          let s = applyDefaults s0 in
          case authShared disk (tl_CredsFile s) reg of
            (Inl err, reg1) \<Rightarrow> (Inl (NoCreds err), reg1)
          | (Inr m, reg1) \<Rightarrow> (Inr \<lparr>tc_client = restNew pk (tl_BaseURL s) (tl_Timeout s) (tl_Debug s), tc_mgr = m,
               tc_settings = s\<rparr>, reg1))"

definition newFleetSource ::
  "restPackage \<Rightarrow> disk \<Rightarrow> teslaSettings option option \<Rightarrow> authRegistry \<Rightarrow> (sourceOpenError + teslaSource) \<times> authRegistry" where
  "newFleetSource = newTeslaSource fleet_applyDefaults"

definition newOwnerSource ::
  "restPackage \<Rightarrow> disk \<Rightarrow> teslaSettings option option \<Rightarrow> authRegistry \<Rightarrow> (sourceOpenError + teslaSource) \<times> authRegistry" where
  "newOwnerSource = newTeslaSource owner_applyDefaults"

lemma newTeslaSource_bounded:
  assumes "newTeslaSource ad pk disk node reg = (Inr src, reg')" and "restDefaults_ok pk"
  shows "0 < rc_Timeout (tc_client src) \<and> 0 < rc_RetryCount (tc_client src)"
  using assms newWithOptions_bounded
  by (auto simp: newTeslaSource_def restNew_def Let_def split: option.splits prod.splits sum.splits)

end
