(* ===== verification/FleetClientClaims.thy ===== *)
theory FleetClientClaims
  imports FleetClient PollClaims
begin

section \<open>Properties of the Fleet and Owner API clients\<close>

text \<open>
  What a poll asks of the network, counted in requests, and what each failure of the API does to the poll loop.
\<close>

subsection \<open>What a poll requests\<close>

text \<open>
  The network with a log of the paths requested: a call sends the number of requests that \<open>sent\<close> says.
\<close>

definition pathLog ::
  "(string \<times> string \<Rightarrow> 'w \<Rightarrow> nat) \<Rightarrow> 'w teslaNet \<Rightarrow> ('w \<times> string list) teslaNet" where
  "pathLog sent net = \<lparr>tn_get = (\<lambda>path tok w. let (r, w1) = tn_get net path tok (fst w)
       in (r, (w1, snd w @ replicate (sent (path, tok) (fst w)) path))),
     tn_refreshEnv = (\<lambda>w. let (e, w1) = tn_refreshEnv net (fst w) in (e, (w1, snd w))),
     tn_now = (\<lambda>w. tn_now net (fst w)), tn_httpTime = tn_httpTime net\<rparr>"


lemma pathLog_sel [simp]:
  "tn_get (pathLog sent net) path tok w =
     (let (r, w1) = tn_get net path tok (fst w) in (r, (w1, snd w @ replicate (sent (path, tok) (fst w)) path)))"
  "tn_refreshEnv (pathLog sent net) w = (let (e, w1) = tn_refreshEnv net (fst w) in (e, (w1, snd w)))"
  "tn_now (pathLog sent net) w = tn_now net (fst w)" "tn_httpTime (pathLog sent net) = tn_httpTime net"
  by (simp_all add: pathLog_def)




text \<open>A network whose every summary says asleep.\<close>

definition asleepReply :: httpReply where
  "asleepReply = \<lparr>hr_status = 200, hr_statusLine = ''200 OK'', hr_body = [], hr_retryAfter = [],
     hr_rateLimitReset = [], hr_products = None, hr_vehicles = None,
     hr_summary = Some (zeroSummary\<lparr>su_State := ''asleep''\<rparr>), hr_data = None\<rparr>"

definition sleepyNet :: "unit teslaNet" where
  "sleepyNet = \<lparr>tn_get = (\<lambda>_ _ w. (Inr asleepReply, w)),
     tn_refreshEnv = (\<lambda>w. (undefined, w)), tn_now = (\<lambda>_. 0), tn_httpTime = (\<lambda>_. None)\<rparr>"

definition idleClient :: "'w \<Rightarrow> 'w teslaState" where
  "idleClient w = \<lparr>ts_tm = undefined, ts_disk = undefined, ts_world = w\<rparr>"


subsection \<open>What a failure does to the poll loop\<close>

text \<open>The error of a failed poll: an unclassified one of the transport, or the classified one of a reply.\<close>

definition fromReply :: "'w teslaNet \<Rightarrow> string \<Rightarrow> goError \<Rightarrow> httpReply \<Rightarrow> bool" where
  "fromReply net label err reply \<longleftrightarrow> 400 \<le> hr_status reply \<and>
     (\<exists>path tok w w1. tn_get net path tok w = (Inr reply, w1) \<and>
        err = fleetGoError (newSourceError (tn_httpTime net) (tn_now net w1) label reply))"

lemma getWithRefresh_errors:
  "getWithRefresh net label path retry s = (Inl err, s') \<Longrightarrow>
     (\<exists>t. err = [plainError t]) \<or> (\<exists>reply. fromReply net label err reply)"
proof (induction net label path retry s rule: getWithRefresh.induct)
  case (1 net label path retry s)
  show ?case
    using 1(2) 1(1) [OF refl _ refl _ refl refl]
    by (subst (asm) getWithRefresh.simps) (force simp: Let_def fromReply_def split: sum.splits prod.splits if_splits)
qed

lemma poll_errors:
  assumes "tesla_Poll label query net vid s = (Inl err, s')"
  shows "(\<exists>t. err = [plainError t]) \<or> (\<exists>reply. fromReply net label err reply)"
  using assms getWithRefresh_errors [of net label]
  by (fastforce simp: tesla_Poll_def tesla_get_def decodeReply_def split: sum.splits prod.splits if_splits option.splits)

lemma fleet_classified:
  "isQuotaBlocked (fleetGoError e) = se_QuotaBlocked e" "isUnauthenticated (fleetGoError e) = se_Unauthenticated e"
  "isRateLimited (fleetGoError e) = se_RateLimited e" "telemetryConfigWiped (fleetGoError e) = se_TelemetryWiped e"
  "retryAfter (fleetGoError e) = (se_Retry e, se_HasRetry e)"
  by (simp_all add: fleetGoError_def isQuotaBlocked_def isUnauthenticated_def isRateLimited_def telemetryConfigWiped_def
    retryAfter_def)

lemma plain_unclassified:
  "\<not> isQuotaBlocked [plainError t]" "\<not> isUnauthenticated [plainError t]" "\<not> isRateLimited [plainError t]"
  by (simp_all add: plainError_def isQuotaBlocked_def isUnauthenticated_def isRateLimited_def)

lemma newSourceError_sel [simp]:
  "se_Status (newSourceError h now label r) = hr_status r" "se_Body (newSourceError h now label r) = hr_body r"
  "se_Retry (newSourceError h now label r) = fst (parseRetryAfter h now r)"
  "se_HasRetry (newSourceError h now label r) = snd (parseRetryAfter h now r)"
  "se_TelemetryWiped (newSourceError h now label r) = (hr_status r = 403 \<and> containsStr ''EXCEEDED_LIMIT'' (hr_body r))"
  by (simp_all add: newSourceError_def split_beta)

lemma retry_seconds:
  assumes "trimSpace (hr_retryAfter r) = itoa n" "0 \<le> n" "n \<le> 9223372036"
  shows "parseRetryAfter h now r = (n * Second, True)"
proof -
  have "parseInt64 (itoa n) = Some n" using assms by (intro parseInt64_itoa) (simp add: in_int64_def minInt64_def maxInt64_def)
  moreover have "wrap64 (n * Second) = n * Second" using assms by (intro wrap64_id) (simp add: in_int64_def minInt64_def maxInt64_def)
  ultimately show ?thesis using assms by (simp add: parseRetryAfter_def clampNonNeg_def)
qed

text \<open>
  C22: how a failed poll of the API steers the loop. A failure is either of the transport (or of the
  decoding), and then counts as a plain error, or comes from a reply of the network with an error status:
  a 401 (after the retry) sets the re-authentication flag, a 429 counts as a rate limit, a 403 of a
  disabled account counts as a quota block and says whether the telemetry configuration is gone. The next
  poll waits at least the quota floor after a quota block, the minimum interval otherwise, and the number of
  seconds of a Retry-After header in either case.
\<close>

theorem api_failures_steer_the_loop:
  assumes "tesla_Poll label query net vid s = (Inl err, s')"
    and "pollOnce ops e (Inl err) (p, c) = (d, p', c')"
  shows "po_errorCount p' = wrap64 (po_errorCount p + 1) \<and> c' = c \<and>
    ((\<exists>t. err = [plainError t]) \<and> po_needsReauth p' = po_needsReauth p \<and>
       po_rateLimitedCount p' = po_rateLimitedCount p \<and> po_quotaBlockedCount p' = po_quotaBlockedCount p \<and>
       po_minInterval p \<le> d \<or>
     (\<exists>reply. fromReply net label err reply \<and>
       (let disabled = (hr_status reply = 403 \<and> containsStr ''account disabled'' (hr_body reply)) in
        (po_needsReauth p' \<longleftrightarrow> po_needsReauth p \<or> hr_status reply = 401) \<and>
        po_rateLimitedCount p' = (if hr_status reply = 429 then wrap64 (po_rateLimitedCount p + 1) else po_rateLimitedCount p) \<and>
        po_quotaBlockedCount p' = (if disabled then wrap64 (po_quotaBlockedCount p + 1) else po_quotaBlockedCount p) \<and>
        po_telemetryConfigWiped p' = (if disabled then containsStr ''EXCEEDED_LIMIT'' (hr_body reply)
           else po_telemetryConfigWiped p) \<and>
        (if disabled then po_quotaBlockFloor p else po_minInterval p) \<le> d \<and>
        (\<forall>n. trimSpace (hr_retryAfter reply) = itoa n \<and> 0 \<le> n \<and> n \<le> 9223372036 \<longrightarrow> n * Second \<le> d))))"
proof -
  have h: "handleError ops e err p = (d, p')" and c: "c' = c" using assms(2) by (auto simp: pollOnce_Inl)
  have count: "po_errorCount p' = wrap64 (po_errorCount p + 1)"
    using h by (auto simp: handleError_def handleQuotaBlock_def Let_def split: prod.splits if_splits)
  from poll_errors [OF assms(1)] consider (plain) t where "err = [plainError t]"
    | (reply) reply where "fromReply net label err reply" by blast
  then show ?thesis
  proof cases
    case plain
    then show ?thesis using h c count by (auto simp: handleError_def Let_def plain_unclassified split: prod.splits if_splits)
  next
    case reply
    then obtain now where e: "err = fleetGoError (newSourceError (tn_httpTime net) now label reply)"
      by (auto simp: fromReply_def)
    note cl = fleet_classified se_QuotaBlocked_def se_Unauthenticated_def se_RateLimited_def
    have "n * Second \<le> d" if "trimSpace (hr_retryAfter reply) = itoa n" "0 \<le> n" "n \<le> 9223372036" for n
      using handleError_retryAfter [of err "n * Second" ops e p] h retry_seconds [OF that]
      by (simp add: e fleet_classified)
    moreover have "if hr_status reply = 403 \<and> containsStr ''account disabled'' (hr_body reply)
        then po_quotaBlockFloor p \<le> d else po_minInterval p \<le> d"
      using handleError_delay(2,3) [of err p ops e] h by (simp add: e cl)
    moreover have "(po_needsReauth p' \<longleftrightarrow> po_needsReauth p \<or> hr_status reply = 401) \<and>
        po_rateLimitedCount p' = (if hr_status reply = 429 then wrap64 (po_rateLimitedCount p + 1) else po_rateLimitedCount p)"
      using h by (auto simp: handleError_def handleQuotaBlock_def Let_def e cl split: prod.splits if_splits)
    moreover have "po_quotaBlockedCount p' = (if hr_status reply = 403 \<and> containsStr ''account disabled'' (hr_body reply)
          then wrap64 (po_quotaBlockedCount p + 1) else po_quotaBlockedCount p) \<and>
        po_telemetryConfigWiped p' = (if hr_status reply = 403 \<and> containsStr ''account disabled'' (hr_body reply)
          then containsStr ''EXCEEDED_LIMIT'' (hr_body reply) else po_telemetryConfigWiped p)"
      using h by (auto simp: handleError_def handleQuotaBlock_def Let_def e cl split: prod.splits if_splits)
    ultimately show ?thesis using reply c count by (auto simp: Let_def split: if_splits)
  qed
qed

text \<open>A network that answers every request with a 429 and a Retry-After of two minutes.\<close>

definition busyReply :: httpReply where
  "busyReply = asleepReply\<lparr>hr_status := 429, hr_retryAfter := '' 120 ''\<rparr>"

definition busyNet :: "unit teslaNet" where
  "busyNet = sleepyNet\<lparr>tn_get := (\<lambda>_ _ w. (Inr busyReply, w))\<rparr>"

lemma api_failures_steer_the_loop_witness:
  "\<exists>err s' d p' c'. tesla_Poll fleetLabel vehicleDataEndpoints busyNet ''V'' (idleClient ()) = (Inl err, s') \<and>
     pollOnce constOps pollEnv (Inl err) (plainPoller, emptyService) = (d, p', c') \<and>
     po_rateLimitedCount p' = 1 \<and> 2 * Minute \<le> d"
proof -
  let ?err = "fleetGoError (newSourceError (\<lambda>_. None) 0 fleetLabel busyReply)"
  have getSel: "tn_get busyNet path tok w = (Inr busyReply, w)" for path tok w by (simp add: busyNet_def)
  have netSel: "tn_now busyNet w = 0" "tn_httpTime busyNet = (\<lambda>_. None)" for w by (simp_all add: busyNet_def sleepyNet_def)
  have busy: "399 < hr_status busyReply" "idleClient ()\<lparr>ts_world := ()\<rparr> = idleClient ()"
    by (simp_all add: busyReply_def idleClient_def)
  have refused: "\<not> se_Unauthenticated (newSourceError h now label busyReply)" for h now label
    by (simp add: se_Unauthenticated_def busyReply_def)
  have 1: "tesla_Poll fleetLabel vehicleDataEndpoints busyNet ''V'' (idleClient ()) = (Inl ?err, idleClient ())"
    by (simp add: tesla_Poll_def tesla_get_def getWithRefresh.simps [of busyNet] getSel netSel refused busy)
  obtain d p' c' where 2: "pollOnce constOps pollEnv (Inl ?err) (plainPoller, emptyService) = (d, p', c')"
    by (metis prod_cases3)
  have header: "trimSpace (hr_retryAfter busyReply) = itoa 120" by code_simp
  have zero: "po_rateLimitedCount plainPoller = 0" by (simp add: plainPoller_def newPoller_def Let_def)
  have only: "reply = busyReply" if "fromReply busyNet fleetLabel ?err reply" for reply
    using that by (simp add: fromReply_def getSel)
  have "length ?err = 2" by (simp add: fleetGoError_def)
  then have classified: "\<not> (\<exists>t. ?err = [plainError t])" by (metis One_nat_def length_Cons list.size(3) numeral_eq_one_iff semiring_norm(85))
  have status: "hr_status busyReply = 429" by (simp add: busyReply_def)
  from api_failures_steer_the_loop [OF 1 2] classified obtain reply where "fromReply busyNet fleetLabel ?err reply"
      and r: "po_rateLimitedCount p' =
         (if hr_status reply = 429 then wrap64 (po_rateLimitedCount plainPoller + 1) else po_rateLimitedCount plainPoller)"
      "\<forall>n. trimSpace (hr_retryAfter reply) = itoa n \<and> 0 \<le> n \<and> n \<le> 9223372036 \<longrightarrow> n * Second \<le> d"
    unfolding Let_def by blast
  then have "reply = busyReply" using only by blast
  then have "po_rateLimitedCount p' = 1 \<and> 2 * Minute \<le> d"
    using r(1) r(2) [THEN spec, of 120] by (simp add: zero status header wrap64_def)
  with 1 2 show ?thesis by blast
qed

end
