(* ===== verification/OwnerStream.thy ===== *)
theory OwnerStream
  imports FleetClient StreamDecode StreamSink StreamSource
begin

section \<open>The Owner API streaming source\<close>

text \<open>
  \<^verbatim>\<open>internal/protocol/tesla/owner/stream/v1/source_mapping.go\<close> and \<^verbatim>\<open>source.go\<close>: the decoding of a
  data:update frame, the inverse of the streaming sink's encoding, and the dialer that follows the state of
  the car. \<^verbatim>\<open>json.Unmarshal\<close> is the parameter \<open>unmarshal\<close>, the backoff library is the pair \<open>reset\<close>, \<open>nxt\<close>,
  and what a connection delivers is the list of its frames.
\<close>

subsection \<open>Decoding\<close>

definition ownerColumns :: "string list" where
  "ownerColumns = [''speed'', ''odometer'', ''soc'', ''elevation'', ''est_heading'', ''est_lat'', ''est_lng'',
     ''power'', ''shift_state'', ''range'', ''est_range'', ''heading'']"

definition colSpeed :: nat where "colSpeed = 1"
definition colOdometer :: nat where "colOdometer = 2"
definition colSOC :: nat where "colSOC = 3"
definition colEstHeading :: nat where "colEstHeading = 5"
definition colEstLat :: nat where "colEstLat = 6"
definition colEstLng :: nat where "colEstLng = 7"
definition colPower :: nat where "colPower = 8"
definition colShiftState :: nat where "colShiftState = 9"
definition colRange :: nat where "colRange = 10"
definition colHeading :: nat where "colHeading = 12"

lemmas column_defs = colSpeed_def colOdometer_def colSOC_def colEstHeading_def colEstLat_def colEstLng_def
  colPower_def colShiftState_def colRange_def colHeading_def

record dataUpdateFrame =
  df_MsgType :: string
  df_Tag :: string
  df_Value :: string

definition field :: "string list \<Rightarrow> nat \<Rightarrow> string" where
  "field parts i = (if length parts \<le> i then [] else trimSpace (parts ! i))"

text \<open>A cell that is not blank and parses.\<close>

definition numField :: "(string \<Rightarrow> f64 option) \<Rightarrow> string list \<Rightarrow> nat \<Rightarrow> f64 option" where
  "numField exotic parts i = (let v = field parts i in if v = [] then None else parseFloatOk exotic v)"

definition frameTime :: "gotime \<Rightarrow> string list \<Rightarrow> gotime" where
  "frameTime now parts = (case parseInt64 (trimSpace (parts ! 0)) of
     Some ms \<Rightarrow> if 0 < ms then fromUnixMilli ms else now | None \<Rightarrow> now)"

definition ifNum :: "f64 option \<Rightarrow> (f64 \<Rightarrow> decodeAcc \<Rightarrow> decodeAcc) \<Rightarrow> decodeAcc \<Rightarrow> decodeAcc" where
  "ifNum x f a = (case x of None \<Rightarrow> a | Some v \<Rightarrow> f v a)"

definition stepSpeed :: "(string \<Rightarrow> f64 option) \<Rightarrow> string list \<Rightarrow> decodeAcc \<Rightarrow> decodeAcc" where
  "stepSpeed exotic parts = ifNum (numField exotic parts colSpeed)
     (\<lambda>mph. onState (st_SpeedMps_update (\<lambda>_. mphToMps mph)) SfSpeed)"

definition stepOdometer :: "(string \<Rightarrow> f64 option) \<Rightarrow> string list \<Rightarrow> decodeAcc \<Rightarrow> decodeAcc" where
  "stepOdometer exotic parts = ifNum (numField exotic parts colOdometer)
     (\<lambda>mi. onState (st_OdometerMeters_update (\<lambda>_. f2i (math_round (milesToMeters mi)))) SfOdometer)"

definition stepSOC :: "(string \<Rightarrow> f64 option) \<Rightarrow> string list \<Rightarrow> decodeAcc \<Rightarrow> decodeAcc" where
  "stepSOC exotic parts = ifNum (numField exotic parts colSOC)
     (\<lambda>pct. onState (st_BatteryLevelPct_update (\<lambda>_. pct)) SfSOC)"

text \<open>The column heading, and est_heading only when that is blank.\<close>

definition stepHeading :: "(string \<Rightarrow> f64 option) \<Rightarrow> string list \<Rightarrow> decodeAcc \<Rightarrow> decodeAcc" where
  "stepHeading exotic parts =
     ifNum (if field parts colHeading \<noteq> [] then numField exotic parts colHeading else numField exotic parts colEstHeading)
       (\<lambda>h. onState (st_HeadingDeg_update (\<lambda>_. h)) SfHeading)"

definition stepLocation :: "(string \<Rightarrow> f64 option) \<Rightarrow> gotime \<Rightarrow> string list \<Rightarrow> decodeAcc \<Rightarrow> decodeAcc" where
  "stepLocation exotic ts parts a = (case (numField exotic parts colEstLat, numField exotic parts colEstLng) of
     (Some lat, Some lng) \<Rightarrow> onState (st_Location_update
        (\<lambda>_. Some \<lparr>loc_Latitude = lat, loc_Longitude = lng, loc_TimeStamp = ts\<rparr>)) SfLoc a
   | _ \<Rightarrow> a)"

text \<open>Only a positive power, that of a charge, has a place in the canonical model.\<close>

definition stepPower :: "(string \<Rightarrow> f64 option) \<Rightarrow> string list \<Rightarrow> decodeAcc \<Rightarrow> decodeAcc" where
  "stepPower exotic parts = ifNum (numField exotic parts colPower)
     (\<lambda>kw a. if flt fzero kw then mark SfChargePower (a\<lparr>da_live := Some (zeroLive\<lparr>ls_PowerKw := kw\<rparr>)\<rparr>) else a)"

definition stepGear :: "string list \<Rightarrow> decodeAcc \<Rightarrow> decodeAcc" where
  "stepGear parts a =
     (let v = field parts colShiftState; g = gearFromTesla v in
      if v = [] then a
      else let a1 = a\<lparr>da_st := (da_st a)\<lparr>st_Gear := g\<rparr>\<rparr> in if g \<noteq> GearUnknown then mark SfGear a1 else a1)"

definition stepRange :: "(string \<Rightarrow> f64 option) \<Rightarrow> string list \<Rightarrow> decodeAcc \<Rightarrow> decodeAcc" where
  "stepRange exotic parts = ifNum (numField exotic parts colRange)
     (\<lambda>mi. onState (st_RangeKm_update (\<lambda>_. f2i (math_round (milesToKm mi)))) SfRange)"

definition decodeColumns :: "(string \<Rightarrow> f64 option) \<Rightarrow> gotime \<Rightarrow> string list \<Rightarrow> decodeAcc" where
  "decodeColumns exotic ts parts =
     stepRange exotic parts (stepGear parts (stepPower exotic parts (stepLocation exotic ts parts
       (stepHeading exotic parts (stepSOC exotic parts (stepOdometer exotic parts (stepSpeed exotic parts
          \<lparr>da_st = zeroState, da_live = None, da_present = 0\<rparr>)))))))"

definition decodeDataUpdate ::
  "(string \<Rightarrow> dataUpdateFrame option) \<Rightarrow> (string \<Rightarrow> f64 option) \<Rightarrow> gotime \<Rightarrow> string \<Rightarrow> string \<times> snapshot \<times> bool" where
  "decodeDataUpdate unmarshal exotic now frame = (case unmarshal frame of
     None \<Rightarrow> ([], zeroSnapshot, False)
   | Some f \<Rightarrow>
       if df_MsgType f \<noteq> ''data:update'' then ([], zeroSnapshot, False)
       else
         let parts = splitComma (df_Value f) in
         if length parts < 1 then (df_Tag f, zeroSnapshot, True)
         else
           let ts = frameTime now parts; a = decodeColumns exotic ts parts in
           (df_Tag f, zeroSnapshot\<lparr>sn_State := Some (da_st a), sn_Live := da_live a, sn_FetchedAt := now,
              sn_StreamFields := ts, sn_StreamPresent := da_present a\<rparr>, True))"

subsection \<open>Settings\<close>

record ownerStreamSettings =
  os_CredsFile :: string
  os_StreamURL :: string
  os_HandshakeTimeout :: duration
  os_ReconnectInitial :: duration
  os_ReconnectMax :: duration

definition ownerStreamDefaults :: "ownerStreamSettings \<Rightarrow> ownerStreamSettings" where
  "ownerStreamDefaults s =
     (let s1 = (if os_StreamURL s = [] then s\<lparr>os_StreamURL := ''wss://streaming.vn.teslamotors.com''\<rparr> else s)
      in if os_HandshakeTimeout s1 = 0 then s1\<lparr>os_HandshakeTimeout := 10 * Second\<rparr> else s1)"

record ownerStreamSource =
  ow_settings :: ownerStreamSettings
  ow_mgr :: tokenManager
  ow_counters :: sourceCounters

definition newOwnerStream ::
  "disk \<Rightarrow> ownerStreamSettings option option \<Rightarrow> authRegistry \<Rightarrow> (sourceOpenError + ownerStreamSource) \<times> authRegistry" where
  "newOwnerStream disk node reg =
     (case (case node of None \<Rightarrow> Some \<lparr>os_CredsFile = [], os_StreamURL = [], os_HandshakeTimeout = 0,
              os_ReconnectInitial = 0, os_ReconnectMax = 0\<rparr> | Some dec \<Rightarrow> dec) of
        None \<Rightarrow> (Inl DecodeSettings, reg)
      | Some s0 \<Rightarrow>
          let s = ownerStreamDefaults s0 in
          case authShared disk (os_CredsFile s) reg of
            (Inl err, reg1) \<Rightarrow> (Inl (NoCreds err), reg1)
          | (Inr m, reg1) \<Rightarrow> (Inr \<lparr>ow_settings = s, ow_mgr = m, ow_counters = zeroCounters\<rparr>, reg1))"

subsection \<open>One connection\<close>

definition subscribeFrame :: "string \<Rightarrow> string \<Rightarrow> string" where
  "subscribeFrame token vin =
     (let q = [CHR 0x22] in
      CHR 0x7B # q @ ''msg_type'' @ q @ '':'' @ q @ ''data:subscribe_oauth'' @ q @ '','' @ q @ ''token'' @ q @ '':'' @
      goQuote token @ '','' @ q @ ''value'' @ q @ '':'' @ goQuote (joinComma ownerColumns) @ '','' @ q @ ''tag'' @ q @ '':'' @
      goQuote vin @ [CHR 0x7D])"

definition trimSuffixSlash :: "string \<Rightarrow> string" where
  "trimSuffixSlash s = (if s \<noteq> [] \<and> last s = CHR ''/'' then butlast s else s)"

definition streamURL :: "ownerStreamSettings \<Rightarrow> string \<Rightarrow> string" where
  "streamURL s vin = trimSuffixSlash (os_StreamURL s) @ ''/streaming/'' @ vin"

record ownerEnv =
  oe_exotic :: "string \<Rightarrow> f64 option"
  oe_unmarshal :: "string \<Rightarrow> dataUpdateFrame option"
  oe_now :: gotime
  oe_cache :: cenv

definition dialer_OnMessage ::
  "ownerEnv \<Rightarrow> string \<Rightarrow> string \<Rightarrow> bool \<times> sourceCounters \<times> service \<Rightarrow> string list \<times> bool \<times> sourceCounters \<times> service" where
  "dialer_OnMessage e vid frame st =
     (let (gotFrame, c, sv) = st;
          (_, snap, ok) = decodeDataUpdate (oe_unmarshal e) (oe_exotic e) (oe_now e) frame in
      if \<not> ok then ([], st)
      else if sn_StreamPresent snap = 0 then ([], st)
      else let (polls, sv1) = service_Put (oe_cache e) vid snap sv in (polls, True, src_Frame (oe_now e) c, sv1))"

fun readLoop ::
  "string \<Rightarrow> (ownerEnv \<times> string) list \<Rightarrow> bool \<times> sourceCounters \<times> service \<Rightarrow>
     string list \<times> bool \<times> sourceCounters \<times> service" where
  "readLoop vid [] st = ([], st)"
| "readLoop vid ((e, frame) # rest) st =
     (let (p1, st1) = dialer_OnMessage e vid frame st; (p2, st2) = readLoop vid rest st1 in (p1 @ p2, st2))"

text \<open>A dial that fails, or a connection with the frames it delivers until it closes.\<close>

definition dialer_connect ::
  "string \<Rightarrow> (ownerEnv \<times> string) list option \<Rightarrow> sourceCounters \<times> service \<Rightarrow>
     bool \<times> string list \<times> sourceCounters \<times> service" where
  "dialer_connect vid dialed st = (case dialed of
     None \<Rightarrow> (False, [], st)
   | Some frames \<Rightarrow> (let (polls, got, st') = readLoop vid frames (False, st) in (got, polls, st')))"

subsection \<open>The reconnect loop\<close>

text \<open>
  One turn: whether the context is done before it, what the dial delivers, whether the context is done after
  it, and whether it ends during the wait.
\<close>

record dialTurn =
  dn_doneBefore :: bool
  dn_dialed :: "(ownerEnv \<times> string) list option"
  dn_doneAfter :: bool
  dn_doneWaiting :: bool

fun dialer_run ::
  "('b \<Rightarrow> 'b) \<Rightarrow> ('b \<Rightarrow> duration \<times> 'b) \<Rightarrow> string \<Rightarrow> dialTurn list \<Rightarrow> 'b \<times> sourceCounters \<times> service \<Rightarrow>
     duration list \<times> string list \<times> 'b \<times> sourceCounters \<times> service" where
  "dialer_run reset nxt vid [] st = ([], [], st)"
| "dialer_run reset nxt vid (t # ts) (b, st) =
     (if dn_doneBefore t then ([], [], b, st)
      else
        let (got, polls, st1) = dialer_connect vid (dn_dialed t) st in
        if dn_doneAfter t then ([], polls, b, st1)
        else
          let b1 = (if got then reset b else b); (delay, b2) = nxt b1 in
          if dn_doneWaiting t then ([delay], polls, b2, st1)
          else let (ds, ps, st2) = dialer_run reset nxt vid ts (b2, st1) in (delay # ds, polls @ ps, st2))"

subsection \<open>Following the car\<close>

text \<open>
  The dialers one supervisor has started, the latest last, each with whether its context is cancelled; the
  counters are shared by the supervisors of all vehicles.
\<close>

record dialerRef =
  dr_id :: string
  dr_vin :: string
  dr_cancelled :: bool

record supervisor =
  su_ident :: identity
  su_running :: bool
  su_dialers :: "dialerRef list"
  su_over :: bool

definition newSupervisor :: "identity \<Rightarrow> supervisor" where
  "newSupervisor ident = \<lparr>su_ident = ident, su_running = False, su_dialers = [], su_over = False\<rparr>"

definition cancelLast :: "dialerRef list \<Rightarrow> dialerRef list" where
  "cancelLast ds = (if ds = [] then [] else butlast ds @ [(last ds)\<lparr>dr_cancelled := True\<rparr>])"

definition sup_stop :: "supervisor \<times> sourceCounters \<Rightarrow> supervisor \<times> sourceCounters" where
  "sup_stop sc = (let (s, c) = sc in
     if su_running s then (s\<lparr>su_dialers := cancelLast (su_dialers s), su_running := False\<rparr>, src_Disconnected c) else (s, c))"

definition sup_start :: "supervisor \<times> sourceCounters \<Rightarrow> supervisor \<times> sourceCounters" where
  "sup_start sc = (let (s, c) = sc in
     (s\<lparr>su_running := True, su_dialers := su_dialers s @
        [\<lparr>dr_id = id_ID (su_ident s), dr_vin = id_VIN (su_ident s), dr_cancelled = False\<rparr>]\<rparr>, src_Connected c))"

definition snapOnline :: "snapshot \<Rightarrow> bool" where
  "snapOnline snap = (case sn_State snap of None \<Rightarrow> False | Some st \<Rightarrow> st_Power st = PowerOnline)"

definition sup_eval :: "snapshot \<Rightarrow> supervisor \<times> sourceCounters \<Rightarrow> supervisor \<times> sourceCounters" where
  "sup_eval snap sc =
     (let online = snapOnline snap in
      if online \<and> \<not> su_running (fst sc) then sup_start sc
      else if \<not> online \<and> su_running (fst sc) then sup_stop sc
      else sc)"

text \<open>The loop's \<^verbatim>\<open>select\<close>: a cache event, with what the cache serves then, or the end.\<close>

datatype supEvent = SupChanged snapshot | SupDone

definition sup_event :: "supEvent \<Rightarrow> supervisor \<times> sourceCounters \<Rightarrow> supervisor \<times> sourceCounters" where
  "sup_event ev sc =
     (if su_over (fst sc) then sc
      else case ev of
        SupChanged snap \<Rightarrow> sup_eval snap sc
      | SupDone \<Rightarrow> (let (s, c) = sup_stop sc in (s\<lparr>su_over := True\<rparr>, c)))"

text \<open>\<^verbatim>\<open>Run\<close> starts one supervisor for every vehicle with a VIN; each evaluates the cache first.\<close>

definition supervised :: "identity list \<Rightarrow> supervisor list" where
  "supervised ids = map newSupervisor (filter (\<lambda>i. id_VIN i \<noteq> []) ids)"

definition owner_Run :: "identity list option \<Rightarrow> string + supervisor list" where
  "owner_Run watch = (case watch of
     None \<Rightarrow> Inl ''tesla-owner-stream: cache watcher required to drive connect/disconnect state''
   | Some ids \<Rightarrow> Inr (supervised ids))"

text \<open>The supervisors interleave: an event of the one at a position.\<close>

definition sups_event ::
  "nat \<times> supEvent \<Rightarrow> supervisor list \<times> sourceCounters \<Rightarrow> supervisor list \<times> sourceCounters" where
  "sups_event ev st =
     (let (sups, c) = st; (i, x) = ev in
      if length sups \<le> i then st
      else let (s, c1) = sup_event x (sups ! i, c) in (sups[i := s], c1))"

end
