(* ===== verification/OwnerStreamLaws.thy ===== *)
theory OwnerStreamLaws
  imports OwnerStream StreamSinkLaws FleetLaws
begin

section \<open>Facts about the Owner stream\<close>

text \<open>
  The columns of a frame: what the sink prints and what the decoder reads of it.
\<close>

subsection \<open>Reading back what was printed\<close>

lemma trimSpace_plain: "\<forall>c \<in> set s. \<not> isSpace c \<Longrightarrow> trimSpace s = s"
proof -
  have d: "dropWhile isSpace t = t" if "\<forall>c \<in> set t. \<not> isSpace c" for t using that by (cases t) auto
  assume "\<forall>c \<in> set s. \<not> isSpace c"
  then show ?thesis by (simp add: trimSpace_def d)
qed

lemma trimSpace_Nil [simp]: "trimSpace [] = []"
  by (simp add: trimSpace_def)

lemma digit_no_space: "isDigit c \<Longrightarrow> \<not> isSpace c"
  by (auto simp: isDigit_def isSpace_def)

lemma itoa_no_space: "\<forall>c \<in> set (itoa n). \<not> isSpace c"
proof -
  have "\<forall>c \<in> set (showNat m). \<not> isSpace c" for m
    using showNat_digits [of m] digit_no_space by (auto simp: list_all_iff)
  moreover have "\<not> isSpace (CHR ''-'')" by (simp add: isSpace_def)
  ultimately show ?thesis by (simp add: itoa_def)
qed

lemma trimSpace_itoa [simp]: "trimSpace (itoa n) = itoa n"
  by (rule trimSpace_plain) (rule itoa_no_space)

lemma trimSpace_shift [simp]: "trimSpace (shiftState g) = shiftState g"
  by (rule trimSpace_plain) (cases g; simp add: shiftState_def isSpace_def)

lemma spanDigits_all: "list_all isDigit s \<Longrightarrow> spanDigits s = (s, [])"
  by (induction s) auto

lemma not_digits [simp]:
  "\<not> isDigit (CHR ''x'')" "\<not> isDigit (CHR ''X'')" "\<not> isDigit (CHR ''_'')" "\<not> isDigit (CHR ''i'')" "\<not> isDigit (CHR ''n'')"
  by (simp_all add: isDigit_def)

lemma digit_lower: "isDigit c \<Longrightarrow> to_lower_char c = c"
  by (auto simp: isDigit_def to_lower_char_def Let_def)

lemma showNat_Cons: obtains d ds where "showNat k = d # ds" "isDigit d" "list_all isDigit ds"
  using showNat_digits [of k] showNat_nonempty [of k] by (cases "showNat k") auto

lemma digits_not_exotic: "list_all isDigit ds \<Longrightarrow> splitSign s = (neg, ds) \<Longrightarrow> CHR ''_'' \<notin> set s \<Longrightarrow> \<not> isExotic s"
  by (auto simp: isExotic_def split: list.split)

lemma parseDecimal_showNat: "parseDecimal neg (showNat k) = Some (round64 (if neg then - of_nat k else of_nat k))"
  using spanDigits_all [OF showNat_digits [of k]]
  by (simp add: parseDecimal_def parseExponent_def)

lemma i2f_finite:
  assumes "in_int64 n" obtains r where "i2f n = Fin r"
proof (cases "n = 0")
  case True
  then show thesis using that by (simp add: i2f_def)
next
  case False
  have "\<bar>n\<bar> \<le> 2 ^ 63" using assms by (simp add: in_int64_def minInt64_def maxInt64_def abs_le_iff)
  then have "\<bar>real_of_int n\<bar> \<le> 2 ^ 63" by (metis of_int_abs of_int_le_iff of_int_numeral of_int_power)
  then have hi: "\<bar>real_of_int n\<bar> \<le> 2 ^ 1023" by (rule order_trans) simp
  have "1 \<le> \<bar>real_of_int n\<bar>" using False by simp
  then have "2 powi (- 1022) \<le> \<bar>real_of_int n\<bar>" by (intro powi_m1022_le) simp
  from round64_Fin [OF this hi] show thesis using that by (simp add: i2f_def)
qed

lemma parseFloat_itoa: "parseFloat exotic (itoa n) = Some (i2f n)"
proof -
  obtain d ds where s: "showNat (nat \<bar>n\<bar>) = d # ds" "isDigit d" "list_all isDigit ds" by (rule showNat_Cons)
  have sp: "splitSign (itoa n) = (n < 0, showNat (nat \<bar>n\<bar>))" by (simp add: itoa_def)
  have "CHR ''_'' \<notin> set (showNat k)" for k
    using showNat_digits [of k] not_digits(3) by (metis list_all_iff)
  then have us: "CHR ''_'' \<notin> set (itoa n)" by (simp add: itoa_def)
  have ex: "\<not> isExotic (itoa n)" using digits_not_exotic [OF showNat_digits sp us] .
  have hd: "hd (to_lower (showNat (nat \<bar>n\<bar>))) = d" by (simp add: s to_lower_def digit_lower)
  then have low: "to_lower (showNat (nat \<bar>n\<bar>)) \<noteq> ''inf''" "to_lower (showNat (nat \<bar>n\<bar>)) \<noteq> ''infinity''"
    using s(2) by auto
  have "hd (to_lower (itoa n)) \<noteq> CHR ''n''"
  proof (cases "n < 0")
    case True
    then show ?thesis by (simp add: itoa_def to_lower_def to_lower_char_def)
  next
    case False
    then show ?thesis using hd s(2) by (auto simp: itoa_def)
  qed
  then have nan: "to_lower (itoa n) \<noteq> ''nan''" by auto
  show ?thesis
    using low nan by (simp add: parseFloat_def ex sp Let_def parseDecimal_showNat i2f_def)
qed

lemma parseFloatOk_itoa:
  assumes "in_int64 n" shows "parseFloatOk exotic (itoa n) = Some (i2f n)"
proof -
  obtain r where "i2f n = Fin r" using assms by (rule i2f_finite)
  then show ?thesis by (simp add: parseFloatOk_def parseFloat_itoa Let_def)
qed

lemma parseFloatOk_Nil [simp]: "parseFloatOk exotic [] = None"
  by (simp add: parseFloatOk_def parseFloat_def isExotic_def splitSign_def to_lower_def parseDecimal_def)

subsection \<open>A frame of the sink, decoded\<close>

definition wholeOf :: "f64 \<Rightarrow> f64" where
  "wholeOf x = i2f (f2i (math_round x))"

lemma parse_roundInt: "parseFloatOk exotic (roundInt x) = Some (wholeOf x)"
  by (simp add: roundInt_def wholeOf_def parseFloatOk_itoa f2i_range)

lemma trimSpace_roundInt [simp]: "trimSpace (roundInt x) = roundInt x"
  by (simp add: roundInt_def)

lemma columns_all:
  assumes "dataColumnsFor fmt snap = Some (ts, cols)" and "sn_State snap = Some st"
  shows "cols ! 0 = (if fne (st_SpeedMps st) fzero then roundInt (mpsToMph (st_SpeedMps st)) else [])"
    and "cols ! 2 = (if fne (st_BatteryLevelPct st) fzero then roundInt (st_BatteryLevelPct st) else [])"
    and "cols ! 4 = (if fne (st_HeadingDeg st) fzero then roundInt (st_HeadingDeg st) else [])"
    and "cols ! 11 = (if fne (st_HeadingDeg st) fzero then roundInt (st_HeadingDeg st) else [])"
    and "cols ! 9 = (if st_RangeKm st \<noteq> 0 then roundInt (kmToMiles (i2f (st_RangeKm st))) else [])"
  using assms by (auto simp: dataColumnsFor_def Let_def numColumns_def dataColumns_def split: option.splits)

text \<open>The text of a float reads back as the float.\<close>

definition goodText :: "(string \<Rightarrow> f64 option) \<Rightarrow> (f64 \<Rightarrow> string) \<Rightarrow> f64 \<Rightarrow> bool" where
  "goodText exotic fmt x \<longleftrightarrow> parseFloatOk exotic (fmt x) = Some x \<and> trimSpace (fmt x) = fmt x"

definition goodTexts :: "(string \<Rightarrow> f64 option) \<Rightarrow> (f64 \<Rightarrow> string) \<Rightarrow> state \<Rightarrow> bool" where
  "goodTexts exotic fmt st \<longleftrightarrow> goodText exotic fmt (metersToMiles (i2f (st_OdometerMeters st))) \<and>
     (case st_Location st of None \<Rightarrow> True
      | Some l \<Rightarrow> goodText exotic fmt (loc_Latitude l) \<and> goodText exotic fmt (loc_Longitude l))"

text \<open>The state a frame of the sink decodes to.\<close>

definition frameState :: "gotime \<Rightarrow> state \<Rightarrow> state" where
  "frameState ts st = zeroState\<lparr>
     st_SpeedMps := (if fne (st_SpeedMps st) fzero then mphToMps (wholeOf (mpsToMph (st_SpeedMps st))) else fzero),
     st_OdometerMeters := (if st_OdometerMeters st \<noteq> 0
        then f2i (math_round (milesToMeters (metersToMiles (i2f (st_OdometerMeters st))))) else 0),
     st_BatteryLevelPct := (if fne (st_BatteryLevelPct st) fzero then wholeOf (st_BatteryLevelPct st) else fzero),
     st_HeadingDeg := (if fne (st_HeadingDeg st) fzero then wholeOf (st_HeadingDeg st) else fzero),
     st_Location := (case st_Location st of None \<Rightarrow> None | Some l \<Rightarrow> Some (l\<lparr>loc_TimeStamp := ts\<rparr>)),
     st_Gear := (if st_Gear st \<noteq> GearUnknown \<and> st_Location st \<noteq> None then st_Gear st else GearUnknown),
     st_RangeKm := (if st_RangeKm st \<noteq> 0
        then f2i (math_round (milesToKm (wholeOf (kmToMiles (i2f (st_RangeKm st)))))) else 0)\<rparr>"

definition framePower :: "snapshot \<Rightarrow> liveSession option" where
  "framePower snap = (case sn_Live snap of
     Some l \<Rightarrow> if fne (ls_PowerKw l) fzero \<and> flt fzero (wholeOf (ls_PowerKw l))
       then Some (zeroLive\<lparr>ls_PowerKw := wholeOf (ls_PowerKw l)\<rparr>) else None
   | None \<Rightarrow> None)"

lemma gear_back: "gearFromTesla (shiftState g) = (if g = GearUnknown then GearPark else g)"
  by (cases g) (simp_all add: gearFromTesla_def shiftState_def)

lemma shiftState_nonempty [simp]: "shiftState g \<noteq> []"
  by (cases g) (simp_all add: shiftState_def)

lemma roundInt_nonempty [simp]: "roundInt x \<noteq> []"
  by (simp add: roundInt_def)

lemma itoa_zero: "itoa 0 = ''0''"
  by code_simp

lemma numField_if:
  assumes "length cols = numColumns" and "i < numColumns" and "cols ! i = (if b then t else [])"
    and "parseFloatOk exotic t = Some x" and "trimSpace t = t"
  shows "numField exotic (ts # cols) (Suc i) = (if b then Some x else None)"
  using assms by (auto simp: numField_def field_def Let_def)

lemma field_if:
  assumes "length cols = numColumns" and "i < numColumns" and "cols ! i = (if b then t else [])" and "trimSpace t = t"
  shows "field (ts # cols) (Suc i) = (if b then t else [])"
  using assms by (auto simp: field_def)

lemma decode_columns:
  assumes cols: "dataColumnsFor fmt snap = Some (ts, cols)" and st: "sn_State snap = Some st"
    and good: "goodTexts exotic fmt st"
  shows "decodeColumns exotic t (ts # cols) = \<lparr>da_st = frameState t st, da_live = framePower snap,
     da_present = da_present (decodeColumns exotic t (ts # cols))\<rparr> \<and>
   (\<forall>b. has_flag (da_present (decodeColumns exotic t (ts # cols))) b \<longleftrightarrow>
     (b = SfSpeed \<and> fne (st_SpeedMps st) fzero) \<or> (b = SfOdometer \<and> st_OdometerMeters st \<noteq> 0) \<or>
     (b = SfSOC \<and> fne (st_BatteryLevelPct st) fzero) \<or> (b = SfHeading \<and> fne (st_HeadingDeg st) fzero) \<or>
     (b = SfLoc \<and> st_Location st \<noteq> None) \<or> (b = SfChargePower \<and> framePower snap \<noteq> None) \<or>
     (b = SfGear \<and> st_Location st \<noteq> None \<and> st_Gear st \<noteq> GearUnknown) \<or> (b = SfRange \<and> st_RangeKm st \<noteq> 0))"
proof -
  let ?p = "ts # cols"
  have len: "length cols = numColumns" "numColumns = 12"
    using columns_length [OF cols] by (simp_all add: numColumns_def dataColumns_def)
  note nth = columns_all [OF cols st] columns_nth [OF cols st]
  note num = numField_if [OF len(1), unfolded len(2), where exotic = exotic and ts = ts]
  have speed: "numField exotic ?p colSpeed = (if fne (st_SpeedMps st) fzero then Some (wholeOf (mpsToMph (st_SpeedMps st))) else None)"
    using num [OF _ nth(1) parse_roundInt] by (simp add: colSpeed_def)
  have soc: "numField exotic ?p colSOC = (if fne (st_BatteryLevelPct st) fzero then Some (wholeOf (st_BatteryLevelPct st)) else None)"
    using num [OF _ nth(2) parse_roundInt] by (simp add: colSOC_def numeral_3_eq_3 numeral_2_eq_2)
  have heading: "numField exotic ?p colHeading = (if fne (st_HeadingDeg st) fzero then Some (wholeOf (st_HeadingDeg st)) else None)"
    using num [OF _ nth(4) parse_roundInt] by (simp add: colHeading_def)
  have esth: "numField exotic ?p colEstHeading = (if fne (st_HeadingDeg st) fzero then Some (wholeOf (st_HeadingDeg st)) else None)"
    using num [OF _ nth(3) parse_roundInt] by (simp add: colEstHeading_def eval_nat_numeral)
  have range: "numField exotic ?p colRange = (if st_RangeKm st \<noteq> 0 then Some (wholeOf (kmToMiles (i2f (st_RangeKm st)))) else None)"
    using num [OF _ nth(5) parse_roundInt] by (simp add: colRange_def eval_nat_numeral)
  have odo: "numField exotic ?p colOdometer = (if st_OdometerMeters st \<noteq> 0 then Some (metersToMiles (i2f (st_OdometerMeters st))) else None)"
    using num [OF _ nth(9)] good by (simp add: colOdometer_def numeral_2_eq_2 goodTexts_def goodText_def)
  have gear: "field ?p colShiftState = (if st_Gear st \<noteq> GearUnknown \<and> st_Location st \<noteq> None then shiftState (st_Gear st) else [])"
    using field_if [OF len(1), unfolded len(2), OF _ nth(6)] by (simp add: colShiftState_def eval_nat_numeral)
  have latlng: "numField exotic ?p colEstLat = map_option loc_Latitude (st_Location st)"
      "numField exotic ?p colEstLng = map_option loc_Longitude (st_Location st)"
    using good nth(7,8) len
    by (auto simp: numField_def field_def colEstLat_def colEstLng_def goodTexts_def goodText_def Let_def split: option.splits)
  have zero: "parseFloatOk exotic ''0'' = Some fzero" "trimSpace ''0'' = ''0''"
    using parseFloatOk_itoa [of 0 exotic] trimSpace_itoa [of 0] itoa_zero
    by (simp_all add: in_int64_def minInt64_def maxInt64_def i2f_def)
  have power: "numField exotic ?p colPower = (case sn_Live snap of
      Some l \<Rightarrow> if fne (ls_PowerKw l) fzero then Some (wholeOf (ls_PowerKw l))
         else if st_Power st = PowerOnline \<and> st_Location st \<noteq> None then Some fzero else None
    | None \<Rightarrow> if st_Power st = PowerOnline \<and> st_Location st \<noteq> None then Some fzero else None)"
    using nth(10) len zero
    by (auto simp: numField_def field_def colPower_def Let_def parse_roundInt split: option.splits)
  have pow: "(case numField exotic ?p colPower of None \<Rightarrow> None
       | Some kw \<Rightarrow> if flt fzero kw then Some (zeroLive\<lparr>ls_PowerKw := kw\<rparr>) else None) = framePower snap"
    unfolding power framePower_def by (auto split: option.splits)
  have head: "(if field ?p colHeading \<noteq> [] then numField exotic ?p colHeading else numField exotic ?p colEstHeading) =
      (if fne (st_HeadingDeg st) fzero then Some (wholeOf (st_HeadingDeg st)) else None)"
    unfolding heading esth by simp
  let ?o = "\<lambda>b f. if b then flag f else (0 :: streamField)"
  have s1: "stepSpeed exotic ?p \<lparr>da_st = s, da_live = l, da_present = p\<rparr> =
      \<lparr>da_st = s\<lparr>st_SpeedMps := if fne (st_SpeedMps st) fzero then mphToMps (wholeOf (mpsToMph (st_SpeedMps st))) else st_SpeedMps s\<rparr>,
       da_live = l, da_present = p OR ?o (fne (st_SpeedMps st) fzero) SfSpeed\<rparr>" for s l p
    by (simp add: stepSpeed_def speed ifNum_def onState_def mark_def)
  have s2: "stepOdometer exotic ?p \<lparr>da_st = s, da_live = l, da_present = p\<rparr> =
      \<lparr>da_st = s\<lparr>st_OdometerMeters := if st_OdometerMeters st \<noteq> 0
          then f2i (math_round (milesToMeters (metersToMiles (i2f (st_OdometerMeters st))))) else st_OdometerMeters s\<rparr>,
       da_live = l, da_present = p OR ?o (st_OdometerMeters st \<noteq> 0) SfOdometer\<rparr>" for s l p
    by (simp add: stepOdometer_def odo ifNum_def onState_def mark_def)
  have s3: "stepSOC exotic ?p \<lparr>da_st = s, da_live = l, da_present = p\<rparr> =
      \<lparr>da_st = s\<lparr>st_BatteryLevelPct := if fne (st_BatteryLevelPct st) fzero then wholeOf (st_BatteryLevelPct st) else st_BatteryLevelPct s\<rparr>,
       da_live = l, da_present = p OR ?o (fne (st_BatteryLevelPct st) fzero) SfSOC\<rparr>" for s l p
    by (simp add: stepSOC_def soc ifNum_def onState_def mark_def)
  have s4: "stepHeading exotic ?p \<lparr>da_st = s, da_live = l, da_present = p\<rparr> =
      \<lparr>da_st = s\<lparr>st_HeadingDeg := if fne (st_HeadingDeg st) fzero then wholeOf (st_HeadingDeg st) else st_HeadingDeg s\<rparr>,
       da_live = l, da_present = p OR ?o (fne (st_HeadingDeg st) fzero) SfHeading\<rparr>" for s l p
    unfolding stepHeading_def head by (simp add: ifNum_def onState_def mark_def)
  have s5: "stepLocation exotic t ?p \<lparr>da_st = s, da_live = l, da_present = p\<rparr> =
      \<lparr>da_st = s\<lparr>st_Location := case st_Location st of None \<Rightarrow> st_Location s | Some y \<Rightarrow> Some (y\<lparr>loc_TimeStamp := t\<rparr>)\<rparr>,
       da_live = l, da_present = p OR ?o (st_Location st \<noteq> None) SfLoc\<rparr>" for s l p
    unfolding stepLocation_def latlng by (cases "st_Location st") (simp_all add: onState_def mark_def)
  have s6: "stepPower exotic ?p \<lparr>da_st = s, da_live = None, da_present = p\<rparr> =
      \<lparr>da_st = s, da_live = framePower snap, da_present = p OR ?o (framePower snap \<noteq> None) SfChargePower\<rparr>" for s p
    unfolding stepPower_def pow [symmetric]
    by (cases "numField exotic ?p colPower") (simp_all add: ifNum_def mark_def)
  have s7: "stepGear ?p \<lparr>da_st = s, da_live = l, da_present = p\<rparr> =
      \<lparr>da_st = s\<lparr>st_Gear := if st_Gear st \<noteq> GearUnknown \<and> st_Location st \<noteq> None then st_Gear st else st_Gear s\<rparr>,
       da_live = l, da_present = p OR ?o (st_Gear st \<noteq> GearUnknown \<and> st_Location st \<noteq> None) SfGear\<rparr>" for s l p
    unfolding stepGear_def gear by (simp add: gear_back mark_def)
  have s8: "stepRange exotic ?p \<lparr>da_st = s, da_live = l, da_present = p\<rparr> =
      \<lparr>da_st = s\<lparr>st_RangeKm := if st_RangeKm st \<noteq> 0
          then f2i (math_round (milesToKm (wholeOf (kmToMiles (i2f (st_RangeKm st)))))) else st_RangeKm s\<rparr>,
       da_live = l, da_present = p OR ?o (st_RangeKm st \<noteq> 0) SfRange\<rparr>" for s l p
    by (simp add: stepRange_def range ifNum_def onState_def mark_def)
  note steps = decodeColumns_def s1 s2 s3 s4 s5 s6 s7 s8 decodeAcc.select_convs
  have "da_st (decodeColumns exotic t ?p) = frameState t st"
    unfolding steps frameState_def by (simp split del: if_split cong: if_cong option.case_cong)
  moreover have "da_live (decodeColumns exotic t ?p) = framePower snap"
    unfolding steps ..
  moreover have "has_flag (da_present (decodeColumns exotic t ?p)) b \<longleftrightarrow>
     (b = SfSpeed \<and> fne (st_SpeedMps st) fzero) \<or> (b = SfOdometer \<and> st_OdometerMeters st \<noteq> 0) \<or>
     (b = SfSOC \<and> fne (st_BatteryLevelPct st) fzero) \<or> (b = SfHeading \<and> fne (st_HeadingDeg st) fzero) \<or>
     (b = SfLoc \<and> st_Location st \<noteq> None) \<or> (b = SfChargePower \<and> framePower snap \<noteq> None) \<or>
     (b = SfGear \<and> st_Location st \<noteq> None \<and> st_Gear st \<noteq> GearUnknown) \<or> (b = SfRange \<and> st_RangeKm st \<noteq> 0)" for b
  proof -
    have o: "has_flag (?o c f) b \<longleftrightarrow> c \<and> b = f" for c f by auto
    have z: "has_flag 0 f = False" for f by simp
    show ?thesis unfolding steps has_flag_or o by (cases b) (simp_all only: z simp_thms streamFlag.distinct conj_commute)
  qed
  ultimately show ?thesis by simp
qed

end
