(* ===== verification/OwnerStreamClaims.thy ===== *)
theory OwnerStreamClaims
  imports OwnerStreamLaws
begin

section \<open>Properties of the Owner stream\<close>

text \<open>
  A frame from the streaming sink to the Owner stream's decoder and back, and the dialers that follow the cars.
\<close>

subsection \<open>The round trip of a frame\<close>

lemma wholeOf_Fin:
  assumes "0 \<le> q" and "q \<le> 2 ^ 50"
  shows "wholeOf (Fin q) = Fin (of_int (round_half_away q))"
proof -
  note b = round_half_away_bounds [OF assms(1)]
  have "real_of_int (round_half_away q) \<le> q + 1 / 2" using b(2) by linarith
  also have "\<dots> \<le> 2 ^ 51" using assms(2) by simp
  finally have k: "round_half_away q \<le> 2 ^ 51" by (metis of_int_le_iff of_int_numeral of_int_power)
  then have "in_int64 (round_half_away q)" using b(1) by (simp add: in_int64_def minInt64_def maxInt64_def)
  then have "f2i (math_round (Fin q)) = round_half_away q" by (simp add: f2i_of_int)
  then show ?thesis using k b(1) by (simp add: wholeOf_def i2f_exact)
qed

lemma whole_scale:
  assumes y: "y = 0 \<or> 1 / 1000 \<le> y" "y \<le> 2 ^ 40" and c: "1 / 4 \<le> c" "c \<le> 2"
  obtains t where "fmul (wholeOf (fdiv (Fin y) (Fin c))) (Fin c) = Fin t" "\<bar>t - y\<bar> \<le> c / 2 + 1 / 100"
proof -
  define x where "x = y / c"
  define q where "q = rnd x"
  define k where "k = real_of_int (round_half_away q)"
  define t where "t = rnd (k * c)"
  have y0: "0 \<le> y" using y by auto
  have c0: "0 < c" using c by simp
  have xc: "x * c = y" using c0 by (simp add: x_def)
  have "y / c \<le> y / (1 / 4)" using y0 c by (intro divide_left_mono) simp_all
  then have x4: "x \<le> 4 * y" by (simp add: x_def)
  have x0: "x = 0 \<or> 1 / 2 ^ 20 \<le> x"
  proof (cases "y = 0")
    case False
    then have "1 / 1000 / 2 \<le> y / c" using y c by (intro frac_le) auto
    then show ?thesis by (simp add: x_def)
  qed (simp add: x_def)
  have xn: "0 \<le> x" using x0 by auto
  have qb: "q \<le> x + x / 2 ^ 53" "x - x / 2 ^ 53 \<le> q" using rnd_upto [OF x0] by (auto simp: q_def)
  have qn: "0 \<le> q" "q \<le> 2 ^ 50" using qb xn x4 y by simp_all
  have kq: "k - q \<le> 1 / 2" "q - k \<le> 1 / 2" "0 \<le> k"
    using round_half_away_bounds [OF qn(1)] unfolding k_def abs_le_iff by linarith+
  have k1: "k = 0 \<or> 1 \<le> k"
  proof -
    have "round_half_away q = 0 \<or> 1 \<le> round_half_away q" using kq(3) by (auto simp: k_def)
    then show ?thesis unfolding k_def by (metis of_int_0 of_int_1 of_int_le_iff)
  qed
  have kc1: "k * c = 0 \<or> 1 / 2 ^ 20 \<le> k * c"
  proof (cases "k = 0")
    case False
    then have "1 * (1 / 4) \<le> k * c" using k1 c by (intro mult_mono) auto
    then show ?thesis by simp
  qed simp
  have "k * c \<le> (x + x / 2 ^ 53 + 1 / 2) * c" using kq qb c0 by (intro mult_right_mono) auto
  also have "\<dots> = y + y / 2 ^ 53 + c / 2" by (simp add: distrib_right xc flip: xc)
  finally have up: "k * c \<le> y + y / 2 ^ 53 + c / 2" .
  have "(x - x / 2 ^ 53 - 1 / 2) * c \<le> k * c" using kq qb c0 by (intro mult_right_mono) auto
  moreover have "(x - x / 2 ^ 53 - 1 / 2) * c = y - y / 2 ^ 53 - c / 2" by (simp add: left_diff_distrib flip: xc)
  ultimately have lo: "y - y / 2 ^ 53 - c / 2 \<le> k * c" by simp
  have kc2: "k * c \<le> 2 ^ 41" using up y(2) c(2) by simp
  have t: "t \<le> k * c + k * c / 2 ^ 53" "k * c - k * c / 2 ^ 53 \<le> t" using rnd_upto [OF kc1] by (auto simp: t_def)
  have "y / 2 ^ 53 \<le> 1 / 1000" "k * c / 2 ^ 53 \<le> 1 / 1000" using y(2) divide_right_mono [OF kc2, of "2 ^ 53"] by simp_all
  then have "\<bar>t - y\<bar> \<le> c / 2 + 1 / 100" using t up lo unfolding abs_le_iff by (intro conjI) linarith+
  moreover have "fmul (wholeOf (fdiv (Fin y) (Fin c))) (Fin c) = Fin t"
  proof -
    have "x \<le> 2 ^ 60" using x4 y by simp
    then have "fdiv (Fin y) (Fin c) = Fin q" using round64_value [OF x0] c0 by (simp add: x_def q_def)
    moreover have "round64 (k * c) = Fin t" using round64_value [OF kc1] kc2 by (simp add: t_def)
    ultimately show ?thesis by (simp add: wholeOf_Fin [OF qn] k_def)
  qed
  ultimately show thesis by (rule that [rotated])
qed

lemma mpsPerMph_tight: obtains c where "mpsPerMph = Fin c" "1 / 4 \<le> c" "c \<le> 1 / 2"
proof -
  have b: "rnd (44704 / 100000) \<le> 44704 / 100000 + 44704 / 100000 / 2 ^ 53 \<and>
      44704 / 100000 - 44704 / 100000 / 2 ^ 53 \<le> rnd (44704 / 100000)"
    by (rule rnd_upto) simp
  moreover have "(44704 / 100000 + 44704 / 100000 / 2 ^ 53 :: real) \<le> 1 / 2"
      "(1 / 4 :: real) \<le> 44704 / 100000 - 44704 / 100000 / 2 ^ 53" by simp_all
  ultimately have "1 / 4 \<le> rnd (44704 / 100000)" "rnd (44704 / 100000) \<le> 1 / 2" by (meson order_trans)+
  moreover have "mpsPerMph = Fin (rnd (44704 / 100000))"
    unfolding mpsPerMph_def by (rule round64_value) simp_all
  ultimately show thesis by (intro that)
qed

lemma range_near:
  assumes "0 \<le> m" and "m \<le> 2 ^ 40"
  shows "\<bar>f2i (math_round (milesToKm (wholeOf (kmToMiles (i2f m))))) - m\<bar> \<le> 1"
proof -
  obtain c where c: "kmPerMile = Fin c" "1 \<le> c" "c \<le> 2" by (rule kmPerMile_tight)
  then have c4: "1 / 4 \<le> c" by simp
  have m: "i2f m = Fin (of_int m)" using assms by (intro i2f_exact) simp
  have mr: "real_of_int m \<le> 2 ^ 40" using assms(2) by (metis of_int_le_iff of_int_numeral of_int_power)
  have "m = 0 \<or> 1 \<le> real_of_int m" using assms(1) by (auto simp: le_less)
  then have "real_of_int m = 0 \<or> 1 / 1000 \<le> real_of_int m" by auto
  then obtain t where t: "fmul (wholeOf (fdiv (Fin (real_of_int m)) (Fin c))) (Fin c) = Fin t" "\<bar>t - of_int m\<bar> \<le> c / 2 + 1 / 100"
    by (rule whole_scale [OF _ mr c4 c(3)])
  have near: "\<bar>real_of_int (round_half_away t) - t\<bar> \<le> 1 / 2"
  proof (cases "0 \<le> t")
    case True then show ?thesis by (rule round_half_away_bounds)
  next
    case False
    have "\<bar>real_of_int (round_half_away (- t)) - (- t)\<bar> \<le> 1 / 2" using False by (intro round_half_away_bounds) simp
    moreover have "round_half_away t = - round_half_away (- t)"
      using False by (simp add: round_half_away_def ceiling_def)
    ultimately show ?thesis unfolding abs_le_iff of_int_minus by linarith
  qed
  have "\<bar>real_of_int (round_half_away t) - of_int m\<bar> < 2" using near t(2) c(3) unfolding abs_less_iff abs_le_iff by linarith
  then have "\<bar>real_of_int (round_half_away t - m)\<bar> < real_of_int 2" by simp
  then have d: "\<bar>round_half_away t - m\<bar> \<le> 1" unfolding of_int_abs [symmetric] of_int_less_iff by simp
  then have "in_int64 (round_half_away t)" using assms by (simp add: in_int64_def minInt64_def maxInt64_def abs_le_iff)
  then have "f2i (math_round (milesToKm (wholeOf (kmToMiles (i2f m))))) = round_half_away t"
    unfolding milesToKm_def kmToMiles_def m c(1) t(1) math_round.simps by (rule f2i_of_int)
  then show ?thesis using d by simp
qed

lemma speed_near:
  assumes "y = 0 \<or> 1 / 1000 \<le> y" "y \<le> 2 ^ 40"
  obtains t where "mphToMps (wholeOf (mpsToMph (Fin y))) = Fin t" "\<bar>t - y\<bar> \<le> 27 / 100"
proof -
  obtain c where c: "mpsPerMph = Fin c" "1 / 4 \<le> c" "c \<le> 1 / 2" by (rule mpsPerMph_tight)
  have "c \<le> 2" using c(3) by simp
  from whole_scale [OF assms c(2) this] obtain t where
    t: "fmul (wholeOf (fdiv (Fin y) (Fin c))) (Fin c) = Fin t" "\<bar>t - y\<bar> \<le> c / 2 + 1 / 100" by blast
  have "\<bar>t - y\<bar> \<le> 27 / 100" using t(2) c(3) by simp
  with t(1) show thesis by (intro that) (simp_all add: mphToMps_def mpsToMph_def c(1))
qed


lemma frameTime_back:
  assumes "0 < unixMilli u" and "unixMilli u \<le> maxInt64"
  shows "frameTime now (itoa (unixMilli u) # cols) = fromUnixMilli (unixMilli u)"
  using assms by (simp add: frameTime_def parseInt64_itoa in_int64_def minInt64_def)

text \<open>The state of charge and the heading are whole numbers on the wire.\<close>

lemma whole_near:
  assumes "0 \<le> r" and "r \<le> 2 ^ 40"
  shows "\<exists>k. (if fne (Fin r) fzero then wholeOf (Fin r) else fzero) = Fin (of_int k) \<and> \<bar>of_int k - r\<bar> \<le> 1 / 2"
proof (cases "r = 0")
  case True
  then show ?thesis by (intro exI [of _ 0]) simp
next
  case False
  then show ?thesis using wholeOf_Fin [OF assms(1)] assms(2) round_half_away_bounds(2) [OF assms(1)]
    by (intro exI [of _ "round_half_away r"]) simp
qed

text \<open>
  C24: a frame that the streaming sink sends comes back through the Owner stream decoder as an update of
  exactly the readings the vehicle has: the flags of the snapshot say which. The odometer, the gear and the
  position come back exact, the time to the millisecond, the state of charge within half a point, the
  heading within half a degree, the range within a kilometre and the speed within 0.27 metres per second. A
  gear comes with a position only.
\<close>

theorem stream_frame_comes_back:
  assumes frame: "unmarshal (encodeDataUpdate fmt tag snap) =
        Some \<lparr>df_MsgType = ''data:update'', df_Tag = tag, df_Value = frameValue ts cols\<rparr>"
    and cols: "dataColumnsFor fmt snap = Some (ts, cols)" and st: "sn_State snap = Some st"
    and fmt: "\<And>x. CHR '','' \<notin> set (fmt x)" "goodTexts exotic fmt st"
    and time: "0 < unixMilli (asOfTime snap)" "unixMilli (asOfTime snap) \<le> maxInt64"
    and odo: "\<bar>st_OdometerMeters st\<bar> \<le> 2 ^ 50" and range: "0 \<le> st_RangeKm st" "st_RangeKm st \<le> 2 ^ 40"
    and reals: "st_SpeedMps st = Fin v" "v = 0 \<or> 1 / 1000 \<le> v" "v \<le> 2 ^ 40"
      "st_BatteryLevelPct st = Fin soc" "0 \<le> soc" "soc \<le> 100" "st_HeadingDeg st = Fin h" "0 \<le> h" "h \<le> 360"
  shows "\<exists>snap' st' v' soc' h'. decodeDataUpdate unmarshal exotic now (encodeDataUpdate fmt tag snap) = (tag, snap', True) \<and>
    sn_State snap' = Some st' \<and> sn_StreamFields snap' = fromUnixMilli (unixMilli (asOfTime snap)) \<and>
    (\<forall>b. has_flag (sn_StreamPresent snap') b \<longleftrightarrow>
       (b = SfSpeed \<and> v \<noteq> 0) \<or> (b = SfOdometer \<and> st_OdometerMeters st \<noteq> 0) \<or> (b = SfSOC \<and> soc \<noteq> 0) \<or>
       (b = SfHeading \<and> h \<noteq> 0) \<or> (b = SfLoc \<and> st_Location st \<noteq> None) \<or>
       (b = SfChargePower \<and> sn_Live snap' \<noteq> None) \<or>
       (b = SfGear \<and> st_Location st \<noteq> None \<and> st_Gear st \<noteq> GearUnknown) \<or> (b = SfRange \<and> st_RangeKm st \<noteq> 0)) \<and>
    st_OdometerMeters st' = st_OdometerMeters st \<and> \<bar>st_RangeKm st' - st_RangeKm st\<bar> \<le> 1 \<and>
    st_Gear st' = (if st_Location st = None then GearUnknown else st_Gear st) \<and>
    st_Location st' = map_option (\<lambda>l. l\<lparr>loc_TimeStamp := sn_StreamFields snap'\<rparr>) (st_Location st) \<and>
    st_SpeedMps st' = Fin v' \<and> \<bar>v' - v\<bar> \<le> 27 / 100 \<and>
    st_BatteryLevelPct st' = Fin soc' \<and> \<bar>soc' - soc\<bar> \<le> 1 / 2 \<and>
    st_HeadingDeg st' = Fin h' \<and> \<bar>h' - h\<bar> \<le> 1 / 2 \<and> sn_Live snap' = framePower snap"
proof -
  let ?t = "fromUnixMilli (unixMilli (asOfTime snap))"
  have split: "splitComma (frameValue ts cols) = ts # cols" using frame_parses [OF fmt(1) cols] by simp
  have ts: "frameTime now (ts # cols) = ?t" using columns_ts [OF cols] frameTime_back [OF time] by simp
  define a where "a = decodeColumns exotic ?t (ts # cols)"
  note d = decode_columns [OF cols st fmt(2), of ?t, folded a_def]
  have a: "da_st a = frameState ?t st" "da_live a = framePower snap"
    by (subst conjunct1 [OF d], rule decodeAcc.select_convs)+
  define snap' where "snap' = zeroSnapshot\<lparr>sn_State := Some (frameState ?t st), sn_Live := framePower snap,
     sn_FetchedAt := now, sn_StreamFields := ?t, sn_StreamPresent := da_present a\<rparr>"
  have dec: "decodeDataUpdate unmarshal exotic now (encodeDataUpdate fmt tag snap) = (tag, snap', True)"
    by (simp add: decodeDataUpdate_def frame split Let_def ts snap'_def flip: a_def) (simp add: a)
  have s: "sn_State snap' = Some (frameState ?t st)" "sn_StreamFields snap' = ?t" "sn_Live snap' = framePower snap"
    "sn_StreamPresent snap' = da_present a" by (simp_all add: snap'_def)
  have flags: "has_flag (sn_StreamPresent snap') b \<longleftrightarrow>
       (b = SfSpeed \<and> v \<noteq> 0) \<or> (b = SfOdometer \<and> st_OdometerMeters st \<noteq> 0) \<or> (b = SfSOC \<and> soc \<noteq> 0) \<or>
       (b = SfHeading \<and> h \<noteq> 0) \<or> (b = SfLoc \<and> st_Location st \<noteq> None) \<or>
       (b = SfChargePower \<and> sn_Live snap' \<noteq> None) \<or>
       (b = SfGear \<and> st_Location st \<noteq> None \<and> st_Gear st \<noteq> GearUnknown) \<or> (b = SfRange \<and> st_RangeKm st \<noteq> 0)" for b
    using d unfolding s(3,4) reals(1,4,7) by simp
  have odo': "st_OdometerMeters (frameState ?t st) = st_OdometerMeters st"
    using odo_roundtrip [OF odo] by (simp add: frameState_def)
  have range': "\<bar>st_RangeKm (frameState ?t st) - st_RangeKm st\<bar> \<le> 1"
    using range_near [OF range] range by (simp add: frameState_def)
  have gear': "st_Gear (frameState ?t st) = (if st_Location st = None then GearUnknown else st_Gear st)"
    by (simp add: frameState_def)
  have loc': "st_Location (frameState ?t st) = map_option (\<lambda>l. l\<lparr>loc_TimeStamp := sn_StreamFields snap'\<rparr>) (st_Location st)"
    by (simp add: frameState_def s split: option.split)
  obtain v1 where v1: "mphToMps (wholeOf (mpsToMph (Fin v))) = Fin v1" "\<bar>v1 - v\<bar> \<le> 27 / 100"
    by (rule speed_near [OF reals(2,3)])
  have v': "st_SpeedMps (frameState ?t st) = Fin (if v = 0 then 0 else v1)"
    using v1 by (simp add: frameState_def reals(1))
  have soc_heading:
    "st_BatteryLevelPct (frameState ?t st) = (if fne (st_BatteryLevelPct st) fzero then wholeOf (st_BatteryLevelPct st) else fzero)"
    "st_HeadingDeg (frameState ?t st) = (if fne (st_HeadingDeg st) fzero then wholeOf (st_HeadingDeg st) else fzero)"
    by (simp_all add: frameState_def)
  have soc: "\<exists>k. st_BatteryLevelPct (frameState ?t st) = Fin (of_int k) \<and> \<bar>of_int k - soc\<bar> \<le> 1 / 2"
    unfolding soc_heading reals(4) using reals(5,6) by (intro whole_near) simp_all
  have h: "\<exists>k. st_HeadingDeg (frameState ?t st) = Fin (of_int k) \<and> \<bar>of_int k - h\<bar> \<le> 1 / 2"
    unfolding soc_heading reals(7) using reals(8,9) by (intro whole_near) simp_all
  from soc h obtain k1 k2 where k: "st_BatteryLevelPct (frameState ?t st) = Fin (of_int k1)" "\<bar>of_int k1 - soc\<bar> \<le> 1 / 2"
    "st_HeadingDeg (frameState ?t st) = Fin (of_int k2)" "\<bar>of_int k2 - h\<bar> \<le> 1 / 2" by blast
  show ?thesis
    by (intro exI [of _ snap'] exI [of _ "frameState ?t st"] exI [of _ "if v = 0 then 0 else v1"]
        exI [of _ "of_int k1"] exI [of _ "of_int k2"] conjI allI dec s flags odo' range' gear' loc' v' k)
       (use v1 in simp)
qed

text \<open>A parked car with a position, and an encoder that prints the two values it meets.\<close>

definition standingState :: state where
  "standingState = zeroState\<lparr>st_Power := PowerOnline, st_BatteryLevelPct := Fin 80, st_Gear := GearPark,
     st_Location := Some \<lparr>loc_Latitude = Fin 12, loc_Longitude = Fin 12, loc_TimeStamp = 0\<rparr>\<rparr>"

definition standingSnap :: snapshot where
  "standingSnap = zeroSnapshot\<lparr>sn_State := Some standingState, sn_AsOf := unixEpoch + Second\<rparr>"

definition twelve :: "f64 \<Rightarrow> string" where
  "twelve x = (if x = Fin 12 then ''12'' else ''0'')"

lemma itoa_twelve: "itoa 12 = ''12''"
  by code_simp

lemma twelve_good: "goodText exotic twelve (Fin 12)" "goodText exotic twelve (Fin 0)"
  using parseFloatOk_itoa [of 12 exotic] parseFloatOk_itoa [of 0 exotic] trimSpace_itoa [of 12] trimSpace_itoa [of 0]
    i2f_exact [of 12]
  by (simp_all add: goodText_def twelve_def itoa_twelve itoa_zero in_int64_def minInt64_def maxInt64_def i2f_def)

lemma stream_frame_comes_back_witness:
  "\<exists>snap' st' soc'. decodeDataUpdate (\<lambda>_. Some \<lparr>df_MsgType = ''data:update'', df_Tag = ''V'',
       df_Value = (case dataColumnsFor twelve standingSnap of Some (ts, cols) \<Rightarrow> frameValue ts cols | None \<Rightarrow> [])\<rparr>)
     (\<lambda>_. None) 0 (encodeDataUpdate twelve ''V'' standingSnap) = (''V'', snap', True) \<and>
     sn_State snap' = Some st' \<and> st_Gear st' = GearPark \<and> st_BatteryLevelPct st' = Fin soc' \<and> \<bar>soc' - 80\<bar> \<le> 1 / 2"
proof -
  obtain ts cols where cols: "dataColumnsFor twelve standingSnap = Some (ts, cols)"
    by (cases "dataColumnsFor twelve standingSnap") (auto simp: dataColumnsFor_def standingSnap_def Let_def)
  have st: "sn_State standingSnap = Some standingState" by (simp add: standingSnap_def)
  have t: "asOfTime standingSnap = unixEpoch + Second" by (simp add: asOfTime_def standingSnap_def unixEpoch_def)
  have texts: "goodTexts (\<lambda>_. None) twelve standingState"
    using twelve_good by (simp add: goodTexts_def standingState_def i2f_def)
  let ?un = "\<lambda>_ :: string. Some \<lparr>df_MsgType = ''data:update'', df_Tag = ''V'', df_Value = frameValue ts cols\<rparr>"
  have time: "0 < unixMilli (asOfTime standingSnap)" "unixMilli (asOfTime standingSnap) \<le> maxInt64"
    by (simp_all add: t unixMilli_def maxInt64_def)
  have r: "st_SpeedMps standingState = Fin 0" "st_BatteryLevelPct standingState = Fin 80" "st_HeadingDeg standingState = Fin 0"
    "st_OdometerMeters standingState = 0" "st_RangeKm standingState = 0" "st_Gear standingState = GearPark"
    "st_Location standingState \<noteq> None"
    by (simp_all add: standingState_def)
  have comma: "CHR '','' \<notin> set (twelve x)" for x by (simp add: twelve_def)
  have num: "\<bar>0 :: int\<bar> \<le> 2 ^ 50" "(0 :: int) \<le> 0" "(0 :: int) \<le> 2 ^ 40" "(0 :: real) = 0 \<or> 1 / 1000 \<le> (0 :: real)"
    "(0 :: real) \<le> 2 ^ 40" "(0 :: real) \<le> 80" "(80 :: real) \<le> 100" "(0 :: real) \<le> 0" "(0 :: real) \<le> 360" by simp_all
  from stream_frame_comes_back [where unmarshal = ?un and now = 0, OF refl cols st comma texts time _ _ _ r(1) _ _ r(2) _ _ r(3),
      unfolded r(4,5,6), OF num]
  obtain snap' st' soc' where "decodeDataUpdate ?un (\<lambda>_. None) 0 (encodeDataUpdate twelve ''V'' standingSnap) = (''V'', snap', True)"
      "sn_State snap' = Some st'" "st_Gear st' = (if st_Location standingState = None then GearUnknown else GearPark)"
      "st_BatteryLevelPct st' = Fin soc'" "\<bar>soc' - 80\<bar> \<le> 1 / 2"
    by (elim exE conjE) (rule that)
  then have "\<exists>snap' st' soc'. decodeDataUpdate ?un (\<lambda>_. None) 0 (encodeDataUpdate twelve ''V'' standingSnap) = (''V'', snap', True) \<and>
     sn_State snap' = Some st' \<and> st_Gear st' = GearPark \<and> st_BatteryLevelPct st' = Fin soc' \<and> \<bar>soc' - 80\<bar> \<le> 1 / 2"
    using r(7) by auto
  then show ?thesis unfolding cols option.case prod.case by blast
qed

subsection \<open>When a car is dialed\<close>

definition sup_ok :: "supervisor \<Rightarrow> bool" where
  "sup_ok s \<longleftrightarrow> (su_over s \<longrightarrow> \<not> su_running s) \<and>
     (if su_running s then \<exists>ds. su_dialers s = ds @ [\<lparr>dr_id = id_ID (su_ident s), dr_vin = id_VIN (su_ident s), dr_cancelled = False\<rparr>]
        \<and> list_all dr_cancelled ds
      else list_all dr_cancelled (su_dialers s))"

lemma new_sup_ok [simp]: "sup_ok (newSupervisor i)" "\<not> su_running (newSupervisor i)" "\<not> su_over (newSupervisor i)"
  "su_ident (newSupervisor i) = i"
  by (simp_all add: sup_ok_def newSupervisor_def)

lemma sup_event_effect:
  assumes "sup_ok s" and "sup_event x (s, c) = (s', c')"
  defines "run \<equiv> \<not> su_over s \<and> (case x of SupChanged snap \<Rightarrow> snapOnline snap | SupDone \<Rightarrow> False)"
  shows "sup_ok s' \<and> su_ident s' = su_ident s \<and> su_running s' = run \<and> su_over s' = (su_over s \<or> x = SupDone) \<and>
    c' = (if run \<and> \<not> su_running s then src_Connected c else if \<not> run \<and> su_running s then src_Disconnected c else c)"
  using assms(1,2) unfolding run_def
  by (cases x; cases "su_over s"; cases "su_running s")
     (auto simp: sup_event_def sup_eval_def sup_start_def sup_stop_def sup_ok_def cancelLast_def Let_def split: if_splits)

text \<open>The events of one supervisor, and whether they leave its car wanting a dialer.\<close>

definition eventsOf :: "nat \<Rightarrow> (nat \<times> supEvent) list \<Rightarrow> supEvent list" where
  "eventsOf i evs = map snd (filter (\<lambda>ev. fst ev = i) evs)"

definition dialWanted :: "supEvent list \<Rightarrow> bool" where
  "dialWanted xs \<longleftrightarrow> SupDone \<notin> set xs \<and> xs \<noteq> [] \<and>
     (case last xs of SupChanged snap \<Rightarrow> snapOnline snap | SupDone \<Rightarrow> False)"

definition sups_inv :: "identity list \<Rightarrow> (nat \<times> supEvent) list \<Rightarrow> supervisor list \<times> sourceCounters \<Rightarrow> bool" where
  "sups_inv ids evs st \<longleftrightarrow> (let (sups, c) = st in
     map su_ident sups = ids \<and>
     (\<forall>i < length sups. sup_ok (sups ! i) \<and> su_running (sups ! i) = dialWanted (eventsOf i evs) \<and>
        su_over (sups ! i) = (SupDone \<in> set (eventsOf i evs))) \<and>
     sr_connected c = int (length (filter su_running sups)) \<and>
     sr_connects c - sr_disconnects c = sr_connected c \<and>
     0 \<le> sr_disconnects c \<and> sr_connects c \<le> int (length evs))"

lemma count_update:
  "i < length xs \<Longrightarrow> int (length (filter P (xs[i := x]))) =
     int (length (filter P xs)) + (if P x then 1 else 0) - (if P (xs ! i) then 1 else 0)"
proof (induction xs arbitrary: i)
  case (Cons y ys)
  show ?case
  proof (cases i)
    case (Suc k)
    then have "k < length ys" using Cons.prems by simp
    from Cons.IH [OF this] show ?thesis using Suc by (simp split: if_splits)
  qed simp
qed simp

lemma sups_event_inv:
  assumes "sups_inv ids evs st" and "int (length evs) < maxInt64"
  shows "sups_inv ids (evs @ [ev]) (sups_event ev st)"
proof -
  obtain sups c where st: "st = (sups, c)" by fastforce
  obtain i x where ev: "ev = (i, x)" by fastforce
  note inv = assms(1) [unfolded sups_inv_def st Let_def prod.case]
  have other: "eventsOf j (evs @ [(i, x)]) = (if j = i then eventsOf i evs @ [x] else eventsOf j evs)" for j
    by (simp add: eventsOf_def)
  show ?thesis
  proof (cases "i < length sups")
    case False
    then show ?thesis using inv by (auto simp: sups_inv_def sups_event_def st ev other)
  next
    case True
    let ?s = "sups ! i"
    obtain s1 c1 where e: "sup_event x (?s, c) = (s1, c1)" by fastforce
    have ok: "sup_ok ?s" using inv True by blast
    define run where "run \<longleftrightarrow> \<not> su_over ?s \<and> (case x of SupChanged snap \<Rightarrow> snapOnline snap | SupDone \<Rightarrow> False)"
    have eff: "sup_ok s1" "su_ident s1 = su_ident ?s" "su_running s1 = run" "su_over s1 = (su_over ?s \<or> x = SupDone)"
      "c1 = (if run \<and> \<not> su_running ?s then src_Connected c else if \<not> run \<and> su_running ?s then src_Disconnected c else c)"
      using sup_event_effect [OF ok e] by (auto simp: run_def)
    have wanted: "run = dialWanted (eventsOf i evs @ [x])"
      using inv True by (auto simp: run_def dialWanted_def split: supEvent.splits)
    have cnt: "int (length (filter su_running (sups[i := s1]))) =
        sr_connected c + (if run then 1 else 0) - (if su_running ?s then 1 else 0)"
      using count_update [OF True, of su_running s1] inv eff(3) by simp
    have w: "wrap64 (sr_connected c + 1) = sr_connected c + 1" "wrap64 (sr_connects c + 1) = sr_connects c + 1"
      using inv assms(2) by (auto intro!: wrap64_inc)
    have w': "su_running ?s \<Longrightarrow> wrap64 (sr_connected c - 1) = sr_connected c - 1"
      "su_running ?s \<Longrightarrow> wrap64 (sr_disconnects c + 1) = sr_disconnects c + 1"
      using inv assms(2) by (auto intro!: wrap64_id simp: in_int64_def minInt64_def maxInt64_def)
    have counters: "sr_connected c1 = sr_connected c + (if run then 1 else 0) - (if su_running ?s then 1 else 0) \<and>
        sr_connects c1 - sr_disconnects c1 = sr_connected c1 \<and> 0 \<le> sr_disconnects c1 \<and> sr_connects c1 \<le> int (length evs) + 1"
      using inv w w' eff(5) by (auto simp: src_Connected_def src_Disconnected_def)
    have "map su_ident (sups[i := s1]) = ids" using inv True eff(2) by (auto simp: map_update list_update_same_conv)
    moreover have "sup_ok (sups[i := s1] ! j) \<and> su_running (sups[i := s1] ! j) = dialWanted (eventsOf j (evs @ [(i, x)])) \<and>
        su_over (sups[i := s1] ! j) = (SupDone \<in> set (eventsOf j (evs @ [(i, x)])))" if "j < length sups" for j
      using that inv eff wanted other True by (cases "j = i") auto
    ultimately show ?thesis
      using counters cnt True by (simp add: sups_inv_def sups_event_def st ev e Let_def)
  qed
qed

lemma sups_run_inv:
  assumes "int (length evs) \<le> maxInt64"
  shows "sups_inv (filter (\<lambda>i. id_VIN i \<noteq> []) ids) evs (fold sups_event evs (supervised ids, zeroCounters))"
  using assms
proof (induction evs rule: rev_induct)
  case Nil
  have "length (filter su_running (map newSupervisor js)) = 0" for js by (induction js) simp_all
  then show ?case
    by (simp add: sups_inv_def supervised_def zeroCounters_def eventsOf_def dialWanted_def map_idI)
next
  case (snoc ev evs)
  then show ?case using sups_event_inv [of _ evs _ ev] by simp
qed

text \<open>
  C25: a car is dialed exactly while it is online. Under any interleaving of the cache events of all vehicles,
  the supervisor of a vehicle runs one dialer, for its id and VIN, when the last thing the cache said of it is
  that it is online and its context is not done; every other dialer it ever started is cancelled. The gauge
  of connected sessions is the number of dialers running, and opened sessions less closed ones.
\<close>

theorem dials_only_while_online:
  assumes "int (length evs) \<le> maxInt64" and "owner_Run (Some ids) = Inr sups0"
    and "fold sups_event evs (sups0, zeroCounters) = (sups, c)" and "i < length sups"
  shows "su_ident (sups ! i) = filter (\<lambda>i. id_VIN i \<noteq> []) ids ! i \<and>
    filter (\<lambda>d. \<not> dr_cancelled d) (su_dialers (sups ! i)) =
      (if dialWanted (eventsOf i evs)
       then [\<lparr>dr_id = id_ID (su_ident (sups ! i)), dr_vin = id_VIN (su_ident (sups ! i)), dr_cancelled = False\<rparr>] else []) \<and>
    sr_connected c = int (length (filter su_running sups)) \<and> sr_connects c - sr_disconnects c = sr_connected c"
proof -
  have inv: "sups_inv (filter (\<lambda>i. id_VIN i \<noteq> []) ids) evs (sups, c)"
    using sups_run_inv [OF assms(1), of ids] assms(2,3) by (simp add: owner_Run_def)
  then have ok: "sup_ok (sups ! i)" "su_running (sups ! i) = dialWanted (eventsOf i evs)"
    using assms(4) by (auto simp: sups_inv_def)
  have none: "list_all dr_cancelled ds \<Longrightarrow> filter (\<lambda>d. \<not> dr_cancelled d) ds = []" for ds
    by (simp add: list_all_iff filter_empty_conv)
  have "map su_ident sups ! i = filter (\<lambda>i. id_VIN i \<noteq> []) ids ! i" using inv by (simp add: sups_inv_def)
  moreover have "filter (\<lambda>d. \<not> dr_cancelled d) (su_dialers (sups ! i)) = (if dialWanted (eventsOf i evs)
       then [\<lparr>dr_id = id_ID (su_ident (sups ! i)), dr_vin = id_VIN (su_ident (sups ! i)), dr_cancelled = False\<rparr>] else [])"
    using ok none by (auto simp: sup_ok_def)
  ultimately show ?thesis using inv assms(4) by (simp add: sups_inv_def)
qed

lemma dials_only_while_online_witness:
  "\<exists>sups c. fold sups_event [(0, SupChanged standingSnap), (0, SupChanged zeroSnapshot)]
     (supervised [\<lparr>id_ID = ''1'', id_VIN = ''V'', id_DisplayName = [], id_Make = [], id_Model = []\<rparr>], zeroCounters) = (sups, c) \<and>
     filter (\<lambda>d. \<not> dr_cancelled d) (su_dialers (sups ! 0)) = [] \<and> length (su_dialers (sups ! 0)) = 1"
proof -
  let ?ids = "[\<lparr>id_ID = ''1'', id_VIN = ''V'', id_DisplayName = [], id_Make = [], id_Model = []\<rparr>]"
  let ?evs = "[(0, SupChanged standingSnap), (0, SupChanged zeroSnapshot)]"
  obtain sups c where f: "fold sups_event ?evs (supervised ?ids, zeroCounters) = (sups, c)" by fastforce
  have online: "snapOnline standingSnap" "\<not> snapOnline zeroSnapshot"
    by (simp_all add: snapOnline_def standingSnap_def standingState_def)
  have len: "length sups = 1" "length (su_dialers (sups ! 0)) = 1"
    using f online by (auto simp: supervised_def newSupervisor_def sups_event_def sup_event_def sup_eval_def sup_start_def
      sup_stop_def cancelLast_def Let_def)
  have "\<not> dialWanted (eventsOf 0 ?evs)" using online by (simp add: dialWanted_def eventsOf_def)
  then have "filter (\<lambda>d. \<not> dr_cancelled d) (su_dialers (sups ! 0)) = []"
    using dials_only_while_online [of ?evs ?ids _ sups c 0] f len by (simp add: owner_Run_def maxInt64_def del: fold_simps)
  with f len show ?thesis by blast
qed

end
