(* ===== verification/Command.thy ===== *)
theory Command
  imports FleetClient Metrics
begin

section \<open>The command path\<close>

text \<open>
  \<^verbatim>\<open>internal/protocol/tesla/command/v1/commander.go\<close> and \<^verbatim>\<open>routes.go\<close>, with the interface of
  \<^verbatim>\<open>internal/plugin/commander/commander.go\<close>. The vehicle-command SDK is a parameter: what each of its calls
  answers, in a world \<open>'w\<close> of its own, and what the code asks of its errors. The router's match of the command
  pattern and \<^verbatim>\<open>json.Unmarshal\<close> are parameters too.
\<close>

subsection \<open>Settings and construction\<close>

record ack =
  ak_Result :: bool
  ak_Reason :: string

record commandSettings =
  cq_Enabled :: bool
  cq_KeyFile :: string
  cq_CredsFile :: string
  cq_CacheFile :: string
  cq_Timeout :: duration

definition command_applyDefaults :: "commandSettings \<Rightarrow> commandSettings" where
  "command_applyDefaults s = (if cq_Timeout s = 0 then s\<lparr>cq_Timeout := 30 * Second\<rparr> else s)"

datatype 'sess cacheImport = CacheLoaded 'sess | CacheMissing | CacheUnreadable

datatype commanderError = CmdDecode | NoKeyFile | NoCredsFile | BadKey | CmdCreds authError

record ('key, 'sess) teslaCommander =
  tq_settings :: commandSettings
  tq_privKey :: 'key
  tq_mgr :: tokenManager
  tq_sessions :: 'sess
  tq_stats :: commandStats

definition zeroCommandStats :: commandStats where
  "zeroCommandStats = \<lparr>co_Sent = 0, co_Successes = 0, co_NominalFailures = 0, co_InfraErrors = 0, co_Wakes = 0,
     co_RateLimitedCount = 0\<rparr>"

definition newCommander ::
  "(string \<Rightarrow> 'key option) \<Rightarrow> (string \<Rightarrow> 'sess cacheImport) \<Rightarrow> 'sess \<Rightarrow> disk \<Rightarrow> commandSettings option option \<Rightarrow>
     authRegistry \<Rightarrow> (commanderError + ('key, 'sess) teslaCommander) \<times> authRegistry" where
  "newCommander loadKey importCache emptyCache disk node reg =
     (case (case node of None \<Rightarrow> Some \<lparr>cq_Enabled = False, cq_KeyFile = [], cq_CredsFile = [], cq_CacheFile = [],
              cq_Timeout = 0\<rparr> | Some dec \<Rightarrow> dec) of
        None \<Rightarrow> (Inl CmdDecode, reg)
      | Some s0 \<Rightarrow>
          let s = command_applyDefaults s0 in
          if cq_KeyFile s = [] then (Inl NoKeyFile, reg)
          else if cq_CredsFile s = [] then (Inl NoCredsFile, reg)
          else case loadKey (cq_KeyFile s) of
            None \<Rightarrow> (Inl BadKey, reg)
          | Some key \<Rightarrow>
              (case authShared disk (cq_CredsFile s) reg of
                 (Inl err, reg1) \<Rightarrow> (Inl (CmdCreds err), reg1)
               | (Inr m, reg1) \<Rightarrow>
                   let sessions = (if cq_CacheFile s \<noteq> [] then (case importCache (cq_CacheFile s) of
                         CacheLoaded c \<Rightarrow> c | _ \<Rightarrow> emptyCache) else emptyCache)
                   in (Inr \<lparr>tq_settings = s, tq_privKey = key, tq_mgr = m, tq_sessions = sessions,
                         tq_stats = zeroCommandStats\<rparr>, reg1)))"

subsection \<open>One command\<close>

text \<open>An error of the SDK, with what the code asks of it.\<close>

record sdkError =
  sx_text :: string
  sx_notSupported :: bool
  sx_notImplemented :: bool
  sx_useREST :: bool
  sx_nominal :: bool

datatype 'p sdkCall =
  GetVehicle string string | Connect | StartSession | ExtractAction string 'p | RunAction string 'p
| UpdateSessions | Disconnect | ExportSessions

record ('p, 'w) vehicleSDK =
  vs_account :: "string \<Rightarrow> sdkError option"
  vs_call :: "'p sdkCall \<Rightarrow> 'w \<Rightarrow> sdkError option \<times> 'w"

definition infra :: "string \<Rightarrow> sdkError \<Rightarrow> string + ack" where
  "infra what err = Inl (''tesla-command: '' @ what @ '': '' @ sx_text err)"

definition nominalAck :: "string \<Rightarrow> string + ack" where
  "nominalAck reason = Inr \<lparr>ak_Result = False, ak_Reason = reason\<rparr>"

text \<open>
  The session of a connected car: the action, and on success the export of the session cache. The deferred
  calls run after it, in reverse order.
\<close>

definition runSession ::
  "('p, 'w) vehicleSDK \<Rightarrow> string \<Rightarrow> string \<Rightarrow> 'p \<Rightarrow> 'w \<Rightarrow> (string + ack) \<times> 'w" where
  "runSession sdk cacheFile name params w0 =
     (case vs_call sdk (ExtractAction name params) w0 of
        (Some err, w1) \<Rightarrow> (nominalAck (sx_text err), w1)
      | (None, w1) \<Rightarrow>
          (case vs_call sdk (RunAction name params) w1 of
             (Some err, w2) \<Rightarrow>
               if sx_notImplemented err \<or> sx_useREST err then (nominalAck (sx_text err), w2)
               else if sx_nominal err then (nominalAck (sx_text err), w2)
               else (infra name err, w2)
           | (None, w2) \<Rightarrow>
               let w3 = (if cacheFile \<noteq> [] then snd (vs_call sdk ExportSessions w2) else w2)
               in (Inr \<lparr>ak_Result = True, ak_Reason = []\<rparr>, w3)))"

definition onConnected ::
  "('p, 'w) vehicleSDK \<Rightarrow> string \<Rightarrow> string \<Rightarrow> 'p \<Rightarrow> 'w \<Rightarrow> (string + ack) \<times> 'w" where
  "onConnected sdk cacheFile name params w0 =
     (case vs_call sdk StartSession w0 of
        (Some err, w1) \<Rightarrow> (if sx_notSupported err then nominalAck (sx_text err) else infra ''start session'' err, w1)
      | (None, w1) \<Rightarrow>
          (let (r, w2) = runSession sdk cacheFile name params w1 in (r, snd (vs_call sdk UpdateSessions w2))))"

text \<open>\<^verbatim>\<open>dispatch\<close> once the vehicle's lock is held, with the token of the manager.\<close>

definition dispatchHeld ::
  "('p, 'w) vehicleSDK \<Rightarrow> string \<Rightarrow> string \<Rightarrow> string \<Rightarrow> string \<Rightarrow> 'p \<Rightarrow> 'w \<Rightarrow> (string + ack) \<times> 'w" where
  "dispatchHeld sdk cacheFile token vin name params w0 =
     (case vs_account sdk token of
        Some err \<Rightarrow> (infra ''build account'' err, w0)
      | None \<Rightarrow>
          (case vs_call sdk (GetVehicle token vin) w0 of
             (Some err, w1) \<Rightarrow> (infra ''get vehicle'' err, w1)
           | (None, w1) \<Rightarrow>
               (case vs_call sdk Connect w1 of
                  (Some err, w2) \<Rightarrow> (infra ''connect'' err, w2)
                | (None, w2) \<Rightarrow>
                    (let (r, w3) = onConnected sdk cacheFile name params w2 in (r, snd (vs_call sdk Disconnect w3))))))"

definition badRequest :: "string \<Rightarrow> string \<Rightarrow> bool" where
  "badRequest vin name \<longleftrightarrow> vin = [] \<or> name = []"

definition commander_dispatch ::
  "('p, 'w) vehicleSDK \<Rightarrow> string \<Rightarrow> string \<Rightarrow> string \<Rightarrow> string \<Rightarrow> 'p \<Rightarrow> 'w \<Rightarrow> (string + ack) \<times> 'w" where
  "commander_dispatch sdk cacheFile token vin name params w =
     (if badRequest vin name then (nominalAck ''vin and command name are required'', w)
      else dispatchHeld sdk cacheFile token vin name params w)"

definition countSent :: "string \<Rightarrow> commandStats \<Rightarrow> commandStats" where
  "countSent name s =
     (let s1 = s\<lparr>co_Sent := wrap64 (co_Sent s + 1)\<rparr>
      in if name = ''wake_up'' then s1\<lparr>co_Wakes := wrap64 (co_Wakes s1 + 1)\<rparr> else s1)"

definition countOutcome :: "string + ack \<Rightarrow> commandStats \<Rightarrow> commandStats" where
  "countOutcome r s = (case r of
     Inl _ \<Rightarrow> s\<lparr>co_InfraErrors := wrap64 (co_InfraErrors s + 1)\<rparr>
   | Inr a \<Rightarrow> if ak_Result a then s\<lparr>co_Successes := wrap64 (co_Successes s + 1)\<rparr>
       else s\<lparr>co_NominalFailures := wrap64 (co_NominalFailures s + 1)\<rparr>)"

definition sendCommand ::
  "('p, 'w) vehicleSDK \<Rightarrow> string \<Rightarrow> string \<Rightarrow> 'p \<Rightarrow> ('key, 'sess) teslaCommander \<times> 'w \<Rightarrow>
     (string + ack) \<times> ('key, 'sess) teslaCommander \<times> 'w" where
  "sendCommand sdk vin name params st =
     (let (c, w) = st;
          c1 = c\<lparr>tq_stats := countSent name (tq_stats c)\<rparr>;
          (r, w1) = commander_dispatch sdk (cq_CacheFile (tq_settings c)) (tm_Token (tq_mgr c)) vin name params w
      in (r, c1\<lparr>tq_stats := countOutcome r (tq_stats c1)\<rparr>, w1))"

subsection \<open>Commands at the same time\<close>

text \<open>
  A command is counted, then refused at once or waits for the lock of its vehicle, holds it, has its result,
  and has its outcome counted. The result of a held command is whatever the SDK makes of it.
\<close>

datatype cmdPhase = CmdArrived | CmdCounted | CmdHolding | CmdResult "string + ack" | CmdDone "string + ack"

record cmdState =
  cs_phase :: "nat \<Rightarrow> cmdPhase"
  cs_lock :: "string \<rightharpoonup> nat"
  cs_stats :: commandStats

inductive command_step :: "(string \<times> string) list \<Rightarrow> cmdState \<Rightarrow> cmdState \<Rightarrow> bool"
  for reqs :: "(string \<times> string) list" where
  Count: "c < length reqs \<Longrightarrow> cs_phase s c = CmdArrived \<Longrightarrow>
    command_step reqs s (s\<lparr>cs_phase := (cs_phase s)(c := CmdCounted), cs_stats := countSent (snd (reqs ! c)) (cs_stats s)\<rparr>)"
| Refuse: "c < length reqs \<Longrightarrow> cs_phase s c = CmdCounted \<Longrightarrow> badRequest (fst (reqs ! c)) (snd (reqs ! c)) \<Longrightarrow>
    command_step reqs s (s\<lparr>cs_phase := (cs_phase s)(c := CmdResult (nominalAck ''vin and command name are required''))\<rparr>)"
| Lock: "c < length reqs \<Longrightarrow> cs_phase s c = CmdCounted \<Longrightarrow> \<not> badRequest (fst (reqs ! c)) (snd (reqs ! c)) \<Longrightarrow>
    cs_lock s (fst (reqs ! c)) = None \<Longrightarrow>
    command_step reqs s (s\<lparr>cs_phase := (cs_phase s)(c := CmdHolding), cs_lock := (cs_lock s)(fst (reqs ! c) \<mapsto> c)\<rparr>)"
| Unlock: "c < length reqs \<Longrightarrow> cs_phase s c = CmdHolding \<Longrightarrow>
    command_step reqs s (s\<lparr>cs_phase := (cs_phase s)(c := CmdResult r), cs_lock := (cs_lock s)(fst (reqs ! c) := None)\<rparr>)"
| Record: "c < length reqs \<Longrightarrow> cs_phase s c = CmdResult r \<Longrightarrow>
    command_step reqs s (s\<lparr>cs_phase := (cs_phase s)(c := CmdDone r), cs_stats := countOutcome r (cs_stats s)\<rparr>)"

inductive_cases command_stepE: "command_step reqs s s'"

definition noCommands :: cmdState where
  "noCommands = \<lparr>cs_phase = (\<lambda>_. CmdArrived), cs_lock = Map.empty, cs_stats = zeroCommandStats\<rparr>"

subsection \<open>The routes\<close>

record httpRequest =
  rq_method :: string
  rq_path :: string
  rq_body :: "string option"

datatype ackBody = AckBody ack | AckErrorBody string

text \<open>\<^verbatim>\<open>parseParams\<close>: \<open>unmarshal\<close> answers None for an error and \<open>Some None\<close> for the null map.\<close>

definition parseParams :: "(string \<Rightarrow> 'p option option) \<Rightarrow> 'p \<Rightarrow> string \<Rightarrow> 'p option" where
  "parseParams unmarshal emptyMap body =
     (if body = [] then Some emptyMap
      else case unmarshal body of None \<Rightarrow> None | Some None \<Rightarrow> Some emptyMap | Some (Some p) \<Rightarrow> Some p)"

definition handleCommand ::
  "(string \<Rightarrow> 'p option option) \<Rightarrow> 'p \<Rightarrow> (string \<Rightarrow> string \<Rightarrow> 'p \<Rightarrow> 's \<Rightarrow> (string + ack) \<times> 's) \<Rightarrow>
     string \<Rightarrow> string \<Rightarrow> string option \<Rightarrow> 's \<Rightarrow> (int \<times> ackBody) \<times> 's" where
  "handleCommand unmarshal emptyMap send vin cmd body s =
     (case body of
        None \<Rightarrow> ((400, AckErrorBody ''invalid request body''), s)
      | Some text \<Rightarrow>
          (case parseParams unmarshal emptyMap text of
             None \<Rightarrow> ((400, AckErrorBody ''invalid JSON body''), s)
           | Some params \<Rightarrow>
               (case send vin cmd params s of
                  (Inl err, s1) \<Rightarrow> ((502, AckErrorBody err), s1)
                | (Inr a, s1) \<Rightarrow> ((200, AckBody a), s1))))"

text \<open>
  \<^verbatim>\<open>Mount\<close>: \<open>matched\<close> is the router's match of the command pattern, with its two parameters. Both the
  handler of other paths and that of other methods is the sink's.
\<close>

definition mount ::
  "(string \<Rightarrow> (string \<times> string) option) \<Rightarrow> (string \<Rightarrow> string \<Rightarrow> string option \<Rightarrow> 's \<Rightarrow> 'resp \<times> 's) \<Rightarrow>
     (httpRequest \<Rightarrow> 's \<Rightarrow> 'resp \<times> 's) \<Rightarrow> httpRequest \<Rightarrow> 's \<Rightarrow> 'resp \<times> 's" where
  "mount matched command next req s = (case matched (rq_path req) of
     Some (vin, cmd) \<Rightarrow> if rq_method req = ''POST'' then command vin cmd (rq_body req) s else next req s
   | None \<Rightarrow> next req s)"

text \<open>The handler \<^verbatim>\<open>runServe\<close> serves: the sink's own unless commands are enabled.\<close>

definition sinkHandler ::
  "bool \<Rightarrow> (string \<Rightarrow> (string \<times> string) option) \<Rightarrow> (string \<Rightarrow> string \<Rightarrow> string option \<Rightarrow> 's \<Rightarrow> 'resp \<times> 's) \<Rightarrow>
     (httpRequest \<Rightarrow> 's \<Rightarrow> 'resp \<times> 's) \<Rightarrow> httpRequest \<Rightarrow> 's \<Rightarrow> 'resp \<times> 's" where
  "sinkHandler enabled matched command next = (if enabled then mount matched command next else next)"

end
