(* ===== verification/CommandClaims.thy ===== *)
theory CommandClaims
  imports Command
begin

section \<open>Properties of the command path\<close>

text \<open>
  What one command does to the car, its session and the cache file whatever the vehicle SDK answers, and what holds
  of any interleaving of commands for several vehicles.
\<close>

subsection \<open>The calls of one command\<close>

text \<open>The SDK with a log of its calls and their errors.\<close>

definition callLog :: "('p, 'w) vehicleSDK \<Rightarrow> ('p, 'w \<times> ('p sdkCall \<times> bool) list) vehicleSDK" where
  "callLog sdk = \<lparr>vs_account = vs_account sdk,
     vs_call = (\<lambda>c w. let (err, w1) = vs_call sdk c (fst w) in (err, (w1, snd w @ [(c, err = None)])))\<rparr>"

lemma callLog_sel [simp]:
  "vs_account (callLog sdk) = vs_account sdk"
  "vs_call (callLog sdk) c w = (let (err, w1) = vs_call sdk c (fst w) in (err, (w1, snd w @ [(c, err = None)])))"
  by (simp_all add: callLog_def)

text \<open>The calls of a session that started, by the outcome of the action.\<close>

definition sessionCalls :: "string \<Rightarrow> string \<Rightarrow> 'p \<Rightarrow> ('p sdkCall \<times> bool) list set" where
  "sessionCalls cacheFile name params =
     {[(ExtractAction name params, False)], [(ExtractAction name params, True), (RunAction name params, False)]} \<union>
     (if cacheFile = [] then {[(ExtractAction name params, True), (RunAction name params, True)]}
      else {[(ExtractAction name params, True), (RunAction name params, True), (ExportSessions, b)] | b. True})"

lemma runSession_calls:
  assumes "runSession (callLog sdk) cacheFile name params w = (r, w')"
  obtains cs where "snd w' = snd w @ cs" "cs \<in> sessionCalls cacheFile name params"
    "(case r of Inr a \<Rightarrow> ak_Result a | Inl _ \<Rightarrow> False) \<longleftrightarrow> (RunAction name params, True) \<in> set cs"
  using assms that
  by (fastforce simp: runSession_def sessionCalls_def nominalAck_def infra_def Let_def split: prod.splits option.splits if_splits)

lemma onConnected_calls:
  assumes "onConnected (callLog sdk) cacheFile name params w = (r, w')"
  obtains "snd w' = snd w @ [(StartSession, False)]" "\<not> (case r of Inr a \<Rightarrow> ak_Result a | Inl _ \<Rightarrow> False)"
  | cs b where "snd w' = snd w @ (StartSession, True) # cs @ [(UpdateSessions, b)]" "cs \<in> sessionCalls cacheFile name params"
      "(case r of Inr a \<Rightarrow> ak_Result a | Inl _ \<Rightarrow> False) \<longleftrightarrow> (RunAction name params, True) \<in> set cs"
proof (cases "vs_call sdk StartSession (fst w)")
  case (Pair err w1)
  show thesis
  proof (cases err)
    case (Some x)
    then have "w' = (w1, snd w @ [(StartSession, False)])" "\<not> (case r of Inr a \<Rightarrow> ak_Result a | Inl _ \<Rightarrow> False)"
      using assms Pair by (auto simp: onConnected_def nominalAck_def infra_def split: if_splits)
    then show thesis using that(1) by simp
  next
    case None
    let ?w1 = "(w1, snd w @ [(StartSession, True)])"
    obtain r2 w2 where 2: "runSession (callLog sdk) cacheFile name params ?w1 = (r2, w2)"
      by (cases "runSession (callLog sdk) cacheFile name params ?w1") (rule that)
    obtain cs where cs: "snd w2 = snd ?w1 @ cs" "cs \<in> sessionCalls cacheFile name params"
      "(case r2 of Inr a \<Rightarrow> ak_Result a | Inl _ \<Rightarrow> False) \<longleftrightarrow> (RunAction name params, True) \<in> set cs"
      by (rule runSession_calls [OF 2])
    obtain e3 w3 where 3: "vs_call sdk UpdateSessions (fst w2) = (e3, w3)" by fastforce
    have "r = r2" "w' = (w3, snd w2 @ [(UpdateSessions, e3 = None)])"
      using assms Pair None 2 3 by (auto simp: onConnected_def)
    then show thesis using that(2) [of cs "e3 = None"] cs by simp
  qed
qed

text \<open>
  C26: what one command does with the vehicle, whatever the SDK answers. A car that was connected is
  disconnected again, by the last call; a session that started is given back to the cache just before that.
  The command succeeds exactly when the action ran without error, and then, when a cache file is
  configured, the cache was exported before the session was given back to it: the file never has the session of
  the command that wrote it.
\<close>

theorem command_cleans_up:
  assumes "dispatchHeld (callLog sdk) cacheFile token vin name params (w, []) = (r, w', calls)"
  shows "vs_account sdk token \<noteq> None \<and> calls = [] \<and> isl r \<or>
    calls = [(GetVehicle token vin, False)] \<and> isl r \<or>
    calls = [(GetVehicle token vin, True), (Connect, False)] \<and> isl r \<or>
    (\<exists>cs b. calls = [(GetVehicle token vin, True), (Connect, True)] @ cs @ [(Disconnect, b)] \<and>
       (cs = [(StartSession, False)] \<and> \<not> (case r of Inr a \<Rightarrow> ak_Result a | Inl _ \<Rightarrow> False) \<or>
        (\<exists>ds b'. cs = (StartSession, True) # ds @ [(UpdateSessions, b')] \<and>
           ds \<in> sessionCalls cacheFile name params \<and>
           ((case r of Inr a \<Rightarrow> ak_Result a | Inl _ \<Rightarrow> False) \<longleftrightarrow> (RunAction name params, True) \<in> set ds))))"
proof (cases "vs_account sdk token")
  case (Some err)
  then show ?thesis using assms by (auto simp: dispatchHeld_def infra_def)
next
  case account: None
  obtain e1 w1 where 1: "vs_call sdk (GetVehicle token vin) w = (e1, w1)" by fastforce
  show ?thesis
  proof (cases e1)
    case (Some err)
    then show ?thesis using assms account 1 by (auto simp: dispatchHeld_def infra_def)
  next
    case vehicle: None
    obtain e2 w2 where 2: "vs_call sdk Connect w1 = (e2, w2)" by fastforce
    show ?thesis
    proof (cases e2)
      case (Some err)
      then show ?thesis using assms account vehicle 1 2 by (auto simp: dispatchHeld_def infra_def)
    next
      case conn: None
      let ?log = "[(GetVehicle token vin, True), (Connect, True)]"
      obtain r3 w3 where 3: "onConnected (callLog sdk) cacheFile name params (w2, ?log) = (r3, w3)"
        by (cases "onConnected (callLog sdk) cacheFile name params (w2, ?log)") (rule that)
      obtain e4 w4 where 4: "vs_call sdk Disconnect (fst w3) = (e4, w4)" by fastforce
      have rw: "r = r3" "calls = snd w3 @ [(Disconnect, e4 = None)]"
        using assms account vehicle conn 1 2 3 4 by (auto simp: dispatchHeld_def)
      show ?thesis
        by (rule onConnected_calls [OF 3]) (use rw in auto)
    qed
  qed
qed

text \<open>An SDK whose every call succeeds.\<close>

definition readySDK :: "(unit, unit) vehicleSDK" where
  "readySDK = \<lparr>vs_account = (\<lambda>_. None), vs_call = (\<lambda>_ w. (None, w))\<rparr>"

lemma command_cleans_up_witness:
  "\<exists>r w' calls. dispatchHeld (callLog readySDK) ''f'' ''t'' ''V'' ''wake_up'' () ((), []) = (r, w', calls) \<and>
     last calls = (Disconnect, True) \<and> (ExportSessions, True) \<in> set calls"
proof -
  obtain r w' calls where d: "dispatchHeld (callLog readySDK) ''f'' ''t'' ''V'' ''wake_up'' () ((), []) = (r, w', calls)"
    by (metis prod_cases3)
  have "length calls = 8" "(ExportSessions, True) \<in> set calls" "snd (last calls)"
    using d by (auto simp: dispatchHeld_def onConnected_def runSession_def readySDK_def callLog_def)
  moreover from command_cleans_up [OF d] this have "fst (last calls) = Disconnect"
    by (elim disjE exE conjE) simp_all
  ultimately show ?thesis using d by (metis prod.collapse)
qed

subsection \<open>Commands at the same time\<close>

definition inFlight :: "cmdPhase \<Rightarrow> bool" where
  "inFlight p \<longleftrightarrow> (case p of CmdCounted \<Rightarrow> True | CmdHolding \<Rightarrow> True | CmdResult _ \<Rightarrow> True | _ \<Rightarrow> False)"

definition doneWith :: "(string + ack \<Rightarrow> bool) \<Rightarrow> cmdPhase \<Rightarrow> bool" where
  "doneWith P p \<longleftrightarrow> (case p of CmdDone r \<Rightarrow> P r | _ \<Rightarrow> False)"

definition succeeded :: "string + ack \<Rightarrow> bool" where
  "succeeded r = (case r of Inr a \<Rightarrow> ak_Result a | Inl _ \<Rightarrow> False)"

definition countOf :: "(cmdPhase \<Rightarrow> bool) \<Rightarrow> nat \<Rightarrow> (nat \<Rightarrow> cmdPhase) \<Rightarrow> int" where
  "countOf P n ph = int (card {c. c < n \<and> P (ph c)})"

lemma countOf_upd:
  assumes "c < n"
  shows "countOf P n (ph(c := p)) = countOf P n ph + (if P p then 1 else 0) - (if P (ph c) then 1 else 0)"
proof -
  let ?A = "{i. i < n \<and> i \<noteq> c \<and> P (ph i)}"
  have "{i. i < n \<and> P ((ph(c := p)) i)} = (if P p then insert c ?A else ?A)"
      "{i. i < n \<and> P (ph i)} = (if P (ph c) then insert c ?A else ?A)"
    using assms by auto
  moreover have "finite ?A" "c \<notin> ?A" by auto
  ultimately show ?thesis unfolding countOf_def by simp
qed

lemma countOf_bounds: "0 \<le> countOf P n ph" "countOf P n ph \<le> int n"
proof -
  have "card {c. c < n \<and> P (ph c)} \<le> card {..<n}" by (intro card_mono) auto
  then show "countOf P n ph \<le> int n" "0 \<le> countOf P n ph" by (simp_all add: countOf_def)
qed

lemma stats_sel [simp]:
  "co_Sent (countSent name st) = wrap64 (co_Sent st + 1)" "co_Successes (countSent name st) = co_Successes st"
  "co_InfraErrors (countSent name st) = co_InfraErrors st" "co_NominalFailures (countSent name st) = co_NominalFailures st"
  "co_RateLimitedCount (countSent name st) = co_RateLimitedCount st"
  "co_Sent (countOutcome r st) = co_Sent st" "co_RateLimitedCount (countOutcome r st) = co_RateLimitedCount st"
  "co_Successes (countOutcome r st) = (if succeeded r then wrap64 (co_Successes st + 1) else co_Successes st)"
  "co_InfraErrors (countOutcome r st) = (if isl r then wrap64 (co_InfraErrors st + 1) else co_InfraErrors st)"
  "co_NominalFailures (countOutcome r st) = (if \<not> isl r \<and> \<not> succeeded r then wrap64 (co_NominalFailures st + 1) else co_NominalFailures st)"
  by (auto simp: countSent_def countOutcome_def succeeded_def Let_def split: sum.split)

lemma succeeded_not_isl: "succeeded r \<Longrightarrow> \<not> isl r"
  by (cases r) (auto simp: succeeded_def)

lemma countOf_less: "c < n \<Longrightarrow> \<not> P (ph c) \<Longrightarrow> countOf P n ph < int n"
proof -
  assume c: "c < n" "\<not> P (ph c)"
  then have "{i. i < n \<and> P (ph i)} \<subset> {..<n}" by auto
  from psubset_card_mono [OF _ this] show "countOf P n ph < int n" by (simp add: countOf_def)
qed

lemma wrap_count: "c < n \<Longrightarrow> \<not> P (ph c) \<Longrightarrow> int n \<le> maxInt64 \<Longrightarrow> wrap64 (countOf P n ph + 1) = countOf P n ph + 1"
  using countOf_less [of c n P ph] countOf_bounds(1) [of P n ph] by (intro wrap64_inc) simp_all

text \<open>The commands in progress are the ones the locks name.\<close>

definition locks_ok :: "(string \<times> string) list \<Rightarrow> (nat \<Rightarrow> cmdPhase) \<Rightarrow> (string \<Rightarrow> nat option) \<Rightarrow> bool" where
  "locks_ok reqs ph lk \<longleftrightarrow> (\<forall>v c. lk v = Some c \<longleftrightarrow> c < length reqs \<and> v = fst (reqs ! c) \<and> ph c = CmdHolding)"

text \<open>The counters are the numbers of commands that came that far.\<close>

definition books_ok :: "nat \<Rightarrow> (nat \<Rightarrow> cmdPhase) \<Rightarrow> commandStats \<Rightarrow> bool" where
  "books_ok n ph st \<longleftrightarrow> co_Sent st = countOf (\<lambda>p. p \<noteq> CmdArrived) n ph \<and>
     co_Successes st = countOf (doneWith succeeded) n ph \<and> co_InfraErrors st = countOf (doneWith isl) n ph \<and>
     co_NominalFailures st = countOf (doneWith (\<lambda>r. \<not> isl r \<and> \<not> succeeded r)) n ph \<and> co_RateLimitedCount st = 0"

definition cmd_inv :: "(string \<times> string) list \<Rightarrow> cmdState \<Rightarrow> bool" where
  "cmd_inv reqs s \<longleftrightarrow> locks_ok reqs (cs_phase s) (cs_lock s) \<and> books_ok (length reqs) (cs_phase s) (cs_stats s)"

lemma noCommands_inv: "cmd_inv reqs noCommands"
  by (simp add: cmd_inv_def locks_ok_def books_ok_def noCommands_def zeroCommandStats_def countOf_def doneWith_def)

lemma locks_keep: "locks_ok reqs ph lk \<Longrightarrow> ph c \<noteq> CmdHolding \<Longrightarrow> p \<noteq> CmdHolding \<Longrightarrow> locks_ok reqs (ph(c := p)) lk"
  unfolding locks_ok_def by (metis fun_upd_apply)

lemma locks_take:
  assumes "locks_ok reqs ph lk" "c < length reqs" "lk (fst (reqs ! c)) = None"
  shows "locks_ok reqs (ph(c := CmdHolding)) (lk(fst (reqs ! c) \<mapsto> c))"
proof -
  have "(lk(fst (reqs ! c) \<mapsto> c)) v = Some d \<longleftrightarrow>
      d < length reqs \<and> v = fst (reqs ! d) \<and> (ph(c := CmdHolding)) d = CmdHolding" for v d
  proof -
    have "lk v = Some d \<longleftrightarrow> d < length reqs \<and> v = fst (reqs ! d) \<and> ph d = CmdHolding"
      using assms(1) by (simp add: locks_ok_def)
    then show ?thesis using assms(2,3) by (cases "d = c"; cases "v = fst (reqs ! c)") auto
  qed
  then show ?thesis unfolding locks_ok_def by blast
qed

lemma locks_drop:
  assumes "locks_ok reqs ph lk" "c < length reqs" "ph c = CmdHolding" "p \<noteq> CmdHolding"
  shows "locks_ok reqs (ph(c := p)) (lk(fst (reqs ! c) := None))"
proof -
  have own: "lk (fst (reqs ! c)) = Some c" using assms(1,2,3) by (simp add: locks_ok_def)
  have "(lk(fst (reqs ! c) := None)) v = Some d \<longleftrightarrow>
      d < length reqs \<and> v = fst (reqs ! d) \<and> (ph(c := p)) d = CmdHolding" for v d
  proof -
    have "lk v = Some d \<longleftrightarrow> d < length reqs \<and> v = fst (reqs ! d) \<and> ph d = CmdHolding"
      using assms(1) by (simp add: locks_ok_def)
    then show ?thesis using assms(4) own by (cases "d = c"; cases "v = fst (reqs ! c)") auto
  qed
  then show ?thesis unfolding locks_ok_def by blast
qed

lemma step_locks:
  assumes "command_step reqs s s'" and "locks_ok reqs (cs_phase s) (cs_lock s)"
  shows "locks_ok reqs (cs_phase s') (cs_lock s')"
  using assms(1)
proof cases
  case (Lock c)
  then show ?thesis using locks_take [OF assms(2)] by simp
next
  case (Unlock c r)
  then show ?thesis using locks_drop [OF assms(2), of c "CmdResult r"] by simp
qed (use assms(2) locks_keep in simp)+

lemma doneWith_open [simp]: "doneWith P CmdArrived = False" "doneWith P CmdCounted = False" "doneWith P CmdHolding = False"
  "doneWith P (CmdResult r) = False" "doneWith P (CmdDone r) = P r"
  by (simp_all add: doneWith_def)

lemma step_books:
  assumes "command_step reqs s s'" and "books_ok (length reqs) (cs_phase s) (cs_stats s)" and "int (length reqs) \<le> maxInt64"
  shows "books_ok (length reqs) (cs_phase s') (cs_stats s')"
  using assms(1)
proof cases
  case (Count c)
  then show ?thesis using assms(2) wrap_count [OF Count(2) _ assms(3), where ph = "cs_phase s" and P = "\<lambda>p. p \<noteq> CmdArrived"]
    by (simp add: books_ok_def countOf_upd)
next
  case (Record c r)
  have w: "wrap64 (countOf (doneWith P) (length reqs) (cs_phase s) + 1) = countOf (doneWith P) (length reqs) (cs_phase s) + 1" for P
    using Record(3) by (intro wrap_count [OF Record(2) _ assms(3)]) simp
  show ?thesis unfolding Record(1) using assms(2) Record(2,3) succeeded_not_isl [of r]
    by (simp add: books_ok_def countOf_upd w)
qed (use assms(2) in \<open>simp add: books_ok_def countOf_upd\<close>)+

lemma cmd_step_inv:
  assumes "command_step reqs s s'" and "cmd_inv reqs s" and "int (length reqs) \<le> maxInt64"
  shows "cmd_inv reqs s'"
  using assms step_locks step_books unfolding cmd_inv_def by blast

lemma cmd_reachable_inv:
  assumes "(command_step reqs)\<^sup>*\<^sup>* noCommands s" and "int (length reqs) \<le> maxInt64"
  shows "cmd_inv reqs s"
  using assms(1) by induction (use noCommands_inv cmd_step_inv assms(2) in blast)+

lemma countOf_or:
  assumes "\<And>p. P p \<longleftrightarrow> Q p \<or> R p" and "\<And>p. \<not> (Q p \<and> R p)"
  shows "countOf P n ph = countOf Q n ph + countOf R n ph"
proof -
  have "{c. c < n \<and> P (ph c)} = {c. c < n \<and> Q (ph c)} \<union> {c. c < n \<and> R (ph c)}" using assms(1) by auto
  moreover have "{c. c < n \<and> Q (ph c)} \<inter> {c. c < n \<and> R (ph c)} = {}" using assms(2) by auto
  ultimately show ?thesis unfolding countOf_def by (simp add: card_Un_disjoint)
qed

lemma countOf_split:
  "countOf (\<lambda>p. p \<noteq> CmdArrived) n ph = countOf (doneWith succeeded) n ph + countOf (doneWith isl) n ph +
     countOf (doneWith (\<lambda>r. \<not> isl r \<and> \<not> succeeded r)) n ph + countOf inFlight n ph"
proof -
  let ?nom = "doneWith (\<lambda>r. \<not> isl r \<and> \<not> succeeded r)"
  have "countOf (\<lambda>p. p \<noteq> CmdArrived) n ph = countOf (doneWith (\<lambda>_. True)) n ph + countOf inFlight n ph"
    by (rule countOf_or) (simp_all add: doneWith_def inFlight_def split: cmdPhase.splits)
  also have "countOf (doneWith (\<lambda>_. True)) n ph = countOf (doneWith (\<lambda>r. succeeded r \<or> isl r)) n ph + countOf ?nom n ph"
    by (rule countOf_or) (auto simp: doneWith_def split: cmdPhase.splits)
  also have "countOf (doneWith (\<lambda>r. succeeded r \<or> isl r)) n ph = countOf (doneWith succeeded) n ph + countOf (doneWith isl) n ph"
    using succeeded_not_isl by (intro countOf_or) (auto simp: doneWith_def split: cmdPhase.splits)
  finally show ?thesis by simp
qed

text \<open>
  C27: commands at the same time, for fewer than \<open>2 ^ 63\<close> of them. In every state their interleaving can reach, no
  two commands for one vehicle are in progress; the commands sent are the successes, the nominal failures,
  the infrastructure errors and those in flight; no rate limit is ever counted; and while some command is
  unfinished, one of them can take a step, so the locks cannot deadlock.
\<close>

theorem commands_one_at_a_time:
  assumes "(command_step reqs)\<^sup>*\<^sup>* noCommands s" and "int (length reqs) \<le> maxInt64"
  shows "(\<forall>c < length reqs. \<forall>c' < length reqs. cs_phase s c = CmdHolding \<and> cs_phase s c' = CmdHolding \<and>
        fst (reqs ! c) = fst (reqs ! c') \<longrightarrow> c = c') \<and>
    co_Sent (cs_stats s) = co_Successes (cs_stats s) + co_NominalFailures (cs_stats s) + co_InfraErrors (cs_stats s) +
        countOf inFlight (length reqs) (cs_phase s) \<and>
    co_RateLimitedCount (cs_stats s) = 0 \<and>
    ((\<exists>c < length reqs. \<forall>r. cs_phase s c \<noteq> CmdDone r) \<longrightarrow> (\<exists>s'. command_step reqs s s'))"
proof -
  have inv: "cmd_inv reqs s" using assms by (rule cmd_reachable_inv)
  have "\<exists>s'. command_step reqs s s'" if "c < length reqs" "\<forall>r. cs_phase s c \<noteq> CmdDone r" for c
  proof (cases "cs_phase s c")
    case CmdCounted
    show ?thesis
    proof (cases "badRequest (fst (reqs ! c)) (snd (reqs ! c))")
      case True
      then show ?thesis using Refuse [OF that(1) CmdCounted] by blast
    next
      case False
      show ?thesis
      proof (cases "cs_lock s (fst (reqs ! c))")
        case None
        then show ?thesis using Lock [OF that(1) CmdCounted False] by blast
      next
        case (Some c')
        then show ?thesis using inv Unlock unfolding cmd_inv_def locks_ok_def by blast
      qed
    qed
  qed (use that Count Unlock Record in blast)+
  moreover have "co_Sent (cs_stats s) = co_Successes (cs_stats s) + co_NominalFailures (cs_stats s) +
      co_InfraErrors (cs_stats s) + countOf inFlight (length reqs) (cs_phase s)"
    using inv countOf_split [of "length reqs" "cs_phase s"] by (simp add: cmd_inv_def books_ok_def)
  moreover have "c = c'" if "c < length reqs" "c' < length reqs" "cs_phase s c = CmdHolding" "cs_phase s c' = CmdHolding"
      "fst (reqs ! c) = fst (reqs ! c')" for c c'
    using inv that unfolding cmd_inv_def locks_ok_def by (metis option.inject)
  moreover have "co_RateLimitedCount (cs_stats s) = 0" using inv by (simp add: cmd_inv_def books_ok_def)
  ultimately show ?thesis by blast
qed

lemma commands_one_at_a_time_witness:
  "\<exists>s. (command_step [(''V'', ''wake_up''), (''V'', ''flash'')])\<^sup>*\<^sup>* noCommands s \<and> cs_phase s 0 = CmdHolding \<and>
     co_Sent (cs_stats s) = 1 \<and> cs_phase s 1 \<noteq> CmdHolding"
proof -
  let ?reqs = "[(''V'', ''wake_up''), (''V'', ''flash'')]"
  let ?s1 = "noCommands\<lparr>cs_phase := (cs_phase noCommands)(0 := CmdCounted),
     cs_stats := countSent (snd (?reqs ! 0)) (cs_stats noCommands)\<rparr>"
  let ?s2 = "?s1\<lparr>cs_phase := (cs_phase ?s1)(0 := CmdHolding), cs_lock := (cs_lock ?s1)(fst (?reqs ! 0) \<mapsto> 0)\<rparr>"
  have 1: "command_step ?reqs noCommands ?s1" by (rule Count) (simp_all add: noCommands_def)
  have 2: "command_step ?reqs ?s1 ?s2" by (rule Lock) (simp_all add: noCommands_def badRequest_def)
  have r: "(command_step ?reqs)\<^sup>*\<^sup>* noCommands ?s2" using 1 2 by (meson rtranclp.rtrancl_into_rtrancl rtranclp.rtrancl_refl)
  have n: "int (length ?reqs) \<le> maxInt64" by (simp add: maxInt64_def)
  have "\<forall>c < length ?reqs. \<forall>c' < length ?reqs. cs_phase ?s2 c = CmdHolding \<and> cs_phase ?s2 c' = CmdHolding \<and>
      fst (?reqs ! c) = fst (?reqs ! c') \<longrightarrow> c = c'"
    using commands_one_at_a_time [OF r n] by (rule conjunct1)
  from this [rule_format, of 0 1] have "cs_phase ?s2 1 \<noteq> CmdHolding" by auto
  moreover have "co_Sent (cs_stats ?s2) = 1" by (simp add: noCommands_def zeroCommandStats_def wrap64_def)
  ultimately show ?thesis using r by (intro exI [of _ ?s2]) simp
qed

subsection \<open>The routes\<close>

text \<open>
  The read surface is the sink's, and the write path is the command route. A request is answered by the
  sink itself unless commands are enabled and it is a POST on the command pattern; of those, an unreadable
  body is a 400 and reaches no commander, and any other gets one call of the commander, answered with 502 for
  an infrastructure error and with 200 and the acknowledgement otherwise, a nominal failure included.
\<close>

theorem only_commands_command:
  fixes sink send unmarshal emptyMap matched
  defines "h \<equiv> \<lambda>enabled. sinkHandler enabled matched (handleCommand unmarshal emptyMap send) sink"
  shows "h False req s = sink req s \<and>
    (case matched (rq_path req) of
       None \<Rightarrow> h True req s = sink req s
     | Some (vin, cmd) \<Rightarrow>
         if rq_method req \<noteq> ''POST'' then h True req s = sink req s
         else case Option.bind (rq_body req) (parseParams unmarshal emptyMap) of
           None \<Rightarrow> fst (fst (h True req s)) = 400 \<and> snd (h True req s) = s
         | Some params \<Rightarrow> h True req s = (case send vin cmd params s of
             (Inl err, s1) \<Rightarrow> ((502, AckErrorBody err), s1) | (Inr a, s1) \<Rightarrow> ((200, AckBody a), s1)))"
  unfolding h_def
  by (auto simp: sinkHandler_def mount_def handleCommand_def split: option.splits sum.splits prod.splits)

end
