(* ===== verification/Mock.thy ===== *)
theory Mock
  imports TeslaFi
begin

section \<open>The simulated cars\<close>

text \<open>
  \<^verbatim>\<open>internal/mock\<close>: the engine of simulated cars, the autopilot that cycles them, the generator of a history
  and the control surface. The clock readings of \<^verbatim>\<open>time.Now\<close> are arguments; the loggers are left out. A Go map of
  cars is a map, and where a loop ranges over one, the order it is visited in is an argument.
\<close>

subsection \<open>Scenarios and constants\<close>

abbreviation ScenarioIdle :: string where "ScenarioIdle \<equiv> ''idle''"
abbreviation ScenarioAsleep :: string where "ScenarioAsleep \<equiv> ''asleep''"
abbreviation ScenarioDriving :: string where "ScenarioDriving \<equiv> ''driving''"
abbreviation ScenarioCharging :: string where "ScenarioCharging \<equiv> ''charging''"
abbreviation ScenarioChargingAC :: string where "ScenarioChargingAC \<equiv> ''charging_ac''"
abbreviation ScenarioUpdate :: string where "ScenarioUpdate \<equiv> ''update''"

definition validScenario :: "string \<Rightarrow> bool" where
  "validScenario name \<longleftrightarrow> name \<in> {ScenarioIdle, ScenarioAsleep, ScenarioDriving, ScenarioCharging,
     ScenarioChargingAC, ScenarioUpdate}"

definition targetVersion :: string where "targetVersion = ''2026.10.1''"
definition updateCompleteTicks :: int where "updateCompleteTicks = 20"
definition effKwhPerKm :: f64 where "effKwhPerKm = fconst (18 / 100)"
definition packKwh :: f64 where "packKwh = fconst 128"
definition chargeLimitPct :: f64 where "chargeLimitPct = fconst 90"
definition fullRangeKm :: f64 where "fullRangeKm = fconst (128 / (18 / 100))"
definition dcChargeKw :: f64 where "dcChargeKw = fconst 175"
definition acChargeKw :: f64 where "acChargeKw = fconst 11"
definition driveBaseMps :: f64 where "driveBaseMps = fconst 28"
definition driveAmpMps :: f64 where "driveAmpMps = fconst 10"
definition drivePeriodSec :: f64 where "drivePeriodSec = fconst 90"
definition driveTurnDeg :: f64 where "driveTurnDeg = fconst 3"
definition heavyFootFactor :: f64 where "heavyFootFactor = fconst (13 / 10)"
definition metersPerDegLat :: f64 where "metersPerDegLat = fconst 111320"

text \<open>\<^verbatim>\<open>math.Mod\<close>, which is exact, and \<^verbatim>\<open>math.Pi\<close>.\<close>

fun math_mod :: "f64 \<Rightarrow> f64 \<Rightarrow> f64" where
  "math_mod (Fin x) (Fin y) = (if y = 0 then NaN else Fin (x - of_int (trunc (x / y)) * y))"
| "math_mod (Fin x) NaN = NaN"
| "math_mod (Fin x) _ = Fin x"
| "math_mod _ _ = NaN"

definition math_pi :: f64 where "math_pi = fconst pi"

subsection \<open>State\<close>

record scenarioOpts =
  so_TargetSOC :: f64
  so_PowerKw :: f64

definition zeroOpts :: scenarioOpts where
  "zeroOpts = \<lparr>so_TargetSOC = Fin 0, so_PowerKw = Fin 0\<rparr>"

record vehicleSpec =
  vp_GUID :: string
  vp_VIN :: string
  vp_Name :: string
  vp_Model :: string
  vp_Make :: string

record vehicleSim =
  sv_spec :: vehicleSpec
  sv_scenario :: string
  sv_lastSim :: gotime
  sv_mileageM :: f64
  sv_battery :: f64
  sv_lat :: f64
  sv_lon :: f64
  sv_curVer :: string
  sv_speedMps :: f64
  sv_headingDeg :: f64
  sv_driveSec :: f64
  sv_chargeTarget :: f64
  sv_driveFloor :: f64
  sv_live :: "liveSession option"
  sv_livePowerKw :: f64
  sv_liveCurrentA :: f64
  sv_updTicks :: int

record engine =
  en_timeScale :: f64
  en_realStart :: gotime
  en_simStart :: gotime
  en_order :: "string list"
  en_vehicles :: "string \<rightharpoonup> vehicleSim"

definition chargeLimit :: "vehicleSim \<Rightarrow> f64" where
  "chargeLimit v = (if flt (Fin 0) (sv_chargeTarget v) then sv_chargeTarget v else chargeLimitPct)"

subsection \<open>Construction and clock\<close>

definition newSim :: "nat \<Rightarrow> vehicleSpec \<Rightarrow> gotime \<Rightarrow> vehicleSim" where
  "newSim i sp simStart = \<lparr>sv_spec = (if vp_Make sp = [] then sp\<lparr>vp_Make := ''Rivian''\<rparr> else sp),
     sv_scenario = ScenarioIdle, sv_lastSim = simStart,
     sv_mileageM = fadd (fconst 20000000) (fmul (i2f (int i)) (fconst 1000000)),
     sv_battery = fsub (fconst 72) (fmul (i2f (int i)) (fconst 5)),
     sv_lat = fadd (fconst (377749 / 10000)) (fmul (i2f (int i)) (fconst (1 / 100))),
     sv_lon = fsub (fconst (- 1224194 / 10000)) (fmul (i2f (int i)) (fconst (1 / 100))),
     sv_curVer = ''2026.6.1'', sv_speedMps = Fin 0, sv_headingDeg = Fin 0, sv_driveSec = Fin 0,
     sv_chargeTarget = Fin 0, sv_driveFloor = Fin 0, sv_live = None, sv_livePowerKw = Fin 0,
     sv_liveCurrentA = Fin 0, sv_updTicks = 0\<rparr>"

fun seedVehicles :: "nat \<Rightarrow> vehicleSpec list \<Rightarrow> engine \<Rightarrow> engine" where
  "seedVehicles i [] e = e"
| "seedVehicles i (sp # sps) e = seedVehicles (i + 1) sps
     (e\<lparr>en_vehicles := (en_vehicles e)(vp_GUID sp \<mapsto> newSim i sp (en_simStart e)),
        en_order := en_order e @ [vp_GUID sp]\<rparr>)"

definition newEngine :: "vehicleSpec list \<Rightarrow> f64 \<Rightarrow> duration \<Rightarrow> gotime \<Rightarrow> engine" where
  "newEngine specs timeScale backfill now =
     seedVehicles 0 specs \<lparr>en_timeScale = (if fle timeScale (Fin 0) then fconst 1 else timeScale), en_realStart = now,
       en_simStart = now - (if backfill < 0 then 0 else backfill), en_order = [], en_vehicles = Map.empty\<rparr>"

text \<open>\<^verbatim>\<open>simNow\<close> reads the wall clock twice, for the time since the start and for the ceiling.\<close>

definition simNow :: "engine \<Rightarrow> gotime \<Rightarrow> gotime \<Rightarrow> gotime" where
  "simNow e wall now =
     (let sim = en_simStart e + f2i (fmul (i2f (time_sub wall (en_realStart e))) (en_timeScale e))
      in if now < sim then now else sim)"

subsection \<open>Changing the scenario\<close>

definition startLive :: "f64 \<Rightarrow> f64 \<Rightarrow> vehicleSim \<Rightarrow> vehicleSim" where
  "startLive kw current v = v\<lparr>sv_livePowerKw := kw, sv_liveCurrentA := current,
     sv_live := Some (zeroLive\<lparr>ls_PowerKw := kw, ls_CurrentA := current, ls_TimeRemainingSec := 2700\<rparr>)\<rparr>"

definition applyScenario :: "string \<Rightarrow> scenarioOpts \<Rightarrow> vehicleSim \<Rightarrow> vehicleSim" where
  "applyScenario name opts v0 =
     (let v = v0\<lparr>sv_scenario := name, sv_updTicks := 0, sv_live := None, sv_chargeTarget := Fin 0, sv_driveFloor := Fin 0\<rparr>;
          kw = (\<lambda>dflt. if fle (so_PowerKw opts) (Fin 0) then dflt else so_PowerKw opts)
      in if name = ScenarioDriving then
           v\<lparr>sv_driveFloor := so_TargetSOC opts, sv_driveSec := Fin 0, sv_headingDeg := fconst 45, sv_speedMps := driveBaseMps\<rparr>
         else if name = ScenarioCharging then
           startLive (kw dcChargeKw) (fconst 220) (v\<lparr>sv_chargeTarget := so_TargetSOC opts\<rparr>)
         else if name = ScenarioChargingAC then
           startLive (kw acChargeKw) (fconst 48) (v\<lparr>sv_chargeTarget := so_TargetSOC opts\<rparr>)
         else v)"

definition setScenarioOpts :: "string \<Rightarrow> string \<Rightarrow> scenarioOpts \<Rightarrow> engine \<Rightarrow> bool \<times> engine" where
  "setScenarioOpts name guid opts e =
     (if \<not> validScenario name then (False, e)
      else if guid = [] then
        (True, e\<lparr>en_vehicles := (\<lambda>g. map_option (applyScenario name opts) (en_vehicles e g))\<rparr>)
      else case en_vehicles e guid of
        None \<Rightarrow> (False, e)
      | Some v \<Rightarrow> (True, e\<lparr>en_vehicles := (en_vehicles e)(guid \<mapsto> applyScenario name opts v)\<rparr>))"

definition setScenario :: "string \<Rightarrow> string \<Rightarrow> engine \<Rightarrow> bool \<times> engine" where
  "setScenario name guid e = setScenarioOpts name guid zeroOpts e"

definition scenarioOf :: "string \<Rightarrow> engine \<Rightarrow> string" where
  "scenarioOf guid e = (case en_vehicles e guid of Some v \<Rightarrow> sv_scenario v | None \<Rightarrow> [])"

definition scenarios :: "engine \<Rightarrow> (string \<rightharpoonup> string)" where
  "scenarios e = (\<lambda>g. map_option sv_scenario (en_vehicles e g))"

subsection \<open>Time passing\<close>

definition driveLocked :: "f64 \<Rightarrow> vehicleSim \<Rightarrow> vehicleSim" where
  "driveLocked dt v =
     (let driveSec = fadd (sv_driveSec v) dt;
          speed0 = fadd driveBaseMps (fmul driveAmpMps (math_sin (fdiv driveSec drivePeriodSec)));
          speed = (if flt speed0 (fconst 5) then fconst 5 else speed0);
          heading = math_mod (fadd (sv_headingDeg v)
            (fmul (fmul driveTurnDeg (math_sin (fdiv driveSec (fconst 180)))) dt)) (fconst 360);
          distM = fmul speed dt;
          rad = fdiv (fmul heading math_pi) (fconst 180);
          lat = fadd (sv_lat v) (fdiv (fmul distM (math_cos rad)) metersPerDegLat);
          lon = fadd (sv_lon v) (fdiv (fmul distM (math_sin rad))
            (fmul metersPerDegLat (math_cos (fdiv (fmul lat math_pi) (fconst 180)))));
          kwh = fmul (fmul (fdiv distM (fconst 1000)) effKwhPerKm) heavyFootFactor;
          drained = fsub (sv_battery v) (fmul (fdiv kwh packKwh) (fconst 100));
          battery = (if flt (Fin 0) (sv_battery v) then if flt drained (Fin 0) then Fin 0 else drained else sv_battery v)
      in v\<lparr>sv_driveSec := driveSec, sv_speedMps := speed, sv_headingDeg := heading,
           sv_mileageM := fadd (sv_mileageM v) distM, sv_lat := lat, sv_lon := lon, sv_battery := battery\<rparr>)"

definition driveStep :: "f64 \<Rightarrow> vehicleSim \<Rightarrow> vehicleSim" where
  "driveStep dt v0 =
     (let v = driveLocked dt v0
      in if flt (Fin 0) (sv_driveFloor v) \<and> fle (sv_battery v) (sv_driveFloor v)
         then v\<lparr>sv_battery := sv_driveFloor v, sv_scenario := ScenarioIdle\<rparr> else v)"

definition countDown :: "f64 \<Rightarrow> liveSession \<Rightarrow> liveSession" where
  "countDown dt l =
     (if 0 < ls_TimeRemainingSec l then
        (let r = wrap64 (ls_TimeRemainingSec l - f2i dt) in l\<lparr>ls_TimeRemainingSec := if r < 0 then 0 else r\<rparr>)
      else l)"

definition chargeStep :: "f64 \<Rightarrow> vehicleSim \<Rightarrow> vehicleSim" where
  "chargeStep dt v = (case sv_live v of
     None \<Rightarrow> v
   | Some l \<Rightarrow>
       if flt (sv_battery v) (chargeLimit v) then
         (let limit = chargeLimit v;
              added = fmul (fdiv (sv_livePowerKw v) (fconst 3600)) dt;
              l1 = l\<lparr>ls_TotalChargedEnergy := fadd (ls_TotalChargedEnergy l) added\<rparr>;
              battery = fadd (sv_battery v) (fmul (fdiv added packKwh) (fconst 100));
              v1 = v\<lparr>sv_live := Some l1, sv_battery := battery\<rparr>
          in if fle limit battery then
               (if flt (Fin 0) (sv_chargeTarget v) then v1\<lparr>sv_battery := limit, sv_scenario := ScenarioIdle, sv_live := None\<rparr>
                else v1\<lparr>sv_battery := limit, sv_live := Some (countDown dt l1)\<rparr>)
             else v1\<lparr>sv_live := Some (countDown dt l1)\<rparr>)
       else v)"

definition updateStep :: "vehicleSim \<Rightarrow> vehicleSim" where
  "updateStep v =
     (let t = wrap64 (sv_updTicks v + 1)
      in if t = updateCompleteTicks then v\<lparr>sv_updTicks := t, sv_curVer := targetVersion\<rparr> else v\<lparr>sv_updTicks := t\<rparr>)"

definition advanceLocked :: "gotime \<Rightarrow> vehicleSim \<Rightarrow> vehicleSim" where
  "advanceLocked now v0 =
     (let dt0 = duration_seconds (time_sub now (sv_lastSim v0));
          v = v0\<lparr>sv_lastSim := now\<rparr>;
          dt = (if flt dt0 (Fin 0) then Fin 0 else dt0)
      in if sv_scenario v = ScenarioDriving then driveStep dt v
         else if sv_scenario v = ScenarioCharging \<or> sv_scenario v = ScenarioChargingAC then chargeStep dt v
         else if sv_scenario v = ScenarioUpdate then updateStep v
         else v)"

definition engine_Advance :: "gotime \<Rightarrow> engine \<Rightarrow> engine" where
  "engine_Advance now e = e\<lparr>en_vehicles := (\<lambda>g. map_option (advanceLocked now) (en_vehicles e g))\<rparr>"

text \<open>One tick of \<^verbatim>\<open>Run\<close>.\<close>

definition engine_tick :: "gotime \<Rightarrow> gotime \<Rightarrow> engine \<Rightarrow> engine" where
  "engine_tick wall now e = engine_Advance (simNow e wall now) e"

subsection \<open>Snapshots\<close>

definition baseState :: "vehicleSim \<Rightarrow> gotime \<Rightarrow> state" where
  "baseState v now = zeroState\<lparr>
     st_Power := PowerOnline, st_CloudOnline := True, st_LastUpdate := now, st_CloudLastSync := now,
     st_BatteryLevelPct := sv_battery v, st_BatteryLimitPct := chargeLimit v,
     st_OdometerMeters := f2i (sv_mileageM v),
     st_RangeKm := f2i (fmul (fdiv (sv_battery v) (fconst 100)) fullRangeKm),
     st_Location := Some \<lparr>loc_Latitude = sv_lat v, loc_Longitude = sv_lon v, loc_TimeStamp = now\<rparr>,
     st_Gear := GearPark, st_Charger := ChargerDisconnect, st_Plug := PlugDisconnected,
     st_CabinTempC := fconst 21, st_DriverSetpointC := fconst 21, st_OtaVersion := sv_curVer v,
     st_DefrostStatus := ''Off'', st_PreconditioningStatus := ''off'',
     st_SeatHeatFrontLeft := ''Off'', st_SeatHeatFrontRight := ''Off'', st_GearGuardStatus := ''enabled'',
     st_TpmsFrontLeft := ''OK'', st_TpmsFrontRight := ''OK'', st_TpmsRearLeft := ''OK'', st_TpmsRearRight := ''OK'',
     st_DoorFrontLeftLocked := ''locked'', st_DoorFrontRightLocked := ''locked'',
     st_DoorRearLeftLocked := ''locked'', st_DoorRearRightLocked := ''locked'',
     st_DoorFrontLeftClosed := ''closed'', st_DoorFrontRightClosed := ''closed'',
     st_DoorRearLeftClosed := ''closed'', st_DoorRearRightClosed := ''closed'',
     st_WindowFrontLeftClosed := ''closed'', st_WindowFrontRightClosed := ''closed'',
     st_WindowRearLeftClosed := ''closed'', st_WindowRearRightClosed := ''closed'',
     st_FrunkClosed := ''closed'', st_LiftgateClosed := ''closed'', st_TonneauClosed := ''closed'',
     st_TailgateClosed := ''closed''\<rparr>"

definition buildSnapshot :: "vehicleSim \<Rightarrow> gotime \<Rightarrow> snapshot" where
  "buildSnapshot v now =
     (let st = baseState v now;
          snap = (\<lambda>s live. zeroSnapshot\<lparr>sn_State := Some s, sn_Live := live, sn_FetchedAt := now\<rparr>)
      in if sv_scenario v = ScenarioAsleep then snap (st\<lparr>st_Power := PowerSleep\<rparr>) None
         else if sv_scenario v = ScenarioDriving then
           snap (st\<lparr>st_Gear := GearDrive, st_UserPresent := True, st_SpeedMps := sv_speedMps v,
             st_HeadingDeg := sv_headingDeg v\<rparr>) None
         else if sv_scenario v = ScenarioCharging \<or> sv_scenario v = ScenarioChargingAC then
           (let plugged = st\<lparr>st_Plug := PlugConnected, st_ChargePortOpen := True\<rparr>
            in if fle (chargeLimit v) (sv_battery v) then snap (plugged\<lparr>st_Charger := ChargerIdle\<rparr>) None
               else case sv_live v of
                 None \<Rightarrow> snap (plugged\<lparr>st_Charger := ChargerCharging\<rparr>) None
               | Some l \<Rightarrow> snap (plugged\<lparr>st_Charger := ChargerCharging,
                   st_TimeToEndOfChargeMin := go_quot (ls_TimeRemainingSec l) 60\<rparr>) (Some l))
         else if sv_scenario v = ScenarioUpdate then
           (let ota = st\<lparr>st_OtaAvailableVersion := targetVersion\<rparr>
            in if sv_updTicks v < updateCompleteTicks then
                 snap (ota\<lparr>st_OtaStatus := ''installing'',
                   st_OtaInstallProgress := fmul (fdiv (i2f (sv_updTicks v)) (i2f updateCompleteTicks)) (fconst 100)\<rparr>) None
               else snap (ota\<lparr>st_OtaStatus := ''install_success'', st_OtaInstallProgress := fconst 100\<rparr>) None)
         else snap st None)"

definition snapshotAt :: "string \<Rightarrow> gotime \<Rightarrow> engine \<Rightarrow> snapshot" where
  "snapshotAt guid now e = (case en_vehicles e guid of None \<Rightarrow> zeroSnapshot | Some v \<Rightarrow> buildSnapshot v now)"

definition engine_Vehicles :: "engine \<Rightarrow> identity list" where
  "engine_Vehicles e = map (\<lambda>g. let sp = sv_spec (the (en_vehicles e g))
     in \<lparr>id_ID = vp_GUID sp, id_VIN = vp_VIN sp, id_DisplayName = vp_Name sp, id_Make = vp_Make sp, id_Model = vp_Model sp\<rparr>)
     (en_order e)"

definition engine_Latest :: "gotime \<Rightarrow> gotime \<Rightarrow> string \<Rightarrow> engine \<Rightarrow> snapshot" where
  "engine_Latest wall now guid e = snapshotAt guid (simNow e wall now) e"

definition engine_Stats :: "gotime \<Rightarrow> gotime \<Rightarrow> engine \<Rightarrow> pollStats" where
  "engine_Stats wall now e = (let t = simNow e wall now in
     zeroStats\<lparr>ps_FetchedAt := t, ps_LastSuccessAt := t, ps_StartedAt := en_realStart e, ps_SuccessCount := 1\<rparr>)"

text \<open>The engine as the provider of a sink.\<close>

definition engine_Provider :: "gotime \<Rightarrow> gotime \<Rightarrow> engine \<Rightarrow> provider" where
  "engine_Provider wall now e = \<lparr>pv_Vehicles = engine_Vehicles e, pv_Latest = (\<lambda>g. engine_Latest wall now g e),
     pv_Stats = (\<lambda>_. engine_Stats wall now e)\<rparr>"

subsection \<open>The autopilot\<close>

record cycleConfig =
  cy_SocMin :: f64
  cy_SocMax :: f64
  cy_DcKw :: f64
  cy_AcKw :: f64
  cy_Idle :: duration
  cy_Sleep :: duration
  cy_Update :: duration
  cy_SleepEvery :: int
  cy_UpdateEvery :: int

definition defaultCycle :: "f64 \<Rightarrow> f64 \<Rightarrow> f64 \<Rightarrow> f64 \<Rightarrow> cycleConfig" where
  "defaultCycle socMin socMax dcKw acKw = \<lparr>cy_SocMin = socMin, cy_SocMax = socMax, cy_DcKw = dcKw, cy_AcKw = acKw,
     cy_Idle = 5 * Minute, cy_Sleep = 45 * Minute, cy_Update = 15 * Minute, cy_SleepEvery = 3, cy_UpdateEvery = 4\<rparr>"

datatype carPhase = PhaseInit | PhaseDrive | PhaseRestAfterDrive | PhaseCharge | PhaseRestAfterCharge | PhaseSleep | PhaseUpdate

record carCycle =
  ca_phase :: carPhase
  ca_since :: gotime
  ca_cycles :: int
  ca_useAC :: bool

definition newCarCycle :: carCycle where
  "newCarCycle = \<lparr>ca_phase = PhaseInit, ca_since = 0, ca_cycles = 0, ca_useAC = False\<rparr>"

definition newAutopilot :: "engine \<Rightarrow> (string \<rightharpoonup> carCycle)" where
  "newAutopilot e = (\<lambda>g. if g \<in> set (en_order e) then Some newCarCycle else None)"

definition enter :: "carPhase \<Rightarrow> gotime \<Rightarrow> carCycle \<Rightarrow> carCycle" where
  "enter p now c = c\<lparr>ca_phase := p, ca_since := now\<rparr>"

definition startDrive :: "cycleConfig \<Rightarrow> string \<Rightarrow> gotime \<Rightarrow> engine \<times> carCycle \<Rightarrow> engine \<times> carCycle" where
  "startDrive cfg guid now ec = (case ec of (e, c) \<Rightarrow>
     (snd (setScenarioOpts ScenarioDriving guid (zeroOpts\<lparr>so_TargetSOC := cy_SocMin cfg\<rparr>) e), enter PhaseDrive now c))"

definition startCharge :: "cycleConfig \<Rightarrow> string \<Rightarrow> gotime \<Rightarrow> engine \<times> carCycle \<Rightarrow> engine \<times> carCycle" where
  "startCharge cfg guid now ec = (case ec of (e, c) \<Rightarrow>
     (let (scen, kw) = (if ca_useAC c then (ScenarioChargingAC, cy_AcKw cfg) else (ScenarioCharging, cy_DcKw cfg))
      in (snd (setScenarioOpts scen guid \<lparr>so_TargetSOC = cy_SocMax cfg, so_PowerKw = kw\<rparr> e),
          enter PhaseCharge now (c\<lparr>ca_useAC := \<not> ca_useAC c\<rparr>))))"

definition everyNth :: "int \<Rightarrow> int \<Rightarrow> bool" where
  "everyNth k n \<longleftrightarrow> 0 < k \<and> go_rem n k = 0"

definition nextCycle :: "cycleConfig \<Rightarrow> string \<Rightarrow> gotime \<Rightarrow> engine \<times> carCycle \<Rightarrow> engine \<times> carCycle" where
  "nextCycle cfg guid now ec = (case ec of (e, c0) \<Rightarrow>
     (let c = c0\<lparr>ca_cycles := wrap64 (ca_cycles c0 + 1)\<rparr>
      in if everyNth (cy_UpdateEvery cfg) (ca_cycles c) then (snd (setScenario ScenarioUpdate guid e), enter PhaseUpdate now c)
         else if everyNth (cy_SleepEvery cfg) (ca_cycles c) then (snd (setScenario ScenarioAsleep guid e), enter PhaseSleep now c)
         else startDrive cfg guid now (e, c)))"

definition auto_step :: "cycleConfig \<Rightarrow> string \<Rightarrow> gotime \<Rightarrow> engine \<times> carCycle \<Rightarrow> engine \<times> carCycle" where
  "auto_step cfg guid now ec = (case ec of (e, c) \<Rightarrow>
     (let idle = (scenarioOf guid e = ScenarioIdle); rested = time_sub now (ca_since c)
      in case ca_phase c of
        PhaseInit \<Rightarrow> startDrive cfg guid now (e, c)
      | PhaseDrive \<Rightarrow> if idle then (e, enter PhaseRestAfterDrive now c) else (e, c)
      | PhaseRestAfterDrive \<Rightarrow> if cy_Idle cfg \<le> rested then startCharge cfg guid now (e, c) else (e, c)
      | PhaseCharge \<Rightarrow> if idle then (e, enter PhaseRestAfterCharge now c) else (e, c)
      | PhaseRestAfterCharge \<Rightarrow> if cy_Idle cfg \<le> rested then nextCycle cfg guid now (e, c) else (e, c)
      | PhaseSleep \<Rightarrow> if cy_Sleep cfg \<le> rested then startDrive cfg guid now (e, c) else (e, c)
      | PhaseUpdate \<Rightarrow> if cy_Update cfg \<le> rested then startDrive cfg guid now (e, c) else (e, c)))"

text \<open>\<^verbatim>\<open>Tick\<close>, with the order the cars are visited in.\<close>

fun auto_Tick :: "cycleConfig \<Rightarrow> gotime \<Rightarrow> string list \<Rightarrow> engine \<times> (string \<rightharpoonup> carCycle) \<Rightarrow> engine \<times> (string \<rightharpoonup> carCycle)" where
  "auto_Tick cfg now [] ec = ec"
| "auto_Tick cfg now (g # gs) (e, cars) = (case cars g of
     None \<Rightarrow> auto_Tick cfg now gs (e, cars)
   | Some c \<Rightarrow> (let (e1, c1) = auto_step cfg g now (e, c) in auto_Tick cfg now gs (e1, cars(g \<mapsto> c1))))"

subsection \<open>Generating a history\<close>

definition simStep :: duration where "simStep = 30 * Second"

definition sampleCadence :: "string \<Rightarrow> duration" where
  "sampleCadence scenario =
     (if scenario = ScenarioDriving then simStep
      else if scenario = ScenarioCharging \<or> scenario = ScenarioChargingAC then Minute
      else 10 * Minute)"

definition prepareForHistory :: "gotime \<Rightarrow> f64 \<Rightarrow> engine \<Rightarrow> engine" where
  "prepareForHistory start soc e = e\<lparr>en_vehicles := (\<lambda>g. map_option (\<lambda>v.
     v\<lparr>sv_scenario := ScenarioIdle, sv_lastSim := start, sv_battery := soc, sv_live := None\<rparr>) (en_vehicles e g))\<rparr>"

record emitted =
  em_last :: "string \<Rightarrow> gotime"
  em_scen :: "string \<Rightarrow> string"

definition nothingEmitted :: emitted where
  "nothingEmitted = \<lparr>em_last = (\<lambda>_. 0), em_scen = (\<lambda>_. [])\<rparr>"

definition sampleDue :: "gotime \<Rightarrow> engine \<Rightarrow> string \<Rightarrow> emitted \<Rightarrow> bool" where
  "sampleDue t e g m \<longleftrightarrow> scenarioOf g e \<noteq> em_scen m g \<or> sampleCadence (scenarioOf g e) \<le> time_sub t (em_last m g)"

fun emitRound :: "gotime \<Rightarrow> engine \<Rightarrow> string list \<Rightarrow> emitted \<Rightarrow> (string \<times> snapshot) list \<times> emitted" where
  "emitRound t e [] m = ([], m)"
| "emitRound t e (g # gs) m =
     (if sampleDue t e g m then
        (let (out, m1) = emitRound t e gs \<lparr>em_last = (em_last m)(g := t), em_scen = (em_scen m)(g := scenarioOf g e)\<rparr>
         in ((g, snapshotAt g t e) # out, m1))
      else emitRound t e gs m)"

function genLoop ::
  "cycleConfig \<Rightarrow> (gotime \<Rightarrow> string list) \<Rightarrow> string list \<Rightarrow> gotime \<Rightarrow> gotime \<Rightarrow>
     engine \<times> (string \<rightharpoonup> carCycle) \<Rightarrow> emitted \<Rightarrow> (string \<times> snapshot) list \<times> engine" where
  "genLoop cfg visit guids now t ec m =
     (if now < t then ([], fst ec)
      else
        let ec1 = auto_Tick cfg t (visit t) (engine_Advance t (fst ec), snd ec);
            (out, m1) = emitRound t (fst ec1) guids m;
            (rest, e1) = genLoop cfg visit guids now (t + simStep) ec1 m1
        in (out @ rest, e1))"
  by pat_completeness auto
termination
  by (relation "measure (\<lambda>(cfg, visit, guids, now, t, ec, m). nat (now + 1 - t))") (auto simp: simStep_def)

declare genLoop.simps [simp del]

definition generateHistory ::
  "duration \<Rightarrow> cycleConfig \<Rightarrow> (gotime \<Rightarrow> string list) \<Rightarrow> gotime \<Rightarrow> engine \<Rightarrow> (string \<times> snapshot) list \<times> engine" where
  "generateHistory since cfg visit now e0 =
     (let start = now - since; e = prepareForHistory start (cy_SocMax cfg) e0
      in genLoop cfg visit (en_order e) now start (e, newAutopilot e) nothingEmitted)"

subsection \<open>The control surface\<close>

datatype controlReply =
  ScenariosReply "string \<rightharpoonup> string" | ScenarioReply string string f64 f64 | ControlError int string

record controlRequest =
  cr_method :: string
  cr_path :: string
  cr_query :: "string \<Rightarrow> string"

definition queryFloat :: "(string \<Rightarrow> f64 option) \<Rightarrow> string \<Rightarrow> f64" where
  "queryFloat exotic s = (if s = [] then Fin 0 else case parseFloat exotic s of Some x \<Rightarrow> x | None \<Rightarrow> Fin 0)"

definition control ::
  "(string \<Rightarrow> f64 option) \<Rightarrow> (controlRequest \<Rightarrow> engine \<Rightarrow> 'r \<times> engine) \<Rightarrow> controlRequest \<Rightarrow> engine \<Rightarrow>
     (controlReply + 'r) \<times> engine" where
  "control exotic inner req e =
     (if cr_path req = ''/mock/scenario'' then (Inl (ScenariosReply (scenarios e)), e)
      else if take 15 (cr_path req) = ''/mock/scenario/'' then
        (if cr_method req \<noteq> ''POST'' then (Inl (ControlError 405 ''POST required''), e)
         else
           let name = trim_prefix ''/mock/scenario/'' (cr_path req); guid = cr_query req ''vehicle'';
               opts = \<lparr>so_TargetSOC = queryFloat exotic (cr_query req ''to''), so_PowerKw = queryFloat exotic (cr_query req ''kw'')\<rparr>;
               (ok, e1) = setScenarioOpts name guid opts e
           in (Inl (if ok then ScenarioReply name guid (so_TargetSOC opts) (so_PowerKw opts)
                 else ControlError 400 ''unknown scenario or vehicle''), e1))
      else (let (r, e1) = inner req e in (Inr r, e1)))"

end
