(* ===== verification/MockLaws.thy ===== *)
theory MockLaws
  imports Mock
begin

section \<open>One car, one step\<close>

text \<open>
  One simulated car: the rounding of its readings, the car that is in order, and what a step of driving or charging
  does to charge and odometer.
\<close>

subsection \<open>Doubles\<close>

text \<open>A double: the reals that rounding leaves alone.\<close>

definition rep :: "real \<Rightarrow> bool" where
  "rep x \<longleftrightarrow> rnd x = x"

lemma rep_dyadic:
  assumes "\<bar>n\<bar> < 2 ^ 53" and "- 1074 \<le> e"
  shows "rep (of_int n * 2 powi e)"
proof (cases "n = 0")
  case True
  then show ?thesis by (simp add: rep_def)
next
  case False
  let ?x = "real_of_int n * 2 powi e"
  have "\<bar>real_of_int n\<bar> < 2 ^ 53" using assms(1) by (metis of_int_abs of_int_less_iff of_int_numeral of_int_power)
  then have "\<bar>?x\<bar> < 2 ^ 53 * 2 powi e" by (simp add: abs_mult)
  also have "\<dots> = 2 powi (53 + e)" by (simp add: power_int_add)
  finally have "ilog2 \<bar>?x\<bar> < 53 + e" using False by (intro ilog2_less) auto
  then have u: "ulp_exp ?x \<le> e" using assms(2) by (simp add: ulp_exp_def)
  from powi_multiple [OF this] have "?x = of_int (n * 2 ^ nat (e - ulp_exp ?x)) * 2 powi ulp_exp ?x"
    by (metis mult.assoc of_int_mult)
  then show ?thesis unfolding rep_def by (rule rnd_integral)
qed

lemma rep_rnd: "rep (rnd x)"
proof -
  let ?u = "ulp_exp x" let ?n = "rne (x / 2 powi ?u)"
  have "\<bar>x\<bar> \<le> 2 powi (?u + 53)"
  proof (cases "x = 0")
    case False
    then have "\<bar>x\<bar> < 2 powi (ilog2 \<bar>x\<bar> + 1)" by (intro ilog2_bounds) simp
    also have "\<dots> \<le> 2 powi (?u + 53)" by (intro powi_le) (simp add: ulp_exp_def)
    finally show ?thesis by simp
  qed simp
  then have "\<bar>x / 2 powi ?u\<bar> \<le> of_int (2 ^ 53)" by (simp add: power_int_add field_simps)
  then have "x / 2 powi ?u \<le> of_int (2 ^ 53)" "- (x / 2 powi ?u) \<le> of_int (2 ^ 53)" unfolding abs_le_iff by blast+
  then have "x / 2 powi ?u \<le> of_int (2 ^ 53)" "of_int (- (2 ^ 53)) \<le> x / 2 powi ?u"
    by (simp_all only: of_int_minus minus_le_iff)
  then have "?n \<le> 2 ^ 53" "- (2 ^ 53) \<le> ?n" by (metis rne_mono rne_of_int)+
  then consider "\<bar>?n\<bar> < 2 ^ 53" | "?n = 2 * 2 ^ 52" | "?n = 2 * - (2 ^ 52)" by fastforce
  then show ?thesis
  proof cases
    case 1
    then show ?thesis unfolding rnd_def by (rule rep_dyadic) (simp add: ulp_exp_def)
  next
    case 2
    have "rep (of_int (2 ^ 52) * 2 powi (?u + 1))" by (rule rep_dyadic) (simp_all add: ulp_exp_def)
    then show ?thesis unfolding rnd_def 2 by (simp add: power_int_add)
  next
    case 3
    have "rep (of_int (- (2 ^ 52)) * 2 powi (?u + 1))" by (rule rep_dyadic) (simp_all add: ulp_exp_def)
    then show ?thesis unfolding rnd_def 3 by (simp add: power_int_add)
  qed
qed

lemma rep_int: "\<bar>n\<bar> \<le> 2 ^ 53 \<Longrightarrow> rep (of_int n)"
  by (simp add: rep_def rnd_int_exact)

lemma rep_nums [simp]: "rep 0" "rep 1" "(numeral k :: int) \<le> 2 ^ 53 \<Longrightarrow> rep (numeral k)"
  using rep_int [of 0] rep_int [of 1] rep_int [of "numeral k"] by simp_all

lemma rep_minus: "rep x \<Longrightarrow> rep (- x)"
  by (simp add: rep_def rnd_uminus)

lemma rep_power [simp]: "rep (2 ^ j)"
  using rep_dyadic [of 1 "int j"] by simp

lemma rep_inverse_power [simp]: "j \<le> 1000 \<Longrightarrow> rep (1 / 2 ^ j)"
  using rep_dyadic [of 1 "- int j"] by (simp add: power_int_minus divide_inverse)

lemma round64_num: "(numeral k :: int) \<le> 2 ^ 53 \<Longrightarrow> round64 (numeral k) = Fin (numeral k)"
  using round64_of_int [of "numeral k"] by simp

lemma rep_fraction: "\<bar>n\<bar> < 2 ^ 53 \<Longrightarrow> j \<le> 1000 \<Longrightarrow> rep (of_int n / 2 ^ j)"
  using rep_dyadic [of n "- int j"] by (simp add: power_int_minus divide_inverse)

lemma rnd_le: "x \<le> y \<Longrightarrow> rep y \<Longrightarrow> rnd x \<le> y" and rnd_ge: "y \<le> x \<Longrightarrow> rep y \<Longrightarrow> y \<le> rnd x"
  using rnd_mono [of x y] rnd_mono [of y x] by (simp_all add: rep_def)

lemma round64_in:
  assumes "a \<le> x" "x \<le> b" "rep a" "rep b" "\<bar>a\<bar> \<le> 2 ^ 1000" "\<bar>b\<bar> \<le> 2 ^ 1000"
  shows "round64 x = Fin (rnd x) \<and> a \<le> rnd x \<and> rnd x \<le> b"
proof -
  have r: "a \<le> rnd x" "rnd x \<le> b" using assms rnd_le rnd_ge by blast+
  then have "\<bar>rnd x\<bar> \<le> 2 ^ 1000" using assms(5,6) by linarith
  also have "(2 :: real) ^ 1000 < 2 ^ 1024" by simp
  finally show ?thesis using r by (simp add: round64_rnd)
qed

lemma rne_above: "0 \<le> z \<Longrightarrow> z < 1 / 2 \<Longrightarrow> rne (of_int n + z) = n"
proof -
  assume z: "0 \<le> z" "z < 1 / 2"
  then have "\<lfloor>of_int n + z\<rfloor> = n" by linarith
  then show "rne (of_int n + z) = n" using z by (simp add: rne_def Let_def)
qed

lemma rnd_stuck:
  assumes "0 \<le> x" "x \<le> 2 ^ 46" shows "rnd (2 ^ 100 + x) = 2 ^ 100"
proof -
  let ?y = "2 ^ 100 + x"
  have "100 \<le> ilog2 ?y" using assms by (intro ilog2_ge) (simp add: powi_nat)
  moreover have "ilog2 ?y < 101" using assms by (intro ilog2_less) (simp_all add: powi_nat)
  ultimately have u: "ulp_exp ?y = 48" using assms by (simp add: ulp_exp_def)
  have y: "?y / 2 ^ 48 = of_int (2 ^ 52) + x / 2 ^ 48" by (simp add: add_divide_distrib)
  have "0 \<le> x / 2 ^ 48" "x / 2 ^ 48 < 1 / 2" using assms by (simp_all add: field_simps)
  then have "rne (?y / 2 ^ 48) = 2 ^ 52" unfolding y by (rule rne_above)
  then show ?thesis unfolding rnd_def u by (simp add: powi_nat)
qed

text \<open>A counter that only grows stays below \<open>2 ^ 100\<close>: there a small step is rounded away.\<close>

lemma grows:
  assumes "0 \<le> m" "m \<le> 2 ^ 100" "rep m" "0 \<le> x" "x \<le> 2 ^ 46"
  shows "fadd (Fin m) (Fin x) = Fin (rnd (m + x)) \<and> m \<le> rnd (m + x) \<and> rnd (m + x) \<le> 2 ^ 100 \<and> rep (rnd (m + x))"
proof -
  have "rnd (m + x) \<le> rnd (2 ^ 100 + x)" using assms by (intro rnd_mono) simp
  then have le: "rnd (m + x) \<le> 2 ^ 100" using rnd_stuck [OF assms(4,5)] by simp
  have ge: "m \<le> rnd (m + x)" using assms by (intro rnd_ge) auto
  have "\<bar>rnd (m + x)\<bar> \<le> 2 ^ 100" using le ge assms(1) by simp
  also have "(2 :: real) ^ 100 < 2 ^ 1024" by simp
  finally show ?thesis using le ge rep_rnd by (simp add: round64_rnd)
qed

subsection \<open>The time of a step\<close>

lemma go_quot_cases: "go_quot d Second = (if 0 \<le> d then d div Second else - (- d div Second))"
  by (auto simp: go_quot_def sgn_if)

lemma go_rem_cases: "go_rem d Second = (if 0 \<le> d then d mod Second else - (- d mod Second))"
  by (auto simp: go_rem_def go_quot_cases minus_div_mult_eq_mod [symmetric] algebra_simps)

lemma go_quot_bounds:
  assumes "in_int64 d" shows "\<bar>go_quot d Second\<bar> \<le> 9223372036"
proof -
  have "\<bar>d\<bar> div Second \<le> 9223372036854775808 div Second"
    using assms by (intro zdiv_mono1) (auto simp: in_int64_def minInt64_def maxInt64_def)
  moreover have "0 \<le> \<bar>d\<bar> div Second" by (simp add: pos_imp_zdiv_nonneg_iff)
  ultimately show ?thesis by (auto simp: go_quot_cases split: if_splits)
qed

lemma go_rem_bounds: "\<bar>go_rem d Second\<bar> < Second" "0 \<le> d \<Longrightarrow> 0 \<le> go_rem d Second"
  by (simp_all add: go_rem_cases)

lemma duration_parts:
  assumes "in_int64 d"
  obtains y where "duration_seconds d = Fin (rnd (of_int (go_quot d Second) + y))" "\<bar>y\<bar> \<le> 1" "0 \<le> d \<Longrightarrow> 0 \<le> y"
proof -
  let ?q = "go_quot d Second" let ?r = "go_rem d Second"
  have q: "\<bar>?q\<bar> \<le> 9223372036" and r: "\<bar>?r\<bar> < 1000000000" using go_quot_bounds [OF assms] go_rem_bounds(1) by blast+
  have i: "i2f ?q = Fin (of_int ?q)" "i2f ?r = Fin (of_int ?r)" "fconst 1000000000 = Fin 1000000000"
    using q r round64_of_int [of 1000000000] by (simp_all add: i2f_exact)
  let ?y = "rnd (of_int ?r / 1000000000)"
  have lr: "\<bar>real_of_int ?r / 1000000000\<bar> \<le> 1" using r by (simp add: abs_le_iff) linarith
  have y: "round64 (of_int ?r / 1000000000) = Fin ?y \<and> - 1 \<le> ?y \<and> ?y \<le> 1"
    using lr rep_int [of "- 1"] by (intro round64_in) (auto simp: abs_le_iff)
  have pos: "0 \<le> ?y" if "0 \<le> d"
    using go_rem_bounds(2) [OF that] by (intro rnd_nonneg) simp
  have b: "\<bar>real_of_int ?q + ?y\<bar> \<le> of_int 9223372037" using q y by (simp add: abs_le_iff)
  obtain s where "round64 (of_int ?q + ?y) = Fin s" using b by (rule round64_abs) simp
  then have "round64 (of_int ?q + ?y) = Fin (rnd (of_int ?q + ?y))" by (simp add: round64_rnd split: if_splits)
  then have "duration_seconds d = Fin (rnd (of_int ?q + ?y))" using y by (simp add: duration_seconds_def i)
  then show thesis using that [of ?y] y pos by auto
qed

definition stepTime :: "gotime \<Rightarrow> vehicleSim \<Rightarrow> f64" where
  "stepTime now v = (let dt0 = duration_seconds (time_sub now (sv_lastSim v)) in if flt dt0 (Fin 0) then Fin 0 else dt0)"

lemma stepTime_range: obtains d where "stepTime now v = Fin d" "0 \<le> d" "d \<le> 2 ^ 34"
proof -
  let ?d = "time_sub now (sv_lastSim v)"
  obtain y where y: "duration_seconds ?d = Fin (rnd (of_int (go_quot ?d Second) + y))" "\<bar>y\<bar> \<le> 1"
    using duration_parts [OF time_sub_range] by metis
  have "\<bar>go_quot ?d Second\<bar> \<le> 9223372036" using go_quot_bounds [OF time_sub_range] .
  then have "rnd (of_int (go_quot ?d Second) + y) \<le> of_int 17179869184"
    using y(2) by (intro rnd_le rep_int) (simp_all add: abs_le_iff)
  then show thesis using that y(1) by (cases "rnd (of_int (go_quot ?d Second) + y) < 0") (auto simp: stepTime_def)
qed

lemma stepTime_second:
  assumes "sv_lastSim v + Second \<le> now" obtains d where "stepTime now v = Fin d" "1 \<le> d" "d \<le> 2 ^ 34"
proof -
  let ?d = "time_sub now (sv_lastSim v)"
  have d: "Second \<le> ?d" using assms by (auto simp: time_sub_def minInt64_def maxInt64_def)
  then obtain y where y: "duration_seconds ?d = Fin (rnd (of_int (go_quot ?d Second) + y))" "0 \<le> y"
    using duration_parts [OF time_sub_range, of now "sv_lastSim v"] by (metis order_trans zero_le_numeral)
  have "1 \<le> go_quot ?d Second" using d by (simp add: go_quot_nonneg)
  then have "(1 :: real) \<le> of_int (go_quot ?d Second) + y" using y(2) by linarith
  then have "1 \<le> rnd (of_int (go_quot ?d Second) + y)" by (intro rnd_ge) simp_all
  then have "stepTime now v = duration_seconds ?d" by (simp add: stepTime_def y(1))
  then show thesis using that \<open>1 \<le> rnd _\<close> y(1) by (metis f64.inject stepTime_range)
qed


lemma advanceLocked_alt:
  "advanceLocked now v =
     (let w = v\<lparr>sv_lastSim := now\<rparr>
      in if sv_scenario v = ScenarioDriving then driveStep (stepTime now v) w
         else if sv_scenario v = ScenarioCharging \<or> sv_scenario v = ScenarioChargingAC then chargeStep (stepTime now v) w
         else if sv_scenario v = ScenarioUpdate then updateStep w else w)"
  by (simp add: advanceLocked_def stepTime_def Let_def)

subsection \<open>Cars that are in order\<close>

fun inside :: "real \<Rightarrow> real \<Rightarrow> f64 \<Rightarrow> bool" where
  "inside lo hi (Fin r) \<longleftrightarrow> lo \<le> r \<and> r \<le> hi \<and> rep r"
| "inside lo hi _ \<longleftrightarrow> False"

lemma insideE:
  assumes "inside lo hi x" obtains r where "x = Fin r" "lo \<le> r" "r \<le> hi" "rep r"
  using assms by (cases x) auto

text \<open>
  Charge between empty and full, an odometer below its ceiling, a target that is a percentage, and a charger
  of at most a gigawatt.
\<close>

definition carOk :: "vehicleSim \<Rightarrow> bool" where
  "carOk v \<longleftrightarrow> inside 0 (2 ^ 100) (sv_mileageM v) \<and> inside 0 100 (sv_battery v) \<and> inside 0 (2 ^ 100) (sv_driveSec v) \<and>
     inside 0 100 (sv_driveFloor v) \<and> inside 0 100 (sv_chargeTarget v) \<and> inside 0 1000000 (sv_livePowerKw v)"

definition optsOk :: "scenarioOpts \<Rightarrow> bool" where
  "optsOk opts \<longleftrightarrow> inside 0 100 (so_TargetSOC opts) \<and> inside 0 1000000 (so_PowerKw opts)"

lemma chargeLimit_ok: "carOk v \<Longrightarrow> inside 0 100 (chargeLimit v)"
  by (auto simp: carOk_def chargeLimit_def chargeLimitPct_def round64_num)

subsection \<open>Driving\<close>

lemma speed_range:
  assumes "0 \<le> s" "s \<le> 2 ^ 100"
  obtains r where "fadd driveBaseMps (fmul driveAmpMps (math_sin (fdiv (Fin s) drivePeriodSec))) = Fin r" "18 \<le> r" "r \<le> 38"
proof -
  have q: "round64 (s / 90) = Fin (rnd (s / 90))"
    using assms round64_in [of 0 "s / 90" "2 ^ 100"] rep_power [of 100] by simp
  let ?q = "rnd (s / 90)"
  have 1: "round64 (sin ?q) = Fin (rnd (sin ?q)) \<and> - 1 \<le> rnd (sin ?q) \<and> rnd (sin ?q) \<le> 1"
    by (rule round64_in) (simp_all add: rep_minus)
  let ?r = "rnd (sin ?q)"
  have 2: "round64 (10 * ?r) = Fin (rnd (10 * ?r)) \<and> - 10 \<le> rnd (10 * ?r) \<and> rnd (10 * ?r) \<le> 10"
    using 1 by (intro round64_in) (simp_all add: rep_minus)
  let ?p = "rnd (10 * ?r)"
  have 3: "round64 (28 + ?p) = Fin (rnd (28 + ?p)) \<and> 18 \<le> rnd (28 + ?p) \<and> rnd (28 + ?p) \<le> 38"
    using 2 by (intro round64_in) (simp_all add: rep_minus)
  show thesis
    using that [of "rnd (28 + ?p)"] 1 2 3 q
    by (simp add: driveBaseMps_def driveAmpMps_def drivePeriodSec_def round64_num)
qed

lemma efficiency: obtains e h where "effKwhPerKm = Fin e" "heavyFootFactor = Fin h" "1 / 2 ^ 3 \<le> e" "e \<le> 1" "1 \<le> h" "h \<le> 2"
proof -
  have "round64 (18 / 100) = Fin (rnd (18 / 100)) \<and> 1 / 2 ^ 3 \<le> rnd (18 / 100) \<and> rnd (18 / 100) \<le> 1"
    using rep_inverse_power [of 3] by (intro round64_in) simp_all
  moreover have "round64 (13 / 10) = Fin (rnd (13 / 10)) \<and> 1 \<le> rnd (13 / 10) \<and> rnd (13 / 10) \<le> 2"
    by (rule round64_in) simp_all
  ultimately show thesis using that by (simp add: effKwhPerKm_def heavyFootFactor_def)
qed

text \<open>Each factor keeps a product between two powers of two.\<close>

lemma fmul_scale:
  assumes "0 \<le> x" "x \<le> 2 ^ a" "0 \<le> y" "y \<le> 2 ^ b" "a + b \<le> 1000"
  shows "fmul (Fin x) (Fin y) = Fin (rnd (x * y)) \<and> 0 \<le> rnd (x * y) \<and> rnd (x * y) \<le> 2 ^ (a + b)"
    and "c + d \<le> 1000 \<Longrightarrow> 1 / 2 ^ c \<le> x \<Longrightarrow> 1 / 2 ^ d \<le> y \<Longrightarrow> 1 / 2 ^ (c + d) \<le> rnd (x * y)"
proof -
  have "x * y \<le> 2 ^ a * 2 ^ b" using assms by (intro mult_mono) simp_all
  then have "x * y \<le> 2 ^ (a + b)" by (simp add: power_add)
  moreover have "(2 :: real) ^ (a + b) \<le> 2 ^ 1000" using assms(5) by (intro power_increasing) simp_all
  ultimately show "fmul (Fin x) (Fin y) = Fin (rnd (x * y)) \<and> 0 \<le> rnd (x * y) \<and> rnd (x * y) \<le> 2 ^ (a + b)"
    using assms(1,3) round64_in [of 0 "x * y" "2 ^ (a + b)"] by simp
  assume cd: "c + d \<le> 1000" "1 / 2 ^ c \<le> x" "1 / 2 ^ d \<le> y"
  have "1 / 2 ^ c * (1 / 2 ^ d) \<le> x * y" using cd by (intro mult_mono) (simp_all add: assms)
  then have "1 / 2 ^ (c + d) \<le> x * y" by (simp add: power_add)
  then show "1 / 2 ^ (c + d) \<le> rnd (x * y)" using cd by (intro rnd_ge) simp_all
qed

lemma fdiv_scale:
  assumes "0 \<le> x" "x \<le> 2 ^ a" "1 \<le> y" "a \<le> 1000"
  shows "fdiv (Fin x) (Fin y) = Fin (rnd (x / y)) \<and> 0 \<le> rnd (x / y) \<and> rnd (x / y) \<le> 2 ^ a"
    and "c + d \<le> 1000 \<Longrightarrow> 1 / 2 ^ c \<le> x \<Longrightarrow> y \<le> 2 ^ d \<Longrightarrow> 1 / 2 ^ (c + d) \<le> rnd (x / y)"
proof -
  have "x / y \<le> x" using assms mult_left_mono [of 1 y x] by (simp add: field_simps)
  then have "x / y \<le> 2 ^ a" using assms(2) by simp
  moreover have "(2 :: real) ^ a \<le> 2 ^ 1000" using assms(4) by (intro power_increasing) simp_all
  ultimately show "fdiv (Fin x) (Fin y) = Fin (rnd (x / y)) \<and> 0 \<le> rnd (x / y) \<and> rnd (x / y) \<le> 2 ^ a"
    using assms round64_in [of 0 "x / y" "2 ^ a"] by simp
  assume cd: "c + d \<le> 1000" "1 / 2 ^ c \<le> x" "y \<le> 2 ^ d"
  have "1 / 2 ^ c / 2 ^ d \<le> x / y" using cd assms by (intro frac_le) simp_all
  then have "1 / 2 ^ (c + d) \<le> x / y" by (simp add: power_add)
  then show "1 / 2 ^ (c + d) \<le> rnd (x / y)" using cd by (intro rnd_ge) simp_all
qed


lemma drain_range:
  assumes "0 \<le> x" "x \<le> 2 ^ 40"
  obtains z where
    "fmul (fdiv (fmul (fmul (fdiv (Fin x) (fconst 1000)) effKwhPerKm) heavyFootFactor) packKwh) (fconst 100) = Fin z"
    "0 \<le> z" "z \<le> 2 ^ 48" "1 \<le> x \<Longrightarrow> 1 / 2 ^ 14 \<le> z"
proof -
  obtain e h where eh: "effKwhPerKm = Fin e" "heavyFootFactor = Fin h" "1 / 2 ^ 3 \<le> e" "e \<le> 1" "1 \<le> h" "h \<le> 2"
    by (rule efficiency)
  have e0: "0 \<le> e" using eh(3) by (rule order_trans [rotated]) simp
  let ?a = "rnd (x / 1000)" let ?b = "rnd (?a * e)" let ?c = "rnd (?b * h)" let ?d = "rnd (?c / 128)" let ?z = "rnd (?d * 100)"
  have a: "fdiv (Fin x) (Fin 1000) = Fin ?a \<and> 0 \<le> ?a \<and> ?a \<le> 2 ^ 40"
    using assms by (intro fdiv_scale) simp_all
  have b: "fmul (Fin ?a) (Fin e) = Fin ?b \<and> 0 \<le> ?b \<and> ?b \<le> 2 ^ (40 + 0)"
    using a eh e0 by (intro fmul_scale) simp_all
  have c: "fmul (Fin ?b) (Fin h) = Fin ?c \<and> 0 \<le> ?c \<and> ?c \<le> 2 ^ (40 + 1)"
    using b eh by (intro fmul_scale) simp_all
  have d: "fdiv (Fin ?c) (Fin 128) = Fin ?d \<and> 0 \<le> ?d \<and> ?d \<le> 2 ^ 41"
    using c by (intro fdiv_scale) simp_all
  have z: "fmul (Fin ?d) (Fin 100) = Fin ?z \<and> 0 \<le> ?z \<and> ?z \<le> 2 ^ (41 + 7)"
    using d by (intro fmul_scale) simp_all
  have low: "1 / 2 ^ 14 \<le> ?z" if "1 \<le> x"
  proof -
    have 1: "1 / 2 ^ (0 + 10) \<le> ?a" using assms that by (intro fdiv_scale(2) [where a = 40]) simp_all
    have 2: "1 / 2 ^ (10 + 3) \<le> ?b" using a eh e0 1 by (intro fmul_scale(2) [where a = 40 and b = 0]) simp_all
    have 3: "1 / 2 ^ (13 + 0) \<le> ?c" using b eh 2 by (intro fmul_scale(2) [where a = 40 and b = 1]) simp_all
    have 4: "1 / 2 ^ (13 + 7) \<le> ?d" using c 3 by (intro fdiv_scale(2) [where a = 41]) simp_all
    have "1 / 2 ^ 14 \<le> ?d * 100" using 4 by simp
    then show ?thesis by (rule rnd_ge) (rule rep_inverse_power, simp)
  qed
  show thesis using that [of ?z] a b c d z low eh(1,2) by (simp add: packKwh_def round64_num)
qed

text \<open>
  A drive step of at least a second takes a fixed amount out of the battery, counted on a grid of doubles, so
  rounding cannot stall it.
\<close>

lemma drain_step:
  assumes "0 \<le> b" "b \<le> 100" "0 \<le> z" "z \<le> 2 ^ 48"
  shows "fsub (Fin b) (Fin z) = Fin (rnd (b - z))" and "rep b \<Longrightarrow> rnd (b - z) \<le> b"
    and "1 / 2 ^ 14 \<le> z \<Longrightarrow> b \<le> of_int k / 2 ^ 14 \<Longrightarrow> \<bar>k - 1\<bar> < 2 ^ 53 \<Longrightarrow> rnd (b - z) \<le> of_int (k - 1) / 2 ^ 14"
proof -
  have "round64 (b - z) = Fin (rnd (b - z)) \<and> - (2 ^ 48) \<le> rnd (b - z) \<and> rnd (b - z) \<le> 100"
    using assms rep_minus [OF rep_power, of 48] by (intro round64_in) simp_all
  then show "fsub (Fin b) (Fin z) = Fin (rnd (b - z))" by (simp add: fsub_def)
  show "rnd (b - z) \<le> b" if "rep b" using assms(3) that by (intro rnd_le) simp_all
  assume a: "1 / 2 ^ 14 \<le> z" "b \<le> of_int k / 2 ^ 14" "\<bar>k - 1\<bar> < 2 ^ 53"
  have "b - z \<le> of_int (k - 1) / 2 ^ 14" using a(1,2) by (simp add: diff_divide_distrib)
  then show "rnd (b - z) \<le> of_int (k - 1) / 2 ^ 14" by (rule rnd_le) (rule rep_fraction [OF a(3)], simp)
qed

lemma driveLocked_effect:
  assumes v: "carOk v" and d: "0 \<le> d" "d \<le> 2 ^ 34"
    and m: "sv_mileageM v = Fin m" and b: "sv_battery v = Fin b"
  obtains m' b' s' where "sv_mileageM (driveLocked (Fin d) v) = Fin m'" "sv_battery (driveLocked (Fin d) v) = Fin b'"
    "sv_driveSec (driveLocked (Fin d) v) = Fin s'" "0 \<le> s'" "s' \<le> 2 ^ 100" "rep s'"
    "m \<le> m'" "m' \<le> 2 ^ 100" "rep m'" "0 \<le> b'" "b' \<le> b" "rep b'"
    "\<And>k. 1 \<le> d \<Longrightarrow> b \<le> of_int k / 2 ^ 14 \<Longrightarrow> 1 \<le> k \<Longrightarrow> k < 2 ^ 53 \<Longrightarrow> b' \<le> of_int (k - 1) / 2 ^ 14"
proof -
  have mb: "0 \<le> m" "m \<le> 2 ^ 100" "rep m" "0 \<le> b" "b \<le> 100" "rep b" using v m b by (auto simp: carOk_def)
  obtain s where s: "sv_driveSec v = Fin s" "0 \<le> s" "s \<le> 2 ^ 100" "rep s"
    using v unfolding carOk_def by (metis insideE)
  have d46: "d \<le> 2 ^ 46" using d by simp
  note sec = grows [OF s(2,3,4) d(1) d46]
  let ?s = "rnd (s + d)"
  obtain r where r: "fadd driveBaseMps (fmul driveAmpMps (math_sin (fdiv (Fin ?s) drivePeriodSec))) = Fin r" "18 \<le> r" "r \<le> 38"
    using sec s(2) by (metis order_trans speed_range)
  let ?x = "rnd (r * d)"
  have x: "fmul (Fin r) (Fin d) = Fin ?x \<and> 0 \<le> ?x \<and> ?x \<le> 2 ^ (6 + 34)"
    using r d by (intro fmul_scale) simp_all
  have x46: "?x \<le> 2 ^ 46" using x by simp
  note dist = grows [OF mb(1,2,3) conjunct1 [OF conjunct2 [OF x]] x46]
  have x40: "0 \<le> ?x" "?x \<le> 2 ^ 40" using x by simp_all
  obtain z where z: "fmul (fdiv (fmul (fmul (fdiv (Fin ?x) (fconst 1000)) effKwhPerKm) heavyFootFactor) packKwh) (fconst 100) = Fin z"
    "0 \<le> z" "z \<le> 2 ^ 48" "1 \<le> ?x \<Longrightarrow> 1 / 2 ^ 14 \<le> z"
    using drain_range [OF x40] by metis
  note step = drain_step [OF mb(4,5) z(2,3)]
  let ?b = "if 0 < b then if rnd (b - z) < 0 then 0 else rnd (b - z) else b"
  have speed: "\<not> flt (Fin r) (fconst 5)" using r by (simp add: round64_num)
  have eq: "sv_mileageM (driveLocked (Fin d) v) = Fin (rnd (m + ?x))" "sv_battery (driveLocked (Fin d) v) = Fin ?b"
    "sv_driveSec (driveLocked (Fin d) v) = Fin ?s"
    using sec speed x dist z(1) step(1) by (simp_all add: driveLocked_def Let_def s(1) m b r(1))
  have prog: "?b \<le> of_int (k - 1) / 2 ^ 14" if "1 \<le> d" "b \<le> of_int k / 2 ^ 14" "1 \<le> k" "k < 2 ^ 53" for k
  proof -
    have "1 \<le> r * d" using r(2) that(1) mult_mono [of 1 r 1 d] by simp
    then have "1 \<le> ?x" by (rule rnd_ge) simp
    then have "rnd (b - z) \<le> of_int (k - 1) / 2 ^ 14" using that by (intro step(3) z(4)) simp_all
    moreover have "0 \<le> real_of_int (k - 1) / 2 ^ 14" using that(3) by simp
    ultimately show ?thesis using mb(4) by auto
  qed
  have b': "0 \<le> ?b" "?b \<le> b" "rep ?b" using mb step(2) rep_rnd by auto
  show thesis
    by (rule that [OF eq _ _ _ _ _ _ b' prog]) (use sec dist s(2) in auto)
qed


lemma driveLocked_keeps [simp]:
  "sv_scenario (driveLocked dt v) = sv_scenario v" "sv_driveFloor (driveLocked dt v) = sv_driveFloor v"
  "sv_chargeTarget (driveLocked dt v) = sv_chargeTarget v" "sv_livePowerKw (driveLocked dt v) = sv_livePowerKw v"
  "sv_lastSim (driveLocked dt v) = sv_lastSim v"
  by (simp_all add: driveLocked_def Let_def)

lemma driveLocked_ok:
  assumes "carOk v" "0 \<le> d" "d \<le> 2 ^ 34" shows "carOk (driveLocked (Fin d) v)"
proof -
  obtain m b where mb: "sv_mileageM v = Fin m" "sv_battery v = Fin b" "b \<le> 100" "0 \<le> m"
    using assms(1) unfolding carOk_def by (metis insideE)
  show ?thesis
    by (rule driveLocked_effect [OF assms mb(1,2)]) (use assms(1) mb(3,4) in \<open>auto simp: carOk_def\<close>)
qed

lemma driveStep_ok:
  assumes "carOk v" "0 \<le> d" "d \<le> 2 ^ 34" shows "carOk (driveStep (Fin d) v)"
  using driveLocked_ok [OF assms] by (auto simp: driveStep_def Let_def carOk_def)

subsection \<open>Charging\<close>

lemma countDown_energy [simp]: "ls_TotalChargedEnergy (countDown dt l) = ls_TotalChargedEnergy l" "ls_PowerKw (countDown dt l) = ls_PowerKw l"
  by (simp_all add: countDown_def Let_def)

text \<open>What a step of a charger adds, and that with a kilowatt and a second it is a fixed amount.\<close>

lemma charge_gain:
  assumes "0 \<le> p" "p \<le> 1000000" "0 \<le> d" "d \<le> 2 ^ 34"
  obtains z where "fmul (fdiv (fmul (fdiv (Fin p) (fconst 3600)) (Fin d)) packKwh) (fconst 100) = Fin z" "0 \<le> z" "z \<le> 2 ^ 61"
    "1 \<le> p \<Longrightarrow> 1 \<le> d \<Longrightarrow> 1 / 2 ^ 14 \<le> z"
proof -
  let ?a = "rnd (p / 3600)" let ?b = "rnd (?a * d)" let ?c = "rnd (?b / 128)" let ?z = "rnd (?c * 100)"
  have a: "fdiv (Fin p) (Fin 3600) = Fin ?a \<and> 0 \<le> ?a \<and> ?a \<le> 2 ^ 20"
    using assms by (intro fdiv_scale) simp_all
  have b: "fmul (Fin ?a) (Fin d) = Fin ?b \<and> 0 \<le> ?b \<and> ?b \<le> 2 ^ (20 + 34)"
    using a assms by (intro fmul_scale) simp_all
  have c: "fdiv (Fin ?b) (Fin 128) = Fin ?c \<and> 0 \<le> ?c \<and> ?c \<le> 2 ^ 54"
    using b by (intro fdiv_scale) simp_all
  have z: "fmul (Fin ?c) (Fin 100) = Fin ?z \<and> 0 \<le> ?z \<and> ?z \<le> 2 ^ (54 + 7)"
    using c by (intro fmul_scale) simp_all
  have low: "1 / 2 ^ 14 \<le> ?z" if "1 \<le> p" "1 \<le> d"
  proof -
    have 1: "1 / 2 ^ (0 + 12) \<le> ?a" using assms that by (intro fdiv_scale(2) [where a = 20]) simp_all
    have 2: "1 / 2 ^ (12 + 0) \<le> ?b" using a assms that 1 by (intro fmul_scale(2) [where a = 20 and b = 34]) simp_all
    have 3: "1 / 2 ^ (12 + 7) \<le> ?c" using b 2 by (intro fdiv_scale(2) [where a = 54]) simp_all
    have "1 / 2 ^ 14 \<le> ?c * 100" using 3 by simp
    then show ?thesis by (rule rnd_ge) (rule rep_inverse_power, simp)
  qed
  show thesis using that [of ?z] a b c z low by (simp add: packKwh_def round64_num)
qed

lemma gain_step:
  assumes "0 \<le> b" "b \<le> 100" "0 \<le> z" "z \<le> 2 ^ 61"
  shows "fadd (Fin b) (Fin z) = Fin (rnd (b + z))" and "rep b \<Longrightarrow> b \<le> rnd (b + z)"
    and "1 / 2 ^ 14 \<le> z \<Longrightarrow> of_int k / 2 ^ 14 \<le> b \<Longrightarrow> \<bar>k + 1\<bar> < 2 ^ 53 \<Longrightarrow> of_int (k + 1) / 2 ^ 14 \<le> rnd (b + z)"
proof -
  have "round64 (b + z) = Fin (rnd (b + z)) \<and> 0 \<le> rnd (b + z) \<and> rnd (b + z) \<le> 2 ^ 62"
    using assms rep_power [of 62] by (intro round64_in) simp_all
  then show "fadd (Fin b) (Fin z) = Fin (rnd (b + z))" by simp
  show "b \<le> rnd (b + z)" if "rep b" using assms(3) that by (intro rnd_ge) simp_all
  assume a: "1 / 2 ^ 14 \<le> z" "of_int k / 2 ^ 14 \<le> b" "\<bar>k + 1\<bar> < 2 ^ 53"
  have "of_int (k + 1) / 2 ^ 14 \<le> b + z" using a(1,2) by (simp add: add_divide_distrib)
  then show "of_int (k + 1) / 2 ^ 14 \<le> rnd (b + z)" by (rule rnd_ge) (rule rep_fraction [OF a(3)], simp)
qed

text \<open>
  A step of a charging car below its limit: the battery stays or rises, at most to the limit, and a car with an
  explicit target that reaches it is idle.
\<close>

lemma chargeStep_effect:
  assumes v: "carOk v" and d: "0 \<le> d" "d \<le> 2 ^ 34" and l: "sv_live v = Some l"
    and b: "sv_battery v = Fin b" and lim: "chargeLimit v = Fin t" "b < t"
  obtains b' where "sv_battery (chargeStep (Fin d) v) = Fin b'" "b \<le> b'" "b' \<le> t" "rep b'"
    "sv_mileageM (chargeStep (Fin d) v) = sv_mileageM v" "sv_driveSec (chargeStep (Fin d) v) = sv_driveSec v"
    "sv_driveFloor (chargeStep (Fin d) v) = sv_driveFloor v" "sv_chargeTarget (chargeStep (Fin d) v) = sv_chargeTarget v"
    "sv_livePowerKw (chargeStep (Fin d) v) = sv_livePowerKw v" "sv_lastSim (chargeStep (Fin d) v) = sv_lastSim v"
    "flt (Fin 0) (sv_chargeTarget v) \<Longrightarrow> b' = t \<Longrightarrow> sv_scenario (chargeStep (Fin d) v) = ScenarioIdle"
    "b' < t \<Longrightarrow> sv_scenario (chargeStep (Fin d) v) = sv_scenario v \<and> sv_live (chargeStep (Fin d) v) \<noteq> None"
    "\<And>k. fle (Fin 1) (sv_livePowerKw v) \<Longrightarrow> 1 \<le> d \<Longrightarrow> of_int k / 2 ^ 14 \<le> b \<Longrightarrow> 0 \<le> k \<Longrightarrow> k + 1 < 2 ^ 53 \<Longrightarrow>
       b' = t \<or> of_int (k + 1) / 2 ^ 14 \<le> b'"
proof -
  obtain p where p: "sv_livePowerKw v = Fin p" "0 \<le> p" "p \<le> 1000000" using v unfolding carOk_def by (metis insideE)
  have bb: "0 \<le> b" "b \<le> 100" "rep b" using v b by (auto simp: carOk_def)
  have t: "0 \<le> t" "t \<le> 100" "rep t" using chargeLimit_ok [OF v] lim by auto
  obtain z where z: "fmul (fdiv (fmul (fdiv (Fin p) (fconst 3600)) (Fin d)) packKwh) (fconst 100) = Fin z" "0 \<le> z" "z \<le> 2 ^ 61"
      "1 \<le> p \<Longrightarrow> 1 \<le> d \<Longrightarrow> 1 / 2 ^ 14 \<le> z"
    using charge_gain [OF p(2,3) d] by metis
  note step = gain_step [OF bb(1,2) z(2,3)]
  let ?b = "if t \<le> rnd (b + z) then t else rnd (b + z)"
  have le: "fle (Fin t) (Fin (rnd (b + z))) \<longleftrightarrow> t \<le> rnd (b + z)" by (auto simp: fle_def)
  have bat: "sv_battery (chargeStep (Fin d) v) = Fin ?b"
    unfolding chargeStep_def l option.case p lim b Let_def z(1) step(1) le by (simp add: lim(2))
  have prog: "?b = t \<or> of_int (k + 1) / 2 ^ 14 \<le> ?b"
    if "fle (Fin 1) (sv_livePowerKw v)" "1 \<le> d" "of_int k / 2 ^ 14 \<le> b" "0 \<le> k" "k + 1 < 2 ^ 53" for k
    using that step(3) [of k] z(4) p(1) by (auto simp: fle_def)
  have keep: "sv_mileageM (chargeStep (Fin d) v) = sv_mileageM v" "sv_driveSec (chargeStep (Fin d) v) = sv_driveSec v"
    "sv_driveFloor (chargeStep (Fin d) v) = sv_driveFloor v" "sv_chargeTarget (chargeStep (Fin d) v) = sv_chargeTarget v"
    "sv_livePowerKw (chargeStep (Fin d) v) = sv_livePowerKw v" "sv_lastSim (chargeStep (Fin d) v) = sv_lastSim v"
    by (simp_all add: chargeStep_def l Let_def)
  have fin: "sv_scenario (chargeStep (Fin d) v) = ScenarioIdle" if "flt (Fin 0) (sv_chargeTarget v)" "?b = t"
    using that unfolding chargeStep_def l option.case p lim b Let_def z(1) step(1) le by (auto simp: lim(2) split: if_splits)
  have more: "sv_scenario (chargeStep (Fin d) v) = sv_scenario v \<and> sv_live (chargeStep (Fin d) v) \<noteq> None" if "?b < t"
    using that unfolding chargeStep_def l option.case p lim b Let_def z(1) step(1) le by (auto simp: lim(2) split: if_splits)
  have b': "b \<le> ?b" "?b \<le> t" "rep ?b" using step(2) [OF bb(3)] lim(2) t(3) rep_rnd by auto
  show thesis by (rule that [OF bat b' keep fin more prog])
qed

lemma chargeStep_idle: "sv_live v = None \<or> \<not> flt (sv_battery v) (chargeLimit v) \<Longrightarrow> chargeStep dt v = v"
  by (auto simp: chargeStep_def split: option.split)

lemma chargeStep_ok:
  assumes "carOk v" "0 \<le> d" "d \<le> 2 ^ 34" shows "carOk (chargeStep (Fin d) v)"
proof (cases "sv_live v = None \<or> \<not> flt (sv_battery v) (chargeLimit v)")
  case True
  then show ?thesis using assms(1) by (simp add: chargeStep_idle)
next
  case False
  obtain b where b: "sv_battery v = Fin b" "0 \<le> b" using assms(1) unfolding carOk_def by (metis insideE)
  obtain t where t: "chargeLimit v = Fin t" "t \<le> 100" using chargeLimit_ok [OF assms(1)] by (metis insideE)
  obtain l where l: "sv_live v = Some l" using False by auto
  have bt: "b < t" using False b t by simp
  show ?thesis
    by (rule chargeStep_effect [OF assms l b(1) t(1) bt]) (use assms(1) b t in \<open>auto simp: carOk_def\<close>)
qed


subsection \<open>Every operation keeps a car in order\<close>

lemma advanceLocked_ok:
  assumes "carOk v" shows "carOk (advanceLocked now v)"
proof -
  obtain d where d: "stepTime now v = Fin d" "0 \<le> d" "d \<le> 2 ^ 34" by (rule stepTime_range)
  have w: "carOk (v\<lparr>sv_lastSim := now\<rparr>)" using assms by (simp add: carOk_def)
  have u: "carOk (updateStep (v\<lparr>sv_lastSim := now\<rparr>))" using assms by (auto simp: carOk_def updateStep_def Let_def)
  show ?thesis
    using driveStep_ok [OF w d(2,3)] chargeStep_ok [OF w d(2,3)] w u by (simp add: advanceLocked_alt d(1) Let_def)
qed

lemma applyScenario_ok:
  assumes "carOk v" "optsOk opts" shows "carOk (applyScenario name opts v)"
  using assms unfolding applyScenario_def
  by (auto simp: Let_def carOk_def optsOk_def startLive_def dcChargeKw_def acChargeKw_def round64_num)

lemma applyScenario_sel [simp]:
  "sv_scenario (applyScenario name opts v) = name" "sv_battery (applyScenario name opts v) = sv_battery v"
  "sv_mileageM (applyScenario name opts v) = sv_mileageM v" "sv_lastSim (applyScenario name opts v) = sv_lastSim v"
  by (auto simp: applyScenario_def Let_def startLive_def)

lemma fle_Fin [simp]: "fle (Fin x) (Fin y) \<longleftrightarrow> x \<le> y"
  by (auto simp: fle_def)

lemma inside_refl: "inside lo hi x \<Longrightarrow> fle x x"
  by (cases x) auto

lemma driveStep_mono:
  assumes "carOk v" "0 \<le> d" "d \<le> 2 ^ 34"
  shows "fle (sv_mileageM v) (sv_mileageM (driveStep (Fin d) v))"
    and "fle (sv_driveFloor v) (sv_battery v) \<Longrightarrow> fle (sv_battery (driveStep (Fin d) v)) (sv_battery v)"
proof -
  obtain m b f where mb: "sv_mileageM v = Fin m" "sv_battery v = Fin b" "sv_driveFloor v = Fin f"
    using assms(1) unfolding carOk_def by (metis insideE)
  obtain m' b' where e: "sv_mileageM (driveLocked (Fin d) v) = Fin m'" "sv_battery (driveLocked (Fin d) v) = Fin b'" "m \<le> m'" "b' \<le> b"
    by (rule driveLocked_effect [OF assms mb(1,2)])
  show "fle (sv_mileageM v) (sv_mileageM (driveStep (Fin d) v))"
    using e(1,3) by (simp add: driveStep_def Let_def mb)
  show "fle (sv_battery (driveStep (Fin d) v)) (sv_battery v)" if "fle (sv_driveFloor v) (sv_battery v)"
    using that e(2,4) by (simp add: driveStep_def Let_def mb)
qed

lemma chargeStep_mono:
  assumes "carOk v" "0 \<le> d" "d \<le> 2 ^ 34"
  shows "sv_mileageM (chargeStep (Fin d) v) = sv_mileageM v" and "fle (sv_battery v) (sv_battery (chargeStep (Fin d) v))"
proof -
  have r: "fle (sv_battery v) (sv_battery v)" using assms(1) unfolding carOk_def by (metis inside_refl)
  have "sv_mileageM (chargeStep (Fin d) v) = sv_mileageM v \<and> fle (sv_battery v) (sv_battery (chargeStep (Fin d) v))"
  proof (cases "sv_live v = None \<or> \<not> flt (sv_battery v) (chargeLimit v)")
    case False
    obtain b t where bt: "sv_battery v = Fin b" "chargeLimit v = Fin t"
      using assms(1) chargeLimit_ok [OF assms(1)] unfolding carOk_def by (metis insideE)
    obtain l where l: "sv_live v = Some l" using False by auto
    have "b < t" using False bt by simp
    then show ?thesis by (rule chargeStep_effect [OF assms l bt]) (simp add: bt(1))
  qed (simp add: chargeStep_idle r)
  then show "sv_mileageM (chargeStep (Fin d) v) = sv_mileageM v" "fle (sv_battery v) (sv_battery (chargeStep (Fin d) v))" by blast+
qed

lemma advanceLocked_mono:
  assumes "carOk v"
  shows "fle (sv_mileageM v) (sv_mileageM (advanceLocked now v))"
    and "sv_scenario v = ScenarioDriving \<Longrightarrow> fle (sv_driveFloor v) (sv_battery v) \<Longrightarrow>
      fle (sv_battery (advanceLocked now v)) (sv_battery v)"
    and "sv_scenario v \<in> {ScenarioCharging, ScenarioChargingAC} \<Longrightarrow> fle (sv_battery v) (sv_battery (advanceLocked now v))"
    and "sv_scenario v \<notin> {ScenarioDriving, ScenarioCharging, ScenarioChargingAC} \<Longrightarrow>
      sv_battery (advanceLocked now v) = sv_battery v"
proof -
  let ?w = "v\<lparr>sv_lastSim := now\<rparr>"
  obtain d where d: "stepTime now v = Fin d" "0 \<le> d" "d \<le> 2 ^ 34" by (rule stepTime_range)
  have w: "carOk ?w" using assms by (simp add: carOk_def)
  have r: "fle (sv_mileageM v) (sv_mileageM v)" using assms unfolding carOk_def by (metis inside_refl)
  note D = driveStep_mono [OF w d(2,3)] and C = chargeStep_mono [OF w d(2,3)]
  have U: "sv_mileageM (updateStep ?w) = sv_mileageM v" "sv_battery (updateStep ?w) = sv_battery v"
    by (simp_all add: updateStep_def Let_def)
  show "fle (sv_mileageM v) (sv_mileageM (advanceLocked now v))"
    using D(1) C(1) U(1) r by (simp add: advanceLocked_alt d(1) Let_def)
  show "sv_scenario v = ScenarioDriving \<Longrightarrow> fle (sv_driveFloor v) (sv_battery v) \<Longrightarrow>
      fle (sv_battery (advanceLocked now v)) (sv_battery v)"
    using D(2) by (simp add: advanceLocked_alt d(1) Let_def)
  show "sv_scenario v \<in> {ScenarioCharging, ScenarioChargingAC} \<Longrightarrow> fle (sv_battery v) (sv_battery (advanceLocked now v))"
    using C(2) by (auto simp: advanceLocked_alt d(1) Let_def)
  show "sv_scenario v \<notin> {ScenarioDriving, ScenarioCharging, ScenarioChargingAC} \<Longrightarrow>
      sv_battery (advanceLocked now v) = sv_battery v"
    using U(2) by (simp add: advanceLocked_alt d(1) Let_def)
qed

subsection \<open>The end of a leg\<close>

text \<open>A second or more of driving towards a floor: the car stops there, or comes closer to it.\<close>

lemma drive_leg:
  assumes v: "carOk v" and sc: "sv_scenario v = ScenarioDriving" and f: "sv_driveFloor v = Fin f" "0 < f"
    and t: "sv_lastSim v + Second \<le> now" and b: "sv_battery v = Fin b" "b \<le> of_int k / 2 ^ 14" "1 \<le> k" "k < 2 ^ 53"
  shows "sv_scenario (advanceLocked now v) = ScenarioIdle \<and> sv_battery (advanceLocked now v) = Fin f \<or>
     sv_scenario (advanceLocked now v) = ScenarioDriving \<and> sv_driveFloor (advanceLocked now v) = Fin f \<and> 2 \<le> k \<and>
       (\<exists>b'. sv_battery (advanceLocked now v) = Fin b' \<and> b' \<le> of_int (k - 1) / 2 ^ 14)"
proof -
  let ?w = "v\<lparr>sv_lastSim := now\<rparr>"
  obtain d where d: "stepTime now v = Fin d" "1 \<le> d" "d \<le> 2 ^ 34" using stepTime_second [OF t] .
  have w: "carOk ?w" using v by (simp add: carOk_def)
  have d0: "0 \<le> d" using d(2) by simp
  obtain m where m: "sv_mileageM ?w = Fin m" using w unfolding carOk_def by (metis insideE)
  have bw: "sv_battery ?w = Fin b" using b(1) by simp
  obtain b' where b': "sv_battery (driveLocked (Fin d) ?w) = Fin b'" "b' \<le> of_int (k - 1) / 2 ^ 14"
    by (rule driveLocked_effect [OF w d0 d(3) m bw]) (use d(2) b in blast)
  have adv: "advanceLocked now v = driveStep (Fin d) ?w" by (simp add: advanceLocked_alt sc d(1) Let_def)
  show ?thesis
  proof (cases "b' \<le> f")
    case True
    then show ?thesis using b'(1) f by (simp add: adv driveStep_def Let_def)
  next
    case False
    then have "0 < of_int (k - 1) / (2 :: real) ^ 14" using b'(2) f(2) by linarith
    then have "2 \<le> k" by (simp add: zero_less_divide_iff)
    then show ?thesis using False b' f sc by (simp add: adv driveStep_def Let_def)
  qed
qed

lemma charge_leg:
  assumes v: "carOk v" and sc: "sv_scenario v \<in> {ScenarioCharging, ScenarioChargingAC}"
    and tg: "sv_chargeTarget v = Fin t" "0 < t" and pw: "fle (Fin 1) (sv_livePowerKw v)" and l: "sv_live v \<noteq> None"
    and t: "sv_lastSim v + Second \<le> now" and b: "sv_battery v = Fin b" "b < t" "of_int k / 2 ^ 14 \<le> b" "0 \<le> k" "k + 1 < 2 ^ 53"
  shows "sv_scenario (advanceLocked now v) = ScenarioIdle \<and> sv_battery (advanceLocked now v) = Fin t \<or>
     sv_scenario (advanceLocked now v) = sv_scenario v \<and> sv_chargeTarget (advanceLocked now v) = Fin t \<and>
       sv_livePowerKw (advanceLocked now v) = sv_livePowerKw v \<and> sv_live (advanceLocked now v) \<noteq> None \<and>
       (\<exists>b'. sv_battery (advanceLocked now v) = Fin b' \<and> b' < t \<and> of_int (k + 1) / 2 ^ 14 \<le> b')"
proof -
  let ?w = "v\<lparr>sv_lastSim := now\<rparr>"
  obtain d where d: "stepTime now v = Fin d" "1 \<le> d" "d \<le> 2 ^ 34" using stepTime_second [OF t] .
  have w: "carOk ?w" using v by (simp add: carOk_def)
  have d0: "0 \<le> d" using d(2) by simp
  obtain ls where ls: "sv_live ?w = Some ls" using l by auto
  have bw: "sv_battery ?w = Fin b" using b(1) by simp
  have lim: "chargeLimit ?w = Fin t" using tg by (simp add: chargeLimit_def)
  have adv: "advanceLocked now v = chargeStep (Fin d) ?w" using sc by (auto simp: advanceLocked_alt d(1) Let_def)
  show ?thesis
  proof (rule chargeStep_effect [OF w d0 d(3) ls bw lim b(2)])
    fix b'
    let ?u = "chargeStep (Fin d) ?w"
    assume e: "sv_battery ?u = Fin b'" "b' \<le> t" "sv_chargeTarget ?u = sv_chargeTarget ?w"
      "sv_livePowerKw ?u = sv_livePowerKw ?w"
      and fin: "flt (Fin 0) (sv_chargeTarget ?w) \<Longrightarrow> b' = t \<Longrightarrow> sv_scenario ?u = ScenarioIdle"
      and more: "b' < t \<Longrightarrow> sv_scenario ?u = sv_scenario ?w \<and> sv_live ?u \<noteq> None"
      and prog: "\<And>k. fle (Fin 1) (sv_livePowerKw ?w) \<Longrightarrow> 1 \<le> d \<Longrightarrow> of_int k / 2 ^ 14 \<le> b \<Longrightarrow> 0 \<le> k \<Longrightarrow>
        k + 1 < 2 ^ 53 \<Longrightarrow> b' = t \<or> of_int (k + 1) / 2 ^ 14 \<le> b'"
    have p: "b' = t \<or> of_int (k + 1) / 2 ^ 14 \<le> b'" using prog [of k] pw d(2) b(3-5) by simp
    show ?thesis
    proof (cases "b' = t")
      case True
      then show ?thesis using fin e(1) tg by (simp add: adv)
    next
      case False
      then have "b' < t" using e(2) by simp
      then show ?thesis using more p e False tg by (simp add: adv)
    qed
  qed
qed

lemma idle_leg: "sv_scenario v = ScenarioIdle \<Longrightarrow> advanceLocked now v = v\<lparr>sv_lastSim := now\<rparr>"
  by (simp add: advanceLocked_alt Let_def)

lemma advanceLocked_last [simp]: "sv_lastSim (advanceLocked now v) = now"
  by (auto simp: advanceLocked_def Let_def driveStep_def chargeStep_def updateStep_def split: option.split)

end
