(* ===== verification/MockCycle.thy ===== *)
theory MockCycle
  imports MockLaws
begin

section \<open>The autopilot, car by car\<close>

text \<open>
  The autopilot seen from one car: what a tick makes of its phase, that every phase ends, and how one cycle follows
  another at moments at least a second apart.
\<close>

subsection \<open>One car of the engine\<close>

text \<open>The autopilot's step seen from one car: the car it steers instead of the engine.\<close>

definition carDrive :: "cycleConfig \<Rightarrow> gotime \<Rightarrow> vehicleSim \<times> carCycle \<Rightarrow> vehicleSim \<times> carCycle" where
  "carDrive cfg now vc = (applyScenario ScenarioDriving (zeroOpts\<lparr>so_TargetSOC := cy_SocMin cfg\<rparr>) (fst vc),
     enter PhaseDrive now (snd vc))"

definition carCharge :: "cycleConfig \<Rightarrow> gotime \<Rightarrow> vehicleSim \<times> carCycle \<Rightarrow> vehicleSim \<times> carCycle" where
  "carCharge cfg now vc = (let c = snd vc; (scen, kw) = (if ca_useAC c then (ScenarioChargingAC, cy_AcKw cfg)
       else (ScenarioCharging, cy_DcKw cfg))
     in (applyScenario scen \<lparr>so_TargetSOC = cy_SocMax cfg, so_PowerKw = kw\<rparr> (fst vc),
         enter PhaseCharge now (c\<lparr>ca_useAC := \<not> ca_useAC c\<rparr>)))"

definition carNext :: "cycleConfig \<Rightarrow> gotime \<Rightarrow> vehicleSim \<times> carCycle \<Rightarrow> vehicleSim \<times> carCycle" where
  "carNext cfg now vc = (let c = (snd vc)\<lparr>ca_cycles := wrap64 (ca_cycles (snd vc) + 1)\<rparr>
     in if everyNth (cy_UpdateEvery cfg) (ca_cycles c) then (applyScenario ScenarioUpdate zeroOpts (fst vc), enter PhaseUpdate now c)
        else if everyNth (cy_SleepEvery cfg) (ca_cycles c) then (applyScenario ScenarioAsleep zeroOpts (fst vc), enter PhaseSleep now c)
        else carDrive cfg now (fst vc, c))"

definition carAuto :: "cycleConfig \<Rightarrow> gotime \<Rightarrow> vehicleSim \<times> carCycle \<Rightarrow> vehicleSim \<times> carCycle" where
  "carAuto cfg now vc =
     (let idle = (sv_scenario (fst vc) = ScenarioIdle); rested = time_sub now (ca_since (snd vc));
          onto = (\<lambda>p. (fst vc, enter p now (snd vc)))
      in case ca_phase (snd vc) of
        PhaseInit \<Rightarrow> carDrive cfg now vc
      | PhaseDrive \<Rightarrow> if idle then onto PhaseRestAfterDrive else vc
      | PhaseRestAfterDrive \<Rightarrow> if cy_Idle cfg \<le> rested then carCharge cfg now vc else vc
      | PhaseCharge \<Rightarrow> if idle then onto PhaseRestAfterCharge else vc
      | PhaseRestAfterCharge \<Rightarrow> if cy_Idle cfg \<le> rested then carNext cfg now vc else vc
      | PhaseSleep \<Rightarrow> if cy_Sleep cfg \<le> rested then carDrive cfg now vc else vc
      | PhaseUpdate \<Rightarrow> if cy_Update cfg \<le> rested then carDrive cfg now vc else vc)"

lemma setScenario_car:
  assumes "g \<noteq> []" "en_vehicles e g = Some v" "validScenario name"
  shows "snd (setScenarioOpts name g opts e) = e\<lparr>en_vehicles := (en_vehicles e)(g \<mapsto> applyScenario name opts v)\<rparr>"
  using assms by (simp add: setScenarioOpts_def)

lemma setScenario_none: "g \<noteq> [] \<Longrightarrow> en_vehicles e g = None \<Longrightarrow> snd (setScenarioOpts name g opts e) = e"
  by (simp add: setScenarioOpts_def)

lemma valid_names [simp]: "validScenario ScenarioDriving" "validScenario ScenarioCharging" "validScenario ScenarioChargingAC"
  "validScenario ScenarioUpdate" "validScenario ScenarioAsleep"
  by (simp_all add: validScenario_def)

lemma auto_step_car:
  assumes "g \<noteq> []" "en_vehicles e g = Some v"
  shows "auto_step cfg g now (e, c) = (e\<lparr>en_vehicles := (en_vehicles e)(g \<mapsto> fst (carAuto cfg now (v, c)))\<rparr>,
     snd (carAuto cfg now (v, c)))"
proof -
  have id: "e\<lparr>en_vehicles := (en_vehicles e)(g \<mapsto> v)\<rparr> = e" using assms(2) by (simp add: map_upd_triv)
  note set = setScenario_car [OF assms]
  show ?thesis
    by (auto simp: auto_step_def carAuto_def Let_def scenarioOf_def assms(2) id startDrive_def carDrive_def startCharge_def
        carCharge_def nextCycle_def carNext_def setScenario_def set split: carPhase.split)
qed

lemma auto_step_none:
  assumes "g \<noteq> []" "en_vehicles e g = None" shows "fst (auto_step cfg g now (e, c)) = e"
  using setScenario_none [OF assms]
  by (auto simp: auto_step_def Let_def startDrive_def startCharge_def nextCycle_def setScenario_def split: carPhase.split)

text \<open>The cars of a tick do not touch each other, so its order does not matter.\<close>

lemma auto_Tick_other:
  assumes "[] \<notin> set gs" "g \<notin> set gs"
  shows "en_vehicles (fst (auto_Tick cfg now gs (e, cars))) g = en_vehicles e g \<and> snd (auto_Tick cfg now gs (e, cars)) g = cars g"
  using assms
proof (induction gs arbitrary: e cars)
  case (Cons h gs)
  have h: "h \<noteq> []" "h \<noteq> g" "[] \<notin> set gs" "g \<notin> set gs" using Cons.prems by auto
  show ?case
  proof (cases "cars h")
    case None
    then show ?thesis using Cons.IH h by simp
  next
    case (Some c)
    obtain e1 c1 where s: "auto_step cfg h now (e, c) = (e1, c1)" by fastforce
    have "en_vehicles e1 g = en_vehicles e g"
      using auto_step_car [OF h(1), of e _ cfg now c] auto_step_none [OF h(1), of e cfg now c] h(2) s
      by (cases "en_vehicles e h") auto
    moreover have "(cars(h \<mapsto> c1)) g = cars g" using h(2) by simp
    ultimately show ?thesis using Cons.IH [OF h(3,4), of e1 "cars(h \<mapsto> c1)"]
      by (simp only: auto_Tick.simps Some s option.case Let_def prod.case)
  qed
qed simp

lemma auto_Tick_car:
  assumes "distinct gs" "[] \<notin> set gs" "g \<in> set gs" "en_vehicles e g = Some v" "cars g = Some c"
  shows "en_vehicles (fst (auto_Tick cfg now gs (e, cars))) g = Some (fst (carAuto cfg now (v, c))) \<and>
    snd (auto_Tick cfg now gs (e, cars)) g = Some (snd (carAuto cfg now (v, c)))"
  using assms
proof (induction gs arbitrary: e cars)
  case (Cons h gs)
  have h: "h \<noteq> []" "[] \<notin> set gs" "distinct gs" using Cons.prems by auto
  show ?case
  proof (cases "h = g")
    case True
    have "g \<notin> set gs" using Cons.prems(1) True by simp
    from auto_Tick_other [OF h(2) this] show ?thesis
      using True Cons.prems(4,5) auto_step_car [OF _ Cons.prems(4)] h(1) by (simp add: Let_def)
  next
    case False
    then have g: "g \<in> set gs" using Cons.prems(3) by simp
    show ?thesis
    proof (cases "cars h")
      case None
      then show ?thesis using Cons.IH [of e cars, OF h(3,2) g Cons.prems(4,5)] by simp
    next
      case (Some d)
      obtain e1 d1 where s: "auto_step cfg h now (e, d) = (e1, d1)" by fastforce
      have "en_vehicles e1 g = Some v"
        using auto_step_car [OF h(1), of e _ cfg now d] auto_step_none [OF h(1), of e cfg now d] False s Cons.prems(4)
        by (cases "en_vehicles e h") auto
      moreover have "(cars(h \<mapsto> d1)) g = Some c" using False Cons.prems(5) by simp
      ultimately show ?thesis using Cons.IH [of e1 "cars(h \<mapsto> d1)", OF h(3,2) g]
        by (simp only: auto_Tick.simps Some s option.case Let_def prod.case)
    qed
  qed
qed simp

subsection \<open>The loop\<close>

text \<open>The loop of the history and of the live server: advance, then tick, at the moments \<open>T\<close>.\<close>

fun cycleRun :: "cycleConfig \<Rightarrow> (nat \<Rightarrow> gotime) \<Rightarrow> (nat \<Rightarrow> string list) \<Rightarrow> engine \<Rightarrow> nat \<Rightarrow> engine \<times> (string \<rightharpoonup> carCycle)" where
  "cycleRun cfg T visit e0 0 = (e0, newAutopilot e0)"
| "cycleRun cfg T visit e0 (Suc n) = (let (e, cars) = cycleRun cfg T visit e0 n
     in auto_Tick cfg (T n) (visit n) (engine_Advance (T n) e, cars))"

fun carRun :: "cycleConfig \<Rightarrow> (nat \<Rightarrow> gotime) \<Rightarrow> vehicleSim \<times> carCycle \<Rightarrow> nat \<Rightarrow> vehicleSim \<times> carCycle" where
  "carRun cfg T vc 0 = vc"
| "carRun cfg T vc (Suc n) = (let (v, c) = carRun cfg T vc n in carAuto cfg (T n) (advanceLocked (T n) v, c))"

lemma cycleRun_car:
  assumes "\<And>n. distinct (visit n) \<and> [] \<notin> set (visit n) \<and> g \<in> set (visit n)"
    and "en_vehicles e0 g = Some v" "g \<in> set (en_order e0)"
  shows "en_vehicles (fst (cycleRun cfg T visit e0 n)) g = Some (fst (carRun cfg T (v, newCarCycle) n)) \<and>
    snd (cycleRun cfg T visit e0 n) g = Some (snd (carRun cfg T (v, newCarCycle) n))"
proof (induction n)
  case 0
  then show ?case using assms(2,3) by (simp add: newAutopilot_def)
next
  case (Suc n)
  obtain e cars where ec: "cycleRun cfg T visit e0 n = (e, cars)" by fastforce
  obtain w c where wc: "carRun cfg T (v, newCarCycle) n = (w, c)" by fastforce
  have v: "en_vehicles (engine_Advance (T n) e) g = Some (advanceLocked (T n) w)" and c: "cars g = Some c"
    using Suc ec wc by (simp_all add: engine_Advance_def)
  show ?case
    using auto_Tick_car [where gs = "visit n" and e = "engine_Advance (T n) e" and cars = cars, OF _ _ _ v c] assms(1) ec wc by simp
qed

subsection \<open>The phases of a car\<close>

definition cycleOk :: "cycleConfig \<Rightarrow> bool" where
  "cycleOk cfg \<longleftrightarrow> inside 0 100 (cy_SocMin cfg) \<and> inside 0 100 (cy_SocMax cfg) \<and> flt (Fin 0) (cy_SocMin cfg) \<and>
     flt (cy_SocMin cfg) (cy_SocMax cfg) \<and> inside 1 1000000 (cy_DcKw cfg) \<and> inside 1 1000000 (cy_AcKw cfg) \<and>
     in_int64 (cy_Idle cfg) \<and> in_int64 (cy_Sleep cfg) \<and> in_int64 (cy_Update cfg)"

fun phaseCar :: "cycleConfig \<Rightarrow> carPhase \<Rightarrow> vehicleSim \<Rightarrow> bool" where
  "phaseCar cfg PhaseInit v \<longleftrightarrow> True"
| "phaseCar cfg PhaseDrive v \<longleftrightarrow> sv_scenario v = ScenarioDriving \<and> sv_driveFloor v = cy_SocMin cfg"
| "phaseCar cfg PhaseRestAfterDrive v \<longleftrightarrow> sv_scenario v = ScenarioIdle \<and> sv_battery v = cy_SocMin cfg"
| "phaseCar cfg PhaseCharge v \<longleftrightarrow> sv_scenario v \<in> {ScenarioCharging, ScenarioChargingAC} \<and> sv_chargeTarget v = cy_SocMax cfg \<and>
     flt (sv_battery v) (cy_SocMax cfg) \<and> fle (Fin 1) (sv_livePowerKw v) \<and> sv_live v \<noteq> None"
| "phaseCar cfg PhaseRestAfterCharge v \<longleftrightarrow> sv_scenario v = ScenarioIdle \<and> sv_battery v = cy_SocMax cfg"
| "phaseCar cfg PhaseSleep v \<longleftrightarrow> sv_scenario v = ScenarioAsleep"
| "phaseCar cfg PhaseUpdate v \<longleftrightarrow> sv_scenario v = ScenarioUpdate"

definition onPhase :: "cycleConfig \<Rightarrow> gotime \<Rightarrow> carPhase \<Rightarrow> int \<Rightarrow> vehicleSim \<times> carCycle \<Rightarrow> bool" where
  "onPhase cfg t p k vc \<longleftrightarrow> carOk (fst vc) \<and> ca_phase (snd vc) = p \<and> ca_cycles (snd vc) = k \<and> phaseCar cfg p (fst vc) \<and>
     sv_lastSim (fst vc) + Second \<le> t"

definition oneStep :: "cycleConfig \<Rightarrow> gotime \<Rightarrow> vehicleSim \<times> carCycle \<Rightarrow> vehicleSim \<times> carCycle" where
  "oneStep cfg now vc = carAuto cfg now (advanceLocked now (fst vc), snd vc)"

lemma carRun_Suc: "carRun cfg T vc (Suc n) = oneStep cfg (T n) (carRun cfg T vc n)"
  by (simp add: oneStep_def split: prod.split)

lemma enter_sel [simp]: "ca_phase (enter p now c) = p" "ca_since (enter p now c) = now" "ca_cycles (enter p now c) = ca_cycles c"
  by (simp_all add: enter_def)

lemma carDrive_phase:
  assumes "cycleOk cfg" "carOk v" "sv_lastSim v + Second \<le> t" "ca_cycles c = k"
  shows "onPhase cfg t PhaseDrive k (carDrive cfg now (v, c))"
proof -
  have "optsOk (zeroOpts\<lparr>so_TargetSOC := cy_SocMin cfg\<rparr>)" using assms(1) by (simp add: cycleOk_def optsOk_def zeroOpts_def)
  then show ?thesis using assms applyScenario_ok
    by (simp add: onPhase_def carDrive_def) (simp add: applyScenario_def)
qed

lemma carCharge_phase:
  assumes "cycleOk cfg" "carOk v" "sv_lastSim v + Second \<le> t" "ca_cycles c = k" "sv_battery v = cy_SocMin cfg"
  shows "onPhase cfg t PhaseCharge k (carCharge cfg now (v, c))"
proof -
  let ?kw = "if ca_useAC c then cy_AcKw cfg else cy_DcKw cfg" let ?scen = "if ca_useAC c then ScenarioChargingAC else ScenarioCharging"
  let ?opts = "\<lparr>so_TargetSOC = cy_SocMax cfg, so_PowerKw = ?kw\<rparr>" let ?v = "applyScenario ?scen ?opts v"
  obtain p where p: "?kw = Fin p" "1 \<le> p" "p \<le> 1000000" "rep p" using assms(1) unfolding cycleOk_def by (metis insideE)
  have "optsOk ?opts" using assms(1) p by (simp add: cycleOk_def optsOk_def)
  then have ok: "carOk ?v" by (rule applyScenario_ok [OF assms(2)])
  have "sv_chargeTarget ?v = cy_SocMax cfg" "sv_livePowerKw ?v = Fin p" "sv_live ?v \<noteq> None"
    using p by (auto simp: applyScenario_def startLive_def Let_def split: if_splits)
  then have "onPhase cfg t PhaseCharge k (?v, enter PhaseCharge now (c\<lparr>ca_useAC := \<not> ca_useAC c\<rparr>))"
    using assms ok p(2) by (auto simp: onPhase_def cycleOk_def)
  then show ?thesis by (cases "ca_useAC c") (simp_all add: carCharge_def)
qed

lemma carNext_phase:
  assumes "cycleOk cfg" "carOk v" "sv_lastSim v + Second \<le> t" "ca_cycles c = k" "in_int64 (k + 1)"
  shows "\<exists>p\<in>{PhaseDrive, PhaseSleep, PhaseUpdate}. onPhase cfg t p (k + 1) (carNext cfg now (v, c))"
proof -
  have z: "optsOk zeroOpts" by (simp add: optsOk_def zeroOpts_def)
  note ok = applyScenario_ok [OF assms(2) z]
  show ?thesis
    using assms(3-5) ok carDrive_phase [OF assms(1-3), of "c\<lparr>ca_cycles := k + 1\<rparr>" "k + 1" now]
    by (auto simp: carNext_def Let_def onPhase_def)
qed


subsection \<open>Steps of a phase\<close>

lemma drive_phase_step:
  assumes "cycleOk cfg" "onPhase cfg t PhaseDrive k (v, c)" "t + Second \<le> t'"
    and "sv_battery v = Fin b" "b \<le> of_int j / 2 ^ 14" "1 \<le> j" "j < 2 ^ 53"
  shows "onPhase cfg t' PhaseRestAfterDrive k (oneStep cfg t (v, c)) \<or>
    onPhase cfg t' PhaseDrive k (oneStep cfg t (v, c)) \<and> 2 \<le> j \<and>
      (\<exists>b'. sv_battery (fst (oneStep cfg t (v, c))) = Fin b' \<and> b' \<le> of_int (j - 1) / 2 ^ 14)"
proof -
  let ?w = "advanceLocked t v"
  have ph: "carOk v" "ca_phase c = PhaseDrive" "ca_cycles c = k" "sv_scenario v = ScenarioDriving" "sv_driveFloor v = cy_SocMin cfg"
    "sv_lastSim v + Second \<le> t" using assms(2) by (simp_all add: onPhase_def)
  obtain f where f: "cy_SocMin cfg = Fin f" "0 < f" using assms(1) unfolding cycleOk_def by (metis insideE flt.simps(1))
  have fl: "sv_driveFloor v = Fin f" using ph(5) f(1) by simp
  have ok: "carOk ?w" by (rule advanceLocked_ok [OF ph(1)])
  from drive_leg [OF ph(1,4) fl f(2) ph(6) assms(4-7)] show ?thesis
  proof (elim disjE conjE exE)
    assume "sv_scenario ?w = ScenarioIdle" "sv_battery ?w = Fin f"
    then show ?thesis using ph ok assms(3) f(1) by (simp add: oneStep_def carAuto_def onPhase_def Let_def)
  next
    fix b' assume "sv_scenario ?w = ScenarioDriving" "sv_driveFloor ?w = Fin f" "2 \<le> j" "sv_battery ?w = Fin b'"
      "b' \<le> of_int (j - 1) / 2 ^ 14"
    then show ?thesis using ph ok assms(3) f(1) by (simp add: oneStep_def carAuto_def onPhase_def Let_def)
  qed
qed

lemma charge_phase_step:
  assumes "cycleOk cfg" "onPhase cfg t PhaseCharge k (v, c)" "t + Second \<le> t'"
    and "sv_battery v = Fin b" "of_int j / 2 ^ 14 \<le> b" "0 \<le> j"
  shows "onPhase cfg t' PhaseRestAfterCharge k (oneStep cfg t (v, c)) \<or>
    onPhase cfg t' PhaseCharge k (oneStep cfg t (v, c)) \<and> j < 100 * 2 ^ 14 \<and>
      (\<exists>b'. sv_battery (fst (oneStep cfg t (v, c))) = Fin b' \<and> of_int (j + 1) / 2 ^ 14 \<le> b')"
proof -
  let ?w = "advanceLocked t v"
  have ph: "carOk v" "ca_phase c = PhaseCharge" "ca_cycles c = k" "sv_scenario v \<in> {ScenarioCharging, ScenarioChargingAC}"
    "sv_chargeTarget v = cy_SocMax cfg" "flt (sv_battery v) (cy_SocMax cfg)" "fle (Fin 1) (sv_livePowerKw v)" "sv_live v \<noteq> None"
    "sv_lastSim v + Second \<le> t" using assms(2) by (simp_all add: onPhase_def)
  obtain m where m: "cy_SocMax cfg = Fin m" "m \<le> 100" "0 < m"
  proof -
    obtain x y where "cy_SocMin cfg = Fin x" "0 \<le> x" "cy_SocMax cfg = Fin y" "y \<le> 100"
      using assms(1) unfolding cycleOk_def by (metis insideE)
    then show thesis using that [of y] assms(1) by (simp add: cycleOk_def)
  qed
  have tg: "sv_chargeTarget v = Fin m" "b < m" using ph(5,6) m(1) assms(4) by simp_all
  have "of_int j / 2 ^ 14 < (100 :: real)" using tg(2) assms(5) m(2) by linarith
  then have j: "j < 100 * 2 ^ 14" by (simp add: divide_less_eq)
  then have j53: "j + 1 < 2 ^ 53" by simp
  have ok: "carOk ?w" by (rule advanceLocked_ok [OF ph(1)])
  from charge_leg [OF ph(1,4) tg(1) m(3) ph(7,8,9) assms(4) tg(2) assms(5,6) j53] show ?thesis
  proof (elim disjE conjE exE)
    assume "sv_scenario ?w = ScenarioIdle" "sv_battery ?w = Fin m"
    then show ?thesis using ph(2,3) ok assms(3) m(1) by (simp add: oneStep_def carAuto_def onPhase_def Let_def)
  next
    fix b' assume "sv_scenario ?w = sv_scenario v" "sv_chargeTarget ?w = Fin m" "sv_livePowerKw ?w = sv_livePowerKw v"
      "sv_live ?w \<noteq> None" "sv_battery ?w = Fin b'" "b' < m" "of_int (j + 1) / 2 ^ 14 \<le> b'"
    then show ?thesis using ph(2-4,7) ok assms(3) j m(1) by (auto simp: oneStep_def carAuto_def onPhase_def Let_def)
  qed
qed

text \<open>How long a phase that only waits lasts, and where it leads.\<close>

fun phaseWait :: "cycleConfig \<Rightarrow> carPhase \<Rightarrow> duration" where
  "phaseWait cfg PhaseSleep = cy_Sleep cfg"
| "phaseWait cfg PhaseUpdate = cy_Update cfg"
| "phaseWait cfg _ = cy_Idle cfg"

definition waits :: "carPhase \<Rightarrow> bool" where
  "waits p \<longleftrightarrow> p \<in> {PhaseRestAfterDrive, PhaseRestAfterCharge, PhaseSleep, PhaseUpdate}"

definition afterWait :: "cycleConfig \<Rightarrow> gotime \<Rightarrow> carPhase \<Rightarrow> int \<Rightarrow> vehicleSim \<times> carCycle \<Rightarrow> bool" where
  "afterWait cfg t p k vc \<longleftrightarrow>
     (if p = PhaseRestAfterDrive then onPhase cfg t PhaseCharge k vc
      else if p = PhaseRestAfterCharge then \<exists>q\<in>{PhaseDrive, PhaseSleep, PhaseUpdate}. onPhase cfg t q (k + 1) vc
      else onPhase cfg t PhaseDrive k vc)"

lemma asleep_leg: "sv_scenario v = ScenarioAsleep \<Longrightarrow> advanceLocked now v = v\<lparr>sv_lastSim := now\<rparr>"
  by (simp add: advanceLocked_alt Let_def)

lemma update_leg: "sv_scenario v = ScenarioUpdate \<Longrightarrow> sv_scenario (advanceLocked now v) = ScenarioUpdate"
  by (simp add: advanceLocked_alt Let_def updateStep_def)

lemma wait_phase_step:
  assumes "cycleOk cfg" "waits p" "onPhase cfg t p k (v, c)" "t + Second \<le> t'" "in_int64 (k + 1)"
  shows "(if phaseWait cfg p \<le> time_sub t (ca_since c) then afterWait cfg t' p k (oneStep cfg t (v, c))
    else onPhase cfg t' p k (oneStep cfg t (v, c)) \<and> snd (oneStep cfg t (v, c)) = c)"
proof -
  let ?w = "advanceLocked t v"
  have ph: "carOk v" "ca_phase c = p" "ca_cycles c = k" "phaseCar cfg p v" using assms(3) by (simp_all add: onPhase_def)
  have ok: "carOk ?w" by (rule advanceLocked_ok [OF ph(1)])
  have last: "sv_lastSim ?w + Second \<le> t'" using assms(4) by simp
  note D = carDrive_phase [OF assms(1) ok last ph(3), of t] and C = carCharge_phase [OF assms(1) ok last ph(3), of t]
    and N = carNext_phase [OF assms(1) ok last ph(3) assms(5), of t]
  have stay: "phaseCar cfg p ?w"
    using assms(2) ph(4) idle_leg [of v t] asleep_leg [of v t] update_leg [of v t] by (auto simp: waits_def)
  consider "p = PhaseRestAfterDrive" | "p = PhaseRestAfterCharge" | "p = PhaseSleep" | "p = PhaseUpdate"
    using assms(2) by (auto simp: waits_def)
  then show ?thesis
  proof cases
    case 1
    then show ?thesis using stay ok last ph C by (auto simp: afterWait_def oneStep_def carAuto_def Let_def onPhase_def)
  next
    case 2
    then show ?thesis using stay ok last ph N by (auto simp: afterWait_def oneStep_def carAuto_def Let_def onPhase_def)
  next
    case 3
    then show ?thesis using stay ok last ph D by (auto simp: afterWait_def oneStep_def carAuto_def Let_def onPhase_def)
  next
    case 4
    then show ?thesis using stay ok last ph D by (auto simp: afterWait_def oneStep_def carAuto_def Let_def onPhase_def)
  qed
qed

subsection \<open>Every phase is left\<close>

definition reaches :: "cycleConfig \<Rightarrow> (nat \<Rightarrow> gotime) \<Rightarrow> vehicleSim \<times> carCycle \<Rightarrow> carPhase \<Rightarrow> int \<Rightarrow> bool" where
  "reaches cfg T vc p k \<longleftrightarrow> (\<exists>n. onPhase cfg (T n) p k (carRun cfg T vc n))"

lemma reachesI: "onPhase cfg (T (Suc n)) p k (oneStep cfg (T n) (carRun cfg T vc n)) \<Longrightarrow> reaches cfg T vc p k"
  unfolding reaches_def by (intro exI [of _ "Suc n"]) (simp only: carRun_Suc)

definition paced :: "(nat \<Rightarrow> gotime) \<Rightarrow> bool" where
  "paced T \<longleftrightarrow> (\<forall>n. T n + Second \<le> T (Suc n))"

lemma pacedD: "paced T \<Longrightarrow> T n + Second \<le> T (Suc n)"
  by (simp add: paced_def)

lemma drive_ends:
  assumes "cycleOk cfg" "paced T" "reaches cfg T vc PhaseDrive k" shows "reaches cfg T vc PhaseRestAfterDrive k"
proof -
  have go: "reaches cfg T vc PhaseRestAfterDrive k"
    if "onPhase cfg (T n) PhaseDrive k (v, c)" "carRun cfg T vc n = (v, c)" "sv_battery v = Fin b" "b \<le> of_int j / 2 ^ 14"
      "1 \<le> j" "j < 2 ^ 53" for n v c b j
    using that
  proof (induction "nat j" arbitrary: n v c b j rule: less_induct)
    case less
    let ?s = "oneStep cfg (T n) (v, c)"
    note run = carRun_Suc [of cfg T vc n, unfolded less.prems(2)]
    from drive_phase_step [OF assms(1) less.prems(1) pacedD [OF assms(2)] less.prems(3-6)] show ?case
    proof (elim disjE conjE exE)
      assume "onPhase cfg (T (Suc n)) PhaseRestAfterDrive k ?s"
      then show ?thesis using reachesI [of cfg T n _ _ vc] less.prems(2) by simp
    next
      fix b' assume a: "onPhase cfg (T (Suc n)) PhaseDrive k ?s" "2 \<le> j" "sv_battery (fst ?s) = Fin b'"
        "b' \<le> of_int (j - 1) / 2 ^ 14"
      show ?thesis
        using less.hyps [of "j - 1" "Suc n" "fst ?s" "snd ?s" b'] a less.prems(6) run by simp
    qed
  qed
  obtain n where n: "onPhase cfg (T n) PhaseDrive k (carRun cfg T vc n)" using assms(3) by (auto simp: reaches_def)
  obtain v c where vc: "carRun cfg T vc n = (v, c)" by fastforce
  have on: "onPhase cfg (T n) PhaseDrive k (v, c)" using n vc by simp
  obtain b where b: "sv_battery v = Fin b" "b \<le> 100" using on unfolding onPhase_def carOk_def by (metis insideE fst_conv)
  show ?thesis using go [OF on vc b(1), of "100 * 2 ^ 14"] b(2) by simp
qed

lemma charge_ends:
  assumes "cycleOk cfg" "paced T" "reaches cfg T vc PhaseCharge k" shows "reaches cfg T vc PhaseRestAfterCharge k"
proof -
  have go: "reaches cfg T vc PhaseRestAfterCharge k"
    if "onPhase cfg (T n) PhaseCharge k (v, c)" "carRun cfg T vc n = (v, c)" "sv_battery v = Fin b" "of_int j / 2 ^ 14 \<le> b"
      "0 \<le> j" for n v c b j
    using that
  proof (induction "nat (100 * 2 ^ 14 - j)" arbitrary: n v c b j rule: less_induct)
    case less
    let ?s = "oneStep cfg (T n) (v, c)"
    note run = carRun_Suc [of cfg T vc n, unfolded less.prems(2)]
    from charge_phase_step [OF assms(1) less.prems(1) pacedD [OF assms(2)] less.prems(3-5)] show ?case
    proof (elim disjE conjE exE)
      assume "onPhase cfg (T (Suc n)) PhaseRestAfterCharge k ?s"
      then show ?thesis using reachesI [of cfg T n _ _ vc] less.prems(2) by simp
    next
      fix b' assume a: "onPhase cfg (T (Suc n)) PhaseCharge k ?s" "j < 100 * 2 ^ 14" "sv_battery (fst ?s) = Fin b'"
        "of_int (j + 1) / 2 ^ 14 \<le> b'"
      show ?thesis
        using less.hyps [of "j + 1" "Suc n" "fst ?s" "snd ?s" b'] a less.prems(5) run by simp
    qed
  qed
  obtain n where n: "onPhase cfg (T n) PhaseCharge k (carRun cfg T vc n)" using assms(3) by (auto simp: reaches_def)
  obtain v c where vc: "carRun cfg T vc n = (v, c)" by fastforce
  have on: "onPhase cfg (T n) PhaseCharge k (v, c)" using n vc by simp
  obtain b where b: "sv_battery v = Fin b" "0 \<le> b" using on unfolding onPhase_def carOk_def by (metis insideE fst_conv)
  show ?thesis using go [OF on vc b(1), of 0] b(2) by simp
qed

lemma unrested: "\<not> d \<le> time_sub t u \<Longrightarrow> in_int64 d \<Longrightarrow> t - u < d"
  by (auto simp: time_sub_def in_int64_def split: if_splits)

lemma wait_ends:
  assumes "cycleOk cfg" "paced T" "waits p" "reaches cfg T vc p k" "in_int64 (k + 1)"
  shows "\<exists>n. afterWait cfg (T n) p k (carRun cfg T vc n)"
proof -
  have d: "in_int64 (phaseWait cfg p)" using assms(1) by (cases p) (simp_all add: cycleOk_def)
  have go: "\<exists>n. afterWait cfg (T n) p k (carRun cfg T vc n)"
    if "onPhase cfg (T n) p k (v, c)" "carRun cfg T vc n = (v, c)" for n v c
    using that
  proof (induction "nat (phaseWait cfg p - (T n - ca_since c))" arbitrary: n v rule: less_induct)
    case less
    let ?s = "oneStep cfg (T n) (v, c)"
    note run = carRun_Suc [of cfg T vc n, unfolded less.prems(2)]
    note step = wait_phase_step [OF assms(1,3) less.prems(1) pacedD [OF assms(2)] assms(5)]
    show ?case
    proof (cases "phaseWait cfg p \<le> time_sub (T n) (ca_since c)")
      case True
      then show ?thesis using step run by metis
    next
      case False
      then have s: "onPhase cfg (T (Suc n)) p k ?s" "snd ?s = c" using step by simp_all
      have "nat (phaseWait cfg p - (T (Suc n) - ca_since c)) < nat (phaseWait cfg p - (T n - ca_since c))"
        using unrested [OF False d] pacedD [OF assms(2), of n] by simp
      from less.hyps [OF this, of "fst ?s"] show ?thesis using s run by (metis prod.collapse)
    qed
  qed
  obtain n where n: "onPhase cfg (T n) p k (carRun cfg T vc n)" using assms(4) by (auto simp: reaches_def)
  obtain v c where "carRun cfg T vc n = (v, c)" by fastforce
  then show ?thesis using go [of n v c] n by simp
qed

lemma wait_leads:
  assumes "cycleOk cfg" "paced T" "in_int64 (k + 1)"
  shows "reaches cfg T vc PhaseRestAfterDrive k \<Longrightarrow> reaches cfg T vc PhaseCharge k"
    and "reaches cfg T vc PhaseRestAfterCharge k \<Longrightarrow> \<exists>q\<in>{PhaseDrive, PhaseSleep, PhaseUpdate}. reaches cfg T vc q (k + 1)"
    and "reaches cfg T vc PhaseSleep k \<Longrightarrow> reaches cfg T vc PhaseDrive k"
    and "reaches cfg T vc PhaseUpdate k \<Longrightarrow> reaches cfg T vc PhaseDrive k"
  using wait_ends [OF assms(1,2), of PhaseRestAfterDrive vc k] wait_ends [OF assms(1,2), of PhaseRestAfterCharge vc k]
    wait_ends [OF assms(1,2), of PhaseSleep vc k] wait_ends [OF assms(1,2), of PhaseUpdate vc k] assms(3)
  unfolding waits_def afterWait_def reaches_def by simp_all blast

lemma one_cycle:
  assumes "cycleOk cfg" "paced T" "in_int64 (k + 2)" "0 \<le> k" "reaches cfg T vc PhaseDrive k"
  shows "reaches cfg T vc PhaseDrive (k + 1)"
proof -
  have k: "in_int64 (k + 1)" "in_int64 (k + 1 + 1)" using assms(3,4) by (simp_all add: in_int64_def minInt64_def algebra_simps)
  have "reaches cfg T vc PhaseRestAfterCharge k"
    using assms(5) drive_ends [OF assms(1,2)] wait_leads(1) [OF assms(1,2) k(1)] charge_ends [OF assms(1,2)] by blast
  from wait_leads(2) [OF assms(1,2) k(1) this] show ?thesis
    using wait_leads(3,4) [OF assms(1,2) k(2)] by blast
qed

text \<open>
  Where a car is at one moment: what it leads to comes later, as the run goes on from there at the
  moments that are left.
\<close>

definition stands :: "cycleConfig \<Rightarrow> (nat \<Rightarrow> gotime) \<Rightarrow> vehicleSim \<times> carCycle \<Rightarrow> nat \<Rightarrow> carPhase \<Rightarrow> int \<Rightarrow> bool" where
  "stands cfg T vc n p k \<longleftrightarrow> onPhase cfg (T n) p k (carRun cfg T vc n)"

lemma reaches_stands: "reaches cfg T vc p k \<longleftrightarrow> (\<exists>n. stands cfg T vc n p k)"
  by (simp add: reaches_def stands_def)

lemma carRun_shift: "carRun cfg T vc (n + m) = carRun cfg (\<lambda>i. T (n + i)) (carRun cfg T vc n) m"
  by (induction m) (simp_all only: add_0_right add_Suc_right carRun_Suc carRun.simps)

lemma paced_shift: "paced T \<Longrightarrow> paced (\<lambda>i. T (n + i))"
  by (simp add: paced_def)

lemma leads_later:
  assumes "paced T" and "stands cfg T vc n p k" and "(p, k) \<noteq> (q, j)"
    and lead: "\<And>T vc. paced T \<Longrightarrow> reaches cfg T vc p k \<Longrightarrow> reaches cfg T vc q j"
  shows "\<exists>n'>n. stands cfg T vc n' q j"
proof -
  let ?T = "\<lambda>i. T (n + i)" and ?vc = "carRun cfg T vc n"
  have "stands cfg ?T ?vc 0 p k" using assms(2) by (simp add: stands_def)
  then have "reaches cfg ?T ?vc p k" unfolding reaches_stands by blast
  from lead [OF paced_shift [OF assms(1)] this] have "\<exists>m. stands cfg ?T ?vc m q j" unfolding reaches_stands .
  then obtain m where m: "stands cfg ?T ?vc m q j" by blast
  then have s: "stands cfg T vc (n + m) q j" by (simp add: stands_def carRun_shift)
  have "m \<noteq> 0"
  proof
    assume "m = 0"
    then have "stands cfg T vc n q j" using s by simp
    then show False using assms(2,3) by (auto simp: stands_def onPhase_def)
  qed
  then show ?thesis using s by (intro exI [of _ "n + m"]) simp
qed

text \<open>One cycle, phase by phase.\<close>

lemma cycle_phases:
  assumes "cycleOk cfg" "paced T" "in_int64 (k + 2)" "0 \<le> k" "stands cfg T vc n1 PhaseDrive k"
  shows "\<exists>n2>n1. stands cfg T vc n2 PhaseRestAfterDrive k \<and> (\<exists>n3>n2. stands cfg T vc n3 PhaseCharge k \<and>
    (\<exists>n4>n3. stands cfg T vc n4 PhaseRestAfterCharge k \<and> (\<exists>n5>n4. stands cfg T vc n5 PhaseDrive (k + 1))))"
proof -
  have k: "in_int64 (k + 1)" "in_int64 (k + 1 + 1)" using assms(3,4) by (simp_all add: in_int64_def minInt64_def algebra_simps)
  have next_drive: "reaches cfg T' vc' PhaseDrive (k + 1)" if "paced T'" "reaches cfg T' vc' PhaseRestAfterCharge k" for T' vc'
    using wait_leads(2) [OF assms(1) that(1) k(1) that(2)] wait_leads(3,4) [OF assms(1) that(1) k(2)] by blast
  obtain n2 where 2: "n1 < n2" "stands cfg T vc n2 PhaseRestAfterDrive k"
    using leads_later [OF assms(2,5), of PhaseRestAfterDrive k] drive_ends [OF assms(1)] by auto
  obtain n3 where 3: "n2 < n3" "stands cfg T vc n3 PhaseCharge k"
    using leads_later [OF assms(2) 2(2), of PhaseCharge k] wait_leads(1) [OF assms(1) _ k(1)] by auto
  obtain n4 where 4: "n3 < n4" "stands cfg T vc n4 PhaseRestAfterCharge k"
    using leads_later [OF assms(2) 3(2), of PhaseRestAfterCharge k] charge_ends [OF assms(1)] by auto
  obtain n5 where 5: "n4 < n5" "stands cfg T vc n5 PhaseDrive (k + 1)"
    using leads_later [OF assms(2) 4(2), of PhaseDrive "k + 1"] next_drive by auto
  show ?thesis using 2 3 4 5 by blast
qed

lemma cycles_reached:
  assumes "cycleOk cfg" "paced T" "reaches cfg T vc PhaseDrive 0" "int n \<le> maxInt64 - 2"
  shows "reaches cfg T vc PhaseDrive (int n)"
  using assms(4)
proof (induction n)
  case 0
  then show ?case using assms(3) by simp
next
  case (Suc n)
  have "in_int64 (int n + 2)" "int n \<le> maxInt64 - 2" using Suc.prems by (simp_all add: in_int64_def minInt64_def)
  then show ?case using one_cycle [OF assms(1,2), of "int n"] Suc.IH by (simp add: add.commute)
qed

lemma first_drive:
  assumes "cycleOk cfg" "paced T" "carOk v" shows "reaches cfg T (v, newCarCycle) PhaseDrive 0"
proof (rule reachesI [of _ _ 0])
  have "onPhase cfg (T (Suc 0)) PhaseDrive 0 (carDrive cfg (T 0) (advanceLocked (T 0) v, newCarCycle))"
    using carDrive_phase [OF assms(1) advanceLocked_ok [OF assms(3)], of "T 0" "T (Suc 0)"] pacedD [OF assms(2), of 0]
    by (simp add: newCarCycle_def)
  then show "onPhase cfg (T (Suc 0)) PhaseDrive 0 (oneStep cfg (T 0) (carRun cfg T (v, newCarCycle) 0))"
    by (simp add: oneStep_def carAuto_def newCarCycle_def)
qed

end
