(* ===== verification/MockClaims.thy ===== *)
theory MockClaims
  imports MockCycle
begin

section \<open>Properties of the simulated cars\<close>

text \<open>
  Simulated cars over any run of clock steps and scenario switches, the legs they drive and charge, the cycles of the
  autopilot, and the samples of a generated history.
\<close>

subsection \<open>Plausible cars\<close>

datatype simEvent = SimAdvance gotime | SimSwitch string string scenarioOpts

fun runSim :: "simEvent \<Rightarrow> engine \<Rightarrow> engine" where
  "runSim (SimAdvance now) e = engine_Advance now e"
| "runSim (SimSwitch name guid opts) e = snd (setScenarioOpts name guid opts e)"

fun eventOk :: "simEvent \<Rightarrow> bool" where
  "eventOk (SimAdvance now) \<longleftrightarrow> True"
| "eventOk (SimSwitch name guid opts) \<longleftrightarrow> optsOk opts"

definition carsOk :: "engine \<Rightarrow> bool" where
  "carsOk e \<longleftrightarrow> (\<forall>g v. en_vehicles e g = Some v \<longrightarrow> carOk v)"

text \<open>What one event makes of one car.\<close>

lemma simEvent_car:
  assumes "en_vehicles e g = Some v"
  shows "\<exists>v'. en_vehicles (runSim ev e) g = Some v' \<and>
    (v' = v \<or> (\<exists>now. ev = SimAdvance now \<and> v' = advanceLocked now v) \<or>
     (\<exists>name guid opts. ev = SimSwitch name guid opts \<and> v' = applyScenario name opts v))"
  using assms by (cases ev) (auto simp: engine_Advance_def setScenarioOpts_def split: option.split)

lemma simEvent_unknown: "en_vehicles e g = None \<Longrightarrow> en_vehicles (runSim ev e) g = None"
  by (cases ev) (auto simp: engine_Advance_def setScenarioOpts_def split: option.split)

lemma simEvent_ok:
  assumes "carsOk e" "eventOk ev" shows "carsOk (runSim ev e)"
  unfolding carsOk_def
proof (intro allI impI)
  fix g w assume w: "en_vehicles (runSim ev e) g = Some w"
  then obtain v where v: "en_vehicles e g = Some v" using simEvent_unknown [of e g ev] by fastforce
  have "carOk v" using assms(1) v by (simp add: carsOk_def)
  then show "carOk w" using simEvent_car [OF v, of ev] w assms(2) advanceLocked_ok applyScenario_ok by auto
qed

lemma simEvents_ok: "carsOk e \<Longrightarrow> \<forall>ev\<in>set evs. eventOk ev \<Longrightarrow> carsOk (fold runSim evs e)"
  by (induction evs arbitrary: e) (simp_all add: simEvent_ok)

lemma newSim_ok: "i \<le> 14 \<Longrightarrow> carOk (newSim i sp start)"
proof -
  assume i: "i \<le> 14"
  have r: "i2f (int i) = Fin (of_int (int i))" using i by (intro i2f_exact) simp
  have 1: "round64 (of_int (int i * 1000000)) = Fin (of_int (int i * 1000000))" using i by (intro round64_of_int) simp
  have 2: "round64 (of_int (20000000 + int i * 1000000)) = Fin (of_int (20000000 + int i * 1000000))"
    using i by (intro round64_of_int) simp
  have 3: "round64 (of_int (int i * 5)) = Fin (of_int (int i * 5))" using i by (intro round64_of_int) simp
  have 4: "round64 (of_int (72 - int i * 5)) = Fin (of_int (72 - int i * 5))" using i by (intro round64_of_int) simp
  have m: "sv_mileageM (newSim i sp start) = Fin (of_int (20000000 + int i * 1000000))"
    using 1 2 by (simp add: newSim_def r round64_num)
  have b: "sv_battery (newSim i sp start) = Fin (of_int (72 - int i * 5))"
    using 3 4 by (simp add: newSim_def r round64_num fsub_def)
  have "rep (of_int (20000000 + int i * 1000000))" "rep (of_int (72 - int i * 5))" using i by (intro rep_int; simp)+
  then show ?thesis unfolding carOk_def m b using i by (simp add: newSim_def)
qed

lemma seedVehicles_ok: "carsOk e \<Longrightarrow> i + length specs \<le> 15 \<Longrightarrow> carsOk (seedVehicles i specs e)"
proof (induction i specs e rule: seedVehicles.induct)
  case (2 i sp sps e)
  have "carsOk (e\<lparr>en_vehicles := (en_vehicles e)(vp_GUID sp \<mapsto> newSim i sp (en_simStart e)), en_order := en_order e @ [vp_GUID sp]\<rparr>)"
    using 2(2,3) newSim_ok [of i] by (auto simp: carsOk_def)
  then show ?case using 2 by simp
qed simp

lemma newEngine_ok: "length specs \<le> 15 \<Longrightarrow> carsOk (newEngine specs ts backfill now)"
  unfolding newEngine_def by (rule seedVehicles_ok) (simp_all add: carsOk_def)

text \<open>A charging car has its session.\<close>

definition sessionOk :: "vehicleSim \<Rightarrow> bool" where
  "sessionOk v \<longleftrightarrow> (sv_scenario v \<in> {ScenarioCharging, ScenarioChargingAC} \<longrightarrow> sv_live v \<noteq> None)"

lemma driveStep_session: "sv_scenario v = ScenarioDriving \<Longrightarrow> sessionOk (driveStep dt v)"
  by (simp add: sessionOk_def driveStep_def Let_def)

lemma chargeStep_session: "sessionOk v \<Longrightarrow> sessionOk (chargeStep dt v)"
  by (cases "sv_live v") (simp_all add: sessionOk_def chargeStep_def Let_def)

lemma updateStep_session: "sessionOk v \<Longrightarrow> sessionOk (updateStep v)"
  by (simp add: sessionOk_def updateStep_def Let_def)

lemma advanceLocked_session:
  assumes "sessionOk v" shows "sessionOk (advanceLocked now v)"
proof -
  have "sessionOk (v\<lparr>sv_lastSim := now\<rparr>)" using assms by (simp add: sessionOk_def)
  then show ?thesis
    unfolding advanceLocked_alt Let_def by (auto intro: chargeStep_session updateStep_session driveStep_session)
qed

lemma applyScenario_session: "sessionOk (applyScenario name opts v)"
  by (simp add: sessionOk_def applyScenario_def startLive_def Let_def)

lemma simEvents_session:
  "\<forall>g v. en_vehicles e g = Some v \<longrightarrow> sessionOk v \<Longrightarrow>
   \<forall>g v. en_vehicles (fold runSim evs e) g = Some v \<longrightarrow> sessionOk v"
proof (induction evs arbitrary: e)
  case (Cons ev evs)
  have "sessionOk w" if w: "en_vehicles (runSim ev e) g = Some w" for g w
  proof -
    obtain v where v: "en_vehicles e g = Some v" using simEvent_unknown [of e g ev] w by fastforce
    then have "sessionOk v" using Cons.prems by blast
    then show ?thesis using simEvent_car [OF v, of ev] w advanceLocked_session applyScenario_session by auto
  qed
  then show ?case using Cons.IH [of "runSim ev e"] by simp
qed simp

lemma seedVehicles_session:
  "\<forall>g v. en_vehicles e g = Some v \<longrightarrow> sessionOk v \<Longrightarrow>
   \<forall>g v. en_vehicles (seedVehicles i specs e) g = Some v \<longrightarrow> sessionOk v"
proof (induction i specs e rule: seedVehicles.induct)
  case (2 i sp sps e)
  have "sessionOk (newSim i sp (en_simStart e))" by (simp add: sessionOk_def newSim_def)
  then show ?case unfolding seedVehicles.simps by (intro "2.IH") (use "2.prems" in \<open>simp add: fun_upd_def\<close>)
qed simp

lemma newEngine_session: "\<forall>g v. en_vehicles (newEngine specs ts backfill now) g = Some v \<longrightarrow> sessionOk v"
  unfolding newEngine_def by (rule seedVehicles_session) simp

text \<open>A second or more moves the charge of a car that drives or charges.\<close>

lemma drive_falls:
  assumes "carOk v" "sv_scenario v = ScenarioDriving" "sv_lastSim v + Second \<le> now"
    and "flt (sv_driveFloor v) (sv_battery v)" "flt (Fin 0) (sv_battery v)"
  shows "flt (sv_battery (advanceLocked now v)) (sv_battery v)"
proof -
  let ?w = "v\<lparr>sv_lastSim := now\<rparr>"
  obtain d where d: "stepTime now v = Fin d" "1 \<le> d" "d \<le> 2 ^ 34" using stepTime_second [OF assms(3)] .
  have w: "carOk ?w" and d0: "0 \<le> d" using assms(1) d(2) by (simp_all add: carOk_def)
  obtain m b where wb: "sv_mileageM ?w = Fin m" "sv_battery ?w = Fin b" "b \<le> 100"
    using w unfolding carOk_def by (metis insideE)
  obtain f where f: "sv_driveFloor v = Fin f" using assms(1) unfolding carOk_def by (metis insideE)
  have mb: "sv_mileageM ?w = Fin m" "sv_battery ?w = Fin b" "sv_driveFloor v = Fin f" "b \<le> 100" "sv_battery v = Fin b"
    using wb f by simp_all
  define k where "k = \<lceil>b * 2 ^ 14\<rceil>"
  have b0: "0 < b" "f < b" using assms(4,5) mb by simp_all
  have k: "b \<le> of_int k / 2 ^ 14" "of_int (k - 1) / 2 ^ 14 < b" "1 \<le> k" "k < 2 ^ 53"
    using b0 mb(4) by (auto simp: k_def pos_le_divide_eq pos_divide_less_eq ceiling_less_iff less_ceiling_iff) linarith+
  obtain b' where b': "sv_battery (driveLocked (Fin d) ?w) = Fin b'" "b' \<le> of_int (k - 1) / 2 ^ 14"
    by (rule driveLocked_effect [OF w d0 d(3) mb(1,2)]) (use d(2) k in blast)
  have "advanceLocked now v = driveStep (Fin d) ?w" by (simp add: advanceLocked_alt assms(2) d(1) Let_def)
  then show ?thesis using b' k(2) b0 mb by (auto simp: driveStep_def Let_def)
qed

lemma charge_rises:
  assumes "carOk v" "sessionOk v" "sv_scenario v \<in> {ScenarioCharging, ScenarioChargingAC}" "sv_lastSim v + Second \<le> now"
    and "fle (Fin 1) (sv_livePowerKw v)" "flt (sv_battery v) (chargeLimit v)"
  shows "flt (sv_battery v) (sv_battery (advanceLocked now v))"
proof -
  let ?w = "v\<lparr>sv_lastSim := now\<rparr>"
  obtain d where d: "stepTime now v = Fin d" "1 \<le> d" "d \<le> 2 ^ 34" using stepTime_second [OF assms(4)] .
  have w: "carOk ?w" and d0: "0 \<le> d" using assms(1) d(2) by (simp_all add: carOk_def)
  obtain l where l: "sv_live ?w = Some l" using assms(2,3) by (auto simp: sessionOk_def)
  obtain b t where bt: "sv_battery ?w = Fin b" "chargeLimit ?w = Fin t" "0 \<le> b" "b \<le> 100"
    using w chargeLimit_ok [OF w] unfolding carOk_def by (metis insideE)
  have lim: "chargeLimit ?w = chargeLimit v" by (simp add: chargeLimit_def)
  have less: "b < t" using assms(6) bt lim by simp
  define k where "k = \<lfloor>b * 2 ^ 14\<rfloor>"
  have k: "of_int k / 2 ^ 14 \<le> b" "b < of_int (k + 1) / 2 ^ 14" "0 \<le> k" "k + 1 < 2 ^ 53"
    using bt(3,4) by (auto simp: k_def pos_le_divide_eq pos_divide_le_eq pos_less_divide_eq floor_less_iff)
  have adv: "advanceLocked now v = chargeStep (Fin d) ?w" using assms(3) by (auto simp: advanceLocked_alt d(1) Let_def)
  obtain b' where "sv_battery (chargeStep (Fin d) ?w) = Fin b'" "b' = t \<or> of_int (k + 1) / 2 ^ 14 \<le> b'"
    by (rule chargeStep_effect [OF w d0 d(3) l bt(1,2) less]) (use assms(5) d(2) k in simp)
  then show ?thesis using bt(1) less k(2) by (auto simp: adv)
qed

text \<open>
  C39: up to fifteen cars stay plausible. Whatever the clock and whoever switches scenarios, with targets that are
  percentages and chargers of at most a gigawatt, every car's charge stays between 0 and 100 and its odometer a number
  not below zero, and the next event, a step of time or a switch, never turns the odometer back. A step of time moves
  the charge of a driving car that is not below its floor only down, and if it takes at least a second and there is
  charge above the floor, down it goes; that of a charging car only up, and if it takes at least a second with at least
  a kilowatt and the car is below its limit, up it goes; and that of any other car not at all. A switch never moves it.
\<close>

theorem cars_stay_plausible:
  assumes "length specs \<le> 15" and "\<forall>ev\<in>set evs. eventOk ev"
    and "en_vehicles (fold runSim evs (newEngine specs ts backfill start)) g = Some v"
  shows "(\<exists>b m. sv_battery v = Fin b \<and> 0 \<le> b \<and> b \<le> 100 \<and> sv_mileageM v = Fin m \<and> 0 \<le> m) \<and>
    (\<forall>ev. \<exists>v'. en_vehicles (runSim ev (fold runSim evs (newEngine specs ts backfill start))) g = Some v' \<and>
       fle (sv_mileageM v) (sv_mileageM v') \<and>
       (case ev of
          SimAdvance now \<Rightarrow>
            if sv_scenario v = ScenarioDriving then
              (fle (sv_driveFloor v) (sv_battery v) \<longrightarrow> fle (sv_battery v') (sv_battery v)) \<and>
              (sv_lastSim v + Second \<le> now \<and> flt (sv_driveFloor v) (sv_battery v) \<and> flt (Fin 0) (sv_battery v) \<longrightarrow>
                 flt (sv_battery v') (sv_battery v))
            else if sv_scenario v \<in> {ScenarioCharging, ScenarioChargingAC} then
              fle (sv_battery v) (sv_battery v') \<and>
              (sv_lastSim v + Second \<le> now \<and> fle (Fin 1) (sv_livePowerKw v) \<and> flt (sv_battery v) (chargeLimit v) \<longrightarrow>
                 flt (sv_battery v) (sv_battery v'))
            else sv_battery v' = sv_battery v
        | SimSwitch _ _ _ \<Rightarrow> sv_battery v' = sv_battery v))"
proof -
  let ?e = "fold runSim evs (newEngine specs ts backfill start)"
  have ok: "carOk v" using simEvents_ok [OF newEngine_ok [OF assms(1)] assms(2)] assms(3) by (auto simp: carsOk_def)
  have live: "sessionOk v" using simEvents_session [OF newEngine_session] assms(3) by blast
  obtain b m where bm: "sv_battery v = Fin b" "0 \<le> b" "b \<le> 100" "sv_mileageM v = Fin m" "0 \<le> m"
    using ok unfolding carOk_def by (metis insideE)
  have "\<exists>v'. en_vehicles (runSim ev ?e) g = Some v' \<and> fle (sv_mileageM v) (sv_mileageM v') \<and>
       (case ev of
          SimAdvance now \<Rightarrow>
            if sv_scenario v = ScenarioDriving then
              (fle (sv_driveFloor v) (sv_battery v) \<longrightarrow> fle (sv_battery v') (sv_battery v)) \<and>
              (sv_lastSim v + Second \<le> now \<and> flt (sv_driveFloor v) (sv_battery v) \<and> flt (Fin 0) (sv_battery v) \<longrightarrow>
                 flt (sv_battery v') (sv_battery v))
            else if sv_scenario v \<in> {ScenarioCharging, ScenarioChargingAC} then
              fle (sv_battery v) (sv_battery v') \<and>
              (sv_lastSim v + Second \<le> now \<and> fle (Fin 1) (sv_livePowerKw v) \<and> flt (sv_battery v) (chargeLimit v) \<longrightarrow>
                 flt (sv_battery v) (sv_battery v'))
            else sv_battery v' = sv_battery v
        | SimSwitch _ _ _ \<Rightarrow> sv_battery v' = sv_battery v)" for ev
  proof (cases ev)
    case (SimAdvance now)
    have "en_vehicles (runSim ev ?e) g = Some (advanceLocked now v)" using assms(3) SimAdvance by (simp add: engine_Advance_def)
    then show ?thesis
      using advanceLocked_mono [OF ok, of now] drive_falls [OF ok, of now] charge_rises [OF ok live, of now] SimAdvance by simp
  next
    case (SimSwitch name guid opts)
    then show ?thesis using simEvent_car [OF assms(3), of ev] bm by auto
  qed
  then show ?thesis using bm by blast
qed

definition oneCar :: vehicleSpec where
  "oneCar = \<lparr>vp_GUID = ''car'', vp_VIN = ''V'', vp_Name = ''Car'', vp_Model = ''R1T'', vp_Make = []\<rparr>"

lemma cars_stay_plausible_witness:
  "\<exists>v. en_vehicles (fold runSim [SimSwitch ''driving'' ''car'' zeroOpts, SimAdvance (60 * Second)]
      (newEngine [oneCar] (Fin 1) 0 0)) ''car'' = Some v \<and> sv_scenario v = ScenarioDriving \<and>
     (\<exists>b. sv_battery v = Fin b \<and> 0 \<le> b \<and> b \<le> 100)"
proof -
  let ?evs = "[SimSwitch ''driving'' ''car'' zeroOpts, SimAdvance (60 * Second)]"
  have ok: "\<forall>ev\<in>set ?evs. eventOk ev" by (simp add: zeroOpts_def optsOk_def)
  let ?v = "advanceLocked (60 * Second) (applyScenario ScenarioDriving zeroOpts (newSim 0 oneCar 0))"
  have v: "en_vehicles (fold runSim ?evs (newEngine [oneCar] (Fin 1) 0 0)) ''car'' = Some ?v"
    by (simp add: newEngine_def setScenarioOpts_def validScenario_def engine_Advance_def oneCar_def)
  have sc: "sv_scenario ?v = ScenarioDriving"
    by (simp add: advanceLocked_def Let_def driveStep_def applyScenario_def zeroOpts_def)
  from cars_stay_plausible [OF _ ok v] have "\<exists>b. sv_battery ?v = Fin b \<and> 0 \<le> b \<and> b \<le> 100" by auto
  with v sc show ?thesis by blast
qed

subsection \<open>Legs end\<close>

text \<open>Moments at least a second apart, from a first one on.\<close>

fun spaced :: "gotime \<Rightarrow> gotime list \<Rightarrow> bool" where
  "spaced t [] \<longleftrightarrow> True"
| "spaced t (u # us) \<longleftrightarrow> t + Second \<le> u \<and> spaced u us"

lemma fold_advance_car:
  "en_vehicles e g = Some v \<Longrightarrow> en_vehicles (fold engine_Advance ts e) g = Some (fold advanceLocked ts v)"
  by (induction ts arbitrary: e v) (simp_all add: engine_Advance_def)

lemma fold_idle:
  "sv_scenario v = ScenarioIdle \<Longrightarrow>
     sv_scenario (fold advanceLocked ts v) = ScenarioIdle \<and> sv_battery (fold advanceLocked ts v) = sv_battery v"
  by (induction ts arbitrary: v) (simp_all add: idle_leg)

lemma fold_drive:
  assumes "carOk v" "sv_scenario v = ScenarioDriving" "sv_driveFloor v = Fin f" "0 < f"
    "spaced (sv_lastSim v) ts" "sv_battery v = Fin b" "b \<le> of_int k / 2 ^ 14" "1 \<le> k" "k < 2 ^ 53" "k \<le> int (length ts)"
  shows "sv_scenario (fold advanceLocked ts v) = ScenarioIdle \<and> sv_battery (fold advanceLocked ts v) = Fin f"
  using assms
proof (induction ts arbitrary: v b k)
  case (Cons t ts)
  let ?w = "advanceLocked t v"
  have sp: "sv_lastSim v + Second \<le> t" "spaced (sv_lastSim ?w) ts" using Cons.prems(5) by simp_all
  from drive_leg [OF Cons.prems(1-4) sp(1) Cons.prems(6-9)] show ?case
  proof (elim disjE conjE exE)
    assume "sv_scenario ?w = ScenarioIdle" "sv_battery ?w = Fin f"
    then show ?thesis using fold_idle [of ?w ts] by simp
  next
    fix b' assume a: "sv_scenario ?w = ScenarioDriving" "sv_driveFloor ?w = Fin f" "2 \<le> k" "sv_battery ?w = Fin b'"
      "b' \<le> of_int (k - 1) / 2 ^ 14"
    have k: "1 \<le> k - 1" "k - 1 < 2 ^ 53" "k - 1 \<le> int (length ts)" using a(3) Cons.prems(9,10) by simp_all
    show ?thesis
      using Cons.IH [OF advanceLocked_ok [OF Cons.prems(1)] a(1,2) Cons.prems(4) sp(2) a(4,5) k] by simp
  qed
qed simp

lemma fold_charge:
  assumes "carOk v" "sv_scenario v \<in> {ScenarioCharging, ScenarioChargingAC}" "sv_chargeTarget v = Fin t" "0 < t"
    "fle (Fin 1) (sv_livePowerKw v)" "sv_live v \<noteq> None"
    "spaced (sv_lastSim v) ts" "sv_battery v = Fin b" "b < t" "of_int k / 2 ^ 14 \<le> b" "0 \<le> k"
    "100 * 2 ^ 14 \<le> k + int (length ts)"
  shows "sv_scenario (fold advanceLocked ts v) = ScenarioIdle \<and> sv_battery (fold advanceLocked ts v) = Fin t"
  using assms
proof (induction ts arbitrary: v b k)
  case Nil
  have "t \<le> 100" using Nil.prems(1,3) by (simp add: carOk_def)
  moreover have "real_of_int (100 * 2 ^ 14) / 2 ^ 14 \<le> of_int k / 2 ^ 14" using Nil.prems(12) by (intro divide_right_mono) simp_all
  ultimately show ?case using Nil.prems(9,10) by simp
next
  case (Cons u ts)
  let ?w = "advanceLocked u v"
  have sp: "sv_lastSim v + Second \<le> u" "spaced (sv_lastSim ?w) ts" using Cons.prems(7) by simp_all
  have "t \<le> 100" using Cons.prems(1,3) by (simp add: carOk_def)
  then have "of_int k / 2 ^ 14 < (100 :: real)" using Cons.prems(9,10) by linarith
  then have k: "k + 1 < 2 ^ 53" by (simp add: divide_less_eq)
  from charge_leg [OF Cons.prems(1-6) sp(1) Cons.prems(8-11) k] show ?case
  proof (elim disjE conjE exE)
    assume "sv_scenario ?w = ScenarioIdle" "sv_battery ?w = Fin t"
    then show ?thesis using fold_idle [of ?w ts] by simp
  next
    fix b' assume a: "sv_scenario ?w = sv_scenario v" "sv_chargeTarget ?w = Fin t" "sv_livePowerKw ?w = sv_livePowerKw v"
      "sv_live ?w \<noteq> None" "sv_battery ?w = Fin b'" "b' < t" "of_int (k + 1) / 2 ^ 14 \<le> b'"
    have p: "sv_scenario ?w \<in> {ScenarioCharging, ScenarioChargingAC}" "fle (Fin 1) (sv_livePowerKw ?w)" "0 \<le> k + 1"
      "100 * 2 ^ 14 \<le> k + 1 + int (length ts)" using a Cons.prems by auto
    show ?thesis
      using Cons.IH [OF advanceLocked_ok [OF Cons.prems(1)] p(1) a(2) Cons.prems(4) p(2) a(4) sp(2) a(5-7) p(3,4)] by simp
  qed
qed

text \<open>
  A leg with a goal ends. A car that drives towards a floor, or charges towards an explicit target it is below
  with at least a kilowatt, is idle at exactly that charge after 1638400 steps of at least a second each, whatever
  the rounding of the steps; the other cars of the engine do not matter.
\<close>

theorem legs_end:
  assumes "en_vehicles e g = Some v" and "carOk v" and "spaced (sv_lastSim v) ts" and "100 * 2 ^ 14 \<le> length ts"
    and "sv_scenario v = ScenarioDriving \<and> goal = sv_driveFloor v \<and> flt (Fin 0) goal \<or>
      sv_scenario v \<in> {ScenarioCharging, ScenarioChargingAC} \<and> goal = sv_chargeTarget v \<and> flt (Fin 0) goal \<and>
      flt (sv_battery v) goal \<and> sv_live v \<noteq> None \<and> fle (Fin 1) (sv_livePowerKw v)"
  shows "\<exists>v'. en_vehicles (fold engine_Advance ts e) g = Some v' \<and> sv_scenario v' = ScenarioIdle \<and> sv_battery v' = goal"
proof -
  have "1638400 \<le> length ts" using assms(4) by simp
  then have len: "1638400 \<le> int (length ts)" by linarith
  obtain b where b: "sv_battery v = Fin b" "0 \<le> b" "b \<le> 100" using assms(2) unfolding carOk_def by (metis insideE)
  have "sv_scenario (fold advanceLocked ts v) = ScenarioIdle \<and> sv_battery (fold advanceLocked ts v) = goal"
    using assms(5)
  proof (elim disjE conjE)
    assume d: "sv_scenario v = ScenarioDriving" "goal = sv_driveFloor v" "flt (Fin 0) goal"
    obtain f where f: "sv_driveFloor v = Fin f" using assms(2) unfolding carOk_def by (metis insideE)
    have l: "100 * 2 ^ 14 \<le> int (length ts)" using len by simp
    show ?thesis
      using fold_drive [OF assms(2) d(1) f _ assms(3) b(1), of "100 * 2 ^ 14"] d(2,3) f b(3) l by simp
  next
    assume c: "sv_scenario v \<in> {ScenarioCharging, ScenarioChargingAC}" "goal = sv_chargeTarget v" "flt (Fin 0) goal"
      "flt (sv_battery v) goal" "sv_live v \<noteq> None" "fle (Fin 1) (sv_livePowerKw v)"
    obtain t where t: "sv_chargeTarget v = Fin t" using assms(2) unfolding carOk_def by (metis insideE)
    have l: "100 * 2 ^ 14 \<le> 0 + int (length ts)" using len by simp
    show ?thesis
      using fold_charge [OF assms(2) c(1) t _ c(6,5) assms(3) b(1), of 0] c(2-4) t b l by simp
  qed
  then show ?thesis using fold_advance_car [OF assms(1)] by blast
qed

lemma legs_end_witness:
  "\<exists>v. en_vehicles (fold engine_Advance (map (\<lambda>n. int (Suc n) * Second) [0..<1638400])
      (snd (setScenarioOpts ''driving'' ''car'' \<lparr>so_TargetSOC = Fin 10, so_PowerKw = Fin 0\<rparr> (newEngine [oneCar] (Fin 1) 0 0)))) ''car'' = Some v \<and>
     sv_scenario v = ScenarioIdle \<and> sv_battery v = Fin 10"
proof -
  let ?opts = "\<lparr>so_TargetSOC = Fin 10, so_PowerKw = Fin 0\<rparr>"
  let ?e = "snd (setScenarioOpts ''driving'' ''car'' ?opts (newEngine [oneCar] (Fin 1) 0 0))"
  let ?v = "applyScenario ''driving'' ?opts (newSim 0 oneCar 0)"
  have v: "en_vehicles ?e ''car'' = Some ?v"
    by (simp add: newEngine_def setScenarioOpts_def validScenario_def oneCar_def)
  have ok: "carOk ?v" by (intro applyScenario_ok newSim_ok) (simp_all add: optsOk_def)
  have sp: "spaced (int m * Second) (map (\<lambda>n. int (Suc n) * Second) [m..<m + k])" for m k
  proof (induction k arbitrary: m)
    case (Suc k)
    then show ?case using Suc [of "Suc m"] by (simp add: upt_conv_Cons del: upt_Suc)
  qed simp
  have l: "sv_lastSim ?v = int 0 * Second" by (simp add: newSim_def)
  have g: "sv_scenario ?v = ScenarioDriving \<and> Fin 10 = sv_driveFloor ?v \<and> flt (Fin 0) (Fin 10) \<or>
      sv_scenario ?v \<in> {ScenarioCharging, ScenarioChargingAC} \<and> Fin 10 = sv_chargeTarget ?v \<and> flt (Fin 0) (Fin 10) \<and>
      flt (sv_battery ?v) (Fin 10) \<and> sv_live ?v \<noteq> None \<and> fle (Fin 1) (sv_livePowerKw ?v)"
    by (simp add: applyScenario_def)
  show ?thesis
    using legs_end [OF v ok _ _ g, of "map (\<lambda>n. int (Suc n) * Second) [0..<1638400]"] sp [of 0 1638400] unfolding l
    by simp
qed

subsection \<open>The autopilot\<close>

text \<open>A car after \<open>n\<close> moments: its phase, the cycles it has completed, and what is true of it.\<close>

definition carAt ::
  "(engine \<times> (string \<rightharpoonup> carCycle)) \<Rightarrow> string \<Rightarrow> carPhase \<Rightarrow> int \<Rightarrow> (vehicleSim \<Rightarrow> bool) \<Rightarrow> bool" where
  "carAt ec g p k P \<longleftrightarrow> (\<exists>v c. en_vehicles (fst ec) g = Some v \<and> snd ec g = Some c \<and>
     ca_phase c = p \<and> ca_cycles c = k \<and> P v)"

text \<open>
  C37: the autopilot never gets stuck. With a floor above zero and below the ceiling, chargers of at least a kilowatt
  and moments at least a second apart, every car of the engine that starts in order goes through as many cycles as one
  likes, in whatever order the cars are visited. In each cycle it drives, then rests with its charge down at the floor,
  then charges (from below the ceiling), then rests with its charge up at the ceiling, and then drives in the next one.
\<close>

theorem autopilot_never_stuck:
  fixes cfg T visit e
  defines "after \<equiv> \<lambda>n. cycleRun cfg T visit e n"
  assumes "cycleOk cfg" and "\<forall>n. T n + Second \<le> T (Suc n)"
    and "\<forall>n. distinct (visit n) \<and> [] \<notin> set (visit n) \<and> g \<in> set (visit n)"
    and "en_vehicles e g = Some v" and "carOk v" and "g \<in> set (en_order e)" and "int k \<le> maxInt64 - 2"
  shows "\<exists>n1 n2 n3 n4 n5. n1 < n2 \<and> n2 < n3 \<and> n3 < n4 \<and> n4 < n5 \<and>
    carAt (after n1) g PhaseDrive (int k) (\<lambda>v. sv_scenario v = ScenarioDriving) \<and>
    carAt (after n2) g PhaseRestAfterDrive (int k) (\<lambda>v. sv_scenario v = ScenarioIdle \<and> sv_battery v = cy_SocMin cfg) \<and>
    carAt (after n3) g PhaseCharge (int k) (\<lambda>v. sv_scenario v \<in> {ScenarioCharging, ScenarioChargingAC} \<and>
      flt (sv_battery v) (cy_SocMax cfg)) \<and>
    carAt (after n4) g PhaseRestAfterCharge (int k) (\<lambda>v. sv_scenario v = ScenarioIdle \<and> sv_battery v = cy_SocMax cfg) \<and>
    carAt (after n5) g PhaseDrive (int k + 1) (\<lambda>v. sv_scenario v = ScenarioDriving)"
proof -
  have p: "paced T" using assms(3) by (simp add: paced_def)
  obtain n1 where n1: "stands cfg T (v, newCarCycle) n1 PhaseDrive (int k)"
    using cycles_reached [OF assms(2) p first_drive [OF assms(2) p assms(6)] assms(8)] by (auto simp: reaches_stands)
  have "in_int64 (int k + 2)" using assms(8) by (simp add: in_int64_def minInt64_def)
  from cycle_phases [OF assms(2) p this _ n1] obtain n2 n3 n4 n5 where
    n: "n1 < n2" "n2 < n3" "n3 < n4" "n4 < n5"
      "stands cfg T (v, newCarCycle) n2 PhaseRestAfterDrive (int k)" "stands cfg T (v, newCarCycle) n3 PhaseCharge (int k)"
      "stands cfg T (v, newCarCycle) n4 PhaseRestAfterCharge (int k)" "stands cfg T (v, newCarCycle) n5 PhaseDrive (int k + 1)"
    by auto
  have car: "carAt (after n) g q j P" if "stands cfg T (v, newCarCycle) n q j" "\<And>w. phaseCar cfg q w \<Longrightarrow> P w" for n q j P
    using cycleRun_car [of visit g e v cfg T n] assms(4,5,7) that by (auto simp: after_def stands_def onPhase_def carAt_def)
  show ?thesis
    using n(1-4) car [OF n1] car [OF n(5)] car [OF n(6)] car [OF n(7)] car [OF n(8)]
    by (intro exI [of _ n1] exI [of _ n2] exI [of _ n3] exI [of _ n4] exI [of _ n5]) simp
qed

lemma autopilot_never_stuck_witness:
  "\<exists>n4 n5. n4 < n5 \<and>
     carAt (cycleRun (defaultCycle (Fin 10) (Fin 90) (Fin 200) (Fin 11)) (\<lambda>n. int n * Second)
       (\<lambda>_. [''car'']) (newEngine [oneCar] (Fin 1) 0 0) n4) ''car'' PhaseRestAfterCharge 4 (\<lambda>v. sv_battery v = Fin 90) \<and>
     carAt (cycleRun (defaultCycle (Fin 10) (Fin 90) (Fin 200) (Fin 11)) (\<lambda>n. int n * Second)
       (\<lambda>_. [''car'']) (newEngine [oneCar] (Fin 1) 0 0) n5) ''car'' PhaseDrive 5 (\<lambda>v. sv_scenario v = ScenarioDriving)"
proof -
  let ?cfg = "defaultCycle (Fin 10) (Fin 90) (Fin 200) (Fin 11)"
  have cfg: "cycleOk ?cfg" by (simp add: cycleOk_def defaultCycle_def in_int64_def minInt64_def maxInt64_def)
  have v: "en_vehicles (newEngine [oneCar] (Fin 1) 0 0) ''car'' = Some (newSim 0 oneCar 0)"
    and g: "''car'' \<in> set (en_order (newEngine [oneCar] (Fin 1) 0 0))"
    by (simp_all add: newEngine_def oneCar_def)
  have k: "int 4 \<le> maxInt64 - 2" by (simp add: maxInt64_def)
  have T: "\<forall>n. int n * Second + Second \<le> int (Suc n) * Second" by simp
  have visit: "\<forall>n::nat. distinct [''car''] \<and> [] \<notin> set [''car''] \<and> ''car'' \<in> set [''car'']" by simp
  have full: "cy_SocMax ?cfg = Fin 90" by (simp add: defaultCycle_def)
  obtain n4 n5 where "n4 < n5"
    "carAt (cycleRun ?cfg (\<lambda>n. int n * Second) (\<lambda>_. [''car'']) (newEngine [oneCar] (Fin 1) 0 0) n4) ''car''
       PhaseRestAfterCharge (int 4) (\<lambda>v. sv_scenario v = ScenarioIdle \<and> sv_battery v = cy_SocMax ?cfg)"
    "carAt (cycleRun ?cfg (\<lambda>n. int n * Second) (\<lambda>_. [''car'']) (newEngine [oneCar] (Fin 1) 0 0) n5) ''car''
       PhaseDrive (int 4 + 1) (\<lambda>v. sv_scenario v = ScenarioDriving)"
    using autopilot_never_stuck [OF cfg T visit v newSim_ok g k] by blast
  then show ?thesis unfolding full carAt_def by (intro exI [of _ n4] exI [of _ n5]) auto
qed

subsection \<open>The generated history\<close>

text \<open>The moments of the samples of one car.\<close>

definition momentsOf :: "string \<Rightarrow> (string \<times> snapshot) list \<Rightarrow> gotime list" where
  "momentsOf g out = map (\<lambda>s. sn_FetchedAt (snd s)) (filter (\<lambda>s. fst s = g) out)"

lemma moments_append [simp]: "momentsOf g (a @ b) = momentsOf g a @ momentsOf g b" "momentsOf g [] = []"
  "momentsOf g (s # b) = (if fst s = g then [sn_FetchedAt (snd s)] else []) @ momentsOf g b"
  by (simp_all add: momentsOf_def)

text \<open>Cars that have a scenario keep having one, and none appears or goes.\<close>

definition named :: "engine \<Rightarrow> bool" where
  "named e \<longleftrightarrow> (\<forall>g v. en_vehicles e g = Some v \<longrightarrow> sv_scenario v \<noteq> [])"

lemma advance_scenario: "sv_scenario (advanceLocked t v) = sv_scenario v \<or> sv_scenario (advanceLocked t v) = ScenarioIdle"
  by (auto simp: advanceLocked_def Let_def driveStep_def chargeStep_def updateStep_def split: option.split)

lemma advance_named: "named e \<Longrightarrow> named (engine_Advance t e) \<and> dom (en_vehicles (engine_Advance t e)) = dom (en_vehicles e)"
  using advance_scenario unfolding named_def engine_Advance_def by (auto simp: dom_def) (metis list.distinct(1))

lemma set_named: "named e \<Longrightarrow> named (snd (setScenarioOpts name g opts e)) \<and>
    dom (en_vehicles (snd (setScenarioOpts name g opts e))) = dom (en_vehicles e)"
  by (auto simp: named_def setScenarioOpts_def validScenario_def dom_def split: option.splits if_splits)

lemma step_named: "named e \<Longrightarrow> named (fst (auto_step cfg g t (e, c))) \<and>
    dom (en_vehicles (fst (auto_step cfg g t (e, c)))) = dom (en_vehicles e)"
  using set_named [of e]
  by (auto simp: auto_step_def Let_def startDrive_def startCharge_def nextCycle_def setScenario_def split: carPhase.split)

lemma tick_named: "named e \<Longrightarrow> named (fst (auto_Tick cfg t gs (e, cars))) \<and>
    dom (en_vehicles (fst (auto_Tick cfg t gs (e, cars)))) = dom (en_vehicles e)"
proof (induction gs arbitrary: e cars)
  case (Cons g gs)
  show ?case
  proof (cases "cars g")
    case (Some c)
    obtain e1 c1 where s: "auto_step cfg g t (e, c) = (e1, c1)" by fastforce
    then show ?thesis using step_named [OF Cons.prems, of cfg g t c] Cons.IH [of e1 "cars(g \<mapsto> c1)"]
      by (simp add: Some del: fun_upd_apply)
  qed (use Cons in simp)
qed simp

lemma snapshotAt_time: "en_vehicles e g \<noteq> None \<Longrightarrow> sn_FetchedAt (snapshotAt g t e) = t"
  by (auto simp: snapshotAt_def buildSnapshot_def Let_def split: option.split)

lemma cadence_range: "sampleCadence s \<in> {30 * Second, Minute, 10 * Minute}"
  by (simp add: sampleCadence_def simStep_def)

lemma just_emitted: "em_last m g = t \<Longrightarrow> em_scen m g = scenarioOf g e \<Longrightarrow> \<not> sampleDue t e g m"
  using cadence_range [of "scenarioOf g e"] by (auto simp: sampleDue_def)

lemma emitRound_car:
  assumes "en_vehicles e g \<noteq> None"
  shows "momentsOf g (fst (emitRound t e gs m)) = (if g \<in> set gs \<and> sampleDue t e g m then [t] else []) \<and>
    em_last (snd (emitRound t e gs m)) g = (if g \<in> set gs \<and> sampleDue t e g m then t else em_last m g) \<and>
    em_scen (snd (emitRound t e gs m)) g = (if g \<in> set gs \<and> sampleDue t e g m then scenarioOf g e else em_scen m g)"
proof (induction gs arbitrary: m)
  case (Cons h gs)
  let ?m = "\<lparr>em_last = (em_last m)(h := t), em_scen = (em_scen m)(h := scenarioOf h e)\<rparr>"
  have "h = g \<Longrightarrow> \<not> sampleDue t e g ?m" by (rule just_emitted) simp_all
  moreover have "h \<noteq> g \<Longrightarrow> sampleDue t e g ?m = sampleDue t e g m" by (simp add: sampleDue_def)
  ultimately show ?case
    using Cons.IH [of ?m] Cons.IH [of m] snapshotAt_time [OF assms] by (auto simp: case_prod_unfold Let_def)
qed simp

lemma emitRound_times:
  assumes "\<forall>g\<in>set gs. en_vehicles e g \<noteq> None"
  shows "\<forall>s\<in>set (fst (emitRound t e gs m)). sn_FetchedAt (snd s) = t"
  using assms by (induction gs arbitrary: m) (auto simp: case_prod_unfold Let_def snapshotAt_time)

text \<open>Neighbouring samples of a car are at least a step and at most ten minutes apart.\<close>

definition steady :: "gotime \<Rightarrow> gotime \<Rightarrow> bool" where
  "steady x y \<longleftrightarrow> x + simStep \<le> y \<and> y \<le> x + 10 * Minute"

lemma not_due:
  assumes "\<not> sampleDue t e g m" "em_last m g = l" "l < t" "t \<le> l + 10 * Minute" "simStep dvd t - l"
  shows "t + simStep \<le> l + 10 * Minute"
proof -
  have "time_sub t l = t - l" using assms(3,4) by (intro time_sub_exact) (simp add: in_int64_def minInt64_def maxInt64_def)
  then have "t - l < sampleCadence (scenarioOf g e)" using assms(1,2) by (auto simp: sampleDue_def)
  then have "t - l < 10 * Minute" using cadence_range [of "scenarioOf g e"] by auto
  moreover obtain n where "t - l = simStep * n" using assms(5) by (rule dvdE)
  ultimately show ?thesis by (simp add: simStep_def)
qed

lemma genLoop_car:
  assumes "named (fst ec)" "en_vehicles (fst ec) g \<noteq> None" "g \<in> set guids"
  shows "(em_scen m g = [] \<longrightarrow> t \<le> now \<longrightarrow> (\<exists>xs. momentsOf g (fst (genLoop cfg visit guids now t ec m)) = t # xs \<and>
      successively steady (t # xs) \<and> last (t # xs) \<le> now \<and> now < last (t # xs) + 10 * Minute)) \<and>
    (\<forall>l. em_scen m g \<noteq> [] \<longrightarrow> em_last m g = l \<longrightarrow> l + simStep \<le> t \<longrightarrow> t \<le> l + 10 * Minute \<longrightarrow> simStep dvd t - l \<longrightarrow> l \<le> now \<longrightarrow>
      (let xs = momentsOf g (fst (genLoop cfg visit guids now t ec m))
       in successively steady (l # xs) \<and> last (l # xs) \<le> now \<and> now < last (l # xs) + 10 * Minute))"
  using assms
proof (induction cfg visit guids now t ec m rule: genLoop.induct)
  case (1 cfg visit guids now t ec m)
  show ?case
  proof (cases "now < t")
    case True
    then show ?thesis by (auto simp: genLoop.simps [of cfg visit guids now t ec m] successively.simps)
  next
    case False
    let ?ec = "auto_Tick cfg t (visit t) (engine_Advance t (fst ec), snd ec)"
    let ?r = "emitRound t (fst ?ec) guids m"
    have n: "named (fst ?ec)" and d: "en_vehicles (fst ?ec) g \<noteq> None"
      using advance_named [OF "1.prems"(1), of t] tick_named [of "engine_Advance t (fst ec)" cfg t "visit t" "snd ec"] "1.prems"(2)
      by (auto simp: dom_def set_eq_iff)
    have IH: "(\<forall>l. em_scen (snd ?r) g \<noteq> [] \<longrightarrow> em_last (snd ?r) g = l \<longrightarrow> l + simStep \<le> t + simStep \<longrightarrow> t + simStep \<le> l + 10 * Minute \<longrightarrow>
        simStep dvd t + simStep - l \<longrightarrow> l \<le> now \<longrightarrow>
        (let xs = momentsOf g (fst (genLoop cfg visit guids now (t + simStep) ?ec (snd ?r)))
         in successively steady (l # xs) \<and> last (l # xs) \<le> now \<and> now < last (l # xs) + 10 * Minute))"
      using "1.IH" [OF False refl refl prod.collapse n d "1.prems"(3)] by blast
    have out: "momentsOf g (fst (genLoop cfg visit guids now t ec m)) =
        momentsOf g (fst ?r) @ momentsOf g (fst (genLoop cfg visit guids now (t + simStep) ?ec (snd ?r)))"
      using False by (simp add: genLoop.simps [of cfg visit guids now t ec m] Let_def case_prod_unfold)
    have sc: "scenarioOf g (fst ?ec) \<noteq> []" using n d by (auto simp: named_def scenarioOf_def split: option.split)
    note emit = emitRound_car [OF d, of t guids m]
    let ?xs = "momentsOf g (fst (genLoop cfg visit guids now (t + simStep) ?ec (snd ?r)))"
    show ?thesis
    proof (cases "sampleDue t (fst ?ec) g m")
      case True
      have e: "momentsOf g (fst ?r) = [t]" "em_last (snd ?r) g = t" "em_scen (snd ?r) g \<noteq> []"
        using emit True "1.prems"(3) sc by simp_all
      have s: "successively steady (t # ?xs)" "last (t # ?xs) \<le> now" "now < last (t # ?xs) + 10 * Minute"
        using IH [rule_format, of t] e(2,3) False by (simp_all add: Let_def simStep_def)
      show ?thesis unfolding out e(1) using s by (auto simp: Let_def successively.simps steady_def)
    next
      case due: False
      have e: "momentsOf g (fst ?r) = []" "em_last (snd ?r) g = em_last m g" "em_scen (snd ?r) g = em_scen m g"
        using emit due by simp_all
      have "em_scen m g \<noteq> []" using due sc by (auto simp: sampleDue_def)
      moreover have "t + simStep \<le> l + 10 * Minute" "simStep dvd t + simStep - l"
        if "em_last m g = l" "l + simStep \<le> t" "t \<le> l + 10 * Minute" "simStep dvd t - l" for l
        using not_due [OF due that(1) _ that(3,4)] that dvd_add [OF that(4) dvd_refl]
        by (simp_all add: simStep_def algebra_simps)
      ultimately show ?thesis unfolding out e(1) using IH e(2,3) by (auto simp: Let_def simStep_def)
    qed
  qed
qed


lemma genLoop_sorted:
  assumes "named (fst ec)" "\<forall>g\<in>set guids. en_vehicles (fst ec) g \<noteq> None"
  shows "sorted (map (\<lambda>s. sn_FetchedAt (snd s)) (fst (genLoop cfg visit guids now t ec m))) \<and>
    (\<forall>s\<in>set (fst (genLoop cfg visit guids now t ec m)). t \<le> sn_FetchedAt (snd s))"
  using assms
proof (induction cfg visit guids now t ec m rule: genLoop.induct)
  case (1 cfg visit guids now t ec m)
  show ?case
  proof (cases "now < t")
    case True
    then show ?thesis by (simp add: genLoop.simps [of cfg visit guids now t ec m])
  next
    case False
    let ?ec = "auto_Tick cfg t (visit t) (engine_Advance t (fst ec), snd ec)"
    let ?r = "emitRound t (fst ?ec) guids m"
    let ?rest = "fst (genLoop cfg visit guids now (t + simStep) ?ec (snd ?r))"
    have n: "named (fst ?ec)" and d: "\<forall>g\<in>set guids. en_vehicles (fst ?ec) g \<noteq> None"
      using advance_named [OF "1.prems"(1), of t] tick_named [of "engine_Advance t (fst ec)" cfg t "visit t" "snd ec"] "1.prems"(2)
      by (auto simp: dom_def set_eq_iff)
    have IH: "sorted (map (\<lambda>s. sn_FetchedAt (snd s)) ?rest) \<and> (\<forall>s\<in>set ?rest. t + simStep \<le> sn_FetchedAt (snd s))"
      using "1.IH" [OF False refl refl prod.collapse n d] .
    have out: "fst (genLoop cfg visit guids now t ec m) = fst ?r @ ?rest"
      using False by (simp add: genLoop.simps [of cfg visit guids now t ec m] Let_def case_prod_unfold)
    have now: "\<forall>s\<in>set (fst ?r). sn_FetchedAt (snd s) = t" by (rule emitRound_times [OF d])
    then have "map (\<lambda>s. sn_FetchedAt (snd s)) (fst ?r) = replicate (length (fst ?r)) t" by (simp add: map_replicate_const [symmetric] cong: map_cong)
    then show ?thesis unfolding out using IH now by (fastforce simp: sorted_append simStep_def)
  qed
qed

text \<open>
  C40: what a generated history holds. Its samples come in the order of time, and those of every car start at the
  beginning of the window, are never closer than a step of the synthetic clock nor further apart than ten minutes,
  and reach the end of the window to within ten minutes, whatever the cycle's settings.
\<close>

theorem history_is_steady:
  assumes "0 \<le> since" and "\<forall>g\<in>set (en_order e). en_vehicles e g \<noteq> None"
  shows "sorted (map (\<lambda>s. sn_FetchedAt (snd s)) (fst (generateHistory since cfg visit now e))) \<and>
    (\<forall>g\<in>set (en_order e).
       let xs = momentsOf g (fst (generateHistory since cfg visit now e))
       in xs \<noteq> [] \<and> hd xs = now - since \<and> last xs \<le> now \<and> now < last xs + 10 * Minute \<and>
         successively (\<lambda>x y. x + simStep \<le> y \<and> y \<le> x + 10 * Minute) xs)"
proof -
  let ?e = "prepareForHistory (now - since) (cy_SocMax cfg) e"
  have n: "named ?e" and d: "\<forall>g\<in>set (en_order e). en_vehicles ?e g \<noteq> None" and o: "en_order ?e = en_order e"
    using assms(2) by (auto simp: prepareForHistory_def named_def)
  let ?out = "fst (genLoop cfg visit (en_order e) now (now - since) (?e, newAutopilot ?e) nothingEmitted)"
  have g: "fst (generateHistory since cfg visit now e) = ?out" by (simp add: generateHistory_def Let_def o)
  have car: "let xs = momentsOf g ?out in xs \<noteq> [] \<and> hd xs = now - since \<and> last xs \<le> now \<and> now < last xs + 10 * Minute \<and>
      successively steady xs" if "g \<in> set (en_order e)" for g
    using genLoop_car [of "(?e, newAutopilot ?e)" g "en_order e" nothingEmitted "now - since" now cfg visit] n d that assms(1)
    by (auto simp: nothingEmitted_def Let_def)
  have st: "steady = (\<lambda>x y. x + simStep \<le> y \<and> y \<le> x + 10 * Minute)" by (simp add: steady_def fun_eq_iff)
  show ?thesis
    using genLoop_sorted [of "(?e, newAutopilot ?e)" "en_order e" cfg visit now "now - since" nothingEmitted] n d car
    unfolding g st by simp
qed

lemma history_is_steady_witness:
  "(let xs = momentsOf ''car'' (fst (generateHistory (24 * Hour) (defaultCycle (Fin 10) (Fin 90) (Fin 200) (Fin 11))
      (\<lambda>_. [''car'']) (48 * Hour) (newEngine [oneCar] (Fin 1) 0 0)))
    in hd xs = 24 * Hour \<and> 48 * Hour < last xs + 10 * Minute)"
  using history_is_steady [of "24 * Hour" "newEngine [oneCar] (Fin 1) 0 0" "defaultCycle (Fin 10) (Fin 90) (Fin 200) (Fin 11)"
    "\<lambda>_. [''car'']" "48 * Hour"]
  by (simp add: newEngine_def oneCar_def Let_def)

end
