(* ===== verification/Config.thy ===== *)
theory Config
  imports Poll
begin

section \<open>Configuration and plugin registries\<close>

text \<open>
  \<^verbatim>\<open>internal/config/config.go\<close> and the registry every kind of plugin has
  (\<^verbatim>\<open>internal/plugin/source/source.go\<close>, and the same code for sinks, stream sources, stream sinks and
  commanders). YAML is a parameter: a raw node is of any type \<open>'n\<close>, \<open>unmarshal\<close> overlays a text on a
  configuration, \<open>decodePoll\<close> overlays a node on a poll block and \<open>encode\<close> makes a node of the command block.
\<close>

subsection \<open>The typed configuration and its defaults\<close>

record pollBlock =
  cp_Online :: duration
  cp_Driving :: duration
  cp_DrivingStreaming :: duration
  cp_StreamFreshWithin :: duration
  cp_Charging :: duration
  cp_Asleep :: duration
  cp_Default :: duration
  cp_ChargingDC :: duration
  cp_DCThresholdKw :: f64
  cp_StaleAfter :: duration
  cp_MinInterval :: duration
  cp_MaxBackoff :: duration
  cp_JitterPct :: f64
  cp_AwakeBackoffCap :: duration
  cp_QuotaBlockFloor :: duration

record httpBlock =
  ch_Timeout :: duration
  ch_Retries :: int
  ch_RetryWait :: duration
  ch_RetryMaxWait :: duration

record serverBlock =
  cv_ReadHeaderTimeout :: duration
  cv_ShutdownTimeout :: duration

record 'n streamBlock =
  ct_Source :: string
  ct_Sink :: string
  ct_Sources :: "string \<rightharpoonup> 'n"
  ct_Sinks :: "string \<rightharpoonup> 'n"
  ct_AsOfFile :: string
  ct_ReplayFile :: string
  ct_ReplayDepth :: int

record commandsBlock =
  cx_Enabled :: bool
  cx_Plugin :: string
  cx_KeyFile :: string
  cx_CredsFile :: string
  cx_CacheFile :: string
  cx_Timeout :: duration

record 'n config =
  cg_ListenAddr :: string
  cg_Source :: string
  cg_Sink :: string
  cg_Sources :: "string \<rightharpoonup> 'n"
  cg_Sinks :: "string \<rightharpoonup> 'n"
  cg_Poll :: pollBlock
  cg_PollOverrides :: "string \<rightharpoonup> 'n"
  cg_HTTP :: httpBlock
  cg_Server :: serverBlock
  cg_Stream :: "'n streamBlock"
  cg_Commands :: commandsBlock
  cg_VehicleDataPriceUSD :: f64

definition defaultPoll :: pollBlock where
  "defaultPoll = \<lparr>cp_Online = 30 * Second, cp_Driving = 60 * Second, cp_DrivingStreaming = 2 * Minute,
     cp_StreamFreshWithin = 60 * Second, cp_Charging = 30 * Second, cp_Asleep = 15 * Minute, cp_Default = 30 * Second,
     cp_ChargingDC = 60 * Second, cp_DCThresholdKw = fconst 25, cp_StaleAfter = 30 * Minute, cp_MinInterval = 5 * Second,
     cp_MaxBackoff = 15 * Minute, cp_JitterPct = fconst (1 / 10), cp_AwakeBackoffCap = 5 * Minute,
     cp_QuotaBlockFloor = Hour\<rparr>"

definition defaultHTTP :: httpBlock where
  "defaultHTTP = \<lparr>ch_Timeout = 30 * Second, ch_Retries = 2, ch_RetryWait = 500 * Millisecond, ch_RetryMaxWait = 5 * Second\<rparr>"

definition defaultServer :: serverBlock where
  "defaultServer = \<lparr>cv_ReadHeaderTimeout = 10 * Second, cv_ShutdownTimeout = 5 * Second\<rparr>"

definition defaultStream :: "'n streamBlock" where
  "defaultStream = \<lparr>ct_Source = [], ct_Sink = [], ct_Sources = Map.empty, ct_Sinks = Map.empty, ct_AsOfFile = [],
     ct_ReplayFile = [], ct_ReplayDepth = 0\<rparr>"

definition defaultCommands :: commandsBlock where
  "defaultCommands = \<lparr>cx_Enabled = False, cx_Plugin = [], cx_KeyFile = [], cx_CredsFile = [], cx_CacheFile = [], cx_Timeout = 0\<rparr>"

definition defaultConfig :: "'n config" where
  "defaultConfig = \<lparr>cg_ListenAddr = '':4000'', cg_Source = ''rivian-graphql-poll-v1'', cg_Sink = ''tesla-fleet-poll-v1'',
     cg_Sources = Map.empty, cg_Sinks = Map.empty, cg_Poll = defaultPoll, cg_PollOverrides = Map.empty,
     cg_HTTP = defaultHTTP, cg_Server = defaultServer, cg_Stream = defaultStream, cg_Commands = defaultCommands,
     cg_VehicleDataPriceUSD = fconst (2 / 1000)\<rparr>"

definition defaultCommandPlugin :: string where
  "defaultCommandPlugin = ''tesla-command-v1''"

subsection \<open>Loading\<close>

datatype configFile = ConfigText string | ConfigMissing | ConfigUnreadable

datatype configError = ConfigParse string | ConfigRead string

definition config_Load ::
  "(string \<Rightarrow> 'n config \<Rightarrow> 'n config option) \<Rightarrow> (string \<Rightarrow> configFile) \<Rightarrow> string \<Rightarrow> configError + 'n config" where
  "config_Load unmarshal readFile path =
     (if path = [] then Inr defaultConfig
      else case readFile path of
        ConfigText raw \<Rightarrow> (case unmarshal raw defaultConfig of Some cfg \<Rightarrow> Inr cfg | None \<Rightarrow> Inl (ConfigParse path))
      | ConfigMissing \<Rightarrow> Inr defaultConfig
      | ConfigUnreadable \<Rightarrow> Inl (ConfigRead path))"

subsection \<open>Blocks of the configuration\<close>

definition pollFor :: "('n \<Rightarrow> pollBlock \<Rightarrow> pollBlock) \<Rightarrow> string \<Rightarrow> 'n config \<Rightarrow> pollBlock" where
  "pollFor decodePoll source c = (case cg_PollOverrides c source of
     Some n \<Rightarrow> decodePoll n (cg_Poll c) | None \<Rightarrow> cg_Poll c)"

definition commandSettingsNode :: "(commandsBlock \<Rightarrow> 'n option) \<Rightarrow> 'n config \<Rightarrow> 'n option" where
  "commandSettingsNode encode c = (if \<not> cx_Enabled (cg_Commands c) then None else encode (cg_Commands c))"

definition sourceSettingsFor :: "string \<Rightarrow> 'n config \<Rightarrow> 'n option" where
  "sourceSettingsFor name c = cg_Sources c name"

definition sinkSettingsFor :: "string \<Rightarrow> 'n config \<Rightarrow> 'n option" where
  "sinkSettingsFor name c = cg_Sinks c name"

definition config_SourceSettings :: "'n config \<Rightarrow> 'n option" where
  "config_SourceSettings c = sourceSettingsFor (cg_Source c) c"

definition config_SinkSettings :: "'n config \<Rightarrow> 'n option" where
  "config_SinkSettings c = sinkSettingsFor (cg_Sink c) c"

definition streamSourceSettingsFor :: "string \<Rightarrow> 'n config \<Rightarrow> 'n option" where
  "streamSourceSettingsFor name c = (if name = [] then None else ct_Sources (cg_Stream c) name)"

definition streamSinkSettingsFor :: "string \<Rightarrow> 'n config \<Rightarrow> 'n option" where
  "streamSinkSettingsFor name c = (if name = [] then None else ct_Sinks (cg_Stream c) name)"

definition streamSourceSettings :: "'n config \<Rightarrow> 'n option" where
  "streamSourceSettings c = streamSourceSettingsFor (ct_Source (cg_Stream c)) c"

definition streamSinkSettings :: "'n config \<Rightarrow> 'n option" where
  "streamSinkSettings c = streamSinkSettingsFor (ct_Sink (cg_Stream c)) c"

subsection \<open>A registry of plugins\<close>

text \<open>\<^verbatim>\<open>Register\<close> panics on a nil factory and on a name that is taken.\<close>

definition register :: "string \<Rightarrow> 'f option \<Rightarrow> (string \<rightharpoonup> 'f) \<Rightarrow> (string \<rightharpoonup> 'f) option" where
  "register name f reg = (case f of None \<Rightarrow> None | Some f \<Rightarrow> if reg name \<noteq> None then None else Some (reg(name \<mapsto> f)))"

datatype 'e openError = UnknownPlugin string | PluginError 'e

definition openPlugin :: "(string \<rightharpoonup> ('n option \<Rightarrow> 'e + 'p)) \<Rightarrow> string \<Rightarrow> 'n option \<Rightarrow> 'e openError + 'p" where
  "openPlugin reg name settings = (case reg name of
     None \<Rightarrow> Inl (UnknownPlugin name)
   | Some f \<Rightarrow> (case f settings of Inl err \<Rightarrow> Inl (PluginError err) | Inr p \<Rightarrow> Inr p))"

end
