(* ===== verification/Serve.thy ===== *)
theory Serve
  imports Config RestClient Service Command
begin

section \<open>Serving\<close>

text \<open>
  \<^verbatim>\<open>runServe\<close> of \<^verbatim>\<open>internal/cli/serve.go\<close>: which parts it starts, with which settings and in which order, and at
  which step it gives up. What a step of the outside answers (the registries of plugins, the source's list of
  vehicles, the files of the cache, the sink's handler, the listener) is a field of the environment.
\<close>

datatype serveAct =
  HTTPDefaults restOptions | UserAgent string
| OpenedSource string | ListedVehicles "string list" | MadeManager "string list" intervals
| MadeService duration string string int | ServiceManager | ServiceTrigger | ServiceFreshWithin duration | ManagerCache
| StartedPolling
| StaleAfter duration | CarTypes | OpenedSink string bool | BuiltHandler
| MetricsIntegrity | MetricsSession | MetricsUnchanged string | MetricsSource string | MetricsCost string f64
| OpenedCommander string | MetricsCommand | MountedCommands
| OpenedStreamSource string | MetricsStreamSource | StartedStreamSource
| OpenedStreamSink string | MetricsStreamSink | StartedStreamSink
| ShutdownDrained | ShutdownPlain | Listening string

datatype 'e serveError = ServeConfig configError | ServeSource "'e openError" | ServeVehicles 'e | ServeStore storeError
| ServeSink "'e openError" | ServeHandler 'e | ServeCommander "'e openError" | ServeStreamSource "'e openError"
| ServeStreamSink "'e openError" | ServeListen 'e

text \<open>What the code asks of an open plugin: a capability of its type.\<close>

record 'e openSource =
  os_vehicles :: "'e + identity list"
  os_carTypes :: bool

record 'e openSink =
  ok_handler :: "'e option"
  ok_unchanged :: bool

record ('n, 'e) serveEnv =
  se_unmarshal :: "string \<Rightarrow> 'n config \<Rightarrow> 'n config option"
  se_readFile :: "string \<Rightarrow> configFile"
  se_decodePoll :: "'n \<Rightarrow> pollBlock \<Rightarrow> pollBlock"
  se_encode :: "commandsBlock \<Rightarrow> 'n option"
  se_version :: string
  se_sources :: "string \<rightharpoonup> ('n option \<Rightarrow> 'e + 'e openSource)"
  se_sinks :: "string \<rightharpoonup> ('n option \<Rightarrow> 'e + 'e openSink)"
  se_commanders :: "string \<rightharpoonup> ('n option \<Rightarrow> 'e + bool)"
  se_streamSources :: "string \<rightharpoonup> ('n option \<Rightarrow> 'e + bool)"
  se_streamSinks :: "string \<rightharpoonup> ('n option \<Rightarrow> 'e + bool)"
  se_asof :: "(string \<rightharpoonup> gotime) fileState"
  se_replay :: "(string \<rightharpoonup> snapshot list) fileState"
  se_listen :: "'e option"

record serveFlags =
  sf_config :: string
  sf_addr :: string
  sf_source :: string
  sf_sink :: string

definition intervalsOf :: "pollBlock \<Rightarrow> intervals" where
  "intervalsOf p = \<lparr>iv_Online = cp_Online p, iv_Driving = cp_Driving p, iv_Charging = cp_Charging p, iv_Asleep = cp_Asleep p,
     iv_Default = cp_Default p, iv_ChargingDC = cp_ChargingDC p, iv_DCThresholdKw = cp_DCThresholdKw p,
     iv_DrivingStreaming = cp_DrivingStreaming p, iv_StreamFreshWithin = cp_StreamFreshWithin p,
     iv_MinInterval = cp_MinInterval p, iv_MaxBackoff = cp_MaxBackoff p, iv_JitterPct = cp_JitterPct p,
     iv_AwakeBackoffCap = cp_AwakeBackoffCap p, iv_QuotaBlockFloor = cp_QuotaBlockFloor p\<rparr>"

definition withFlags :: "serveFlags \<Rightarrow> 'n config \<Rightarrow> 'n config" where
  "withFlags fl c =
     (let c1 = (if sf_addr fl \<noteq> [] then c\<lparr>cg_ListenAddr := sf_addr fl\<rparr> else c);
          c2 = (if sf_source fl \<noteq> [] then c1\<lparr>cg_Source := sf_source fl\<rparr> else c1)
      in if sf_sink fl \<noteq> [] then c2\<lparr>cg_Sink := sf_sink fl\<rparr> else c2)"

definition streamingOn :: "'n config \<Rightarrow> bool" where
  "streamingOn c \<longleftrightarrow> ct_Source (cg_Stream c) \<noteq> [] \<or> ct_Sink (cg_Stream c) \<noteq> []"

definition commanderName :: "'n config \<Rightarrow> string" where
  "commanderName c = (if cx_Plugin (cg_Commands c) = [] then defaultCommandPlugin else cx_Plugin (cg_Commands c))"

type_synonym 'e serving = "serveAct list \<times> 'e serveError option"

text \<open>A step that may fail, then the rest.\<close>

definition onto :: "serveAct list \<Rightarrow> 'e serving \<Rightarrow> 'e serving" where
  "onto acts rest = (acts @ fst rest, snd rest)"

definition giveUp :: "'e serveError \<Rightarrow> 'e serving" where
  "giveUp err = ([], Some err)"

definition serveShutdown :: "'n config \<Rightarrow> ('n, 'e) serveEnv \<Rightarrow> 'e serving" where
  "serveShutdown cfg env =
     ([if streamingOn cfg then ShutdownDrained else ShutdownPlain, Listening (cg_ListenAddr cfg)],
      map_option ServeListen (se_listen env))"

definition serveStreamSink :: "'n config \<Rightarrow> ('n, 'e) serveEnv \<Rightarrow> 'e serving" where
  "serveStreamSink cfg env =
     (let name = ct_Sink (cg_Stream cfg) in
      if name = [] then serveShutdown cfg env
      else case openPlugin (se_streamSinks env) name (streamSinkSettings cfg) of
        Inl err \<Rightarrow> giveUp (ServeStreamSink err)
      | Inr stats \<Rightarrow> onto ([OpenedStreamSink name] @ (if stats then [MetricsStreamSink] else []) @ [StartedStreamSink])
          (serveShutdown cfg env))"

definition serveStreamSource :: "'n config \<Rightarrow> ('n, 'e) serveEnv \<Rightarrow> 'e serving" where
  "serveStreamSource cfg env =
     (let name = ct_Source (cg_Stream cfg) in
      if name = [] then serveStreamSink cfg env
      else case openPlugin (se_streamSources env) name (streamSourceSettings cfg) of
        Inl err \<Rightarrow> giveUp (ServeStreamSource err)
      | Inr stats \<Rightarrow> onto ([OpenedStreamSource name] @ (if stats then [MetricsStreamSource] else []) @ [StartedStreamSource])
          (serveStreamSink cfg env))"

definition serveCommands :: "'n config \<Rightarrow> ('n, 'e) serveEnv \<Rightarrow> 'e serving" where
  "serveCommands cfg env =
     (if \<not> cx_Enabled (cg_Commands cfg) then serveStreamSource cfg env
      else case openPlugin (se_commanders env) (commanderName cfg) (commandSettingsNode (se_encode env) cfg) of
        Inl err \<Rightarrow> giveUp (ServeCommander err)
      | Inr stats \<Rightarrow> onto ([OpenedCommander (commanderName cfg)] @ (if stats then [MetricsCommand] else []) @ [MountedCommands])
          (serveStreamSource cfg env))"

definition serveSurface :: "'n config \<Rightarrow> ('n, 'e) serveEnv \<Rightarrow> 'e serving" where
  "serveSurface cfg env =
     (case openPlugin (se_sinks env) (cg_Sink cfg) (config_SinkSettings cfg) of
        Inl err \<Rightarrow> giveUp (ServeSink err)
      | Inr out \<Rightarrow> onto [OpenedSink (cg_Sink cfg) (streamingOn cfg)]
          (case ok_handler out of
             Some err \<Rightarrow> giveUp (ServeHandler err)
           | None \<Rightarrow> onto ([BuiltHandler] @ (if streamingOn cfg then [MetricsIntegrity, MetricsSession] else []) @
                 (if ok_unchanged out then [MetricsUnchanged (cg_Source cfg)] else []) @
                 [MetricsSource (cg_Source cfg), MetricsCost (cg_Source cfg) (cg_VehicleDataPriceUSD cfg)])
               (serveCommands cfg env)))"

definition serveRunning :: "'n config \<Rightarrow> ('n, 'e) serveEnv \<Rightarrow> 'e openSource \<Rightarrow> 'e serving" where
  "serveRunning cfg env src = onto ([StartedPolling, StaleAfter (cp_StaleAfter (cg_Poll cfg))] @ (if os_carTypes src then [CarTypes] else []))
     (serveSurface cfg env)"

definition serveCache :: "'n config \<Rightarrow> ('n, 'e) serveEnv \<Rightarrow> 'e openSource \<Rightarrow> identity list \<Rightarrow> 'e serving" where
  "serveCache cfg env src identities =
     (if \<not> streamingOn cfg then serveRunning cfg env src
      else let st = cg_Stream cfg; p = cg_Poll cfg in
        case newService identities (cp_StaleAfter p) (ct_AsOfFile st) (se_asof env) (ct_ReplayFile st) (se_replay env) (ct_ReplayDepth st) of
          Inl err \<Rightarrow> giveUp (ServeStore err)
        | Inr _ \<Rightarrow> onto [MadeService (cp_StaleAfter p) (ct_AsOfFile st) (ct_ReplayFile st) (ct_ReplayDepth st), ServiceManager,
              ServiceTrigger, ServiceFreshWithin (cp_StreamFreshWithin (pollFor (se_decodePoll env) (cg_Source cfg) cfg)), ManagerCache]
            (serveRunning cfg env src))"

definition serveWith :: "'n config \<Rightarrow> ('n, 'e) serveEnv \<Rightarrow> 'e serving" where
  "serveWith cfg env =
     (let h = cg_HTTP cfg in
      onto [HTTPDefaults \<lparr>ro_Timeout = ch_Timeout h, ro_Retries = ch_Retries h, ro_RetryWait = ch_RetryWait h,
          ro_RetryMaxWait = ch_RetryMaxWait h, ro_Debug = False\<rparr>, UserAgent (se_version env)]
        (case openPlugin (se_sources env) (cg_Source cfg) (config_SourceSettings cfg) of
           Inl err \<Rightarrow> giveUp (ServeSource err)
         | Inr src \<Rightarrow> onto [OpenedSource (cg_Source cfg)]
             (case os_vehicles src of
                Inl err \<Rightarrow> giveUp (ServeVehicles err)
              | Inr identities \<Rightarrow>
                  onto [ListedVehicles (map id_ID identities), MadeManager (map id_ID identities)
                      (intervalsOf (pollFor (se_decodePoll env) (cg_Source cfg) cfg))]
                    (serveCache cfg env src identities))))"

definition runServe :: "serveFlags \<Rightarrow> ('n, 'e) serveEnv \<Rightarrow> 'e serving" where
  "runServe fl env = (case config_Load (se_unmarshal env) (se_readFile env) (sf_config fl) of
     Inl err \<Rightarrow> giveUp (ServeConfig err)
   | Inr cfg0 \<Rightarrow> serveWith (withFlags fl cfg0) env)"

end
