(* ===== verification/ServeClaims.thy ===== *)
theory ServeClaims
  imports Serve
begin

section \<open>Properties of the start\<close>

text \<open>
  The start as the order of its steps: what may come before polling starts and what after, when the server
  listens, and what the settings reach.
\<close>

lemma onto_sel [simp]: "fst (onto acts rest) = acts @ fst rest" "snd (onto acts rest) = snd rest"
  by (simp_all add: onto_def)

lemma giveUp_sel [simp]: "fst (giveUp err) = []" "snd (giveUp err) = Some err"
  by (simp_all add: giveUp_def)


text \<open>A start that got as far as the listener.\<close>

fun upToListen :: "'e serveError option \<Rightarrow> bool" where
  "upToListen None \<longleftrightarrow> True"
| "upToListen (Some (ServeListen err)) \<longleftrightarrow> True"
| "upToListen (Some _) \<longleftrightarrow> False"


















subsection \<open>When every step goes well\<close>




lemma upToListen_listener [simp]: "upToListen (map_option ServeListen x)"
  by (cases x) simp_all












end
