(* ===== verification/Plugins.thy ===== *)
theory Plugins
  imports FleetServer StreamSink StreamSource Serve
begin

section \<open>The plugins around the parts\<close>

text \<open>
  How the sinks and the streaming plugins are put together and run: \<^verbatim>\<open>tesla/fleet/poll/v1/sink.go\<close>,
  \<^verbatim>\<open>tesla/owner/poll/v1/sink.go\<close>, the construction and \<^verbatim>\<open>Run\<close> of \<^verbatim>\<open>tesla/stream/v1/sink.go\<close> and
  \<^verbatim>\<open>tesla/fleet/stream/v1/source.go\<close>, the statistics of \<^verbatim>\<open>wssutil/stats.go\<close> and the drain of
  \<^verbatim>\<open>cache/lifecycle.go\<close>. Decoding a settings node, TLS, the listeners, the websocket upgrade and Tesla's
  certificate library are parameters.
\<close>

subsection \<open>The Fleet and the Owner sink\<close>

record fleetSettings =
  fp_ProviderToken :: string
  fp_IDMapFile :: string
  fp_AuthToken :: string

definition zeroFleetSettings :: fleetSettings where
  "zeroFleetSettings = \<lparr>fp_ProviderToken = [], fp_IDMapFile = [], fp_AuthToken = []\<rparr>"

text \<open>The cross-cutting inputs set by the command line before a sink is opened, and what a new id map finds on disk.\<close>

record fleetWiring =
  fw_carType :: "(string \<Rightarrow> string) option"
  fw_staleAfter :: duration
  fw_file :: "string \<Rightarrow> (string \<rightharpoonup> int) fileState"
  fw_stored :: "string \<Rightarrow> (string \<times> int) list"
  fw_writeOk :: "string \<Rightarrow> bool"
  fw_now :: gotime

datatype fleetSinkError = FleetDecode | FleetIdmap storeError | FleetAdapter storeError

definition buildHandlerSampler ::
  "nat \<Rightarrow> fleetWiring \<Rightarrow> provider \<Rightarrow> fleetSettings \<Rightarrow> (fleetSinkError + server \<times> sourceAdapter) option" where
  "buildHandlerSampler fuel wi prov s =
     (case newIdMap (fp_IDMapFile s) (fw_file wi (fp_IDMapFile s)) (fw_stored wi (fp_IDMapFile s)) of
        Inl err \<Rightarrow> Some (Inl (FleetIdmap err))
      | Inr ids \<Rightarrow> map_option (map_sum FleetAdapter (\<lambda>ad. (newServer (fw_now wi) (fp_AuthToken s), ad)))
          (newSourceAdapter fuel (fw_writeOk wi) prov ids (fw_staleAfter wi) (fw_carType wi)))"

definition fleetSettingsOf :: "('n \<Rightarrow> fleetSettings \<Rightarrow> fleetSettings option) \<Rightarrow> 'n option \<Rightarrow> fleetSettings option" where
  "fleetSettingsOf decode node = (case node of None \<Rightarrow> Some zeroFleetSettings | Some n \<Rightarrow> decode n zeroFleetSettings)"

definition newFleetSink ::
  "nat \<Rightarrow> ('n \<Rightarrow> fleetSettings \<Rightarrow> fleetSettings option) \<Rightarrow> fleetWiring \<Rightarrow> 'n option \<Rightarrow> provider \<Rightarrow>
   (fleetSinkError + server \<times> sourceAdapter) option" where
  "newFleetSink fuel decode wi node prov = (case fleetSettingsOf decode node of
     None \<Rightarrow> Some (Inl FleetDecode) | Some s \<Rightarrow> buildHandlerSampler fuel wi prov s)"

text \<open>The Owner sink is the Fleet sink under a name of its own, without the count of the unchanged reads.\<close>

definition newOwnerSink ::
  "nat \<Rightarrow> ('n \<Rightarrow> fleetSettings \<Rightarrow> fleetSettings option) \<Rightarrow> fleetWiring \<Rightarrow> 'n option \<Rightarrow> provider \<Rightarrow>
   (fleetSinkError + server \<times> sourceAdapter) option" where
  "newOwnerSink fuel decode wi node prov = (case fleetSettingsOf decode node of
     None \<Rightarrow> Some (Inl FleetDecode) | Some s \<Rightarrow> buildHandlerSampler fuel wi prov s)"

definition fleet_sampleRequest :: "string \<Rightarrow> sourceAdapter \<Rightarrow> route option" where
  "fleet_sampleRequest canonID ad = map_option (\<lambda>n. RVehicleData (itoa n)) (adapter_teslaID canonID ad)"

definition fleet_UnchangedReads :: "server \<times> sourceAdapter \<Rightarrow> int" where
  "fleet_UnchangedReads sk = adapter_UnchangedReads (snd sk)"

subsection \<open>The streaming sink\<close>

record streamSink =
  ssk_name :: string
  ssk_settings :: sinkSettings
  ssk_resolve :: tagResolver
  ssk_consumers :: int
  ssk_counters :: pushCounters

datatype streamSinkError = StreamDecode | StreamResolver storeError

definition zeroSinkSettings :: sinkSettings where
  "zeroSinkSettings = \<lparr>sk_ListenAddr = [], sk_MaxPushHz = fzero, sk_MaxConsumers = 0, sk_IDMapFile = [], sk_SendBuf = 0\<rparr>"

definition newStreamSink ::
  "nat \<Rightarrow> ('n \<Rightarrow> sinkSettings \<Rightarrow> sinkSettings option) \<Rightarrow> (string \<Rightarrow> bool) \<Rightarrow> (string \<Rightarrow> (string \<rightharpoonup> int) fileState) \<Rightarrow>
   (string \<Rightarrow> (string \<times> int) list) \<Rightarrow> identity list \<Rightarrow> 'n option \<Rightarrow> (streamSinkError + streamSink) option" where
  "newStreamSink fuel decode wok files stored identities node =
     (case (case node of None \<Rightarrow> Some zeroSinkSettings | Some n \<Rightarrow> decode n zeroSinkSettings) of
        None \<Rightarrow> Some (Inl StreamDecode)
      | Some s0 \<Rightarrow>
          (let s = applySinkDefaults s0; path = sk_IDMapFile s in
           map_option (map_sum StreamResolver (\<lambda>r. \<lparr>ssk_name = ''tesla-fleet-stream-v1'', ssk_settings = s, ssk_resolve = r,
               ssk_consumers = 0, ssk_counters = \<lparr>pc_pushed = 0, pc_dropped = 0\<rparr>\<rparr>))
             (buildResolver fuel wok path (files path) (stored path) identities)))"

definition streamSink_Stats :: "streamSink \<Rightarrow> int \<times> int \<times> int" where
  "streamSink_Stats k = (ssk_consumers k, pc_pushed (ssk_counters k), pc_dropped (ssk_counters k))"

text \<open>\<^verbatim>\<open>mountStreaming\<close>: which paths of a GET lead to the upgrade. A path parameter is one segment that is not empty.\<close>

definition streamingPath :: "string \<Rightarrow> bool" where
  "streamingPath p \<longleftrightarrow> p = ''/streaming'' \<or> p = ''/streaming/'' \<or>
     (take 11 p = ''/streaming/'' \<and> drop 11 p \<noteq> [] \<and> CHR ''/'' \<notin> set (drop 11 p))"

text \<open>
  How \<^verbatim>\<open>Run\<close> ends: the listener cannot be bound, the context ends first, or serving ends first, with
  \<^verbatim>\<open>http.ErrServerClosed\<close> or another error.
\<close>

datatype 'e serveEnd = CtxDone | ServerClosed | ServeFailed 'e

datatype 'e runError = StreamListen 'e | StreamServe 'e

definition streamSink_Run :: "(string \<Rightarrow> 'e option) \<Rightarrow> 'e serveEnd \<Rightarrow> streamSink \<Rightarrow> 'e runError option" where
  "streamSink_Run bind how k = (case bind (sk_ListenAddr (ssk_settings k)) of
     Some e \<Rightarrow> Some (StreamListen e)
   | None \<Rightarrow> (case how of CtxDone \<Rightarrow> None | ServerClosed \<Rightarrow> None | ServeFailed e \<Rightarrow> Some (StreamServe e)))"

subsection \<open>The Fleet Telemetry source\<close>

datatype clientAuth = RequireAnyClientCert | RequireAndVerifyClientCert

datatype 'e teleRunError = ClientCAUnreadable 'e | ClientCAEmpty string | TeleListen 'e | TeleServe 'e

text \<open>\<open>readCA\<close> is the file of the client CA, \<open>certsIn\<close> whether PEM certificates were found in it.\<close>

definition loadCAs :: "(string \<Rightarrow> 'e + string) \<Rightarrow> (string \<Rightarrow> bool) \<Rightarrow> string \<Rightarrow> 'e teleRunError option" where
  "loadCAs readCA certsIn path = (case readCA path of Inl e \<Rightarrow> Some (ClientCAUnreadable e)
     | Inr pem \<Rightarrow> if certsIn pem then None else Some (ClientCAEmpty path))"

definition clientAuthFor :: "(string \<Rightarrow> 'e + string) \<Rightarrow> (string \<Rightarrow> bool) \<Rightarrow> string \<Rightarrow> 'e teleRunError + clientAuth" where
  "clientAuthFor readCA certsIn clientCA =
     (if clientCA = [] then Inr RequireAnyClientCert
      else case loadCAs readCA certsIn clientCA of Some e \<Rightarrow> Inl e | None \<Rightarrow> Inr RequireAndVerifyClientCert)"

text \<open>The listener \<^verbatim>\<open>Run\<close> serves on: how it asks for certificates, its address and its caps; and how it ends.\<close>

definition telemetry_Run ::
  "(string \<Rightarrow> 'e + string) \<Rightarrow> (string \<Rightarrow> bool) \<Rightarrow> string \<Rightarrow> (string \<Rightarrow> 'e option) \<Rightarrow> 'e serveEnd \<Rightarrow> fleetTelemetrySource \<Rightarrow>
   (clientAuth \<times> cappedListener) option \<times> 'e teleRunError option" where
  "telemetry_Run readCA certsIn clientCA bind how src =
     (case clientAuthFor readCA certsIn clientCA of Inl e \<Rightarrow> (None, Some e)
      | Inr auth \<Rightarrow>
          (let s = ft_settings src in
           case bind (ss_Host s @ '':'' @ itoa (ss_Port s)) of Some e \<Rightarrow> (None, Some (TeleListen e))
           | None \<Rightarrow> (Some (auth, newCappedListener (ss_MaxConns s) (ss_MaxConnsPerIP s)),
               case how of ServeFailed e \<Rightarrow> Some (TeleServe e) | _ \<Rightarrow> None)))"

record requestIdentity =
  ri_DeviceID :: string
  ri_SenderID :: string
  ri_DeviceClientVersion :: string

datatype 'e identityError = NoClientCert | BadCert 'e

text \<open>A request's peer certificates, none without TLS; \<open>fromCert\<close> is Tesla's check, the client type and the device id.\<close>

definition identityFromClientCert ::
  "('c \<Rightarrow> 'e + string \<times> string) \<Rightarrow> 'c list option \<Rightarrow> string \<Rightarrow> 'e identityError + requestIdentity" where
  "identityFromClientCert fromCert peers version = (case peers of
     Some (leaf # _) \<Rightarrow> (case fromCert leaf of Inl e \<Rightarrow> Inl (BadCert e)
       | Inr (clientType, deviceID) \<Rightarrow> Inr \<lparr>ri_DeviceID = deviceID, ri_SenderID = clientType @ ''.'' @ deviceID,
           ri_DeviceClientVersion = version\<rparr>)
   | _ \<Rightarrow> Inl NoClientCert)"

datatype vehicleDial = DialRefused | DialNotUpgraded | DialOpen requestIdentity

definition handleVehicle ::
  "('c \<Rightarrow> 'e + string \<times> string) \<Rightarrow> bool \<Rightarrow> 'c list option \<Rightarrow> string \<Rightarrow> fleetTelemetrySource \<Rightarrow> vehicleDial \<times> fleetTelemetrySource" where
  "handleVehicle fromCert upgraded peers version src =
     (case identityFromClientCert fromCert peers version of
        Inl _ \<Rightarrow> (DialRefused, counting (src_Reject ''identity'') src)
      | Inr ident \<Rightarrow> (if upgraded then DialOpen ident else DialNotUpgraded, src))"

text \<open>A close error: whether \<^verbatim>\<open>os.ErrDeadlineExceeded\<close> is in its chain, and its first \<^verbatim>\<open>net.Error\<close>'s \<^verbatim>\<open>Timeout\<close>.\<close>

record closeError =
  ce_deadline :: bool
  ce_netTimeout :: "bool option"

definition isIdleTimeout :: "closeError option \<Rightarrow> bool" where
  "isIdleTimeout err = (case err of None \<Rightarrow> False | Some e \<Rightarrow> ce_deadline e \<or> ce_netTimeout e = Some True)"

subsection \<open>The statistics of a stream source\<close>

record sourceStats =
  sx_Connected :: int
  sx_Connects :: int
  sx_Disconnects :: int
  sx_IdleTimeouts :: int
  sx_Frames :: int
  sx_LastFrameAge :: duration
  sx_GapBuckets :: "(f64 \<times> int) list"
  sx_GapSum :: f64
  sx_GapCount :: int
  sx_FieldFrames :: "string \<rightharpoonup> int"
  sx_Rejects :: "string \<rightharpoonup> int"

text \<open>The buckets are a map from bounds, which are distinct, to counts; here the list of its entries.\<close>

definition src_Stats :: "gotime \<Rightarrow> sourceCounters \<Rightarrow> sourceStats" where
  "src_Stats now c = \<lparr>sx_Connected = sr_connected c, sx_Connects = sr_connects c, sx_Disconnects = sr_disconnects c,
     sx_IdleTimeouts = sr_idleTimeouts c, sx_Frames = sr_frames c,
     sx_LastFrameAge = (if 0 < sr_lastFrameAt c then time_sub now (unixEpoch + sr_lastFrameAt c) else 0),
     sx_GapBuckets = (case sr_gapBuckets c of None \<Rightarrow> [] | Some bs \<Rightarrow> zip gapBucketsSeconds bs),
     sx_GapSum = sr_gapSum c, sx_GapCount = sr_gapCount c,
     sx_FieldFrames = sr_fieldFrame c, sx_Rejects = sr_rejects c\<rparr>"

subsection \<open>Reconnecting and shutting down\<close>

record backoffConfig =
  bc_Initial :: duration
  bc_Max :: duration
  bc_Multiplier :: f64
  bc_Randomization :: f64

definition newReconnectBackoff :: "duration \<Rightarrow> duration \<Rightarrow> backoffConfig" where
  "newReconnectBackoff initial maxDelay = \<lparr>bc_Initial = (if initial \<le> 0 then 1 * Second else initial),
     bc_Max = (if maxDelay \<le> 0 then 5 * Minute else maxDelay), bc_Multiplier = fconst 2, bc_Randomization = fconst 0.1\<rparr>"

definition shutdownDrainTimeout :: duration where "shutdownDrainTimeout = 10 * Second"

text \<open>How long \<^verbatim>\<open>ShutdownOn\<close> stays after the context ended: \<open>after\<close> is how long its callback takes, None for one that hangs.\<close>

definition shutdownOn :: "duration option option \<Rightarrow> duration" where
  "shutdownOn after = (case after of None \<Rightarrow> 0
     | Some None \<Rightarrow> shutdownDrainTimeout
     | Some (Some d) \<Rightarrow> if d < shutdownDrainTimeout then d else shutdownDrainTimeout)"

subsection \<open>What holds of them\<close>

text \<open>
  The request a sink offers as its sample is answered: with no token configured, status 200 and the data of a
  vehicle that is served, the one asked for if one was.
\<close>

theorem sample_is_served:
  assumes ok: "adapter_ok ad" and ids: "\<And>n. n \<in> set (ad_order ad) \<Longrightarrow> in_int64 n"
    and r: "fleet_sampleRequest canonID ad = Some r"
  shows "\<exists>vd n e. fst (server_handle adapterOps now np (Some r) header (newServer start [], ad)) = (200, DataBody vd) \<and>
     ad_byID ad n = Some e \<and> carries (ve_identity e) vd \<and> (canonID \<noteq> [] \<longrightarrow> ti_canonID (ve_identity e) = canonID)"
proof -
  obtain n where n: "adapter_teslaID canonID ad = Some n" "r = RVehicleData (itoa n)"
    using r by (auto simp: fleet_sampleRequest_def)
  have mem: "n \<in> set (ad_order ad)" "canonID \<noteq> [] \<longrightarrow> map_option (\<lambda>e. ti_canonID (ve_identity e)) (ad_byID ad n) = Some canonID"
    using n(1) by (auto simp: adapter_teslaID_def find_Some_iff split: if_splits list.splits)
  have "n \<in> dom (ad_byID ad)" using ok mem(1) by (simp add: adapter_ok_def)
  then obtain e where e: "ad_byID ad n = Some e" by blast
  have tag: "adapter_ResolveTag (itoa n) ad = Some n" using parseInt64_itoa [OF ids [OF mem(1)]] e by (simp add: adapter_ResolveTag_def)
  obtain hit out e2 where t: "translate (fst np) (ad_staleAfter ad) (pv_Latest (snd np) (ti_canonID (ve_identity e))) e = (hit, out, e2)"
    by (metis surj_pair)
  have "fst (server_handle adapterOps now np (Some r) header (newServer start [], ad)) = (200, DataBody out)"
    by (simp add: n(2) server_handle_def newServer_def authorized_def registered_def dispatch_def handleVehicleDataRoute_def adapterOps_def
        pathID_def tag adapter_VehicleData_def e t Let_def)
  with translate_ok(1) [OF adapter_entry [OF ok e] t] e mem(2) show ?thesis by auto
qed

text \<open>The gap histogram a scrape reads is cumulative: the counts grow with the bounds and stay within the total.\<close>

definition gapsOk :: "sourceCounters \<Rightarrow> bool" where
  "gapsOk c \<longleftrightarrow> 0 \<le> sr_gapCount c \<and> (\<forall>bs. sr_gapBuckets c = Some bs \<longrightarrow>
     length bs = length gapBucketsSeconds \<and> sorted bs \<and> (\<forall>b \<in> set bs. 0 \<le> b \<and> b \<le> sr_gapCount c))"

lemma fle_trans: "fle x y \<Longrightarrow> fle y z \<Longrightarrow> fle x z"
  by (cases x; cases y; cases z) (auto simp: fle_def)

lemma fle_const:
  assumes "1 / 4 \<le> x" "x \<le> y" "y \<le> 1000"
  shows "fle (fconst x) (fconst y)"
proof -
  have "(2 :: real) powi (- 1022) \<le> 1 / 4" by (simp add: power_int_minus)
  moreover have "(1000 :: real) \<le> 2 ^ 1023" by simp
  ultimately have "round64 x = Fin (rnd x)" "round64 y = Fin (rnd y)" using assms by (auto intro!: round64_Fin)
  then show ?thesis using rnd_mono [OF assms(2)] by (simp add: fle_def less_eq_real_def)
qed

lemma gapBuckets_sorted: "i < j \<Longrightarrow> j < length gapBucketsSeconds \<Longrightarrow> fle (gapBucketsSeconds ! i) (gapBucketsSeconds ! j)"
proof -
  have "sorted_wrt (\<lambda>x y. fle (fconst x) (fconst y)) [0.5, 1, 2, 5, 10, 20, 30, 60, 120, 300]"
    by (rule sorted_wrt_mono_rel [of _ "(\<le>)"], rule fle_const) auto
  then have "sorted_wrt fle gapBucketsSeconds" unfolding gapBucketsSeconds_def sorted_wrt_map .
  then show "i < j \<Longrightarrow> j < length gapBucketsSeconds \<Longrightarrow> fle (gapBucketsSeconds ! i) (gapBucketsSeconds ! j)"
    by (simp add: sorted_wrt_iff_nth_less)
qed

lemma observeGap_ok:
  assumes "gapsOk c" "sr_gapCount c < 2 ^ 64 - 1"
  shows "gapsOk (observeGap secs c)" "sr_gapCount (observeGap secs c) = sr_gapCount c + 1"
proof -
  define bs where "bs = (case sr_gapBuckets c of None \<Rightarrow> replicate (length gapBucketsSeconds) 0 | Some bs \<Rightarrow> bs)"
  define f where "f = (\<lambda>le n :: int. if fle secs le then (n + 1) mod 2 ^ 64 else n)"
  have bs: "length bs = length gapBucketsSeconds" "sorted bs" "\<And>b. b \<in> set bs \<Longrightarrow> 0 \<le> b \<and> b \<le> sr_gapCount c"
    using assms(1) by (auto simp: bs_def gapsOk_def split: option.splits)
  have c0: "0 \<le> sr_gapCount c" using assms(1) by (simp add: gapsOk_def)
  have at: "bs ! i \<in> set bs" if "i < length bs" for i using that by simp
  have small: "(bs ! i + 1) mod 2 ^ 64 = bs ! i + 1" if "i < length bs" for i
    using bs(3) [OF at [OF that]] assms(2) by simp
  have "sorted (map2 f gapBucketsSeconds bs)"
    unfolding sorted_iff_nth_mono_less
  proof (intro allI impI)
    fix i j assume ij: "i < j" "j < length (map2 f gapBucketsSeconds bs)"
    then have b: "bs ! i \<le> bs ! j" "i < length bs" "j < length bs" using bs(1,2) by (auto simp: sorted_iff_nth_mono_less)
    have "fle secs (gapBucketsSeconds ! i) \<Longrightarrow> fle secs (gapBucketsSeconds ! j)"
      using gapBuckets_sorted [of i j] ij bs(1) fle_trans by auto
    then show "map2 f gapBucketsSeconds bs ! i \<le> map2 f gapBucketsSeconds bs ! j"
      using ij b bs(1) small by (auto simp: f_def)
  qed
  moreover have "0 \<le> b \<and> b \<le> sr_gapCount c + 1" if mem: "b \<in> set (map2 f gapBucketsSeconds bs)" for b
  proof -
    obtain i where "i < length (map2 f gapBucketsSeconds bs)" "b = map2 f gapBucketsSeconds bs ! i"
      using mem unfolding in_set_conv_nth by blast
    then have i: "i < length bs" "b = f (gapBucketsSeconds ! i) (bs ! i)" using bs(1) by simp_all
    with bs(3) [OF at [OF i(1)]] small [OF i(1)] show ?thesis by (auto simp: f_def)
  qed
  moreover have "observeGap secs c = c\<lparr>sr_gapBuckets := Some (map2 f gapBucketsSeconds bs),
      sr_gapSum := fadd (sr_gapSum c) secs, sr_gapCount := sr_gapCount c + 1\<rparr>"
    using c0 assms(2) by (simp add: observeGap_def Let_def bs_def f_def)
  ultimately show "gapsOk (observeGap secs c)" "sr_gapCount (observeGap secs c) = sr_gapCount c + 1"
    using c0 bs(1) by (simp_all add: gapsOk_def)
qed


theorem gap_histogram_cumulative:
  assumes "length ts < 2 ^ 63"
  shows "let s = src_Stats now (fold src_Frame ts zeroCounters)
     in sorted (map snd (sx_GapBuckets s)) \<and> (\<forall>(le, n) \<in> set (sx_GapBuckets s). 0 \<le> n \<and> n \<le> sx_GapCount s) \<and>
        sx_GapCount s \<le> int (length ts)"
proof -
  have "gapsOk (fold src_Frame ts c) \<and> sr_gapCount (fold src_Frame ts c) \<le> sr_gapCount c + int (length ts)"
    if "gapsOk c" "sr_gapCount c + int (length ts) < 2 ^ 64 - 1" for c
    using that
  proof (induction ts arbitrary: c)
    case (Cons t ts)
    have "gapsOk (c\<lparr>sr_lastFrameAt := x, sr_frames := y\<rparr>)" for x y using Cons.prems(1) by (simp add: gapsOk_def)
    then have "gapsOk (src_Frame t c)" "sr_gapCount (src_Frame t c) \<le> sr_gapCount c + 1"
      using Cons.prems observeGap_ok by (auto simp: src_Frame_def Let_def)
    with Cons.IH [of "src_Frame t c"] Cons.prems(2) show ?case by simp
  qed simp
  from this [of zeroCounters] assms have ok: "gapsOk (fold src_Frame ts zeroCounters)"
    "sr_gapCount (fold src_Frame ts zeroCounters) \<le> int (length ts)"
    by (simp_all add: gapsOk_def zeroCounters_def)
  then show ?thesis
    by (cases "sr_gapBuckets (fold src_Frame ts zeroCounters)")
      (auto simp: src_Stats_def Let_def gapsOk_def dest: set_zip_rightD)
qed

end
