(* ===== verification/Backfill.thy ===== *)
theory Backfill
  imports Mock FleetClient RivianClient
begin

section \<open>The mock command\<close>

text \<open>
  \<^verbatim>\<open>internal/cli/mock.go\<close>: the flags of the mock command, the history it writes and has TeslaMate import one car
  after the other, and the steps of its live server. TeslaMate, reached by shell commands, the directory listing,
  the time zone database and the clock are parameters; the log lines are left out.
\<close>

subsection \<open>Durations\<close>

text \<open>
  \<^verbatim>\<open>time.ParseDuration\<close>, on bytes: whole part, fraction and unit of every term, with the overflow checks of the
  library. The fraction stops growing once another digit would not fit.
\<close>

fun leadingInt :: "nat \<Rightarrow> string \<Rightarrow> (nat \<times> string) option" where
  "leadingInt x [] = Some (x, [])"
| "leadingInt x (c # cs) = (if \<not> isDigit c then Some (x, c # cs)
     else if 2 ^ 63 < x * 10 + digitVal c then None else leadingInt (x * 10 + digitVal c) cs)"

fun leadingFraction :: "bool \<Rightarrow> nat \<Rightarrow> f64 \<Rightarrow> string \<Rightarrow> nat \<times> f64 \<times> string" where
  "leadingFraction full x scale [] = (x, scale, [])"
| "leadingFraction full x scale (c # cs) =
     (if \<not> isDigit c then (x, scale, c # cs)
      else if full \<or> (2 ^ 63 - 1) div 10 < x \<or> 2 ^ 63 < x * 10 + digitVal c then leadingFraction True x scale cs
      else leadingFraction False (x * 10 + digitVal c) (fmul scale (Fin 10)) cs)"

definition unitMap :: "string \<Rightarrow> nat option" where
  "unitMap = map_of [(''ns'', 1), (''us'', 1000), ([CHR 0xC2, CHR 0xB5, CHR ''s''], 1000),
     ([CHR 0xCE, CHR 0xBC, CHR ''s''], 1000), (''ms'', 1000000), (''s'', 1000000000),
     (''m'', 60000000000), (''h'', 3600000000000)]"

definition unitChar :: "char \<Rightarrow> bool" where
  "unitChar c \<longleftrightarrow> c \<noteq> CHR ''.'' \<and> \<not> isDigit c"

definition fractionOf :: "string \<Rightarrow> bool \<times> nat \<times> f64 \<times> string" where
  "fractionOf s = (case s of [] \<Rightarrow> (False, 0, Fin 1, [])
     | c # cs \<Rightarrow> if c = CHR ''.'' then (let (f, scale, rest) = leadingFraction False 0 (Fin 1) cs
                     in (length rest < length cs, f, scale, rest))
                 else (False, 0, Fin 1, s))"

text \<open>One term: its nanoseconds and the rest of the text.\<close>

definition durationTerm :: "string \<Rightarrow> (nat \<times> string) option" where
  "durationTerm s =
     (if s = [] \<or> \<not> (hd s = CHR ''.'' \<or> isDigit (hd s)) then None
      else case leadingInt 0 s of None \<Rightarrow> None
      | Some (v, s1) \<Rightarrow>
          (let (post, f, scale, s2) = fractionOf s1; u = takeWhile unitChar s2 in
           if (length s1 = length s \<and> \<not> post) \<or> u = [] then None
           else case unitMap u of None \<Rightarrow> None
           | Some unit \<Rightarrow>
               if 2 ^ 63 div unit < v then None
               else
                 let w = v * unit + (if 0 < f then nat (f2i (fmul (i2f (int f)) (fdiv (i2f (int unit)) scale))) else 0)
                 in if 2 ^ 63 < w then None else Some (w, dropWhile unitChar s2)))"

lemma leadingInt_rest: "leadingInt x s = Some (v, r) \<Longrightarrow> length r \<le> length s"
  by (induction x s rule: leadingInt.induct) (auto split: if_splits)

lemma leadingFraction_rest: "leadingFraction full x sc s = (f, sc', r) \<Longrightarrow> length r \<le> length s"
  by (induction full x sc s rule: leadingFraction.induct) (auto split: if_splits)

lemma fractionOf_rest: "fractionOf s = (post, f, sc, r) \<Longrightarrow> length r \<le> length s"
  using leadingFraction_rest by (fastforce simp: fractionOf_def Let_def split: list.splits if_splits prod.splits)

lemma durationTerm_rest:
  assumes "durationTerm s = Some (w, r)"
  shows "length r < length s"
proof -
  obtain v s1 where 1: "leadingInt 0 s = Some (v, s1)"
    using assms by (auto simp: durationTerm_def split: if_splits option.splits)
  obtain post f sc s2 where 2: "fractionOf s1 = (post, f, sc, s2)" by (metis prod_cases4)
  from assms 1 2 have "takeWhile unitChar s2 \<noteq> []" "r = dropWhile unitChar s2"
    by (auto simp: durationTerm_def Let_def split: if_splits option.splits)
  then have "length r < length s2"
    by (metis length_append length_greater_0_conv less_add_same_cancel2 takeWhile_dropWhile_id)
  with leadingInt_rest [OF 1] fractionOf_rest [OF 2] show ?thesis by linarith
qed

function durationTerms :: "nat \<Rightarrow> string \<Rightarrow> nat option" where
  "durationTerms d s = (if s = [] then Some d
     else case durationTerm s of None \<Rightarrow> None
     | Some (w, r) \<Rightarrow> if 2 ^ 63 < d + w then None else durationTerms (d + w) r)"
  by pat_completeness auto
termination
  by (relation "measure (length \<circ> snd)") (auto dest: durationTerm_rest)

declare durationTerms.simps [simp del]

definition parseDuration :: "string \<Rightarrow> duration option" where
  "parseDuration s =
     (let (neg, r) = splitSign s in
      if r = ''0'' then Some 0 else if r = [] then None
      else case durationTerms 0 r of None \<Rightarrow> None
      | Some d \<Rightarrow> if neg then Some (wrap64 (- int d)) else if 2 ^ 63 - 1 < d then None else Some (int d))"

definition cutSuffix :: "string \<Rightarrow> string \<Rightarrow> string option" where
  "cutSuffix suf s = (let n = length s - length suf in
     if length suf \<le> length s \<and> drop n s = suf then Some (take n s) else None)"

definition sinceUnits :: "(string \<times> duration) list" where
  "sinceUnits = [(''mo'', 30 * 24 * Hour), (''y'', 365 * 24 * Hour), (''w'', 7 * 24 * Hour), (''d'', 24 * Hour)]"

fun sinceUnit :: "(string \<times> duration) list \<Rightarrow> string \<Rightarrow> (string \<times> duration) option" where
  "sinceUnit [] s = None"
| "sinceUnit ((suf, dur) # us) s = (case cutSuffix suf s of Some num \<Rightarrow> Some (num, dur) | None \<Rightarrow> sinceUnit us s)"

definition parseSince :: "(string \<Rightarrow> f64 option) \<Rightarrow> string \<Rightarrow> duration option" where
  "parseSince exotic s0 =
     (let s = trimSpace s0 in
      case sinceUnit sinceUnits s of
        Some (num, dur) \<Rightarrow> map_option (\<lambda>n. f2i (fmul n (i2f dur))) (parseFloatOk exotic (trimSpace num))
      | None \<Rightarrow> parseDuration s)"

subsection \<open>The cars\<close>

datatype flagError = BadEntry string | NoVehicles

definition nthOr :: "string list \<Rightarrow> nat \<Rightarrow> string \<Rightarrow> string" where
  "nthOr parts i dflt = (if i < length parts \<and> parts ! i \<noteq> [] then parts ! i else dflt)"

definition entrySpec :: "string list \<Rightarrow> vehicleSpec" where
  "entrySpec parts = \<lparr>vp_GUID = parts ! 0, vp_VIN = parts ! 1, vp_Name = nthOr parts 2 ''Mock Rivian'',
     vp_Model = nthOr parts 3 ''R1T'', vp_Make = []\<rparr>"

fun parseEntries :: "string list \<Rightarrow> vehicleSpec list \<Rightarrow> flagError + vehicleSpec list" where
  "parseEntries [] out = (if out = [] then Inl NoVehicles else Inr out)"
| "parseEntries (e0 # es) out =
     (let e = trimSpace e0; parts = splitSlash e in
      if e = [] then parseEntries es out
      else if length parts < 2 then Inl (BadEntry e)
      else parseEntries es (out @ [entrySpec parts]))"

definition parseMockVehicles :: "string \<Rightarrow> flagError + vehicleSpec list" where
  "parseMockVehicles s = parseEntries (splitComma s) []"

subsection \<open>TeslaMate\<close>

definition shellSingleQuote :: "string \<Rightarrow> string" where
  "shellSingleQuote s = CHR 0x27 # concat (map (\<lambda>c. if c = CHR 0x27 then [CHR 0x27, CHR 0x5C, CHR 0x27, CHR 0x27] else [c]) s)
     @ [CHR 0x27]"

datatype teslamateCall = Restart | Rpc string

fun commandLine :: "string \<Rightarrow> teslamateCall \<Rightarrow> string" where
  "commandLine compose Restart = compose @ '' restart teslamate''"
| "commandLine compose (Rpc e) = compose @ '' exec -T teslamate bin/teslamate rpc '' @ shellSingleQuote e"

text \<open>
  \<open>be_run\<close> is the shell: output, whether it ended well, and what became of the import directory and the rest of
  the world. \<open>bs_ran\<close> records the commands in their order: the directory each of them found, its output and
  whether it ended well.
\<close>

record commandRun =
  cr_Call :: teslamateCall
  cr_Dir :: directory
  cr_Out :: string
  cr_Ok :: bool

record 'w backfillEnv =
  be_run :: "string \<Rightarrow> directory \<Rightarrow> 'w \<Rightarrow> (string \<times> bool) \<times> directory \<times> 'w"
  be_sleep :: "duration \<Rightarrow> 'w \<Rightarrow> 'w"
  be_now :: "'w \<Rightarrow> gotime"
  be_names :: "directory \<Rightarrow> string list"
  be_removeOk :: "string \<Rightarrow> bool"
  be_mkdirOk :: bool
  be_writeOk :: "string \<Rightarrow> bool"
  be_location :: "string \<Rightarrow> (gotime \<Rightarrow> int) option"
  be_visit :: "gotime \<Rightarrow> string list"

record 'w backfillState =
  bs_dir :: directory
  bs_world :: 'w
  bs_engine :: engine
  bs_ran :: "commandRun list"

datatype backfillError = BadTimezone | NeedsCompose | ClearFailed string | ExportFailed string csvError
  | RestartFailed string | NoComeBack | NoImportMode | RunFailed string | StatusFailed string
  | ImportError string string | ImportTimeout string

type_synonym 'w backfilling = "(backfillError option \<times> 'w backfillState) option"

text \<open>What follows a step that went well; None is a wait that ran out of fuel.\<close>

definition onward :: "'w backfilling \<Rightarrow> ('w backfillState \<Rightarrow> 'w backfilling) \<Rightarrow> 'w backfilling" where
  "onward m f = (case m of None \<Rightarrow> None | Some (Some e, st) \<Rightarrow> Some (Some e, st) | Some (None, st) \<Rightarrow> f st)"

definition teslamate :: "'w backfillEnv \<Rightarrow> string \<Rightarrow> teslamateCall \<Rightarrow> 'w backfillState \<Rightarrow> (string \<times> bool) \<times> 'w backfillState" where
  "teslamate env compose call st =
     (let ((out, ok), d, w) = be_run env (commandLine compose call) (bs_dir st) (bs_world st);
          run = \<lparr>cr_Call = call, cr_Dir = bs_dir st, cr_Out = out, cr_Ok = ok\<rparr>
      in ((out, ok), st\<lparr>bs_dir := d, bs_world := w, bs_ran := bs_ran st @ [run]\<rparr>))"

text \<open>A wait: \<open>try\<close> answers with the outcome once there is one, and else is called again three seconds later.\<close>

fun waitUntil ::
  "nat \<Rightarrow> 'w backfillEnv \<Rightarrow> ('w backfillState \<Rightarrow> backfillError option option \<times> 'w backfillState) \<Rightarrow> backfillError \<Rightarrow>
   gotime \<Rightarrow> 'w backfillState \<Rightarrow> 'w backfilling" where
  "waitUntil 0 env try late deadline st = None"
| "waitUntil (Suc n) env try late deadline st =
     (if be_now env (bs_world st) < deadline then
        (case try st of
           (Some r, st1) \<Rightarrow> Some (r, st1)
         | (None, st1) \<Rightarrow> waitUntil n env try late deadline (st1\<lparr>bs_world := be_sleep env (3 * Second) (bs_world st1)\<rparr>))
      else Some (Some late, st))"

definition waitNode :: "nat \<Rightarrow> 'w backfillEnv \<Rightarrow> string \<Rightarrow> 'w backfillState \<Rightarrow> 'w backfilling" where
  "waitNode fuel env compose st =
     waitUntil fuel env (\<lambda>st. let ((out, ok), st1) = teslamate env compose (Rpc '':ok'') st
        in (if ok then Some None else None, st1)) NoComeBack (be_now env (bs_world st) + 2 * Minute) st"

definition waitImportReady :: "nat \<Rightarrow> 'w backfillEnv \<Rightarrow> string \<Rightarrow> 'w backfillState \<Rightarrow> 'w backfilling" where
  "waitImportReady fuel env compose st =
     waitUntil fuel env (\<lambda>st. let ((out, ok), st1) = teslamate env compose (Rpc ''IO.inspect(TeslaMate.Import.enabled?())'') st
        in (if ok \<and> containsStr ''true'' out then Some None else None, st1)) NoImportMode
       (be_now env (bs_world st) + 1 * Minute) st"

definition pollImport :: "nat \<Rightarrow> 'w backfillEnv \<Rightarrow> string \<Rightarrow> string \<Rightarrow> 'w backfillState \<Rightarrow> 'w backfilling" where
  "pollImport fuel env compose name st =
     waitUntil fuel env (\<lambda>st. let ((out, ok), st1) = teslamate env compose (Rpc ''IO.inspect(TeslaMate.Import.get_status().state)'') st
        in (if \<not> ok then Some (Some (StatusFailed out))
            else if containsStr '':error'' out then Some (Some (ImportError name out))
            else if containsStr '':complete'' out then Some None else None, st1)) (ImportTimeout name)
       (be_now env (bs_world st) + 15 * Minute) st"

definition restartTeslamate :: "nat \<Rightarrow> 'w backfillEnv \<Rightarrow> string \<Rightarrow> 'w backfillState \<Rightarrow> 'w backfilling" where
  "restartTeslamate fuel env compose st =
     (let ((out, ok), st1) = teslamate env compose Restart st
      in if ok then waitNode fuel env compose st1 else Some (Some (RestartFailed out), st1))"

definition importRun :: "string \<Rightarrow> teslamateCall" where
  "importRun tz = Rpc (''TeslaMate.Import.run('' @ goQuote tz @ '')'')"

definition importOne :: "nat \<Rightarrow> 'w backfillEnv \<Rightarrow> string \<Rightarrow> string \<Rightarrow> string \<Rightarrow> 'w backfillState \<Rightarrow> 'w backfilling" where
  "importOne fuel env compose tz name st =
     onward (restartTeslamate fuel env compose st) (\<lambda>st1.
     onward (waitImportReady fuel env compose st1) (\<lambda>st2.
     let ((out, ok), st3) = teslamate env compose (importRun tz) st2
     in if ok then pollImport fuel env compose name st3 else Some (Some (RunFailed out), st3)))"

subsection \<open>The backfill\<close>

fun removeAll :: "'w backfillEnv \<Rightarrow> string list \<Rightarrow> 'w backfillState \<Rightarrow> backfillError option \<times> 'w backfillState" where
  "removeAll env [] st = (None, st)"
| "removeAll env (m # ms) st =
     (if be_removeOk env m then removeAll env ms (st\<lparr>bs_dir := (bs_dir st)(m := None)\<rparr>) else (Some (ClearFailed m), st))"

definition clearCSVs :: "'w backfillEnv \<Rightarrow> 'w backfillState \<Rightarrow> backfillError option \<times> 'w backfillState" where
  "clearCSVs env st = removeAll env (filter isTeslaFi (be_names env (bs_dir st))) st"

definition onlyCar :: "string \<Rightarrow> (string \<times> snapshot) list \<Rightarrow> (string \<times> snapshot) list" where
  "onlyCar guid samples = filter (\<lambda>(g, snap). g = guid) samples"

record backfillJob =
  bj_dur :: duration
  bj_cfg :: cycleConfig
  bj_importDir :: string
  bj_tz :: string
  bj_compose :: string

definition exportCar ::
  "'w backfillEnv \<Rightarrow> backfillJob \<Rightarrow> (gotime \<Rightarrow> int) \<Rightarrow> vehicleSpec \<Rightarrow> 'w backfillState \<Rightarrow> backfillError option \<times> 'w backfillState" where
  "exportCar env job loc sp st =
     (let now = be_now env (bs_world st); e = bs_engine st;
          (hist, e1) = generateHistory (bj_dur job) (bj_cfg job) (be_visit env) now e;
          (err, d1) = exportHistory (be_mkdirOk env) (be_writeOk env) loc (bj_importDir job) (engine_Provider now now e)
            (onlyCar (vp_GUID sp) hist) (bs_dir st)
      in (map_option (ExportFailed (vp_Name sp)) err, st\<lparr>bs_engine := e1, bs_dir := d1\<rparr>))"

fun backfillCars :: "nat \<Rightarrow> 'w backfillEnv \<Rightarrow> backfillJob \<Rightarrow> (gotime \<Rightarrow> int) \<Rightarrow> vehicleSpec list \<Rightarrow> 'w backfillState \<Rightarrow> 'w backfilling" where
  "backfillCars fuel env job loc [] st =
     onward (Some (clearCSVs env st)) (restartTeslamate fuel env (bj_compose job))"
| "backfillCars fuel env job loc (sp # sps) st =
     onward (Some (clearCSVs env st)) (\<lambda>st1.
     onward (Some (exportCar env job loc sp st1)) (\<lambda>st2.
     if bj_compose job = [] then Some (None, st2)
     else onward (importOne fuel env (bj_compose job) (bj_tz job) (vp_Name sp) st2) (backfillCars fuel env job loc sps)))"

definition generateBackfill :: "nat \<Rightarrow> 'w backfillEnv \<Rightarrow> backfillJob \<Rightarrow> vehicleSpec list \<Rightarrow> directory \<Rightarrow> 'w \<Rightarrow> 'w backfilling" where
  "generateBackfill fuel env job specs d w =
     (let st = \<lparr>bs_dir = d, bs_world = w, bs_engine = newEngine specs (Fin 1) 0 (be_now env w), bs_ran = []\<rparr> in
      case be_location env (bj_tz job) of None \<Rightarrow> Some (Some BadTimezone, st)
      | Some loc \<Rightarrow> if bj_compose job = [] \<and> 1 < length specs then Some (Some NeedsCompose, st)
          else backfillCars fuel env job loc specs st)"

subsection \<open>The live server\<close>

datatype mockCreds = RivianCreds authData | TeslaCreds string string

definition mockCredsOf :: "string \<Rightarrow> vehicleSpec list \<Rightarrow> mockCreds option" where
  "mockCredsOf protocol specs =
     (if take 6 protocol = ''rivian'' then Some (RivianCreds \<lparr>au_Token = ''mock-access'', au_RefreshToken = ''mock-refresh'',
          au_UserSessionToken = ''mock-user-session'', au_CSRFToken = ''mock-csrf-token'',
          au_AppSessionToken = ''mock-app-session'', au_VehicleID = vp_GUID (hd specs), au_VIN = vp_VIN (hd specs),
          au_VehicleName = vp_Name (hd specs),
          au_Vehicles = map (\<lambda>s. \<lparr>rvh_GUID = vp_GUID s, rvh_VIN = vp_VIN s, rvh_Name = vp_Name s\<rparr>) specs,
          au_Username = ''mock@example.com''\<rparr>)
      else if take 5 protocol = ''tesla'' then Some (TeslaCreds ''mock-access'' ''mock-refresh'')
      else None)"

record serveOpts =
  so_protocol :: string
  so_addr :: string
  so_scenario :: string
  so_credsOut :: string
  so_timeScale :: f64
  so_backfill :: duration
  so_cycle :: bool

datatype liveAct = WroteCreds string mockCreds | OpenedMockSink string | BuiltMockHandler | RunsEngine | RunsAutopilot
  | ServesControl string

datatype 'e liveError = UnknownScenario string | NoCredsWriter string | CredsFailed 'e | SinkFailed 'e
  | HandlerFailed 'e | ServerFailed 'e

record 'e liveEnv =
  le_save :: "mockCreds \<Rightarrow> 'e option"
  le_open :: "string \<Rightarrow> 'e option"
  le_handler :: "'e option"
  le_listen :: "'e option"

definition mockAutopilotOn :: "serveOpts \<Rightarrow> bool" where
  "mockAutopilotOn p \<longleftrightarrow> so_cycle p \<and> so_scenario p = ScenarioIdle"

definition liveServer :: "'e liveEnv \<Rightarrow> serveOpts \<Rightarrow> liveAct list \<times> 'e liveError option" where
  "liveServer env p =
     (case le_open env (so_protocol p) of Some e \<Rightarrow> ([], Some (SinkFailed e))
      | None \<Rightarrow> (case le_handler env of Some e \<Rightarrow> ([OpenedMockSink (so_protocol p)], Some (HandlerFailed e))
      | None \<Rightarrow> ([OpenedMockSink (so_protocol p), BuiltMockHandler, RunsEngine] @ (if mockAutopilotOn p then [RunsAutopilot] else [])
          @ [ServesControl (so_addr p)], map_option ServerFailed (le_listen env))))"

text \<open>The engine the server starts with, and what it did before it ended; the listener ends without an error on a signal.\<close>

definition serveLive ::
  "'e liveEnv \<Rightarrow> vehicleSpec list \<Rightarrow> serveOpts \<Rightarrow> gotime \<Rightarrow> engine \<times> liveAct list \<times> 'e liveError option" where
  "serveLive env specs p now =
     (let e0 = newEngine specs (so_timeScale p) (so_backfill p) now;
          (ok, e) = (if so_scenario p \<noteq> ScenarioIdle then setScenario (so_scenario p) [] e0 else (True, e0))
      in if \<not> ok then (e, [], Some (UnknownScenario (so_scenario p)))
         else if so_credsOut p \<noteq> [] then
           (case mockCredsOf (so_protocol p) specs of None \<Rightarrow> (e, [], Some (NoCredsWriter (so_protocol p)))
            | Some c \<Rightarrow> (case le_save env c of Some x \<Rightarrow> (e, [], Some (CredsFailed x))
            | None \<Rightarrow> (let (acts, err) = liveServer env p in (e, WroteCreds (so_credsOut p) c # acts, err))))
         else (e, liveServer env p))"

text \<open>The command: the flags, the backfill if a window is given, and the live server unless the window was all.\<close>

datatype 'e mockError = VehiclesFlag flagError | SinceFlag | BackfillFailed backfillError | LiveFailed "'e liveError"

record mockFlags =
  mo_vehicles :: string
  mo_since :: string
  mo_serve :: bool
  mo_opts :: serveOpts
  mo_importDir :: string
  mo_timezone :: string
  mo_compose :: string
  mo_socMin :: f64
  mo_socMax :: f64
  mo_dcKw :: f64
  mo_acKw :: f64

definition runMock ::
  "nat \<Rightarrow> (string \<Rightarrow> f64 option) \<Rightarrow> 'w backfillEnv \<Rightarrow> 'e liveEnv \<Rightarrow> mockFlags \<Rightarrow> directory \<Rightarrow> 'w \<Rightarrow>
   (liveAct list \<times> 'e mockError option) option" where
  "runMock fuel exotic env lenv p d w =
     (case parseMockVehicles (mo_vehicles p) of Inl e \<Rightarrow> Some ([], Some (VehiclesFlag e))
      | Inr specs \<Rightarrow>
          (let cfg = defaultCycle (mo_socMin p) (mo_socMax p) (mo_dcKw p) (mo_acKw p);
               live = (\<lambda>w. let (e, acts, err) = serveLive lenv specs (mo_opts p) (be_now env w) in (acts, map_option LiveFailed err))
           in if mo_since p = [] then Some (live w)
              else case parseSince exotic (mo_since p) of None \<Rightarrow> Some ([], Some SinceFlag)
              | Some dur \<Rightarrow> (case generateBackfill fuel env \<lparr>bj_dur = dur, bj_cfg = cfg, bj_importDir = mo_importDir p,
                    bj_tz = mo_timezone p, bj_compose = mo_compose p\<rparr> specs d w of None \<Rightarrow> None
                  | Some (Some err, st) \<Rightarrow> Some ([], Some (BackfillFailed err))
                  | Some (None, st) \<Rightarrow> Some (if mo_serve p then live (bs_world st) else ([], None)))))"

end
