(* ===== verification/BackfillClaims.thy ===== *)
theory BackfillClaims
  imports Backfill
begin

section \<open>One import at a time\<close>

text \<open>
  Quoting for the shell loses nothing, the waits end, and every import TeslaMate is asked for finds the recording of
  one car and nothing else.
\<close>

subsection \<open>Quoting\<close>

definition quoted :: "char \<Rightarrow> string" where
  "quoted c = (if c = CHR 0x27 then [CHR 0x27, CHR 0x5C, CHR 0x27, CHR 0x27] else [c])"

lemma quoted_run: "concat (map quoted s) @ CHR 0x27 # x = concat (map quoted t) @ CHR 0x27 # y \<Longrightarrow>
    (x = [] \<longleftrightarrow> y = []) \<Longrightarrow> (x \<noteq> [] \<Longrightarrow> hd x \<noteq> CHR 0x5C) \<Longrightarrow> (y \<noteq> [] \<Longrightarrow> hd y \<noteq> CHR 0x5C) \<Longrightarrow> s = t"
proof (induction s arbitrary: t)
  case Nil
  then show ?case by (cases t) (auto simp: quoted_def split: if_splits)
next
  case (Cons c s)
  then show ?case by (cases t) (auto simp: quoted_def split: if_splits)
qed

lemma shellSingleQuote_inj: "shellSingleQuote s = shellSingleQuote t \<Longrightarrow> s = t"
  by (rule quoted_run [of s "[]" t "[]"]) (simp_all add: shellSingleQuote_def quoted_def [abs_def])

subsection \<open>The waits end\<close>

definition steadyClock :: "'w backfillEnv \<Rightarrow> bool" where
  "steadyClock env \<longleftrightarrow> (\<forall>d w. be_now env w + d \<le> be_now env (be_sleep env d w)) \<and>
     (\<forall>c d w. be_now env w \<le> be_now env (snd (snd (be_run env c d w))))"

lemma teslamate_clock:
  "steadyClock env \<Longrightarrow> teslamate env compose call st = (r, st') \<Longrightarrow> be_now env (bs_world st) \<le> be_now env (bs_world st')"
  by (auto simp: teslamate_def steadyClock_def split: prod.splits) (metis snd_conv)

lemma waitUntil_returns:
  assumes "steadyClock env" and "\<And>st r st'. try st = (r, st') \<Longrightarrow> be_now env (bs_world st) \<le> be_now env (bs_world st')"
    and "0 < n" "deadline - be_now env (bs_world st) \<le> int (n - 1) * (3 * Second)"
  shows "waitUntil n env try late deadline st \<noteq> None"
  using assms(3,4)
proof (induction n arbitrary: st)
  case (Suc n)
  show ?case
  proof (cases "be_now env (bs_world st) < deadline")
    case True
    obtain r st1 where t: "try st = (r, st1)" by fastforce
    let ?w = "be_sleep env (3 * Second) (bs_world st1)"
    have "be_now env (bs_world st) + 3 * Second \<le> be_now env ?w"
      using assms(1) assms(2) [OF t] unfolding steadyClock_def by (meson add_right_mono order_trans)
    moreover have n: "0 < n" using Suc.prems True by (cases n) auto
    ultimately have "deadline - be_now env ?w \<le> int (n - 1) * (3 * Second)"
      using Suc.prems(2) by (cases n) (auto simp: algebra_simps)
    with Suc.IH [of "st1\<lparr>bs_world := ?w\<rparr>"] n show ?thesis by (simp add: t True split: option.splits)
  qed simp
qed simp

lemma onward_returns: "m \<noteq> None \<Longrightarrow> (\<And>st. f st \<noteq> None) \<Longrightarrow> onward m f \<noteq> None"
  by (auto simp: onward_def split: option.splits prod.splits)

lemma fuel_enough: "301 \<le> n \<Longrightarrow> 900 * Second \<le> int (n - 1) * (3 * Second)"
  by simp

lemma waits_return:
  assumes c: "steadyClock env" and n: "301 \<le> n"
  shows "waitNode n env compose st \<noteq> None" "waitImportReady n env compose st \<noteq> None" "pollImport n env compose name st \<noteq> None"
proof -
  have *: "waitUntil n env (\<lambda>st. let ((out, ok), st1) = teslamate env compose call st in (g out ok, st1)) late
      (be_now env (bs_world st) + d) st \<noteq> None" if "d \<le> 900 * Second" for g :: "string \<Rightarrow> bool \<Rightarrow> backfillError option option"
      and call late d
    using fuel_enough [OF n] n that by (intro waitUntil_returns [OF c]) (auto dest: teslamate_clock [OF c] split: prod.splits)
  show "waitNode n env compose st \<noteq> None" unfolding waitNode_def by (rule *) simp
  show "waitImportReady n env compose st \<noteq> None" unfolding waitImportReady_def by (rule *) simp
  show "pollImport n env compose name st \<noteq> None" unfolding pollImport_def by (rule *) simp
qed

lemma restart_returns: "steadyClock env \<Longrightarrow> 301 \<le> n \<Longrightarrow> restartTeslamate n env compose st \<noteq> None"
  using waits_return(1) by (auto simp: restartTeslamate_def Let_def split: prod.splits)

lemma importOne_returns: "steadyClock env \<Longrightarrow> 301 \<le> n \<Longrightarrow> importOne n env compose tz name st \<noteq> None"
  unfolding importOne_def Let_def using waits_return restart_returns
  by (intro onward_returns) (auto split: prod.splits)

lemma backfillCars_returns: "steadyClock env \<Longrightarrow> 301 \<le> n \<Longrightarrow> backfillCars n env job loc sps st \<noteq> None"
proof (induction sps arbitrary: st)
  case Nil
  then show ?case unfolding backfillCars.simps by (intro onward_returns restart_returns) simp_all
next
  case (Cons sp sps)
  have rest: "backfillCars n env job loc sps st2 \<noteq> None" for st2 by (rule Cons.IH [OF Cons.prems])
  have one: "onward (importOne n env (bj_compose job) (bj_tz job) (vp_Name sp) st2) (backfillCars n env job loc sps) \<noteq> None" for st2
    by (rule onward_returns [OF importOne_returns [OF Cons.prems] rest])
  have "onward (Some (exportCar env job loc sp st1)) (\<lambda>st2. if bj_compose job = [] then Some (None, st2)
      else onward (importOne n env (bj_compose job) (bj_tz job) (vp_Name sp) st2) (backfillCars n env job loc sps)) \<noteq> None" for st1
    by (rule onward_returns [OF option.distinct(2)], split if_split, intro conjI impI one option.distinct(2))
  then show ?case unfolding backfillCars.simps by (rule onward_returns [OF option.distinct(2)])
qed

theorem backfill_returns:
  assumes "steadyClock env" and "301 \<le> fuel"
  shows "generateBackfill fuel env job specs d w \<noteq> None"
  using backfillCars_returns [OF assms] by (auto simp: generateBackfill_def Let_def split: option.splits simp del: not_None_eq)


subsection \<open>What the steps leave alone\<close>

text \<open>Who is simulated: the order and the specs of the cars, which nothing but the construction of an engine touches.\<close>

definition seats :: "engine \<Rightarrow> string list \<times> (string \<rightharpoonup> vehicleSpec)" where
  "seats e = (en_order e, \<lambda>g. map_option sv_spec (en_vehicles e g))"

lemma applyScenario_spec: "sv_spec (applyScenario name opts v) = sv_spec v"
  by (simp add: applyScenario_def startLive_def Let_def)

lemma set_seats: "seats (snd (setScenarioOpts name guid opts e)) = seats e"
  by (auto simp: setScenarioOpts_def seats_def option.map_comp o_def applyScenario_spec split: option.split)

lemma startDrive_seats: "seats (fst (startDrive cfg g now ec)) = seats (fst ec)"
  by (simp add: startDrive_def set_seats split: prod.split)

lemma startCharge_seats: "seats (fst (startCharge cfg g now ec)) = seats (fst ec)"
  by (simp add: startCharge_def set_seats split: prod.split)

lemma nextCycle_seats: "seats (fst (nextCycle cfg g now ec)) = seats (fst ec)"
  by (auto simp: nextCycle_def Let_def setScenario_def set_seats startDrive_seats split: prod.split)

lemma auto_step_seats: "seats (fst (auto_step cfg g now ec)) = seats (fst ec)"
  by (cases ec) (auto simp: auto_step_def Let_def startDrive_seats startCharge_seats nextCycle_seats split: carPhase.split)

lemma auto_Tick_seats: "seats (fst (auto_Tick cfg now gs ec)) = seats (fst ec)"
proof (induction cfg now gs ec rule: auto_Tick.induct)
  case (2 cfg now g gs e cars)
  then show ?case using auto_step_seats [of cfg g now] by (auto split: option.split prod.split) (metis fst_conv)
qed simp

lemma driveLocked_spec: "sv_spec (driveLocked dt v) = sv_spec v"
  by (simp add: driveLocked_def Let_def)

lemma driveStep_spec: "sv_spec (driveStep dt v) = sv_spec v"
  by (simp add: driveStep_def Let_def driveLocked_spec)

lemma chargeStep_spec: "sv_spec (chargeStep dt v) = sv_spec v"
  by (simp add: chargeStep_def Let_def split: option.split)

lemma updateStep_spec: "sv_spec (updateStep v) = sv_spec v"
  by (simp add: updateStep_def Let_def)

lemma advanceLocked_spec: "sv_spec (advanceLocked now v) = sv_spec v"
  by (simp add: advanceLocked_def Let_def driveStep_spec chargeStep_spec updateStep_spec)

lemma advance_seats: "seats (engine_Advance t e) = seats e"
  by (simp add: seats_def engine_Advance_def option.map_comp o_def advanceLocked_spec)

lemma genLoop_seats: "seats (snd (genLoop cfg visit guids now t ec m)) = seats (fst ec)"
proof (induction cfg visit guids now t ec m rule: genLoop.induct)
  case (1 cfg visit guids now t ec m)
  show ?case
  proof (cases "now < t")
    case False
    let ?ec = "auto_Tick cfg t (visit t) (engine_Advance t (fst ec), snd ec)"
    obtain out m1 where m1: "emitRound t (fst ?ec) guids m = (out, m1)" by fastforce
    obtain rest e1 where e1: "genLoop cfg visit guids now (t + simStep) ?ec m1 = (rest, e1)" by fastforce
    have "seats e1 = seats (fst ?ec)" using 1 [OF False refl m1 [symmetric] refl] e1 by simp
    moreover have "snd (genLoop cfg visit guids now t ec m) = e1"
      by (subst genLoop.simps) (simp only: False if_False Let_def m1 e1 prod.case snd_conv)
    ultimately show ?thesis by (simp add: auto_Tick_seats advance_seats)
  qed (simp add: genLoop.simps)
qed

lemma prepare_seats: "seats (prepareForHistory start soc e) = seats e"
  by (simp add: seats_def prepareForHistory_def option.map_comp o_def)

lemma history_seats: "seats (snd (generateHistory d cfg visit now e)) = seats e"
  by (simp add: generateHistory_def Let_def genLoop_seats prepare_seats)


subsection \<open>The cars of the engine\<close>

definition seated :: "vehicleSpec list \<Rightarrow> engine \<Rightarrow> bool" where
  "seated specs e \<longleftrightarrow> fst (seats e) = map vp_GUID specs \<and> (\<forall>sp \<in> set specs. \<exists>s.
     snd (seats e) (vp_GUID sp) = Some s \<and> vp_GUID s = vp_GUID sp \<and> vp_VIN s = vp_VIN sp)"

lemma seed_other: "g \<notin> vp_GUID ` set specs \<Longrightarrow> en_vehicles (seedVehicles i specs e) g = en_vehicles e g"
  by (induction i specs e rule: seedVehicles.induct) auto

lemma seed_order: "en_order (seedVehicles i specs e) = en_order e @ map vp_GUID specs"
  by (induction i specs e rule: seedVehicles.induct) auto

lemma seed_car:
  "distinct (map vp_GUID specs) \<Longrightarrow> sp \<in> set specs \<Longrightarrow> \<exists>v. en_vehicles (seedVehicles i specs e) (vp_GUID sp) = Some v \<and>
     vp_GUID (sv_spec v) = vp_GUID sp \<and> vp_VIN (sv_spec v) = vp_VIN sp"
  by (induction i specs e rule: seedVehicles.induct) (auto simp: seed_other newSim_def)

lemma seated_new: "distinct (map vp_GUID specs) \<Longrightarrow> seated specs (newEngine specs ts back now)"
  using seed_car [of specs] by (fastforce simp: seated_def seats_def newEngine_def seed_order)

lemma seated_vehicles:
  assumes "seated specs e" "distinct (map vp_GUID specs)" "sp \<in> set specs"
  shows "vp_GUID sp \<in> id_ID ` set (engine_Vehicles e)"
    and "\<forall>v \<in> set (engine_Vehicles e). id_ID v = vp_GUID sp \<longrightarrow> id_VIN v = vp_VIN sp"
proof -
  have one: "\<exists>v. en_vehicles e (vp_GUID s) = Some v \<and> vp_GUID (sv_spec v) = vp_GUID s \<and> vp_VIN (sv_spec v) = vp_VIN s"
    if "s \<in> set specs" for s using assms(1) that by (auto simp: seated_def seats_def)
  have eq: "s = sp" if "s \<in> set specs" "vp_GUID s = vp_GUID sp" for s
    using assms(2,3) that by (auto simp: distinct_map dest: inj_onD)
  have order: "en_order e = map vp_GUID specs" using assms(1) by (simp add: seated_def seats_def)
  show "vp_GUID sp \<in> id_ID ` set (engine_Vehicles e)"
    using one [OF assms(3)] assms(3) by (force simp: engine_Vehicles_def order Let_def)
  show "\<forall>v \<in> set (engine_Vehicles e). id_ID v = vp_GUID sp \<longrightarrow> id_VIN v = vp_VIN sp"
    using one eq by (fastforce simp: engine_Vehicles_def order Let_def)
qed

subsection \<open>The rows of one car\<close>

definition onlyRowsOf :: "string \<Rightarrow> directory \<Rightarrow> bool" where
  "onlyRowsOf vin d \<longleftrightarrow> (\<forall>n f. isTeslaFi n \<longrightarrow> d n = Some f \<longrightarrow> (\<exists>rs. f = Some rs \<and> (\<forall>r \<in> set rs. tr_VIN r = vin)))"

lemma toRow_VIN: "tr_VIN (toRow snap st vid ident loc) = vi_vin ident"
  by (simp add: toRow_def rowLive_def Let_def split: option.split)

lemma exportRows_VIN:
  "\<forall>s \<in> set ss. fst s = g \<Longrightarrow> cars g = Some c \<Longrightarrow> vi_vin (ci_ident c) = vin \<Longrightarrow>
     \<forall>r \<in> set (fst (exportRows loc ss cars)). tr_VIN r = vin"
proof (induction ss arbitrary: cars)
  case (Cons s ss)
  obtain snap where s: "s = (g, snap)" using Cons.prems(1) by (cases s) auto
  have "cars(g \<mapsto> c) = cars" using Cons.prems(2) by auto
  with Cons s show ?case by (auto simp: toRow_VIN Let_def split: option.split prod.splits)
qed simp

lemma numberCars_VIN:
  "\<forall>v \<in> set vs. id_ID v = g \<longrightarrow> id_VIN v = vin \<Longrightarrow>
   g \<in> id_ID ` set vs \<or> (\<exists>c. cars g = Some c \<and> vi_vin (ci_ident c) = vin) \<Longrightarrow>
   \<exists>c. numberCars i vs cars g = Some c \<and> vi_vin (ci_ident c) = vin"
  by (induction i vs cars rule: numberCars.induct) auto

lemma addToMonth_all:
  "\<forall>m \<in> set ms. \<forall>r \<in> set (snd m). P r \<Longrightarrow> P r \<Longrightarrow> \<forall>m \<in> set (addToMonth name r ms). \<forall>r \<in> set (snd m). P r"
  by (induction name r ms rule: addToMonth.induct) auto

lemma byMonth_all:
  "byMonth loc rs ms = Some ms' \<Longrightarrow> \<forall>r \<in> set rs. P r \<Longrightarrow> \<forall>m \<in> set ms. \<forall>r \<in> set (snd m). P r \<Longrightarrow>
   \<forall>m \<in> set ms'. \<forall>r \<in> set (snd m). P r"
proof (induction rs arbitrary: ms)
  case (Cons r rs)
  obtain t where "byMonth loc rs (addToMonth (fileName t (loc t)) r ms) = Some ms'"
    using Cons.prems(1) by (auto split: option.splits)
  from Cons.IH [OF this _ addToMonth_all [OF Cons.prems(3)]] Cons.prems(2) show ?case by simp
qed simp

lemma writeFiles_only:
  "writeFiles wok ms d = (None, d') \<Longrightarrow> \<forall>m \<in> set ms. \<forall>r \<in> set (snd m). tr_VIN r = vin \<Longrightarrow> onlyRowsOf vin d \<Longrightarrow> onlyRowsOf vin d'"
proof (induction wok ms d rule: writeFiles.induct)
  case (2 wok name rs ms d)
  have "wok name" using 2 by (auto split: if_splits)
  moreover have "onlyRowsOf vin (d(name \<mapsto> Some rs))" using 2 by (auto simp: onlyRowsOf_def)
  ultimately show ?case using "2.IH" "2.prems" by (simp del: fun_upd_apply)
qed simp

lemma writeFiles_finite: "finite (dom d) \<Longrightarrow> finite (dom (snd (writeFiles wok ms d)))"
  by (induction wok ms d rule: writeFiles.induct) auto

lemma export_finite: "finite (dom d) \<Longrightarrow> finite (dom (snd (exportHistory mk wok loc dir prov ss d)))"
  by (auto simp: exportHistory_def writeMonthly_def writeFiles_finite split: option.split)

lemma exportCar_effect:
  assumes "exportCar env job loc sp st = (r, st')" "seated specs (bs_engine st)" "distinct (map vp_GUID specs)" "sp \<in> set specs"
    and "finite (dom (bs_dir st))" "\<And>n. isTeslaFi n \<Longrightarrow> bs_dir st n = None"
  shows "bs_ran st' = bs_ran st" "seated specs (bs_engine st')" "finite (dom (bs_dir st'))"
    "r = None \<Longrightarrow> onlyRowsOf (vp_VIN sp) (bs_dir st')"
proof -
  let ?now = "be_now env (bs_world st)" and ?e = "bs_engine st"
  obtain hist e1 where h: "generateHistory (bj_dur job) (bj_cfg job) (be_visit env) ?now ?e = (hist, e1)" by fastforce
  let ?ss = "onlyCar (vp_GUID sp) hist" and ?prov = "engine_Provider ?now ?now ?e"
  obtain err d1 where x: "exportHistory (be_mkdirOk env) (be_writeOk env) loc (bj_importDir job) ?prov ?ss (bs_dir st) = (err, d1)"
    by fastforce
  have st': "st' = st\<lparr>bs_engine := e1, bs_dir := d1\<rparr>" and r: "r = map_option (ExportFailed (vp_Name sp)) err"
    using assms(1) by (simp_all add: exportCar_def h x Let_def)
  show "bs_ran st' = bs_ran st" "seated specs (bs_engine st')"
    using history_seats [of "bj_dur job" "bj_cfg job" "be_visit env" ?now ?e] assms(2) by (simp_all add: st' h seated_def)
  show "finite (dom (bs_dir st'))" using export_finite [OF assms(5)] x by (metis st' snd_conv backfillState.select_convs(1) backfillState.surjective backfillState.update_convs(1,3))
  show "onlyRowsOf (vp_VIN sp) (bs_dir st')" if "r = None"
  proof -
    let ?cars = "numberCars 1 (pv_Vehicles ?prov) Map.empty"
    have "err = None" using that r by simp
    obtain c where "?cars (vp_GUID sp) = Some c" "vi_vin (ci_ident c) = vp_VIN sp"
      using numberCars_VIN [of "engine_Vehicles ?e" "vp_GUID sp" "vp_VIN sp" Map.empty 1] seated_vehicles [OF assms(2-4)]
      by (auto simp: engine_Provider_def)
    then have rows: "\<forall>r \<in> set (fst (exportRows loc ?ss ?cars)). tr_VIN r = vp_VIN sp"
      by (intro exportRows_VIN) (auto simp: onlyCar_def)
    have "onlyRowsOf (vp_VIN sp) (bs_dir st)" using assms(6) by (simp add: onlyRowsOf_def)
    moreover obtain ms where "byMonth loc (fst (exportRows loc ?ss ?cars)) [] = Some ms" "writeFiles (be_writeOk env) ms (bs_dir st) = (None, d1)"
      using x \<open>err = None\<close> by (auto simp: exportHistory_def writeMonthly_def split: if_splits option.splits)
    ultimately show ?thesis using writeFiles_only byMonth_all [OF _ rows] by (fastforce simp: st')
  qed
qed


subsection \<open>The log of the commands\<close>

text \<open>
  A wait that went well: the same question until the answer is there. A restart that went well: the command, and the
  node awake again. An import that went well: the restart, TeslaMate in import mode, the run accepted, and status
  replies without an error up to the one that says it is complete.
\<close>

definition waited :: "(commandRun \<Rightarrow> bool) \<Rightarrow> commandRun list \<Rightarrow> bool" where
  "waited there cs \<longleftrightarrow> cs \<noteq> [] \<and> there (last cs) \<and> (\<forall>c\<in>set (butlast cs). cr_Call c = cr_Call (last cs) \<and> \<not> there c)"

definition awake :: "commandRun \<Rightarrow> bool" where
  "awake c \<longleftrightarrow> cr_Call c = Rpc '':ok'' \<and> cr_Ok c"

definition importMode :: "commandRun \<Rightarrow> bool" where
  "importMode c \<longleftrightarrow> cr_Call c = Rpc ''IO.inspect(TeslaMate.Import.enabled?())'' \<and> cr_Ok c \<and> containsStr ''true'' (cr_Out c)"

definition complete :: "commandRun \<Rightarrow> bool" where
  "complete c \<longleftrightarrow> cr_Call c = Rpc ''IO.inspect(TeslaMate.Import.get_status().state)'' \<and> cr_Ok c \<and>
     containsStr '':complete'' (cr_Out c)"

definition restarted :: "commandRun list \<Rightarrow> bool" where
  "restarted cs \<longleftrightarrow> (\<exists>c ns. cs = c # ns \<and> cr_Call c = Restart \<and> cr_Ok c \<and> waited awake ns)"

definition imported :: "string \<Rightarrow> commandRun list \<Rightarrow> bool" where
  "imported tz cs \<longleftrightarrow> (\<exists>rs es c ss. cs = rs @ es @ c # ss \<and> restarted rs \<and> waited importMode es \<and>
     cr_Call c = importRun tz \<and> cr_Ok c \<and> waited complete ss \<and>
     (\<forall>s\<in>set ss. cr_Ok s \<and> \<not> containsStr '':error'' (cr_Out s)))"

definition importsIn :: "string \<Rightarrow> commandRun list \<Rightarrow> commandRun list" where
  "importsIn tz cs = filter (\<lambda>c. cr_Call c = importRun tz) cs"

definition leavesDir :: "'w backfillEnv \<Rightarrow> bool" where
  "leavesDir env \<longleftrightarrow> (\<forall>c d w. fst (snd (be_run env c d w)) = d)"

definition listsAll :: "'w backfillEnv \<Rightarrow> bool" where
  "listsAll env \<longleftrightarrow> (\<forall>d. finite (dom d) \<longrightarrow> set (be_names env d) = dom d)"

lemma teslamate_effect:
  "leavesDir env \<Longrightarrow> teslamate env compose c st = ((out, ok), st') \<Longrightarrow>
     bs_dir st' = bs_dir st \<and> bs_engine st' = bs_engine st \<and>
     bs_ran st' = bs_ran st @ [\<lparr>cr_Call = c, cr_Dir = bs_dir st, cr_Out = out, cr_Ok = ok\<rparr>]"
  by (auto simp: teslamate_def leavesDir_def Let_def split: prod.splits) (metis fst_conv snd_conv)

text \<open>What a step adds to the log: commands that all find the same directory, with at most so many imports.\<close>

definition adds :: "string \<Rightarrow> nat \<Rightarrow> 'w backfillState \<Rightarrow> 'w backfillState \<Rightarrow> commandRun list \<Rightarrow> bool" where
  "adds tz m st st' cs \<longleftrightarrow> bs_dir st' = bs_dir st \<and> bs_engine st' = bs_engine st \<and> bs_ran st' = bs_ran st @ cs \<and>
     (\<forall>c\<in>set cs. cr_Dir c = bs_dir st) \<and> length (importsIn tz cs) \<le> m"

lemma importsIn_append [simp]: "importsIn tz (a @ b) = importsIn tz a @ importsIn tz b"
  by (simp add: importsIn_def)

lemma adds_nil: "adds tz m st st []"
  by (simp add: adds_def importsIn_def)

lemma adds_trans: "adds tz m a b cs \<Longrightarrow> adds tz n b c ds \<Longrightarrow> adds tz (m + n) a c (cs @ ds)"
  by (auto simp: adds_def)

lemma teslamate_adds:
  "leavesDir env \<Longrightarrow> teslamate env compose c st = ((out, ok), st') \<Longrightarrow>
     adds tz (if c = importRun tz then 1 else 0) st st' [\<lparr>cr_Call = c, cr_Dir = bs_dir st, cr_Out = out, cr_Ok = ok\<rparr>]"
  using teslamate_effect [of env compose c st out ok st'] by (simp add: adds_def importsIn_def)

lemma waitUntil_adds:
  fixes g :: "string \<Rightarrow> bool \<Rightarrow> backfillError option option"
  assumes "leavesDir env" "call \<noteq> importRun tz"
    and "waitUntil n env (\<lambda>st. let ((out, ok), st1) = teslamate env compose call st in (g out ok, st1)) late dl st = Some (r, st')"
  shows "\<exists>cs. adds tz 0 st st' cs \<and> (\<forall>c\<in>set cs. cr_Call c = call) \<and>
    (r = None \<longrightarrow> cs \<noteq> [] \<and> g (cr_Out (last cs)) (cr_Ok (last cs)) = Some None \<and>
       (\<forall>c\<in>set (butlast cs). g (cr_Out c) (cr_Ok c) = None))"
  using assms(3)
proof (induction n arbitrary: st)
  case (Suc n)
  show ?case
  proof (cases "be_now env (bs_world st) < dl")
    case True
    obtain out ok st1 where t: "teslamate env compose call st = ((out, ok), st1)" by (metis prod.exhaust)
    let ?c = "\<lparr>cr_Call = call, cr_Dir = bs_dir st, cr_Out = out, cr_Ok = ok\<rparr>"
    have a: "adds tz 0 st st1 [?c]" using teslamate_adds [OF assms(1) t, of tz] assms(2) by simp
    show ?thesis
    proof (cases "g out ok")
      case None
      let ?st = "st1\<lparr>bs_world := be_sleep env (3 * Second) (bs_world st1)\<rparr>"
      have "waitUntil n env (\<lambda>st. let ((out, ok), st1) = teslamate env compose call st in (g out ok, st1)) late dl ?st = Some (r, st')"
        using Suc.prems by (simp add: True t None)
      from Suc.IH [OF this] obtain cs where cs: "adds tz 0 ?st st' cs" "\<forall>c\<in>set cs. cr_Call c = call"
        "r = None \<longrightarrow> cs \<noteq> [] \<and> g (cr_Out (last cs)) (cr_Ok (last cs)) = Some None \<and>
           (\<forall>c\<in>set (butlast cs). g (cr_Out c) (cr_Ok c) = None)" by blast
      have "adds tz 0 st1 st' cs" using cs(1) by (simp add: adds_def)
      with a have "adds tz 0 st st' (?c # cs)" using adds_trans [of tz 0 st st1 "[?c]" 0 st' cs] by simp
      then show ?thesis using cs(2,3) None by (intro exI [of _ "?c # cs"]) auto
    next
      case (Some x)
      then have "r = x" "st' = st1" using Suc.prems by (simp_all add: True t)
      then show ?thesis using a Some by (intro exI [of _ "[?c]"]) simp
    qed
  next
    case False
    then show ?thesis using Suc.prems by (intro exI [of _ "[]"]) (auto simp: adds_nil)
  qed
qed simp

lemma waits_adds:
  assumes "leavesDir env"
  shows "waitNode n env compose st = Some (r, st') \<Longrightarrow> \<exists>cs. adds tz 0 st st' cs \<and> (r = None \<longrightarrow> waited awake cs)"
    and "waitImportReady n env compose st = Some (r, st') \<Longrightarrow> \<exists>cs. adds tz 0 st st' cs \<and> (r = None \<longrightarrow> waited importMode cs)"
    and "pollImport n env compose name st = Some (r, st') \<Longrightarrow> \<exists>cs. adds tz 0 st st' cs \<and>
       (r = None \<longrightarrow> waited complete cs \<and> (\<forall>s\<in>set cs. cr_Ok s \<and> \<not> containsStr '':error'' (cr_Out s)))"
proof -
  assume "waitNode n env compose st = Some (r, st')"
  from waitUntil_adds [OF assms _ this [unfolded waitNode_def], of tz] obtain cs where
    cs: "adds tz 0 st st' cs" "\<forall>c\<in>set cs. cr_Call c = Rpc '':ok''"
      "r = None \<longrightarrow> cs \<noteq> [] \<and> cr_Ok (last cs) \<and> (\<forall>c\<in>set (butlast cs). \<not> cr_Ok c)"
    by (auto simp: importRun_def split: if_splits)
  then show "\<exists>cs. adds tz 0 st st' cs \<and> (r = None \<longrightarrow> waited awake cs)"
    by (intro exI [of _ cs]) (auto simp: waited_def awake_def dest: in_set_butlastD)
next
  assume "waitImportReady n env compose st = Some (r, st')"
  from waitUntil_adds [OF assms _ this [unfolded waitImportReady_def], of tz] obtain cs where
    cs: "adds tz 0 st st' cs" "\<forall>c\<in>set cs. cr_Call c = Rpc ''IO.inspect(TeslaMate.Import.enabled?())''"
      "r = None \<longrightarrow> cs \<noteq> [] \<and> (cr_Ok (last cs) \<and> containsStr ''true'' (cr_Out (last cs))) \<and>
         (\<forall>c\<in>set (butlast cs). \<not> (cr_Ok c \<and> containsStr ''true'' (cr_Out c)))"
    by (auto simp: importRun_def split: if_splits)
  then show "\<exists>cs. adds tz 0 st st' cs \<and> (r = None \<longrightarrow> waited importMode cs)"
    by (intro exI [of _ cs]) (auto simp: waited_def importMode_def dest: in_set_butlastD)
next
  let ?ok = "\<lambda>s. cr_Ok s \<and> \<not> containsStr '':error'' (cr_Out s)"
  assume "pollImport n env compose name st = Some (r, st')"
  from waitUntil_adds [OF assms _ this [unfolded pollImport_def], of tz] obtain cs where
    cs: "adds tz 0 st st' cs" "\<forall>c\<in>set cs. cr_Call c = Rpc ''IO.inspect(TeslaMate.Import.get_status().state)''"
      "r = None \<longrightarrow> cs \<noteq> [] \<and> (?ok (last cs) \<and> containsStr '':complete'' (cr_Out (last cs))) \<and>
         (\<forall>c\<in>set (butlast cs). ?ok c \<and> \<not> containsStr '':complete'' (cr_Out c))"
    by (auto simp: importRun_def split: if_splits)
  have all: "\<forall>s\<in>set cs. ?ok s" if "r = None"
  proof -
    have "cs = butlast cs @ [last cs]" using cs(3) that by simp
    then have "set cs = insert (last cs) (set (butlast cs))" by (metis Un_insert_right list.set(1,2) set_append sup_bot_right)
    then show ?thesis using cs(3) that by auto
  qed
  have "waited complete cs" if "r = None"
    using cs(2,3) that by (auto simp: waited_def complete_def dest: in_set_butlastD)
  with cs(1) all show "\<exists>cs. adds tz 0 st st' cs \<and> (r = None \<longrightarrow> waited complete cs \<and> (\<forall>s\<in>set cs. ?ok s))" by blast
qed

lemma restart_adds:
  assumes "leavesDir env" "restartTeslamate n env compose st = Some (r, st')"
  shows "\<exists>cs. adds tz 0 st st' cs \<and> (r = None \<longrightarrow> restarted cs)"
proof -
  obtain out ok st1 where c: "teslamate env compose Restart st = ((out, ok), st1)" by (metis prod.exhaust)
  let ?c = "\<lparr>cr_Call = Restart, cr_Dir = bs_dir st, cr_Out = out, cr_Ok = ok\<rparr>"
  have a: "adds tz 0 st st1 [?c]" using teslamate_adds [OF assms(1) c, of tz] by (simp add: importRun_def)
  show ?thesis
  proof (cases ok)
    case True
    then have "waitNode n env compose st1 = Some (r, st')" using assms(2) by (simp add: restartTeslamate_def c)
    then obtain ns where ns: "adds tz 0 st1 st' ns" "r = None \<longrightarrow> waited awake ns" using waits_adds(1) [OF assms(1)] by blast
    then show ?thesis using adds_trans [OF a ns(1)] True by (intro exI [of _ "?c # ns"]) (auto simp: restarted_def)
  next
    case False
    then show ?thesis using assms(2) a by (auto simp: restartTeslamate_def c)
  qed
qed

lemma onwardE:
  assumes "onward m f = Some (r, st')"
  obtains e where "m = Some (Some e, st')" "r = Some e" | st where "m = Some (None, st)" "f st = Some (r, st')"
  using assms by (auto simp: onward_def split: option.splits)

lemma importOne_adds:
  assumes l: "leavesDir env" and i: "importOne n env compose tz name st = Some (r, st')"
  shows "\<exists>cs. adds tz 1 st st' cs \<and> (r = None \<longrightarrow> imported tz cs)"
  using i unfolding importOne_def
proof (elim onwardE)
  fix e assume "restartTeslamate n env compose st = Some (Some e, st')" "r = Some e"
  then show ?thesis using restart_adds [OF l, of n compose st "Some e" st' tz] by (auto simp: adds_def)
next
  fix st1 e assume 1: "restartTeslamate n env compose st = Some (None, st1)"
    "waitImportReady n env compose st1 = Some (Some e, st')" "r = Some e"
  obtain rs es where "adds tz 0 st st1 rs" "adds tz 0 st1 st' es"
    using restart_adds [OF l 1(1)] waits_adds(2) [OF l 1(2)] by blast
  from adds_trans [OF this] show ?thesis using 1(3) by (auto simp: adds_def)
next
  fix st1 st2
  assume 1: "restartTeslamate n env compose st = Some (None, st1)" "waitImportReady n env compose st1 = Some (None, st2)"
    and 2: "(let ((out, ok), st3) = teslamate env compose (importRun tz) st2
       in if ok then pollImport n env compose name st3 else Some (Some (RunFailed out), st3)) = Some (r, st')"
  obtain rs es where rs: "adds tz 0 st st1 rs" "restarted rs" and es: "adds tz 0 st1 st2 es" "waited importMode es"
    using restart_adds [OF l 1(1)] waits_adds(2) [OF l 1(2)] by blast
  obtain out ok st3 where c: "teslamate env compose (importRun tz) st2 = ((out, ok), st3)" by (metis prod.exhaust)
  let ?c = "\<lparr>cr_Call = importRun tz, cr_Dir = bs_dir st2, cr_Out = out, cr_Ok = ok\<rparr>"
  have a: "adds tz 1 st st3 (rs @ es @ [?c])"
    using adds_trans [OF rs(1) adds_trans [OF es(1) teslamate_adds [OF l c, of tz]]] by simp
  show ?thesis
  proof (cases ok)
    case True
    then have "pollImport n env compose name st3 = Some (r, st')" using 2 by (simp add: c)
    then obtain ss where ss: "adds tz 0 st3 st' ss"
      "r = None \<longrightarrow> waited complete ss \<and> (\<forall>s\<in>set ss. cr_Ok s \<and> \<not> containsStr '':error'' (cr_Out s))"
      using waits_adds(3) [OF l] by blast
    have "adds tz 1 st st' (rs @ es @ ?c # ss)" using adds_trans [OF a ss(1)] by simp
    moreover have "imported tz (rs @ es @ ?c # ss)" if "r = None"
      unfolding imported_def using rs(2) es(2) ss(2) that True
      by (intro exI [of _ rs] exI [of _ es] exI [of _ ?c] exI [of _ ss]) simp
    ultimately show ?thesis by blast
  next
    case False
    then show ?thesis using a 2 by (auto simp: c)
  qed
qed

lemma removeAll_effect:
  "removeAll env ms st = (r, st') \<Longrightarrow> bs_ran st' = bs_ran st \<and> bs_engine st' = bs_engine st \<and>
     (finite (dom (bs_dir st)) \<longrightarrow> finite (dom (bs_dir st'))) \<and>
     (r = None \<longrightarrow> bs_dir st' = (\<lambda>n. if n \<in> set ms then None else bs_dir st n))"
  by (induction env ms st rule: removeAll.induct) (auto simp: fun_eq_iff split: if_splits)

lemma clear_effect:
  assumes "listsAll env" "finite (dom (bs_dir st))" "clearCSVs env st = (r, st')"
  shows "bs_ran st' = bs_ran st" "bs_engine st' = bs_engine st" "finite (dom (bs_dir st'))"
    "r = None \<Longrightarrow> isTeslaFi n \<Longrightarrow> bs_dir st' n = None"
  using removeAll_effect [of env "filter isTeslaFi (be_names env (bs_dir st))" st r st'] assms
  by (auto simp: clearCSVs_def listsAll_def dom_def)

subsection \<open>The claim\<close>

text \<open>
  The log of a backfill from one car on: the imports that went well, each with the rows of its own car, and what came
  after them, which is an import that went wrong or the restart at the end.
\<close>

definition carByCar :: "string \<Rightarrow> vehicleSpec list \<Rightarrow> bool \<Rightarrow> commandRun list \<Rightarrow> bool" where
  "carByCar tz sps well cs \<longleftrightarrow> (\<exists>segs rest. cs = concat segs @ rest \<and> length segs \<le> length sps \<and>
     (\<forall>i < length segs. imported tz (segs ! i) \<and> (\<forall>c\<in>set (segs ! i). onlyRowsOf (vp_VIN (sps ! i)) (cr_Dir c))) \<and>
     (importsIn tz rest \<noteq> [] \<longrightarrow> length segs < length sps \<and> length (importsIn tz rest) = 1 \<and>
        onlyRowsOf (vp_VIN (sps ! length segs)) (cr_Dir (hd (importsIn tz rest)))) \<and>
     (well \<longrightarrow> length segs = length sps \<and> restarted rest))"

lemma carByCar_nothing: "carByCar tz sps False []"
  unfolding carByCar_def by (intro exI [of _ "[]"]) (simp add: importsIn_def)

lemma carByCar_last: "\<forall>c\<in>set cs. cr_Dir c = d \<Longrightarrow> onlyRowsOf (vp_VIN sp) d \<Longrightarrow> length (importsIn tz cs) \<le> 1 \<Longrightarrow>
    carByCar tz (sp # sps) False cs"
  unfolding carByCar_def
  by (intro exI [of _ "[]"] exI [of _ cs]) (cases "importsIn tz cs"; auto simp: importsIn_def filter_eq_Cons_iff)

lemma carByCar_next:
  assumes "imported tz seg" "\<forall>c\<in>set seg. cr_Dir c = d" "onlyRowsOf (vp_VIN sp) d" "carByCar tz sps well cs"
  shows "carByCar tz (sp # sps) well (seg @ cs)"
proof -
  obtain segs rest where s: "cs = concat segs @ rest" "length segs \<le> length sps"
    "\<forall>i < length segs. imported tz (segs ! i) \<and> (\<forall>c\<in>set (segs ! i). onlyRowsOf (vp_VIN (sps ! i)) (cr_Dir c))"
    "importsIn tz rest \<noteq> [] \<longrightarrow> length segs < length sps \<and> length (importsIn tz rest) = 1 \<and>
        onlyRowsOf (vp_VIN (sps ! length segs)) (cr_Dir (hd (importsIn tz rest)))"
    "well \<longrightarrow> length segs = length sps \<and> restarted rest" using assms(4) unfolding carByCar_def by blast
  have "imported tz ((seg # segs) ! i) \<and> (\<forall>c\<in>set ((seg # segs) ! i). onlyRowsOf (vp_VIN ((sp # sps) ! i)) (cr_Dir c))"
    if "i < length (seg # segs)" for i using that s(3) assms(1-3) by (cases i) auto
  with s show ?thesis unfolding carByCar_def by (intro exI [of _ "seg # segs"] exI [of _ rest]) simp
qed

lemma backfillCars_alone:
  assumes env: "leavesDir env" "listsAll env" and compose: "bj_compose job \<noteq> []" and ids: "distinct (map vp_GUID specs)"
    and "set sps \<subseteq> set specs" "seated specs (bs_engine st)" "finite (dom (bs_dir st))"
    and "backfillCars n env job loc sps st = Some (r, st')"
  shows "\<exists>cs. bs_ran st' = bs_ran st @ cs \<and> carByCar (bj_tz job) sps (r = None) cs \<and>
     (r = None \<longrightarrow> (\<forall>m. isTeslaFi m \<longrightarrow> bs_dir st' m = None))"
  using assms(5-8)
proof (induction sps arbitrary: st)
  case Nil
  obtain x st1 where c: "clearCSVs env st = (x, st1)" by fastforce
  note e = clear_effect [OF env(2) Nil.prems(3) c]
  from Nil.prems(4) show ?case unfolding backfillCars.simps c
  proof (elim onwardE)
    fix y assume "Some (x, st1) = Some (Some y, st')" "r = Some y"
    with e carByCar_nothing show ?thesis by simp
  next
    fix st2 assume 1: "Some (x, st1) = Some (None, st2)" "restartTeslamate n env (bj_compose job) st2 = Some (r, st')"
    obtain cs where "adds (bj_tz job) 0 st2 st' cs" "r = None \<longrightarrow> restarted cs" using restart_adds [OF env(1) 1(2)] by blast
    with 1(1) e show ?thesis by (auto simp: adds_def carByCar_def)
  qed
next
  case (Cons sp sps)
  obtain x st1 where c: "clearCSVs env st = (x, st1)" by fastforce
  note e = clear_effect [OF env(2) Cons.prems(3) c]
  from Cons.prems(4) show ?case unfolding backfillCars.simps c
  proof (elim onwardE)
    fix y assume "Some (x, st1) = Some (Some y, st')" "r = Some y"
    with e carByCar_nothing show ?thesis by simp
  next
    fix st0 y assume 1: "Some (x, st1) = Some (None, st0)" "Some (exportCar env job loc sp st0) = Some (Some y, st')" "r = Some y"
    with e Cons.prems(1,2) have "bs_ran st' = bs_ran st0"
      by (intro exportCar_effect(1) [of env job loc sp st0 "Some y" _ specs]) (auto simp: ids)
    with 1 e carByCar_nothing show ?thesis by simp
  next
    fix st0 st2 assume 1: "Some (x, st1) = Some (None, st0)" "Some (exportCar env job loc sp st0) = Some (None, st2)"
      and 2: "(if bj_compose job = [] then Some (None, st2)
        else onward (importOne n env (bj_compose job) (bj_tz job) (vp_Name sp) st2) (backfillCars n env job loc sps)) = Some (r, st')"
    have x: "exportCar env job loc sp st0 = (None, st2)" using 1 by simp
    have "seated specs (bs_engine st0)" "sp \<in> set specs" "finite (dom (bs_dir st0))" "\<And>m. isTeslaFi m \<Longrightarrow> bs_dir st0 m = None"
      using 1 e Cons.prems(1,2) by auto
    note s = exportCar_effect [OF x this(1) ids this(2-4)]
    have ran: "bs_ran st2 = bs_ran st" using s 1 e by simp
    from 2 compose have "onward (importOne n env (bj_compose job) (bj_tz job) (vp_Name sp) st2) (backfillCars n env job loc sps) = Some (r, st')"
      by simp
    then show ?thesis
    proof (elim onwardE)
      fix y assume i: "importOne n env (bj_compose job) (bj_tz job) (vp_Name sp) st2 = Some (Some y, st')" "r = Some y"
      obtain cs where "adds (bj_tz job) 1 st2 st' cs" using importOne_adds [OF env(1) i(1)] by blast
      with carByCar_last [of cs "bs_dir st2" sp "bj_tz job" sps] s(4) ran i(2) show ?thesis by (simp add: adds_def)
    next
      fix st3 assume i: "importOne n env (bj_compose job) (bj_tz job) (vp_Name sp) st2 = Some (None, st3)"
        and b: "backfillCars n env job loc sps st3 = Some (r, st')"
      obtain seg where seg: "adds (bj_tz job) 1 st2 st3 seg" "imported (bj_tz job) seg" using importOne_adds [OF env(1) i] by blast
      have "set sps \<subseteq> set specs" "seated specs (bs_engine st3)" "finite (dom (bs_dir st3))"
        using Cons.prems(1) s(2,3) seg(1) by (simp_all add: adds_def)
      from Cons.IH [OF this b] obtain cs where cs: "bs_ran st' = bs_ran st3 @ cs" "carByCar (bj_tz job) sps (r = None) cs"
        "r = None \<longrightarrow> (\<forall>m. isTeslaFi m \<longrightarrow> bs_dir st' m = None)" by blast
      have "carByCar (bj_tz job) (sp # sps) (r = None) (seg @ cs)"
        by (rule carByCar_next [OF seg(2) _ _ cs(2), of "bs_dir st2"]) (use seg(1) s(4) in \<open>simp_all add: adds_def\<close>)
      with cs(1,3) seg(1) ran show ?thesis by (simp add: adds_def)
    qed
  qed
qed

text \<open>
  C38: with a clock that runs, a shell that leaves the import directory alone, a listing that shows all of it and
  three hundred and one rounds of fuel, a backfill with a compose command of cars with distinct ids always comes to an
  end. It goes car by car, in their order: the commands of the first cars are complete imports, TeslaMate restarted
  and in import mode, the run accepted, and the status free of errors until it says complete, and throughout each the
  directory holds the rows of that car and no others; the commands after them ask for at most one more import, of the
  next car and with its rows alone. Only when every car was imported so and TeslaMate restarted once more does the
  backfill report success, and then no recording is left behind.
\<close>

theorem imports_run_alone:
  assumes "steadyClock env" "leavesDir env" "listsAll env" and "301 \<le> fuel"
    and "bj_compose job \<noteq> []" "distinct (map vp_GUID specs)" "finite (dom d)"
  shows "\<exists>r st segs rest. generateBackfill fuel env job specs d w = Some (r, st) \<and>
     bs_ran st = concat segs @ rest \<and> length segs \<le> length specs \<and>
     (\<forall>i < length segs. imported (bj_tz job) (segs ! i) \<and>
        (\<forall>c\<in>set (segs ! i). onlyRowsOf (vp_VIN (specs ! i)) (cr_Dir c))) \<and>
     (importsIn (bj_tz job) rest \<noteq> [] \<longrightarrow> length segs < length specs \<and> length (importsIn (bj_tz job) rest) = 1 \<and>
        onlyRowsOf (vp_VIN (specs ! length segs)) (cr_Dir (hd (importsIn (bj_tz job) rest)))) \<and>
     (r = None \<longrightarrow> length segs = length specs \<and> restarted rest \<and> (\<forall>m. isTeslaFi m \<longrightarrow> bs_dir st m = None))"
proof -
  obtain r st where g: "generateBackfill fuel env job specs d w = Some (r, st)"
    using backfill_returns [OF assms(1,4), of job specs d w] by (metis not_None_eq surj_pair)
  let ?st = "\<lparr>bs_dir = d, bs_world = w, bs_engine = newEngine specs (Fin 1) 0 (be_now env w), bs_ran = []\<rparr>"
  have "carByCar (bj_tz job) specs (r = None) (bs_ran st) \<and> (r = None \<longrightarrow> (\<forall>m. isTeslaFi m \<longrightarrow> bs_dir st m = None))"
  proof (cases "be_location env (bj_tz job)")
    case None
    with g have "r \<noteq> None" "bs_ran st = []" by (auto simp: generateBackfill_def Let_def)
    then show ?thesis using carByCar_nothing by auto
  next
    case (Some loc)
    with g assms(5) have b: "backfillCars fuel env job loc specs ?st = Some (r, st)" by (simp add: generateBackfill_def Let_def)
    have "seated specs (bs_engine ?st)" "finite (dom (bs_dir ?st))" using assms(6,7) by (simp_all add: seated_new)
    from backfillCars_alone [OF assms(2,3,5,6) subset_refl this b] show ?thesis by simp
  qed
  then obtain segs rest where s: "bs_ran st = concat segs @ rest" "length segs \<le> length specs"
    "\<forall>i < length segs. imported (bj_tz job) (segs ! i) \<and> (\<forall>c\<in>set (segs ! i). onlyRowsOf (vp_VIN (specs ! i)) (cr_Dir c))"
    "importsIn (bj_tz job) rest \<noteq> [] \<longrightarrow> length segs < length specs \<and> length (importsIn (bj_tz job) rest) = 1 \<and>
        onlyRowsOf (vp_VIN (specs ! length segs)) (cr_Dir (hd (importsIn (bj_tz job) rest)))"
    "r = None \<longrightarrow> length segs = length specs \<and> restarted rest" "r = None \<longrightarrow> (\<forall>m. isTeslaFi m \<longrightarrow> bs_dir st m = None)"
    unfolding carByCar_def by blast
  show ?thesis by (rule exI [of _ r], rule exI [of _ st], rule exI [of _ segs], rule exI [of _ rest]) (use g s in simp)
qed

definition shellOk :: "int backfillEnv" where
  "shellOk = \<lparr>be_run = (\<lambda>c d w. ((''true :complete'', True), d, w)), be_sleep = (\<lambda>d w. w + d), be_now = (\<lambda>w. w),
     be_names = (\<lambda>d. sorted_list_of_set (dom d)), be_removeOk = (\<lambda>_. True), be_mkdirOk = True, be_writeOk = (\<lambda>_. True),
     be_location = (\<lambda>_. Some (\<lambda>_. 0)), be_visit = (\<lambda>_. [])\<rparr>"

definition twoCars :: "vehicleSpec list" where
  "twoCars = map (\<lambda>g. \<lparr>vp_GUID = g, vp_VIN = g @ ''VIN'', vp_Name = g, vp_Model = ''R1T'', vp_Make = []\<rparr>) [''a'', ''b'']"

definition oneDay :: backfillJob where
  "oneDay = \<lparr>bj_dur = 24 * Hour, bj_cfg = defaultCycle (Fin 10) (Fin 90) (Fin 200) (Fin 11), bj_importDir = ''import'',
     bj_tz = ''UTC'', bj_compose = ''docker compose''\<rparr>"

theorem imports_run_alone_witness:
  "\<exists>r st segs rest. generateBackfill 301 shellOk oneDay twoCars [''TeslaFi12020.csv'' \<mapsto> None] 0 = Some (r, st) \<and>
     bs_ran st = concat segs @ rest \<and> length segs \<le> 2 \<and>
     (\<forall>i < length segs. imported ''UTC'' (segs ! i) \<and> (\<forall>c\<in>set (segs ! i). onlyRowsOf (vp_VIN (twoCars ! i)) (cr_Dir c))) \<and>
     (r = None \<longrightarrow> length segs = 2 \<and> restarted rest \<and> (\<forall>m. isTeslaFi m \<longrightarrow> bs_dir st m = None))"
proof -
  have env: "steadyClock shellOk" "leavesDir shellOk" "listsAll shellOk"
    by (simp_all add: steadyClock_def leavesDir_def listsAll_def shellOk_def)
  have job: "bj_compose oneDay \<noteq> []" "bj_tz oneDay = ''UTC''" "distinct (map vp_GUID twoCars)" "length twoCars = 2"
    by (simp_all add: oneDay_def twoCars_def)
  have "301 \<le> (301 :: nat)" "finite (dom [''TeslaFi12020.csv'' \<mapsto> None])" by simp_all
  from imports_run_alone [OF env this(1) job(1,3) this(2), of 0] show ?thesis unfolding job by blast
qed

end
