(* ===== verification/Tools.thy ===== *)
theory Tools
  imports Backfill Config Service
begin

section \<open>The tools\<close>

text \<open>
  The commands that look at the program from outside: \<^verbatim>\<open>internal/cli/teslamate.go\<close> (sign TeslaMate in, wait for a
  state in its database), \<^verbatim>\<open>internal/cli/show.go\<close> (the body a protocol serves, from a server, a source or the
  simulated car) and \<^verbatim>\<open>internal/cli/inspect.go\<close> (which path of a server a verb reads). The database, the AES-GCM and
  SHA-256 libraries, HTTP and the plugins are parameters; what is printed is the result.
\<close>

subsection \<open>Signing TeslaMate in\<close>

definition cloakTag :: string where "cloakTag = ''AES.GCM.V1''"

datatype cloakError = BadKeySize | NoRandomness

text \<open>\<open>seal key iv plaintext aad\<close> is the ciphertext followed by the sixteen bytes of its tag.\<close>

definition cloakEncrypt ::
  "(string \<Rightarrow> string \<Rightarrow> string \<Rightarrow> string \<Rightarrow> string) \<Rightarrow> string option \<Rightarrow> string \<Rightarrow> string \<Rightarrow> cloakError + string" where
  "cloakEncrypt seal random key plaintext =
     (if length key \<notin> {16, 24, 32} then Inl BadKeySize
      else case random of None \<Rightarrow> Inl NoRandomness
      | Some iv \<Rightarrow>
          (let sealed = seal key iv plaintext cloakTag; n = length sealed - 16;
               ciphertext = take n sealed; ciphertag = drop n sealed
           in Inr ([CHR 0x01, char_of (length cloakTag)] @ cloakTag @ iv @ ciphertag @ ciphertext)))"

datatype 'e signInError = NoEncryptionKey | EncryptAccess cloakError | EncryptRefresh cloakError | DbConnect 'e | DbClear 'e | DbInsert 'e

datatype dbAct = DeleteTokens | InsertToken string string

record 'e authEnv =
  ae_envKey :: string
  ae_sha256 :: "string \<Rightarrow> string"
  ae_seal :: "string \<Rightarrow> string \<Rightarrow> string \<Rightarrow> string \<Rightarrow> string"
  ae_random1 :: "string option"
  ae_random2 :: "string option"
  ae_connect :: "'e option"
  ae_exec :: "dbAct \<Rightarrow> 'e option"

definition teslamateAuth :: "'e authEnv \<Rightarrow> string \<Rightarrow> string \<Rightarrow> dbAct list \<times> 'e signInError option" where
  "teslamateAuth env flagKey token =
     (let encKey = (if flagKey = [] then ae_envKey env else flagKey); value = ''qts-'' @ token; key = ae_sha256 env encKey in
      if encKey = [] then ([], Some NoEncryptionKey)
      else case cloakEncrypt (ae_seal env) (ae_random1 env) key value of Inl e \<Rightarrow> ([], Some (EncryptAccess e))
      | Inr access \<Rightarrow> (case cloakEncrypt (ae_seal env) (ae_random2 env) key value of Inl e \<Rightarrow> ([], Some (EncryptRefresh e))
      | Inr refresh \<Rightarrow> (case ae_connect env of Some e \<Rightarrow> ([], Some (DbConnect e))
      | None \<Rightarrow> (case ae_exec env DeleteTokens of Some e \<Rightarrow> ([DeleteTokens], Some (DbClear e))
      | None \<Rightarrow> ([DeleteTokens, InsertToken access refresh],
          map_option DbInsert (ae_exec env (InsertToken access refresh)))))))"

subsection \<open>Waiting for a state\<close>

text \<open>
  \<^verbatim>\<open>pollUntil\<close>: \<open>ask\<close> is the query, \<open>over\<close> whether the context ends the two seconds' pause. None is a wait that ran
  out of fuel, \<open>Inl\<close> a query's error, \<open>Inr None\<close> the context's.
\<close>

datatype 'e pollEnd = PolledTrue | PolledError 'e | PolledCancelled

fun pollUntil :: "nat \<Rightarrow> ('w \<Rightarrow> ('e + bool) \<times> 'w) \<Rightarrow> ('w \<Rightarrow> bool \<times> 'w) \<Rightarrow> 'w \<Rightarrow> ('e pollEnd \<times> 'w) option" where
  "pollUntil 0 ask over w = None"
| "pollUntil (Suc n) ask over w = (case ask w of
     (Inl e, w1) \<Rightarrow> Some (PolledError e, w1)
   | (Inr True, w1) \<Rightarrow> Some (PolledTrue, w1)
   | (Inr False, w1) \<Rightarrow> (case over w1 of (True, w2) \<Rightarrow> Some (PolledCancelled, w2) | (False, w2) \<Rightarrow> pollUntil n ask over w2))"

definition checkStates :: "string list" where
  "checkStates = [''online'', ''driving'', ''charging'', ''parked'']"

datatype 'e rowAnswer = NoRows | RowError 'e | RowID int

record ('w, 'e) checkDb =
  cd_car :: "string \<Rightarrow> 'w \<Rightarrow> 'e rowAnswer \<times> 'w"
  cd_holds :: "string \<Rightarrow> int \<Rightarrow> 'w \<Rightarrow> ('e + bool) \<times> 'w"
  cd_done :: "'w \<Rightarrow> bool \<times> 'w"

datatype 'e checkEnd = CheckOk int | UnknownExpect string | NoCar "'e pollEnd" | NeverReached "'e pollEnd"

text \<open>The car id is scanned by the query that finds the car; the world carries it to the second wait.\<close>

definition askCar :: "('w, 'e) checkDb \<Rightarrow> string \<Rightarrow> int \<times> 'w \<Rightarrow> ('e + bool) \<times> int \<times> 'w" where
  "askCar db vin iw = (let (r, w) = cd_car db vin (snd iw) in case r of
     NoRows \<Rightarrow> (Inr False, fst iw, w) | RowError e \<Rightarrow> (Inl e, fst iw, w) | RowID n \<Rightarrow> (Inr True, n, w))"

definition teslamateCheck :: "nat \<Rightarrow> ('w, 'e) checkDb \<Rightarrow> string \<Rightarrow> string \<Rightarrow> 'w \<Rightarrow> ('e checkEnd \<times> 'w) option" where
  "teslamateCheck fuel db expect vin w =
     (if expect \<notin> set checkStates then Some (UnknownExpect expect, w)
      else case pollUntil fuel (askCar db vin) (\<lambda>(n, w). let (d, w') = cd_done db w in (d, n, w')) (0, w) of
        None \<Rightarrow> None
      | Some (PolledTrue, n, w1) \<Rightarrow> (case pollUntil fuel (cd_holds db expect n) (cd_done db) w1 of
            None \<Rightarrow> None
          | Some (PolledTrue, w2) \<Rightarrow> Some (CheckOk n, w2)
          | Some (e, w2) \<Rightarrow> Some (NeverReached e, w2))
      | Some (e, n, w1) \<Rightarrow> Some (NoCar e, w1))"

subsection \<open>Showing a protocol\<close>

text \<open>\<^verbatim>\<open>singleProvider\<close> and \<^verbatim>\<open>emptyProvider\<close>.\<close>

definition singleProvider :: "identity \<Rightarrow> snapshot \<Rightarrow> provider" where
  "singleProvider ident snap = \<lparr>pv_Vehicles = [ident], pv_Latest = (\<lambda>g. if g = id_ID ident then snap else zeroSnapshot),
     pv_Stats = (\<lambda>_. zeroStats)\<rparr>"

definition emptyProvider :: provider where
  "emptyProvider = \<lparr>pv_Vehicles = [], pv_Latest = (\<lambda>_. zeroSnapshot), pv_Stats = (\<lambda>_. zeroStats)\<rparr>"

text \<open>
  A sink plugin as the command uses it: opened over a provider, whether it can be sampled, its handler, the request
  for a vehicle and what the handler answers.
\<close>

record ('q, 'e) shownSink =
  zs_sampler :: "(string \<Rightarrow> 'e + 'q) option"
  zs_handler :: "'e + ('q \<Rightarrow> int \<times> string)"

datatype 'e showError = MissingProtocol | UnknownProtocol string | ShowOpen "'e openError" | NoSampling string | ShowHandler 'e
  | ShowSample 'e | ShowStatus int string | ShowContact 'e | ShowScenario string | ShowVehicles flagError

definition renderWire ::
  "(string \<Rightarrow> provider \<Rightarrow> 'e openError + ('q, 'e) shownSink) \<Rightarrow> string \<Rightarrow> provider \<Rightarrow> string \<Rightarrow> 'e showError + string" where
  "renderWire openSink protocol prov canonID = (case openSink protocol prov of
     Inl e \<Rightarrow> Inl (ShowOpen e)
   | Inr k \<Rightarrow> (case zs_sampler k of None \<Rightarrow> Inl (NoSampling protocol)
   | Some sample \<Rightarrow> (case zs_handler k of Inl e \<Rightarrow> Inl (ShowHandler e)
   | Inr h \<Rightarrow> (case sample canonID of Inl e \<Rightarrow> Inl (ShowSample e)
   | Inr q \<Rightarrow> (let (code, out) = h q in if code \<noteq> 200 then Inl (ShowStatus code out) else Inr out)))))"

text \<open>The vehicle of the account that is shown: the one asked for if it is there, else the first.\<close>

definition pickVehicle :: "string \<Rightarrow> identity list \<Rightarrow> identity" where
  "pickVehicle vehicleID ids = (if vehicleID = [] then hd ids
     else case find (\<lambda>v. id_ID v = vehicleID) ids of Some v \<Rightarrow> v | None \<Rightarrow> hd ids)"

record 'e shownSource =
  zo_vehicles :: "'e + identity list"
  zo_poll :: "string \<Rightarrow> 'e + snapshot"

record ('q, 'e) showEnv =
  ze_sinks :: "string list"
  ze_openSink :: "string \<Rightarrow> provider \<Rightarrow> 'e openError + ('q, 'e) shownSink"
  ze_openSource :: "string \<Rightarrow> string \<Rightarrow> 'e openError + 'e shownSource"
  ze_fetch :: "string \<Rightarrow> 'q \<Rightarrow> 'e + int \<times> string"
  ze_now :: gotime

text \<open>The creds path is empty for the source's own default.\<close>

definition showFromSource :: "('q, 'e) showEnv \<Rightarrow> string \<Rightarrow> string \<Rightarrow> string \<Rightarrow> string option" where
  "showFromSource env protocol creds vehicleID = (case ze_openSource env protocol creds of
     Inl _ \<Rightarrow> None
   | Inr src \<Rightarrow> (case zo_vehicles src of
       Inl _ \<Rightarrow> None | Inr [] \<Rightarrow> None
     | Inr (v # vs) \<Rightarrow>
         (let ident = pickVehicle vehicleID (v # vs) in
          case zo_poll src (id_ID ident) of Inl _ \<Rightarrow> None
          | Inr snap \<Rightarrow> (case renderWire (ze_openSink env) protocol (singleProvider ident snap) (id_ID ident) of
              Inl _ \<Rightarrow> None | Inr out \<Rightarrow> Some out))))"

definition showFromServer :: "('q, 'e) showEnv \<Rightarrow> string \<Rightarrow> string \<Rightarrow> string \<Rightarrow> 'e showError + string" where
  "showFromServer env protocol addr vehicleID = (case ze_openSink env protocol emptyProvider of
     Inl e \<Rightarrow> Inl (ShowOpen e)
   | Inr k \<Rightarrow> (case zs_sampler k of None \<Rightarrow> Inl (NoSampling protocol)
   | Some sample \<Rightarrow> (case sample vehicleID of Inl e \<Rightarrow> Inl (ShowSample e)
   | Inr q \<Rightarrow> (case ze_fetch env addr q of Inl e \<Rightarrow> Inl (ShowContact e)
   | Inr (code, out) \<Rightarrow> if code \<noteq> 200 then Inl (ShowStatus code out) else Inr out))))"

definition showFromMock :: "('q, 'e) showEnv \<Rightarrow> string \<Rightarrow> string \<Rightarrow> string \<Rightarrow> 'e showError + string" where
  "showFromMock env protocol scenario vehicleID =
     (case parseMockVehicles ''RIV0MOCK00000001/7FCTGAAA0NN000001/Mock Vehicle/R1T'' of Inl e \<Rightarrow> Inl (ShowVehicles e)
      | Inr specs \<Rightarrow>
          (let e0 = newEngine specs (Fin 1) 0 (ze_now env);
               (ok, e) = (if scenario \<noteq> ScenarioIdle then setScenario scenario [] e0 else (True, e0));
               canon = (if vehicleID \<noteq> [] then vehicleID else case engine_Vehicles e of [] \<Rightarrow> [] | v # _ \<Rightarrow> id_ID v)
           in if \<not> ok then Inl (ShowScenario scenario)
              else renderWire (ze_openSink env) protocol (engine_Provider (ze_now env) (ze_now env) e) canon))"

definition runShow ::
  "('q, 'e) showEnv \<Rightarrow> string \<Rightarrow> string \<Rightarrow> string \<Rightarrow> string \<Rightarrow> string \<Rightarrow> 'e showError + string" where
  "runShow env protocol server creds vehicleID scenario =
     (if protocol = [] then Inl MissingProtocol
      else if protocol \<notin> set (ze_sinks env) then Inl (UnknownProtocol protocol)
      else if server \<noteq> [] then showFromServer env protocol server vehicleID
      else case showFromSource env protocol creds vehicleID of Some out \<Rightarrow> Inr out
        | None \<Rightarrow> showFromMock env protocol scenario vehicleID)"

subsection \<open>Inspecting a server\<close>

datatype 'e inspectError = UnknownVerb string | GetFailed 'e | GetStatus int string | BadStatusBody | NoVehiclesYet

definition httpGet :: "(string \<Rightarrow> 'e + int \<times> string) \<Rightarrow> string \<Rightarrow> 'e inspectError + string" where
  "httpGet fetch path = (case fetch path of Inl e \<Rightarrow> Inl (GetFailed e)
     | Inr (code, out) \<Rightarrow> if code \<noteq> 200 then Inl (GetStatus code out) else Inr out)"

text \<open>\<open>ids\<close> decodes the vehicle ids of a status body.\<close>

definition firstVehicleID :: "(string \<Rightarrow> 'e + int \<times> string) \<Rightarrow> (string \<Rightarrow> int list option) \<Rightarrow> 'e inspectError + int" where
  "firstVehicleID fetch ids = (case httpGet fetch ''/status'' of Inl e \<Rightarrow> Inl e
     | Inr out \<Rightarrow> (case ids out of None \<Rightarrow> Inl BadStatusBody | Some [] \<Rightarrow> Inl NoVehiclesYet | Some (n # _) \<Rightarrow> Inr n))"

datatype inspectView = AsJSON | AsStatusTable | AsStatsTable

definition inspectOnce ::
  "(string \<Rightarrow> 'e + int \<times> string) \<Rightarrow> (string \<Rightarrow> int list option) \<Rightarrow> string \<Rightarrow> string \<Rightarrow> int \<Rightarrow> 'e inspectError + inspectView \<times> string" where
  "inspectOnce fetch ids verb fmt n =
     (let vehicle = (\<lambda>leaf. case (if n = 0 then firstVehicleID fetch ids else Inr n) of Inl e \<Rightarrow> Inl e
            | Inr m \<Rightarrow> map_sum id (\<lambda>out. (AsJSON, out)) (httpGet fetch (''/api/1/vehicles/'' @ itoa m @ leaf)));
          table = (\<lambda>path view. map_sum id (\<lambda>out. (if fmt = ''json'' then AsJSON else view, out)) (httpGet fetch path))
      in if verb = ''status'' then table ''/status'' AsStatusTable
         else if verb = ''stats'' then table ''/stats'' AsStatsTable
         else if verb = ''cache:show'' then vehicle ''/vehicle_data''
         else if verb = ''cache:raw'' then vehicle ''/source_extras''
         else Inl (UnknownVerb verb))"

subsection \<open>What holds of them\<close>

text \<open>
  Every field of the blob is where its format says, so a reader that follows the format gets the token back if the
  library opens what it sealed.
\<close>

theorem cloak_opens:
  assumes opens: "\<And>key iv p aad. opn key iv (seal key iv p aad) aad = Some p"
    and len: "\<And>key iv p aad. length (seal key iv p aad) = length p + 16"
    and out: "cloakEncrypt seal (Some iv) key p = Inr blob" and iv: "length iv = 12"
  shows "blob ! 0 = CHR 0x01" "of_char (blob ! 1) = (10 :: nat)" "take 10 (drop 2 blob) = ''AES.GCM.V1''"
    and "opn key (take 12 (drop 12 blob)) (drop 40 blob @ take 16 (drop 24 blob)) (take 10 (drop 2 blob)) = Some p"
proof -
  have ten: "length cloakTag = 10" by (simp add: cloakTag_def)
  have b: "blob = [CHR 0x01, char_of (10 :: nat)] @ cloakTag @ iv @ drop (length p) (seal key iv p cloakTag) @ take (length p) (seal key iv p cloakTag)"
    using out len [of key iv p cloakTag] ten by (auto simp: cloakEncrypt_def Let_def split: if_splits)
  have tag: "length (drop (length p) (seal key iv p cloakTag)) = 16" using len by simp
  show "blob ! 0 = CHR 0x01" "of_char (blob ! 1) = (10 :: nat)" "take 10 (drop 2 blob) = ''AES.GCM.V1''"
    by (simp_all add: b cloakTag_def)
  moreover have "take 12 (drop 12 blob) = iv" "drop 40 blob = take (length p) (seal key iv p cloakTag)"
    "take 16 (drop 24 blob) = drop (length p) (seal key iv p cloakTag)"
    using iv tag by (simp_all add: b cloakTag_def)
  ultimately show "opn key (take 12 (drop 12 blob)) (drop 40 blob @ take 16 (drop 24 blob)) (take 10 (drop 2 blob)) = Some p"
    using opens [of key iv p cloakTag] by (simp add: cloakTag_def)
qed

text \<open>A check that succeeds found its car, and found it in the state.\<close>

lemma pollUntil_true: "pollUntil n ask over w = Some (PolledTrue, w') \<Longrightarrow> \<exists>v. ask v = (Inr True, w')"
  by (induction n ask over w rule: pollUntil.induct) (auto split: prod.splits sum.splits bool.splits)

theorem check_finds_state:
  assumes "teslamateCheck fuel db expect vin w = Some (CheckOk n, w')"
  shows "expect \<in> {''online'', ''driving'', ''charging'', ''parked''} \<and> (\<exists>v v'. cd_car db vin v = (RowID n, v')) \<and>
    (\<exists>v. cd_holds db expect n v = (Inr True, w'))"
proof -
  let ?over = "\<lambda>(n, w). let (d, w') = cd_done db w in (d, n, w')"
  have e: "expect \<in> set checkStates" using assms by (auto simp: teslamateCheck_def split: if_splits)
  with assms obtain w1 where 1: "pollUntil fuel (askCar db vin) ?over (0, w) = Some (PolledTrue, n, w1)"
    and 2: "pollUntil fuel (cd_holds db expect n) (cd_done db) w1 = Some (PolledTrue, w')"
    by (auto simp: teslamateCheck_def split: if_splits option.splits prod.splits pollEnd.splits)
  obtain v where "askCar db vin v = (Inr True, n, w1)" using pollUntil_true [OF 1] by blast
  then have "cd_car db vin (snd v) = (RowID n, w1)" by (auto simp: askCar_def split: prod.splits rowAnswer.splits)
  with pollUntil_true [OF 2] e show ?thesis by (auto simp: checkStates_def)
qed

text \<open>Showing a polled vehicle renders the snapshot that was polled, for the vehicle that was asked for.\<close>

theorem shows_what_was_polled:
  assumes "showFromSource env protocol creds vehicleID = Some out"
  shows "\<exists>src ids ident snap. ze_openSource env protocol creds = Inr src \<and> zo_vehicles src = Inr ids \<and> ident \<in> set ids \<and>
    (vehicleID \<in> id_ID ` set ids - {[]} \<longrightarrow> id_ID ident = vehicleID) \<and> zo_poll src (id_ID ident) = Inr snap \<and>
    pv_Latest (singleProvider ident snap) (id_ID ident) = snap \<and>
    renderWire (ze_openSink env) protocol (singleProvider ident snap) (id_ID ident) = Inr out"
proof -
  obtain src v vs where s: "ze_openSource env protocol creds = Inr src" "zo_vehicles src = Inr (v # vs)"
    using assms by (auto simp: showFromSource_def split: sum.splits list.splits)
  let ?ident = "pickVehicle vehicleID (v # vs)"
  obtain snap where p: "zo_poll src (id_ID ?ident) = Inr snap"
    "renderWire (ze_openSink env) protocol (singleProvider ?ident snap) (id_ID ?ident) = Inr out"
    using assms s by (auto simp: showFromSource_def Let_def split: sum.splits)
  have "?ident \<in> set (v # vs)"
    by (auto simp: pickVehicle_def find_Some_iff in_set_conv_nth split: option.split)
  moreover have "vehicleID \<in> id_ID ` set (v # vs) - {[]} \<longrightarrow> id_ID ?ident = vehicleID"
    by (auto simp: pickVehicle_def find_None_iff find_Some_iff split: option.split)
  moreover have "pv_Latest (singleProvider ?ident snap) (id_ID ?ident) = snap" by (simp add: singleProvider_def)
  ultimately show ?thesis using s p by blast
qed

end
