(* ===== verification/Spec2Isabelle.thy ===== *)
theory Spec2Isabelle
  imports GoFloat Units Vehicle Integrity Trigger Stores Merge MergeLaws MergerRun Poll Service
    Idmap Wire FleetSink FleetSource FleetLaws Strconv StreamDecode StreamDecodeLaws StreamSource
    StreamSink StreamSinkLaws FleetAdapter FleetAdapterLaws FleetServer ServerClaims CacheClaims
    PollClaims FleetClaims StreamClaims GoTime GoTimeLaws Json RivianParse RivianSink RivianClient
    RivianLaws RivianClaims TeslaFi TeslaFiLaws TeslaFiClaims
    Tokens TokenClaims Metrics MetricsClaims RestClient FleetClient FleetClientClaims
    OwnerStream OwnerStreamLaws OwnerStreamClaims Command CommandClaims
    Mock MockLaws MockCycle MockClaims Config Serve ServeClaims
    Plugins Backfill BackfillClaims Tools
begin

text \<open>
  \<^bold>\<open>A verification development for red-switchboard.\<close>

  The program reads a car through a source (a polled API, a telemetry stream), keeps one canonical
  snapshot per vehicle in a cache, and serves that snapshot again as the API other software expects
  (the Tesla Fleet API, the Tesla streaming socket, the Rivian GraphQL gateway, TeslaFi files).  A poll
  loop and the stream both write the cache; the sinks and the streaming broadcasters only read it.  A
  separate write path sends commands to a car when it is switched on.

  \<^bold>\<open>Theories and sources.\<close>

  \<^item> Prelude holds the generic lemmas, Go's fixed-width integers (int with the wrap written out),
    times as nanosecond counts with 0 for the zero time, and the hint collections.  GoFloat models
    float64 values as reals with infinities, not-a-number and explicit rounding (\<open>round64\<close>), and
    Go's conversions and comparisons.  Strconv is the printing and reading of numbers; GoTime is the
    civil calendar and the layouts of \<^verbatim>\<open>time\<close> that the source uses, GoTimeLaws its round trips; Json
    is the value \<^verbatim>\<open>encoding/json\<close> reads and writes.
  \<^item> Units and Vehicle are internal/units and internal/vehicle: conversions, enums, State, LiveSession,
    Snapshot and the bit set of streamed fields.
  \<^item> Integrity, Trigger, Stores, Merge and Service are internal/cache: the gate of a stream frame, the
    debouncers and session counters, the AsOf and replay files, the merge of polls and frames, and the
    service the rest of the program calls.  Each operation takes the record of its object and returns
    it updated; the clock is an argument.  MergeLaws and MergerRun hold the invariants of the merge and
    of runs of it; CacheClaims holds the properties.
  \<^item> Poll is internal/poll with the optional error interfaces of internal/plugin/source; PollClaims its
    properties.
  \<^item> Idmap is internal/plugin/sink/idmap.
  \<^item> Wire, FleetSink and FleetSource are the Fleet API payloads and both mappings; FleetLaws has the
    lemmas of the round trip; FleetAdapter (with FleetAdapterLaws) and FleetServer are the served vehicles,
    their translation cache and the HTTP routes.  FleetClaims and ServerClaims hold the properties.
  \<^item> StreamDecode and StreamSource are the telemetry source; StreamSink is the streaming socket (frame
    encoding, consumer slots, broadcaster, sender); StreamDecodeLaws and StreamSinkLaws hold their lemmas and
    StreamClaims the properties.
  \<^item> RivianParse, RivianSink and RivianClient are internal/protocol/rivian/graphql/poll/v1: the wrapped
    scalars and their flattening, the fake gateway, and the client with its session refresh; RivianLaws and
    RivianClaims.
  \<^item> TeslaFi is internal/protocol/teslafi/csv/v1: rows, months, files, replay; TeslaFiLaws and TeslaFiClaims.
  \<^item> Tokens is internal/protocol/tesla/auth: creds on disk, the refresh, its schedule and the callers that
    compete for it; TokenClaims.
  \<^item> RestClient is internal/transport/restclient; FleetClient is the request side of the Fleet source
    (internal/protocol/tesla/fleet/poll/v1/source.go) and of the Owner source, which differs in its host,
    its labels and its ids; FleetClientClaims.
  \<^item> OwnerStream is internal/protocol/tesla/owner/stream/v1: the decoding of a frame and the dialers that
    follow the cars; OwnerStreamLaws and OwnerStreamClaims.
  \<^item> Metrics is internal/metrics with the statistics view of internal/cli/serve.go; MetricsClaims.
  \<^item> Command is internal/protocol/tesla/command/v1: one command against the vehicle SDK, commands that
    compete for the locks of the vehicles, the routes; CommandClaims.
  \<^item> Config is internal/config and the plugin registry; Serve is \<^verbatim>\<open>runServe\<close>, the start as the sequence of
    its steps with every early return; ServeClaims.
  \<^item> Mock is internal/mock: the engine of simulated cars, the autopilot, the generated history, the control
    surface.  MockLaws has the lemmas of one car and one step, MockCycle the autopilot seen from one car,
    MockClaims the properties.
  \<^item> Plugins is what surrounds the parts: the Fleet and Owner sinks built from their settings, the streaming
    sink and the telemetry source up to the way they end, certificates and idle timeouts, the statistics of a
    stream source, the bounded shutdown.  Its own lemmas: a sampled request is served, the gap histogram is
    cumulative.
  \<^item> Backfill is internal/cli/mock.go: the mock command, the history imported car by car; BackfillClaims.
    Tools is internal/cli/teslamate.go, show.go and inspect.go.

  \<^bold>\<open>What the lemmas show.\<close>  The Laws theories hold invariants and that every operation keeps them, the
  behaviour of each operation by case, and the round trips of the codecs.  The Claims theories put them
  together: served times never go back, merges are right field by field, loops neither spin nor hammer,
  counters add up, what is written comes back, interleaved handlers keep their limits, and what must happen
  in the end does.  Where a wire cuts a reading, the round trip names what comes back (\<open>wireImage\<close> for the Fleet
  payload); what a run asked of a network, a token endpoint or a shell is read off a log of its calls
  (\<open>logged\<close>, \<open>pathLog\<close>, the exchanges of Tokens, \<open>bs_ran\<close>).

  \<^bold>\<open>Interfaces.\<close>  A locale states what one part needs of another, and each is interpreted on the model's
  own definitions: a clock that never goes back (the merger, its marks, the service), the persisted stores,
  the cache behind a poll loop, the data source of the adapter (the static test source and the adapter over
  the cache), the admission of connections (the capped listener).

  \<^bold>\<open>Conventions.\<close>  Mutexes are left out where one operation runs under one lock: an operation is then one
  step.  Where handlers interleave (consumer slots, token refreshes, commands, the events of the dialers) the
  model is a step relation or a fold over any list of events.  Where a loop ranges over a Go map, the order
  is an argument or the steps are shown not to depend on it.  Log lines are left out.  A nil pointer is
  \<open>None\<close>, a raised error a value of a sum or option type.

  \<^bold>\<open>Bounds and fuel.\<close>  The probing of the id map has fuel; with more fuel than entries it always
  answers, which is proved.  The waits of a backfill have fuel too: 301 rounds, three seconds apart, outlast the
  longest deadline of fifteen minutes, so a backfill always ends.  The wait of the database check is over when its
  context is, within whatever fuel that takes.  Floats are reals rounded after every operation; the elementary functions of
  \<^verbatim>\<open>math\<close> are the correctly rounded ones.  Conversion of a float to an integer follows amd64.  The legs of a
  simulated car end within 1638400 steps of a second or more: every step moves the charge by a point of a grid
  of doubles, so rounding cannot stall it.

  \<^bold>\<open>Parameters.\<close>  The answer of an HTTP exchange (\<open>rivianNet\<close>, \<open>teslaNet\<close>, the token endpoint), where one
  exchange is one call of the client, its own retries included (\<open>restyCalls\<close> counts its requests), the disk and the
  success of its calls, the offsets of a time zone, the backoff library (\<open>reset\<close>, \<open>nxt\<close>), protobuf
  unmarshalling and \<open>unmarshal\<close> for JSON or YAML text, the shortest formatting of a float, hexadecimal
  literals of \<^verbatim>\<open>ParseFloat\<close> (\<open>exotic\<close>), the vehicle-command SDK and what the code asks of its errors, Tesla's
  certificate check, the shell and what became of the import directory, AES-GCM and SHA-256, the database, the
  match of a router, and readings of the wall clock are arguments of the definitions that use them.

  \<^bold>\<open>Not modelled.\<close>  Sockets, TLS, the HTTP server and the Prometheus client are libraries.  JSON, CSV and YAML
  text is theirs too.  The reconnect backoff is the settings it is built
  with, its delays are the library's; the streaming doubles of the mock have no logic beside the SDK's encoder; of
  the command line, the lists of plugins, the printing of tables and the watch loop are left out.
\<close>

end
